(* ===== verification/Prelude.thy ===== *)
theory Prelude
  imports Main "HOL-Library.AList" "HOL-Library.List_Lexorder" "HOL-Library.Char_ord"
begin

text \<open>
  What every component of the development shares.

  A Python method that reads and writes the state of its object and may raise is a
  \<open>prog\<close>: a function from the state to a result (\<open>Inl\<close> the exception, \<open>Inr\<close> the value
  returned) and the state it leaves, also when it raises.  \<open>bindE\<close> is sequencing: an
  exception skips the rest and keeps the writes already made.

  The second half is the small proof library over these programs: \<open>preserves\<close> (an
  invariant survives, whatever the outcome) and \<open>triple\<close> (pre- and postcondition), with
  one rule per construct in the collections \<open>pres\<close> and \<open>trip\<close>.

  The last part holds decimal numerals and the string operations of the Python
  standard library that the modelled code calls, and the table interface that the SQLite
  tables satisfy.
\<close>

named_theorems pres "preservation rules, one per construct and operation"
named_theorems prog_defs "definitions of the program constructs"

section \<open>Programs: state passing with exceptions\<close>

type_synonym ('s, 'e, 'a) prog = "'s \<Rightarrow> ('e + 'a) \<times> 's"

definition retE :: "'a \<Rightarrow> ('s, 'e, 'a) prog" where
  [prog_defs]: "retE a = (\<lambda>s. (Inr a, s))"

definition throwE :: "'e \<Rightarrow> ('s, 'e, 'a) prog" where
  [prog_defs]: "throwE e = (\<lambda>s. (Inl e, s))"

definition bindE :: "('s, 'e, 'a) prog \<Rightarrow> ('a \<Rightarrow> ('s, 'e, 'b) prog) \<Rightarrow> ('s, 'e, 'b) prog" where
  "bindE m f = (\<lambda>s. case m s of (Inl e, t) \<Rightarrow> (Inl e, t) | (Inr a, t) \<Rightarrow> f a t)"

abbreviation thenE :: "('s, 'e, 'a) prog \<Rightarrow> ('s, 'e, 'b) prog \<Rightarrow> ('s, 'e, 'b) prog" where
  "thenE m n \<equiv> bindE m (\<lambda>_. n)"

definition getE :: "('s \<Rightarrow> 'a) \<Rightarrow> ('s, 'e, 'a) prog" where
  [prog_defs]: "getE f = (\<lambda>s. (Inr (f s), s))"

definition modifyE :: "('s \<Rightarrow> 's) \<Rightarrow> ('s, 'e, unit) prog" where
  [prog_defs]: "modifyE f = (\<lambda>s. (Inr (), f s))"

text \<open>\<open>if bad: raise e\<close>.\<close>

definition rejectE :: "bool \<Rightarrow> 'e \<Rightarrow> ('s, 'e, unit) prog" where
  [prog_defs]: "rejectE bad e = (if bad then throwE e else retE ())"

text \<open>\<open>try: m except: h\<close>, with a handler for every exception.\<close>

definition catchE :: "('s, 'e, 'a) prog \<Rightarrow> ('e \<Rightarrow> ('s, 'e, 'a) prog) \<Rightarrow> ('s, 'e, 'a) prog" where
  [prog_defs]: "catchE m h = (\<lambda>s. case m s of (Inl e, t) \<Rightarrow> h e t | (Inr a, t) \<Rightarrow> (Inr a, t))"

fun eachE :: "('b \<Rightarrow> ('s, 'e, unit) prog) \<Rightarrow> 'b list \<Rightarrow> ('s, 'e, unit) prog" where
  "eachE f [] = retE ()"
| "eachE f (x # xs) = bindE (f x) (\<lambda>_. eachE f xs)"

lemma bindE_simps [simp]:
  "m s = (Inl e, t) \<Longrightarrow> bindE m f s = (Inl e, t)"
  "m s = (Inr a, t) \<Longrightarrow> bindE m f s = f a t"
  by (simp_all add: bindE_def)

lemma bindE_run: "bindE m f s = (case m s of (Inl e, t) \<Rightarrow> (Inl e, t) | (Inr a, t) \<Rightarrow> f a t)"
  by (simp add: bindE_def)

lemma bindE_retE [simp]: "bindE (retE a) f = f a"
  by (simp add: bindE_def retE_def)

lemma bindE_throwE [simp]: "bindE (throwE e) f = throwE e"
  by (simp add: bindE_def throwE_def)

lemma retE_run [simp]: "retE a s = (Inr a, s)"
  by (simp add: retE_def)

lemma throwE_run [simp]: "throwE e s = (Inl e, s)"
  by (simp add: throwE_def)

lemma getE_run [simp]: "getE f s = (Inr (f s), s)"
  by (simp add: getE_def)

lemma modifyE_run [simp]: "modifyE f s = (Inr (), f s)"
  by (simp add: modifyE_def)

lemma rejectE_run: "rejectE b e s = (if b then Inl e else Inr (), s)"
  by (simp add: rejectE_def)

lemma rejectE_simps [simp]: "rejectE True e = throwE e" "rejectE False e = retE ()"
  by (simp_all add: rejectE_def)

text \<open>Inversion of a sequence that returned: both halves returned.\<close>

lemma bindE_InrE:
  assumes "bindE m f s = (Inr b, t)"
  obtains a u where "m s = (Inr a, u)" and "f a u = (Inr b, t)"
  using assms by (auto simp: bindE_run split: prod.splits sum.splits)

lemma bindE_cases:
  assumes "bindE m f s = (r, t)"
  obtains e where "m s = (Inl e, t)" "r = Inl e"
        | a u where "m s = (Inr a, u)" and "f a u = (r, t)"
  using assms by (auto simp: bindE_run split: prod.splits sum.splits)

lemma rejectE_InrD: "rejectE b e s = (Inr u, t) \<Longrightarrow> \<not> b \<and> t = s"
  by (auto simp: rejectE_run split: if_splits)

section \<open>Preservation of an invariant\<close>

definition preserves :: "('s \<Rightarrow> bool) \<Rightarrow> ('s, 'e, 'a) prog \<Rightarrow> bool" where
  "preserves P m \<longleftrightarrow> (\<forall>s. P s \<longrightarrow> P (snd (m s)))"

lemma preservesI: "(\<And>s. P s \<Longrightarrow> P (snd (m s))) \<Longrightarrow> preserves P m"
  by (simp add: preserves_def)

lemma preservesD: "preserves P m \<Longrightarrow> P s \<Longrightarrow> P (snd (m s))"
  by (simp add: preserves_def)

lemma preservesD_eq: "preserves P m \<Longrightarrow> m s = (r, t) \<Longrightarrow> P s \<Longrightarrow> P t"
  by (metis preservesD snd_conv)

lemma preserves_bindE [pres]:
  assumes "preserves P m" and "\<And>a. preserves P (f a)"
  shows "preserves P (bindE m f)"
proof (rule preservesI)
  fix s assume "P s"
  obtain r t where m: "m s = (r, t)" by (cases "m s")
  with assms(1) \<open>P s\<close> have "P t" by (metis preservesD_eq)
  with m assms(2) show "P (snd (bindE m f s))"
    by (cases r) (auto simp: bindE_run dest: preservesD)
qed

lemma preserves_catchE [pres]:
  assumes "preserves P m" and "\<And>e. preserves P (h e)"
  shows "preserves P (catchE m h)"
proof (rule preservesI)
  fix s assume "P s"
  obtain r t where m: "m s = (r, t)" by (cases "m s")
  with assms(1) \<open>P s\<close> have "P t" by (metis preservesD_eq)
  with m assms(2) show "P (snd (catchE m h s))"
    by (cases r) (auto simp: catchE_def dest: preservesD)
qed

lemma preserves_pure [pres]:
  "preserves P (retE a)" "preserves P (throwE e)" "preserves P (getE f)"
  "preserves P (rejectE b e)"
  by (simp_all add: preserves_def rejectE_def)

lemma preserves_if [pres]:
  "(b \<Longrightarrow> preserves P m) \<Longrightarrow> (\<not> b \<Longrightarrow> preserves P n) \<Longrightarrow> preserves P (if b then m else n)"
  by simp

lemma preserves_option [pres]:
  "(x = None \<Longrightarrow> preserves P m) \<Longrightarrow> (\<And>a. x = Some a \<Longrightarrow> preserves P (f a)) \<Longrightarrow>
   preserves P (case x of None \<Rightarrow> m | Some a \<Rightarrow> f a)"
  by (cases x) auto

lemma preserves_prod [pres]:
  "(\<And>a b. x = (a, b) \<Longrightarrow> preserves P (f a b)) \<Longrightarrow> preserves P (case x of (a, b) \<Rightarrow> f a b)"
  by (cases x) auto

lemma preserves_eachE [pres]:
  "(\<And>x. x \<in> set xs \<Longrightarrow> preserves P (f x)) \<Longrightarrow> preserves P (eachE f xs)"
  by (induction xs) (auto intro!: pres)

section \<open>Pre- and postconditions\<close>

definition triple :: "('s \<Rightarrow> bool) \<Rightarrow> ('s, 'e, 'a) prog \<Rightarrow> ('e + 'a \<Rightarrow> 's \<Rightarrow> bool) \<Rightarrow> bool" where
  "triple P m Q \<longleftrightarrow> (\<forall>s. P s \<longrightarrow> (case m s of (r, t) \<Rightarrow> Q r t))"

lemma tripleI: "(\<And>s r t. P s \<Longrightarrow> m s = (r, t) \<Longrightarrow> Q r t) \<Longrightarrow> triple P m Q"
  by (auto simp: triple_def)

lemma tripleD: "triple P m Q \<Longrightarrow> P s \<Longrightarrow> m s = (r, t) \<Longrightarrow> Q r t"
  by (fastforce simp: triple_def)

lemma triple_bindE:
  assumes "triple P m (\<lambda>r t. case r of Inl e \<Rightarrow> Q (Inl e) t | Inr a \<Rightarrow> R a t)"
    and "\<And>a. triple (R a) (f a) Q"
  shows "triple P (bindE m f) Q"
  using assms by (fastforce simp: triple_def bindE_run split: sum.splits prod.splits)

lemma triple_weaken:
  "triple P' m Q' \<Longrightarrow> (\<And>s. P s \<Longrightarrow> P' s) \<Longrightarrow> (\<And>r t. Q' r t \<Longrightarrow> Q r t) \<Longrightarrow> triple P m Q"
  by (fastforce simp: triple_def)

lemma triple_of_preserves:
  "preserves R m \<Longrightarrow> (\<And>s. P s \<Longrightarrow> R s) \<Longrightarrow> triple P m (\<lambda>_. R)"
  by (fastforce simp: triple_def preserves_def)

lemma triple_then:
  assumes "preserves P m" and "\<And>s. P s \<Longrightarrow> R s" and "\<And>a. triple P (f a) (\<lambda>_. R)"
  shows "triple P (bindE m f) (\<lambda>_. R)"
proof (rule tripleI)
  fix s r t assume "P s" and run: "bindE m f s = (r, t)"
  from run show "R t"
  proof (cases rule: bindE_cases)
    case (1 e)
    with \<open>P s\<close> assms(1,2) show ?thesis by (metis preservesD_eq)
  next
    case (2 a u)
    with \<open>P s\<close> assms(1) have "P u" by (metis preservesD_eq)
    with 2 assms(3) show ?thesis by (metis tripleD)
  qed
qed

lemma triple_snd: "triple P m (\<lambda>_. R) \<longleftrightarrow> (\<forall>s. P s \<longrightarrow> R (snd (m s)))"
  by (simp add: triple_def case_prod_beta)

lemma triple_if:
  "(b \<Longrightarrow> triple P m Q) \<Longrightarrow> (\<not> b \<Longrightarrow> triple P n Q) \<Longrightarrow> triple P (if b then m else n) Q"
  by simp

lemma triple_retE: "(\<And>s. P s \<Longrightarrow> Q (Inr a) s) \<Longrightarrow> triple P (retE a) Q"
  by (simp add: triple_def)

lemma triple_modify:
  "(\<And>s. P s \<Longrightarrow> P' (g s)) \<Longrightarrow> triple P' n Q \<Longrightarrow> triple P (bindE (modifyE g) (\<lambda>_. n)) Q"
  by (auto simp: triple_def)

section \<open>Invariants of reachable states\<close>

text \<open>
  The contract between a component and its invariant: it holds at the start and every
  operation keeps it.  Each component's state machine interprets this locale once per
  invariant it proves.
\<close>

locale invariant_system =
  fixes init :: "'s \<Rightarrow> bool" and step :: "'o \<Rightarrow> 's \<Rightarrow> 's" and inv :: "'s \<Rightarrow> bool"
  assumes inv_init: "init s \<Longrightarrow> inv s"
    and inv_step: "inv s \<Longrightarrow> inv (step x s)"
begin

lemma inv_run: "inv s \<Longrightarrow> inv (fold step xs s)"
  by (induction xs arbitrary: s) (auto intro: inv_step)

lemma inv_reachable: "init s \<Longrightarrow> inv (fold step xs s)"
  by (blast intro: inv_run inv_init)

end

section \<open>Tables\<close>

text \<open>
  A keyed table with insert-or-replace, read as a map.  The SQLite tables of the modelled
  code (\<open>INSERT ... ON CONFLICT DO UPDATE\<close>) are association lists in row order.
\<close>

locale table =
  fixes upsert :: "'k \<Rightarrow> 'v \<Rightarrow> 't \<Rightarrow> 't" and lookup :: "'t \<Rightarrow> 'k \<Rightarrow> 'v option"
    and rows :: "'t \<Rightarrow> ('k \<times> 'v) list" and ok :: "'t \<Rightarrow> bool"
  assumes lookup_upsert: "lookup (upsert k v t) j = (if j = k then Some v else lookup t j)"
    and ok_upsert: "ok t \<Longrightarrow> ok (upsert k v t)"
    and lookup_rows: "ok t \<Longrightarrow> lookup t k = Some v \<longleftrightarrow> (k, v) \<in> set (rows t)"
    and ok_keys: "ok t \<Longrightarrow> distinct (map fst (rows t))"
begin

lemma rows_upsert:
  "ok t \<Longrightarrow> set (rows (upsert k v t)) = insert (k, v) {r \<in> set (rows t). fst r \<noteq> k}"
proof -
  assume ok: "ok t"
  have "(j, w) \<in> set (rows (upsert k v t)) \<longleftrightarrow> (j, w) \<in> insert (k, v) {r \<in> set (rows t). fst r \<noteq> k}"
    for j w
    using lookup_rows [OF ok_upsert [OF ok], of k v j w] lookup_rows [OF ok, of j w]
    by (auto simp: lookup_upsert split: if_splits)
  then show ?thesis by auto
qed

end

definition distinct_keys :: "('k \<times> 'v) list \<Rightarrow> bool" where
  "distinct_keys t \<longleftrightarrow> distinct (map fst t)"

lemma distinct_keys_Nil [simp]: "distinct_keys []"
  by (simp add: distinct_keys_def)

lemma distinct_keys_update [simp]: "distinct_keys t \<Longrightarrow> distinct_keys (AList.update k v t)"
  by (simp add: distinct_keys_def distinct_update)

interpretation alist: table AList.update map_of "\<lambda>t. t" distinct_keys
proof unfold_locales
  show "map_of (AList.update k v t) j = (if j = k then Some v else map_of t j)"
    for k :: 'a and v :: 'b and t j
    by (simp add: update_conv)
  show "distinct_keys t \<Longrightarrow> distinct_keys (AList.update k v t)"
    for k :: 'a and v :: 'b and t by simp
  show "distinct_keys t \<Longrightarrow> (map_of t k = Some v) = ((k, v) \<in> set t)"
    for k :: 'a and v :: 'b and t
    by (simp add: distinct_keys_def)
  show "distinct_keys t \<Longrightarrow> distinct (map fst t)" for t :: "('a \<times> 'b) list"
    by (simp add: distinct_keys_def)
qed

section \<open>Strings of the Python standard library\<close>

text \<open>Decimal numerals: \<open>str(n)\<close> for a natural number.\<close>

fun nat_str :: "nat \<Rightarrow> string" where
  "nat_str n = (if n < 10 then [char_of (48 + n)] else nat_str (n div 10) @ [char_of (48 + n mod 10)])"

declare nat_str.simps [simp del]

definition int_str :: "int \<Rightarrow> string" where
  "int_str i = (if i < 0 then CHR ''-'' # nat_str (nat (- i)) else nat_str (nat i))"

fun str_nat :: "string \<Rightarrow> nat" where
  "str_nat s = foldl (\<lambda>a c. 10 * a + (of_char c - 48)) 0 s"

lemma str_nat_str [simp]: "str_nat (nat_str n) = n"
proof (induction n rule: nat_str.induct)
  case (1 n)
  then show ?case by (cases "n < 10") (auto simp: nat_str.simps [of n])
qed

lemma nat_str_inject [simp]: "nat_str m = nat_str n \<longleftrightarrow> m = n"
  by (metis str_nat_str)

lemma nat_str_digits: "c \<in> set (nat_str n) \<Longrightarrow> CHR ''0'' \<le> c \<and> c \<le> CHR ''9''"
proof (induction n rule: nat_str.induct)
  case (1 n)
  have dig: "d < 10 \<Longrightarrow> CHR ''0'' \<le> char_of (48 + d) \<and> char_of (48 + d) \<le> CHR ''9''" for d :: nat
    by (simp add: less_eq_char_def)
  show ?case
    using "1.prems" "1.IH" dig [of n] dig [of "n mod 10"]
    by (cases "n < 10") (auto simp: nat_str.simps [of n])
qed

text \<open>\<open>s.split(sep)\<close> for a one-character separator.\<close>

fun split_on :: "char \<Rightarrow> string \<Rightarrow> string list" where
  "split_on c [] = [[]]"
| "split_on c (x # xs) =
     (if x = c then [] # split_on c xs
      else (case split_on c xs of [] \<Rightarrow> [[x]] | y # ys \<Rightarrow> (x # y) # ys))"

lemma split_on_nonempty [simp]: "split_on c s \<noteq> []"
  by (induction s) (auto split: list.splits)

lemma split_on_none: "c \<notin> set s \<Longrightarrow> split_on c s = [s]"
  by (induction s) auto

lemma split_on_append: "c \<notin> set a \<Longrightarrow> split_on c (a @ c # b) = a # split_on c b"
  by (induction a) auto

text \<open>\<open>s.rstrip(c)\<close>, \<open>c.join(xs)\<close>, \<open>s.partition(c)\<close>.\<close>

definition rstrip :: "'a \<Rightarrow> 'a list \<Rightarrow> 'a list" where
  "rstrip c s = rev (dropWhile (\<lambda>x. x = c) (rev s))"

fun join_with :: "string \<Rightarrow> string list \<Rightarrow> string" where
  "join_with sep [] = []"
| "join_with sep [x] = x"
| "join_with sep (x # xs) = x @ sep @ join_with sep xs"

definition partition_at :: "char \<Rightarrow> string \<Rightarrow> string \<times> string \<times> string" where
  "partition_at c s =
     (if c \<in> set s then (takeWhile (\<lambda>x. x \<noteq> c) s, [c], tl (dropWhile (\<lambda>x. x \<noteq> c) s))
      else (s, [], []))"

lemma rstrip_idem [simp]: "rstrip c (rstrip c s) = rstrip c s"
proof -
  have "dropWhile P (dropWhile P xs) = dropWhile P xs" for P :: "'a \<Rightarrow> bool" and xs
    by (induction xs) auto
  then show ?thesis by (simp add: rstrip_def)
qed

text \<open>Character classes of the patterns: \<open>[0-9]\<close>, \<open>[a-z]\<close>, \<open>[A-Z]\<close>, \<open>[a-f0-9]\<close>.\<close>

definition is_digit :: "char \<Rightarrow> bool" where
  "is_digit c \<longleftrightarrow> CHR ''0'' \<le> c \<and> c \<le> CHR ''9''"

definition is_lower :: "char \<Rightarrow> bool" where
  "is_lower c \<longleftrightarrow> CHR ''a'' \<le> c \<and> c \<le> CHR ''z''"

definition is_upper :: "char \<Rightarrow> bool" where
  "is_upper c \<longleftrightarrow> CHR ''A'' \<le> c \<and> c \<le> CHR ''Z''"

definition is_hex :: "char \<Rightarrow> bool" where
  "is_hex c \<longleftrightarrow> is_digit c \<or> CHR ''a'' \<le> c \<and> c \<le> CHR ''f''"

definition is_alnum :: "char \<Rightarrow> bool" where
  "is_alnum c \<longleftrightarrow> is_digit c \<or> is_lower c \<or> is_upper c"

text \<open>A pattern \<open>^prefix[class]{lo,hi}$\<close>.\<close>

definition pat :: "string \<Rightarrow> (char \<Rightarrow> bool) \<Rightarrow> nat \<Rightarrow> nat \<Rightarrow> string \<Rightarrow> bool" where
  "pat pre cls lo hi s \<longleftrightarrow>
     take (length pre) s = pre \<and>
     (let r = drop (length pre) s in lo \<le> length r \<and> length r \<le> hi \<and> list_all cls r)"

definition starts_with :: "string \<Rightarrow> string \<Rightarrow> bool" where
  "starts_with pre s \<longleftrightarrow> take (length pre) s = pre"

end
