(* ===== verification/Assessment.thy ===== *)
theory Assessment
  imports Prelude
begin

text \<open>
  The data of the assessment lifecycle (\<open>src/aegis/multi_agent/lifecycle.py\<close>): the typed
  stages and their dependencies, the overall state machine, the records, and the durable
  ledger (\<open>LifecycleLedger\<close>), whose SQLite tables are association lists in row order.

  A \<open>world\<close> is the database, the number of committed transactions the process has left
  before it dies (\<open>None\<close>: it does not die), and the external dispatches that went out.  Every
  ledger method that writes is one transaction: it is committed as a whole, or the process
  dies before it.  A crash can therefore stop a controller call between any two writes.
  Wall-clock columns (\<open>at\<close>, \<open>created_at\<close>, \<open>updated_at\<close>) are written and never
  read by the code, and are left out.
\<close>

section \<open>Stages, states, statuses\<close>

datatype lifecycle_stage =
  AUTHORIZE | PREPARE | EXECUTE | VERIFY | REMEDIATE | RETEST | REPORT | CLEANUP

fun stage_str :: "lifecycle_stage \<Rightarrow> string" where
  "stage_str AUTHORIZE = ''AUTHORIZE''"
| "stage_str PREPARE = ''PREPARE''"
| "stage_str EXECUTE = ''EXECUTE''"
| "stage_str VERIFY = ''VERIFY''"
| "stage_str REMEDIATE = ''REMEDIATE''"
| "stage_str RETEST = ''RETEST''"
| "stage_str REPORT = ''REPORT''"
| "stage_str CLEANUP = ''CLEANUP''"

fun stage_deps :: "lifecycle_stage \<Rightarrow> lifecycle_stage list" where
  "stage_deps AUTHORIZE = []"
| "stage_deps PREPARE = [AUTHORIZE]"
| "stage_deps EXECUTE = [PREPARE]"
| "stage_deps VERIFY = [EXECUTE]"
| "stage_deps REMEDIATE = [VERIFY]"
| "stage_deps RETEST = [REMEDIATE]"
| "stage_deps REPORT = [VERIFY]"
| "stage_deps CLEANUP = []"

definition evidence_stages :: "lifecycle_stage list" where
  "evidence_stages = [EXECUTE, VERIFY, RETEST]"

datatype stage_status = PENDING | RUNNING | DONE | FAILED | SKIPPED | COMPENSATED

datatype assessment_state =
  S_CREATED | S_AUTHORIZED | S_READY | S_RUNNING | S_VERIFYING | S_REMEDIATING | S_RETESTING
| S_REPORTING | S_CLEANING_UP | S_COMPLETED | S_PARTIAL | S_FAILED | S_CANCELLED
| S_CLEANUP_FAILED

fun state_str :: "assessment_state \<Rightarrow> string" where
  "state_str S_CREATED = ''CREATED''"
| "state_str S_AUTHORIZED = ''AUTHORIZED''"
| "state_str S_READY = ''READY''"
| "state_str S_RUNNING = ''RUNNING''"
| "state_str S_VERIFYING = ''VERIFYING''"
| "state_str S_REMEDIATING = ''REMEDIATING''"
| "state_str S_RETESTING = ''RETESTING''"
| "state_str S_REPORTING = ''REPORTING''"
| "state_str S_CLEANING_UP = ''CLEANING_UP''"
| "state_str S_COMPLETED = ''COMPLETED''"
| "state_str S_PARTIAL = ''PARTIAL''"
| "state_str S_FAILED = ''FAILED''"
| "state_str S_CANCELLED = ''CANCELLED''"
| "state_str S_CLEANUP_FAILED = ''CLEANUP_FAILED''"

definition terminal_states :: "assessment_state list" where
  "terminal_states = [S_COMPLETED, S_PARTIAL, S_FAILED, S_CANCELLED, S_CLEANUP_FAILED]"

definition active_exits :: "assessment_state list" where
  "active_exits = [S_CLEANING_UP, S_CANCELLED, S_FAILED]"

fun valid_state_transitions :: "assessment_state \<Rightarrow> assessment_state list" where
  "valid_state_transitions S_CREATED = S_AUTHORIZED # active_exits"
| "valid_state_transitions S_AUTHORIZED = S_READY # active_exits"
| "valid_state_transitions S_READY = S_RUNNING # active_exits"
| "valid_state_transitions S_RUNNING = S_VERIFYING # active_exits"
| "valid_state_transitions S_VERIFYING = [S_REMEDIATING, S_REPORTING] @ active_exits"
| "valid_state_transitions S_REMEDIATING = S_RETESTING # active_exits"
| "valid_state_transitions S_RETESTING = S_REPORTING # active_exits"
| "valid_state_transitions S_REPORTING = S_CLEANING_UP # active_exits"
| "valid_state_transitions S_CLEANING_UP =
     [S_COMPLETED, S_PARTIAL, S_CANCELLED, S_CLEANUP_FAILED, S_FAILED]"
| "valid_state_transitions S_COMPLETED = []"
| "valid_state_transitions S_PARTIAL = []"
| "valid_state_transitions S_FAILED = []"
| "valid_state_transitions S_CANCELLED = []"
| "valid_state_transitions S_CLEANUP_FAILED = []"

fun stage_active_state :: "lifecycle_stage \<Rightarrow> assessment_state" where
  "stage_active_state AUTHORIZE = S_AUTHORIZED"
| "stage_active_state PREPARE = S_READY"
| "stage_active_state EXECUTE = S_RUNNING"
| "stage_active_state VERIFY = S_VERIFYING"
| "stage_active_state REMEDIATE = S_REMEDIATING"
| "stage_active_state RETEST = S_RETESTING"
| "stage_active_state REPORT = S_REPORTING"
| "stage_active_state CLEANUP = S_CLEANING_UP"

lemma terminal_no_transition:
  "s \<in> set terminal_states \<longleftrightarrow> valid_state_transitions s = []"
  by (cases s) (auto simp: terminal_states_def)

section \<open>Records\<close>

text \<open>\<open>Measured = int | Literal["UNKNOWN"]\<close>; the integers may be negative.\<close>

datatype measured = Known int | UNKNOWN

fun known :: "measured \<Rightarrow> int" where
  "known (Known n) = n"
| "known UNKNOWN = 0"

record usage_delta =
  u_calls :: measured
  u_tokens :: measured
  u_tools :: measured

definition no_usage :: usage_delta where
  "no_usage = \<lparr>u_calls = Known 0, u_tokens = Known 0, u_tools = Known 0\<rparr>"

definition is_known :: "usage_delta \<Rightarrow> bool" where
  "is_known u \<longleftrightarrow> u_calls u \<noteq> UNKNOWN \<and> u_tokens u \<noteq> UNKNOWN \<and> u_tools u \<noteq> UNKNOWN"

record stage_context =
  c_assessment_id :: string
  c_run_epoch :: int
  c_stage :: lifecycle_stage
  c_upstream_evidence :: "(string \<times> string) list"

record stage_outcome =
  o_ok :: bool
  o_produced_epoch :: int
  o_evidence :: "string option"
  o_side_effect_token :: string
  o_usage :: usage_delta
  o_detail :: string

record stage_record =
  r_assessment_id :: string
  r_stage :: lifecycle_stage
  r_status :: stage_status
  r_produced_epoch :: "int option"
  r_evidence :: "string option"
  r_side_effect_token :: string
  r_usage :: usage_delta
  r_detail :: string

text \<open>\<open>StageRecord(assessment_id=..., stage=..., status=...)\<close> with every other field at its default.\<close>

definition stage_record_of :: "string \<Rightarrow> lifecycle_stage \<Rightarrow> stage_status \<Rightarrow> stage_record" where
  "stage_record_of aid st status =
     \<lparr>r_assessment_id = aid, r_stage = st, r_status = status, r_produced_epoch = None,
      r_evidence = None, r_side_effect_token = [], r_usage = no_usage, r_detail = []\<rparr>"

datatype attempt_status = PREPARED | DISPATCHED | COMPLETED | AFAILED | SUPERSEDED

record attempt =
  a_assessment_id :: string
  a_stage :: lifecycle_stage
  a_key :: string
  a_no :: nat
  a_status :: attempt_status
  a_reconcilable :: bool
  a_paid :: bool
  a_dispatched :: bool
  a_response_persisted :: bool
  a_produced_epoch :: "int option"
  a_evidence :: "string option"
  a_side_effect_token :: string
  a_usage :: usage_delta
  a_authorized_by :: string
  a_operator_authorization :: string
  a_detail :: string

definition outcome_unknown :: "attempt \<Rightarrow> bool" where
  "outcome_unknown a \<longleftrightarrow> a_status a \<in> {DISPATCHED}"

record assessment_spec =
  sp_assessment_id :: string
  sp_campaign_id :: string
  sp_run_epoch :: int
  sp_required_stages :: "lifecycle_stage list"
  sp_cumulative_calls :: int
  sp_cumulative_tokens :: int
  sp_per_stage_calls :: int
  sp_per_stage_tokens :: int
  sp_authorization_reference :: string
  sp_lease_expires_at :: int
  sp_activation_required :: "string list"

text \<open>The field bounds of \<open>AssessmentSpec\<close> that the lemmas need.\<close>

definition spec_ok :: "assessment_spec \<Rightarrow> bool" where
  "spec_ok sp \<longleftrightarrow>
     1 \<le> sp_run_epoch sp \<and> sp_required_stages sp \<noteq> [] \<and> length (sp_required_stages sp) \<le> 8 \<and>
     0 \<le> sp_cumulative_calls sp \<and> sp_cumulative_calls sp \<le> 100 \<and>
     0 \<le> sp_cumulative_tokens sp \<and> sp_cumulative_tokens sp \<le> 1000000 \<and>
     0 \<le> sp_per_stage_calls sp \<and> sp_per_stage_calls sp \<le> 100 \<and>
     0 \<le> sp_per_stage_tokens sp \<and> sp_per_stage_tokens sp \<le> 1000000"

record cleanup_entry =
  e_obligation :: string
  e_compensated :: bool
  e_detail :: string

record manifest =
  m_assessment_id :: string
  m_campaign_id :: string
  m_run_epoch :: int
  m_stage_records :: "stage_record list"
  m_cleanup :: "cleanup_entry list"
  m_calls :: int
  m_tokens :: int
  m_tools :: int
  m_usage_complete :: bool

record verdict =
  v_assessment_id :: string
  v_final_state :: assessment_state
  v_required_complete :: bool
  v_cleanup_succeeded :: bool
  v_usage_complete :: bool
  v_calls :: measured
  v_tokens :: measured
  v_manifest_sha256 :: string
  v_summary :: string

section \<open>Failures\<close>

datatype lifecycle_error =
  LifecycleError string
| LifecycleStateError string
| LifecycleBudgetError string
| LifecycleLeaseExpired string
| LifecycleCancelled string
| LifecycleFreshnessError string
| LifecycleUnreconciledEffect string
| LifecycleReissueNotAuthorized string
| ValidationError string  \<comment> \<open>pydantic refuses a constructor argument\<close>
| ExecutorRaised          \<comment> \<open>the executor or dispatcher raised, or the process died inside it\<close>
| ProcessDied             \<comment> \<open>the process died before this transaction\<close>

section \<open>The durable ledger\<close>

record assessment_row =
  ar_state :: assessment_state
  ar_cancel :: bool
  ar_spec :: assessment_spec

record transition_row =
  t_assessment_id :: string
  t_from :: "assessment_state option"  \<comment> \<open>\<open>None\<close> is the text NONE of the first row\<close>
  t_to :: assessment_state
  t_reason :: string

record audit_row =
  au_assessment_id :: string
  au_actor :: string
  au_event :: string
  au_summary :: string

record database =
  assessments :: "(string \<times> assessment_row) list"
  stages :: "((string \<times> lifecycle_stage) \<times> stage_record) list"
  transitions :: "transition_row list"
  cleanups :: "((string \<times> string) \<times> cleanup_entry) list"
  audits :: "audit_row list"
  attempts :: "((string \<times> lifecycle_stage \<times> string) \<times> attempt) list"

definition empty_db :: database where
  "empty_db = \<lparr>assessments = [], stages = [], transitions = [], cleanups = [], audits = [],
     attempts = []\<rparr>"

record world =
  db :: database
  writes_left :: "nat option"
  dispatches :: "(string \<times> lifecycle_stage \<times> string) list"

type_synonym 'a lc = "(world, lifecycle_error, 'a) prog"

definition commit :: "(database \<Rightarrow> database) \<Rightarrow> unit lc" where
  "commit f = (\<lambda>w. case writes_left w of
     Some 0 \<Rightarrow> (Inl ProcessDied, w)
   | Some (Suc n) \<Rightarrow> (Inr (), w\<lparr>db := f (db w), writes_left := Some n\<rparr>)
   | None \<Rightarrow> (Inr (), w\<lparr>db := f (db w)\<rparr>))"

definition reads :: "(database \<Rightarrow> 'a) \<Rightarrow> 'a lc" where
  "reads f = getE (\<lambda>w. f (db w))"

text \<open>\<open>_audit\<close> and \<open>_record_transition\<close>: rows appended inside a transaction.\<close>

definition audit_db :: "string \<Rightarrow> string \<Rightarrow> string \<Rightarrow> string \<Rightarrow> database \<Rightarrow> database" where
  "audit_db aid actor event summary d =
     d\<lparr>audits := audits d @ [\<lparr>au_assessment_id = aid, au_actor = actor, au_event = event,
        au_summary = take 300 summary\<rparr>]\<rparr>"

definition transition_db ::
  "string \<Rightarrow> assessment_state option \<Rightarrow> assessment_state \<Rightarrow> string \<Rightarrow> database \<Rightarrow> database" where
  "transition_db aid from to reason d =
     d\<lparr>transitions := transitions d @ [\<lparr>t_assessment_id = aid, t_from = from, t_to = to,
        t_reason = reason\<rparr>]\<rparr>"

definition create_db :: "assessment_spec \<Rightarrow> database \<Rightarrow> database" where
  "create_db sp d =
     audit_db (sp_assessment_id sp) ''CONTROLLER'' ''CREATED'' ''assessment''
     (transition_db (sp_assessment_id sp) None S_CREATED ''created''
     (d\<lparr>assessments := assessments d @ [(sp_assessment_id sp,
          \<lparr>ar_state = S_CREATED, ar_cancel = False, ar_spec = sp\<rparr>)]\<rparr>))"

definition create :: "assessment_spec \<Rightarrow> unit lc" where
  "create sp =
     bindE (reads (\<lambda>d. map_of (assessments d) (sp_assessment_id sp))) (\<lambda>old.
     thenE (rejectE (old \<noteq> None) (LifecycleError ''ASSESSMENT_ALREADY_EXISTS''))
     (commit (create_db sp)))"

definition get_spec :: "string \<Rightarrow> assessment_spec option lc" where
  "get_spec aid = reads (\<lambda>d. map_option ar_spec (map_of (assessments d) aid))"

definition get_state :: "string \<Rightarrow> assessment_state lc" where
  "get_state aid =
     bindE (reads (\<lambda>d. map_of (assessments d) aid)) (\<lambda>row.
     case row of None \<Rightarrow> throwE (LifecycleError ''ASSESSMENT_NOT_FOUND'')
     | Some r \<Rightarrow> retE (ar_state r))"

definition cancel_requested :: "string \<Rightarrow> bool lc" where
  "cancel_requested aid =
     bindE (reads (\<lambda>d. map_of (assessments d) aid)) (\<lambda>row.
     case row of None \<Rightarrow> throwE (LifecycleError ''ASSESSMENT_NOT_FOUND'')
     | Some r \<Rightarrow> retE (ar_cancel r))"

text \<open>\<open>UPDATE ... WHERE assessment_id = ?\<close>: no row, no effect; the audit row is written anyway.\<close>

definition update_row :: "string \<Rightarrow> (assessment_row \<Rightarrow> assessment_row) \<Rightarrow> database \<Rightarrow> database" where
  "update_row aid f d =
     d\<lparr>assessments := map (\<lambda>(i, r). if i = aid then (i, f r) else (i, r)) (assessments d)\<rparr>"

definition cancel_db :: "string \<Rightarrow> database \<Rightarrow> database" where
  "cancel_db aid d =
     audit_db aid ''CONTROLLER'' ''CANCEL_REQUESTED'' ''operator''
       (update_row aid (\<lambda>r. r\<lparr>ar_cancel := True\<rparr>) d)"

definition request_cancel :: "string \<Rightarrow> unit lc" where
  "request_cancel aid = commit (cancel_db aid)"

definition assert_state_transition :: "assessment_state \<Rightarrow> assessment_state \<Rightarrow> unit lc" where
  "assert_state_transition current new =
     rejectE (new \<notin> set (valid_state_transitions current))
       (LifecycleStateError (''ILLEGAL_STATE_'' @ state_str current @ ''_TO_'' @ state_str new))"

definition move_state ::
  "string \<Rightarrow> assessment_state \<Rightarrow> assessment_state \<Rightarrow> string \<Rightarrow> database \<Rightarrow> database" where
  "move_state aid current new reason d =
     transition_db aid (Some current) new (take 200 reason)
       (update_row aid (\<lambda>r. r\<lparr>ar_state := new\<rparr>) d)"

definition set_state :: "string \<Rightarrow> assessment_state \<Rightarrow> string \<Rightarrow> unit lc" where
  "set_state aid new reason =
     bindE (get_state aid) (\<lambda>current.
     if current = new then retE ()
     else thenE (assert_state_transition current new)
       (commit (move_state aid current new reason)))"

definition put_stage :: "stage_record \<Rightarrow> database \<Rightarrow> database" where
  "put_stage r d = d\<lparr>stages := AList.update (r_assessment_id r, r_stage r) r (stages d)\<rparr>"

definition upsert_stage :: "stage_record \<Rightarrow> unit lc" where
  "upsert_stage r = commit (put_stage r)"

definition get_stage :: "string \<Rightarrow> lifecycle_stage \<Rightarrow> stage_record option lc" where
  "get_stage aid st = reads (\<lambda>d. map_of (stages d) (aid, st))"

definition stages_of :: "string \<Rightarrow> database \<Rightarrow> stage_record list" where
  "stages_of aid d = map snd (filter (\<lambda>((i, _), _). i = aid) (stages d))"

definition all_stages :: "string \<Rightarrow> stage_record list lc" where
  "all_stages aid = reads (stages_of aid)"

definition put_attempt :: "attempt \<Rightarrow> database \<Rightarrow> database" where
  "put_attempt a d =
     d\<lparr>attempts := AList.update (a_assessment_id a, a_stage a, a_key a) a (attempts d)\<rparr>"

definition upsert_attempt :: "attempt \<Rightarrow> unit lc" where
  "upsert_attempt a = commit (put_attempt a)"

definition get_attempt :: "string \<Rightarrow> lifecycle_stage \<Rightarrow> string \<Rightarrow> attempt option lc" where
  "get_attempt aid st key = reads (\<lambda>d. map_of (attempts d) (aid, st, key))"

definition attempts_of :: "string \<Rightarrow> lifecycle_stage \<Rightarrow> database \<Rightarrow> attempt list" where
  "attempts_of aid st d =
     sort_key a_no (map snd (filter (\<lambda>((i, s, _), _). i = aid \<and> s = st) (attempts d)))"

definition attempts_for :: "string \<Rightarrow> lifecycle_stage \<Rightarrow> attempt list lc" where
  "attempts_for aid st = reads (attempts_of aid st)"

definition all_attempts :: "string \<Rightarrow> attempt list lc" where
  "all_attempts aid = reads (\<lambda>d.
     sort_key (\<lambda>a. stage_str (a_stage a)) (sort_key a_no
       (map snd (filter (\<lambda>((i, _, _), _). i = aid) (attempts d)))))"

definition put_cleanup :: "string \<Rightarrow> cleanup_entry \<Rightarrow> database \<Rightarrow> database" where
  "put_cleanup aid e d = d\<lparr>cleanups := AList.update (aid, e_obligation e) e (cleanups d)\<rparr>"

definition upsert_cleanup :: "string \<Rightarrow> cleanup_entry \<Rightarrow> unit lc" where
  "upsert_cleanup aid e = commit (put_cleanup aid e)"

definition cleanup_entries :: "string \<Rightarrow> cleanup_entry list lc" where
  "cleanup_entries aid = reads (\<lambda>d.
     sort_key e_obligation (map snd (filter (\<lambda>((i, _), _). i = aid) (cleanups d))))"

definition audit :: "string \<Rightarrow> string \<Rightarrow> string \<Rightarrow> string \<Rightarrow> unit lc" where
  "audit aid actor event summary = commit (audit_db aid actor event summary)"

definition audit_trail :: "string \<Rightarrow> audit_row list lc" where
  "audit_trail aid = reads (\<lambda>d. filter (\<lambda>a. au_assessment_id a = aid) (audits d))"

end
