(* ===== verification/Controller.thy ===== *)
theory Controller
  imports Assessment
begin

text \<open>
  The operations of \<open>AssessmentLifecycleController\<close>
  (\<open>src/aegis/multi_agent/lifecycle.py\<close>), one definition per method, as programs over the
  ledger.  \<open>run_external_stage\<close> is split at the blank lines of its body into replaying a
  completed attempt, settling an unknown one, and opening a fresh one.

  Executors, dispatchers, reconcilers and compensators are the caller's callables: arguments,
  with the outer \<open>None\<close> for a call that raises (or in which the process dies).
\<close>

type_synonym executor = "stage_context \<Rightarrow> stage_outcome option"
type_synonym dispatcher = "stage_context \<Rightarrow> string \<Rightarrow> stage_outcome option"
type_synonym reconciler = "string \<Rightarrow> stage_outcome option option"
type_synonym compensator = "string \<Rightarrow> bool option"

definition or_else :: "string \<Rightarrow> string \<Rightarrow> string" where
  "or_else s t = (if s = [] then t else s)"

section \<open>Guards\<close>

definition the_spec :: "string \<Rightarrow> assessment_spec lc" where
  "the_spec aid =
     bindE (get_spec aid) (\<lambda>sp.
     case sp of None \<Rightarrow> throwE (LifecycleError ''ASSESSMENT_NOT_FOUND'') | Some s \<Rightarrow> retE s)"

definition dep_done :: "string \<Rightarrow> lifecycle_stage \<Rightarrow> unit lc" where
  "dep_done aid dep =
     bindE (get_stage aid dep) (\<lambda>r.
     rejectE (case r of None \<Rightarrow> True | Some r \<Rightarrow> r_status r \<noteq> DONE)
       (LifecycleError (''STAGE_DEP_NOT_DONE_'' @ stage_str dep)))"

definition preflight :: "string \<Rightarrow> lifecycle_stage \<Rightarrow> int \<Rightarrow> assessment_spec lc" where
  "preflight aid st now =
     bindE (the_spec aid) (\<lambda>spec.
     bindE (get_state aid) (\<lambda>state.
     thenE (rejectE (state \<in> set terminal_states)
              (LifecycleError (''ASSESSMENT_TERMINAL_'' @ state_str state)))
     (bindE (cancel_requested aid) (\<lambda>cancelled.
     thenE (rejectE cancelled (LifecycleCancelled ''CANCEL_REQUESTED''))
     (if sp_lease_expires_at spec \<le> now then
        thenE (audit aid ''CONTROLLER'' ''LEASE_EXPIRED'' (stage_str st))
          (throwE (LifecycleLeaseExpired ''LEASE_EXPIRED''))
      else
        thenE (eachE (dep_done aid) (stage_deps st))
          (retE spec))))))"

section \<open>Control stages\<close>

definition commit_control_stage ::
  "string \<Rightarrow> lifecycle_stage \<Rightarrow> int \<Rightarrow> string \<Rightarrow> stage_record lc" where
  "commit_control_stage aid st epoch reason =
     bindE (get_stage aid st) (\<lambda>existing.
     if (case existing of None \<Rightarrow> False | Some r \<Rightarrow> r_status r = DONE) then retE (the existing)
     else
       thenE (set_state aid (stage_active_state st) reason)
       (let record = (stage_record_of aid st DONE)\<lparr>r_produced_epoch := Some epoch\<rparr> in
        thenE (upsert_stage record)
        (thenE (audit aid ''CONTROLLER'' (''STAGE_'' @ stage_str st @ ''_DONE'') reason)
        (retE record))))"

definition authorize_assessment :: "string \<Rightarrow> string \<Rightarrow> int \<Rightarrow> stage_record lc" where
  "authorize_assessment aid reference now =
     bindE (the_spec aid) (\<lambda>spec.
     thenE (rejectE (reference \<noteq> sp_authorization_reference spec)
              (LifecycleError ''AUTHORIZATION_REFERENCE_MISMATCH''))
     (thenE (rejectE (sp_lease_expires_at spec \<le> now) (LifecycleLeaseExpired ''LEASE_EXPIRED''))
     (commit_control_stage aid AUTHORIZE (sp_run_epoch spec) ''controller authorized'')))"

definition mark_ready :: "string \<Rightarrow> string list \<Rightarrow> int \<Rightarrow> stage_record lc" where
  "mark_ready aid activated now =
     bindE (preflight aid PREPARE now) (\<lambda>spec.
     let missing = filter (\<lambda>c. c \<notin> set activated) (sp_activation_required spec) in
     thenE (rejectE (missing \<noteq> [])
              (LifecycleError (''CAPABILITY_NOT_ACTIVATED:'' @ join_with '','' (sort missing))))
     (commit_control_stage aid PREPARE (sp_run_epoch spec) ''capabilities activated; ready''))"

section \<open>Freshness, failure, budget\<close>

fun upstream_from ::
  "string \<Rightarrow> assessment_spec \<Rightarrow> lifecycle_stage list \<Rightarrow> (string \<times> string) list
    \<Rightarrow> (string \<times> string) list lc" where
  "upstream_from aid spec [] acc = retE acc"
| "upstream_from aid spec (dep # deps) acc =
     bindE (get_stage aid dep) (\<lambda>r.
     case r of
       None \<Rightarrow> throwE (LifecycleError (''STAGE_DEP_MISSING_'' @ stage_str dep))
     | Some r \<Rightarrow>
         if dep \<in> set evidence_stages then
           thenE (rejectE (r_produced_epoch r \<noteq> Some (sp_run_epoch spec))
                    (LifecycleFreshnessError (''STALE_UPSTREAM_EVIDENCE_'' @ stage_str dep)))
             (upstream_from aid spec deps
                (case r_evidence r of None \<Rightarrow> acc | Some e \<Rightarrow> acc @ [(stage_str dep, e)]))
         else upstream_from aid spec deps acc)"

definition upstream_evidence ::
  "string \<Rightarrow> lifecycle_stage \<Rightarrow> assessment_spec \<Rightarrow> (string \<times> string) list lc" where
  "upstream_evidence aid st spec = upstream_from aid spec (stage_deps st) []"

definition fail_stage :: "string \<Rightarrow> lifecycle_stage \<Rightarrow> string \<Rightarrow> unit lc" where
  "fail_stage aid st detail =
     thenE (upsert_stage ((stage_record_of aid st FAILED)\<lparr>r_detail := take 300 detail\<rparr>))
     (audit aid ''CONTROLLER'' (''STAGE_'' @ stage_str st @ ''_FAILED'') detail)"

fun usage_step :: "int \<times> int \<times> int \<times> bool \<Rightarrow> stage_record \<Rightarrow> int \<times> int \<times> int \<times> bool" where
  "usage_step (calls, tokens, tools, complete) r =
     (if r_status r \<noteq> DONE then (calls, tokens, tools, complete)
      else if \<not> is_known (r_usage r) then (calls, tokens, tools, False)
      else (calls + known (u_calls (r_usage r)), tokens + known (u_tokens (r_usage r)),
            tools + known (u_tools (r_usage r)), complete))"

definition usage_of :: "stage_record list \<Rightarrow> int \<times> int \<times> int \<times> bool" where
  "usage_of rs = foldl usage_step (0, 0, 0, True) rs"

definition aggregate_usage :: "string \<Rightarrow> (int \<times> int \<times> int \<times> bool) lc" where
  "aggregate_usage aid = bindE (all_stages aid) (\<lambda>rs. retE (usage_of rs))"

definition check_budget ::
  "string \<Rightarrow> assessment_spec \<Rightarrow> usage_delta \<Rightarrow> lifecycle_stage \<Rightarrow> unit lc" where
  "check_budget aid spec delta st =
     thenE (rejectE (sp_per_stage_calls spec < known (u_calls delta))
              (LifecycleBudgetError (''PER_STAGE_CALL_BUDGET_'' @ stage_str st)))
     (thenE (rejectE (sp_per_stage_tokens spec < known (u_tokens delta))
              (LifecycleBudgetError (''PER_STAGE_TOKEN_BUDGET_'' @ stage_str st)))
     (bindE (aggregate_usage aid) (\<lambda>(calls, tokens, _, complete).
     thenE (rejectE (\<not> complete) (LifecycleBudgetError ''CUMULATIVE_USAGE_INCOMPLETE''))
     (thenE (rejectE (sp_cumulative_calls spec < calls + known (u_calls delta))
              (LifecycleBudgetError ''CUMULATIVE_CALL_BUDGET''))
     (rejectE (sp_cumulative_tokens spec < tokens + known (u_tokens delta))
              (LifecycleBudgetError ''CUMULATIVE_TOKEN_BUDGET''))))))"

text \<open>The shared tail of both ways to finish a stage: budget, then the DONE row with its usage.\<close>

definition charge_and_commit ::
  "string \<Rightarrow> lifecycle_stage \<Rightarrow> assessment_spec \<Rightarrow> stage_record \<Rightarrow> stage_record lc" where
  "charge_and_commit aid st spec record =
     thenE (check_budget aid spec (r_usage record) st)
     (thenE (upsert_stage record)
     (thenE (audit aid ''CONTROLLER'' (''STAGE_'' @ stage_str st @ ''_DONE'')
              (or_else (r_detail record) (stage_str st)))
     (retE record)))"

section \<open>Running a stage\<close>

definition context_of ::
  "string \<Rightarrow> lifecycle_stage \<Rightarrow> assessment_spec \<Rightarrow> (string \<times> string) list \<Rightarrow> stage_context" where
  "context_of aid st spec upstream =
     \<lparr>c_assessment_id = aid, c_run_epoch = sp_run_epoch spec, c_stage = st,
      c_upstream_evidence = upstream\<rparr>"

text \<open>What \<open>run_stage\<close> does with the outcome of its executor.\<close>

definition record_outcome ::
  "string \<Rightarrow> lifecycle_stage \<Rightarrow> assessment_spec \<Rightarrow> stage_outcome \<Rightarrow> stage_record lc" where
  "record_outcome aid st spec out =
     (if o_produced_epoch out \<noteq> sp_run_epoch spec then
        thenE (fail_stage aid st ''HISTORICAL_ARTIFACT_REUSE'')
          (throwE (LifecycleFreshnessError ''HISTORICAL_ARTIFACT_REUSE''))
      else if \<not> o_ok out then
        thenE (fail_stage aid st (or_else (o_detail out) ''stage failed''))
          (retE ((stage_record_of aid st FAILED)
             \<lparr>r_produced_epoch := Some (o_produced_epoch out), r_detail := o_detail out\<rparr>))
      else if \<not> is_known (o_usage out) then
        thenE (fail_stage aid st ''BUDGET_UNVERIFIABLE_UNKNOWN_USAGE'')
          (throwE (LifecycleBudgetError ''BUDGET_UNVERIFIABLE_UNKNOWN_USAGE''))
      else
        charge_and_commit aid st spec
          \<lparr>r_assessment_id = aid, r_stage = st, r_status = DONE,
           r_produced_epoch = Some (o_produced_epoch out), r_evidence = o_evidence out,
           r_side_effect_token = o_side_effect_token out, r_usage = o_usage out,
           r_detail = o_detail out\<rparr>)"

definition run_stage ::
  "string \<Rightarrow> lifecycle_stage \<Rightarrow> executor \<Rightarrow> int \<Rightarrow> stage_record lc" where
  "run_stage aid st exec now =
     bindE (preflight aid st now) (\<lambda>spec.
     bindE (get_stage aid st) (\<lambda>existing.
     if (case existing of None \<Rightarrow> False | Some r \<Rightarrow> r_status r = DONE) then retE (the existing)
     else
       bindE (upstream_evidence aid st spec) (\<lambda>upstream.
       thenE (set_state aid (stage_active_state st) (''running '' @ stage_str st))
       (thenE (upsert_stage (stage_record_of aid st RUNNING))
       (case exec (context_of aid st spec upstream) of
          None \<Rightarrow> throwE ExecutorRaised
        | Some out \<Rightarrow> record_outcome aid st spec out)))))"

section \<open>Running an external-effect stage\<close>

record external_call =
  x_key :: string
  x_reconcilable :: bool
  x_reconcile :: "reconciler option"
  x_paid :: bool
  x_new_attempt :: string
  x_operator :: string

definition commit_stage_done ::
  "string \<Rightarrow> lifecycle_stage \<Rightarrow> assessment_spec \<Rightarrow> attempt \<Rightarrow> stage_record lc" where
  "commit_stage_done aid st spec a =
     (if a_produced_epoch a \<noteq> Some (sp_run_epoch spec) then
        thenE (fail_stage aid st ''HISTORICAL_ARTIFACT_REUSE'')
          (throwE (LifecycleFreshnessError ''HISTORICAL_ARTIFACT_REUSE''))
      else if \<not> is_known (a_usage a) then
        thenE (fail_stage aid st ''BUDGET_UNVERIFIABLE_UNKNOWN_USAGE'')
          (throwE (LifecycleBudgetError ''BUDGET_UNVERIFIABLE_UNKNOWN_USAGE''))
      else
        charge_and_commit aid st spec
          \<lparr>r_assessment_id = aid, r_stage = st, r_status = DONE,
           r_produced_epoch = a_produced_epoch a, r_evidence = a_evidence a,
           r_side_effect_token = a_side_effect_token a, r_usage = a_usage a,
           r_detail = a_detail a\<rparr>)"

definition replay_completed ::
  "string \<Rightarrow> lifecycle_stage \<Rightarrow> assessment_spec \<Rightarrow> attempt \<Rightarrow> stage_record lc" where
  "replay_completed aid st spec a =
     thenE (audit aid ''CONTROLLER'' (''STAGE_'' @ stage_str st @ ''_RESUMED'')
        (''replayed completed attempt '' @ a_key a @ '' (no re-dispatch)''))
     (commit_stage_done aid st spec a)"

definition adopted_attempt :: "attempt \<Rightarrow> stage_outcome \<Rightarrow> attempt" where
  "adopted_attempt a out =
     a\<lparr>a_status := COMPLETED, a_response_persisted := True,
       a_produced_epoch := Some (o_produced_epoch out), a_evidence := o_evidence out,
       a_side_effect_token := o_side_effect_token out, a_usage := o_usage out,
       a_detail := ''reconciled at broker (idempotency key already completed)''\<rparr>"

definition reconcile_unknown ::
  "string \<Rightarrow> lifecycle_stage \<Rightarrow> assessment_spec \<Rightarrow> external_call \<Rightarrow> attempt
    \<Rightarrow> stage_record option lc" where
  "reconcile_unknown aid st spec x latest =
     (if x_reconcilable x \<and> a_reconcilable latest then
        case x_reconcile x of
          None \<Rightarrow> retE None
        | Some reconcile \<Rightarrow>
            (case reconcile (a_key latest) of
               None \<Rightarrow> throwE ExecutorRaised
             | Some None \<Rightarrow> retE None
             | Some (Some out) \<Rightarrow>
                 let adopted = adopted_attempt latest out in
                 thenE (upsert_attempt adopted)
                 (thenE (audit aid ''CONTROLLER'' (''STAGE_'' @ stage_str st @ ''_RECONCILED'')
                    (''broker confirmed idempotency key '' @ a_key latest))
                 (bindE (commit_stage_done aid st spec adopted) (\<lambda>r. retE (Some r)))))
      else retE None)"

definition supersede :: "attempt \<Rightarrow> unit lc" where
  "supersede a = upsert_attempt (a\<lparr>a_status := SUPERSEDED\<rparr>)"

definition reissue_guard ::
  "string \<Rightarrow> lifecycle_stage \<Rightarrow> external_call \<Rightarrow> attempt list \<Rightarrow> unit lc" where
  "reissue_guard aid st x unknown =
     (let latest = last unknown in
      if x_new_attempt x = [] then
        thenE (audit aid ''CONTROLLER'' (''STAGE_'' @ stage_str st @ ''_UNRECONCILED'')
          (''unknown external effect for key '' @ a_key latest @ ''; not auto-reissued''))
        (throwE (LifecycleUnreconciledEffect
          (''UNRECONCILED_EXTERNAL_EFFECT_'' @ stage_str st @ '':'' @ a_key latest)))
      else
        thenE (rejectE ((x_paid x \<or> a_paid latest) \<and> x_operator x = [])
          (LifecycleReissueNotAuthorized
            (''PAID_REISSUE_REQUIRES_OPERATOR_AUTHORIZATION_'' @ stage_str st)))
        (thenE (eachE supersede unknown)
        (audit aid ''CONTROLLER'' (''STAGE_'' @ stage_str st @ ''_REISSUE_AUTHORIZED'')
          (''new attempt authorized_by='' @ take 60 (x_new_attempt x) @ '' operator='' @
           take 60 (x_operator x)))))"

definition settle_unknown ::
  "string \<Rightarrow> lifecycle_stage \<Rightarrow> assessment_spec \<Rightarrow> external_call \<Rightarrow> attempt list
    \<Rightarrow> stage_record option lc" where
  "settle_unknown aid st spec x atts =
     (let unknown = filter outcome_unknown atts in
      if unknown = [] then retE None
      else
        bindE (reconcile_unknown aid st spec x (last unknown)) (\<lambda>adopted.
        case adopted of
          Some r \<Rightarrow> retE (Some r)
        | None \<Rightarrow> thenE (reissue_guard aid st x unknown) (retE None)))"

definition effective_key :: "string \<Rightarrow> nat \<Rightarrow> string" where
  "effective_key key n = (if n = 1 then key else key @ ''#'' @ nat_str n)"

definition fresh_attempt :: "string \<Rightarrow> lifecycle_stage \<Rightarrow> external_call \<Rightarrow> nat \<Rightarrow> attempt" where
  "fresh_attempt aid st x n =
     \<lparr>a_assessment_id = aid, a_stage = st, a_key = effective_key (x_key x) n, a_no = n,
      a_status = PREPARED, a_reconcilable = x_reconcilable x, a_paid = x_paid x,
      a_dispatched = False, a_response_persisted = False, a_produced_epoch = None,
      a_evidence = None, a_side_effect_token = [], a_usage = no_usage,
      a_authorized_by = x_new_attempt x, a_operator_authorization = x_operator x,
      a_detail = []\<rparr>"

text \<open>The length bounds of \<open>ExternalStageAttempt\<close>: a key with its suffix may exceed them.\<close>

definition attempt_valid :: "attempt \<Rightarrow> bool" where
  "attempt_valid a \<longleftrightarrow>
     1 \<le> length (a_key a) \<and> length (a_key a) \<le> 200 \<and> 1 \<le> a_no a \<and>
     length (a_authorized_by a) \<le> 200 \<and> length (a_operator_authorization a) \<le> 200"

definition emit :: "string \<Rightarrow> lifecycle_stage \<Rightarrow> string \<Rightarrow> unit lc" where
  "emit aid st key = modifyE (\<lambda>w. w\<lparr>dispatches := dispatches w @ [(aid, st, key)]\<rparr>)"

definition record_response ::
  "string \<Rightarrow> lifecycle_stage \<Rightarrow> assessment_spec \<Rightarrow> attempt \<Rightarrow> stage_outcome \<Rightarrow> stage_record lc" where
  "record_response aid st spec a out =
     (if \<not> o_ok out then
        thenE (upsert_attempt (a\<lparr>a_status := AFAILED,
                 a_detail := take 300 (or_else (o_detail out) ''stage failed'')\<rparr>))
        (thenE (fail_stage aid st (or_else (o_detail out) ''stage failed''))
        (retE ((stage_record_of aid st FAILED)
           \<lparr>r_produced_epoch := Some (o_produced_epoch out), r_detail := o_detail out\<rparr>)))
      else
        let completed = a\<lparr>a_status := COMPLETED, a_response_persisted := True,
              a_produced_epoch := Some (o_produced_epoch out), a_evidence := o_evidence out,
              a_side_effect_token := o_side_effect_token out, a_usage := o_usage out,
              a_detail := take 300 (o_detail out)\<rparr> in
        thenE (upsert_attempt completed)
        (commit_stage_done aid st spec completed))"

definition open_attempt ::
  "string \<Rightarrow> lifecycle_stage \<Rightarrow> assessment_spec \<Rightarrow> dispatcher \<Rightarrow> external_call
    \<Rightarrow> (string \<times> string) list \<Rightarrow> attempt list \<Rightarrow> stage_record lc" where
  "open_attempt aid st spec dispatch x upstream atts =
     thenE (eachE supersede (filter (\<lambda>a. a_status a = PREPARED) atts))
     (let a = fresh_attempt aid st x (length atts + 1);
          d = a\<lparr>a_status := DISPATCHED, a_dispatched := True\<rparr> in
      thenE (rejectE (\<not> attempt_valid a) (ValidationError ''ExternalStageAttempt''))
      (thenE (upsert_attempt a)
      (thenE (set_state aid (stage_active_state st) (''running '' @ stage_str st))
      (thenE (upsert_stage (stage_record_of aid st RUNNING))
      (thenE (upsert_attempt d)
      (thenE (audit aid ''CONTROLLER'' (''STAGE_'' @ stage_str st @ ''_DISPATCHED'') (a_key a))
      (thenE (emit aid st (a_key a))
      (case dispatch (context_of aid st spec upstream) (a_key a) of
         None \<Rightarrow> throwE ExecutorRaised
       | Some out \<Rightarrow> record_response aid st spec d out))))))))"

definition run_external_stage ::
  "string \<Rightarrow> lifecycle_stage \<Rightarrow> dispatcher \<Rightarrow> external_call \<Rightarrow> int \<Rightarrow> stage_record lc" where
  "run_external_stage aid st dispatch x now =
     bindE (preflight aid st now) (\<lambda>spec.
     bindE (get_stage aid st) (\<lambda>existing.
     if (case existing of None \<Rightarrow> False | Some r \<Rightarrow> r_status r = DONE) then retE (the existing)
     else
       bindE (upstream_evidence aid st spec) (\<lambda>upstream.
       bindE (attempts_for aid st) (\<lambda>atts.
       case find (\<lambda>a. a_status a = COMPLETED) atts of
         Some a \<Rightarrow> replay_completed aid st spec a
       | None \<Rightarrow>
           bindE (settle_unknown aid st spec x atts) (\<lambda>settled.
           case settled of
             Some r \<Rightarrow> retE r
           | None \<Rightarrow> open_attempt aid st spec dispatch x upstream atts)))))"

definition has_unreconciled_effect :: "string \<Rightarrow> bool lc" where
  "has_unreconciled_effect aid =
     bindE (all_attempts aid) (\<lambda>as.
     retE (list_ex (\<lambda>a. a_status a = DISPATCHED \<or> a_status a = SUPERSEDED) as))"

section \<open>Cleanup and the final verdict\<close>

definition compensate_one :: "string \<Rightarrow> compensator \<Rightarrow> string \<Rightarrow> bool lc" where
  "compensate_one aid fixup ob =
     (case fixup ob of
        None \<Rightarrow> throwE ExecutorRaised
      | Some ok \<Rightarrow>
          thenE (upsert_cleanup aid \<lparr>e_obligation = ob, e_compensated = ok,
             e_detail = (if ok then ''compensated'' else ''COMPENSATION_FAILED'')\<rparr>)
          (retE ok))"

fun compensate_all :: "string \<Rightarrow> compensator \<Rightarrow> string list \<Rightarrow> bool \<Rightarrow> bool lc" where
  "compensate_all aid fixup [] all_ok = retE all_ok"
| "compensate_all aid fixup (ob # obs) all_ok =
     bindE (compensate_one aid fixup ob) (\<lambda>ok. compensate_all aid fixup obs (all_ok \<and> ok))"

definition run_cleanup :: "string \<Rightarrow> string list \<Rightarrow> compensator \<Rightarrow> string \<Rightarrow> bool lc" where
  "run_cleanup aid obligations fixup reason =
     bindE (get_state aid) (\<lambda>state.
     thenE (if state \<notin> set terminal_states \<and> state \<noteq> S_CLEANING_UP
            then set_state aid S_CLEANING_UP reason else retE ())
     (bindE (compensate_all aid fixup obligations True) (\<lambda>all_ok.
     thenE (audit aid ''CONTROLLER'' (if all_ok then ''CLEANUP_COMPLETE'' else ''CLEANUP_FAILED'')
              (nat_str (length obligations) @ '' obligations''))
     (bindE (the_spec aid) (\<lambda>spec.
     thenE (upsert_stage ((stage_record_of aid CLEANUP (if all_ok then DONE else FAILED))
        \<lparr>r_produced_epoch := Some (sp_run_epoch spec),
         r_detail := (if all_ok then ''cleanup complete'' else ''cleanup failed'')\<rparr>))
     (retE all_ok))))))"

definition stage_of :: "stage_record list \<Rightarrow> lifecycle_stage \<Rightarrow> stage_record option" where
  "stage_of rs st = find (\<lambda>r. r_stage r = st) rs"

definition required_done :: "assessment_spec \<Rightarrow> stage_record list \<Rightarrow> bool" where
  "required_done spec rs =
     list_all (\<lambda>st. case stage_of rs st of None \<Rightarrow> False | Some r \<Rightarrow> r_status r = DONE)
       (sp_required_stages spec)"

definition final_state :: "bool \<Rightarrow> bool \<Rightarrow> bool \<Rightarrow> bool \<Rightarrow> assessment_state" where
  "final_state has_entries cleanup_ok cancelled required =
     (if \<not> has_entries then S_PARTIAL
      else if \<not> cleanup_ok then S_CLEANUP_FAILED
      else if cancelled then S_CANCELLED
      else if required then S_COMPLETED
      else S_PARTIAL)"

text \<open>The \<open>try ... except LifecycleStateError\<close> block of \<open>finalize\<close>.\<close>

definition persist_final :: "string \<Rightarrow> assessment_state \<Rightarrow> assessment_state \<Rightarrow> unit lc" where
  "persist_final aid state final =
     (if state = final then retE ()
      else catchE (set_state aid final ''finalized'')
        (\<lambda>e. case e of
           LifecycleStateError _ \<Rightarrow>
             if state \<notin> set terminal_states then
               thenE (set_state aid S_CLEANING_UP ''pre-finalize'')
                 (set_state aid final ''finalized'')
             else retE ()
         | _ \<Rightarrow> throwE e))"

definition verdict_summary ::
  "assessment_state \<Rightarrow> stage_record list \<Rightarrow> bool \<Rightarrow> bool \<Rightarrow> string" where
  "verdict_summary final rs cleanup_ok required =
     state_str final @ '': '' @ nat_str (length (filter (\<lambda>r. r_status r = DONE) rs)) @
     '' stages done; cleanup '' @ (if cleanup_ok then ''ok'' else ''incomplete'') @
     ''; required '' @ (if required then ''complete'' else ''incomplete'') @ ''.''"

text \<open>\<open>sha\<close> stands for the SHA-256 of the manifest's JSON text.\<close>

definition finalize :: "(manifest \<Rightarrow> string) \<Rightarrow> string \<Rightarrow> verdict lc" where
  "finalize sha aid =
     bindE (the_spec aid) (\<lambda>spec.
     bindE (get_state aid) (\<lambda>state.
     bindE (all_stages aid) (\<lambda>records.
     bindE (cleanup_entries aid) (\<lambda>entries.
     let cleanup_ok = (entries \<noteq> [] \<and> list_all e_compensated entries);
         required = required_done spec records in
     bindE (aggregate_usage aid) (\<lambda>(calls, tokens, tools, complete0).
     bindE (has_unreconciled_effect aid) (\<lambda>unreconciled.
     let complete = (complete0 \<and> \<not> unreconciled) in
     bindE (cancel_requested aid) (\<lambda>cancelled.
     let final = final_state (entries \<noteq> []) cleanup_ok cancelled required in
     thenE (persist_final aid state final)
     (let mf = \<lparr>m_assessment_id = aid, m_campaign_id = sp_campaign_id spec,
            m_run_epoch = sp_run_epoch spec, m_stage_records = records, m_cleanup = entries,
            m_calls = calls, m_tokens = tokens, m_tools = tools, m_usage_complete = complete\<rparr> in
      retE \<lparr>v_assessment_id = aid, v_final_state = final, v_required_complete = required,
        v_cleanup_succeeded = cleanup_ok, v_usage_complete = complete,
        v_calls = (if complete then Known calls else UNKNOWN),
        v_tokens = (if complete then Known tokens else UNKNOWN),
        v_manifest_sha256 = sha mf,
        v_summary = verdict_summary final records cleanup_ok required\<rparr>))))))))"

end
