(* ===== verification/Ledger_Contract.thy ===== *)
theory Ledger_Contract
  imports Controller
begin

text \<open>
  The interface between the ledger's transactions and the controller: a property of the
  database that every transaction keeps, under the guard the controller establishes before
  it issues that transaction, is kept by every controller call, however it ends (a value, an
  exception, or the death of the process between two transactions).  The locale
  \<open>ledger_contract\<close> states the guards as assumptions and proves the second half once.
\<close>

definition spec_at :: "database \<Rightarrow> string \<Rightarrow> assessment_spec option" where
  "spec_at d aid = map_option ar_spec (map_of (assessments d) aid)"

definition state_at :: "database \<Rightarrow> string \<Rightarrow> assessment_state option" where
  "state_at d aid = map_option ar_state (map_of (assessments d) aid)"

definition done_at :: "database \<Rightarrow> string \<Rightarrow> lifecycle_stage \<Rightarrow> bool" where
  "done_at d aid st \<longleftrightarrow>
     (case map_of (stages d) (aid, st) of None \<Rightarrow> False | Some r \<Rightarrow> r_status r = DONE)"

definition deps_done :: "database \<Rightarrow> string \<Rightarrow> lifecycle_stage \<Rightarrow> bool" where
  "deps_done d aid st \<longleftrightarrow> (\<forall>dep \<in> set (stage_deps st). done_at d aid dep)"

lemma not_own_dep [simp]: "st \<notin> set (stage_deps st)"
  by (cases st) auto

text \<open>What \<open>check_budget\<close> has established when it returns.\<close>

definition charge_fits ::
  "database \<Rightarrow> string \<Rightarrow> assessment_spec \<Rightarrow> usage_delta \<Rightarrow> bool" where
  "charge_fits d aid sp u \<longleftrightarrow>
     known (u_calls u) \<le> sp_per_stage_calls sp \<and> known (u_tokens u) \<le> sp_per_stage_tokens sp \<and>
     (case usage_of (stages_of aid d) of (calls, tokens, _, complete) \<Rightarrow>
        complete \<and> calls + known (u_calls u) \<le> sp_cumulative_calls sp \<and>
        tokens + known (u_tokens u) \<le> sp_cumulative_tokens sp)"

lemma map_of_update_row:
  "map_of (assessments (update_row aid f d)) i =
     (if i = aid then map_option f (map_of (assessments d) i) else map_of (assessments d) i)"
proof -
  have "map_of (map (\<lambda>(j, r). if j = aid then (j, f r) else (j, r)) xs) i =
     (if i = aid then map_option f (map_of xs i) else map_of xs i)" for xs
    by (induction xs) auto
  then show ?thesis by (simp add: update_row_def)
qed

lemma db_fields [simp]:
  "assessments (audit_db a b c e d) = assessments d"
  "stages (audit_db a b c e d) = stages d"
  "transitions (audit_db a b c e d) = transitions d"
  "attempts (audit_db a b c e d) = attempts d"
  "cleanups (audit_db a b c e d) = cleanups d"
  "assessments (transition_db a f t c d) = assessments d"
  "stages (transition_db a f t c d) = stages d"
  "attempts (transition_db a f t c d) = attempts d"
  "cleanups (transition_db a f t c d) = cleanups d"
  "stages (update_row aid g d) = stages d"
  "transitions (update_row aid g d) = transitions d"
  "attempts (update_row aid g d) = attempts d"
  "cleanups (update_row aid g d) = cleanups d"
  by (simp_all add: audit_db_def transition_db_def update_row_def)

lemma db_fields_ops [simp]:
  "stages (create_db sp d) = stages d" "attempts (create_db sp d) = attempts d"
  "cleanups (create_db sp d) = cleanups d"
  "stages (cancel_db aid d) = stages d" "attempts (cancel_db aid d) = attempts d"
  "transitions (cancel_db aid d) = transitions d" "cleanups (cancel_db aid d) = cleanups d"
  "stages (move_state aid s1 s2 m d) = stages d" "attempts (move_state aid s1 s2 m d) = attempts d"
  "cleanups (move_state aid s1 s2 m d) = cleanups d"
  "assessments (put_stage r d) = assessments d" "attempts (put_stage r d) = attempts d"
  "transitions (put_stage r d) = transitions d" "cleanups (put_stage r d) = cleanups d"
  "assessments (put_attempt x d) = assessments d" "stages (put_attempt x d) = stages d"
  "transitions (put_attempt x d) = transitions d" "cleanups (put_attempt x d) = cleanups d"
  "assessments (put_cleanup aid e d) = assessments d" "stages (put_cleanup aid e d) = stages d"
  "transitions (put_cleanup aid e d) = transitions d"
  "attempts (put_cleanup aid e d) = attempts d"
  by (simp_all add: create_db_def cancel_db_def move_state_def put_stage_def put_attempt_def
      put_cleanup_def)

lemma map_of_create_db:
  "map_of (assessments d) (sp_assessment_id sp) = None \<Longrightarrow>
   map_of (assessments (create_db sp d)) i =
     (if i = sp_assessment_id sp then Some \<lparr>ar_state = S_CREATED, ar_cancel = False, ar_spec = sp\<rparr>
      else map_of (assessments d) i)"
  by (auto simp: create_db_def map_add_def split: option.splits)

lemma spec_at_simps [simp]:
  "spec_at (audit_db a b c e d) aid = spec_at d aid"
  "spec_at (put_stage r d) aid = spec_at d aid"
  "spec_at (put_attempt x d) aid = spec_at d aid"
  "spec_at (put_cleanup i ce d) aid = spec_at d aid"
  "spec_at (cancel_db i d) aid = spec_at d aid"
  "spec_at (move_state i s1 s2 m d) aid = spec_at d aid"
  by (auto simp: spec_at_def cancel_db_def move_state_def map_of_update_row option.map_comp o_def)

lemma done_at_simps [simp]:
  "done_at (audit_db a b c e d) aid st = done_at d aid st"
  "done_at (put_attempt x d) aid st = done_at d aid st"
  "done_at (put_cleanup i ce d) aid st = done_at d aid st"
  "done_at (cancel_db i d) aid st = done_at d aid st"
  "done_at (move_state i s1 s2 m d) aid st = done_at d aid st"
  by (simp_all add: done_at_def)

lemma deps_done_simps [simp]:
  "deps_done (audit_db a b c e d) aid st = deps_done d aid st"
  "deps_done (put_attempt x d) aid st = deps_done d aid st"
  "deps_done (put_cleanup i ce d) aid st = deps_done d aid st"
  "deps_done (cancel_db i d) aid st = deps_done d aid st"
  "deps_done (move_state i s1 s2 m d) aid st = deps_done d aid st"
  by (simp_all add: deps_done_def)

lemma done_at_put_stage:
  "done_at (put_stage r d) aid st =
     (if (aid, st) = (r_assessment_id r, r_stage r) then r_status r = DONE else done_at d aid st)"
  by (simp add: done_at_def put_stage_def update_conv)

lemma deps_done_put_stage [simp]:
  "r_assessment_id r = aid \<Longrightarrow> r_stage r = st \<Longrightarrow> deps_done (put_stage r d) aid st = deps_done d aid st"
  unfolding deps_done_def by (rule ball_cong [OF refl]) (use not_own_dep in \<open>auto simp: done_at_put_stage\<close>)

lemma stage_record_of_simps [simp]:
  "r_assessment_id (stage_record_of aid st s) = aid" "r_stage (stage_record_of aid st s) = st"
  "r_status (stage_record_of aid st s) = s" "r_usage (stage_record_of aid st s) = no_usage"
  "r_produced_epoch (stage_record_of aid st s) = None" "r_evidence (stage_record_of aid st s) = None"
  "r_detail (stage_record_of aid st s) = []" "r_side_effect_token (stage_record_of aid st s) = []"
  by (simp_all add: stage_record_of_def)

section \<open>Transactions and reads\<close>

lemma commit_run:
  "commit f w = (Inl ProcessDied, w) \<or>
   (\<exists>n. commit f w = (Inr (), w\<lparr>db := f (db w), writes_left := n\<rparr>))"
proof (cases "writes_left w")
  case None
  then have "commit f w = (Inr (), w\<lparr>db := f (db w), writes_left := None\<rparr>)"
    by (simp add: commit_def)
  then show ?thesis by blast
next
  case (Some k)
  then show ?thesis by (cases k) (auto simp: commit_def)
qed

lemma preserves_commit:
  assumes "\<And>w n. P w \<Longrightarrow> P (w\<lparr>db := f (db w), writes_left := n\<rparr>)"
  shows "preserves P (commit f)"
proof (rule preservesI)
  fix w assume "P w"
  then show "P (snd (commit f w))"
    using commit_run [of f w] assms by auto
qed

lemma preserves_pureI: "(\<And>w. \<exists>r. m w = (r, w)) \<Longrightarrow> preserves P m"
  by (metis preservesI snd_conv)

lemma reads_run [simp]: "reads f w = (Inr (f (db w)), w)"
  by (simp add: reads_def)

lemma preserves_reads [pres]: "preserves P (reads f)"
  by (simp add: preserves_def)

lemma get_stage_run [simp]: "get_stage aid st w = (Inr (map_of (stages (db w)) (aid, st)), w)"
  by (simp add: get_stage_def)

lemma all_stages_run [simp]: "all_stages aid w = (Inr (stages_of aid (db w)), w)"
  by (simp add: all_stages_def)

lemma attempts_for_run [simp]: "attempts_for aid st w = (Inr (attempts_of aid st (db w)), w)"
  by (simp add: attempts_for_def)

lemma aggregate_usage_run [simp]:
  "aggregate_usage aid w = (Inr (usage_of (stages_of aid (db w))), w)"
  by (simp add: aggregate_usage_def)

lemma the_spec_run:
  "the_spec aid w = ((case spec_at (db w) aid of
      None \<Rightarrow> Inl (LifecycleError ''ASSESSMENT_NOT_FOUND'') | Some sp \<Rightarrow> Inr sp), w)"
  by (auto simp: the_spec_def get_spec_def spec_at_def split: option.splits)

lemma get_state_run:
  "get_state aid w = ((case state_at (db w) aid of
      None \<Rightarrow> Inl (LifecycleError ''ASSESSMENT_NOT_FOUND'') | Some s \<Rightarrow> Inr s), w)"
  by (auto simp: get_state_def state_at_def split: option.splits)

lemma cancel_requested_run:
  "cancel_requested aid w = ((case map_of (assessments (db w)) aid of
      None \<Rightarrow> Inl (LifecycleError ''ASSESSMENT_NOT_FOUND'') | Some r \<Rightarrow> Inr (ar_cancel r)), w)"
  by (auto simp: cancel_requested_def split: option.splits)

lemma preserves_pure_ops [pres]:
  "preserves P (the_spec aid)" "preserves P (get_state aid)" "preserves P (get_stage aid st)"
  "preserves P (cancel_requested aid)" "preserves P (all_stages aid)"
  "preserves P (attempts_for aid st)" "preserves P (aggregate_usage aid)"
  "preserves P (dep_done aid st)" "preserves P (get_spec aid)"
  "preserves P (all_attempts aid)" "preserves P (cleanup_entries aid)"
  by (simp_all add: preserves_def the_spec_run get_state_run cancel_requested_run dep_done_def
      rejectE_run get_spec_def all_attempts_def cleanup_entries_def)

lemma upstream_pure: "\<exists>r. upstream_from aid sp deps acc w = (r, w)"
proof (induction deps arbitrary: acc)
  case (Cons dep deps)
  then show ?case
    by (auto simp: bindE_run rejectE_run split: option.splits prod.splits sum.splits if_splits)
qed simp

lemma preserves_upstream [pres]: "preserves P (upstream_evidence aid st sp)"
  by (rule preserves_pureI) (simp add: upstream_evidence_def upstream_pure)

lemma check_budget_pure: "\<exists>r. check_budget aid sp u st w = (r, w)"
  by (auto simp: check_budget_def bindE_run rejectE_run split: prod.splits)

lemma preserves_check_budget [pres]: "preserves P (check_budget aid sp u st)"
  by (rule preserves_pureI) (rule check_budget_pure)

lemma check_budget_fits:
  "check_budget aid sp u st w = (Inr v, t) \<Longrightarrow> t = w \<and> charge_fits (db w) aid sp u"
  by (auto simp: check_budget_def bindE_run rejectE_run charge_fits_def split: prod.splits if_splits)

lemma eachE_dep_done:
  "\<exists>r. eachE (dep_done aid) deps w = (r, w) \<and> (r = Inr () \<longrightarrow> (\<forall>dep \<in> set deps. done_at (db w) aid dep))"
  by (induction deps)
    (auto simp: bindE_run dep_done_def rejectE_run done_at_def split: option.splits if_splits)

lemma preserves_deps [pres]: "preserves P (eachE (dep_done aid) deps)"
  by (intro pres)

text \<open>What a stage knows once its guards have let it through.\<close>

lemma preflight_Inr:
  assumes "preflight aid st now w = (Inr sp, t)"
  shows "t = w \<and> spec_at (db w) aid = Some sp \<and> now < sp_lease_expires_at sp \<and>
    (\<exists>row. map_of (assessments (db w)) aid = Some row \<and> \<not> ar_cancel row \<and>
       ar_state row \<notin> set terminal_states) \<and>
    deps_done (db w) aid st"
proof -
  obtain row where row: "map_of (assessments (db w)) aid = Some row"
    using assms by (auto simp: preflight_def bindE_run the_spec_run spec_at_def split: option.splits)
  obtain r where r: "eachE (dep_done aid) (stage_deps st) w = (r, w)"
    "r = Inr () \<longrightarrow> (\<forall>dep \<in> set (stage_deps st). done_at (db w) aid dep)"
    using eachE_dep_done by blast
  show ?thesis
    using assms row r
    by (auto simp: preflight_def bindE_run the_spec_run spec_at_def get_state_run state_at_def
        cancel_requested_run rejectE_run deps_done_def split: if_splits sum.splits prod.splits)
qed

section \<open>Controller calls as operations\<close>

datatype lc_op =
  Op_Create assessment_spec
| Op_Cancel string
| Op_Authorize string string int
| Op_Ready string "string list" int
| Op_Run string lifecycle_stage executor int
| Op_External string lifecycle_stage dispatcher external_call int
| Op_Cleanup string "string list" compensator string
| Op_Finalize "manifest \<Rightarrow> string" string

fun exec_op :: "lc_op \<Rightarrow> unit lc" where
  "exec_op (Op_Create sp) = create sp"
| "exec_op (Op_Cancel aid) = request_cancel aid"
| "exec_op (Op_Authorize aid ref now) = thenE (authorize_assessment aid ref now) (retE ())"
| "exec_op (Op_Ready aid caps now) = thenE (mark_ready aid caps now) (retE ())"
| "exec_op (Op_Run aid st exec now) = thenE (run_stage aid st exec now) (retE ())"
| "exec_op (Op_External aid st dispatch x now) =
     thenE (run_external_stage aid st dispatch x now) (retE ())"
| "exec_op (Op_Cleanup aid obs fixup reason) = thenE (run_cleanup aid obs fixup reason) (retE ())"
| "exec_op (Op_Finalize sha aid) = thenE (finalize sha aid) (retE ())"

text \<open>
  A process runs one call; it may die after any number of committed transactions, and the
  next process starts from what is in the database.  \<open>usual\<close> operations are the ones the
  rest of the repository issues: specifications within the field bounds of
  \<open>AssessmentSpec\<close>, the cleanup stage only through \<open>run_cleanup\<close>.
\<close>

definition call :: "lc_op \<times> nat option \<Rightarrow> world \<Rightarrow> world" where
  "call c w = snd (exec_op (fst c) (w\<lparr>writes_left := snd c\<rparr>))"

fun usual :: "lc_op \<Rightarrow> bool" where
  "usual (Op_Create sp) = spec_ok sp"
| "usual (Op_Run aid st exec now) = (st \<noteq> CLEANUP)"
| "usual (Op_External aid st dispatch x now) = (st \<noteq> CLEANUP)"
| "usual _ = True"

definition initial :: "world \<Rightarrow> bool" where
  "initial w \<longleftrightarrow> db w = empty_db \<and> dispatches w = []"

inductive reach :: "(lc_op \<Rightarrow> bool) \<Rightarrow> world \<Rightarrow> bool" for ok where
  start: "initial w \<Longrightarrow> reach ok w"
| step: "reach ok w \<Longrightarrow> ok op \<Longrightarrow> reach ok (call (op, n) w)"

section \<open>The contract\<close>

text \<open>
  \<open>stage_open\<close>: the property holds, the assessment has this specification, and the stage
  under way is not DONE.  It is what a stage run keeps from its guards to its DONE row.
\<close>

definition stage_open ::
  "(database \<Rightarrow> bool) \<Rightarrow> string \<Rightarrow> lifecycle_stage \<Rightarrow> assessment_spec \<Rightarrow> world \<Rightarrow> bool" where
  "stage_open I aid st sp w \<longleftrightarrow>
     I (db w) \<and> spec_at (db w) aid = Some sp \<and> \<not> done_at (db w) aid st \<and> deps_done (db w) aid st"

definition holds :: "(database \<Rightarrow> bool) \<Rightarrow> world \<Rightarrow> bool" where
  "holds I w \<longleftrightarrow> I (db w)"

text \<open>Started from an open stage, the program leaves the property true.\<close>

definition safe ::
  "(database \<Rightarrow> bool) \<Rightarrow> string \<Rightarrow> lifecycle_stage \<Rightarrow> assessment_spec \<Rightarrow> 'a lc \<Rightarrow> bool" where
  "safe I aid st sp m \<longleftrightarrow> (\<forall>w. stage_open I aid st sp w \<longrightarrow> I (db (snd (m w))))"

lemma safe_of_preserves: "preserves (stage_open I aid st sp) m \<Longrightarrow> safe I aid st sp m"
  by (auto simp: safe_def preserves_def stage_open_def)

lemma safe_bindE:
  assumes "preserves (stage_open I aid st sp) m" and "\<And>a. safe I aid st sp (f a)"
  shows "safe I aid st sp (bindE m f)"
  unfolding safe_def
proof (intro allI impI)
  fix w assume open_w: "stage_open I aid st sp w"
  obtain r t where m: "m w = (r, t)" by (cases "m w")
  with assms(1) open_w have t: "stage_open I aid st sp t" by (metis preservesD_eq)
  show "I (db (snd (bindE m f w)))"
    using m t assms(2) by (cases r) (auto simp: bindE_run safe_def stage_open_def)
qed

lemma safe_if:
  "(b \<Longrightarrow> safe I aid st sp m) \<Longrightarrow> (\<not> b \<Longrightarrow> safe I aid st sp n) \<Longrightarrow> safe I aid st sp (if b then m else n)"
  by simp

lemma safe_pure:
  "safe I aid st sp (retE a)" "safe I aid st sp (throwE e)"
  by (simp_all add: safe_def stage_open_def)

lemma safe_option:
  "safe I aid st sp m \<Longrightarrow> (\<And>a. safe I aid st sp (f a)) \<Longrightarrow>
   safe I aid st sp (case x of None \<Rightarrow> m | Some a \<Rightarrow> f a)"
  by (cases x) auto

lemmas safe_rules = safe_pure safe_if safe_option safe_bindE

locale ledger_contract =
  fixes I :: "database \<Rightarrow> bool"
  assumes on_create:
      "I d \<Longrightarrow> map_of (assessments d) (sp_assessment_id sp) = None \<Longrightarrow> spec_ok sp \<Longrightarrow> I (create_db sp d)"
    and on_cancel: "I d \<Longrightarrow> I (cancel_db aid d)"
    and on_audit: "I d \<Longrightarrow> I (audit_db aid a e m d)"
    and on_move: "I d \<Longrightarrow> state_at d aid = Some cur \<Longrightarrow>
      new \<in> set (valid_state_transitions cur) \<Longrightarrow> I (move_state aid cur new m d)"
    and on_attempt: "I d \<Longrightarrow> I (put_attempt x d)"
    and on_cleanup: "I d \<Longrightarrow> I (put_cleanup aid en d)"
    and on_progress: "I d \<Longrightarrow> spec_at d (r_assessment_id r) \<noteq> None \<Longrightarrow>
      \<not> done_at d (r_assessment_id r) (r_stage r) \<Longrightarrow>
      deps_done d (r_assessment_id r) (r_stage r) \<Longrightarrow> r_status r \<noteq> DONE \<Longrightarrow> r_usage r = no_usage \<Longrightarrow>
      I (put_stage r d)"
    and on_control: "I d \<Longrightarrow> spec_at d (r_assessment_id r) \<noteq> None \<Longrightarrow>
      \<not> done_at d (r_assessment_id r) (r_stage r) \<Longrightarrow>
      deps_done d (r_assessment_id r) (r_stage r) \<Longrightarrow> r_status r = DONE \<Longrightarrow> r_usage r = no_usage \<Longrightarrow>
      I (put_stage r d)"
    and on_done: "I d \<Longrightarrow> spec_at d (r_assessment_id r) = Some sp \<Longrightarrow>
      \<not> done_at d (r_assessment_id r) (r_stage r) \<Longrightarrow>
      deps_done d (r_assessment_id r) (r_stage r) \<Longrightarrow> r_stage r \<noteq> CLEANUP \<Longrightarrow> r_status r = DONE \<Longrightarrow>
      is_known (r_usage r) \<Longrightarrow> charge_fits d (r_assessment_id r) sp (r_usage r) \<Longrightarrow> I (put_stage r d)"
    and on_cleanup_stage: "I d \<Longrightarrow> spec_at d (r_assessment_id r) \<noteq> None \<Longrightarrow>
      r_stage r = CLEANUP \<Longrightarrow> r_usage r = no_usage \<Longrightarrow> I (put_stage r d)"
begin

lemma set_state_step:
  "snd (set_state aid new m w) = w \<or>
   (\<exists>cur n. state_at (db w) aid = Some cur \<and> new \<in> set (valid_state_transitions cur) \<and>
      snd (set_state aid new m w) = w\<lparr>db := move_state aid cur new m (db w), writes_left := n\<rparr>)"
proof (cases "state_at (db w) aid")
  case None
  then show ?thesis by (simp add: set_state_def bindE_run get_state_run)
next
  case (Some cur)
  then show ?thesis
    using commit_run [of "move_state aid cur new m" w]
    by (auto simp: set_state_def bindE_run get_state_run assert_state_transition_def rejectE_run)
qed

lemma holds_audit [pres]: "preserves (holds I) (audit aid a e m)"
  unfolding audit_def by (rule preserves_commit) (simp add: holds_def on_audit)

lemma holds_set_state [pres]: "preserves (holds I) (set_state aid new m)"
proof (rule preservesI)
  fix w assume "holds I w"
  then show "holds I (snd (set_state aid new m w))"
    using set_state_step [of aid new m w] by (auto simp: holds_def on_move)
qed

lemma holds_upsert_attempt [pres]: "preserves (holds I) (upsert_attempt x)"
  unfolding upsert_attempt_def by (rule preserves_commit) (simp add: holds_def on_attempt)

lemma holds_upsert_cleanup [pres]: "preserves (holds I) (upsert_cleanup aid en)"
  unfolding upsert_cleanup_def by (rule preserves_commit) (simp add: holds_def on_cleanup)

lemma holds_request_cancel [pres]: "preserves (holds I) (request_cancel aid)"
  unfolding request_cancel_def by (rule preserves_commit) (simp add: holds_def on_cancel)

lemma holds_create:
  assumes "spec_ok sp" shows "preserves (holds I) (create sp)"
proof (rule preservesI)
  fix w assume "holds I w"
  then show "holds I (snd (create sp w))"
    using commit_run [of "create_db sp" w] assms
    by (auto simp: create_def bindE_run rejectE_run holds_def on_create)
qed

lemma open_audit [pres]: "preserves (stage_open I aid st sp) (audit i a e m)"
  unfolding audit_def by (rule preserves_commit) (simp add: stage_open_def on_audit)

lemma open_set_state [pres]: "preserves (stage_open I aid st sp) (set_state i new m)"
proof (rule preservesI)
  fix w assume "stage_open I aid st sp w"
  then show "stage_open I aid st sp (snd (set_state i new m w))"
    using set_state_step [of i new m w] by (auto simp: stage_open_def on_move)
qed

lemma open_upsert_attempt [pres]: "preserves (stage_open I aid st sp) (upsert_attempt x)"
  unfolding upsert_attempt_def by (rule preserves_commit) (simp add: stage_open_def on_attempt)

lemma open_upsert_stage [pres]:
  assumes "r_assessment_id r = aid" "r_stage r = st" "r_status r \<noteq> DONE" "r_usage r = no_usage"
  shows "preserves (stage_open I aid st sp) (upsert_stage r)"
  unfolding upsert_stage_def
proof (rule preserves_commit)
  fix w n assume w: "stage_open I aid st sp w"
  then show "stage_open I aid st sp (w\<lparr>db := put_stage r (db w), writes_left := n\<rparr>)"
    using assms by (auto simp: stage_open_def done_at_put_stage intro: on_progress)
qed

lemma open_fail_stage [pres]: "preserves (stage_open I aid st sp) (fail_stage aid st m)"
  unfolding fail_stage_def by (intro pres) simp_all

lemma open_emit [pres]: "preserves (stage_open I aid st sp) (emit i s k)"
  by (simp add: preserves_def emit_def stage_open_def)

lemma open_supersede [pres]: "preserves (stage_open I aid st sp) (supersede x)"
  unfolding supersede_def by (rule pres)

lemma safe_charge_and_commit:
  assumes r: "r_assessment_id r = aid" "r_stage r = st" "r_status r = DONE"
    and u: "is_known (r_usage r)" and st: "st \<noteq> CLEANUP"
  shows "safe I aid st sp (charge_and_commit aid st sp r)"
  unfolding safe_def
proof (intro allI impI)
  fix w assume w: "stage_open I aid st sp w"
  obtain b where cb: "check_budget aid sp (r_usage r) st w = (b, w)"
    using check_budget_pure by blast
  show "I (db (snd (charge_and_commit aid st sp r w)))"
  proof (cases b)
    case (Inl e)
    with cb w show ?thesis by (simp add: charge_and_commit_def stage_open_def)
  next
    case (Inr v)
    with cb have fits: "charge_fits (db w) aid sp (r_usage r)"
      using check_budget_fits by blast
    have new: "I (put_stage r (db w))"
      using w r u st fits by (intro on_done [where sp = sp]) (auto simp: stage_open_def)
    have tail: "preserves (holds I)
        (thenE (audit aid c e m) (retE r :: stage_record lc))" for c e m
      by (intro pres)
    show ?thesis
      using cb Inr w new commit_run [of "put_stage r" w] preservesD [OF tail]
      by (auto simp: charge_and_commit_def upsert_stage_def holds_def stage_open_def)
  qed
qed

lemma safe_record_outcome:
  "st \<noteq> CLEANUP \<Longrightarrow> safe I aid st sp (record_outcome aid st sp out)"
  unfolding record_outcome_def
  by (intro safe_rules safe_charge_and_commit pres) simp_all

lemma safe_commit_stage_done:
  "st \<noteq> CLEANUP \<Longrightarrow> safe I aid st sp (commit_stage_done aid st sp a)"
  unfolding commit_stage_done_def
  by (intro safe_rules safe_charge_and_commit pres) simp_all

lemma safe_replay:
  "st \<noteq> CLEANUP \<Longrightarrow> safe I aid st sp (replay_completed aid st sp a)"
  unfolding replay_completed_def by (intro safe_rules safe_commit_stage_done pres)

lemma safe_record_response:
  "st \<noteq> CLEANUP \<Longrightarrow> safe I aid st sp (record_response aid st sp a out)"
  unfolding record_response_def Let_def by (intro safe_rules safe_commit_stage_done pres)

lemma safe_open_attempt:
  "st \<noteq> CLEANUP \<Longrightarrow> safe I aid st sp (open_attempt aid st sp dispatch x up atts)"
  unfolding open_attempt_def Let_def
  by (intro safe_rules safe_record_response pres) simp_all

lemma open_reissue_guard [pres]:
  "preserves (stage_open I aid st sp) (reissue_guard aid st x unknown)"
  unfolding reissue_guard_def Let_def by (intro pres)

lemma reconcile_step:
  assumes "st \<noteq> CLEANUP" and "stage_open I aid st sp w"
    and "reconcile_unknown aid st sp x a w = (r, t)"
  shows "if r = Inr None then stage_open I aid st sp t else I (db t)"
proof (cases "x_reconcilable x \<and> a_reconcilable a \<and>
    (\<exists>rc out. x_reconcile x = Some rc \<and> rc (a_key a) = Some (Some out))")
  case True
  then obtain rc out where rc: "x_reconcilable x" "a_reconcilable a" "x_reconcile x = Some rc"
    "rc (a_key a) = Some (Some out)" by auto
  let ?m = "thenE (upsert_attempt (adopted_attempt a out))
     (thenE (audit aid ''CONTROLLER'' (''STAGE_'' @ stage_str st @ ''_RECONCILED'')
        (''broker confirmed idempotency key '' @ a_key a))
     (commit_stage_done aid st sp (adopted_attempt a out)))"
  have m: "reconcile_unknown aid st sp x a = bindE ?m (\<lambda>r. retE (Some r))"
    using rc by (simp add: reconcile_unknown_def Let_def bindE_def fun_eq_iff split: prod.splits sum.splits)
  have "safe I aid st sp ?m"
    by (intro safe_rules pres safe_commit_stage_done assms(1))
  then have "I (db (snd (?m w)))" using assms(2) by (simp add: safe_def)
  then show ?thesis
    using assms(3) unfolding m by (auto elim!: bindE_cases)
next
  case False
  then show ?thesis using assms
    by (auto simp: reconcile_unknown_def stage_open_def split: if_splits option.splits)
qed

lemma settle_step:
  assumes "st \<noteq> CLEANUP" and "stage_open I aid st sp w"
    and "settle_unknown aid st sp x atts w = (r, t)"
  shows "if r = Inr None then stage_open I aid st sp t else I (db t)"
proof (cases "filter outcome_unknown atts = []")
  case True
  then show ?thesis using assms by (auto simp: settle_unknown_def)
next
  case False
  let ?u = "filter outcome_unknown atts"
  have m: "bindE (reconcile_unknown aid st sp x (last ?u)) (\<lambda>adopted.
      case adopted of Some r \<Rightarrow> retE (Some r)
      | None \<Rightarrow> thenE (reissue_guard aid st x ?u) (retE None)) w = (r, t)"
    using assms(3) False by (simp add: settle_unknown_def Let_def)
  obtain b u where rc: "reconcile_unknown aid st sp x (last ?u) w = (b, u)"
    by (cases "reconcile_unknown aid st sp x (last ?u) w")
  from reconcile_step [OF assms(1,2) rc]
  have step: "if b = Inr None then stage_open I aid st sp u else I (db u)" .
  have guard: "preserves (stage_open I aid st sp)
      (thenE (reissue_guard aid st x ?u) (retE (None :: stage_record option)))"
    by (intro pres)
  show ?thesis
    using m rc step preservesD_eq [OF guard]
    by (cases b) (auto simp: bindE_run stage_open_def split: option.splits if_splits)
qed

section \<open>Every controller call keeps the property\<close>

lemma holds_preflight [pres]: "preserves (holds I) (preflight aid st now)"
  unfolding preflight_def by (intro pres)

lemma holds_control:
  assumes "holds I w" and "spec_at (db w) aid \<noteq> None" and "deps_done (db w) aid st"
  shows "holds I (snd (commit_control_stage aid st ep m w))"
proof (cases "done_at (db w) aid st")
  case True
  then show ?thesis using assms
    by (auto simp: commit_control_stage_def done_at_def split: option.splits)
next
  case False
  from assms obtain sp where w: "stage_open I aid st sp w"
    using False by (auto simp: stage_open_def holds_def)
  let ?r = "(stage_record_of aid st DONE)\<lparr>r_produced_epoch := Some ep\<rparr>"
  have "preserves (holds I) (thenE (audit aid c e n) (retE ?r))" for c e n by (intro pres)
  then have tail: "holds I u \<Longrightarrow> holds I (snd (thenE (audit aid c e n) (retE ?r) u))" for c e n u
    by (rule preservesD)
  have "safe I aid st sp (thenE (set_state aid (stage_active_state st) m)
      (thenE (upsert_stage ?r) (thenE (audit aid c e n) (retE ?r))))" for c e n
  proof (rule safe_bindE)
    show "preserves (stage_open I aid st sp) (set_state aid (stage_active_state st) m)" by (rule pres)
    show "safe I aid st sp (thenE (upsert_stage ?r) (thenE (audit aid c e n) (retE ?r)))" for c e n
      unfolding safe_def
    proof (intro allI impI)
      fix u assume u: "stage_open I aid st sp u"
      then have "I (put_stage ?r (db u))"
        by (intro on_control) (auto simp: stage_open_def)
      then show "I (db (snd (thenE (upsert_stage ?r) (thenE (audit aid c e n) (retE ?r)) u)))"
        using u commit_run [of "put_stage ?r" u] tail
        by (auto simp: upsert_stage_def holds_def stage_open_def)
    qed
  qed
  with w False show ?thesis
    by (auto simp: commit_control_stage_def Let_def safe_def holds_def done_at_def split: option.splits)
qed

lemma holds_authorize [pres]: "preserves (holds I) (authorize_assessment aid ref now)"
proof (rule preservesI)
  fix w assume w: "holds I w"
  show "holds I (snd (authorize_assessment aid ref now w))"
    using w holds_control [OF w, of aid AUTHORIZE]
    by (auto simp: deps_done_def authorize_assessment_def bindE_run the_spec_run rejectE_run
        split: option.splits)
qed

lemma holds_mark_ready [pres]: "preserves (holds I) (mark_ready aid caps now)"
proof (rule preservesI)
  fix w assume w: "holds I w"
  obtain r t where pf: "preflight aid PREPARE now w = (r, t)" by (cases "preflight aid PREPARE now w")
  have t: "holds I t" using holds_preflight pf w by (metis preservesD_eq)
  show "holds I (snd (mark_ready aid caps now w))"
  proof (cases r)
    case (Inr sp)
    with pf have "spec_at (db t) aid \<noteq> None" "deps_done (db t) aid PREPARE"
      using preflight_Inr by fastforce+
    with pf Inr t holds_control [OF t] show ?thesis
      by (simp add: mark_ready_def bindE_run rejectE_run Let_def)
  qed (use pf t in \<open>simp add: mark_ready_def\<close>)
qed

text \<open>A guarded body that is safe from an open stage keeps the property.\<close>

lemma holds_guarded:
  assumes w: "holds I w"
    and m: "m = bindE (preflight aid st now) (\<lambda>spec. bindE (get_stage aid st) (\<lambda>existing.
        if (case existing of None \<Rightarrow> False | Some r \<Rightarrow> r_status r = DONE) then retE (the existing)
        else body spec))"
    and body: "\<And>sp. safe I aid st sp (body sp)"
  shows "holds I (snd (m w))"
proof -
  obtain r t where pf: "preflight aid st now w = (r, t)" by (cases "preflight aid st now w")
  have t: "holds I t" using holds_preflight pf w by (metis preservesD_eq)
  show ?thesis
  proof (cases r)
    case (Inr sp)
    with pf have sp: "t = w" "spec_at (db w) aid = Some sp" "deps_done (db w) aid st" using preflight_Inr by fastforce+
    show ?thesis
    proof (cases "done_at (db w) aid st")
      case True
      with pf Inr sp w show ?thesis by (simp add: m done_at_def)
    next
      case False
      with sp w have "stage_open I aid st sp w" by (simp add: stage_open_def holds_def)
      with body have "I (db (snd (body sp w)))" by (auto simp: safe_def)
      with pf Inr sp False show ?thesis by (simp add: m done_at_def holds_def)
    qed
  qed (use pf t m in simp)
qed

lemma holds_run_stage [pres]:
  assumes "st \<noteq> CLEANUP" shows "preserves (holds I) (run_stage aid st exec now)"
proof (rule preservesI, rule holds_guarded)
  show "run_stage aid st exec now = bindE (preflight aid st now) (\<lambda>spec.
     bindE (get_stage aid st) (\<lambda>existing.
     if (case existing of None \<Rightarrow> False | Some r \<Rightarrow> r_status r = DONE) then retE (the existing)
     else
       bindE (upstream_evidence aid st spec) (\<lambda>upstream.
       thenE (set_state aid (stage_active_state st) (''running '' @ stage_str st))
       (thenE (upsert_stage (stage_record_of aid st RUNNING))
       (case exec (context_of aid st spec upstream) of
          None \<Rightarrow> throwE ExecutorRaised
        | Some out \<Rightarrow> record_outcome aid st spec out)))))"
    by (simp add: run_stage_def)
qed (auto intro!: safe_rules safe_record_outcome pres assms)

lemma safe_external_body:
  assumes st: "st \<noteq> CLEANUP"
  shows "safe I aid st sp (bindE (upstream_evidence aid st sp) (\<lambda>upstream.
       bindE (attempts_for aid st) (\<lambda>atts.
       case find (\<lambda>a. a_status a = COMPLETED) atts of
         Some a \<Rightarrow> replay_completed aid st sp a
       | None \<Rightarrow>
           bindE (settle_unknown aid st sp x atts) (\<lambda>settled.
           case settled of
             Some r \<Rightarrow> retE r
           | None \<Rightarrow> open_attempt aid st sp dispatch x upstream atts))))"
proof (intro safe_bindE pres)
  fix up atts
  show "safe I aid st sp (case find (\<lambda>a. a_status a = COMPLETED) atts of
         Some a \<Rightarrow> replay_completed aid st sp a
       | None \<Rightarrow>
           bindE (settle_unknown aid st sp x atts) (\<lambda>settled.
           case settled of
             Some r \<Rightarrow> retE r
           | None \<Rightarrow> open_attempt aid st sp dispatch x up atts))"
  proof (rule safe_option)
    show "safe I aid st sp (bindE (settle_unknown aid st sp x atts) (\<lambda>settled.
        case settled of Some r \<Rightarrow> retE r | None \<Rightarrow> open_attempt aid st sp dispatch x up atts))"
      unfolding safe_def
    proof (intro allI impI)
      fix w assume w: "stage_open I aid st sp w"
      obtain r t where se: "settle_unknown aid st sp x atts w = (r, t)"
        by (cases "settle_unknown aid st sp x atts w")
      note step = settle_step [OF st w se]
      show "I (db (snd (bindE (settle_unknown aid st sp x atts) (\<lambda>settled.
        case settled of Some r \<Rightarrow> retE r | None \<Rightarrow> open_attempt aid st sp dispatch x up atts) w)))"
        using se step safe_open_attempt [OF st, of aid sp dispatch x up atts]
        by (cases r) (auto simp: bindE_run safe_def split: option.splits)
    qed
  qed (rule safe_replay [OF st])
qed

lemma holds_run_external [pres]:
  assumes "st \<noteq> CLEANUP" shows "preserves (holds I) (run_external_stage aid st dispatch x now)"
  by (rule preservesI, rule holds_guarded, assumption, rule ext, simp only: run_external_stage_def)
    (rule safe_external_body [OF assms])

lemma holds_compensate_one [pres]: "preserves (holds I) (compensate_one aid fixup ob)"
  unfolding compensate_one_def by (intro pres)

lemma holds_compensate [pres]: "preserves (holds I) (compensate_all aid fixup obs ok)"
  by (induction obs arbitrary: ok) (auto intro!: pres)

lemma holds_cleanup_tail [pres]:
  "preserves (holds I) (bindE (the_spec aid) (\<lambda>spec.
     thenE (upsert_stage ((stage_record_of aid CLEANUP s)
        \<lparr>r_produced_epoch := Some (sp_run_epoch spec), r_detail := m\<rparr>)) (retE ok)))"
proof (rule preservesI)
  fix w assume w: "holds I w"
  show "holds I (snd (bindE (the_spec aid) (\<lambda>spec.
     thenE (upsert_stage ((stage_record_of aid CLEANUP s)
        \<lparr>r_produced_epoch := Some (sp_run_epoch spec), r_detail := m\<rparr>)) (retE ok)) w))"
  proof (cases "spec_at (db w) aid")
    case None
    with w show ?thesis by (simp add: bindE_run the_spec_run)
  next
    case (Some sp)
    let ?r = "(stage_record_of aid CLEANUP s)\<lparr>r_produced_epoch := Some (sp_run_epoch sp), r_detail := m\<rparr>"
    have "I (put_stage ?r (db w))"
      using w Some by (intro on_cleanup_stage) (simp_all add: holds_def)
    then show ?thesis
      using w Some commit_run [of "put_stage ?r" w]
      by (auto simp: bindE_run the_spec_run upsert_stage_def holds_def)
  qed
qed

lemma holds_run_cleanup [pres]: "preserves (holds I) (run_cleanup aid obs fixup reason)"
  unfolding run_cleanup_def by (intro pres)

lemma holds_persist_final [pres]: "preserves (holds I) (persist_final aid s f)"
  unfolding persist_final_def by (intro pres) (auto intro!: pres split: lifecycle_error.splits)

lemma holds_unreconciled [pres]: "preserves (holds I) (has_unreconciled_effect aid)"
  unfolding has_unreconciled_effect_def by (intro pres)

lemma holds_finalize [pres]: "preserves (holds I) (finalize sha aid)"
  unfolding finalize_def Let_def by (intro pres preserves_prod)

lemma holds_exec: "usual op \<Longrightarrow> preserves (holds I) (exec_op op)"
  by (cases op) (auto intro!: pres holds_create)

lemma holds_call: "usual op \<Longrightarrow> I (db w) \<Longrightarrow> I (db (call (op, n) w))"
  using preservesD [OF holds_exec, of op "w\<lparr>writes_left := n\<rparr>"] by (simp add: call_def holds_def)

lemma holds_calls: "I (db w) \<Longrightarrow> \<forall>c \<in> set cs. usual (fst c) \<Longrightarrow> I (db (fold call cs w))"
proof (induction cs arbitrary: w)
  case (Cons c cs)
  then have "I (db (call c w))" by (cases c) (simp add: holds_call)
  with Cons show ?case by simp
qed simp

lemma reach_holds: "reach usual w \<Longrightarrow> I empty_db \<Longrightarrow> I (db w)"
  by (induction rule: reach.induct) (auto simp: initial_def intro: holds_call)

end

end
