(* ===== verification/Lifecycle.thy ===== *)
theory Lifecycle
  imports Ledger_Contract
begin

text \<open>
  The invariants of the assessment lifecycle, each an interpretation of
  \<open>ledger_contract\<close> on the ledger's own transactions, and the properties that follow for
  every reachable database: whatever calls were made, and wherever processes died.
\<close>

section \<open>The transition log replays to the current state\<close>

fun legal_step :: "assessment_state option \<Rightarrow> assessment_state \<Rightarrow> bool" where
  "legal_step None t = (t = S_CREATED)"
| "legal_step (Some s) t = (t \<in> set (valid_state_transitions s))"

fun legal_path ::
  "assessment_state option \<Rightarrow> (assessment_state option \<times> assessment_state) list \<Rightarrow> bool" where
  "legal_path cur [] = True"
| "legal_path cur ((f, t) # ts) = (f = cur \<and> legal_step f t \<and> legal_path (Some t) ts)"

definition history :: "string \<Rightarrow> database \<Rightarrow> (assessment_state option \<times> assessment_state) list" where
  "history aid d = map (\<lambda>t. (t_from t, t_to t))
     (filter (\<lambda>t. t_assessment_id t = aid) (transitions d))"

definition log_ok :: "database \<Rightarrow> bool" where
  "log_ok d \<longleftrightarrow> (\<forall>aid. case state_at d aid of
      None \<Rightarrow> history aid d = []
    | Some s \<Rightarrow> legal_path None (history aid d) \<and> history aid d \<noteq> [] \<and> snd (last (history aid d)) = s)"

lemma legal_path_snoc:
  "legal_path cur (xs @ [(f, t)]) \<longleftrightarrow>
     legal_path cur xs \<and> f = (if xs = [] then cur else Some (snd (last xs))) \<and> legal_step f t"
  by (induction xs arbitrary: cur) auto

lemma history_simps [simp]:
  "history aid (audit_db a b c e d) = history aid d"
  "history aid (put_stage r d) = history aid d"
  "history aid (put_attempt x d) = history aid d"
  "history aid (put_cleanup i ce d) = history aid d"
  "history aid (cancel_db i d) = history aid d"
  by (simp_all add: history_def)

lemma history_move:
  "history aid (move_state i s1 s2 m d) =
     (if i = aid then history aid d @ [(Some s1, s2)] else history aid d)"
  by (simp add: history_def move_state_def transition_db_def update_row_def)

lemma history_create:
  "history aid (create_db sp d) =
     (if aid = sp_assessment_id sp then history aid d @ [(None, S_CREATED)] else history aid d)"
  by (simp add: history_def create_db_def transition_db_def)

lemma state_at_simps [simp]:
  "state_at (audit_db a b c e d) aid = state_at d aid"
  "state_at (put_stage r d) aid = state_at d aid"
  "state_at (put_attempt x d) aid = state_at d aid"
  "state_at (put_cleanup i ce d) aid = state_at d aid"
  "state_at (cancel_db i d) aid = state_at d aid"
  by (auto simp: state_at_def cancel_db_def map_of_update_row option.map_comp o_def)

lemma state_at_move:
  "state_at d i = Some c \<Longrightarrow>
   state_at (move_state i s1 s2 m d) aid = (if aid = i then Some s2 else state_at d aid)"
  by (auto simp: state_at_def move_state_def map_of_update_row)

lemma state_at_create:
  "map_of (assessments d) (sp_assessment_id sp) = None \<Longrightarrow>
   state_at (create_db sp d) aid = (if aid = sp_assessment_id sp then Some S_CREATED else state_at d aid)"
  by (simp add: state_at_def map_of_create_db)

lemma log_okD:
  assumes "log_ok d"
  shows "state_at d aid = None \<Longrightarrow> history aid d = []"
    and "state_at d aid = Some s \<Longrightarrow>
      legal_path None (history aid d) \<and> history aid d \<noteq> [] \<and> snd (last (history aid d)) = s"
  using assms [unfolded log_ok_def, rule_format, of aid] by auto

lemma log_frame:
  "log_ok d \<Longrightarrow> (\<And>aid. state_at d' aid = state_at d aid) \<Longrightarrow>
   (\<And>aid. history aid d' = history aid d) \<Longrightarrow> log_ok d'"
  by (simp only: log_ok_def simp_thms)

interpretation log: ledger_contract log_ok
proof unfold_locales
  fix d and sp :: assessment_spec
  assume ok: "log_ok d" and new: "map_of (assessments d) (sp_assessment_id sp) = None"
  then have "history (sp_assessment_id sp) d = []"
    by (intro log_okD(1)) (simp_all add: state_at_def)
  then show "log_ok (create_db sp d)"
    using log_okD [OF ok] new unfolding log_ok_def
    by (simp add: state_at_create history_create split: option.split)
next
  fix d aid cur new m
  assume ok: "log_ok d" and cur: "state_at d aid = Some cur"
    and "new \<in> set (valid_state_transitions cur)"
  then show "log_ok (move_state aid cur new m d)"
    using log_okD [OF ok] unfolding log_ok_def
    by (simp add: state_at_move [OF cur] history_move legal_path_snoc split: option.split)
qed (auto intro: log_frame)

section \<open>Budgets\<close>

definition charge_of :: "(usage_delta \<Rightarrow> measured) \<Rightarrow> stage_record \<Rightarrow> int" where
  "charge_of f r = (if r_status r = DONE \<and> is_known (r_usage r) then known (f (r_usage r)) else 0)"

definition charged :: "(usage_delta \<Rightarrow> measured) \<Rightarrow> string \<Rightarrow> database \<Rightarrow> int" where
  "charged f aid d = sum_list (map (charge_of f) (stages_of aid d))"

definition all_known :: "string \<Rightarrow> database \<Rightarrow> bool" where
  "all_known aid d \<longleftrightarrow> (\<forall>r \<in> set (stages_of aid d). r_status r = DONE \<longrightarrow> is_known (r_usage r))"

lemma usage_of_foldl:
  "foldl usage_step (c, t, k, b) rs =
    (c + sum_list (map (charge_of u_calls) rs), t + sum_list (map (charge_of u_tokens) rs),
     k + sum_list (map (charge_of u_tools) rs),
     b \<and> (\<forall>r \<in> set rs. r_status r = DONE \<longrightarrow> is_known (r_usage r)))"
  by (induction rs arbitrary: c t k b) (auto simp: charge_of_def)

lemma usage_of_stages:
  "usage_of (stages_of aid d) =
     (charged u_calls aid d, charged u_tokens aid d, charged u_tools aid d, all_known aid d)"
  by (simp add: usage_of_def usage_of_foldl charged_def all_known_def)

lemma sum_update:
  fixes g :: "'v \<Rightarrow> int"
  shows "sum_list (map g (map snd (filter (\<lambda>(k, _). P k) (AList.update k v t)))) =
    sum_list (map g (map snd (filter (\<lambda>(k, _). P k) t))) +
    (if P k then g v - (case map_of t k of None \<Rightarrow> 0 | Some w \<Rightarrow> g w) else 0)"
  by (induction t) auto

lemma charged_put_stage:
  "charged f aid (put_stage r d) = charged f aid d +
    (if r_assessment_id r = aid
     then charge_of f r - (case map_of (stages d) (aid, r_stage r) of None \<Rightarrow> 0 | Some q \<Rightarrow> charge_of f q)
     else 0)"
  using sum_update [of "charge_of f" "\<lambda>(i, _). i = aid" "(r_assessment_id r, r_stage r)" r "stages d"]
  by (auto simp: charged_def stages_of_def put_stage_def case_prod_unfold)

lemma set_update_subset: "set (AList.update k v t) \<subseteq> insert (k, v) (set t)"
  by (induction t) auto

lemma all_known_put_stage:
  "all_known aid d \<Longrightarrow> (r_status r = DONE \<Longrightarrow> is_known (r_usage r)) \<Longrightarrow> all_known aid (put_stage r d)"
  using set_update_subset [of "(r_assessment_id r, r_stage r)" r "stages d"]
  by (fastforce simp: all_known_def stages_of_def put_stage_def)

text \<open>
  Every stage row belongs to a known assessment, the cleanup row carries no usage, and the
  committed usage is measured and within the cumulative budget of the specification.
\<close>

definition budget_ok :: "database \<Rightarrow> bool" where
  "budget_ok d \<longleftrightarrow>
     (\<forall>k \<in> fst ` set (stages d). spec_at d (fst k) \<noteq> None) \<and>
     (\<forall>aid r. map_of (stages d) (aid, CLEANUP) = Some r \<longrightarrow> r_usage r = no_usage) \<and>
     (\<forall>aid sp. spec_at d aid = Some sp \<longrightarrow>
        all_known aid d \<and> charged u_calls aid d \<le> sp_cumulative_calls sp \<and>
        charged u_tokens aid d \<le> sp_cumulative_tokens sp)"

lemma no_usage_simps [simp]:
  "is_known no_usage" "u_calls no_usage = Known 0" "u_tokens no_usage = Known 0"
  "u_tools no_usage = Known 0"
  by (simp_all add: no_usage_def is_known_def)

lemma charge_of_no_usage [simp]:
  "r_usage r = no_usage \<Longrightarrow> charge_of u_calls r = 0" "r_usage r = no_usage \<Longrightarrow> charge_of u_tokens r = 0"
  by (simp_all add: charge_of_def)

lemma charge_of_open:
  "\<not> done_at d aid st \<Longrightarrow>
   (case map_of (stages d) (aid, st) of None \<Rightarrow> 0 | Some q \<Rightarrow> charge_of f q) = 0"
  by (auto simp: done_at_def charge_of_def split: option.splits)

lemma charged_frame [simp]:
  "charged f aid (audit_db a b c e d) = charged f aid d" "charged f aid (put_attempt x d) = charged f aid d"
  "charged f aid (put_cleanup i ce d) = charged f aid d" "charged f aid (cancel_db i d) = charged f aid d"
  "charged f aid (move_state i s1 s2 m d) = charged f aid d" "charged f aid (create_db sp d) = charged f aid d"
  "all_known aid (audit_db a b c e d) = all_known aid d"
  "all_known aid (put_attempt x d) = all_known aid d"
  "all_known aid (put_cleanup i ce d) = all_known aid d"
  "all_known aid (cancel_db i d) = all_known aid d"
  "all_known aid (move_state i s1 s2 m d) = all_known aid d"
  "all_known aid (create_db sp d) = all_known aid d"
  by (simp_all add: charged_def all_known_def stages_of_def)

text \<open>A row without charge, or with one that fits, keeps the budget.\<close>

lemma budget_put_stage:
  assumes ok: "budget_ok d" and sp: "spec_at d (r_assessment_id r) = Some sp"
    and clean: "r_stage r = CLEANUP \<Longrightarrow> r_usage r = no_usage"
    and kn: "r_status r = DONE \<Longrightarrow> is_known (r_usage r)"
    and calls: "charged u_calls (r_assessment_id r) (put_stage r d) \<le> sp_cumulative_calls sp"
    and tokens: "charged u_tokens (r_assessment_id r) (put_stage r d) \<le> sp_cumulative_tokens sp"
  shows "budget_ok (put_stage r d)"
  unfolding budget_ok_def
proof (intro conjI allI impI ballI)
  fix k assume "k \<in> fst ` set (stages (put_stage r d))"
  then show "spec_at (put_stage r d) (fst k) \<noteq> None"
    using set_update_subset [of "(r_assessment_id r, r_stage r)" r "stages d"] ok sp
    by (fastforce simp: budget_ok_def put_stage_def spec_at_def)
next
  fix aid q assume "map_of (stages (put_stage r d)) (aid, CLEANUP) = Some q"
  then show "r_usage q = no_usage"
    using ok clean by (auto simp: budget_ok_def put_stage_def update_conv split: if_splits)
next
  fix aid s assume s: "spec_at (put_stage r d) aid = Some s"
  then have old: "all_known aid d" "charged u_calls aid d \<le> sp_cumulative_calls s"
    "charged u_tokens aid d \<le> sp_cumulative_tokens s"
    using ok by (auto simp: budget_ok_def)
  show "all_known aid (put_stage r d)" using old(1) kn by (rule all_known_put_stage)
  show "charged u_calls aid (put_stage r d) \<le> sp_cumulative_calls s"
    using old calls s sp by (cases "aid = r_assessment_id r") (auto simp: charged_put_stage)
  show "charged u_tokens aid (put_stage r d) \<le> sp_cumulative_tokens s"
    using old tokens s sp by (cases "aid = r_assessment_id r") (auto simp: charged_put_stage)
qed

lemma budget_put_free:
  assumes ok: "budget_ok d" and sp: "spec_at d (r_assessment_id r) \<noteq> None"
    and free: "r_status r \<noteq> DONE \<or> r_usage r = no_usage"
    and old: "\<not> done_at d (r_assessment_id r) (r_stage r) \<or> r_stage r = CLEANUP"
    and clean: "r_stage r = CLEANUP \<Longrightarrow> r_usage r = no_usage"
  shows "budget_ok (put_stage r d)"
proof -
  obtain s where s: "spec_at d (r_assessment_id r) = Some s" using sp by blast
  have prev: "(case map_of (stages d) (r_assessment_id r, r_stage r) of
      None \<Rightarrow> 0 | Some q \<Rightarrow> charge_of f q) = 0" if "f = u_calls \<or> f = u_tokens" for f
    using old that ok charge_of_open [of d "r_assessment_id r" "r_stage r" f]
    by (auto simp: budget_ok_def split: option.splits)
  have new: "charge_of f r = 0" if "f = u_calls \<or> f = u_tokens" for f
    using free that by (auto simp: charge_of_def)
  show ?thesis
    using s prev [of u_calls] prev [of u_tokens] new [of u_calls] new [of u_tokens] ok free clean
    by (intro budget_put_stage) (auto simp: charged_put_stage budget_ok_def)
qed

lemma budget_frame:
  "budget_ok d \<Longrightarrow> stages d' = stages d \<Longrightarrow> (\<And>aid. spec_at d' aid = spec_at d aid) \<Longrightarrow> budget_ok d'"
  by (simp add: budget_ok_def charged_def all_known_def stages_of_def)

interpretation budget: ledger_contract budget_ok
proof unfold_locales
  fix d and sp :: assessment_spec
  assume ok: "budget_ok d" and new: "map_of (assessments d) (sp_assessment_id sp) = None"
    and sp: "spec_ok sp"
  have at: "spec_at (create_db sp d) aid =
      (if aid = sp_assessment_id sp then Some sp else spec_at d aid)" for aid
    using new by (simp add: spec_at_def map_of_create_db)
  have "spec_at d (sp_assessment_id sp) = None" using new by (simp add: spec_at_def)
  then have none: "stages_of (sp_assessment_id sp) d = []"
    using ok by (force simp: budget_ok_def stages_of_def filter_empty_conv)
  have zero: "charged f (sp_assessment_id sp) d = 0" "all_known (sp_assessment_id sp) d" for f
    by (simp_all add: charged_def all_known_def none)
  show "budget_ok (create_db sp d)"
    using ok sp zero unfolding budget_ok_def at by (auto simp: spec_ok_def at)
next
  fix d and r :: stage_record and sp
  assume "budget_ok d" and "spec_at d (r_assessment_id r) = Some sp"
    and "\<not> done_at d (r_assessment_id r) (r_stage r)" and "r_stage r \<noteq> CLEANUP"
    and "r_status r = DONE" and "is_known (r_usage r)"
    and "charge_fits d (r_assessment_id r) sp (r_usage r)"
  then show "budget_ok (put_stage r d)"
    using charge_of_open [of d "r_assessment_id r" "r_stage r"]
    by (intro budget_put_stage)
      (auto simp: charge_fits_def usage_of_stages charged_put_stage charge_of_def)
qed (auto intro: budget_put_free budget_frame)

section \<open>The order of the stages\<close>

definition dag_ok :: "database \<Rightarrow> bool" where
  "dag_ok d \<longleftrightarrow> (\<forall>aid st. done_at d aid st \<longrightarrow> deps_done d aid st)"

lemma stage_deps_induct:
  assumes "\<And>st. (\<And>dep. dep \<in> set (stage_deps st) \<Longrightarrow> P dep) \<Longrightarrow> P st"
  shows "P st"
proof -
  have a: "P AUTHORIZE" by (rule assms) simp
  have p: "P PREPARE" by (rule assms) (simp add: a)
  have e: "P EXECUTE" by (rule assms) (simp add: p)
  have v: "P VERIFY" by (rule assms) (simp add: e)
  have r: "P REMEDIATE" by (rule assms) (simp add: v)
  have t: "P RETEST" by (rule assms) (simp add: r)
  have o: "P REPORT" by (rule assms) (simp add: v)
  have c: "P CLEANUP" by (rule assms) simp
  show ?thesis using a p e v r t o c by (cases st) auto
qed

lemma cleanup_not_dep [simp]: "CLEANUP \<notin> set (stage_deps st)"
  by (cases st) auto

lemma deps_done_put_other:
  assumes "deps_done d aid st" and "\<not> done_at d (r_assessment_id r) (r_stage r) \<or> r_stage r = CLEANUP"
  shows "deps_done (put_stage r d) aid st"
  using assms cleanup_not_dep [of st] unfolding deps_done_def by (metis Pair_inject done_at_put_stage)

lemma dag_put_stage:
  assumes "dag_ok d" and "\<not> done_at d (r_assessment_id r) (r_stage r) \<or> r_stage r = CLEANUP"
    and "deps_done d (r_assessment_id r) (r_stage r)"
  shows "dag_ok (put_stage r d)"
  unfolding dag_ok_def
proof (intro allI impI)
  fix aid st assume "done_at (put_stage r d) aid st"
  then have "deps_done d aid st"
    using assms by (cases "(aid, st) = (r_assessment_id r, r_stage r)")
      (auto simp: done_at_put_stage dag_ok_def)
  then show "deps_done (put_stage r d) aid st" using assms(2) by (rule deps_done_put_other)
qed

lemma deps_done_cleanup [simp]: "deps_done d aid CLEANUP"
  by (simp add: deps_done_def)

lemma dag_frame: "dag_ok d \<Longrightarrow> stages d' = stages d \<Longrightarrow> dag_ok d'"
  by (simp only: dag_ok_def deps_done_def done_at_def)

interpretation dag: ledger_contract dag_ok
  by unfold_locales (auto intro: dag_put_stage dag_frame)

section \<open>Monotone facts\<close>

text \<open>A stage that is DONE keeps its row; a terminal assessment keeps its state.\<close>

definition row_kept :: "string \<Rightarrow> lifecycle_stage \<Rightarrow> stage_record \<Rightarrow> database \<Rightarrow> bool" where
  "row_kept aid st r d \<longleftrightarrow>
     (st \<noteq> CLEANUP \<and> r_status r = DONE \<longrightarrow> map_of (stages d) (aid, st) = Some r)"

interpretation kept: ledger_contract "row_kept aid st r" for aid st r
  by unfold_locales
    (auto simp: row_kept_def done_at_def put_stage_def update_conv)

definition state_kept :: "string \<Rightarrow> assessment_state \<Rightarrow> database \<Rightarrow> bool" where
  "state_kept aid s d \<longleftrightarrow> (s \<in> set terminal_states \<longrightarrow> state_at d aid = Some s)"

interpretation terminal: ledger_contract "state_kept aid s" for aid s
proof unfold_locales
  fix d i cur new m
  assume "state_kept aid s d" and "state_at d i = Some cur"
    and "new \<in> set (valid_state_transitions cur)"
  then show "state_kept aid s (move_state i cur new m d)"
    by (auto simp: state_kept_def state_at_move terminal_no_transition)
next
  fix d and sp :: assessment_spec
  assume "state_kept aid s d" and "map_of (assessments d) (sp_assessment_id sp) = None"
  then show "state_kept aid s (create_db sp d)"
    by (auto simp: state_kept_def state_at_create) (simp add: state_at_def)
qed (auto simp: state_kept_def)

end
