(* ===== verification/Dispatch.thy ===== *)
theory Dispatch
  imports Lifecycle
begin

text \<open>
  External effects of \<open>run_external_stage\<close>: which calls dispatch, what is on disk before a
  dispatch goes out, and that an idempotency key is never dispatched twice, over every
  sequence of calls and process deaths.
\<close>

section \<open>What a call does to the attempts and the dispatches\<close>

definition view :: "world \<Rightarrow> ((string \<times> lifecycle_stage \<times> string) \<times> attempt) list \<times>
    (string \<times> lifecycle_stage \<times> string) list" where
  "view w = (attempts (db w), dispatches w)"

lemma view_commit:
  "(\<And>d. attempts (f d) = attempts d) \<Longrightarrow> preserves (\<lambda>w. Q (view w)) (commit f)"
  by (rule preserves_commit) (simp add: view_def)

lemma view_audit [pres]: "preserves (\<lambda>w. Q (view w)) (audit a b c e)"
  unfolding audit_def by (rule view_commit) simp

lemma view_upsert_stage [pres]: "preserves (\<lambda>w. Q (view w)) (upsert_stage r)"
  unfolding upsert_stage_def by (rule view_commit) simp

lemma view_upsert_cleanup [pres]: "preserves (\<lambda>w. Q (view w)) (upsert_cleanup a e)"
  unfolding upsert_cleanup_def by (rule view_commit) simp

lemma view_set_state [pres]: "preserves (\<lambda>w. Q (view w)) (set_state a n m)"
  unfolding set_state_def assert_state_transition_def by (intro pres view_commit) simp

lemma view_create [pres]: "preserves (\<lambda>w. Q (view w)) (create sp)"
  unfolding create_def by (intro pres view_commit) simp

lemma view_cancel [pres]: "preserves (\<lambda>w. Q (view w)) (request_cancel a)"
  unfolding request_cancel_def by (intro view_commit) simp

lemma view_preflight [pres]: "preserves (\<lambda>w. Q (view w)) (preflight a st now)"
  unfolding preflight_def by (intro pres)

lemma view_fail [pres]: "preserves (\<lambda>w. Q (view w)) (fail_stage a st m)"
  unfolding fail_stage_def by (intro pres)

lemma view_charge [pres]: "preserves (\<lambda>w. Q (view w)) (charge_and_commit a st sp r)"
  unfolding charge_and_commit_def by (intro pres)

lemma view_outcome [pres]: "preserves (\<lambda>w. Q (view w)) (record_outcome a st sp out)"
  unfolding record_outcome_def by (intro pres)

lemma view_commit_done [pres]: "preserves (\<lambda>w. Q (view w)) (commit_stage_done a st sp t)"
  unfolding commit_stage_done_def by (intro pres)

lemma view_replay [pres]: "preserves (\<lambda>w. Q (view w)) (replay_completed a st sp t)"
  unfolding replay_completed_def by (intro pres)

lemma view_control [pres]: "preserves (\<lambda>w. Q (view w)) (commit_control_stage a st ep m)"
  unfolding commit_control_stage_def Let_def by (intro pres)

lemma view_run_stage [pres]: "preserves (\<lambda>w. Q (view w)) (run_stage a st exec now)"
  unfolding run_stage_def by (intro pres)

lemma view_compensate [pres]: "preserves (\<lambda>w. Q (view w)) (compensate_all a fixup obs ok)"
  by (induction obs arbitrary: ok) (auto simp: compensate_one_def intro!: pres)

lemma view_run_cleanup [pres]: "preserves (\<lambda>w. Q (view w)) (run_cleanup a obs fixup m)"
  unfolding run_cleanup_def by (intro pres)

lemma view_persist_final [pres]: "preserves (\<lambda>w. Q (view w)) (persist_final a s f)"
  unfolding persist_final_def by (intro pres) (auto intro!: pres split: lifecycle_error.splits)

lemma view_unreconciled [pres]: "preserves (\<lambda>w. Q (view w)) (has_unreconciled_effect a)"
  unfolding has_unreconciled_effect_def by (intro pres)

lemma view_finalize [pres]: "preserves (\<lambda>w. Q (view w)) (finalize sha a)"
  unfolding finalize_def Let_def by (intro pres)

lemma view_authorize [pres]: "preserves (\<lambda>w. Q (view w)) (authorize_assessment a ref now)"
  unfolding authorize_assessment_def by (intro pres)

lemma view_ready [pres]: "preserves (\<lambda>w. Q (view w)) (mark_ready a caps now)"
  unfolding mark_ready_def Let_def by (intro pres)

section \<open>When a call dispatches\<close>

definition sent :: "(string \<times> lifecycle_stage \<times> string) list \<Rightarrow> world \<Rightarrow> bool" where
  "sent D w \<longleftrightarrow> dispatches w = D"

lemma sent_view: "sent D = (\<lambda>w. snd (view w) = D)"
  by (simp add: sent_def view_def fun_eq_iff)

lemma sent_upsert_attempt [pres]: "preserves (sent D) (upsert_attempt a)"
  unfolding upsert_attempt_def by (rule preserves_commit) (simp add: sent_def)

lemma sent_of_view: "(\<And>Q. preserves (\<lambda>w. Q (view w)) m) \<Longrightarrow> preserves (sent D) m"
  unfolding sent_view .

lemma sent_ops [pres]:
  "preserves (sent D) (audit a b c e)" "preserves (sent D) (upsert_stage r)"
  "preserves (sent D) (set_state a n m)" "preserves (sent D) (fail_stage a st m)"
  "preserves (sent D) (commit_stage_done a st sp t)" "preserves (sent D) (replay_completed a st sp t)"
  "preserves (sent D) (preflight a st now)"
  by (rule sent_of_view, rule pres)+

lemma sent_supersede [pres]: "preserves (sent D) (supersede a)"
  unfolding supersede_def by (rule pres)

lemma sent_response [pres]: "preserves (sent D) (record_response a st sp t out)"
  unfolding record_response_def Let_def by (intro pres)

lemma sent_settle [pres]: "preserves (sent D) (settle_unknown a st sp x atts)"
  unfolding settle_unknown_def reconcile_unknown_def reissue_guard_def Let_def by (intro pres)

lemma fresh_attempt_simps [simp]:
  "a_assessment_id (fresh_attempt aid st x n) = aid" "a_stage (fresh_attempt aid st x n) = st"
  "a_key (fresh_attempt aid st x n) = effective_key (x_key x) n"
  "a_no (fresh_attempt aid st x n) = n" "a_status (fresh_attempt aid st x n) = PREPARED"
  by (simp_all add: fresh_attempt_def)

text \<open>A new attempt sends at most one dispatch, under its own key.\<close>

lemma open_attempt_sent:
  assumes "dispatches w = D"
    and "open_attempt aid st sp dispatch x up atts w = (r, t)"
  shows "dispatches t = D \<or> dispatches t = D @ [(aid, st, effective_key (x_key x) (length atts + 1))]"
proof -
  let ?a = "fresh_attempt aid st x (length atts + 1)"
  let ?k = "(aid, st, effective_key (x_key x) (length atts + 1))"
  let ?d = "?a\<lparr>a_status := DISPATCHED, a_dispatched := True\<rparr>"
  let ?P = "\<lambda>w. dispatches w = D \<or> dispatches w = D @ [?k]"
  have up: "preserves ?P m" if "\<And>E. preserves (sent E) m" for m :: "'b lc"
    using that unfolding preserves_def sent_def by blast
  let ?tail = "thenE (emit aid st (a_key ?a))
      (case dispatch (context_of aid st sp up) (a_key ?a) of
         None \<Rightarrow> throwE ExecutorRaised
       | Some out \<Rightarrow> record_response aid st sp ?d out)"
  have body: "preserves ?P (case dispatch (context_of aid st sp up) (a_key ?a) of
         None \<Rightarrow> throwE ExecutorRaised
       | Some out \<Rightarrow> record_response aid st sp ?d out)"
    by (intro pres up)
  have tail: "triple (sent D) ?tail (\<lambda>_. ?P)"
    unfolding emit_def by (rule triple_modify [OF _ triple_of_preserves [OF body]])
      (auto simp: sent_def)
  have "triple (sent D) (open_attempt aid st sp dispatch x up atts) (\<lambda>_. ?P)"
    unfolding open_attempt_def Let_def
    by (intro triple_then pres tail) (simp_all add: sent_def)
  then show ?thesis using assms by (fastforce simp: triple_def sent_def)
qed

text \<open>Passing the guard on an unknown effect takes the authorizations.\<close>

lemma reissue_guard_Inr:
  assumes "reissue_guard aid st x unknown w = (Inr u, t)"
  shows "x_new_attempt x \<noteq> [] \<and> (x_paid x \<or> a_paid (last unknown) \<longrightarrow> x_operator x \<noteq> [])"
  using assms unfolding reissue_guard_def Let_def
  by (auto simp: rejectE_run bindE_run split: if_splits prod.splits sum.splits)

lemma settle_Inr_None:
  assumes "settle_unknown aid st sp x atts w = (Inr None, t)"
    and "filter outcome_unknown atts \<noteq> []"
  shows "x_new_attempt x \<noteq> [] \<and>
    (x_paid x \<or> a_paid (last (filter outcome_unknown atts)) \<longrightarrow> x_operator x \<noteq> [])"
  using assms unfolding settle_unknown_def Let_def
  by (auto elim!: bindE_InrE split: option.splits dest: reissue_guard_Inr)

section \<open>Idempotency keys\<close>

type_synonym attempt_rows = "((string \<times> lifecycle_stage \<times> string) \<times> attempt) list"

definition count_rows :: "string \<Rightarrow> lifecycle_stage \<Rightarrow> attempt_rows \<Rightarrow> nat" where
  "count_rows aid st rows = length (filter (\<lambda>((i, s, _), _). i = aid \<and> s = st) rows)"

definition attempt_key :: "attempt \<Rightarrow> string \<times> lifecycle_stage \<times> string" where
  "attempt_key a = (a_assessment_id a, a_stage a, a_key a)"

text \<open>A row in use: numbered within its stage, under the key its number gives.\<close>

definition slot :: "attempt_rows \<Rightarrow> attempt \<Rightarrow> bool" where
  "slot rows a \<longleftrightarrow> attempt_key a \<in> fst ` set rows \<and> 1 \<le> a_no a \<and>
     a_no a \<le> count_rows (a_assessment_id a) (a_stage a) rows \<and>
     (\<exists>b. CHR ''#'' \<notin> set b \<and> a_key a = effective_key b (a_no a))"

definition same_slot :: "attempt \<Rightarrow> attempt \<Rightarrow> bool" where
  "same_slot a b \<longleftrightarrow> attempt_key a = attempt_key b \<and> a_no a = a_no b"

definition keyed :: "attempt_rows \<times> (string \<times> lifecycle_stage \<times> string) list \<Rightarrow> bool" where
  "keyed v \<longleftrightarrow> (case v of (rows, disp) \<Rightarrow>
     distinct_keys rows \<and> (\<forall>r \<in> set rows. fst r = attempt_key (snd r) \<and> slot rows (snd r)) \<and>
     distinct disp \<and> (\<forall>k \<in> set disp. \<exists>a. map_of rows k = Some a \<and> a_status a \<noteq> PREPARED))"

lemma hash_not_digit: "CHR ''#'' \<notin> set (nat_str n)"
proof
  assume "CHR ''#'' \<in> set (nat_str n)"
  from nat_str_digits [OF this] show False by (simp add: less_eq_char_def)
qed

lemma effective_key_inject:
  assumes "effective_key b m = effective_key c n" and "CHR ''#'' \<notin> set b" and "CHR ''#'' \<notin> set c"
  shows "m = n"
proof (cases "m = 1 \<or> n = 1")
  case True
  with assms show ?thesis by (auto simp: effective_key_def split: if_splits)
next
  case False
  with assms(1) have "b @ CHR ''#'' # nat_str m = c @ CHR ''#'' # nat_str n"
    by (simp add: effective_key_def)
  then have "split_on CHR ''#'' (b @ CHR ''#'' # nat_str m) = split_on CHR ''#'' (c @ CHR ''#'' # nat_str n)"
    by (rule arg_cong)
  then show ?thesis
    using assms(2,3) by (simp add: split_on_append split_on_none hash_not_digit)
qed

lemma count_rows_update_old:
  "k \<in> fst ` set rows \<Longrightarrow> count_rows i s (AList.update k v rows) = count_rows i s rows"
  by (induction rows) (auto simp: count_rows_def)

lemma update_new: "k \<notin> fst ` set rows \<Longrightarrow> AList.update k v rows = rows @ [(k, v)]"
  by (induction rows) auto

lemma slot_same: "slot rows b \<Longrightarrow> same_slot a b \<Longrightarrow> slot rows a"
  by (auto simp: slot_def same_slot_def attempt_key_def)

lemma slot_update_old:
  "k \<in> fst ` set rows \<Longrightarrow> slot rows a \<Longrightarrow> slot (AList.update k v rows) a"
  by (auto simp: slot_def count_rows_update_old dom_update)

lemma slot_append: "slot rows a \<Longrightarrow> slot (rows @ [r]) a"
  by (auto simp: slot_def count_rows_def intro: le_trans)

lemma keyed_update_old:
  assumes k: "keyed (rows, disp)" and a: "slot rows a" and s: "a_status a \<noteq> PREPARED"
  shows "keyed (AList.update (attempt_key a) a rows, disp)"
proof -
  have mem: "attempt_key a \<in> fst ` set rows" using a by (simp add: slot_def)
  have row: "fst r = attempt_key (snd r) \<and> slot (AList.update (attempt_key a) a rows) (snd r)"
    if in_new: "r \<in> set (AList.update (attempt_key a) a rows)" for r
  proof -
    from in_new set_update_subset have "r = (attempt_key a, a) \<or> r \<in> set rows" by fastforce
    then have "fst r = attempt_key (snd r) \<and> slot rows (snd r)" using k a by (auto simp: keyed_def)
    then show ?thesis using slot_update_old [OF mem] by simp
  qed
  have disp: "\<exists>b. map_of (AList.update (attempt_key a) a rows) j = Some b \<and> a_status b \<noteq> PREPARED"
    if "j \<in> set disp" for j
    using that k s by (auto simp: keyed_def update_conv)
  show ?thesis using k row disp by (simp add: keyed_def)
qed

lemma keyed_append:
  assumes k: "keyed (rows, disp)" and new: "attempt_key a \<notin> fst ` set rows"
    and no: "a_no a = count_rows (a_assessment_id a) (a_stage a) rows + 1"
    and b: "CHR ''#'' \<notin> set b" "a_key a = effective_key b (a_no a)"
  shows "keyed (rows @ [(attempt_key a, a)], disp) \<and> slot (rows @ [(attempt_key a, a)]) a \<and>
    attempt_key a \<notin> set disp"
proof -
  have own: "slot (rows @ [(attempt_key a, a)]) a"
    using no b by (auto simp: slot_def count_rows_def attempt_key_def)
  have "attempt_key a \<notin> set disp"
  proof
    assume "attempt_key a \<in> set disp"
    then obtain x where "map_of rows (attempt_key a) = Some x" using k by (auto simp: keyed_def)
    then show False using new by (metis map_of_SomeD fst_conv imageI)
  qed
  moreover have "map_of (rows @ [(attempt_key a, a)]) j = map_of rows j" if "j \<in> set disp" for j
    using that k by (fastforce simp: keyed_def map_add_def)
  ultimately show ?thesis
    using k own new slot_append [where r = "(attempt_key a, a)"]
    by (fastforce simp: keyed_def distinct_keys_def)
qed

text \<open>The next key of a stage is not in use.\<close>

lemma fresh_key_new:
  assumes k: "keyed (rows, disp)" and h: "CHR ''#'' \<notin> set (x_key x)"
    and n: "n = count_rows aid st rows + 1"
  shows "attempt_key (fresh_attempt aid st x n) \<notin> fst ` set rows"
proof
  assume "attempt_key (fresh_attempt aid st x n) \<in> fst ` set rows"
  then obtain a where a: "(attempt_key (fresh_attempt aid st x n), a) \<in> set rows" by auto
  with k have "attempt_key a = (aid, st, effective_key (x_key x) n)" "slot rows a"
    by (auto simp: keyed_def attempt_key_def)
  with h n show False
    by (auto simp: slot_def attempt_key_def dest: effective_key_inject)
qed

section \<open>Every call keeps the keys\<close>

definition tracked ::
  "attempt set \<Rightarrow> string \<Rightarrow> lifecycle_stage \<Rightarrow> nat
    \<Rightarrow> attempt_rows \<times> (string \<times> lifecycle_stage \<times> string) list \<Rightarrow> bool" where
  "tracked A aid st n v \<longleftrightarrow>
     keyed v \<and> (\<forall>a \<in> A. slot (fst v) a) \<and> count_rows aid st (fst v) = n"

lemma tracked_keyed: "tracked A aid st n v \<Longrightarrow> keyed v"
  by (simp add: tracked_def)

lemma triple_tracked:
  "preserves (\<lambda>w. tracked A aid st n (view w)) m \<Longrightarrow>
   triple (\<lambda>w. tracked A aid st n (view w)) m (\<lambda>_ w. keyed (view w))"
  unfolding triple_snd by (blast intro: tracked_keyed dest: preservesD)

lemma view_put_attempt [simp]:
  "view (w\<lparr>db := put_attempt a (db w), writes_left := m\<rparr>) =
     (AList.update (attempt_key a) a (fst (view w)), snd (view w))"
  by (simp add: view_def put_attempt_def attempt_key_def)

lemma tracked_put [pres]:
  assumes "b \<in> A" and "same_slot a b" and "a_status a \<noteq> PREPARED"
  shows "preserves (\<lambda>w. tracked A aid st n (view w)) (upsert_attempt a)"
  unfolding upsert_attempt_def
proof (rule preserves_commit)
  fix w m assume w: "tracked A aid st n (view w)"
  then have a: "slot (attempts (db w)) a" using assms by (auto simp: tracked_def view_def intro: slot_same)
  then have mem: "attempt_key a \<in> fst ` set (attempts (db w))" by (simp add: slot_def)
  show "tracked A aid st n (view (w\<lparr>db := put_attempt a (db w), writes_left := m\<rparr>))"
    using w keyed_update_old [OF _ a assms(3), of "dispatches w"] slot_update_old [OF mem]
      count_rows_update_old [OF mem]
    by (auto simp: tracked_def view_def put_attempt_def attempt_key_def [symmetric])
qed

lemma tracked_supersede [pres]:
  "a \<in> A \<Longrightarrow> preserves (\<lambda>w. tracked A aid st n (view w)) (supersede a)"
  unfolding supersede_def
  by (rule tracked_put) (auto simp: same_slot_def attempt_key_def)

lemma tracked_settle [pres]:
  assumes "set atts \<subseteq> A"
  shows "preserves (\<lambda>w. tracked A aid st n (view w)) (settle_unknown i s sp x atts)"
proof -
  have last: "last (filter outcome_unknown atts) \<in> A" if "filter outcome_unknown atts \<noteq> []"
    using last_in_set [OF that] assms by auto
  then have "preserves (\<lambda>w. tracked A aid st n (view w))
      (reconcile_unknown i s sp x (last (filter outcome_unknown atts)))"
    if "filter outcome_unknown atts \<noteq> []"
    using that unfolding reconcile_unknown_def Let_def
    by (intro pres) (auto simp: same_slot_def attempt_key_def adopted_attempt_def)
  moreover have "preserves (\<lambda>w. tracked A aid st n (view w))
      (reissue_guard i s x (filter outcome_unknown atts))"
    unfolding reissue_guard_def Let_def using assms by (intro pres) auto
  ultimately show ?thesis
    unfolding settle_unknown_def Let_def by (intro pres)
qed

lemma tracked_response [pres]:
  "b \<in> A \<Longrightarrow> same_slot a b \<Longrightarrow>
   preserves (\<lambda>w. tracked A aid st n (view w)) (record_response i s sp a out)"
  unfolding record_response_def Let_def
  by (intro pres) (auto simp: same_slot_def attempt_key_def)

text \<open>The new attempt's row, before and after it is marked DISPATCHED.\<close>

definition opened ::
  "attempt \<Rightarrow> nat \<Rightarrow> bool \<Rightarrow> attempt_rows \<times> (string \<times> lifecycle_stage \<times> string) list \<Rightarrow> bool" where
  "opened a n sent_ok v \<longleftrightarrow>
     tracked {a} (a_assessment_id a) (a_stage a) n v \<and> attempt_key a \<notin> set (snd v) \<and>
     (sent_ok \<longrightarrow> (\<exists>b. map_of (fst v) (attempt_key a) = Some b \<and> a_status b \<noteq> PREPARED))"

lemma opened_mark:
  assumes o: "opened a n False (rows, disp)" and d: "same_slot d a" and s: "a_status d \<noteq> PREPARED"
  shows "opened a n True (AList.update (attempt_key d) d rows, disp)"
proof -
  have sl: "slot rows d" and k: "keyed (rows, disp)"
    using o slot_same [OF _ d] by (simp_all add: opened_def tracked_def)
  then have mem: "attempt_key d \<in> fst ` set rows" by (simp add: slot_def)
  have "keyed (AList.update (attempt_key d) d rows, disp)" by (rule keyed_update_old [OF k sl s])
  moreover have "slot (AList.update (attempt_key d) d rows) a"
    using o slot_update_old [OF mem] by (simp add: opened_def tracked_def)
  moreover have "map_of (AList.update (attempt_key d) d rows) (attempt_key a) = Some d"
    using d by (simp add: same_slot_def update_conv)
  ultimately show ?thesis
    using o s count_rows_update_old [OF mem] by (simp add: opened_def tracked_def)
qed

lemma commit_triple:
  assumes "\<And>w n. P w \<Longrightarrow> R (w\<lparr>db := f (db w), writes_left := n\<rparr>)" and "\<And>w. P w \<Longrightarrow> Q w"
    and "\<And>a. triple R (m a) (\<lambda>_. Q)"
  shows "triple P (bindE (commit f) m) (\<lambda>_. Q)"
proof (rule triple_bindE)
  show "triple P (commit f) (\<lambda>r t. case r of Inl e \<Rightarrow> Q t | Inr a \<Rightarrow> R t)"
  proof (rule tripleI)
    fix w r t assume "P w" and "commit f w = (r, t)"
    then show "case r of Inl e \<Rightarrow> Q t | Inr a \<Rightarrow> R t"
      using commit_run [of f w] assms(1,2) by auto
  qed
qed (rule assms(3))

lemma open_attempt_keyed:
  assumes h: "CHR ''#'' \<notin> set (x_key x)"
  shows "triple (\<lambda>w. tracked (set atts) aid st (length atts) (view w))
    (open_attempt aid st sp dispatch x up atts) (\<lambda>_ w. keyed (view w))"
proof -
  let ?n = "length atts + 1"
  let ?a = "fresh_attempt aid st x ?n"
  let ?d = "?a\<lparr>a_status := DISPATCHED, a_dispatched := True\<rparr>"
  let ?T = "\<lambda>w. tracked (set atts) aid st (length atts) (view w)"
  let ?O = "\<lambda>b w. opened ?a ?n b (view w)"
  let ?K = "\<lambda>_ w. keyed (view w)"
  let ?k = "effective_key (x_key x) ?n"
  let ?tail = "case dispatch (context_of aid st sp up) (a_key ?a) of
         None \<Rightarrow> throwE ExecutorRaised
       | Some out \<Rightarrow> record_response aid st sp ?d out"
  have slot_d: "same_slot ?d ?a" by (simp add: same_slot_def attempt_key_def)
  have tail: "triple (\<lambda>w. tracked {?a} aid st ?n (view w)) ?tail ?K"
    by (intro triple_tracked pres tracked_response [OF singletonI slot_d])
  have emit: "triple (?O True) (thenE (emit aid st (a_key ?a)) ?tail) ?K"
    unfolding emit_def by (rule triple_modify [OF _ tail])
      (auto simp: opened_def tracked_def view_def keyed_def attempt_key_def)
  have mark: "triple (?O False) (thenE (upsert_attempt ?d) (thenE (audit aid c e m)
      (thenE (emit aid st (a_key ?a)) ?tail))) ?K" for c e m
    unfolding upsert_attempt_def
  proof (rule commit_triple)
    fix w n assume "?O False w"
    then have "opened ?a ?n False (fst (view w), snd (view w))" by simp
    then show "?O True (w\<lparr>db := put_attempt ?d (db w), writes_left := n\<rparr>)"
      unfolding view_put_attempt by (rule opened_mark [OF _ slot_d]) simp
  next
    show "?O False w \<Longrightarrow> keyed (view w)" for w by (simp add: opened_def tracked_def)
  next
    show "triple (?O True) (thenE (audit aid c e m) (thenE (emit aid st (a_key ?a)) ?tail)) ?K" for a
      by (intro triple_then [where P = "?O True"] emit pres) (simp add: opened_def tracked_def)
  qed
  have mid: "triple (?O False) (thenE (set_state aid s r) (thenE (upsert_stage q)
      (thenE (upsert_attempt ?d) (thenE (audit aid c e m)
      (thenE (emit aid st (a_key ?a)) ?tail))))) ?K" for s r q c e m
    by (intro triple_then mark pres) (auto simp: opened_def tracked_def)
  have new: "triple ?T (thenE (upsert_attempt ?a) (thenE (set_state aid s r) (thenE (upsert_stage q)
      (thenE (upsert_attempt ?d) (thenE (audit aid c e m)
      (thenE (emit aid st (a_key ?a)) ?tail)))))) ?K" for s r q c e m
    unfolding upsert_attempt_def [of ?a]
  proof (rule commit_triple [OF _ _ mid])
    fix w n assume w: "?T w"
    then have k: "keyed (attempts (db w), dispatches w)" and c: "?n = count_rows aid st (attempts (db w)) + 1"
      by (auto simp: tracked_def view_def)
    note fresh = fresh_key_new [where x = x, OF k h c]
    have "keyed (attempts (db w) @ [(attempt_key ?a, ?a)], dispatches w) \<and>
        slot (attempts (db w) @ [(attempt_key ?a, ?a)]) ?a \<and> attempt_key ?a \<notin> set (dispatches w)"
      by (rule keyed_append [OF k fresh _ h]) (use c in simp_all)
    then show "?O False (w\<lparr>db := put_attempt ?a (db w), writes_left := n\<rparr>)"
      using update_new [OF fresh] c
      by (simp add: opened_def tracked_def view_def put_attempt_def attempt_key_def count_rows_def)
  next
    show "?T w \<Longrightarrow> keyed (view w)" for w by (simp add: tracked_def)
  qed
  show ?thesis
    unfolding open_attempt_def Let_def
    by (intro triple_then [where P = ?T] new pres) (auto simp: tracked_def)
qed

lemma attempts_of_tracked:
  assumes "keyed (view w)"
  shows "tracked (set (attempts_of aid st (db w))) aid st (length (attempts_of aid st (db w))) (view w)"
  using assms by (auto simp: tracked_def attempts_of_def count_rows_def view_def keyed_def)

lemma keyed_run_external:
  assumes h: "CHR ''#'' \<notin> set (x_key x)"
  shows "preserves (\<lambda>w. keyed (view w)) (run_external_stage aid st dispatch x now)"
proof -
  have "triple (\<lambda>w. keyed (view w)) (run_external_stage aid st dispatch x now) (\<lambda>_ w. keyed (view w))"
    unfolding run_external_stage_def
  proof (intro triple_then pres)
    fix spec existing
    let ?rest = "\<lambda>upstream atts. case find (\<lambda>a. a_status a = COMPLETED) atts of
         Some a \<Rightarrow> replay_completed aid st spec a
       | None \<Rightarrow>
           bindE (settle_unknown aid st spec x atts) (\<lambda>settled.
           case settled of
             Some r \<Rightarrow> retE r
           | None \<Rightarrow> open_attempt aid st spec dispatch x upstream atts)"
    have rest: "triple (\<lambda>w. tracked (set atts) aid st (length atts) (view w)) (?rest up atts)
        (\<lambda>_ w. keyed (view w))" for up atts
    proof (cases "find (\<lambda>a. a_status a = COMPLETED) atts")
      case None
      have "triple (\<lambda>w. tracked (set atts) aid st (length atts) (view w))
          (case settled of Some r \<Rightarrow> retE r | None \<Rightarrow> open_attempt aid st spec dispatch x up atts)
          (\<lambda>_ w. keyed (view w))" for settled
        using open_attempt_keyed [OF h]
        by (cases settled) (auto simp: triple_def tracked_def)
      then show ?thesis
        unfolding None option.case(1)
        by (intro triple_then [where P = "\<lambda>w. tracked (set atts) aid st (length atts) (view w)"] pres)
          (simp_all add: tracked_def)
    next
      case (Some a)
      have "preserves (\<lambda>w. keyed (view w)) (replay_completed aid st spec a)" by (rule pres)
      with Some show ?thesis
        by (auto intro!: triple_of_preserves simp: triple_def preserves_def tracked_def split: prod.splits)
    qed
    have upto: "triple (\<lambda>w. keyed (view w))
        (bindE (attempts_for aid st) (\<lambda>atts. ?rest up atts)) (\<lambda>_ w. keyed (view w))" for up
      using rest [where up = up] attempts_of_tracked
      by (fastforce simp: triple_def bindE_run split: prod.splits)
    show "triple (\<lambda>w. keyed (view w))
       (if (case existing of None \<Rightarrow> False | Some r \<Rightarrow> r_status r = DONE) then retE (the existing)
        else bindE (upstream_evidence aid st spec) (\<lambda>upstream.
          bindE (attempts_for aid st) (\<lambda>atts. ?rest upstream atts))) (\<lambda>_ w. keyed (view w))"
      by (intro triple_if triple_retE triple_then [where P = "\<lambda>w. keyed (view w)"] pres upto)
  qed
  then show ?thesis by (simp add: triple_snd preserves_def)
qed

fun hash_free :: "lc_op \<Rightarrow> bool" where
  "hash_free (Op_External aid st dispatch x now) = (CHR ''#'' \<notin> set (x_key x))"
| "hash_free _ = True"

lemma keyed_exec: "hash_free op \<Longrightarrow> preserves (\<lambda>w. keyed (view w)) (exec_op op)"
  by (cases op) (auto intro!: pres keyed_run_external)

lemma reach_keyed: "reach hash_free w \<Longrightarrow> keyed (view w)"
proof (induction rule: reach.induct)
  case (start w)
  then show ?case by (simp add: initial_def view_def keyed_def empty_db_def)
next
  case (step w op n)
  then have "keyed (view (w\<lparr>writes_left := n\<rparr>))" by (simp add: view_def)
  with keyed_exec [OF step.hyps(2)] show ?case by (simp add: call_def preserves_def)
qed

end
