(* ===== verification/Lifecycle_Props.thy ===== *)
theory Lifecycle_Props
  imports Dispatch
begin

text \<open>
  The properties of the assessment lifecycle, over every reachable database, with a concrete
  assessment (\<open>demo_spec\<close>) for the witnesses.
\<close>

section \<open>Row keys\<close>

definition rows_ok :: "database \<Rightarrow> bool" where
  "rows_ok d \<longleftrightarrow> distinct_keys (stages d) \<and>
     (\<forall>r \<in> set (stages d). fst r = (r_assessment_id (snd r), r_stage (snd r)))"

lemma rows_ok_put_stage: "rows_ok d \<Longrightarrow> rows_ok (put_stage r d)"
  using set_update_subset [of "(r_assessment_id r, r_stage r)" r "stages d"]
  by (fastforce simp: rows_ok_def put_stage_def)

lemma rows_ok_frame: "rows_ok d \<Longrightarrow> stages d' = stages d \<Longrightarrow> rows_ok d'"
  by (auto simp: rows_ok_def)

interpretation rows: ledger_contract rows_ok
  by unfold_locales (auto intro: rows_ok_put_stage rows_ok_frame)

lemma stage_of_done:
  assumes "rows_ok d"
  shows "(case stage_of (stages_of aid d) st of None \<Rightarrow> False | Some r \<Rightarrow> r_status r = DONE)
    \<longrightarrow> done_at d aid st"
proof (cases "stage_of (stages_of aid d) st")
  case (Some r)
  then have r: "r \<in> set (stages_of aid d)" "r_stage r = st"
    by (auto simp: stage_of_def find_Some_iff set_conv_nth)
  then obtain k where k: "(k, r) \<in> set (stages d)" "fst k = aid"
    by (auto simp: stages_of_def)
  with assms r have "k = (aid, st)" by (fastforce simp: rows_ok_def)
  with k assms have "map_of (stages d) (aid, st) = Some r"
    by (simp add: rows_ok_def distinct_keys_def)
  with Some show ?thesis by (simp add: done_at_def)
qed simp

section \<open>A concrete assessment\<close>

definition aid0 :: string where "aid0 = ''asmt-0123456789abcdef''"

definition demo_spec :: assessment_spec where
  "demo_spec = \<lparr>sp_assessment_id = aid0, sp_campaign_id = ''camp'', sp_run_epoch = 3,
     sp_required_stages = [AUTHORIZE, EXECUTE], sp_cumulative_calls = 5, sp_cumulative_tokens = 100,
     sp_per_stage_calls = 4, sp_per_stage_tokens = 80, sp_authorization_reference = ''auth-1'',
     sp_lease_expires_at = 1000, sp_activation_required = [''cap'']\<rparr>"

definition w0 :: world where
  "w0 = \<lparr>db = empty_db, writes_left = None, dispatches = []\<rparr>"

definition ok_outcome :: stage_outcome where
  "ok_outcome = \<lparr>o_ok = True, o_produced_epoch = 3, o_evidence = None, o_side_effect_token = [],
     o_usage = \<lparr>u_calls = Known 2, u_tokens = Known 50, u_tools = Known 1\<rparr>, o_detail = []\<rparr>"

definition demo_call :: external_call where
  "demo_call = \<lparr>x_key = ''k'', x_reconcilable = False, x_reconcile = None, x_paid = True,
     x_new_attempt = [], x_operator = []\<rparr>"

definition to_ready :: "(lc_op \<times> nat option) list" where
  "to_ready = [(Op_Create demo_spec, None), (Op_Authorize aid0 ''auth-1'' 10, None),
     (Op_Ready aid0 [''cap''] 11, None)]"

definition to_execute :: "(lc_op \<times> nat option) list" where
  "to_execute = to_ready @ [(Op_External aid0 EXECUTE (\<lambda>_ _. Some ok_outcome) demo_call 12, None)]"

lemma reach_fold:
  "reach ok w \<Longrightarrow> (\<And>op n. (op, n) \<in> set cs \<Longrightarrow> ok op) \<Longrightarrow> reach ok (fold call cs w)"
proof (induction cs arbitrary: w)
  case (Cons c cs)
  obtain op n where c: "c = (op, n)" by (cases c)
  from Cons.prems c have "reach ok (call c w)" by (auto intro: reach.step)
  moreover have "ok o'" if "(o', n') \<in> set cs" for o' n'
    by (rule Cons.prems(2) [of o' n']) (use that in simp)
  ultimately show ?case using Cons.IH by simp
qed simp

lemma reach_w0: "reach ok w0"
  by (rule reach.start) (simp add: initial_def w0_def)

lemma demo_usual: "(op, n) \<in> set to_execute \<Longrightarrow> usual op \<and> hash_free op"
  by (auto simp: to_execute_def to_ready_def spec_ok_def demo_spec_def demo_call_def)

lemma reach_demo: "reach usual (fold call to_execute w0)" "reach hash_free (fold call to_execute w0)"
  using demo_usual by (auto intro!: reach_fold reach_w0)

lemma usual_demo: "\<forall>c \<in> set to_execute. usual (fst c)"
  using demo_usual by (metis prod.collapse)

section \<open>Properties of every reachable ledger\<close>

text \<open>C3: the transition log of an assessment is a legal path of the state machine, starting at
  its creation, and ends in the stored state: the log replays to the current state, after any
  calls and any crashes.\<close>

theorem transition_log_replays:
  assumes "reach usual w" and "map_of (assessments (db w)) aid = Some row"
  shows "legal_path None (history aid (db w)) \<and> history aid (db w) \<noteq> [] \<and>
    snd (last (history aid (db w))) = ar_state row"
proof -
  have "log_ok (db w)"
    using assms(1) by (rule log.reach_holds) (simp add: log_ok_def state_at_def history_def empty_db_def)
  from log_okD(2) [OF this, of aid "ar_state row"] assms(2) show ?thesis
    by (simp add: state_at_def)
qed

theorem transition_log_replays_witness:
  "legal_path None (history aid0 (db (fold call to_execute w0))) \<and>
   history aid0 (db (fold call to_execute w0)) \<noteq> [] \<and>
   snd (last (history aid0 (db (fold call to_execute w0)))) = S_RUNNING"
proof -
  have "map_option ar_state (map_of (assessments (db (fold call to_execute w0))) aid0) = Some S_RUNNING"
    by code_simp
  then obtain row where row: "map_of (assessments (db (fold call to_execute w0))) aid0 = Some row"
    "ar_state row = S_RUNNING" by auto
  from transition_log_replays [OF reach_demo(1) row(1)] row(2) show ?thesis by simp
qed

text \<open>C10: the usage committed with DONE stages is always measured and never exceeds the
  cumulative call and token budget of the assessment's specification, whatever executors report
  and wherever processes die.\<close>

theorem cumulative_budget_kept:
  assumes "reach usual w" and "map_of (assessments (db w)) aid = Some row"
  shows "case usage_of (stages_of aid (db w)) of (calls, tokens, _, complete) \<Rightarrow>
    complete \<and> calls \<le> sp_cumulative_calls (ar_spec row) \<and> tokens \<le> sp_cumulative_tokens (ar_spec row)"
proof -
  have "budget_ok (db w)"
    using assms(1) by (rule budget.reach_holds) (simp add: budget_ok_def spec_at_def empty_db_def)
  with assms(2) show ?thesis by (simp add: budget_ok_def spec_at_def usage_of_stages)
qed

theorem cumulative_budget_kept_witness:
  "case usage_of (stages_of aid0 (db (fold call to_execute w0))) of (calls, tokens, _, complete) \<Rightarrow>
     complete \<and> calls \<le> 5 \<and> tokens \<le> 100"
proof -
  have "map_option ar_spec (map_of (assessments (db (fold call to_execute w0))) aid0) = Some demo_spec"
    by code_simp
  then obtain row where row: "map_of (assessments (db (fold call to_execute w0))) aid0 = Some row"
    "ar_spec row = demo_spec" by auto
  from cumulative_budget_kept [OF reach_demo(1) row(1)] row(2) show ?thesis
    by (simp add: demo_spec_def)
qed

text \<open>A stage that is DONE keeps its row (evidence, usage, epoch) through every further
  sequence of calls and crashes: its work is never repeated and its charge never changes.\<close>

theorem done_stage_is_final:
  assumes "map_of (stages (db w)) (aid, st) = Some r" and "r_status r = DONE" and "st \<noteq> CLEANUP"
    and "\<forall>c \<in> set cs. usual (fst c)"
  shows "map_of (stages (db (fold call cs w))) (aid, st) = Some r"
proof -
  have "row_kept aid st r (db w)" using assms by (simp add: row_kept_def)
  from kept.holds_calls [OF this assms(4)] assms show ?thesis by (simp add: row_kept_def)
qed

theorem done_stage_is_final_witness:
  "map_of (stages (db (fold call to_execute (fold call to_ready w0)))) (aid0, AUTHORIZE) =
     Some ((stage_record_of aid0 AUTHORIZE DONE)\<lparr>r_produced_epoch := Some 3\<rparr>)"
proof -
  have r: "map_of (stages (db (fold call to_ready w0))) (aid0, AUTHORIZE) =
     Some ((stage_record_of aid0 AUTHORIZE DONE)\<lparr>r_produced_epoch := Some 3\<rparr>)"
    by code_simp
  show ?thesis by (rule done_stage_is_final [OF r _ _ usual_demo]) simp_all
qed

text \<open>The stages complete in the order of the dependency graph: when a stage is DONE, all
  stages it depends on are, down to the authorization.\<close>

theorem stages_complete_in_order:
  assumes "reach usual w" and "done_at (db w) aid st" and "st \<noteq> CLEANUP"
  shows "deps_done (db w) aid st \<and> done_at (db w) aid AUTHORIZE"
proof -
  have dag: "dag_ok (db w)"
    using assms(1) by (rule dag.reach_holds) (simp add: dag_ok_def done_at_def empty_db_def)
  have "st \<noteq> CLEANUP \<longrightarrow> done_at (db w) aid st \<longrightarrow> done_at (db w) aid AUTHORIZE" for st
  proof (rule stage_deps_induct [of "\<lambda>st. st \<noteq> CLEANUP \<longrightarrow> done_at (db w) aid st \<longrightarrow> done_at (db w) aid AUTHORIZE"])
    fix s
    assume IH: "\<And>dep. dep \<in> set (stage_deps s) \<Longrightarrow>
      dep \<noteq> CLEANUP \<longrightarrow> done_at (db w) aid dep \<longrightarrow> done_at (db w) aid AUTHORIZE"
    show "s \<noteq> CLEANUP \<longrightarrow> done_at (db w) aid s \<longrightarrow> done_at (db w) aid AUTHORIZE"
      using dag IH by (cases s) (force simp: dag_ok_def deps_done_def)+
  qed
  with dag assms show ?thesis by (simp add: dag_ok_def)
qed

theorem stages_complete_in_order_witness:
  "done_at (db (fold call to_execute w0)) aid0 EXECUTE \<and>
   deps_done (db (fold call to_execute w0)) aid0 EXECUTE"
proof -
  have d: "done_at (db (fold call to_execute w0)) aid0 EXECUTE" by code_simp
  with stages_complete_in_order [OF reach_demo(1) d] show ?thesis by simp
qed

text \<open>A terminal assessment (COMPLETED, PARTIAL, FAILED, CANCELLED, CLEANUP_FAILED) never
  leaves its state, whatever is called on it afterwards.\<close>

theorem terminal_state_is_final:
  assumes "map_option ar_state (map_of (assessments (db w)) aid) = Some s"
    and "s \<in> set terminal_states" and "\<forall>c \<in> set cs. usual (fst c)"
  shows "map_option ar_state (map_of (assessments (db (fold call cs w))) aid) = Some s"
proof -
  have "state_kept aid s (db w)" using assms by (simp add: state_kept_def state_at_def)
  from terminal.holds_calls [OF this assms(3)] assms(2) show ?thesis
    by (simp add: state_kept_def state_at_def)
qed

definition sealed :: world where
  "sealed = fold call (to_ready @ [(Op_Finalize (\<lambda>_. []) aid0, None)]) w0"

theorem terminal_state_is_final_witness:
  "map_option ar_state (map_of (assessments (db (fold call to_execute sealed))) aid0) = Some S_PARTIAL"
proof (rule terminal_state_is_final [OF _ _ usual_demo])
  show "map_option ar_state (map_of (assessments (db sealed)) aid0) = Some S_PARTIAL" by code_simp
qed (simp add: terminal_states_def)

section \<open>External effects\<close>

text \<open>C4: a call of \<open>run_external_stage\<close> that dispatches an external effect sends exactly one,
  under a fresh attempt's key, and only if the stage is not DONE, no earlier attempt has a
  persisted response, and every attempt with an unknown outcome was explicitly given up: with
  an authorization for a new attempt, and an operator's where the call is paid.\<close>

theorem dispatch_needs_authorization:
  assumes run: "run_external_stage aid st dispatch x now w = (r, w')"
    and sent: "dispatches w' \<noteq> dispatches w"
  shows "dispatches w' = dispatches w @
      [(aid, st, effective_key (x_key x) (length (attempts_of aid st (db w)) + 1))] \<and>
    \<not> done_at (db w) aid st \<and>
    (\<forall>a \<in> set (attempts_of aid st (db w)). a_status a \<noteq> COMPLETED) \<and>
    ((\<exists>a \<in> set (attempts_of aid st (db w)). a_status a = DISPATCHED) \<longrightarrow>
       x_new_attempt x \<noteq> [] \<and>
       (x_paid x \<or> a_paid (last (filter outcome_unknown (attempts_of aid st (db w)))) \<longrightarrow>
          x_operator x \<noteq> []))"
proof -
  let ?atts = "attempts_of aid st (db w)"
  have keep: False if "preserves (sent (dispatches w)) m" "m w = (b, w')" for m :: "'b lc" and b
    using preservesD_eq [OF that] sent by (simp add: sent_def)
  obtain b t0 where pf0: "preflight aid st now w = (b, t0)" by (cases "preflight aid st now w")
  have d0: "dispatches t0 = dispatches w"
    using preservesD_eq [OF sent_ops(7) pf0, of "dispatches w"] by (simp add: sent_def)
  obtain sp where sp: "b = Inr sp"
    using run pf0 d0 sent by (cases b) (auto simp: run_external_stage_def)
  with pf0 have pf: "preflight aid st now w = (Inr sp, w)"
    using preflight_Inr [of aid st now w sp t0] by simp
  have nd: "\<not> done_at (db w) aid st"
    using run pf sent by (auto simp: run_external_stage_def done_at_def split: option.splits)
  obtain u where u: "upstream_evidence aid st sp w = (u, w)"
    using upstream_pure [of aid sp "stage_deps st" "[]" w] by (auto simp: upstream_evidence_def)
  obtain up where up: "u = Inr up"
    using run pf nd u sent by (cases u) (auto simp: run_external_stage_def done_at_def split: option.splits)
  have body: "(case find (\<lambda>a. a_status a = COMPLETED) ?atts of
         Some a \<Rightarrow> replay_completed aid st sp a
       | None \<Rightarrow> bindE (settle_unknown aid st sp x ?atts) (\<lambda>settled.
           case settled of Some r \<Rightarrow> retE r
           | None \<Rightarrow> open_attempt aid st sp dispatch x up ?atts)) w = (r, w')"
    using run pf nd u up by (auto simp: run_external_stage_def done_at_def split: option.splits)
  have none: "find (\<lambda>a. a_status a = COMPLETED) ?atts = None"
    using body keep [OF sent_ops(6)] by (cases "find (\<lambda>a. a_status a = COMPLETED) ?atts") auto
  obtain s t where se: "settle_unknown aid st sp x ?atts w = (s, t)"
    by (cases "settle_unknown aid st sp x ?atts w")
  have t: "dispatches t = dispatches w"
    using preservesD_eq [OF sent_settle se, of "dispatches w"] by (simp add: sent_def)
  have s: "s = Inr None"
    using body none se t sent by (auto simp: bindE_run split: sum.splits option.splits)
  have "open_attempt aid st sp dispatch x up ?atts t = (r, w')"
    using body none se s by simp
  from open_attempt_sent [OF t this] have "dispatches w' = dispatches w @
      [(aid, st, effective_key (x_key x) (length ?atts + 1))]" using sent by auto
  moreover have "(\<exists>a \<in> set ?atts. a_status a = DISPATCHED) \<longrightarrow> filter outcome_unknown ?atts \<noteq> []"
    by (auto simp: filter_empty_conv outcome_unknown_def)
  ultimately show ?thesis
    using nd none settle_Inr_None [OF se [unfolded s]] by (auto simp: find_None_iff)
qed

theorem dispatch_needs_authorization_witness:
  "\<not> done_at (db (fold call to_ready w0)) aid0 EXECUTE \<and>
   dispatches (fold call to_execute w0) = [(aid0, EXECUTE, ''k'')]"
proof -
  let ?w = "fold call to_ready w0"
  have ne: "dispatches (snd (run_external_stage aid0 EXECUTE (\<lambda>_ _. Some ok_outcome) demo_call 12 ?w))
      \<noteq> dispatches ?w" by code_simp
  have eq: "dispatches (fold call to_execute w0) = [(aid0, EXECUTE, ''k'')]" by code_simp
  show ?thesis
    using dispatch_needs_authorization [OF surjective_pairing ne] eq by blast
qed

text \<open>C7: as long as the base keys that the callers hand in contain no hash sign, which the code itself
  uses to number later attempts, no idempotency key is ever dispatched twice, and every dispatch that
  went out has a row in the ledger that says so (DISPATCHED or later, never PREPARED): the record is
  written ahead of the effect.  A base key with a hash sign can be dispatched twice, as
  \<open>hash_keys_can_repeat\<close> shows.\<close>

theorem dispatches_unique_and_recorded:
  assumes "reach hash_free w"
  shows "distinct (dispatches w) \<and>
    (\<forall>k \<in> set (dispatches w). \<exists>a. map_of (attempts (db w)) k = Some a \<and> a_status a \<noteq> PREPARED)"
  using reach_keyed [OF assms] by (simp add: keyed_def view_def)

theorem dispatches_unique_and_recorded_witness:
  "\<exists>a. map_of (attempts (db (fold call to_execute w0))) (aid0, EXECUTE, ''k'') = Some a \<and>
     a_status a \<noteq> PREPARED"
proof -
  have "dispatches (fold call to_execute w0) = [(aid0, EXECUTE, ''k'')]" by code_simp
  with dispatches_unique_and_recorded [OF reach_demo(2)] show ?thesis by simp
qed

lemma check_budget_pass:
  "charge_fits (db w) aid sp u \<Longrightarrow> check_budget aid sp u st w = (Inr (), w)"
  by (auto simp: check_budget_def charge_fits_def bindE_run rejectE_run split: prod.splits)

lemma commit_alive: "writes_left w = None \<Longrightarrow> commit f w = (Inr (), w\<lparr>db := f (db w)\<rparr>)"
  by (simp add: commit_def)

lemmas alive = commit_alive audit_def upsert_stage_def upsert_attempt_def upsert_cleanup_def

lemma charge_and_commit_alive:
  assumes "writes_left w = None" and "charge_fits (db w) aid sp (r_usage r)"
  shows "\<exists>w'. charge_and_commit aid st sp r w = (Inr r, w') \<and> dispatches w' = dispatches w \<and>
    map_of (stages (db w')) (r_assessment_id r, r_stage r) = Some r"
  using assms check_budget_pass [OF assms(2)]
  by (simp add: charge_and_commit_def alive put_stage_def update_conv)

lemma charge_fits_audit [simp]:
  "charge_fits (audit_db a b c e d) aid sp u = charge_fits d aid sp u"
  by (simp add: charge_fits_def stages_of_def)

definition replayed_record :: "string \<Rightarrow> lifecycle_stage \<Rightarrow> attempt \<Rightarrow> stage_record" where
  "replayed_record aid st a = \<lparr>r_assessment_id = aid, r_stage = st, r_status = DONE,
     r_produced_epoch = a_produced_epoch a, r_evidence = a_evidence a,
     r_side_effect_token = a_side_effect_token a, r_usage = a_usage a, r_detail = a_detail a\<rparr>"

text \<open>When a process died between persisting the response and committing the stage, the next
  call commits the stage from the persisted response, with its usage charged, and dispatches
  nothing.\<close>

theorem completed_attempt_is_replayed:
  assumes pf: "preflight aid st now w = (Inr sp, w)" and alive: "writes_left w = None"
    and nd: "\<not> done_at (db w) aid st" and up: "upstream_evidence aid st sp w = (Inr up, w)"
    and a: "find (\<lambda>a. a_status a = COMPLETED) (attempts_of aid st (db w)) = Some a"
    and fresh: "a_produced_epoch a = Some (sp_run_epoch sp)" and known: "is_known (a_usage a)"
    and fits: "charge_fits (db w) aid sp (a_usage a)"
  shows "\<exists>w'. run_external_stage aid st dispatch x now w = (Inr (replayed_record aid st a), w') \<and>
    dispatches w' = dispatches w \<and>
    map_of (stages (db w')) (aid, st) = Some (replayed_record aid st a)"
proof -
  have "run_external_stage aid st dispatch x now w = replay_completed aid st sp a w"
    using pf nd up a by (simp add: run_external_stage_def done_at_def split: option.splits)
  also have "\<dots> = charge_and_commit aid st sp (replayed_record aid st a)
      (w\<lparr>db := audit_db aid ''CONTROLLER'' (''STAGE_'' @ stage_str st @ ''_RESUMED'')
        (''replayed completed attempt '' @ a_key a @ '' (no re-dispatch)'') (db w)\<rparr>)" (is "_ = charge_and_commit _ _ _ ?r ?w")
    using alive fresh known
    by (simp add: replay_completed_def commit_stage_done_def replayed_record_def commit_alive audit_def)
  finally have run: "run_external_stage aid st dispatch x now w = charge_and_commit aid st sp ?r ?w" .
  have "writes_left ?w = None" and "charge_fits (db ?w) aid sp (r_usage ?r)"
    using alive fits by (simp_all add: replayed_record_def)
  from charge_and_commit_alive [OF this, of st] run show ?thesis
    by (simp add: replayed_record_def)
qed

text \<open>The process dies after the sixth write of the external call (the persisted response), before
  the DONE row.\<close>

definition interrupted :: world where
  "interrupted = (fold call (to_ready @
     [(Op_External aid0 EXECUTE (\<lambda>_ _. Some ok_outcome) demo_call 12, Some 6)]) w0)\<lparr>writes_left := None\<rparr>"

theorem completed_attempt_is_replayed_witness:
  "\<exists>r w'. run_external_stage aid0 EXECUTE (\<lambda>_ _. None) demo_call 13 interrupted = (Inr r, w') \<and>
     r_status r = DONE \<and> dispatches w' = dispatches interrupted \<and>
     map_of (stages (db w')) (aid0, EXECUTE) = Some r \<and> \<not> done_at (db interrupted) aid0 EXECUTE"
proof -
  let ?a = "(fresh_attempt aid0 EXECUTE demo_call 1)\<lparr>a_status := COMPLETED, a_dispatched := True,
     a_response_persisted := True, a_produced_epoch := Some 3, a_usage := o_usage ok_outcome\<rparr>"
  have nd: "\<not> done_at (db interrupted) aid0 EXECUTE" by code_simp
  have "preflight aid0 EXECUTE 13 interrupted = (Inr demo_spec, interrupted)" by code_simp
  moreover have "writes_left interrupted = None" by code_simp
  moreover have "upstream_evidence aid0 EXECUTE demo_spec interrupted = (Inr [], interrupted)" by code_simp
  moreover have "find (\<lambda>a. a_status a = COMPLETED) (attempts_of aid0 EXECUTE (db interrupted)) = Some ?a"
    by code_simp
  moreover have "a_produced_epoch ?a = Some (sp_run_epoch demo_spec)" by code_simp
  moreover have "is_known (a_usage ?a)" by code_simp
  moreover have "charge_fits (db interrupted) aid0 demo_spec (a_usage ?a)" by code_simp
  ultimately show ?thesis
    using completed_attempt_is_replayed [of aid0 EXECUTE 13 interrupted demo_spec "[]" ?a "\<lambda>_ _. None" demo_call] nd
    by (auto simp: replayed_record_def)
qed

text \<open>Running a stage that is already DONE returns its stored record and changes nothing:
  neither the executor nor the dispatcher is called, and no charge is made.\<close>

theorem rerun_of_done_stage_is_cached:
  assumes "preflight aid st now w = (Inr sp, w)"
    and "map_of (stages (db w)) (aid, st) = Some r" and "r_status r = DONE"
  shows "run_stage aid st exec now w = (Inr r, w) \<and>
    run_external_stage aid st dispatch x now w = (Inr r, w)"
  using assms by (simp add: run_stage_def run_external_stage_def)

theorem rerun_of_done_stage_is_cached_witness:
  "\<exists>r. run_stage aid0 EXECUTE (\<lambda>_. None) 13 (fold call to_execute w0) = (Inr r, fold call to_execute w0)"
proof -
  have pf: "preflight aid0 EXECUTE 13 (fold call to_execute w0) = (Inr demo_spec, fold call to_execute w0)"
    by code_simp
  have "map_option r_status (map_of (stages (db (fold call to_execute w0))) (aid0, EXECUTE)) = Some DONE"
    by code_simp
  then obtain r where r: "map_of (stages (db (fold call to_execute w0))) (aid0, EXECUTE) = Some r"
    "r_status r = DONE" by auto
  from rerun_of_done_stage_is_cached [OF pf r] show ?thesis by blast
qed

section \<open>The final verdict\<close>

definition entries_of :: "string \<Rightarrow> database \<Rightarrow> cleanup_entry list" where
  "entries_of aid d = map snd (filter (\<lambda>((i, _), _). i = aid) (cleanups d))"

lemma cleanup_entries_run:
  "cleanup_entries aid w = (Inr (sort_key e_obligation (entries_of aid (db w))), w)"
  by (simp add: cleanup_entries_def entries_of_def)

definition unreconciled :: "string \<Rightarrow> database \<Rightarrow> bool" where
  "unreconciled aid d \<longleftrightarrow> (\<exists>r \<in> set (attempts d). fst (fst r) = aid \<and>
     (a_status (snd r) = DISPATCHED \<or> a_status (snd r) = SUPERSEDED))"

lemma has_unreconciled_run:
  "has_unreconciled_effect aid w = (Inr (unreconciled aid (db w)), w)"
  by (simp add: has_unreconciled_effect_def all_attempts_def unreconciled_def list_ex_iff) (force simp: split_def)

text \<open>\<open>finalize\<close> as one step: the verdict's fields, and \<open>persist_final\<close>.\<close>

lemma finalize_run:
  assumes "map_of (assessments (db w)) aid = Some row"
  defines "es \<equiv> sort_key e_obligation (entries_of aid (db w))"
  defines "ok \<equiv> es \<noteq> [] \<and> list_all e_compensated es"
  defines "req \<equiv> required_done (ar_spec row) (stages_of aid (db w))"
  defines "fin \<equiv> final_state (es \<noteq> []) ok (ar_cancel row) req"
  shows "finalize sha aid w = (case persist_final aid (ar_state row) fin w of
      (Inl e, t) \<Rightarrow> (Inl e, t)
    | (Inr _, t) \<Rightarrow> (Inr
       (let complete = all_known aid (db w) \<and> \<not> unreconciled aid (db w);
            mf = \<lparr>m_assessment_id = aid, m_campaign_id = sp_campaign_id (ar_spec row),
              m_run_epoch = sp_run_epoch (ar_spec row), m_stage_records = stages_of aid (db w),
              m_cleanup = es, m_calls = charged u_calls aid (db w),
              m_tokens = charged u_tokens aid (db w), m_tools = charged u_tools aid (db w),
              m_usage_complete = complete\<rparr> in
        \<lparr>v_assessment_id = aid, v_final_state = fin, v_required_complete = req,
         v_cleanup_succeeded = ok, v_usage_complete = complete,
         v_calls = (if complete then Known (charged u_calls aid (db w)) else UNKNOWN),
         v_tokens = (if complete then Known (charged u_tokens aid (db w)) else UNKNOWN),
         v_manifest_sha256 = sha mf,
         v_summary = verdict_summary fin (stages_of aid (db w)) ok req\<rparr>), t))"
  using assms
  by (simp add: finalize_def the_spec_run spec_at_def get_state_run state_at_def
      cleanup_entries_run has_unreconciled_run cancel_requested_run usage_of_stages Let_def bindE_run
      split: prod.splits sum.splits)

lemma required_done_at:
  assumes "rows_ok d" and "required_done sp (stages_of aid d)" and "st \<in> set (sp_required_stages sp)"
  shows "done_at d aid st"
  using assms stage_of_done [OF assms(1), of aid st]
  by (auto simp: required_done_def list_all_iff split: option.splits)

text \<open>C12: a COMPLETED verdict is earned: every required stage is DONE, there is at least one
  cleanup obligation and all of them were compensated, and no cancellation was requested.\<close>

theorem completed_verdict_is_earned:
  assumes "reach usual w" and row: "map_of (assessments (db w)) aid = Some row"
    and fin: "finalize sha aid w = (Inr v, w')" and fin_completed: "v_final_state v = S_COMPLETED"
  shows "(\<forall>st \<in> set (sp_required_stages (ar_spec row)). done_at (db w) aid st) \<and>
    entries_of aid (db w) \<noteq> [] \<and> (\<forall>e \<in> set (entries_of aid (db w)). e_compensated e) \<and>
    \<not> ar_cancel row"
proof -
  have ok: "rows_ok (db w)"
    using assms(1) by (rule rows.reach_holds) (simp add: rows_ok_def empty_db_def)
  let ?es = "sort_key e_obligation (entries_of aid (db w))"
  have "final_state (?es \<noteq> []) (?es \<noteq> [] \<and> list_all e_compensated ?es) (ar_cancel row)
      (required_done (ar_spec row) (stages_of aid (db w))) = S_COMPLETED"
    using fin fin_completed unfolding finalize_run [OF row] by (auto simp: Let_def split: prod.splits sum.splits)
  then have "?es \<noteq> []" "list_all e_compensated ?es" "\<not> ar_cancel row"
    "required_done (ar_spec row) (stages_of aid (db w))"
    by (auto simp: final_state_def split: if_splits)
  moreover have "set ?es = set (entries_of aid (db w))" by simp
  ultimately show ?thesis
    using required_done_at [OF ok] by (auto simp: list_all_iff simp del: set_sort)
qed

definition cleaned :: world where
  "cleaned = call (Op_Cleanup aid0 [''RESET''] (\<lambda>_. Some True) ''done'', None) (fold call to_execute w0)"

lemma reach_cleaned: "reach usual cleaned"
  unfolding cleaned_def by (rule reach.step [OF reach_demo(1)]) simp

theorem completed_verdict_is_earned_witness:
  "done_at (db cleaned) aid0 EXECUTE \<and> entries_of aid0 (db cleaned) \<noteq> []"
proof -
  have "map_option ar_spec (map_of (assessments (db cleaned)) aid0) = Some demo_spec" by code_simp
  then obtain row where row: "map_of (assessments (db cleaned)) aid0 = Some row" "ar_spec row = demo_spec"
    by auto
  have "(case fst (finalize (\<lambda>_. []) aid0 cleaned) of Inl _ \<Rightarrow> None | Inr v \<Rightarrow> Some (v_final_state v)) = Some S_COMPLETED"
    by code_simp
  then obtain v where v: "finalize (\<lambda>_. []) aid0 cleaned = (Inr v, snd (finalize (\<lambda>_. []) aid0 cleaned))"
    "v_final_state v = S_COMPLETED"
    by (auto split: sum.splits simp: prod_eq_iff)
  have "EXECUTE \<in> set (sp_required_stages demo_spec)" by (simp add: demo_spec_def)
  with completed_verdict_is_earned [OF reach_cleaned row(1) v] row(2) show ?thesis by simp
qed

lemma move_state_alive:
  assumes "writes_left w = None" and "state_at (db w) aid = Some cur" and "new \<in> set (valid_state_transitions cur)"
  shows "set_state aid new m w =
    (Inr (), if cur = new then w else w\<lparr>db := move_state aid cur new m (db w)\<rparr>)"
  using assms
  by (auto simp: set_state_def bindE_run get_state_run assert_state_transition_def rejectE_run commit_alive)

lemma persist_final_alive:
  assumes alive: "writes_left w = None" and at: "state_at (db w) aid = Some s"
    and s: "s \<notin> set terminal_states"
    and f: "f \<in> {S_PARTIAL, S_CLEANUP_FAILED, S_CANCELLED, S_COMPLETED}"
  shows "\<exists>w'. persist_final aid s f w = (Inr (), w') \<and> state_at (db w') aid = Some f"
proof (cases "f \<in> set (valid_state_transitions s)")
  case True
  then show ?thesis
    using move_state_alive [OF alive at True] at f s
    by (auto simp: persist_final_def catchE_def state_at_move)
next
  case False
  let ?w = "w\<lparr>db := move_state aid s S_CLEANING_UP ''pre-finalize'' (db w)\<rparr>"
  have ne: "s \<noteq> f" using f s by (auto simp: terminal_states_def)
  have fail: "set_state aid f ''finalized'' w =
      (Inl (LifecycleStateError (''ILLEGAL_STATE_'' @ state_str s @ ''_TO_'' @ state_str f)), w)"
    using at False ne
    by (simp add: set_state_def bindE_run get_state_run assert_state_transition_def rejectE_run)
  have nc: "s \<noteq> S_CLEANING_UP" using False f by auto
  then have exit: "S_CLEANING_UP \<in> set (valid_state_transitions s)"
    using s by (cases s) (auto simp: terminal_states_def active_exits_def)
  have at': "state_at (db ?w) aid = Some S_CLEANING_UP" using at by (simp add: state_at_move)
  have step: "set_state aid S_CLEANING_UP ''pre-finalize'' w = (Inr (), ?w)"
    using move_state_alive [OF alive at exit] nc by simp
  have "f \<in> set (valid_state_transitions S_CLEANING_UP)" using f by auto
  from move_state_alive [OF _ at' this, of "''finalized''"] alive f
  have "set_state aid f ''finalized'' ?w =
      (Inr (), ?w\<lparr>db := move_state aid S_CLEANING_UP f ''finalized'' (db ?w)\<rparr>)" by auto
  moreover have "state_at (move_state aid S_CLEANING_UP f ''finalized'' (db ?w)) aid = Some f"
    using at' by (simp add: state_at_move)
  ultimately show ?thesis
    using fail step ne s by (auto simp: persist_final_def catchE_def)
qed

text \<open>Finalizing a live assessment always returns a verdict, and the verdict's final state is
  the state the ledger then stores, whatever active state the assessment was in.\<close>

theorem finalize_persists_verdict:
  assumes row: "map_of (assessments (db w)) aid = Some row" and alive: "writes_left w = None"
    and active: "ar_state row \<notin> set terminal_states"
  shows "\<exists>v w'. finalize sha aid w = (Inr v, w') \<and>
    map_option ar_state (map_of (assessments (db w')) aid) = Some (v_final_state v)"
proof -
  let ?es = "sort_key e_obligation (entries_of aid (db w))"
  let ?f = "final_state (?es \<noteq> []) (?es \<noteq> [] \<and> list_all e_compensated ?es) (ar_cancel row)
      (required_done (ar_spec row) (stages_of aid (db w)))"
  have "?f \<in> {S_PARTIAL, S_CLEANUP_FAILED, S_CANCELLED, S_COMPLETED}" by (simp add: final_state_def)
  moreover have "state_at (db w) aid = Some (ar_state row)" using row by (simp add: state_at_def)
  ultimately obtain w' where w': "persist_final aid (ar_state row) ?f w = (Inr (), w')"
    "state_at (db w') aid = Some ?f"
    using persist_final_alive [OF alive _ active] by blast
  then show ?thesis unfolding finalize_run [OF row] by (simp add: Let_def state_at_def)
qed

theorem finalize_persists_verdict_witness:
  "\<exists>v w'. finalize (\<lambda>_. []) aid0 (fold call to_execute w0) = (Inr v, w') \<and>
     map_option ar_state (map_of (assessments (db w')) aid0) = Some (v_final_state v)"
proof -
  have "map_option ar_state (map_of (assessments (db (fold call to_execute w0))) aid0) = Some S_RUNNING"
    by code_simp
  then obtain row where row: "map_of (assessments (db (fold call to_execute w0))) aid0 = Some row"
    "ar_state row = S_RUNNING" by auto
  have "writes_left (fold call to_execute w0) = None" by code_simp
  from finalize_persists_verdict [OF row(1) this] row(2) show ?thesis by (simp add: terminal_states_def)
qed

section \<open>What the code does otherwise\<close>

text \<open>
  After a verdict was persisted, \<open>finalize\<close> computes a new verdict from the current rows but
  cannot move the terminal state: here the stored state is PARTIAL while the second verdict says
  COMPLETED.
\<close>

definition late_cleanup :: world where
  "late_cleanup = fold call (to_execute @ [(Op_Finalize (\<lambda>_. []) aid0, None),
     (Op_Cleanup aid0 [''RESET''] (\<lambda>_. Some True) ''late'', None)]) w0"

lemma second_verdict_contradicts_ledger:
  "\<exists>v w'. finalize (\<lambda>_. []) aid0 late_cleanup = (Inr v, w') \<and> v_final_state v = S_COMPLETED \<and>
     map_option ar_state (map_of (assessments (db w')) aid0) = Some S_PARTIAL"
proof -
  have "(case finalize (\<lambda>_. []) aid0 late_cleanup of (Inl _, _) \<Rightarrow> None
      | (Inr v, w') \<Rightarrow> Some (v_final_state v, map_option ar_state (map_of (assessments (db w')) aid0)))
    = Some (S_COMPLETED, Some S_PARTIAL)" by code_simp
  then show ?thesis by (auto split: prod.splits sum.splits)
qed

text \<open>
  A reconciler that reports a failed effect (\<open>ok = False\<close>) has its outcome adopted as a
  completed response, and the stage becomes DONE.
\<close>

definition lost :: world where
  "lost = (fold call (to_ready @ [(Op_External aid0 EXECUTE (\<lambda>_ _. None)
     (demo_call\<lparr>x_reconcilable := True\<rparr>) 12, None)]) w0)"

lemma failed_reconciliation_is_committed:
  "map_option r_status (map_of (stages (db (call
     (Op_External aid0 EXECUTE (\<lambda>_ _. None)
        (demo_call\<lparr>x_reconcilable := True,
           x_reconcile := Some (\<lambda>_. Some (Some (ok_outcome\<lparr>o_ok := False\<rparr>)))\<rparr>) 13, None) lost)))
     (aid0, EXECUTE)) = Some DONE"
  by code_simp

text \<open>A base key with a hash sign can collide with the code's own numbering: the same key goes out twice.\<close>

lemma hash_keys_can_repeat:
  "dispatches (fold call (to_ready @
     [(Op_External aid0 EXECUTE (\<lambda>_ _. Some (ok_outcome\<lparr>o_ok := False\<rparr>)) (demo_call\<lparr>x_key := ''k#2''\<rparr>) 12, None),
      (Op_External aid0 EXECUTE (\<lambda>_ _. Some ok_outcome) demo_call 13, None)]) w0)
   = [(aid0, EXECUTE, ''k#2''), (aid0, EXECUTE, ''k#2'')]"
  by code_simp

end
