(* ===== verification/Unicode.thy ===== *)
theory Unicode
  imports Prelude
begin

text \<open>
  Python's text over bytes: \<open>bytes.decode("utf-8")\<close> in both error modes, and the methods of
  \<open>str\<close> that look at white space and line ends.  A decoded text is the list of its code
  points; a byte is a \<open>char\<close>.
\<close>

type_synonym points = "nat list"

definition points_of :: "string \<Rightarrow> points" where
  "points_of s = map of_char s"

definition as_ascii :: "points \<Rightarrow> string option" where
  "as_ascii p = (if list_all (\<lambda>n. n < 128) p then Some (map char_of p) else None)"

lemma points_of_inject [simp]: "points_of s = points_of t \<longleftrightarrow> s = t"
  unfolding points_of_def by (rule inj_map_eq_map) (auto intro: injI)

lemma points_of_ascii: "list_all (\<lambda>c. of_char c < (128::nat)) s \<Longrightarrow> as_ascii (points_of s) = Some s"
  by (auto simp: as_ascii_def points_of_def list_all_iff comp_def intro: map_idI)

lemma as_ascii_points: "as_ascii p = Some s \<Longrightarrow> points_of s = p"
  by (fastforce simp: as_ascii_def points_of_def list_all_iff intro!: map_idI split: if_splits)

lemma points_of_append [simp]: "points_of (a @ b) = points_of a @ points_of b"
  by (simp add: points_of_def)

section \<open>Decoding UTF-8\<close>

text \<open>How many continuation bytes a lead byte asks for, which second bytes it allows (no
  overlong form, no surrogate, nothing above \<open>0x10FFFF\<close>), and how many of the bytes that
  follow belong to it.\<close>

definition utf8_need :: "nat \<Rightarrow> nat" where
  "utf8_need b =
     (if 0xC2 \<le> b \<and> b \<le> 0xDF then 1 else if 0xE0 \<le> b \<and> b \<le> 0xEF then 2
      else if 0xF0 \<le> b \<and> b \<le> 0xF4 then 3 else 0)"

definition utf8_cont :: "nat \<Rightarrow> bool" where
  "utf8_cont b \<longleftrightarrow> 0x80 \<le> b \<and> b \<le> 0xBF"

definition utf8_second :: "nat \<Rightarrow> nat \<Rightarrow> bool" where
  "utf8_second b c \<longleftrightarrow>
     (if b = 0xE0 then 0xA0 else if b = 0xF0 then 0x90 else 0x80) \<le> c \<and>
     c \<le> (if b = 0xED then 0x9F else if b = 0xF4 then 0x8F else 0xBF)"

definition utf8_follow :: "nat \<Rightarrow> nat list \<Rightarrow> nat" where
  "utf8_follow b cs =
     (case take (utf8_need b) cs of
        [] \<Rightarrow> 0
      | c # ds \<Rightarrow> if utf8_second b c then 1 + length (takeWhile utf8_cont ds) else 0)"

definition utf8_value :: "nat \<Rightarrow> nat list \<Rightarrow> nat" where
  "utf8_value b cs = foldl (\<lambda>v c. v * 64 + (c - 0x80))
     (b - (if utf8_need b = 1 then 0xC0 else if utf8_need b = 2 then 0xE0 else 0xF0)) cs"

text \<open>The first character and the bytes after it; \<open>None\<close> is an ill-formed sequence, of
  which the longest well-formed beginning is consumed.\<close>

definition utf8_next :: "nat \<Rightarrow> nat list \<Rightarrow> nat option \<times> nat list" where
  "utf8_next b cs =
     (let k = utf8_follow b cs in
      if b < 0x80 then (Some b, cs)
      else if utf8_need b \<noteq> 0 \<and> k = utf8_need b then (Some (utf8_value b (take k cs)), drop k cs)
      else (None, drop k cs))"

lemma utf8_next_shorter: "length (snd (utf8_next b cs)) \<le> length cs"
  by (simp add: utf8_next_def Let_def)

function utf8_chars :: "nat list \<Rightarrow> nat option list" where
  "utf8_chars [] = []"
| "utf8_chars (b # cs) = fst (utf8_next b cs) # utf8_chars (snd (utf8_next b cs))"
  by pat_completeness auto
termination
  by (relation "measure length") (use utf8_next_shorter in \<open>auto simp: less_Suc_eq_le\<close>)

fun all_some :: "'a option list \<Rightarrow> 'a list option" where
  "all_some [] = Some []"
| "all_some (x # xs) = (case x of None \<Rightarrow> None | Some a \<Rightarrow> map_option (Cons a) (all_some xs))"

text \<open>\<open>b.decode("utf-8")\<close>, with \<open>None\<close> for the \<open>UnicodeDecodeError\<close>, and
  \<open>b.decode("utf-8", errors="replace")\<close>.\<close>

definition decode_utf8 :: "string \<Rightarrow> points option" where
  "decode_utf8 s = all_some (utf8_chars (points_of s))"

definition decode_replace :: "string \<Rightarrow> points" where
  "decode_replace s = map (\<lambda>x. case x of None \<Rightarrow> 0xFFFD | Some p \<Rightarrow> p) (utf8_chars (points_of s))"

section \<open>White space and lines\<close>

text \<open>\<open>str.isspace\<close>, which is also \<open>\s\<close> in a text pattern.\<close>

definition uni_space :: "nat \<Rightarrow> bool" where
  "uni_space n \<longleftrightarrow> 9 \<le> n \<and> n \<le> 13 \<or> 28 \<le> n \<and> n \<le> 32 \<or> 0x2000 \<le> n \<and> n \<le> 0x200A \<or>
     n \<in> {0x85, 0xA0, 0x1680, 0x2028, 0x2029, 0x202F, 0x205F, 0x3000}"

definition strip_points :: "points \<Rightarrow> points" where
  "strip_points p = rev (dropWhile uni_space (rev (dropWhile uni_space p)))"

text \<open>\<open>str.splitlines()\<close>: CR LF is one line end, and a line end at the very end opens no line.\<close>

definition line_end :: "nat \<Rightarrow> bool" where
  "line_end n \<longleftrightarrow> 10 \<le> n \<and> n \<le> 13 \<or> 28 \<le> n \<and> n \<le> 30 \<or> n \<in> {0x85, 0x2028, 0x2029}"

fun lines_from :: "points \<Rightarrow> bool \<Rightarrow> points \<Rightarrow> points list" where
  "lines_from acc cr [] = (if acc = [] then [] else [rev acc])"
| "lines_from acc cr (c # cs) =
     (if cr \<and> c = 10 then lines_from [] False cs
      else if line_end c then rev acc # lines_from [] (c = 13) cs
      else lines_from (c # acc) False cs)"

definition splitlines :: "points \<Rightarrow> points list" where
  "splitlines p = lines_from [] False p"

text \<open>\<open>needle in text\<close>.\<close>

fun occurs :: "'a list \<Rightarrow> 'a list \<Rightarrow> bool" where
  "occurs x [] = (x = [])"
| "occurs x (c # cs) = (take (length x) (c # cs) = x \<or> occurs x cs)"

lemma occurs_iff: "occurs x s \<longleftrightarrow> (\<exists>a b. s = a @ x @ b)"
proof (induction s)
  case (Cons c cs)
  have "take (length x) (c # cs) = x \<longleftrightarrow> (\<exists>b. c # cs = x @ b)"
    by (metis append_eq_conv_conj append_take_drop_id)
  moreover have "(\<exists>a b. c # cs = a @ x @ b) \<longleftrightarrow> (\<exists>b. c # cs = x @ b) \<or> (\<exists>a b. cs = a @ x @ b)"
    by (metis append_Cons append_Nil list.exhaust list.sel(3))
  ultimately show ?case using Cons by simp
qed auto

text \<open>\<open>text.lower()\<close> as far as its ASCII letters go.  Outside ASCII only \<open>U+0130\<close> and
  \<open>U+212A\<close> lower to text with an ASCII letter, an \<open>i\<close> and a \<open>k\<close>, which no needle searched
  for in the modelled code contains.\<close>

definition lower_points :: "points \<Rightarrow> points" where
  "lower_points p = map (\<lambda>n. if 65 \<le> n \<and> n \<le> 90 then n + 32 else n) p"

end
