(* ===== verification/Json.thy ===== *)
theory Json
  imports Unicode
begin

text \<open>
  The part of Python's \<open>json\<close> module that the modelled code uses: \<open>json.loads\<close> on the
  bytes of a UTF-8 text, with an \<open>object_pairs_hook\<close> that refuses duplicate keys or without
  one, and \<open>json.dumps\<close> with
  \<open>sort_keys=True, separators=(",", ":"), ensure_ascii=True, allow_nan=False\<close>.

  A Python string inside a JSON value is the list of its code points.  A float is kept as
  the text it was read from; how CPython prints that float (or that it is not finite) is
  the argument \<open>flt\<close> of \<open>dumps\<close>.
\<close>

datatype json = JNull | JBool bool | JInt int | JFloat string | JStr points
  | JArr "json list" | JObj "(points \<times> json) list"

section \<open>Printing\<close>

definition hex_digit :: "nat \<Rightarrow> char" where
  "hex_digit n = char_of (if n < 10 then 48 + n else 87 + n)"

definition hex4 :: "nat \<Rightarrow> string" where
  "hex4 n = map (\<lambda>i. hex_digit (n div 16 ^ i mod 16)) [3, 2, 1, 0]"

definition escape_unit :: "nat \<Rightarrow> string" where
  "escape_unit n = CHR 0x5C # CHR ''u'' # hex4 n"

definition escape_point :: "nat \<Rightarrow> string" where
  "escape_point n =
     (if n = 34 then [CHR 0x5C, CHR 0x22] else if n = 92 then [CHR 0x5C, CHR 0x5C]
      else if n = 10 then [CHR 0x5C, CHR ''n''] else if n = 13 then [CHR 0x5C, CHR ''r'']
      else if n = 9 then [CHR 0x5C, CHR ''t''] else if n = 12 then [CHR 0x5C, CHR ''f'']
      else if n = 8 then [CHR 0x5C, CHR ''b'']
      else if 32 \<le> n \<and> n \<le> 126 then [char_of n]
      else if n < 65536 then escape_unit n
      else escape_unit (55296 + (n - 65536) div 1024) @ escape_unit (56320 + (n - 65536) mod 1024))"

definition quoted :: "points \<Rightarrow> string" where
  "quoted p = CHR 0x22 # concat (map escape_point p) @ [CHR 0x22]"

text \<open>\<open>None\<close> is the \<open>ValueError\<close> of \<open>allow_nan=False\<close>.\<close>

definition enclosed :: "char \<Rightarrow> char \<Rightarrow> string list option \<Rightarrow> string option" where
  "enclosed a b parts = map_option (\<lambda>ps. a # join_with '','' ps @ [b]) parts"

definition member :: "points \<times> string option \<Rightarrow> string option" where
  "member kv = map_option (\<lambda>v. quoted (fst kv) @ '':'' @ v) (snd kv)"

primrec dumps :: "(string \<Rightarrow> string option) \<Rightarrow> json \<Rightarrow> string option" where
  "dumps flt JNull = Some ''null''"
| "dumps flt (JBool b) = Some (if b then ''true'' else ''false'')"
| "dumps flt (JInt i) = Some (int_str i)"
| "dumps flt (JFloat x) = flt x"
| "dumps flt (JStr p) = Some (quoted p)"
| "dumps flt (JArr vs) = enclosed CHR ''['' CHR '']'' (all_some (map (dumps flt) vs))"
| "dumps flt (JObj kvs) = enclosed CHR ''{'' CHR ''}''
     (all_some (map member (sort_key fst (map (map_prod id (dumps flt)) kvs))))"

section \<open>Reading\<close>

datatype json_error = Bad_Json | Duplicate_Key

definition skip_ws :: "string \<Rightarrow> string" where
  "skip_ws s = dropWhile (\<lambda>c. c \<in> set [CHR '' '', CHR 0x09, CHR 0x0A, CHR 0x0D]) s"

definition hex_value :: "char \<Rightarrow> nat option" where
  "hex_value c =
     (if is_digit c then Some (of_char c - 48)
      else if CHR ''a'' \<le> c \<and> c \<le> CHR ''f'' then Some (of_char c - 87)
      else if CHR ''A'' \<le> c \<and> c \<le> CHR ''F'' then Some (of_char c - 55) else None)"

definition read_hex4 :: "string \<Rightarrow> nat option" where
  "read_hex4 s = (if length s < 4 then None
     else map_option (foldl (\<lambda>a d. 16 * a + d) 0) (all_some (map hex_value (take 4 s))))"

text \<open>After \<open>\u\<close>: four digits, and a second escape when the two form a surrogate pair.\<close>

definition read_unicode :: "string \<Rightarrow> (nat \<times> string) option" where
  "read_unicode s =
     (case read_hex4 s of
        None \<Rightarrow> None
      | Some u \<Rightarrow>
          let r = drop 4 s in
          if 55296 \<le> u \<and> u \<le> 56319 \<and> take 2 r = [CHR 0x5C, CHR ''u''] then
            (case read_hex4 (drop 2 r) of
               None \<Rightarrow> None
             | Some v \<Rightarrow> if 56320 \<le> v \<and> v \<le> 57343
                 then Some (65536 + (u - 55296) * 1024 + (v - 56320), drop 6 r) else Some (u, r))
          else Some (u, r))"

definition simple_escape :: "char \<Rightarrow> nat option" where
  "simple_escape c = map_of
     [(CHR 0x22, 34), (CHR 0x5C, 92), (CHR ''/'', 47), (CHR ''b'', 8), (CHR ''f'', 12),
      (CHR ''n'', 10), (CHR ''r'', 13), (CHR ''t'', 9)] c"

lemma read_unicode_shorter: "read_unicode s = Some (u, r) \<Longrightarrow> length r \<le> length s"
  by (auto simp: read_unicode_def Let_def split: option.splits if_splits)

function read_string :: "string \<Rightarrow> (points \<times> string) option" where
  "read_string s = (case s of
       [] \<Rightarrow> None
     | c # r \<Rightarrow>
         if c = CHR 0x22 then Some ([], r)
         else if c = CHR 0x5C then
           (case r of
              [] \<Rightarrow> None
            | e # r' \<Rightarrow>
                if e = CHR ''u'' then
                  (case read_unicode r' of
                     None \<Rightarrow> None
                   | Some (u, r'') \<Rightarrow> map_option (apfst (Cons u)) (read_string r''))
                else
                  (case simple_escape e of
                     None \<Rightarrow> None
                   | Some u \<Rightarrow> map_option (apfst (Cons u)) (read_string r')))
         else if of_char c < (32::nat) then None
         else if of_char c < (128::nat) then map_option (apfst (Cons (of_char c))) (read_string r)
         else
           (case utf8_next (of_char c) (points_of r) of
              (None, _) \<Rightarrow> None
            | (Some u, r') \<Rightarrow> map_option (apfst (Cons u)) (read_string (drop (length r - length r') r))))"
  by pat_completeness auto
termination
  by (relation "measure length") (auto dest: read_unicode_shorter)

declare read_string.simps [simp del]

text \<open>A number: \<open>-?(0|[1-9]\d*)(\.\d+)?([eE][-+]?\d+)?\<close>, an integer unless a fraction or an
  exponent follows.\<close>

definition read_fraction :: "string \<Rightarrow> string" where
  "read_fraction s = (case s of
       c # d # r \<Rightarrow> if c = CHR ''.'' \<and> is_digit d then [c] @ takeWhile is_digit (d # r) else []
     | _ \<Rightarrow> [])"

definition read_exponent :: "string \<Rightarrow> string" where
  "read_exponent s = (case s of
       c # r \<Rightarrow>
         let sign = (case r of d # _ \<Rightarrow> if d = CHR ''+'' \<or> d = CHR ''-'' then [d] else [] | [] \<Rightarrow> []);
             ds = takeWhile is_digit (drop (length sign) r) in
         if (c = CHR ''e'' \<or> c = CHR ''E'') \<and> ds \<noteq> [] then [c] @ sign @ ds else []
     | [] \<Rightarrow> [])"

definition read_number :: "string \<Rightarrow> (json \<times> string) option" where
  "read_number s =
     (let neg = (take 1 s = ''-''); t = (if neg then drop 1 s else s);
          ds = (if take 1 t = ''0'' then ''0'' else takeWhile is_digit t);
          r = drop (length ds) t; fr = read_fraction r;
          ex = read_exponent (drop (length fr) r); r' = drop (length fr + length ex) r in
      if ds = [] then None
      else if fr = [] \<and> ex = [] then
        Some (JInt (if neg then - int (str_nat ds) else int (str_nat ds)), r')
      else Some (JFloat ((if neg then ''-'' else []) @ ds @ fr @ ex), r'))"

definition literals :: "(string \<times> json) list" where
  "literals = [(''null'', JNull), (''true'', JBool True), (''false'', JBool False),
     (''NaN'', JFloat ''NaN''), (''Infinity'', JFloat ''Infinity''), (''-Infinity'', JFloat ''-Infinity'')]"

definition read_atom :: "string \<Rightarrow> json_error + json \<times> string" where
  "read_atom s =
     (case find (\<lambda>(l, _). take (length l) s = l) literals of
        Some (l, v) \<Rightarrow> Inr (v, drop (length l) s)
      | None \<Rightarrow> (case read_number s of None \<Rightarrow> Inl Bad_Json | Some x \<Rightarrow> Inr x))"

text \<open>The two ways the modelled code builds an object from its members: \<open>_no_duplicate_keys\<close>
  raises on a repeated key, and a plain \<open>json.loads\<close> keeps the last value of each key.\<close>

definition unique_keys :: "(points \<times> json) list \<Rightarrow> json_error + json" where
  "unique_keys kvs = (if distinct (map fst kvs) then Inr (JObj kvs) else Inl Duplicate_Key)"

definition last_wins :: "(points \<times> json) list \<Rightarrow> json_error + json" where
  "last_wins kvs = Inr (JObj (fold (\<lambda>(k, v) t. AList.update k v t) kvs []))"

text \<open>
  A value, the rest of an array after its opening bracket or a comma, the rest of an object
  likewise.  The hook sees each object when it closes, so a duplicate key is reported before
  any syntax error that follows it.  The fuel bounds the number of nested calls; twice the
  length of the text is enough, because of two nested calls at least one reads a character.
\<close>

fun read_value :: "((points \<times> json) list \<Rightarrow> json_error + json) \<Rightarrow> nat \<Rightarrow> string \<Rightarrow> json_error + json \<times> string"
  and read_items :: "((points \<times> json) list \<Rightarrow> json_error + json) \<Rightarrow> nat \<Rightarrow> json list \<Rightarrow> string \<Rightarrow> json_error + json \<times> string"
  and read_members :: "((points \<times> json) list \<Rightarrow> json_error + json) \<Rightarrow> nat \<Rightarrow> (points \<times> json) list \<Rightarrow> string \<Rightarrow> json_error + json \<times> string" where
  "read_value hook 0 s = Inl Bad_Json"
| "read_value hook (Suc n) s =
     (case s of
        [] \<Rightarrow> Inl Bad_Json
      | c # r \<Rightarrow>
          if c = CHR 0x22 then
            (case read_string r of None \<Rightarrow> Inl Bad_Json | Some (p, t) \<Rightarrow> Inr (JStr p, t))
          else if c = CHR ''['' then
            (case skip_ws r of
               d # t \<Rightarrow> if d = CHR '']'' then Inr (JArr [], t) else read_items hook n [] (d # t)
             | [] \<Rightarrow> Inl Bad_Json)
          else if c = CHR ''{'' then
            (case skip_ws r of
               d # t \<Rightarrow> if d = CHR ''}'' then map_sum id (\<lambda>v. (v, t)) (hook []) else read_members hook n [] (d # t)
             | [] \<Rightarrow> Inl Bad_Json)
          else read_atom s)"
| "read_items hook 0 acc s = Inl Bad_Json"
| "read_items hook (Suc n) acc s =
     (case read_value hook n s of
        Inl e \<Rightarrow> Inl e
      | Inr (v, r) \<Rightarrow>
          (case skip_ws r of
             [] \<Rightarrow> Inl Bad_Json
           | c # t \<Rightarrow>
               if c = CHR '']'' then Inr (JArr (rev (v # acc)), t)
               else if c = CHR '','' then read_items hook n (v # acc) (skip_ws t)
               else Inl Bad_Json))"
| "read_members hook 0 acc s = Inl Bad_Json"
| "read_members hook (Suc n) acc s =
     (case s of
        [] \<Rightarrow> Inl Bad_Json
      | q # r0 \<Rightarrow>
          if q \<noteq> CHR 0x22 then Inl Bad_Json
          else (case read_string r0 of
            None \<Rightarrow> Inl Bad_Json
          | Some (k, r1) \<Rightarrow>
              (case skip_ws r1 of
                 [] \<Rightarrow> Inl Bad_Json
               | col # r2 \<Rightarrow>
                   if col \<noteq> CHR '':'' then Inl Bad_Json
                   else (case read_value hook n (skip_ws r2) of
                     Inl e \<Rightarrow> Inl e
                   | Inr (v, r3) \<Rightarrow>
                       (case skip_ws r3 of
                          [] \<Rightarrow> Inl Bad_Json
                        | c # t \<Rightarrow>
                            if c = CHR ''}'' then
                              map_sum id (\<lambda>v. (v, t)) (hook (rev ((k, v) # acc)))
                            else if c = CHR '','' then read_members hook n ((k, v) # acc) (skip_ws t)
                            else Inl Bad_Json)))))"

declare read_value.simps [simp del] read_items.simps [simp del] read_members.simps [simp del]

definition loads_with ::
  "((points \<times> json) list \<Rightarrow> json_error + json) \<Rightarrow> string \<Rightarrow> json_error + json" where
  "loads_with hook s =
     (case read_value hook (Suc (2 * length s)) (skip_ws s) of
        Inl e \<Rightarrow> Inl e
      | Inr (v, r) \<Rightarrow> if skip_ws r = [] then Inr v else Inl Bad_Json)"

definition loads :: "string \<Rightarrow> json_error + json" where
  "loads s = loads_with unique_keys s"

definition loads_plain :: "string \<Rightarrow> json_error + json" where
  "loads_plain s = loads_with last_wins s"


lemma unique_keys_distinct [simp]: "distinct (map fst kvs) \<Longrightarrow> unique_keys kvs = Inr (JObj kvs)"
  by (simp add: unique_keys_def)

text \<open>Under either hook an object that was read has each key once.\<close>

definition keyed_hook :: "((points \<times> json) list \<Rightarrow> json_error + json) \<Rightarrow> bool" where
  "keyed_hook hook \<longleftrightarrow> (\<forall>kvs v. hook kvs = Inr v \<longrightarrow> (\<exists>o'. v = JObj o' \<and> distinct (map fst o')))"

lemma keyed_unique_keys: "keyed_hook unique_keys"
  by (simp add: keyed_hook_def unique_keys_def)

lemma distinct_fold_update:
  "distinct (map fst t) \<Longrightarrow> distinct (map fst (fold (\<lambda>(k, v) t. AList.update k v t) kvs t))"
  by (induction kvs arbitrary: t) (auto simp: distinct_update)

lemma keyed_last_wins: "keyed_hook last_wins"
  by (simp add: keyed_hook_def last_wins_def distinct_fold_update)

lemma keyed_hookD: "keyed_hook hook \<Longrightarrow> hook kvs = Inr (JObj o') \<Longrightarrow> distinct (map fst o')"
  by (auto simp: keyed_hook_def)

lemma read_atom_no_object: "read_atom s \<noteq> Inr (JObj kvs, r)"
  by (auto simp: read_atom_def literals_def read_number_def Let_def split: option.splits if_splits)

lemma map_sum_InrD: "map_sum id f x = Inr y \<Longrightarrow> \<exists>z. x = Inr z \<and> y = f z"
  by (cases x) auto

lemma read_distinct:
  assumes "keyed_hook hook"
  shows "read_value hook n s = Inr (JObj kvs, r) \<Longrightarrow> distinct (map fst kvs)"
    and "read_items hook n acc s \<noteq> Inr (JObj kvs, r)"
    and "read_members hook n macc s = Inr (JObj kvs, r) \<Longrightarrow> distinct (map fst kvs)"
  using assms
proof (induction hook n s and hook n acc s and hook n macc s arbitrary: kvs r and kvs r and kvs r
    rule: read_value_read_items_read_members.induct)
  case (2 hook n s)
  then show ?case
    by (auto simp: read_value.simps read_atom_no_object dest!: map_sum_InrD keyed_hookD
        split: list.splits if_splits option.splits prod.splits)
next
  case (4 hook n acc s)
  then show ?case
    by (simp add: read_items.simps split: list.splits if_splits option.splits sum.splits prod.splits)
next
  case (6 hook n acc s)
  then show ?case
    by (simp add: read_members.simps split: list.splits if_splits option.splits sum.splits prod.splits)
      (auto dest!: map_sum_InrD keyed_hookD)
qed (simp_all add: read_value.simps read_items.simps read_members.simps)

lemma loads_with_distinct:
  "keyed_hook hook \<Longrightarrow> loads_with hook s = Inr (JObj kvs) \<Longrightarrow> distinct (map fst kvs)"
  by (auto simp: loads_with_def dest: read_distinct(1) split: sum.splits prod.splits if_splits)

lemma loads_distinct: "loads s = Inr (JObj kvs) \<Longrightarrow> distinct (map fst kvs)"
  unfolding loads_def by (rule loads_with_distinct [OF keyed_unique_keys])

lemma loads_plain_distinct: "loads_plain s = Inr (JObj kvs) \<Longrightarrow> distinct (map fst kvs)"
  unfolding loads_plain_def by (rule loads_with_distinct [OF keyed_last_wins])

section \<open>Reading what was printed\<close>

text \<open>The round trip for flat objects of plain strings and natural numbers, which is all a claim
  set contains.\<close>

definition plain :: "points \<Rightarrow> bool" where
  "plain p \<longleftrightarrow> list_all (\<lambda>n. 32 \<le> n \<and> n \<le> 126 \<and> n \<noteq> 34 \<and> n \<noteq> 92) p"

definition simple_json :: "json \<Rightarrow> bool" where
  "simple_json v \<longleftrightarrow> (case v of JStr p \<Rightarrow> plain p | JInt i \<Rightarrow> 0 \<le> i | _ \<Rightarrow> False)"

definition text_of :: "json \<Rightarrow> string" where
  "text_of v = (case v of JStr p \<Rightarrow> quoted p | JInt i \<Rightarrow> int_str i | _ \<Rightarrow> [])"

lemma dumps_simple: "simple_json v \<Longrightarrow> dumps flt v = Some (text_of v)"
  by (auto simp: simple_json_def text_of_def split: json.splits)

lemma quoted_plain: "plain p \<Longrightarrow> quoted p = CHR 0x22 # map char_of p @ [CHR 0x22]"
  unfolding quoted_def plain_def by (induction p) (auto simp: escape_point_def)

lemma quote_code: "of_char CHR 0x22 = (34 :: nat)" "of_char CHR 0x5C = (92 :: nat)"
  by simp_all

lemma read_string_plain: "plain p \<Longrightarrow> read_string (map char_of p @ CHR 0x22 # r) = Some (p, r)"
proof (induction p)
  case Nil
  then show ?case by (subst read_string.simps) simp
next
  case (Cons n p)
  then have n: "32 \<le> n" "n \<le> 126" "n \<noteq> 34" "n \<noteq> 92" and p: "plain p" by (auto simp: plain_def)
  then have code: "of_char (char_of n :: char) = n" by simp
  have "(char_of n :: char) \<noteq> CHR 0x22" "(char_of n :: char) \<noteq> CHR 0x5C"
    using n code by (metis (no_types) quote_code(1), metis (no_types) quote_code(2))
  with n p Cons.IH code show ?case by (subst read_string.simps) simp
qed

lemma read_simple_string:
  "plain p \<Longrightarrow> read_value unique_keys (Suc n) (quoted p @ r) = Inr (JStr p, r)"
  by (simp add: quoted_plain read_string_plain read_value.simps)

lemma nat_str_is_digit: "c \<in> set (nat_str n) \<Longrightarrow> is_digit c"
  using nat_str_digits by (simp add: is_digit_def)

lemma nat_str_not_Nil [simp]: "nat_str n \<noteq> []"
  by (subst nat_str.simps) simp

lemma nat_str_hd_zero: "hd (nat_str n) = CHR ''0'' \<Longrightarrow> n = 0"
proof (induction n rule: nat_str.induct)
  case (1 n)
  show ?case
  proof (cases "n < 10")
    case True
    then have "nat_str n = [char_of (48 + n)]" by (simp add: nat_str.simps)
    with "1.prems" have "of_char (char_of (48 + n) :: char) = (48 :: nat)" by simp
    with True show ?thesis by simp
  next
    case False
    then have "nat_str n = nat_str (n div 10) @ [char_of (48 + n mod 10)]" by (subst nat_str.simps) simp
    with "1.prems" have "hd (nat_str (n div 10)) = CHR ''0''" by simp
    with "1.IH" False have "n div 10 = 0" by blast
    with False show ?thesis by simp
  qed
qed

definition ends_value :: "string \<Rightarrow> bool" where
  "ends_value r \<longleftrightarrow> (\<exists>c t. r = c # t \<and> (c = CHR '','' \<or> c = CHR ''}''))"

lemma read_number_nat:
  assumes "ends_value r"
  shows "read_number (nat_str k @ r) = Some (JInt (int k), r)"
proof -
  obtain c t where r: "r = c # t" and c: "c = CHR '','' \<or> c = CHR ''}''"
    using assms by (auto simp: ends_value_def)
  obtain d ds where k: "nat_str k = d # ds" by (cases "nat_str k") auto
  have dig: "is_digit x" if "x \<in> set (d # ds)" for x
    using that nat_str_is_digit [of x k] by (simp add: k)
  have "is_digit d" by (rule dig) simp
  then have nd: "d \<noteq> CHR ''-''" by (auto simp: is_digit_def less_eq_char_def)
  have stop: "\<not> is_digit c" using c by (auto simp: is_digit_def less_eq_char_def)
  have take: "(if take 1 (nat_str k @ r) = ''0'' then ''0'' else takeWhile is_digit (nat_str k @ r)) = nat_str k"
  proof (cases "d = CHR ''0''")
    case True
    then have "k = 0" using nat_str_hd_zero [of k] by (simp add: k)
    moreover have "nat_str 0 = ''0''" by code_simp
    ultimately show ?thesis by simp
  next
    case False
    then show ?thesis using dig stop by (simp add: k r takeWhile_append2)
  qed
  have "read_fraction r = []" "read_exponent r = []"
    using c by (auto simp: r read_fraction_def read_exponent_def Let_def split: list.splits)
  moreover have "(take 1 (nat_str k @ r) = ''-'') = False" using nd by (simp add: k)
  ultimately show ?thesis
    unfolding read_number_def Let_def by (simp only: if_False take) (simp del: str_nat.simps)
qed

lemma read_simple_nat:
  assumes "ends_value r"
  shows "read_value unique_keys (Suc n) (nat_str k @ r) = Inr (JInt (int k), r)"
proof -
  obtain d ds where k: "nat_str k = d # ds" by (cases "nat_str k") auto
  have "is_digit d" using nat_str_is_digit [of d k] by (simp add: k)
  then have "d \<notin> {CHR 0x22, CHR ''['', CHR ''{'', CHR ''n'', CHR ''t'', CHR ''f'', CHR ''N'', CHR ''I'', CHR ''-''}"
    by (auto simp: is_digit_def less_eq_char_def)
  then show ?thesis
    using read_number_nat [OF assms, of k] by (simp add: k read_atom_def literals_def read_value.simps)
qed

lemma read_simple:
  assumes "simple_json v" and "ends_value r"
  shows "read_value unique_keys (Suc n) (text_of v @ r) = Inr (v, r)"
proof (cases v)
  case (JInt i)
  then have "0 \<le> i" and "text_of v = nat_str (nat i)"
    using assms(1) by (auto simp: simple_json_def text_of_def int_str_def)
  then show ?thesis using read_simple_nat [OF assms(2), of n "nat i"] JInt by simp
next
  case (JStr p)
  then have "plain p" using assms(1) by (simp add: simple_json_def)
  then show ?thesis using read_simple_string [of p n r] JStr by (simp add: text_of_def)
qed (use assms(1) in \<open>simp_all add: simple_json_def\<close>)


definition member_text :: "points \<times> json \<Rightarrow> string" where
  "member_text kv = quoted (fst kv) @ '':'' @ text_of (snd kv)"

definition flat :: "(points \<times> json) list \<Rightarrow> bool" where
  "flat kvs \<longleftrightarrow> list_all (\<lambda>kv. plain (fst kv) \<and> simple_json (snd kv)) kvs"

lemma skip_ws_id: "s \<noteq> [] \<Longrightarrow> hd s \<notin> set [CHR '' '', CHR 0x09, CHR 0x0A, CHR 0x0D] \<Longrightarrow> skip_ws s = s"
  by (cases s) (simp_all add: skip_ws_def)

lemma skip_ws_text [simp]:
  assumes "simple_json v" shows "skip_ws (text_of v @ r) = text_of v @ r"
proof (cases v)
  case (JInt i)
  have "is_digit (hd (nat_str (nat i)))" by (rule nat_str_is_digit) (rule hd_in_set, simp)
  then show ?thesis
    using assms JInt by (intro skip_ws_id)
      (auto simp: simple_json_def text_of_def int_str_def is_digit_def less_eq_char_def)
qed (use assms in \<open>simp_all add: simple_json_def text_of_def quoted_def skip_ws_def\<close>)

lemma read_member:
  assumes "plain k" "simple_json v" "r = c # t" "c = CHR '','' \<or> c = CHR ''}''"
  shows "read_members unique_keys (Suc (Suc n)) acc (member_text (k, v) @ r) =
    (if c = CHR ''}'' then
       map_sum id (\<lambda>v. (v, t)) (unique_keys (rev ((k, v) # acc)))
     else read_members unique_keys (Suc n) ((k, v) # acc) (skip_ws t))"
proof -
  have key: "member_text (k, v) @ r = CHR 0x22 # map char_of k @ CHR 0x22 # CHR '':'' # text_of v @ r"
    using assms(1) by (simp add: member_text_def quoted_plain)
  have col: "skip_ws (CHR '':'' # s) = CHR '':'' # s" for s by (simp add: skip_ws_def)
  have ends: "ends_value r" using assms(3,4) by (auto simp: ends_value_def)
  have ws: "skip_ws r = c # t" using assms(3,4) by (auto simp: skip_ws_def)
  from assms(4) show ?thesis
    unfolding key
    by (subst read_members.simps, elim disjE)
      (simp_all add: read_string_plain [OF assms(1)] col read_simple [OF assms(2) ends] assms(2) ws)
qed

lemma member_text_no_ws: "plain (fst kv) \<Longrightarrow> skip_ws (member_text kv @ r) = member_text kv @ r"
  by (simp add: member_text_def quoted_plain skip_ws_def)

lemma read_flat_members:
  assumes "flat kvs" "kvs \<noteq> []" "distinct (map fst (rev acc @ kvs))" "length kvs < n"
  shows "read_members unique_keys n acc (join_with '','' (map member_text kvs) @ ''}'') = Inr (JObj (rev acc @ kvs), [])"
  using assms
proof (induction kvs arbitrary: acc n)
  case (Cons kv kvs)
  obtain k v where kv: "kv = (k, v)" by (cases kv)
  obtain m where n: "n = Suc (Suc m)"
    using Cons.prems(4) by (cases n; cases "n - 1") auto
  have simple: "plain k" "simple_json v" and flat: "flat kvs"
    using Cons.prems(1) by (auto simp: flat_def kv)
  show ?case
  proof (cases kvs)
    case Nil
    then show ?thesis
      using read_member [OF simple, of "''}''" "CHR ''}''" "[]" m acc] Cons.prems(3)
      by (simp add: kv n)
  next
    case (Cons kv' kvs')
    let ?r = "join_with '','' (map member_text kvs) @ ''}''"
    have joined: "join_with '','' (map member_text (kv # kvs)) @ ''}'' = member_text (k, v) @ CHR '','' # ?r"
      by (simp add: Cons kv)
    have "plain (fst kv')" using flat by (simp add: Cons flat_def)
    then have "skip_ws ?r = ?r"
      using member_text_no_ws [of kv'] by (cases kvs') (simp_all add: Cons)
    then have "read_members unique_keys n acc (member_text (k, v) @ CHR '','' # ?r) = read_members unique_keys (Suc m) ((k, v) # acc) ?r"
      using read_member [OF simple refl disjI1 [OF refl], where t = ?r and n = m and acc = acc] by (simp add: n)
    also have "\<dots> = Inr (JObj (rev acc @ kv # kvs), [])"
      using Cons.IH [OF flat, of "(k, v) # acc" "Suc m"] Cons.prems(3,4) Cons by (simp add: kv n)
    finally show ?thesis unfolding joined .
  qed
qed simp

definition flat_text :: "(points \<times> json) list \<Rightarrow> string" where
  "flat_text kvs = ''{'' @ join_with '','' (map member_text kvs) @ ''}''"

lemma all_some_Some: "all_some (map (\<lambda>x. Some (f x)) xs) = Some (map f xs)"
  by (induction xs) simp_all

lemma dumps_flat:
  assumes "flat kvs" and "sorted (map fst kvs)"
  shows "dumps flt (JObj kvs) = Some (flat_text kvs)"
proof -
  have map: "map (map_prod id (dumps flt)) kvs = map (\<lambda>kv. (fst kv, Some (text_of (snd kv)))) kvs"
    using assms(1) by (intro map_cong refl) (auto simp: flat_def list_all_iff dumps_simple)
  have "map member (sort_key fst (map (map_prod id (dumps flt)) kvs)) = map (\<lambda>kv. Some (member_text kv)) kvs"
    unfolding map using assms(2) by (simp add: sort_key_id_if_sorted comp_def member_def member_text_def)
  then show ?thesis by (simp add: enclosed_def flat_text_def all_some_Some)
qed

lemma length_join: "xs \<noteq> [] \<Longrightarrow> (\<And>x. x \<in> set xs \<Longrightarrow> x \<noteq> []) \<Longrightarrow> length xs \<le> length (join_with sep xs)"
proof (induction sep xs rule: join_with.induct)
  case (3 sep x y xs)
  have "x \<noteq> []" "length (y # xs) \<le> length (join_with sep (y # xs))" using 3 by auto
  then show ?case by (cases x) auto
qed (auto simp: Suc_le_eq)

theorem loads_flat:
  assumes "flat kvs" "kvs \<noteq> []" "distinct (map fst kvs)"
  shows "loads (flat_text kvs) = Inr (JObj kvs)"
proof -
  let ?b = "join_with '','' (map member_text kvs) @ ''}''"
  obtain kv kvs' where kvs: "kvs = kv # kvs'" using assms(2) by (cases kvs) auto
  have "plain (fst kv)" using assms(1) by (simp add: kvs flat_def)
  then have ws: "skip_ws ?b = ?b"
    using member_text_no_ws [of kv] by (cases kvs') (simp_all add: kvs)
  obtain d t where b: "?b = d # t" "d = CHR 0x22"
    using \<open>plain (fst kv)\<close> by (cases kvs') (simp_all add: kvs member_text_def quoted_plain)
  have "length kvs \<le> length (join_with '','' (map member_text kvs))"
    using length_join [of "map member_text kvs" "'',''"] assms(2) by (auto simp: member_text_def quoted_def)
  then have "read_members unique_keys (2 * length (flat_text kvs)) [] ?b = Inr (JObj kvs, [])"
    using read_flat_members [of kvs "[]"] assms by (simp add: flat_text_def)
  moreover have "skip_ws (flat_text kvs) = flat_text kvs" by (simp add: flat_text_def skip_ws_def)
  moreover have "flat_text kvs = CHR ''{'' # d # t" by (simp add: flat_text_def flip: b(1))
  ultimately have "read_value unique_keys (Suc (2 * length (flat_text kvs))) (skip_ws (flat_text kvs)) = Inr (JObj kvs, [])"
    using ws b by (simp add: read_value.simps)
  then show ?thesis by (simp add: loads_def loads_with_def skip_ws_def)
qed


lemma set_join: "set (join_with sep xs) \<subseteq> set sep \<union> (\<Union> (set ` set xs))"
  by (induction sep xs rule: join_with.induct) auto

lemma plain_char_ascii: "plain p \<Longrightarrow> x \<in> set (quoted p) \<Longrightarrow> of_char x < (128::nat)"
  by (auto simp: quoted_plain plain_def list_all_iff)

lemma text_ascii: "simple_json v \<Longrightarrow> x \<in> set (text_of v) \<Longrightarrow> of_char x < (128::nat)"
proof (cases v)
  case (JInt i)
  assume "simple_json v" "x \<in> set (text_of v)"
  with JInt have "x \<in> set (nat_str (nat i))" by (auto simp: simple_json_def text_of_def int_str_def)
  then have "x \<le> CHR ''9''" using nat_str_digits by blast
  then show ?thesis by (simp add: less_eq_char_def)
qed (auto simp: simple_json_def text_of_def plain_char_ascii)

lemma flat_text_ascii:
  assumes "flat kvs" shows "list_all (\<lambda>x. of_char x < (128::nat)) (flat_text kvs)"
proof -
  have "of_char x < (128::nat)" if "kv \<in> set kvs" "x \<in> set (member_text kv)" for kv x
    using that assms by (auto simp: flat_def list_all_iff member_text_def dest: plain_char_ascii text_ascii)
  then show ?thesis
    using set_join [of "'',''" "map member_text kvs"] unfolding flat_text_def list_all_iff by auto
qed

end
