(* ===== verification/Lease.thy ===== *)
theory Lease
  imports Json Sha256 "HOL-Library.Multiset"
begin

text \<open>
  The signed activation lease of \<open>aegis_zap_active/lease.py\<close>:
  \<open>AZL1.<b64url(canonical claims)>.<b64url(hmac)>\<close>.

  A token and a secret are strings of bytes, a value asserted by a caller (\<open>LeaseBinding\<close>)
  is a list of code points, a validated claim (\<open>LeaseClaims\<close>) is an ASCII string, because
  its pattern allows nothing else.  Times are seconds.  Every refusal is a \<open>LeaseRejected\<close>
  code; \<open>Uncaught_ValueError\<close> is the \<open>ValueError\<close> of \<open>json.dumps(allow_nan=False)\<close>, which
  \<open>verify_lease\<close> does not catch.
\<close>

section \<open>Refusals and secrets\<close>

datatype lease_code =
    LEASE_REQUIRED | LEASE_MALFORMED | LEASE_UNKNOWN_FORMAT | LEASE_NOT_CANONICAL
  | LEASE_CLAIMS_INVALID | LEASE_SIGNATURE_INVALID | LEASE_AUDIENCE_MISMATCH | LEASE_EXPIRED
  | LEASE_NOT_YET_VALID | LEASE_LIFETIME_EXCESSIVE | LEASE_BINDING_MISMATCH | LEASE_NOT_ARMED
  | LEASE_ALREADY_CONSUMED | LEASE_REVOKED | LEASE_REGISTRY_UNAVAILABLE | LEASE_SECRET_UNAVAILABLE

datatype lease_error = LeaseRejected lease_code | Uncaught_ValueError

definition AUDIENCE :: string where "AUDIENCE = ''aegis-zap-active-runner''"
definition MAX_LIFETIME_SECONDS :: int where "MAX_LIFETIME_SECONDS = 900"
definition MAX_CLOCK_SKEW_SECONDS :: int where "MAX_CLOCK_SKEW_SECONDS = 60"
definition MAX_TOKEN_BYTES :: nat where "MAX_TOKEN_BYTES = 1024"
definition MIN_SECRET_BYTES :: nat where "MIN_SECRET_BYTES = 32"

definition PLACEHOLDER_SECRETS :: "string list" where
  "PLACEHOLDER_SECRETS = [''changeme'', ''change-me'', ''placeholder'', ''secret'', ''example'', ''dummy'',
     ''test'', ''todo'', ''replace-me'', ''xxx'', ''none'', ''null'', ''0'']"

definition byte_space :: "char \<Rightarrow> bool" where
  "byte_space c \<longleftrightarrow> c = CHR '' '' \<or> CHR 0x09 \<le> c \<and> c \<le> CHR 0x0D"

definition strip_bytes :: "string \<Rightarrow> string" where
  "strip_bytes s = rev (dropWhile byte_space (rev (dropWhile byte_space s)))"

text \<open>The UTF-8 encodings of the characters that \<open>str.strip()\<close> removes.  A placeholder is ASCII,
  so \<open>decode("utf-8", "replace").strip().lower()\<close> equals one exactly when the bytes between
  such encodings do, up to case.\<close>

definition space_encodings :: "string list" where
  "space_encodings =
     map (\<lambda>n. [char_of n]) ([9..<14] @ [28..<33]) @
     [[CHR 0xC2, CHR 0x85], [CHR 0xC2, CHR 0xA0], [CHR 0xE1, CHR 0x9A, CHR 0x80]] @
     map (\<lambda>n. [CHR 0xE2, CHR 0x80, char_of n]) ([128..<139] @ [168, 169, 175]) @
     [[CHR 0xE2, CHR 0x81, CHR 0x9F], [CHR 0xE3, CHR 0x80, CHR 0x80]]"

fun strip_prefixes :: "nat \<Rightarrow> string list \<Rightarrow> string \<Rightarrow> string" where
  "strip_prefixes 0 es s = s"
| "strip_prefixes (Suc n) es s =
     (case find (\<lambda>e. take (length e) s = e) es of
        None \<Rightarrow> s | Some e \<Rightarrow> strip_prefixes n es (drop (length e) s))"

definition strip_text :: "string \<Rightarrow> string" where
  "strip_text s =
     (let t = strip_prefixes (length s) space_encodings s in
      rev (strip_prefixes (length t) (map rev space_encodings) (rev t)))"

definition lower :: "string \<Rightarrow> string" where
  "lower s = map (\<lambda>c. if is_upper c then char_of (of_char c + 32 :: nat) else c) s"

definition normalize_secret :: "string option \<Rightarrow> lease_error + string" where
  "normalize_secret secret =
     (case secret of
        None \<Rightarrow> Inl (LeaseRejected LEASE_SECRET_UNAVAILABLE)
      | Some raw \<Rightarrow>
          let stripped = strip_bytes raw in
          if stripped = [] \<or> length stripped < MIN_SECRET_BYTES then
            Inl (LeaseRejected LEASE_SECRET_UNAVAILABLE)
          else if lower (strip_text stripped) \<in> set PLACEHOLDER_SECRETS then
            Inl (LeaseRejected LEASE_SECRET_UNAVAILABLE)
          else Inr stripped)"

section \<open>Base64\<close>

definition alphabet :: string where
  "alphabet = ''ABCDEFGHIJKLMNOPQRSTUVWXYZabcdefghijklmnopqrstuvwxyz0123456789-_''"

fun sextets :: "nat list \<Rightarrow> nat list" where
  "sextets [] = []"
| "sextets [a] = [a div 4, a mod 4 * 16]"
| "sextets [a, b] = [a div 4, a mod 4 * 16 + b div 16, b mod 16 * 4]"
| "sextets (a # b # c # r) =
     a div 4 # (a mod 4 * 16 + b div 16) # (b mod 16 * 4 + c div 64) # c mod 64 # sextets r"

fun octets :: "nat list \<Rightarrow> nat list" where
  "octets (w # x # y # z # r) =
     (w * 4 + x div 16) # (x mod 16 * 16 + y div 4) # (y mod 4 * 64 + z) # octets r"
| "octets [w, x, y] = [w * 4 + x div 16, x mod 16 * 16 + y div 4]"
| "octets [w, x] = [w * 4 + x div 16]"
| "octets _ = []"

definition urlsafe_b64encode :: "string \<Rightarrow> string" where
  "urlsafe_b64encode raw =
     (let cs = map (\<lambda>n. alphabet ! n) (sextets (map of_char raw)) in
      cs @ replicate ((4 - length cs mod 4) mod 4) (CHR ''=''))"

definition b64_index :: "char \<Rightarrow> nat" where
  "b64_index c = length (takeWhile (\<lambda>x. x \<noteq> c) alphabet)"

definition b64encode :: "string \<Rightarrow> string" where
  "b64encode raw = rstrip (CHR ''='') (urlsafe_b64encode raw)"

text \<open>The decoder of the standard library drops the unused low bits of the last character, and
  refuses one character left over.\<close>

definition b64decode :: "string \<Rightarrow> lease_error + string" where
  "b64decode v =
     (if v = [] \<or> \<not> list_all (\<lambda>c. c \<in> set alphabet) v then Inl (LeaseRejected LEASE_MALFORMED)
      else if length v mod 4 = 1 then Inl (LeaseRejected LEASE_MALFORMED)
      else Inr (map char_of (octets (map b64_index v))))"

section \<open>Claims\<close>

record lease_claims =
  c_lease_id :: string
  c_capability_id :: string
  c_profile_id :: string
  c_target_ref :: string
  c_target_origin :: string
  c_projection_digest :: string
  c_allowlist_digest :: string
  c_manifest_digest :: string
  c_issued_at :: int
  c_not_before :: int
  c_expires_at :: int
  c_nonce :: string
  c_audience :: string
  c_budget_id :: string

definition slug :: "char \<Rightarrow> bool" where
  "slug c \<longleftrightarrow> is_lower c \<or> is_digit c \<or> c = CHR ''-''"

definition ident :: "char \<Rightarrow> bool" where
  "ident c \<longleftrightarrow> is_lower c \<or> is_digit c \<or> c = CHR ''_''"

definition upper_ident :: "char \<Rightarrow> bool" where
  "upper_ident c \<longleftrightarrow> is_upper c \<or> is_digit c \<or> c = CHR ''_''"

definition host_char :: "char \<Rightarrow> bool" where
  "host_char c \<longleftrightarrow> is_alnum c \<or> c = CHR ''.'' \<or> c = CHR ''-''"

text \<open>\<open>^https?://[A-Za-z0-9.-]{1,80}(?::[0-9]{2,5})?$\<close>.\<close>

definition origin_ok :: "string \<Rightarrow> bool" where
  "origin_ok s \<longleftrightarrow> list_ex (\<lambda>scheme. take (length scheme) s = scheme \<and>
     (case split_on (CHR '':'') (drop (length scheme) s) of
        [host] \<Rightarrow> pat [] host_char 1 80 host
      | [host, port] \<Rightarrow> pat [] host_char 1 80 host \<and> pat [] is_digit 2 5 port
      | _ \<Rightarrow> False)) [''http://'', ''https://'']"

definition sha_ok :: "string \<Rightarrow> bool" where
  "sha_ok s \<longleftrightarrow> pat [] is_hex 64 64 s"

definition epoch_ok :: "int \<Rightarrow> bool" where
  "epoch_ok i \<longleftrightarrow> 1600000000 \<le> i \<and> i \<le> 4102444800"

definition claims_ok :: "lease_claims \<Rightarrow> bool" where
  "claims_ok c \<longleftrightarrow>
     pat ''lease-'' is_hex 16 16 (c_lease_id c) \<and> pat [] ident 3 100 (c_capability_id c) \<and>
     pat [] upper_ident 3 64 (c_profile_id c) \<and> pat [] slug 3 64 (c_target_ref c) \<and>
     origin_ok (c_target_origin c) \<and> sha_ok (c_projection_digest c) \<and>
     sha_ok (c_allowlist_digest c) \<and> sha_ok (c_manifest_digest c) \<and>
     epoch_ok (c_issued_at c) \<and> epoch_ok (c_not_before c) \<and> epoch_ok (c_expires_at c) \<and>
     pat [] is_hex 32 32 (c_nonce c) \<and> pat [] slug 3 64 (c_audience c) \<and>
     pat ''budget-'' is_hex 12 12 (c_budget_id c)"

text \<open>\<open>model_dump\<close>: the fields in the order of the class.\<close>

definition str_entry :: "string \<Rightarrow> string \<Rightarrow> points \<times> json" where
  "str_entry k v = (points_of k, JStr (points_of v))"

definition int_entry :: "string \<Rightarrow> int \<Rightarrow> points \<times> json" where
  "int_entry k v = (points_of k, JInt v)"

definition model_dump :: "lease_claims \<Rightarrow> (points \<times> json) list" where
  "model_dump c =
     [str_entry ''lease_id'' (c_lease_id c), str_entry ''capability_id'' (c_capability_id c),
      str_entry ''profile_id'' (c_profile_id c), str_entry ''target_ref'' (c_target_ref c),
      str_entry ''target_origin'' (c_target_origin c), str_entry ''projection_digest'' (c_projection_digest c),
      str_entry ''allowlist_digest'' (c_allowlist_digest c), str_entry ''manifest_digest'' (c_manifest_digest c),
      int_entry ''issued_at'' (c_issued_at c), int_entry ''not_before'' (c_not_before c),
      int_entry ''expires_at'' (c_expires_at c), str_entry ''nonce'' (c_nonce c),
      str_entry ''audience'' (c_audience c), str_entry ''budget_id'' (c_budget_id c)]"

definition CLAIM_NAMES :: "string list" where
  "CLAIM_NAMES = [''allowlist_digest'', ''audience'', ''budget_id'', ''capability_id'', ''expires_at'',
     ''issued_at'', ''lease_id'', ''manifest_digest'', ''nonce'', ''not_before'', ''profile_id'',
     ''projection_digest'', ''target_origin'', ''target_ref'']"

definition canonical_claims :: "(string \<Rightarrow> string option) \<Rightarrow> (points \<times> json) list \<Rightarrow> lease_error + string" where
  "canonical_claims flt kvs =
     (case dumps flt (JObj kvs) of None \<Rightarrow> Inl Uncaught_ValueError | Some s \<Rightarrow> Inr s)"

text \<open>\<open>LeaseClaims.model_validate\<close>, strict: a string field is a string, an integer field an
  integer, and each satisfies its constraint.\<close>

definition str_claim :: "(points \<times> json) list \<Rightarrow> string \<Rightarrow> string option" where
  "str_claim kvs k = (case map_of kvs (points_of k) of Some (JStr p) \<Rightarrow> as_ascii p | _ \<Rightarrow> None)"

definition int_claim :: "(points \<times> json) list \<Rightarrow> string \<Rightarrow> int option" where
  "int_claim kvs k = (case map_of kvs (points_of k) of Some (JInt i) \<Rightarrow> Some i | _ \<Rightarrow> None)"

definition str_claim_names :: "string list" where
  "str_claim_names = filter (\<lambda>k. k \<notin> {''issued_at'', ''not_before'', ''expires_at''}) CLAIM_NAMES"

definition validate_claims :: "(points \<times> json) list \<Rightarrow> lease_claims option" where
  "validate_claims kvs =
     (let s = (\<lambda>k. the (str_claim kvs k)); i = (\<lambda>k. the (int_claim kvs k));
          c = \<lparr>c_lease_id = s ''lease_id'', c_capability_id = s ''capability_id'',
            c_profile_id = s ''profile_id'', c_target_ref = s ''target_ref'',
            c_target_origin = s ''target_origin'', c_projection_digest = s ''projection_digest'',
            c_allowlist_digest = s ''allowlist_digest'', c_manifest_digest = s ''manifest_digest'',
            c_issued_at = i ''issued_at'', c_not_before = i ''not_before'',
            c_expires_at = i ''expires_at'', c_nonce = s ''nonce'', c_audience = s ''audience'',
            c_budget_id = s ''budget_id''\<rparr> in
      if list_all (\<lambda>k. str_claim kvs k \<noteq> None) str_claim_names \<and>
         list_all (\<lambda>k. int_claim kvs k \<noteq> None) [''issued_at'', ''not_before'', ''expires_at''] \<and>
         claims_ok c
      then Some c else None)"

section \<open>Signing and verifying\<close>

definition b_dot :: char where "b_dot = CHR ''.''"

definition sign_lease :: "(string \<Rightarrow> string option) \<Rightarrow> lease_claims \<Rightarrow> string option \<Rightarrow> lease_error + string" where
  "sign_lease flt c secret =
     (case normalize_secret secret of
        Inl e \<Rightarrow> Inl e
      | Inr key \<Rightarrow>
          (case canonical_claims flt (model_dump c) of
             Inl e \<Rightarrow> Inl e
           | Inr text \<Rightarrow>
               let signed = ''AZL1'' @ b_dot # b64encode text in
               Inr (signed @ b_dot # b64encode (hmac_sha256 key signed))))"

record lease_binding =
  b_capability_id :: points
  b_profile_id :: points
  b_target_ref :: points
  b_target_origin :: points
  b_projection_digest :: points
  b_allowlist_digest :: points
  b_manifest_digest :: points
  b_audience :: points

definition trusted_claims :: "lease_claims \<Rightarrow> lease_binding \<Rightarrow> int \<Rightarrow> lease_error + lease_claims" where
  "trusted_claims c b seconds =
     (if points_of (c_audience c) \<noteq> b_audience b then Inl (LeaseRejected LEASE_AUDIENCE_MISMATCH)
      else if \<not> (c_issued_at c \<le> c_not_before c \<and> c_not_before c < c_expires_at c) then
        Inl (LeaseRejected LEASE_MALFORMED)
      else if MAX_LIFETIME_SECONDS < c_expires_at c - c_not_before c then
        Inl (LeaseRejected LEASE_LIFETIME_EXCESSIVE)
      else if MAX_LIFETIME_SECONDS < c_expires_at c - c_issued_at c then
        Inl (LeaseRejected LEASE_LIFETIME_EXCESSIVE)
      else if seconds + MAX_CLOCK_SKEW_SECONDS < c_not_before c then
        Inl (LeaseRejected LEASE_NOT_YET_VALID)
      else if c_expires_at c \<le> seconds - MAX_CLOCK_SKEW_SECONDS then
        Inl (LeaseRejected LEASE_EXPIRED)
      else if points_of (c_capability_id c) \<noteq> b_capability_id b \<or>
        points_of (c_profile_id c) \<noteq> b_profile_id b \<or>
        points_of (c_target_ref c) \<noteq> b_target_ref b \<or>
        rstrip 47 (points_of (c_target_origin c)) \<noteq> rstrip 47 (b_target_origin b) \<or>
        points_of (c_projection_digest c) \<noteq> b_projection_digest b \<or>
        points_of (c_allowlist_digest c) \<noteq> b_allowlist_digest b \<or>
        points_of (c_manifest_digest c) \<noteq> b_manifest_digest b then
        Inl (LeaseRejected LEASE_BINDING_MISMATCH)
      else Inr c)"

definition decode_claims :: "(string \<Rightarrow> string option) \<Rightarrow> string \<Rightarrow> lease_error + (points \<times> json) list" where
  "decode_claims flt payload =
     (case b64decode payload of
        Inl e \<Rightarrow> Inl e
      | Inr raw \<Rightarrow>
          if \<not> list_all (\<lambda>c. of_char c < (128::nat)) raw then Inl (LeaseRejected LEASE_MALFORMED)
          else (case loads raw of
            Inl Duplicate_Key \<Rightarrow> Inl (LeaseRejected LEASE_NOT_CANONICAL)
          | Inl Bad_Json \<Rightarrow> Inl (LeaseRejected LEASE_MALFORMED)
          | Inr v \<Rightarrow>
              (case v of
                 JObj kvs \<Rightarrow>
                   (case canonical_claims flt kvs of
                      Inl e \<Rightarrow> Inl e
                    | Inr text \<Rightarrow>
                        if text \<noteq> raw then Inl (LeaseRejected LEASE_NOT_CANONICAL)
                        else if set (map fst kvs) \<noteq> set (map points_of CLAIM_NAMES) then
                          Inl (LeaseRejected LEASE_CLAIMS_INVALID)
                        else Inr kvs)
               | _ \<Rightarrow> Inl (LeaseRejected LEASE_MALFORMED))))"

definition verify_lease ::
  "(string \<Rightarrow> string option) \<Rightarrow> string \<Rightarrow> string option \<Rightarrow> lease_binding \<Rightarrow> int
    \<Rightarrow> lease_error + lease_claims" where
  "verify_lease flt token secret b seconds =
     (case normalize_secret secret of
        Inl e \<Rightarrow> Inl e
      | Inr key \<Rightarrow>
          if token = [] then Inl (LeaseRejected LEASE_REQUIRED)
          else if MAX_TOKEN_BYTES < length token then Inl (LeaseRejected LEASE_MALFORMED)
          else (case split_on b_dot token of
            [version, payload, signature] \<Rightarrow>
              if version \<noteq> ''AZL1'' then Inl (LeaseRejected LEASE_UNKNOWN_FORMAT)
              else (case decode_claims flt payload of
                Inl e \<Rightarrow> Inl e
              | Inr kvs \<Rightarrow>
                  (case b64decode signature of
                     Inl e \<Rightarrow> Inl e
                   | Inr mac \<Rightarrow>
                       if mac \<noteq> hmac_sha256 key (''AZL1'' @ b_dot # payload) then
                         Inl (LeaseRejected LEASE_SIGNATURE_INVALID)
                       else (case validate_claims kvs of
                         None \<Rightarrow> Inl (LeaseRejected LEASE_CLAIMS_INVALID)
                       | Some c \<Rightarrow> trusted_claims c b seconds)))
          | _ \<Rightarrow> Inl (LeaseRejected LEASE_MALFORMED)))"

section \<open>Lemmas on the encoding\<close>

lemma sextets_less: "\<forall>b \<in> set bs. b < 256 \<Longrightarrow> \<forall>n \<in> set (sextets bs). n < 64"
proof (induction bs rule: sextets.induct)
  case (3 a b)
  then have "b div 16 < 16" "a mod 4 < 4" by (auto simp: less_mult_imp_div_less)
  then show ?case using 3 by (auto simp: less_mult_imp_div_less)
next
  case (4 a b c r)
  then have "b div 16 < 16" "c div 64 < 4" "a mod 4 < 4" "b mod 16 < 16"
    by (auto simp: less_mult_imp_div_less)
  then show ?case using 4 by (auto simp: less_mult_imp_div_less)
qed (auto simp: less_mult_imp_div_less)

lemma length_sextets: "length (sextets bs) mod 4 \<noteq> 1"
  by (induction bs rule: sextets.induct) auto

lemma length_sextets_eq: "length (sextets bs) = (4 * length bs + 2) div 3"
  by (induction bs rule: sextets.induct) simp_all

lemma octets_sextets: "\<forall>b \<in> set bs. b < 256 \<Longrightarrow> octets (sextets bs) = bs"
proof (induction bs rule: sextets.induct)
  case (3 a b)
  then have "b div 16 < 16" by (auto simp: less_mult_imp_div_less)
  then show ?case by simp
next
  case (4 a b c r)
  then have "b div 16 < 16" "c div 64 < 4" by (auto simp: less_mult_imp_div_less)
  with 4 show ?case by simp
qed simp_all

lemma index_nth: "distinct xs \<Longrightarrow> n < length xs \<Longrightarrow> length (takeWhile (\<lambda>x. x \<noteq> xs ! n) xs) = n"
proof (induction xs arbitrary: n)
  case (Cons y ys)
  then show ?case by (cases n) (auto simp: nth_Cons')
qed simp

lemma alphabet_facts: "distinct alphabet" "length alphabet = 64" "CHR ''='' \<notin> set alphabet" "b_dot \<notin> set alphabet"
  by (simp_all add: alphabet_def b_dot_def)

lemma b64_index_nth: "n < 64 \<Longrightarrow> b64_index (alphabet ! n) = n"
  using index_nth [OF alphabet_facts(1)] by (simp add: b64_index_def alphabet_facts(2))

lemma rstrip_pad:
  assumes "list_all (\<lambda>c. c \<in> set alphabet) cs"
  shows "rstrip (CHR ''='') (cs @ replicate k (CHR ''='')) = cs"
proof -
  have "dropWhile (\<lambda>x. x = CHR ''='') (rev cs) = rev cs"
    using assms alphabet_facts(3) by (cases "rev cs") (auto simp: list_all_iff dest!: arg_cong [where f = set])
  then show ?thesis by (subst rstrip_def, simp, subst dropWhile_append2) auto
qed

lemma sextets_chars: "list_all (\<lambda>c. c \<in> set alphabet) (map ((!) alphabet) (sextets (map of_char raw)))"
proof -
  have "n < length alphabet" if "n \<in> set (sextets (map of_char raw))" for n
    using sextets_less [of "map of_char raw"] that by (auto simp: alphabet_facts(2))
  then show ?thesis by (auto simp: list_all_iff)
qed

lemma b64encode_eq: "b64encode raw = map ((!) alphabet) (sextets (map of_char raw))"
  unfolding b64encode_def urlsafe_b64encode_def Let_def by (rule rstrip_pad [OF sextets_chars])

lemma b64encode_chars: "c \<in> set (b64encode raw) \<Longrightarrow> c \<in> set alphabet"
  using sextets_chars [of raw] unfolding b64encode_eq list_all_iff by blast

lemma sextets_Nil [simp]: "sextets bs = [] \<longleftrightarrow> bs = []"
  by (cases bs rule: sextets.cases) simp_all

lemma b64decode_encode: "raw \<noteq> [] \<Longrightarrow> b64decode (b64encode raw) = Inr raw"
proof -
  assume "raw \<noteq> []"
  let ?s = "sextets (map of_char raw)"
  have less: "\<forall>n \<in> set ?s. n < 64" by (rule sextets_less) auto
  then have "map b64_index (map ((!) alphabet) ?s) = ?s" by (auto intro!: map_idI simp: b64_index_nth)
  moreover have "octets ?s = map of_char raw" by (rule octets_sextets) auto
  ultimately show ?thesis
    using \<open>raw \<noteq> []\<close> sextets_chars [of raw] length_sextets [of "map of_char raw"]
    by (simp add: b64decode_def b64encode_eq map_idI comp_def)
qed

section \<open>Lemmas on claims\<close>

lemma pat_chars:
  assumes "pat pre cls lo hi s" and "\<And>c. cls c \<Longrightarrow> P c" and "list_all P pre"
  shows "list_all P s"
proof -
  have "s = take (length pre) s @ drop (length pre) s" by simp
  then have "set s = set (take (length pre) s) \<union> set (drop (length pre) s)" by (metis set_append)
  then show ?thesis using assms by (auto simp: pat_def Let_def list_all_iff)
qed

definition plain_char :: "char \<Rightarrow> bool" where
  "plain_char c \<longleftrightarrow> 32 \<le> (of_char c :: nat) \<and> (of_char c :: nat) \<le> 126 \<and>
     (of_char c :: nat) \<noteq> 34 \<and> (of_char c :: nat) \<noteq> 92"

lemma plain_classes [simp]:
  "is_hex c \<Longrightarrow> plain_char c" "slug c \<Longrightarrow> plain_char c" "ident c \<Longrightarrow> plain_char c"
  "upper_ident c \<Longrightarrow> plain_char c" "host_char c \<Longrightarrow> plain_char c" "is_digit c \<Longrightarrow> plain_char c"
  by (auto simp: is_hex_def slug_def ident_def upper_ident_def host_char_def is_digit_def is_lower_def
      is_upper_def is_alnum_def plain_char_def less_eq_char_def)

lemma pat_plain:
  "pat pre is_hex lo hi s \<Longrightarrow> list_all plain_char pre \<Longrightarrow> list_all plain_char s"
  "pat [] slug lo hi s \<Longrightarrow> list_all plain_char s"
  "pat [] ident lo hi s \<Longrightarrow> list_all plain_char s"
  "pat [] upper_ident lo hi s \<Longrightarrow> list_all plain_char s"
  "pat [] host_char lo hi s \<Longrightarrow> list_all plain_char s"
  "pat [] is_digit lo hi s \<Longrightarrow> list_all plain_char s"
  by (erule pat_chars; simp)+

lemma pat_hex:
  "pat ''lease-'' is_hex lo hi s \<Longrightarrow> list_all plain_char s"
  "pat ''budget-'' is_hex lo hi s \<Longrightarrow> list_all plain_char s"
  "pat [] is_hex lo hi s \<Longrightarrow> list_all plain_char s"
  by (erule pat_plain(1), simp add: plain_char_def)+

lemma split_on_join: "set s \<subseteq> insert c (\<Union> (set ` set (split_on c s)))"
  by (induction s) (auto split: list.splits, blast)

lemma origin_plain: "origin_ok s \<Longrightarrow> list_all plain_char s"
proof -
  assume "origin_ok s"
  then obtain sch where sch: "sch \<in> set [''http://'', ''https://'']" "take (length sch) s = sch"
    and rest: "case split_on (CHR '':'') (drop (length sch) s) of
        [host] \<Rightarrow> pat [] host_char 1 80 host
      | [host, port] \<Rightarrow> pat [] host_char 1 80 host \<and> pat [] is_digit 2 5 port
      | _ \<Rightarrow> False"
    unfolding origin_ok_def list_ex_iff by blast
  have parts: "list_all plain_char p" if p: "p \<in> set (split_on (CHR '':'') (drop (length sch) s))" for p
  proof -
    from p rest have "pat [] host_char 1 80 p \<or> pat [] is_digit 2 5 p" by (auto split: list.splits)
    then show ?thesis
      using pat_plain(5,6) by blast
  qed
  have "plain_char x" if "x \<in> set (drop (length sch) s)" for x
  proof -
    have "plain_char CHR '':''" by (simp add: plain_char_def)
    moreover have "x = CHR '':'' \<or> (\<exists>p \<in> set (split_on (CHR '':'') (drop (length sch) s)). x \<in> set p)"
      using split_on_join [of "drop (length sch) s" "CHR '':''"] that by blast
    ultimately show ?thesis using parts unfolding list_all_iff by blast
  qed
  then have "list_all plain_char (drop (length sch) s)" by (simp add: list_all_iff)
  moreover have "list_all plain_char sch" using sch(1) by (auto simp: plain_char_def)
  moreover have "s = sch @ drop (length sch) s" using sch(2) by (metis append_take_drop_id)
  ultimately show ?thesis by (metis list_all_append)
qed

lemma plain_points: "list_all plain_char s \<Longrightarrow> plain (points_of s)"
  by (simp add: plain_def points_of_def list.pred_map comp_def, erule list.pred_mono_strong, simp add: plain_char_def)

lemma plain_ascii: "list_all plain_char s \<Longrightarrow> as_ascii (points_of s) = Some s"
  by (rule points_of_ascii, erule list.pred_mono_strong) (simp add: plain_char_def)

lemma claims_plain:
  assumes "claims_ok c"
  shows "list_all plain_char (c_lease_id c) \<and> list_all plain_char (c_capability_id c) \<and>
    list_all plain_char (c_profile_id c) \<and> list_all plain_char (c_target_ref c) \<and>
    list_all plain_char (c_target_origin c) \<and> list_all plain_char (c_projection_digest c) \<and>
    list_all plain_char (c_allowlist_digest c) \<and> list_all plain_char (c_manifest_digest c) \<and>
    list_all plain_char (c_nonce c) \<and> list_all plain_char (c_audience c) \<and>
    list_all plain_char (c_budget_id c)"
  using assms unfolding claims_ok_def sha_ok_def
  by (elim conjE) (intro conjI; erule origin_plain pat_hex pat_plain(2-))


text \<open>The canonical text of valid claims: the entries in the order of \<open>CLAIM_NAMES\<close>.\<close>

definition sorted_dump :: "lease_claims \<Rightarrow> (points \<times> json) list" where
  "sorted_dump c =
     [str_entry ''allowlist_digest'' (c_allowlist_digest c), str_entry ''audience'' (c_audience c),
      str_entry ''budget_id'' (c_budget_id c), str_entry ''capability_id'' (c_capability_id c),
      int_entry ''expires_at'' (c_expires_at c), int_entry ''issued_at'' (c_issued_at c),
      str_entry ''lease_id'' (c_lease_id c), str_entry ''manifest_digest'' (c_manifest_digest c),
      str_entry ''nonce'' (c_nonce c), int_entry ''not_before'' (c_not_before c),
      str_entry ''profile_id'' (c_profile_id c), str_entry ''projection_digest'' (c_projection_digest c),
      str_entry ''target_origin'' (c_target_origin c), str_entry ''target_ref'' (c_target_ref c)]"

lemma dump_keys: "map fst (sorted_dump c) = map points_of CLAIM_NAMES"
  by (simp add: sorted_dump_def CLAIM_NAMES_def str_entry_def int_entry_def)

lemma claim_names_sorted: "sorted (map points_of CLAIM_NAMES)" "distinct (map points_of CLAIM_NAMES)"
  by code_simp+

lemma model_dump_sorted:
  "sort_key fst (map (map_prod id f) (model_dump c)) = map (map_prod id f) (sorted_dump c)"
proof (rule sort_key_inj_key_eq)
  show "mset (map (map_prod id f) (model_dump c)) = mset (map (map_prod id f) (sorted_dump c))"
    by (simp add: model_dump_def sorted_dump_def)
  have keys: "map fst (map (map_prod id f) (sorted_dump c)) = map points_of CLAIM_NAMES"
    by (simp add: comp_def flip: dump_keys [of c])
  show "sorted (map fst (map (map_prod id f) (sorted_dump c)))"
    unfolding keys by (rule claim_names_sorted)
  have "set (map (map_prod id f) (model_dump c)) = set (map (map_prod id f) (sorted_dump c))"
    by (simp add: model_dump_def sorted_dump_def) blast
  moreover have "inj_on fst (set (map (map_prod id f) (sorted_dump c)))"
    using claim_names_sorted(2) unfolding keys [symmetric] distinct_map by blast
  ultimately show "inj_on fst (set (map (map_prod id f) (model_dump c)))" by simp
qed

lemma flat_dump:
  assumes "claims_ok c"
  shows "flat (sorted_dump c)"
proof -
  have names: "list_all (\<lambda>k. plain (points_of k)) CLAIM_NAMES" by code_simp
  have ints: "0 \<le> c_issued_at c" "0 \<le> c_not_before c" "0 \<le> c_expires_at c"
    using assms by (auto simp: claims_ok_def epoch_ok_def)
  show ?thesis
    using names ints claims_plain [OF assms]
    by (simp add: flat_def sorted_dump_def str_entry_def int_entry_def simple_json_def plain_points
        CLAIM_NAMES_def)
qed

lemma dumps_sorted:
  "claims_ok c \<Longrightarrow> dumps flt (JObj (sorted_dump c)) = Some (flat_text (sorted_dump c))"
  by (rule dumps_flat [OF flat_dump]) (simp_all add: dump_keys claim_names_sorted)

lemma dumps_model:
  "claims_ok c \<Longrightarrow> dumps flt (JObj (model_dump c)) = Some (flat_text (sorted_dump c))"
  using dumps_sorted [of c flt]
  by (simp add: model_dump_sorted sort_key_id_if_sorted comp_def dump_keys claim_names_sorted)

lemma canonical_dumps:
  "claims_ok c \<Longrightarrow> canonical_claims flt (sorted_dump c) = Inr (flat_text (sorted_dump c))"
  "claims_ok c \<Longrightarrow> canonical_claims flt (model_dump c) = Inr (flat_text (sorted_dump c))"
  unfolding canonical_claims_def by (simp_all only: dumps_sorted dumps_model option.case)

lemma str_claim_entry:
  "list_all plain_char v \<Longrightarrow> map_of kvs (points_of k) = Some (snd (str_entry k v)) \<Longrightarrow> str_claim kvs k = Some v"
  by (simp add: str_claim_def str_entry_def plain_ascii)

lemma map_of_dump:
  "distinct (map fst kvs) \<Longrightarrow> str_entry k v \<in> set kvs \<Longrightarrow> map_of kvs (points_of k) = Some (snd (str_entry k v))"
  "distinct (map fst kvs) \<Longrightarrow> int_entry k i \<in> set kvs \<Longrightarrow> map_of kvs (points_of k) = Some (snd (int_entry k i))"
  by (simp_all add: str_entry_def int_entry_def)

lemma validate_dump:
  assumes "claims_ok c"
  shows "validate_claims (sorted_dump c) = Some c"
proof -
  have d: "distinct (map fst (sorted_dump c))" by (simp add: dump_keys claim_names_sorted)
  have str: "str_claim (sorted_dump c) k = Some v" if "str_entry k v \<in> set (sorted_dump c)" "list_all plain_char v" for k v
    using that by (intro str_claim_entry map_of_dump d)
  have int: "int_claim (sorted_dump c) k = Some i" if "int_entry k i \<in> set (sorted_dump c)" for k i
    using map_of_dump(2) [OF d that] by (simp add: int_claim_def int_entry_def)
  note plain = claims_plain [OF assms]
  have "str_claim (sorted_dump c) ''lease_id'' = Some (c_lease_id c)"
    "str_claim (sorted_dump c) ''capability_id'' = Some (c_capability_id c)"
    "str_claim (sorted_dump c) ''profile_id'' = Some (c_profile_id c)"
    "str_claim (sorted_dump c) ''target_ref'' = Some (c_target_ref c)"
    "str_claim (sorted_dump c) ''target_origin'' = Some (c_target_origin c)"
    "str_claim (sorted_dump c) ''projection_digest'' = Some (c_projection_digest c)"
    "str_claim (sorted_dump c) ''allowlist_digest'' = Some (c_allowlist_digest c)"
    "str_claim (sorted_dump c) ''manifest_digest'' = Some (c_manifest_digest c)"
    "str_claim (sorted_dump c) ''nonce'' = Some (c_nonce c)"
    "str_claim (sorted_dump c) ''audience'' = Some (c_audience c)"
    "str_claim (sorted_dump c) ''budget_id'' = Some (c_budget_id c)"
    by (rule str; simp add: sorted_dump_def plain)+
  moreover have "int_claim (sorted_dump c) ''issued_at'' = Some (c_issued_at c)"
    "int_claim (sorted_dump c) ''not_before'' = Some (c_not_before c)"
    "int_claim (sorted_dump c) ''expires_at'' = Some (c_expires_at c)"
    by (rule int; simp add: sorted_dump_def)+
  ultimately show ?thesis
    using assms by (cases c) (simp add: validate_claims_def Let_def str_claim_names_def CLAIM_NAMES_def)
qed


section \<open>What signing and verifying promise\<close>

lemma decode_sorted:
  assumes "claims_ok c"
  shows "decode_claims flt (b64encode (flat_text (sorted_dump c))) = Inr (sorted_dump c)"
proof -
  let ?t = "flat_text (sorted_dump c)"
  have fl: "flat (sorted_dump c)" by (rule flat_dump [OF assms])
  have "loads ?t = Inr (JObj (sorted_dump c))"
    by (rule loads_flat [OF fl]) (simp add: sorted_dump_def, simp only: dump_keys claim_names_sorted)
  moreover have "list_all (\<lambda>x. of_char x < (128::nat)) ?t" by (rule flat_text_ascii [OF fl])
  moreover have "?t \<noteq> []" by (simp add: flat_text_def)
  moreover have "set (map fst (sorted_dump c)) = set (map points_of CLAIM_NAMES)" by (simp only: dump_keys)
  ultimately show ?thesis
    by (simp add: decode_claims_def b64decode_encode canonical_dumps [OF assms] del: set_map)
qed

lemma sign_lease_eq:
  assumes "claims_ok c" and "normalize_secret secret = Inr key"
  defines "payload \<equiv> b64encode (flat_text (sorted_dump c))"
  shows "sign_lease flt c secret = Inr (''AZL1'' @ b_dot # payload @ b_dot # b64encode (hmac_sha256 key (''AZL1'' @ b_dot # payload)))"
  using assms by (simp add: sign_lease_def canonical_dumps Let_def)

lemma split_token:
  "split_on b_dot (''AZL1'' @ b_dot # b64encode a @ b_dot # b64encode b) = [''AZL1'', b64encode a, b64encode b]"
proof -
  have no: "b_dot \<notin> set (b64encode x)" for x using b64encode_chars alphabet_facts(4) by blast
  have "b_dot \<notin> set ''AZL1''" by (simp add: b_dot_def)
  then show ?thesis by (simp only: split_on_append no not_False_eq_True split_on_none)
qed

lemma verify_signed:
  assumes "claims_ok c" and "sign_lease flt c secret = Inr token" and "length token \<le> MAX_TOKEN_BYTES"
    and "trusted_claims c b seconds = Inr c"
  shows "verify_lease flt token secret b seconds = Inr c"
proof -
  obtain key where key: "normalize_secret secret = Inr key"
    using assms(2) by (cases "normalize_secret secret") (auto simp: sign_lease_def)
  let ?p = "b64encode (flat_text (sorted_dump c))" and ?m = "hmac_sha256 key (''AZL1'' @ b_dot # b64encode (flat_text (sorted_dump c)))"
  have tok: "token = ''AZL1'' @ b_dot # ?p @ b_dot # b64encode ?m"
    using assms(2) unfolding sign_lease_eq [OF assms(1) key] by simp
  have "?m \<noteq> []" using length_hmac_sha256 [of key] by (metis length_0_conv zero_neq_numeral)
  then show ?thesis
    using assms(3,4) key split_token [of "flat_text (sorted_dump c)" ?m]
    by (simp add: verify_lease_def tok decode_sorted [OF assms(1)] b64decode_encode validate_dump [OF assms(1)])
qed

text \<open>C9: a token minted by \<open>sign_lease\<close> verifies, and verification returns exactly the claims that
  were signed, whenever the claims pass their own time and binding checks and the token is within
  the size bound.\<close>

theorem signed_lease_verifies:
  assumes "claims_ok c" and "sign_lease flt c secret = Inr token" and "length token \<le> MAX_TOKEN_BYTES"
    and "trusted_claims c b seconds = Inr c"
  shows "verify_lease flt token secret b seconds = Inr c"
  using assms by (rule verify_signed)

lemma length_quoted: "list_all plain_char s \<Longrightarrow> length (quoted (points_of s)) = length s + 2"
  by (subst quoted_plain [OF plain_points]) (simp_all add: points_of_def)

lemma length_canonical:
  assumes "claims_ok c"
  shows "length (flat_text (sorted_dump c)) =
    length (c_allowlist_digest c) + length (c_audience c) + length (c_budget_id c) +
    length (c_capability_id c) + length (int_str (c_expires_at c)) + length (int_str (c_issued_at c)) +
    length (c_lease_id c) + length (c_manifest_digest c) + length (c_nonce c) +
    length (int_str (c_not_before c)) + length (c_profile_id c) + length (c_projection_digest c) +
    length (c_target_origin c) + length (c_target_ref c) + 232"
proof -
  have "list_all (list_all plain_char) CLAIM_NAMES" by code_simp
  then have "list_all (\<lambda>k. length (quoted (points_of k)) = length k + 2) CLAIM_NAMES"
    by (rule list.pred_mono_strong) (rule length_quoted)
  then show ?thesis
    using claims_plain [OF assms]
    by (simp add: flat_text_def sorted_dump_def str_entry_def int_entry_def member_text_def text_of_def
        length_quoted CLAIM_NAMES_def)
qed

definition demo_claims :: lease_claims where
  "demo_claims = \<lparr>c_lease_id = ''lease-0123456789abcdef'', c_capability_id = ''zap_active_reflected_xss_v1'',
     c_profile_id = ''ZAP_LAB_ACTIVE_REFLECTED_XSS_V1'', c_target_ref = ''lab-api'',
     c_target_origin = ''http://lab-api:8080'', c_projection_digest = replicate 64 (CHR ''a''),
     c_allowlist_digest = replicate 64 (CHR ''b''), c_manifest_digest = replicate 64 (CHR ''c''),
     c_issued_at = 1700000000, c_not_before = 1700000000, c_expires_at = 1700000900,
     c_nonce = replicate 32 (CHR ''0''), c_audience = AUDIENCE, c_budget_id = ''budget-0123456789ab''\<rparr>"

definition demo_binding :: lease_binding where
  "demo_binding = \<lparr>b_capability_id = points_of (c_capability_id demo_claims),
     b_profile_id = points_of (c_profile_id demo_claims), b_target_ref = points_of (c_target_ref demo_claims),
     b_target_origin = points_of ''http://lab-api:8080/'',
     b_projection_digest = points_of (c_projection_digest demo_claims),
     b_allowlist_digest = points_of (c_allowlist_digest demo_claims),
     b_manifest_digest = points_of (c_manifest_digest demo_claims), b_audience = points_of AUDIENCE\<rparr>"

definition demo_secret :: "string option" where
  "demo_secret = Some (replicate 40 (CHR ''k''))"

lemma demo_ok: "claims_ok demo_claims" by code_simp
lemma demo_key: "normalize_secret demo_secret = Inr (replicate 40 (CHR ''k''))" by code_simp
lemma demo_trusted: "trusted_claims demo_claims demo_binding 1700000100 = Inr demo_claims" by code_simp


lemma demo_token_length:
  assumes "sign_lease flt demo_claims demo_secret = Inr token"
  shows "length token \<le> MAX_TOKEN_BYTES"
proof -
  have "length (int_str 1700000000) = 10" "length (int_str 1700000900) = 10"
    by (simp_all add: int_str_def nat_str.simps)
  then have "length (flat_text (sorted_dump demo_claims)) \<le> 700"
    unfolding length_canonical [OF demo_ok] by (simp add: demo_claims_def AUDIENCE_def)
  then have "length (b64encode (flat_text (sorted_dump demo_claims))) \<le> 940"
    by (simp add: b64encode_eq length_sextets_eq)
  moreover have "length (b64encode m) = 43" if "length m = 32" for m
    using that by (simp add: b64encode_eq length_sextets_eq)
  ultimately show ?thesis
    using assms unfolding sign_lease_eq [OF demo_ok demo_key] by (auto simp: MAX_TOKEN_BYTES_def)
qed

theorem signed_lease_verifies_witness:
  "\<exists>token. verify_lease (\<lambda>_. None) token demo_secret demo_binding 1700000100 = Inr demo_claims"
  using signed_lease_verifies [OF demo_ok sign_lease_eq [OF demo_ok demo_key] demo_token_length
      [OF sign_lease_eq [OF demo_ok demo_key]] demo_trusted, of "\<lambda>_. None"] by blast

lemma demo_token_verifies:
  "\<exists>token. verify_lease (\<lambda>_. None) token demo_secret demo_binding 1700000100 = Inr demo_claims"
  using verify_signed [OF demo_ok sign_lease_eq [OF demo_ok demo_key] demo_token_length
      [OF sign_lease_eq [OF demo_ok demo_key]] demo_trusted, of "\<lambda>_. None"] by blast

lemma str_claim_Some: "str_claim kvs k = Some v \<Longrightarrow> str_entry k v \<in> set kvs"
  by (auto simp: str_claim_def str_entry_def dest!: as_ascii_points map_of_SomeD split: option.splits json.splits)

lemma int_claim_Some: "int_claim kvs k = Some i \<Longrightarrow> int_entry k i \<in> set kvs"
  by (auto simp: int_claim_def int_entry_def dest!: map_of_SomeD split: option.splits json.splits)

lemma validated_entries:
  assumes "validate_claims kvs = Some c"
  shows "claims_ok c \<and> set (sorted_dump c) \<subseteq> set kvs"
proof -
  have str: "str_claim kvs k = Some (the (str_claim kvs k))" if "k \<in> set str_claim_names" for k
    using assms that by (auto simp: validate_claims_def Let_def list_all_iff split: if_splits)
  have int: "int_claim kvs k = Some (the (int_claim kvs k))" if "k \<in> {''issued_at'', ''not_before'', ''expires_at''}" for k
    using assms that by (auto simp: validate_claims_def Let_def split: if_splits)
  have c: "c = \<lparr>c_lease_id = the (str_claim kvs ''lease_id''), c_capability_id = the (str_claim kvs ''capability_id''),
      c_profile_id = the (str_claim kvs ''profile_id''), c_target_ref = the (str_claim kvs ''target_ref''),
      c_target_origin = the (str_claim kvs ''target_origin''), c_projection_digest = the (str_claim kvs ''projection_digest''),
      c_allowlist_digest = the (str_claim kvs ''allowlist_digest''), c_manifest_digest = the (str_claim kvs ''manifest_digest''),
      c_issued_at = the (int_claim kvs ''issued_at''), c_not_before = the (int_claim kvs ''not_before''),
      c_expires_at = the (int_claim kvs ''expires_at''), c_nonce = the (str_claim kvs ''nonce''),
      c_audience = the (str_claim kvs ''audience''), c_budget_id = the (str_claim kvs ''budget_id'')\<rparr>"
    and "claims_ok c"
    using assms by (auto simp: validate_claims_def Let_def split: if_splits)
  have "str_entry k (the (str_claim kvs k)) \<in> set kvs" if "k \<in> set str_claim_names" for k
    by (rule str_claim_Some [OF str [OF that]])
  moreover have "int_entry k (the (int_claim kvs k)) \<in> set kvs" if "k \<in> {''issued_at'', ''not_before'', ''expires_at''}" for k
    by (rule int_claim_Some [OF int [OF that]])
  ultimately show ?thesis
    using \<open>claims_ok c\<close> by (simp add: sorted_dump_def str_claim_names_def CLAIM_NAMES_def) (simp add: c)
qed

text \<open>An accepted payload is the canonical encoding of the claims it yields.\<close>

lemma decode_claims_Inr:
  assumes "decode_claims flt payload = Inr kvs" and "validate_claims kvs = Some c"
  shows "b64decode payload = Inr (flat_text (sorted_dump c))"
proof -
  obtain raw where raw: "b64decode payload = Inr raw" "loads raw = Inr (JObj kvs)"
    "canonical_claims flt kvs = Inr raw" "set (map fst kvs) = set (map points_of CLAIM_NAMES)"
    using assms(1)
    by (auto simp: decode_claims_def simp del: set_map split: sum.splits if_splits json_error.splits json.splits)
  from validated_entries [OF assms(2)] have ok: "claims_ok c" and sub: "set (sorted_dump c) \<subseteq> set kvs" by auto
  have dk: "distinct (map fst kvs)" by (rule loads_distinct [OF raw(2)])
  have dd: "distinct (map fst (sorted_dump c))" by (simp only: dump_keys claim_names_sorted)
  have "length (map fst kvs) = length (map fst (sorted_dump c))"
    using raw(4) dk dd by (metis distinct_card dump_keys)
  then have "set (sorted_dump c) = set kvs"
    using sub dk dd by (intro card_subset_eq) (simp_all add: distinct_card distinct_map)
  then have "mset kvs = mset (sorted_dump c)"
    using dk dd by (simp add: distinct_map set_eq_iff_mset_eq_distinct)
  then have "sort_key fst (map (map_prod id (dumps flt)) kvs) = map (map_prod id (dumps flt)) (sorted_dump c)"
  proof (intro sort_key_inj_key_eq)
    show "inj_on fst (set (map (map_prod id (dumps flt)) kvs))"
      using dk by (auto simp: distinct_map inj_on_def)
    show "sorted (map fst (map (map_prod id (dumps flt)) (sorted_dump c)))"
      by (simp add: comp_def dump_keys claim_names_sorted)
  qed simp
  then have "dumps flt (JObj kvs) = dumps flt (JObj (sorted_dump c))"
    by (simp add: sort_key_id_if_sorted comp_def dump_keys claim_names_sorted)
  then show ?thesis
    using raw(1,3) dumps_sorted [OF ok, of flt] by (simp add: canonical_claims_def del: dumps.simps)
qed

lemma verify_lease_Inr:
  assumes "verify_lease flt token secret b seconds = Inr c"
  obtains key payload sig kvs where "normalize_secret secret = Inr key"
    "split_on b_dot token = [''AZL1'', payload, sig]" "length token \<le> MAX_TOKEN_BYTES"
    "decode_claims flt payload = Inr kvs" "validate_claims kvs = Some c"
    "b64decode sig = Inr (hmac_sha256 key (''AZL1'' @ b_dot # payload))"
    "trusted_claims c b seconds = Inr c"
proof -
  have trusted: "trusted_claims c' b seconds = Inr c \<Longrightarrow> c' = c" for c'
    by (auto simp: trusted_claims_def split: if_splits)
  show ?thesis
    using assms
    by (auto simp: verify_lease_def split: sum.splits if_splits list.splits option.splits
        dest: trusted intro!: that)
qed

text \<open>C8: claims that \<open>verify_lease\<close> returns are authentic: the token's payload is the canonical
  encoding of exactly these claims, its signature is the MAC of that payload under the secret, and
  every claim has its declared form.\<close>

theorem verified_claims_are_authentic:
  assumes "verify_lease flt token secret b seconds = Inr c" and "normalize_secret secret = Inr key"
  shows "claims_ok c \<and> length token \<le> MAX_TOKEN_BYTES \<and>
    (\<exists>payload sig. split_on b_dot token = [''AZL1'', payload, sig] \<and>
       b64decode payload = Inr (flat_text (sorted_dump c)) \<and>
       b64decode sig = Inr (hmac_sha256 key (''AZL1'' @ b_dot # payload)))"
  using assms(1)
proof (rule verify_lease_Inr)
  fix key' payload sig kvs
  assume v: "normalize_secret secret = Inr key'" "split_on b_dot token = [''AZL1'', payload, sig]"
    "length token \<le> MAX_TOKEN_BYTES" "decode_claims flt payload = Inr kvs" "validate_claims kvs = Some c"
    "b64decode sig = Inr (hmac_sha256 key' (''AZL1'' @ b_dot # payload))"
  from v(1) assms(2) have "key' = key" by simp
  with v validated_entries [OF v(5)] decode_claims_Inr [OF v(4,5)] show ?thesis by blast
qed


theorem verified_claims_are_authentic_witness:
  "\<exists>token payload sig. split_on b_dot token = [''AZL1'', payload, sig] \<and>
     b64decode payload = Inr (flat_text (sorted_dump demo_claims))"
proof -
  obtain token where "verify_lease (\<lambda>_. None) token demo_secret demo_binding 1700000100 = Inr demo_claims"
    using demo_token_verifies by blast
  from verified_claims_are_authentic [OF this demo_key] show ?thesis by blast
qed

text \<open>Verified claims match what the caller asserted, field by field, and the current time lies
  in their window, which is at most fifteen minutes long, up to the clock skew.\<close>

theorem verified_claims_match:
  assumes "verify_lease flt token secret b seconds = Inr c"
  shows "points_of (c_capability_id c) = b_capability_id b \<and> points_of (c_profile_id c) = b_profile_id b \<and>
    points_of (c_target_ref c) = b_target_ref b \<and>
    rstrip 47 (points_of (c_target_origin c)) = rstrip 47 (b_target_origin b) \<and>
    points_of (c_projection_digest c) = b_projection_digest b \<and>
    points_of (c_allowlist_digest c) = b_allowlist_digest b \<and>
    points_of (c_manifest_digest c) = b_manifest_digest b \<and> points_of (c_audience c) = b_audience b \<and>
    c_not_before c - 60 \<le> seconds \<and> seconds < c_expires_at c + 60 \<and>
    c_issued_at c \<le> c_not_before c \<and> c_expires_at c \<le> c_issued_at c + 900"
  using assms
proof (rule verify_lease_Inr)
  assume "trusted_claims c b seconds = Inr c"
  then show ?thesis
    by (auto simp: trusted_claims_def MAX_LIFETIME_SECONDS_def MAX_CLOCK_SKEW_SECONDS_def split: if_splits)
qed

theorem verified_claims_match_witness:
  "points_of (c_audience demo_claims) = b_audience demo_binding \<and> c_expires_at demo_claims \<le> c_issued_at demo_claims + 900"
proof -
  obtain token where "verify_lease (\<lambda>_. None) token demo_secret demo_binding 1700000100 = Inr demo_claims"
    using demo_token_verifies by blast
  from verified_claims_match [OF this] show ?thesis by blast
qed

section \<open>What the code does otherwise\<close>

text \<open>
  \<open>_b64decode\<close> means to refuse a second spelling of the same bytes, but the unused bits of the
  last character are not checked: the last character of a signature can be changed and the token
  still verifies, with the same claims.
\<close>

lemma octets_snoc:
  "length xs mod 4 = 2 \<Longrightarrow> a div 4 = b div 4 \<Longrightarrow> octets (xs @ [a]) = octets (xs @ [b])"
proof (induction xs rule: octets.induct)
  case (1 w x y z r)
  then show ?case by (simp add: mod_Suc split: if_splits)
qed (simp_all add: mod_Suc split: if_splits)

lemma respelled_signature_decodes:
  assumes "length xs mod 4 = 2" and "v < 64" and "w < 64" and "v div 4 = w div 4"
  shows "b64decode (xs @ [alphabet ! v]) = b64decode (xs @ [alphabet ! w])"
proof -
  have "alphabet ! v \<in> set alphabet" "alphabet ! w \<in> set alphabet"
    using assms(2,3) by (simp_all add: alphabet_facts(2))
  moreover have "octets (map b64_index xs @ [v]) = octets (map b64_index xs @ [w])"
    by (rule octets_snoc) (simp_all add: assms)
  moreover have "length (xs @ [a]) mod 4 \<noteq> 1" for a using assms(1) by (simp add: mod_Suc)
  ultimately show ?thesis using assms(2,3) by (simp add: b64decode_def b64_index_nth)
qed

text \<open>
  A payload with a non-finite number makes \<open>canonical_claims\<close> raise \<open>ValueError\<close>, which no
  handler of \<open>verify_lease\<close> covers: an unauthenticated token ends the request with an exception
  that is not a \<open>LeaseRejected\<close>.
\<close>

lemma nan_payload_escapes:
  "verify_lease (\<lambda>x. if x = ''NaN'' then None else Some x) ''AZL1.eyJhIjpOYU59.QQ'' demo_secret demo_binding 1700000100
     = Inl Uncaught_ValueError"
  by code_simp

end
