(* ===== verification/Admission.thy ===== *)
theory Admission
  imports Lease
begin

text \<open>
  The armed-lease registry of \<open>zap_active_admission/registry.py\<close>: the component that makes a
  signed lease single-use and revocable.

  The state is the \<open>AdmissionRegistry\<close> object together with what it keeps on disk: the state
  file (absent, unusable, or the payload of a \<open>_persist\<close> with a valid integrity MAC) and the
  initialization marker.  Times are microseconds; \<open>isoformat\<close> and \<open>fromisoformat\<close> are
  inverse on them, so a record keeps the number.  The outcome of the next file operations is
  part of the state (\<open>g_io\<close>): a write succeeds, fails before the file is replaced, after it, or
  after the marker of a first write.  Every method runs under one lock, so a history is a sequence of calls.
\<close>

section \<open>State\<close>

datatype lease_state = ARMED | CONSUMED | REVOKED | EXPIRED

record lease_record =
  lr_lease_id :: string
  lr_state :: lease_state
  lr_capability_id :: string
  lr_profile_id :: string
  lr_target_ref :: string
  lr_target_origin :: string
  lr_projection_digest :: string
  lr_allowlist_digest :: string
  lr_manifest_digest :: string
  lr_budget_id :: string
  lr_audience :: string
  lr_not_before :: int
  lr_expires_at :: int
  lr_armed_at :: int
  lr_consumed_at :: "int option"
  lr_consumed_by :: "string option"
  lr_terminated_at :: "int option"
  lr_termination_reason :: "string option"

record saved_state =
  sv_armed_id :: "string option"
  sv_recent :: "lease_record list"
  sv_nonces :: "string list"

datatype state_file = No_File | Bad_File | Saved saved_state

datatype io = Io_Ok | Io_Failed | Io_Torn | Io_Unsynced

record registry =
  g_armed :: "lease_record option"
  g_recent :: "lease_record list"
  g_nonces :: "string list"
  g_healthy :: bool
  g_armed_total :: nat
  g_consumed_total :: nat
  g_revoked_total :: nat
  g_rejected_total :: nat
  g_restart_revoked_total :: nat
  g_file :: state_file
  g_marker :: bool
  g_io :: "io list"

type_synonym 'a reg = "(registry, lease_error, 'a) prog"

text \<open>
  What the process is started with: the signing secret, the audience, and the two functions of
  the standard library the model leaves open, how CPython prints a float and what
  \<open>json.loads(base64.urlsafe_b64decode(...))\<close> gives on an unauthenticated payload (\<open>None\<close>
  for the \<open>ValueError\<close> or \<open>TypeError\<close> that the code turns into a refusal).
\<close>

record admission_config =
  ac_secret :: string
  ac_audience :: string
  ac_float :: "string \<Rightarrow> string option"
  ac_lenient :: "string \<Rightarrow> json option"

definition RECENT_LIMIT :: nat where "RECENT_LIMIT = 16"
definition NONCE_MEMORY :: nat where "NONCE_MEMORY = 4096"
definition EXPECTED_PROFILE_ID :: string where
  "EXPECTED_PROFILE_ID = ''ZAP_LAB_ACTIVE_REFLECTED_XSS_V1''"
definition EXPECTED_CAPABILITY_ID :: string where
  "EXPECTED_CAPABILITY_ID = ''zap_active_reflected_xss_v1''"

definition last_n :: "nat \<Rightarrow> 'a list \<Rightarrow> 'a list" where
  "last_n n xs = drop (length xs - n) xs"

section \<open>Persistence\<close>

definition snapshot_of :: "registry \<Rightarrow> saved_state" where
  "snapshot_of g = \<lparr>sv_armed_id = map_option lr_lease_id (g_armed g),
     sv_recent = last_n RECENT_LIMIT (g_recent g), sv_nonces = g_nonces g\<rparr>"

definition persist :: "bool \<Rightarrow> bool reg" where
  "persist initial = (\<lambda>g.
     let outcome = (case g_io g of [] \<Rightarrow> Io_Ok | x # _ \<Rightarrow> x); g1 = g\<lparr>g_io := tl (g_io g)\<rparr> in
     case outcome of
       Io_Ok \<Rightarrow> (Inr True, g1\<lparr>g_file := Saved (snapshot_of g), g_marker := g_marker g \<or> initial\<rparr>)
     | Io_Failed \<Rightarrow> (Inr False, g1\<lparr>g_healthy := False\<rparr>)
     | Io_Torn \<Rightarrow> (Inr False, g1\<lparr>g_file := Saved (snapshot_of g), g_healthy := False\<rparr>)
     | Io_Unsynced \<Rightarrow> (Inr False, g1\<lparr>g_file := Saved (snapshot_of g), g_marker := g_marker g \<or> initial, g_healthy := False\<rparr>))"

definition fresh_registry :: "state_file \<Rightarrow> bool \<Rightarrow> io list \<Rightarrow> registry" where
  "fresh_registry f marker outcomes =
     \<lparr>g_armed = None, g_recent = [], g_nonces = [], g_healthy = False, g_armed_total = 0,
      g_consumed_total = 0, g_revoked_total = 0, g_rejected_total = 0,
      g_restart_revoked_total = 0, g_file = f, g_marker = marker, g_io = outcomes\<rparr>"

definition set_healthy :: "bool \<Rightarrow> unit reg" where
  "set_healthy b = modifyE (g_healthy_update (\<lambda>_. b))"

definition restart_record :: "int \<Rightarrow> lease_record \<Rightarrow> lease_record" where
  "restart_record now r =
     (if lr_state r = ARMED then
        r\<lparr>lr_state := REVOKED, lr_terminated_at := Some now,
          lr_termination_reason := Some ''RUNNER_RESTART''\<rparr>
      else r)"

definition remember_key :: "string \<Rightarrow> string list \<Rightarrow> string list" where
  "remember_key n ns = (if n \<in> set ns then ns else ns @ [n])"

definition recover :: "int \<Rightarrow> unit reg" where
  "recover now =
     bindE (getE g_file) (\<lambda>f.
     case f of
       No_File \<Rightarrow>
         bindE (getE g_marker) (\<lambda>marker.
         if marker then retE () else bindE (persist True) set_healthy)
     | Bad_File \<Rightarrow> retE ()
     | Saved sv \<Rightarrow>
         if NONCE_MEMORY < length (sv_nonces sv) \<or> RECENT_LIMIT < length (sv_recent sv) then retE ()
         else
           let armed = filter (\<lambda>r. lr_state r = ARMED) (sv_recent sv);
               bad = (1 < length armed \<or>
                 armed \<noteq> [] \<and> sv_armed_id sv \<noteq> Some (lr_lease_id (hd armed))) in
           thenE (modifyE (\<lambda>g. g\<lparr>
               g_restart_revoked_total := g_restart_revoked_total g + length armed,
               g_revoked_total := g_revoked_total g + length armed,
               g_nonces := (if bad then [] else fold remember_key (sv_nonces sv) (g_nonces g)),
               g_recent := (if bad then [] else g_recent g @ map (restart_record now) (sv_recent sv))\<rparr>))
           (if bad then retE ()
            else thenE (modifyE (g_armed_update (\<lambda>_. None)))
              (bindE (persist False) set_healthy)))"

text \<open>A new process over the same disk: \<open>__init__\<close>, then \<open>_recover\<close>.\<close>

definition restart :: "int \<Rightarrow> registry \<Rightarrow> registry" where
  "restart now g = snd (recover now (fresh_registry (g_file g) (g_marker g) (g_io g)))"

section \<open>Helpers of the operations\<close>

definition require_healthy :: "unit reg" where
  "require_healthy =
     bindE (getE g_healthy) (\<lambda>h. rejectE (\<not> h) (LeaseRejected LEASE_REGISTRY_UNAVAILABLE))"

definition remember :: "lease_record \<Rightarrow> unit reg" where
  "remember r = modifyE (\<lambda>g. g\<lparr>g_recent :=
     last_n RECENT_LIMIT (filter (\<lambda>x. lr_lease_id x \<noteq> lr_lease_id r) (g_recent g) @ [r])\<rparr>)"

definition remember_nonce :: "string \<Rightarrow> unit reg" where
  "remember_nonce n = modifyE (\<lambda>g. g\<lparr>g_nonces := last_n NONCE_MEMORY (remember_key n (g_nonces g))\<rparr>)"

definition reject_code :: "lease_code \<Rightarrow> 'a reg" where
  "reject_code c =
     thenE (modifyE (\<lambda>g. g\<lparr>g_rejected_total := g_rejected_total g + 1\<rparr>)) (throwE (LeaseRejected c))"

text \<open>\<open>except LeaseRejected: rejected_total += 1; raise\<close>; another exception passes uncounted.\<close>

definition counted :: "lease_error + 'a \<Rightarrow> 'a reg" where
  "counted r = (case r of
       Inr a \<Rightarrow> retE a | Inl (LeaseRejected c) \<Rightarrow> reject_code c | Inl Uncaught_ValueError \<Rightarrow> throwE Uncaught_ValueError)"

definition persist_or_fail :: "lease_record \<Rightarrow> lease_record reg" where
  "persist_or_fail r =
     bindE (persist False) (\<lambda>ok.
     if ok then retE r else throwE (LeaseRejected LEASE_REGISTRY_UNAVAILABLE))"

definition seconds_of :: "int \<Rightarrow> int" where "seconds_of now = now div 1000000"
definition micros_of :: "int \<Rightarrow> int" where "micros_of epoch = epoch * 1000000"

definition authenticate :: "admission_config \<Rightarrow> string \<Rightarrow> lease_binding \<Rightarrow> int \<Rightarrow> lease_error + lease_claims" where
  "authenticate cfg token b now =
     (case verify_lease (ac_float cfg) token (Some (ac_secret cfg)) b (seconds_of now) of
        Inl e \<Rightarrow> Inl e
      | Inr c \<Rightarrow>
          if c_profile_id c \<noteq> EXPECTED_PROFILE_ID \<or> c_capability_id c \<noteq> EXPECTED_CAPABILITY_ID then
            Inl (LeaseRejected LEASE_BINDING_MISMATCH)
          else Inr c)"

definition shape_key :: "(points \<times> json) list \<Rightarrow> string \<Rightarrow> points option" where
  "shape_key kvs k =
     (case map_of kvs (points_of k) of
        Some (JStr p) \<Rightarrow> if length p \<le> 200 then Some p else None | _ \<Rightarrow> None)"

definition claims_shape :: "admission_config \<Rightarrow> string \<Rightarrow> lease_error + lease_binding" where
  "claims_shape cfg token =
     (case split_on b_dot token of
        [version, payload, sig] \<Rightarrow>
          if version \<noteq> ''AZL1'' then Inl (LeaseRejected LEASE_UNKNOWN_FORMAT)
          else (case ac_lenient cfg payload of
            Some (JObj kvs) \<Rightarrow>
              (case all_some (map (shape_key kvs) [''capability_id'', ''profile_id'', ''target_ref'',
                  ''target_origin'', ''projection_digest'', ''allowlist_digest'', ''manifest_digest'']) of
                 Some [cap, prof, ref, orig, proj, allow, manif] \<Rightarrow>
                   Inr \<lparr>b_capability_id = cap, b_profile_id = prof, b_target_ref = ref,
                     b_target_origin = orig, b_projection_digest = proj, b_allowlist_digest = allow,
                     b_manifest_digest = manif, b_audience = points_of (ac_audience cfg)\<rparr>
               | _ \<Rightarrow> Inl (LeaseRejected LEASE_CLAIMS_INVALID))
          | _ \<Rightarrow> Inl (LeaseRejected LEASE_MALFORMED))
      | _ \<Rightarrow> Inl (LeaseRejected LEASE_UNKNOWN_FORMAT))"

definition peek :: "admission_config \<Rightarrow> string \<Rightarrow> int \<Rightarrow> lease_error + lease_claims" where
  "peek cfg token now =
     (case claims_shape cfg token of Inl e \<Rightarrow> Inl e | Inr b \<Rightarrow> authenticate cfg token b now)"

definition expire_locked :: "int \<Rightarrow> unit reg" where
  "expire_locked now =
     bindE (getE g_armed) (\<lambda>a.
     case a of
       None \<Rightarrow> retE ()
     | Some r \<Rightarrow>
         if lr_expires_at r \<le> now then
           thenE (modifyE (g_armed_update (\<lambda>_. None)))
           (thenE (remember (r\<lparr>lr_state := EXPIRED, lr_terminated_at := Some now,
               lr_termination_reason := Some ''EXPIRED''\<rparr>))
           (bindE (persist False) (\<lambda>ok. if ok then retE () else set_healthy False)))
         else retE ())"

section \<open>Operations\<close>

definition armed_record_of :: "lease_claims \<Rightarrow> int \<Rightarrow> lease_record" where
  "armed_record_of c now =
     \<lparr>lr_lease_id = c_lease_id c, lr_state = ARMED, lr_capability_id = c_capability_id c,
      lr_profile_id = c_profile_id c, lr_target_ref = c_target_ref c,
      lr_target_origin = c_target_origin c, lr_projection_digest = c_projection_digest c,
      lr_allowlist_digest = c_allowlist_digest c, lr_manifest_digest = c_manifest_digest c,
      lr_budget_id = c_budget_id c, lr_audience = c_audience c,
      lr_not_before = micros_of (c_not_before c), lr_expires_at = micros_of (c_expires_at c),
      lr_armed_at = now, lr_consumed_at = None, lr_consumed_by = None, lr_terminated_at = None,
      lr_termination_reason = None\<rparr>"

definition arm :: "admission_config \<Rightarrow> string \<Rightarrow> int \<Rightarrow> lease_record reg" where
  "arm cfg token now =
     thenE require_healthy
     (thenE (expire_locked now)
     (bindE (counted (peek cfg token now)) (\<lambda>probe.
      bindE (getE g_nonces) (\<lambda>nonces.
      if c_nonce probe \<in> set nonces then reject_code LEASE_ALREADY_CONSUMED
      else bindE (getE g_armed) (\<lambda>a.
      if a \<noteq> None then reject_code LEASE_REGISTRY_UNAVAILABLE
      else
        thenE (modifyE (\<lambda>g. g\<lparr>g_armed := Some (armed_record_of probe now),
            g_armed_total := g_armed_total g + 1\<rparr>))
        (thenE (remember (armed_record_of probe now))
        (persist_or_fail (armed_record_of probe now))))))))"

record consume_request =
  q_token :: string
  q_execution_id :: string
  q_capability_id :: string
  q_profile_id :: string
  q_target_ref :: string
  q_target_origin :: string
  q_projection_digest :: string
  q_allowlist_digest :: string
  q_manifest_digest :: string

definition request_binding :: "admission_config \<Rightarrow> consume_request \<Rightarrow> lease_binding" where
  "request_binding cfg q =
     \<lparr>b_capability_id = points_of (q_capability_id q), b_profile_id = points_of (q_profile_id q),
      b_target_ref = points_of (q_target_ref q), b_target_origin = points_of (q_target_origin q),
      b_projection_digest = points_of (q_projection_digest q),
      b_allowlist_digest = points_of (q_allowlist_digest q),
      b_manifest_digest = points_of (q_manifest_digest q), b_audience = points_of (ac_audience cfg)\<rparr>"

definition refused_unarmed :: "string \<Rightarrow> lease_record list \<Rightarrow> lease_code" where
  "refused_unarmed lid recent =
     (case find (\<lambda>r. lr_lease_id r = lid) (rev recent) of
        None \<Rightarrow> LEASE_NOT_ARMED
      | Some r \<Rightarrow>
          if lr_state r = REVOKED then LEASE_REVOKED
          else if lr_state r = CONSUMED then LEASE_ALREADY_CONSUMED else LEASE_NOT_ARMED)"

definition consume :: "admission_config \<Rightarrow> consume_request \<Rightarrow> int \<Rightarrow> lease_record reg" where
  "consume cfg q now =
     thenE require_healthy
     (thenE (expire_locked now)
     (bindE (counted (authenticate cfg (q_token q) (request_binding cfg q) now)) (\<lambda>c.
      bindE (getE g_nonces) (\<lambda>nonces.
      if c_nonce c \<in> set nonces then reject_code LEASE_ALREADY_CONSUMED
      else bindE (getE g_armed) (\<lambda>a.
      case a of
        None \<Rightarrow> bindE (getE g_recent) (\<lambda>recent. reject_code (refused_unarmed (c_lease_id c) recent))
      | Some armed \<Rightarrow>
          if lr_lease_id armed \<noteq> c_lease_id c then
            bindE (getE g_recent) (\<lambda>recent. reject_code (refused_unarmed (c_lease_id c) recent))
          else if lr_state armed \<noteq> ARMED then
            reject_code (if lr_state armed = REVOKED then LEASE_REVOKED else LEASE_ALREADY_CONSUMED)
          else
            let r = armed\<lparr>lr_state := CONSUMED, lr_consumed_at := Some now,
                  lr_consumed_by := Some (q_execution_id q)\<rparr> in
            thenE (modifyE (g_armed_update (\<lambda>_. Some r)))
            (thenE (remember_nonce (c_nonce c))
            (thenE (modifyE (\<lambda>g. g\<lparr>g_consumed_total := g_consumed_total g + 1\<rparr>))
            (thenE (remember r)
            (persist_or_fail r)))))))))"

definition revoke :: "string \<Rightarrow> string \<Rightarrow> int \<Rightarrow> lease_record option reg" where
  "revoke lid reason now =
     thenE require_healthy
     (bindE (getE g_armed) (\<lambda>a.
      case (case a of Some r \<Rightarrow> if lr_lease_id r = lid then Some r else None | None \<Rightarrow> None) of
        None \<Rightarrow> bindE (getE g_recent) (\<lambda>recent. retE (find (\<lambda>r. lr_lease_id r = lid) (rev recent)))
      | Some current \<Rightarrow>
          let r = current\<lparr>lr_state := REVOKED, lr_terminated_at := Some now,
                lr_termination_reason := Some (take 40 reason)\<rparr> in
          thenE (modifyE (\<lambda>g. g\<lparr>g_armed := None, g_revoked_total := g_revoked_total g + 1\<rparr>))
          (thenE (remember r)
          (bindE (persist_or_fail r) (\<lambda>x. retE (Some x))))))"

definition armed_record :: "int \<Rightarrow> lease_record option reg" where
  "armed_record now = thenE (expire_locked now) (getE g_armed)"

end
