(* ===== verification/Admission_Props.thy ===== *)
theory Admission_Props
  imports Admission
begin

text \<open>
  What the admission registry keeps over any history of calls, restarts and disk faults: its
  bounds and the uniqueness of the armed lease (\<open>registry_ok\<close>), and that a nonce is consumed
  at most once (\<open>nonce_ok\<close>), both as interpretations of \<open>invariant_system\<close> on the model's
  own step function; then the behaviour of each operation.
\<close>

section \<open>Histories\<close>

text \<open>
  Besides the calls: a new process over the same disk, a choice of the outcomes of the next
  writes, the loss of the state file, and its corruption.
\<close>

datatype admission_op =
    Arm_Op string int | Consume_Op consume_request int | Revoke_Op string string int
  | Status_Op int | Restart_Op int | Faults_Op "io list" | Lose_Op | Corrupt_Op

primrec exec_admission :: "admission_config \<Rightarrow> admission_op \<Rightarrow> registry \<Rightarrow> registry" where
  "exec_admission cfg (Arm_Op t now) g = snd (arm cfg t now g)"
| "exec_admission cfg (Consume_Op q now) g = snd (consume cfg q now g)"
| "exec_admission cfg (Revoke_Op i r now) g = snd (revoke i r now g)"
| "exec_admission cfg (Status_Op now) g = snd (armed_record now g)"
| "exec_admission cfg (Restart_Op now) g = restart now g"
| "exec_admission cfg (Faults_Op os) g = g\<lparr>g_io := os\<rparr>"
| "exec_admission cfg Lose_Op g = g\<lparr>g_file := No_File\<rparr>"
| "exec_admission cfg Corrupt_Op g = g\<lparr>g_file := Bad_File\<rparr>"

text \<open>The first start on an empty volume, with any outcomes of its writes, and one where all succeed.\<close>

definition first_start :: "io list \<Rightarrow> registry" where
  "first_start outcomes = restart 0 (fresh_registry No_File False outcomes)"

definition first_boot :: registry where
  "first_boot = first_start []"

section \<open>The registry invariant\<close>

definition mem_ok :: "lease_record option \<Rightarrow> lease_record list \<Rightarrow> string list \<Rightarrow> bool" where
  "mem_ok a recent nonces \<longleftrightarrow>
     length recent \<le> RECENT_LIMIT \<and> distinct (map lr_lease_id recent) \<and>
     (\<forall>r \<in> set recent. lr_state r = ARMED \<longrightarrow> a = Some r) \<and>
     (\<forall>r. a = Some r \<longrightarrow> recent \<noteq> [] \<and> last recent = r \<and> lr_state r \<in> {ARMED, CONSUMED}) \<and>
     length nonces \<le> NONCE_MEMORY \<and> distinct nonces"

definition file_ok :: "state_file \<Rightarrow> bool" where
  "file_ok f \<longleftrightarrow> (case f of
     Saved sv \<Rightarrow> \<exists>a. mem_ok a (sv_recent sv) (sv_nonces sv) \<and> sv_armed_id sv = map_option lr_lease_id a
   | _ \<Rightarrow> True)"

definition registry_ok :: "registry \<Rightarrow> bool" where
  "registry_ok g \<longleftrightarrow> mem_ok (g_armed g) (g_recent g) (g_nonces g) \<and> file_ok (g_file g)"

lemma preserves_read:
  "(\<And>s. P s \<Longrightarrow> P (snd (f (h s) s))) \<Longrightarrow> preserves P (bindE (getE h) f)"
  by (simp add: preserves_def)

lemma last_n_id: "length xs \<le> n \<Longrightarrow> last_n n xs = xs"
  by (simp add: last_n_def)

lemma length_last_n: "length (last_n n xs) \<le> n"
  by (simp add: last_n_def)

lemma last_n_snoc: "0 < n \<Longrightarrow> last_n n (xs @ [x]) \<noteq> [] \<and> last (last_n n (xs @ [x])) = x"
  by (simp add: last_n_def)

lemma set_last_n: "x \<in> set (last_n n xs) \<Longrightarrow> x \<in> set xs"
  by (auto simp: last_n_def dest: in_set_dropD)

lemma distinct_last_n: "distinct (map f xs) \<Longrightarrow> distinct (map f (last_n n xs))"
  by (simp add: last_n_def flip: drop_map)

lemma persist_ok: "preserves registry_ok (persist i)"
proof (rule preservesI)
  fix g assume "registry_ok g"
  moreover from this have "file_ok (Saved (snapshot_of g))"
    by (auto simp: registry_ok_def file_ok_def snapshot_of_def last_n_id mem_ok_def)
  ultimately show "registry_ok (snd (persist i g))"
    by (auto simp: persist_def Let_def registry_ok_def split: io.splits)
qed

lemma small_ok:
  "preserves registry_ok (set_healthy b)" "preserves registry_ok require_healthy"
  "preserves registry_ok (reject_code c)" "preserves registry_ok (counted x)"
  by (auto simp: set_healthy_def require_healthy_def reject_code_def counted_def preserves_def registry_ok_def
      rejectE_run split: sum.splits lease_error.splits)

lemma persist_or_fail_ok: "preserves registry_ok (persist_or_fail r)"
  unfolding persist_or_fail_def by (intro pres persist_ok)

text \<open>Putting a record: the armed slot is free or holds the same lease.\<close>

lemma mem_ok_put:
  assumes ok: "mem_ok a recent nonces"
    and slot: "\<And>x. a = Some x \<Longrightarrow> lr_lease_id x = lr_lease_id r"
    and new: "b = Some r \<and> lr_state r \<in> {ARMED, CONSUMED} \<or> b = None \<and> lr_state r \<noteq> ARMED"
  shows "mem_ok b (last_n RECENT_LIMIT (filter (\<lambda>x. lr_lease_id x \<noteq> lr_lease_id r) recent @ [r])) nonces"
proof -
  let ?q = "filter (\<lambda>x. lr_lease_id x \<noteq> lr_lease_id r) recent @ [r]"
  have "distinct (map lr_lease_id ?q)"
    using ok by (auto simp: mem_ok_def distinct_map_filter)
  then have ids: "distinct (map lr_lease_id (last_n RECENT_LIMIT ?q))" by (rule distinct_last_n)
  have newest: "last_n RECENT_LIMIT ?q \<noteq> [] \<and> last (last_n RECENT_LIMIT ?q) = r"
    by (rule last_n_snoc) (simp add: RECENT_LIMIT_def)
  have bounds: "length nonces \<le> NONCE_MEMORY" "distinct nonces" using ok by (auto simp: mem_ok_def)
  have armed: "b = Some x" if x: "x \<in> set (last_n RECENT_LIMIT ?q)" "lr_state x = ARMED" for x
  proof -
    have "lr_lease_id x = lr_lease_id r" if "x \<in> set recent"
      using ok x(2) that unfolding mem_ok_def by (intro slot) blast
    then have "x = r" using set_last_n [OF x(1)] by auto
    with new x(2) show ?thesis by auto
  qed
  have slot': "x = r \<and> lr_state r \<in> {ARMED, CONSUMED}" if "b = Some x" for x
    using new that by auto
  show ?thesis
    unfolding mem_ok_def
  proof (intro conjI ballI allI impI)
    show "lr_state x \<in> {ARMED, CONSUMED}" if "b = Some x" for x using slot' [OF that] by simp
    show "last (last_n RECENT_LIMIT ?q) = x" if "b = Some x" for x using slot' [OF that] newest by simp
  qed (rule length_last_n, rule ids, erule (1) armed, rule newest [THEN conjunct1], rule bounds, rule bounds)
qed

lemma mem_ok_nonce: "mem_ok a recent nonces \<Longrightarrow> mem_ok a recent (last_n NONCE_MEMORY (remember_key n nonces))"
  using distinct_last_n [of id "remember_key n nonces" NONCE_MEMORY]
  by (auto simp: mem_ok_def remember_key_def length_last_n)

lemma expire_ok: "preserves registry_ok (expire_locked now)"
proof (unfold expire_locked_def, rule preserves_read)
  fix g assume g: "registry_ok g"
  show "registry_ok (snd ((case g_armed g of None \<Rightarrow> retE ()
     | Some r \<Rightarrow>
         if lr_expires_at r \<le> now then
           thenE (modifyE (g_armed_update (\<lambda>_. None)))
           (thenE (remember (r\<lparr>lr_state := EXPIRED, lr_terminated_at := Some now,
               lr_termination_reason := Some ''EXPIRED''\<rparr>))
           (bindE (persist False) (\<lambda>ok. if ok then retE () else set_healthy False)))
         else retE ()) g))"
  proof (cases "g_armed g")
    case (Some r)
    let ?r = "r\<lparr>lr_state := EXPIRED, lr_terminated_at := Some now, lr_termination_reason := Some ''EXPIRED''\<rparr>"
    have "registry_ok (g\<lparr>g_armed := None, g_recent := last_n RECENT_LIMIT (filter (\<lambda>x. lr_lease_id x \<noteq> lr_lease_id ?r) (g_recent g) @ [?r])\<rparr>)"
      using g mem_ok_put [of "g_armed g" "g_recent g" "g_nonces g" ?r None] Some by (simp add: registry_ok_def)
    moreover have "preserves registry_ok (bindE (persist False) (\<lambda>ok. if ok then retE () else set_healthy False))"
      by (intro pres persist_ok small_ok)
    ultimately show ?thesis using g Some by (simp add: remember_def preserves_def)
  qed (use g in simp)
qed


text \<open>The common end of the operations: the record is put and the state persisted.\<close>

definition put_record :: "lease_record option \<Rightarrow> lease_record \<Rightarrow> registry \<Rightarrow> registry" where
  "put_record b r g = g\<lparr>g_armed := b,
     g_recent := last_n RECENT_LIMIT (filter (\<lambda>x. lr_lease_id x \<noteq> lr_lease_id r) (g_recent g) @ [r])\<rparr>"

lemma put_record_ok:
  assumes "registry_ok g" and "\<And>x. g_armed g = Some x \<Longrightarrow> lr_lease_id x = lr_lease_id r"
    and "b = Some r \<and> lr_state r \<in> {ARMED, CONSUMED} \<or> b = None \<and> lr_state r \<noteq> ARMED"
  shows "registry_ok (put_record b r g)"
  using mem_ok_put [OF _ assms(2,3), of "g_armed g" "g_recent g" "g_nonces g"] assms(1)
  by (simp add: registry_ok_def put_record_def)

lemma registry_ok_counters [simp]:
  "registry_ok (g\<lparr>g_armed_total := n\<rparr>) = registry_ok g" "registry_ok (g\<lparr>g_consumed_total := n\<rparr>) = registry_ok g"
  "registry_ok (g\<lparr>g_revoked_total := n\<rparr>) = registry_ok g" "registry_ok (g\<lparr>g_rejected_total := n\<rparr>) = registry_ok g"
  "registry_ok (g\<lparr>g_healthy := h\<rparr>) = registry_ok g" "registry_ok (g\<lparr>g_io := os\<rparr>) = registry_ok g"
  by (simp_all add: registry_ok_def)

lemma reject_run: "reject_code c g = (Inl (LeaseRejected c), g\<lparr>g_rejected_total := g_rejected_total g + 1\<rparr>)"
  by (simp add: reject_code_def)

definition armed_state :: "lease_record \<Rightarrow> registry \<Rightarrow> registry" where
  "armed_state r g = (put_record (Some r) r g)\<lparr>g_armed_total := g_armed_total g + 1\<rparr>"

text \<open>The body of \<open>arm\<close> once the token is authenticated.\<close>

definition arm_body :: "int \<Rightarrow> lease_claims \<Rightarrow> lease_record reg" where
  "arm_body now c = (\<lambda>g.
     if c_nonce c \<in> set (g_nonces g) then reject_code LEASE_ALREADY_CONSUMED g
     else if g_armed g \<noteq> None then reject_code LEASE_REGISTRY_UNAVAILABLE g
     else persist_or_fail (armed_record_of c now) (armed_state (armed_record_of c now) g))"

lemma arm_eq:
  "arm cfg t now = thenE require_healthy (thenE (expire_locked now)
     (bindE (counted (peek cfg t now)) (arm_body now)))"
proof -
  have "(\<lambda>probe. bindE (getE g_nonces) (\<lambda>nonces.
      if c_nonce probe \<in> set nonces then reject_code LEASE_ALREADY_CONSUMED
      else bindE (getE g_armed) (\<lambda>a.
      if a \<noteq> None then reject_code LEASE_REGISTRY_UNAVAILABLE
      else
        thenE (modifyE (\<lambda>g. g\<lparr>g_armed := Some (armed_record_of probe now),
            g_armed_total := g_armed_total g + 1\<rparr>))
        (thenE (remember (armed_record_of probe now))
        (persist_or_fail (armed_record_of probe now)))))) = arm_body now" (is "?lhs = _")
  proof (intro ext)
    fix c g show "?lhs c g = arm_body now c g" for g
      by (cases g) (simp add: arm_body_def armed_state_def put_record_def remember_def)
  qed
  then show ?thesis by (simp add: arm_def)
qed

lemma arm_ok: "preserves registry_ok (arm cfg t now)"
  unfolding arm_eq
proof (intro preserves_bindE small_ok expire_ok preservesI)
  fix c g assume g: "registry_ok g"
  have "registry_ok (armed_state (armed_record_of c now) g)" if "g_armed g = None"
    using put_record_ok [OF g, of "armed_record_of c now" "Some (armed_record_of c now)"] that
    by (simp add: armed_state_def armed_record_of_def)
  from preservesD [OF persist_or_fail_ok this] g show "registry_ok (snd (arm_body now c g))"
    by (simp add: arm_body_def reject_run del: not_None_eq)
qed

definition consumed_record :: "lease_record \<Rightarrow> string \<Rightarrow> int \<Rightarrow> lease_record" where
  "consumed_record r who now =
     r\<lparr>lr_state := CONSUMED, lr_consumed_at := Some now, lr_consumed_by := Some who\<rparr>"

definition consumed_state :: "lease_record \<Rightarrow> string \<Rightarrow> registry \<Rightarrow> registry" where
  "consumed_state r n g = (put_record (Some r) r g)\<lparr>g_nonces := last_n NONCE_MEMORY (remember_key n (g_nonces g)),
     g_consumed_total := g_consumed_total g + 1\<rparr>"

text \<open>The body of \<open>consume\<close> once the token is authenticated.\<close>

definition consume_body :: "consume_request \<Rightarrow> int \<Rightarrow> lease_claims \<Rightarrow> lease_record reg" where
  "consume_body q now c = (\<lambda>g.
     if c_nonce c \<in> set (g_nonces g) then reject_code LEASE_ALREADY_CONSUMED g
     else case g_armed g of
       None \<Rightarrow> reject_code (refused_unarmed (c_lease_id c) (g_recent g)) g
     | Some armed \<Rightarrow>
         if lr_lease_id armed \<noteq> c_lease_id c then reject_code (refused_unarmed (c_lease_id c) (g_recent g)) g
         else if lr_state armed \<noteq> ARMED then
           reject_code (if lr_state armed = REVOKED then LEASE_REVOKED else LEASE_ALREADY_CONSUMED) g
         else persist_or_fail (consumed_record armed (q_execution_id q) now)
           (consumed_state (consumed_record armed (q_execution_id q) now) (c_nonce c) g))"

lemma consume_eq:
  "consume cfg q now = thenE require_healthy (thenE (expire_locked now)
     (bindE (counted (authenticate cfg (q_token q) (request_binding cfg q) now)) (consume_body q now)))"
proof -
  have "(\<lambda>c. bindE (getE g_nonces) (\<lambda>nonces.
      if c_nonce c \<in> set nonces then reject_code LEASE_ALREADY_CONSUMED
      else bindE (getE g_armed) (\<lambda>a.
      case a of
        None \<Rightarrow> bindE (getE g_recent) (\<lambda>recent. reject_code (refused_unarmed (c_lease_id c) recent))
      | Some armed \<Rightarrow>
          if lr_lease_id armed \<noteq> c_lease_id c then
            bindE (getE g_recent) (\<lambda>recent. reject_code (refused_unarmed (c_lease_id c) recent))
          else if lr_state armed \<noteq> ARMED then
            reject_code (if lr_state armed = REVOKED then LEASE_REVOKED else LEASE_ALREADY_CONSUMED)
          else
            let r = armed\<lparr>lr_state := CONSUMED, lr_consumed_at := Some now,
                  lr_consumed_by := Some (q_execution_id q)\<rparr> in
            thenE (modifyE (g_armed_update (\<lambda>_. Some r)))
            (thenE (remember_nonce (c_nonce c))
            (thenE (modifyE (\<lambda>g. g\<lparr>g_consumed_total := g_consumed_total g + 1\<rparr>))
            (thenE (remember r)
            (persist_or_fail r))))))) = consume_body q now" (is "?lhs = _")
  proof (intro ext)
    fix c g show "?lhs c g = consume_body q now c g" for g
      by (cases g) (simp add: consume_body_def Let_def consumed_record_def consumed_state_def put_record_def
        remember_def remember_nonce_def split: option.splits)
  qed
  then show ?thesis by (simp add: consume_def)
qed

lemma consumed_state_ok:
  assumes "registry_ok g" and "g_armed g = Some armed" and "r = consumed_record armed who now"
  shows "registry_ok (consumed_state r n g)"
  using put_record_ok [OF assms(1), of r "Some r"] assms(2,3) mem_ok_nonce
  by (simp add: registry_ok_def consumed_state_def put_record_def consumed_record_def)

lemma consume_ok: "preserves registry_ok (consume cfg q now)"
  unfolding consume_eq
proof (intro preserves_bindE small_ok expire_ok preservesI)
  fix c g assume g: "registry_ok g"
  then show "registry_ok (snd (consume_body q now c g))"
    using preservesD [OF persist_or_fail_ok consumed_state_ok [OF g _ refl]]
    by (auto simp: consume_body_def reject_run split: option.splits)
qed

definition revoked_record :: "lease_record \<Rightarrow> string \<Rightarrow> int \<Rightarrow> lease_record" where
  "revoked_record r reason now = r\<lparr>lr_state := REVOKED, lr_terminated_at := Some now,
     lr_termination_reason := Some (take 40 reason)\<rparr>"

definition revoked_state :: "lease_record \<Rightarrow> registry \<Rightarrow> registry" where
  "revoked_state r g = (put_record None r g)\<lparr>g_revoked_total := g_revoked_total g + 1\<rparr>"

definition revoke_body :: "string \<Rightarrow> string \<Rightarrow> int \<Rightarrow> lease_record option reg" where
  "revoke_body i reason now = (\<lambda>g.
     case g_armed g of
       Some r \<Rightarrow>
         if lr_lease_id r = i then
           bindE (persist_or_fail (revoked_record r reason now)) (\<lambda>x. retE (Some x))
             (revoked_state (revoked_record r reason now) g)
         else (Inr (find (\<lambda>r. lr_lease_id r = i) (rev (g_recent g))), g)
     | None \<Rightarrow> (Inr (find (\<lambda>r. lr_lease_id r = i) (rev (g_recent g))), g))"

lemma revoke_eq: "revoke i reason now = thenE require_healthy (revoke_body i reason now)"
proof -
  have "revoke i reason now g = thenE require_healthy (revoke_body i reason now) g" for g
    by (cases g) (simp add: revoke_def revoke_body_def revoked_state_def revoked_record_def put_record_def
        remember_def bindE_run Let_def require_healthy_def rejectE_run split: option.splits)
  then show ?thesis by (intro ext)
qed

lemma revoke_ok: "preserves registry_ok (revoke i reason now)"
  unfolding revoke_eq
proof (intro preserves_bindE small_ok preservesI)
  fix g assume g: "registry_ok g"
  have "registry_ok (revoked_state (revoked_record r reason now) g)" if "g_armed g = Some r" for r
    using put_record_ok [OF g, of "revoked_record r reason now" None] that
    by (simp add: revoked_state_def revoked_record_def)
  moreover have "preserves registry_ok (bindE (persist_or_fail r) (\<lambda>x. retE (Some x)))" for r
    by (intro pres persist_or_fail_ok)
  ultimately show "registry_ok (snd (revoke_body i reason now g))"
    using g by (auto simp: revoke_body_def dest: preservesD split: option.splits)
qed

lemma armed_record_ok: "preserves registry_ok (armed_record now)"
  unfolding armed_record_def by (intro pres expire_ok)

lemma fold_remember_key:
  "distinct (ms @ ns) \<Longrightarrow> fold remember_key ns ms = ms @ ns"
  by (induction ns arbitrary: ms) (simp_all add: remember_key_def)

text \<open>What \<open>_recover\<close> finds in a file the registry wrote.\<close>

lemma mem_ok_armed:
  assumes "mem_ok a recent nonces"
  shows "filter (\<lambda>r. lr_state r = ARMED) recent = [] \<or>
    (\<exists>r. filter (\<lambda>r. lr_state r = ARMED) recent = [r] \<and> a = Some r)"
proof -
  let ?f = "filter (\<lambda>r. lr_state r = ARMED) recent"
  have "distinct recent" using assms by (auto simp: mem_ok_def distinct_map)
  then have d: "distinct ?f" by (rule distinct_filter)
  have all: "a = Some r" if "r \<in> set ?f" for r
    using assms that unfolding mem_ok_def by auto
  consider "?f = []" | r where "?f = [r]" | r x rs where "?f = r # x # rs"
    by (cases ?f rule: remdups_adj.cases) auto
  then show ?thesis
  proof cases
    case (3 r x rs)
    then have "a = Some r" "a = Some x" by (auto intro: all)
    with 3 d show ?thesis by simp
  qed (use all in auto)
qed

lemma recover_run:
  assumes "file_ok (Saved sv)"
  defines "armed \<equiv> filter (\<lambda>r. lr_state r = ARMED) (sv_recent sv)"
  shows "recover now (fresh_registry (Saved sv) marker os) =
    bindE (persist False) set_healthy ((fresh_registry (Saved sv) marker os)\<lparr>
       g_restart_revoked_total := length armed, g_revoked_total := length armed,
       g_nonces := sv_nonces sv, g_recent := map (restart_record now) (sv_recent sv)\<rparr>)"
proof -
  obtain a where a: "mem_ok a (sv_recent sv) (sv_nonces sv)" "sv_armed_id sv = map_option lr_lease_id a"
    using assms(1) by (auto simp: file_ok_def)
  have "length (sv_nonces sv) \<le> NONCE_MEMORY" "length (sv_recent sv) \<le> RECENT_LIMIT" "distinct (sv_nonces sv)"
    using a(1) by (simp_all add: mem_ok_def)
  then show ?thesis
    using mem_ok_armed [OF a(1)] a(2)
    by (elim disjE exE conjE) (simp_all add: recover_def fresh_registry_def Let_def fold_remember_key armed_def)
qed

lemma restart_record_simps [simp]:
  "lr_lease_id (restart_record now r) = lr_lease_id r" "lr_state (restart_record now r) \<noteq> ARMED"
  by (simp_all add: restart_record_def)

lemma restart_mem_ok: "mem_ok a recent nonces \<Longrightarrow> mem_ok None (map (restart_record now) recent) nonces"
  by (simp add: mem_ok_def comp_def)

lemma fresh_ok: "file_ok f \<Longrightarrow> registry_ok (fresh_registry f m os)"
  by (simp add: registry_ok_def fresh_registry_def mem_ok_def)

lemma persist_healthy_ok: "preserves registry_ok (bindE (persist i) set_healthy)"
  by (intro pres persist_ok small_ok)

lemma restart_ok:
  assumes "registry_ok g" shows "registry_ok (restart now g)"
proof -
  have f: "file_ok (g_file g)" using assms by (simp add: registry_ok_def)
  then have fresh: "registry_ok (fresh_registry (g_file g) (g_marker g) (g_io g))" by (rule fresh_ok)
  show ?thesis
  proof (cases "g_file g")
    case (Saved sv)
    with f obtain a where "mem_ok a (sv_recent sv) (sv_nonces sv)" by (auto simp: file_ok_def)
    from restart_mem_ok [OF this, of now] f Saved show ?thesis
      unfolding restart_def Saved recover_run [OF f [unfolded Saved]]
      by (intro preservesD [OF persist_healthy_ok]) (simp add: registry_ok_def fresh_registry_def)
  next
    case No_File
    with fresh preservesD [OF persist_healthy_ok, of _ True] show ?thesis
      by (auto simp: restart_def recover_def fresh_registry_def)
  next
    case Bad_File
    with fresh show ?thesis by (simp add: restart_def recover_def fresh_registry_def)
  qed
qed

text \<open>Every step keeps the invariant.\<close>

interpretation registry: invariant_system "\<lambda>g. \<exists>outcomes. g = first_start outcomes" "exec_admission cfg" registry_ok
  for cfg
proof unfold_locales
  show "registry_ok s" if "\<exists>outcomes. s = first_start outcomes" for s
  proof -
    from that obtain outcomes where "s = first_start outcomes" by blast
    then show ?thesis unfolding first_start_def by (simp only:) (intro restart_ok fresh_ok, simp add: file_ok_def)
  qed
  show "registry_ok (exec_admission cfg x s)" if "registry_ok s" for x s
    using that preservesD [OF arm_ok that] preservesD [OF consume_ok that] preservesD [OF revoke_ok that]
      preservesD [OF armed_record_ok that] restart_ok [OF that]
    by (cases x) (simp_all add: registry_ok_def file_ok_def)
qed


lemma first_boot_start: "\<exists>outcomes. first_boot = first_start outcomes"
  unfolding first_boot_def by blast

section \<open>A nonce is consumed once\<close>

text \<open>
  The history keeps the nonces of the successful \<open>consume\<close> calls, the number of calls, and whether the
  state file was ever lost before the marker was there.  The registry remembers \<open>NONCE_MEMORY\<close>
  nonces, so the claim is about histories with no more \<open>consume\<close> calls than that.  A nonce is
  remembered in memory whenever the registry can still admit or write (\<open>healthy\<close>, or a lease in the
  slot), and in every state file.
\<close>

definition request_nonce :: "admission_config \<Rightarrow> consume_request \<Rightarrow> int \<Rightarrow> string" where
  "request_nonce cfg q now =
     (case authenticate cfg (q_token q) (request_binding cfg q) now of Inr c \<Rightarrow> c_nonce c | Inl _ \<Rightarrow> [])"

type_synonym history = "registry \<times> string list \<times> nat \<times> bool"

definition observe :: "admission_config \<Rightarrow> admission_op \<Rightarrow> history \<Rightarrow> history" where
  "observe cfg x h = (case h of (g, winners, calls, lost) \<Rightarrow>
     case x of
       Consume_Op q now \<Rightarrow>
         (case consume cfg q now g of
            (Inr _, g') \<Rightarrow> (g', request_nonce cfg q now # winners, calls + 1, lost)
          | (Inl _, g') \<Rightarrow> (g', winners, calls + 1, lost))
     | Lose_Op \<Rightarrow> (exec_admission cfg x g, winners, calls, lost \<or> \<not> g_marker g)
     | _ \<Rightarrow> (exec_admission cfg x g, winners, calls, lost))"

definition kept_on_disk :: "string set \<Rightarrow> nat \<Rightarrow> registry \<Rightarrow> bool" where
  "kept_on_disk S k g \<longleftrightarrow> (g_marker g \<or> g_file g \<noteq> No_File \<or> S = {}) \<and> length (g_nonces g) \<le> k \<and>
     (\<forall>sv. g_file g = Saved sv \<longrightarrow> S \<subseteq> set (sv_nonces sv) \<and> length (sv_nonces sv) \<le> k)"

definition nonce_full :: "string set \<Rightarrow> nat \<Rightarrow> registry \<Rightarrow> bool" where
  "nonce_full S k g \<longleftrightarrow> kept_on_disk S k g \<and> S \<subseteq> set (g_nonces g)"

definition nonce_safe :: "string set \<Rightarrow> nat \<Rightarrow> registry \<Rightarrow> bool" where
  "nonce_safe S k g \<longleftrightarrow> kept_on_disk S k g \<and>
     (g_healthy g \<or> g_armed g \<noteq> None \<longrightarrow> S \<subseteq> set (g_nonces g))"

definition nonce_ok :: "history \<Rightarrow> bool" where
  "nonce_ok h = (case h of (g, winners, calls, lost) \<Rightarrow>
     registry_ok g \<and> (calls \<le> NONCE_MEMORY \<and> \<not> lost \<longrightarrow> distinct winners \<and> nonce_safe (set winners) calls g))"

lemma nonce_full_safe: "nonce_full S k g \<Longrightarrow> nonce_safe S k g"
  by (simp add: nonce_full_def nonce_safe_def)

lemma nonce_full_mono: "nonce_full S k g \<Longrightarrow> k \<le> m \<Longrightarrow> nonce_full S m g"
  by (auto simp: nonce_full_def kept_on_disk_def intro: order_trans)

lemma nonce_safe_mono: "nonce_safe S k g \<Longrightarrow> k \<le> m \<Longrightarrow> nonce_safe S m g"
  by (auto simp: nonce_safe_def kept_on_disk_def intro: order_trans)

lemma persist_full: "preserves (nonce_full S k) (persist i)"
  by (auto simp: preserves_def persist_def Let_def nonce_full_def kept_on_disk_def snapshot_of_def split: io.splits)

lemma small_full:
  "preserves (nonce_full S k) (set_healthy b)" "preserves (nonce_full S k) require_healthy"
  "preserves (nonce_full S k) (reject_code c)" "preserves (nonce_full S k) (counted x)"
  "preserves (nonce_full S k) (remember r)"
  "preserves (nonce_full S k) (modifyE (g_armed_update f))"
  by (auto simp: set_healthy_def require_healthy_def reject_code_def counted_def preserves_def nonce_full_def
      kept_on_disk_def rejectE_run remember_def split: sum.splits lease_error.splits)

lemma persist_or_fail_full: "preserves (nonce_full S k) (persist_or_fail r)"
  unfolding persist_or_fail_def by (intro pres persist_full)

lemma expire_full: "preserves (nonce_full S k) (expire_locked now)"
  unfolding expire_locked_def by (intro pres persist_full small_full)

lemma expire_safe: "nonce_safe S k g \<Longrightarrow> nonce_safe S k (snd (expire_locked now g))"
proof (cases "g_armed g")
  case None
  then show "nonce_safe S k g \<Longrightarrow> ?thesis" by (simp add: expire_locked_def)
next
  case (Some r)
  assume "nonce_safe S k g"
  with Some have "nonce_full S k g" by (simp add: nonce_safe_def nonce_full_def)
  then show ?thesis by (intro nonce_full_safe preservesD [OF expire_full])
qed

text \<open>An operation that starts with \<open>_require_healthy\<close> runs its body only with the full memory.\<close>

lemma guarded_safe:
  assumes "preserves (nonce_full S k) m" and "nonce_safe S k g"
  shows "nonce_safe S k (snd (thenE require_healthy m g))"
proof (cases "g_healthy g")
  case True
  with assms(2) have "nonce_full S k g" by (simp add: nonce_safe_def nonce_full_def)
  then show ?thesis
    using True by (simp add: require_healthy_def rejectE_run nonce_full_safe preservesD [OF assms(1)])
qed (use assms(2) in \<open>simp add: require_healthy_def rejectE_run\<close>)

lemma nonce_full_put [simp]:
  "nonce_full S k (put_record b r g) = nonce_full S k g"
  "nonce_full S k (armed_state r g) = nonce_full S k g"
  "nonce_full S k (revoked_state r g) = nonce_full S k g"
  "nonce_full S k (g\<lparr>g_rejected_total := n\<rparr>) = nonce_full S k g"
  by (simp_all add: nonce_full_def kept_on_disk_def put_record_def armed_state_def revoked_state_def)

lemma arm_body_full: "preserves (nonce_full S k) (arm_body now c)"
  by (rule preservesI) (simp add: arm_body_def reject_run preservesD [OF persist_or_fail_full])

lemma revoke_body_full: "preserves (nonce_full S k) (revoke_body i reason now)"
proof (rule preservesI)
  have "preserves (nonce_full S k) (bindE (persist_or_fail r) (\<lambda>x. retE (Some x)))" for r
    by (intro pres persist_or_fail_full)
  then show "nonce_full S k (snd (revoke_body i reason now g))" if "nonce_full S k g" for g
    using that by (simp add: revoke_body_def preservesD split: option.splits)
qed

text \<open>The consuming step: the new nonce is in memory before the state is written.\<close>

lemma consume_body_full:
  assumes full: "nonce_full S k g" and k: "k < NONCE_MEMORY" and run: "consume_body q now c g = (res, g')"
  shows "nonce_full S (Suc k) g' \<and>
    (\<forall>r. res = Inr r \<longrightarrow> c_nonce c \<notin> S \<and> nonce_full (insert (c_nonce c) S) (Suc k) g')"
proof (cases "\<exists>r. g_armed g = Some r \<and> lr_lease_id r = c_lease_id c \<and> lr_state r = ARMED \<and>
    c_nonce c \<notin> set (g_nonces g)")
  case False
  then have "(\<exists>e. res = Inl e) \<and> nonce_full S k g'"
    using run full by (auto simp: consume_body_def reject_run split: option.splits if_splits)
  then show ?thesis using nonce_full_mono [of S k g' "Suc k"] by auto
next
  case True
  then obtain a where a: "g_armed g = Some a" "lr_lease_id a = c_lease_id c" "lr_state a = ARMED"
    and new: "c_nonce c \<notin> set (g_nonces g)" by blast
  let ?r = "consumed_record a (q_execution_id q) now"
  let ?s = "consumed_state ?r (c_nonce c) g"
  have run': "persist_or_fail ?r ?s = (res, g')" using run a new by (simp add: consume_body_def)
  have "length (g_nonces g) \<le> k" using full by (simp add: nonce_full_def kept_on_disk_def)
  then have nonces: "g_nonces ?s = g_nonces g @ [c_nonce c]"
    using new k by (simp add: consumed_state_def put_record_def remember_key_def last_n_id)
  have disk: "kept_on_disk S (Suc k) ?s"
    using full nonces by (auto simp: nonce_full_def kept_on_disk_def consumed_state_def put_record_def)
  have "nonce_full S (Suc k) ?s" using full nonces disk by (auto simp: nonce_full_def)
  with run' have g': "nonce_full S (Suc k) g'" by (metis preservesD_eq persist_or_fail_full)
  have "c_nonce c \<notin> S" using full new by (auto simp: nonce_full_def)
  moreover have "nonce_full (insert (c_nonce c) S) (Suc k) g'" if "res = Inr r" for r
    using run' that g' nonces
    by (auto simp: persist_or_fail_def persist_def Let_def bindE_run nonce_full_def kept_on_disk_def snapshot_of_def
        split: io.splits if_splits)
  ultimately show ?thesis using g' by blast
qed


lemma counted_run: "counted x g = (case x of Inr a \<Rightarrow> (Inr a, g)
    | Inl (LeaseRejected c) \<Rightarrow> (Inl (LeaseRejected c), g\<lparr>g_rejected_total := g_rejected_total g + 1\<rparr>)
    | Inl Uncaught_ValueError \<Rightarrow> (Inl Uncaught_ValueError, g))"
  by (simp add: counted_def reject_run split: sum.splits lease_error.splits)

lemma require_healthy_run:
  "require_healthy g = (if g_healthy g then Inr () else Inl (LeaseRejected LEASE_REGISTRY_UNAVAILABLE), g)"
  by (simp add: require_healthy_def rejectE_run)

lemma expire_total: "fst (expire_locked now g) = Inr ()"
  by (auto simp: expire_locked_def remember_def bindE_run set_healthy_def persist_def Let_def
      split: option.splits io.splits)

lemma expire_run: "expire_locked now g = (Inr (), snd (expire_locked now g))"
  using expire_total by (metis prod.collapse)

text \<open>\<open>consume\<close> as one step, and inversion of a successful one.\<close>

lemma consume_run:
  "consume cfg q now g =
     (if \<not> g_healthy g then (Inl (LeaseRejected LEASE_REGISTRY_UNAVAILABLE), g)
      else bindE (counted (authenticate cfg (q_token q) (request_binding cfg q) now)) (consume_body q now)
        (snd (expire_locked now g)))"
  by (simp add: consume_eq bindE_run [of require_healthy] require_healthy_run bindE_run [of "expire_locked now"]
      expire_total case_prod_beta)

lemma consume_Inr:
  assumes "consume cfg q now g = (Inr r, g')"
  obtains c where "g_healthy g" "authenticate cfg (q_token q) (request_binding cfg q) now = Inr c"
    "consume_body q now c (snd (expire_locked now g)) = (Inr r, g')"
  using assms
  by (auto simp: consume_run bindE_run counted_run split: if_splits sum.splits lease_error.splits)

lemma consume_history:
  assumes safe: "nonce_safe S k g" and k: "k < NONCE_MEMORY" and run: "consume cfg q now g = (res, g')"
  shows "nonce_safe S (Suc k) g' \<and> (\<forall>r. res = Inr r \<longrightarrow>
    request_nonce cfg q now \<notin> S \<and> nonce_safe (insert (request_nonce cfg q now) S) (Suc k) g')"
proof (cases "g_healthy g")
  case False
  with run have "res = Inl (LeaseRejected LEASE_REGISTRY_UNAVAILABLE)" "g' = g" by (simp_all add: consume_run)
  then show ?thesis using nonce_safe_mono [OF safe] by simp
next
  case True
  let ?g = "snd (expire_locked now g)"
  have full: "nonce_full S k ?g"
    using safe True by (intro preservesD [OF expire_full]) (simp add: nonce_safe_def nonce_full_def)
  show ?thesis
  proof (cases "authenticate cfg (q_token q) (request_binding cfg q) now")
    case (Inl e)
    then have "\<exists>e. res = Inl e" "nonce_full S k g'"
      using run True full preservesD [OF small_full(4) full, of "Inl e"]
      by (auto simp: consume_run bindE_run counted_run split: lease_error.splits)
    then show ?thesis using nonce_full_safe nonce_full_mono [of S k g' "Suc k"] by auto
  next
    case (Inr c)
    then have "consume_body q now c ?g = (res, g')"
      using run True by (simp add: consume_run bindE_run counted_run)
    from consume_body_full [OF full k this] Inr show ?thesis
      by (auto simp: request_nonce_def intro: nonce_full_safe)
  qed
qed

lemma restart_safe:
  assumes ok: "registry_ok g" and safe: "nonce_safe S k g"
  shows "nonce_safe S k (restart now g)"
proof (cases "g_file g")
  case (Saved sv)
  have f: "file_ok (Saved sv)" using ok Saved by (simp add: registry_ok_def)
  have "preserves (nonce_full S k) (bindE (persist False) set_healthy)" by (intro pres persist_full small_full)
  moreover have "nonce_full S k ((fresh_registry (Saved sv) (g_marker g) (g_io g))\<lparr>
       g_restart_revoked_total := n, g_revoked_total := n,
       g_nonces := sv_nonces sv, g_recent := map (restart_record now) (sv_recent sv)\<rparr>)" for n
    using safe Saved by (simp add: nonce_full_def nonce_safe_def kept_on_disk_def fresh_registry_def)
  ultimately show ?thesis
    unfolding restart_def Saved recover_run [OF f] by (intro nonce_full_safe) (rule preservesD)
next
  case No_File
  show ?thesis
  proof (cases "g_marker g")
    case False
    then have "nonce_full S k (fresh_registry No_File False (g_io g))"
      using safe No_File by (simp add: nonce_full_def nonce_safe_def kept_on_disk_def fresh_registry_def)
    moreover have "preserves (nonce_full S k) (bindE (persist True) set_healthy)" by (intro pres persist_full small_full)
    ultimately show ?thesis
      using No_File False preservesD by (fastforce simp: restart_def recover_def fresh_registry_def intro: nonce_full_safe)
  qed (use safe No_File in \<open>simp add: restart_def recover_def fresh_registry_def nonce_safe_def kept_on_disk_def\<close>)
qed (use safe in \<open>simp add: restart_def recover_def fresh_registry_def nonce_safe_def kept_on_disk_def\<close>)

lemma first_boot_eq:
  "first_boot = (fresh_registry (Saved \<lparr>sv_armed_id = None, sv_recent = [], sv_nonces = []\<rparr>) True [])\<lparr>g_healthy := True\<rparr>"
  by (simp add: first_boot_def first_start_def restart_def recover_def fresh_registry_def persist_def set_healthy_def
      snapshot_of_def last_n_def bindE_run)

lemma first_boot_fields [simp]:
  "g_armed first_boot = None" "g_recent first_boot = []" "g_nonces first_boot = []" "g_healthy first_boot"
  "g_file first_boot = Saved \<lparr>sv_armed_id = None, sv_recent = [], sv_nonces = []\<rparr>" "g_marker first_boot"
  "g_io first_boot = []"
  by (simp_all add: first_boot_eq fresh_registry_def)

text \<open>Nothing is remembered on a first start, in memory or on disk.\<close>

lemma first_start_nonces:
  "g_nonces (first_start outcomes) = []"
  "g_file (first_start outcomes) = Saved sv \<Longrightarrow> sv_nonces sv = []"
  by (cases outcomes; auto simp: first_start_def restart_def recover_def fresh_registry_def persist_def set_healthy_def
      snapshot_of_def bindE_run Let_def split: io.splits list.splits)+

interpretation nonces: invariant_system "\<lambda>h. \<exists>outcomes. h = (first_start outcomes, [], 0, False)" "observe cfg" nonce_ok
  for cfg
proof unfold_locales
  show "nonce_ok h" if "\<exists>outcomes. h = (first_start outcomes, [], 0, False)" for h
  proof -
    from that obtain outcomes where h: "h = (first_start outcomes, [], 0, False)" by blast
    have "registry_ok (first_start outcomes)" by (rule registry.inv_init) blast
    then show ?thesis by (simp add: h nonce_ok_def nonce_safe_def kept_on_disk_def first_start_nonces)
  qed
  show "nonce_ok (observe cfg x h)" if ok: "nonce_ok h" for x h
  proof -
    obtain g ws k lost where h: "h = (g, ws, k, lost)" by (cases h)
    have reg: "registry_ok g" and safe: "k \<le> NONCE_MEMORY \<Longrightarrow> \<not> lost \<Longrightarrow> distinct ws \<and> nonce_safe (set ws) k g"
      using ok by (auto simp: nonce_ok_def h)
    have reg': "registry_ok (exec_admission cfg x g)" by (rule registry.inv_step [OF reg])
    show ?thesis
    proof (cases x)
      case (Consume_Op q now)
      obtain res g' where run: "consume cfg q now g = (res, g')" by (cases "consume cfg q now g")
      have "registry_ok g'" using preservesD_eq [OF consume_ok run reg] .
      moreover have "nonce_safe (set ws) k g" "distinct ws" "k < NONCE_MEMORY" if "Suc k \<le> NONCE_MEMORY" "\<not> lost"
        using safe that by auto
      ultimately show ?thesis
        using consume_history [OF _ _ run] by (cases res) (auto simp: observe_def h Consume_Op run nonce_ok_def)
    next
      case (Arm_Op t now)
      have "preserves (nonce_full (set ws) k) (thenE (expire_locked now) (bindE (counted (peek cfg t now)) (arm_body now)))"
        by (intro pres expire_full small_full arm_body_full)
      from guarded_safe [OF this] show ?thesis
        using safe reg' by (simp add: observe_def h Arm_Op nonce_ok_def arm_eq)
    next
      case (Revoke_Op i r now)
      from guarded_safe [OF revoke_body_full] show ?thesis
        using safe reg' by (simp add: observe_def h Revoke_Op nonce_ok_def revoke_eq)
    next
      case (Status_Op now)
      then show ?thesis
        using safe reg' expire_safe by (simp add: observe_def h nonce_ok_def armed_record_def bindE_run
          expire_total case_prod_beta)
    next
      case (Restart_Op now)
      then show ?thesis using safe reg' restart_safe [OF reg] by (simp add: observe_def h nonce_ok_def)
    qed (use safe reg' in \<open>simp_all add: observe_def h nonce_ok_def nonce_safe_def kept_on_disk_def\<close>)
  qed
qed


section \<open>A concrete registry\<close>

definition demo_token :: string where
  "demo_token = (case sign_lease (\<lambda>_. None) demo_claims demo_secret of Inr t \<Rightarrow> t | Inl _ \<Rightarrow> [])"

definition demo_cfg :: admission_config where
  "demo_cfg = \<lparr>ac_secret = replicate 40 (CHR ''k''), ac_audience = AUDIENCE, ac_float = (\<lambda>_. None),
     ac_lenient = (\<lambda>_. Some (JObj (sorted_dump demo_claims)))\<rparr>"

definition demo_request :: consume_request where
  "demo_request = \<lparr>q_token = demo_token, q_execution_id = ''exec-0000000000aa'',
     q_capability_id = c_capability_id demo_claims, q_profile_id = c_profile_id demo_claims,
     q_target_ref = c_target_ref demo_claims, q_target_origin = c_target_origin demo_claims,
     q_projection_digest = c_projection_digest demo_claims, q_allowlist_digest = c_allowlist_digest demo_claims,
     q_manifest_digest = c_manifest_digest demo_claims\<rparr>"

definition demo_time :: int where "demo_time = 1700000100000000"

lemma demo_token_eq: "sign_lease (\<lambda>_. None) demo_claims demo_secret = Inr demo_token"
  unfolding demo_token_def sign_lease_eq [OF demo_ok demo_key] by simp

lemma demo_authenticates:
  assumes "trusted_claims demo_claims b (seconds_of now) = Inr demo_claims"
  shows "authenticate demo_cfg demo_token b now = Inr demo_claims"
proof -
  have "verify_lease (\<lambda>_. None) demo_token demo_secret b (seconds_of now) = Inr demo_claims"
    by (rule verify_signed [OF demo_ok demo_token_eq demo_token_length [OF demo_token_eq] assms])
  moreover have "c_profile_id demo_claims = EXPECTED_PROFILE_ID" "c_capability_id demo_claims = EXPECTED_CAPABILITY_ID"
    by (simp_all add: demo_claims_def EXPECTED_PROFILE_ID_def EXPECTED_CAPABILITY_ID_def)
  ultimately show ?thesis by (simp add: authenticate_def demo_cfg_def demo_secret_def)
qed

lemma demo_request_authenticates:
  "authenticate demo_cfg (q_token demo_request) (request_binding demo_cfg demo_request) demo_time = Inr demo_claims"
proof -
  have "trusted_claims demo_claims (request_binding demo_cfg demo_request) (seconds_of demo_time) = Inr demo_claims"
    by (simp add: trusted_claims_def request_binding_def demo_request_def demo_cfg_def seconds_of_def demo_time_def
        demo_claims_def MAX_LIFETIME_SECONDS_def MAX_CLOCK_SKEW_SECONDS_def)
  then show ?thesis using demo_authenticates by (simp add: demo_request_def)
qed

lemma demo_peek: "peek demo_cfg demo_token demo_time = Inr demo_claims"
proof -
  let ?b = "\<lparr>b_capability_id = points_of (c_capability_id demo_claims), b_profile_id = points_of (c_profile_id demo_claims),
     b_target_ref = points_of (c_target_ref demo_claims), b_target_origin = points_of (c_target_origin demo_claims),
     b_projection_digest = points_of (c_projection_digest demo_claims),
     b_allowlist_digest = points_of (c_allowlist_digest demo_claims),
     b_manifest_digest = points_of (c_manifest_digest demo_claims), b_audience = points_of AUDIENCE\<rparr>"
  have "distinct (map fst (sorted_dump demo_claims))" by (simp only: dump_keys claim_names_sorted)
  from map_of_dump(1) [OF this] have key: "shape_key (sorted_dump demo_claims) k = Some (points_of v)"
    if "str_entry k v \<in> set (sorted_dump demo_claims)" "length v \<le> 200" for k v
    using that by (simp add: shape_key_def str_entry_def points_of_def)
  have split: "\<exists>p m. split_on b_dot demo_token = [''AZL1'', p, m]"
    using verify_signed [OF demo_ok demo_token_eq demo_token_length [OF demo_token_eq] demo_trusted]
    by (rule verify_lease_Inr) blast
  have "shape_key (sorted_dump demo_claims) ''capability_id'' = Some (points_of (c_capability_id demo_claims))"
    "shape_key (sorted_dump demo_claims) ''profile_id'' = Some (points_of (c_profile_id demo_claims))"
    "shape_key (sorted_dump demo_claims) ''target_ref'' = Some (points_of (c_target_ref demo_claims))"
    "shape_key (sorted_dump demo_claims) ''target_origin'' = Some (points_of (c_target_origin demo_claims))"
    "shape_key (sorted_dump demo_claims) ''projection_digest'' = Some (points_of (c_projection_digest demo_claims))"
    "shape_key (sorted_dump demo_claims) ''allowlist_digest'' = Some (points_of (c_allowlist_digest demo_claims))"
    "shape_key (sorted_dump demo_claims) ''manifest_digest'' = Some (points_of (c_manifest_digest demo_claims))"
    by (rule key, simp add: sorted_dump_def, simp add: demo_claims_def)+
  then have "claims_shape demo_cfg demo_token = Inr ?b"
    using split by (auto simp: claims_shape_def demo_cfg_def)
  moreover have "trusted_claims demo_claims ?b (seconds_of demo_time) = Inr demo_claims"
    by (simp add: trusted_claims_def seconds_of_def demo_time_def
        demo_claims_def MAX_LIFETIME_SECONDS_def MAX_CLOCK_SKEW_SECONDS_def)
  ultimately show ?thesis using demo_authenticates by (simp add: peek_def)
qed

definition demo_armed :: registry where
  "demo_armed = snd (arm demo_cfg demo_token demo_time first_boot)"

lemma demo_arm: "arm demo_cfg demo_token demo_time first_boot = (Inr (armed_record_of demo_claims demo_time), demo_armed)"
proof -
  have "fst (arm demo_cfg demo_token demo_time first_boot) = Inr (armed_record_of demo_claims demo_time)"
    by (simp add: arm_eq bindE_run require_healthy_run expire_locked_def counted_run demo_peek arm_body_def
        persist_or_fail_def persist_def armed_state_def put_record_def Let_def)
  then show ?thesis unfolding demo_armed_def by (metis prod.collapse)
qed

lemma demo_armed_fields:
  "g_armed demo_armed = Some (armed_record_of demo_claims demo_time)" "g_healthy demo_armed"
  "g_nonces demo_armed = []" "g_io demo_armed = []"
  "g_recent demo_armed = [armed_record_of demo_claims demo_time]"
  by (simp_all add: demo_armed_def arm_eq bindE_run require_healthy_run expire_locked_def counted_run demo_peek
      arm_body_def persist_or_fail_def persist_def armed_state_def put_record_def Let_def last_n_def
      RECENT_LIMIT_def)

lemma demo_unexpired: "expire_locked demo_time demo_armed = (Inr (), demo_armed)"
  by (simp add: expire_locked_def bindE_run demo_armed_fields armed_record_of_def micros_of_def demo_time_def
      demo_claims_def)

lemma demo_consume: "\<exists>g. consume demo_cfg demo_request demo_time demo_armed =
    (Inr (consumed_record (armed_record_of demo_claims demo_time) (q_execution_id demo_request) demo_time), g)"
proof -
  have "fst (consume demo_cfg demo_request demo_time demo_armed) =
      Inr (consumed_record (armed_record_of demo_claims demo_time) (q_execution_id demo_request) demo_time)"
    by (simp add: consume_run demo_armed_fields demo_unexpired bindE_run counted_run demo_request_authenticates
        consume_body_def armed_record_of_def persist_or_fail_def persist_def consumed_state_def put_record_def Let_def)
  then show ?thesis by (metis prod.collapse)
qed

section \<open>Properties\<close>

lemma demo_consumed_marker: "g_marker (snd (consume demo_cfg demo_request demo_time demo_armed))"
proof -
  have "g_marker demo_armed"
    by (simp add: demo_armed_def arm_eq bindE_run require_healthy_run expire_locked_def counted_run demo_peek
        arm_body_def persist_or_fail_def persist_def armed_state_def put_record_def Let_def)
  then show ?thesis
    by (simp add: consume_run demo_armed_fields demo_unexpired bindE_run counted_run demo_request_authenticates
        consume_body_def armed_record_of_def persist_or_fail_def persist_def consumed_state_def put_record_def Let_def)
qed

text \<open>C5: From a first start with any outcomes of its writes, over any history of calls, restarts, failing
  writes, corruptions and losses of the state file, no nonce is consumed twice, under two conditions: the
  history has at most 4,096 \<open>consume\<close> calls (the nonce memory), and the state file is never lost before
  the marker was written, which the last component of the history records.  The second condition is
  needed: \<open>lost_state_can_look_new\<close> below.\<close>

theorem nonce_consumed_once:
  assumes "fold (observe cfg) ops (first_start outcomes, [], 0, False) = (g, winners, calls, lost)"
    and "calls \<le> 4096" and "\<not> lost"
  shows "distinct winners"
proof -
  have "nonce_ok (fold (observe cfg) ops (first_start outcomes, [], 0, False))"
    by (rule nonces.inv_reachable) blast
  with assms show ?thesis by (simp add: nonce_ok_def NONCE_MEMORY_def)
qed

theorem nonce_consumed_once_witness:
  "\<exists>g. fold (observe demo_cfg)
      [Arm_Op demo_token demo_time, Consume_Op demo_request demo_time, Lose_Op, Restart_Op 1] (first_start [], [], 0, False)
     = (g, [c_nonce demo_claims], 1, False) \<and> distinct [c_nonce demo_claims]"
proof -
  obtain g where "consume demo_cfg demo_request demo_time demo_armed =
      (Inr (consumed_record (armed_record_of demo_claims demo_time) (q_execution_id demo_request) demo_time), g)"
    using demo_consume by blast
  moreover from this have "g_marker g" using demo_consumed_marker by simp
  ultimately have "fold (observe demo_cfg)
      [Arm_Op demo_token demo_time, Consume_Op demo_request demo_time, Lose_Op, Restart_Op 1] (first_start [], [], 0, False)
     = (restart 1 (g\<lparr>g_file := No_File\<rparr>), [c_nonce demo_claims], 1, False)"
    by (simp add: observe_def demo_arm request_nonce_def demo_request_authenticates flip: first_boot_def)
  with nonce_consumed_once [OF this] show ?thesis by simp
qed

text \<open>Over any such history the registry holds at most 16 records with distinct lease ids and at
  most 4,096 distinct nonces, and an ARMED record is the one in the armed slot, so at most one lease
  is armed.\<close>

theorem registry_stays_bounded:
  "let g = fold (exec_admission cfg) ops first_boot in
     length (g_recent g) \<le> 16 \<and> distinct (map lr_lease_id (g_recent g)) \<and>
     length (g_nonces g) \<le> 4096 \<and> distinct (g_nonces g) \<and>
     set (filter (\<lambda>r. lr_state r = ARMED) (g_recent g)) \<subseteq> set_option (g_armed g)"
  using registry.inv_reachable [OF first_boot_start, of cfg ops]
  by (auto simp: registry_ok_def mem_ok_def RECENT_LIMIT_def NONCE_MEMORY_def Let_def)

text \<open>C11: \<open>consume\<close> succeeds only for the lease in the armed slot, still ARMED and unexpired, with a
  token that verifies against the facts the runner computed and a nonce not used before; on success
  the lease is CONSUMED, its nonce is remembered, and both are on disk before the call returns.\<close>

theorem consume_needs_the_armed_lease:
  assumes "consume cfg q now g = (Inr r, g')"
  shows "\<exists>c a. g_healthy g \<and> authenticate cfg (q_token q) (request_binding cfg q) now = Inr c \<and>
    g_armed g = Some a \<and> lr_state a = ARMED \<and> lr_lease_id a = c_lease_id c \<and> now < lr_expires_at a \<and>
    c_nonce c \<notin> set (g_nonces g) \<and>
    r = consumed_record a (q_execution_id q) now \<and> g_armed g' = Some r \<and> c_nonce c \<in> set (g_nonces g') \<and>
    g_file g' = Saved (snapshot_of g')"
proof -
  obtain c where c: "g_healthy g" "authenticate cfg (q_token q) (request_binding cfg q) now = Inr c"
    and body: "consume_body q now c (snd (expire_locked now g)) = (Inr r, g')"
    using assms by (rule consume_Inr)
  obtain a where a: "g_armed (snd (expire_locked now g)) = Some a" by (cases "g_armed (snd (expire_locked now g))")
    (use body in \<open>auto simp: consume_body_def reject_run split: if_splits\<close>)
  have live: "now < lr_expires_at a" and same: "snd (expire_locked now g) = g"
    using a by (auto simp: expire_locked_def remember_def bindE_run persist_def set_healthy_def Let_def
        split: option.splits io.splits if_splits prod.splits)
  have mem: "c_nonce c \<in> set (last_n NONCE_MEMORY (remember_key (c_nonce c) ns))" if "c_nonce c \<notin> set ns" for ns
    using that by (simp add: remember_key_def last_n_def NONCE_MEMORY_def)
  show ?thesis
    using body a c live mem unfolding same
    by (auto simp: consume_body_def reject_run persist_or_fail_def persist_def bindE_run Let_def consumed_state_def
        put_record_def snapshot_of_def split: if_splits io.splits)
qed



theorem consume_needs_the_armed_lease_witness:
  "\<exists>a. g_armed demo_armed = Some a \<and> lr_state a = ARMED \<and> demo_time < lr_expires_at a"
  using demo_consume consume_needs_the_armed_lease [of demo_cfg demo_request demo_time demo_armed] by metis

text \<open>An unhealthy registry refuses every operation that needs it, and changes nothing.\<close>

theorem unhealthy_registry_refuses:
  assumes "\<not> g_healthy g"
  shows "arm cfg token now g = (Inl (LeaseRejected LEASE_REGISTRY_UNAVAILABLE), g) \<and>
    consume cfg q now g = (Inl (LeaseRejected LEASE_REGISTRY_UNAVAILABLE), g) \<and>
    revoke i reason now g = (Inl (LeaseRejected LEASE_REGISTRY_UNAVAILABLE), g)"
  using assms by (simp add: arm_eq consume_eq revoke_eq bindE_run require_healthy_run)

theorem unhealthy_registry_refuses_witness:
  "arm demo_cfg demo_token demo_time (restart 0 (first_boot\<lparr>g_file := Bad_File\<rparr>)) =
     (Inl (LeaseRejected LEASE_REGISTRY_UNAVAILABLE), restart 0 (first_boot\<lparr>g_file := Bad_File\<rparr>))"
proof -
  have "\<not> g_healthy (restart 0 (first_boot\<lparr>g_file := Bad_File\<rparr>))"
    by (simp add: restart_def recover_def fresh_registry_def)
  from unhealthy_registry_refuses [OF this] show ?thesis by simp
qed

text \<open>A restart is a revocation.  Over any history, a new process over a state file the registry
  wrote ends with no armed lease: every lease that was ARMED in the file is REVOKED with the
  reason RUNNER_RESTART, no other record changes, every consumed nonce is still remembered, and
  the registry is healthy if the state could be written back.\<close>

theorem restart_revokes_armed_leases:
  assumes "g = fold (exec_admission cfg) ops first_boot" and "g_file g = Saved sv"
  shows "g_armed (restart now g) = None \<and> g_nonces (restart now g) = sv_nonces sv \<and>
    g_recent (restart now g) = map (restart_record now) (sv_recent sv) \<and>
    list_all (\<lambda>r. lr_state r \<noteq> ARMED) (g_recent (restart now g)) \<and>
    (g_healthy (restart now g) \<longleftrightarrow> g_io g = [] \<or> hd (g_io g) = Io_Ok)"
proof -
  have "file_ok (Saved sv)"
    using registry.inv_reachable [OF first_boot_start, of cfg ops] assms by (simp add: registry_ok_def)
  from recover_run [OF this] assms(2) show ?thesis
    by (auto simp: restart_def bindE_run persist_def Let_def set_healthy_def fresh_registry_def list_all_iff
        split: io.splits list.splits)
qed

lemma demo_armed_file: "g_file demo_armed = Saved \<lparr>sv_armed_id = Some (c_lease_id demo_claims),
    sv_recent = [armed_record_of demo_claims demo_time], sv_nonces = []\<rparr>"
  by (simp add: demo_armed_def arm_eq bindE_run require_healthy_run expire_locked_def counted_run demo_peek
      arm_body_def persist_or_fail_def persist_def armed_state_def put_record_def Let_def last_n_def
      RECENT_LIMIT_def snapshot_of_def armed_record_of_def)

theorem restart_revokes_armed_leases_witness:
  "list_all (\<lambda>r. lr_state r \<noteq> ARMED) (g_recent (restart 5 demo_armed)) \<and> g_healthy (restart 5 demo_armed)"
proof -
  have "demo_armed = fold (exec_admission demo_cfg) [Arm_Op demo_token demo_time] first_boot"
    by (simp add: demo_armed_def)
  from restart_revokes_armed_leases [OF this demo_armed_file, of 5] demo_armed_fields(4) show ?thesis by simp
qed

section \<open>What the code does otherwise\<close>

text \<open>
  The module says that a restart keeps the nonce of a lease that was still armed in the consumed
  set, and that a revocation is terminal for its lease.  But only \<open>consume\<close> remembers a nonce,
  and \<open>arm\<close> looks at nothing else: the same token can be armed again after a restart and after
  a revocation, which replaces the REVOKED record by an ARMED one.
\<close>

lemma rearm:
  assumes "g_healthy g" "g_nonces g = []" "g_armed g = None" "g_io g = []"
  shows "fst (arm demo_cfg demo_token demo_time g) = Inr (armed_record_of demo_claims demo_time)"
  using assms by (simp add: arm_eq bindE_run require_healthy_run expire_locked_def counted_run demo_peek
      arm_body_def persist_or_fail_def persist_def armed_state_def put_record_def Let_def)

lemma restarted_lease_is_armed_again:
  "fst (arm demo_cfg demo_token demo_time (restart demo_time demo_armed)) =
     Inr (armed_record_of demo_claims demo_time)"
proof (rule rearm)
  have "demo_armed = fold (exec_admission demo_cfg) [Arm_Op demo_token demo_time] first_boot"
    by (simp add: demo_armed_def)
  note f = registry.inv_reachable [OF first_boot_start, of demo_cfg "[Arm_Op demo_token demo_time]"]
  have "file_ok (Saved \<lparr>sv_armed_id = Some (c_lease_id demo_claims),
      sv_recent = [armed_record_of demo_claims demo_time], sv_nonces = []\<rparr>)"
    using f demo_armed_file by (simp add: registry_ok_def demo_armed_def)
  note run = recover_run [OF this]
  show "g_healthy (restart demo_time demo_armed)" "g_nonces (restart demo_time demo_armed) = []"
    "g_armed (restart demo_time demo_armed) = None" "g_io (restart demo_time demo_armed) = []"
    unfolding restart_def demo_armed_file run
    by (simp_all add: demo_armed_fields bindE_run persist_def set_healthy_def fresh_registry_def)
qed

lemma revoked_lease_is_armed_again:
  "\<exists>r g. revoke (c_lease_id demo_claims) ''operator_stop'' demo_time demo_armed = (Inr (Some r), g) \<and>
     lr_state r = REVOKED \<and>
     fst (arm demo_cfg demo_token demo_time g) = Inr (armed_record_of demo_claims demo_time)"
  by (simp add: revoke_eq bindE_run require_healthy_run demo_armed_fields revoke_body_def armed_record_of_def
      persist_or_fail_def persist_def Let_def revoked_record_def revoked_state_def put_record_def
      rearm [unfolded armed_record_of_def])

text \<open>
  The marker is written only by the very first \<open>_persist\<close>.  If that one is interrupted after the
  state file is in place, no later start creates the marker, and losing the state file then
  looks like a new volume: the registry comes up healthy and empty.
\<close>

lemma lost_state_can_look_new:
  "let g = restart 0 (fresh_registry No_File False [Io_Torn]);
       g' = restart 1 g; g'' = restart 2 (g'\<lparr>g_file := No_File\<rparr>) in
   g_healthy g' \<and> \<not> g_marker g' \<and> g_healthy g'' \<and> g_nonces g'' = []"
  by code_simp

end
