(* ===== verification/Lease_Store.thy ===== *)
theory Lease_Store
  imports Complex_Main Lease
begin

text \<open>
  The controller's lease store of \<open>aegis/zap_active_lease.py\<close>: it mints the signed lease an
  operator asked for, keeps at most one live lease, and consumes it once.

  Times are microseconds.  A method that reads the clock several times takes each reading as an
  argument, and the values of \<open>secrets.token_hex\<close> are arguments too.  \<open>Validation_Error\<close> is a
  \<open>pydantic.ValidationError\<close> raised while a model is constructed, \<open>Type_Error\<close> the one
  of \<open>secrets.compare_digest\<close> on a string that is not ASCII.
\<close>

section \<open>Requests and leases\<close>

datatype classification = SYNTHETIC_LAB | CONTROLLED_TEST_ENV | STAGING | PRODUCTION

definition active_classes :: "classification list" where
  "active_classes = [SYNTHETIC_LAB, CONTROLLED_TEST_ENV]"

definition CONFIRMATION_PHRASE :: string where
  "CONFIRMATION_PHRASE = ''ACTIVATE SYNTHETIC-LAB REFLECTED-XSS ACTIVE SCAN''"

datatype scan_method = GET | HEAD | OPTIONS

record activation_request =
  ar_target_ref :: string
  ar_origin :: string
  ar_classification :: classification
  ar_profile_id :: string
  ar_capability_id :: string
  ar_allowed_methods :: "scan_method list"
  ar_allowed_path :: string
  ar_query_param :: string
  ar_max_requests :: int
  ar_rate_per_second :: rat
  ar_ttl_seconds :: int
  ar_confirmation_phrase :: string

definition path_char :: "char \<Rightarrow> bool" where
  "path_char c \<longleftrightarrow> is_alnum c \<or> c = CHR ''/'' \<or> c = CHR ''_'' \<or> c = CHR ''-''"

definition request_ok :: "activation_request \<Rightarrow> bool" where
  "request_ok r \<longleftrightarrow>
     pat [] slug 3 64 (ar_target_ref r) \<and> length (ar_origin r) \<le> 200 \<and>
     pat [] upper_ident 3 64 (ar_profile_id r) \<and> pat [] ident 3 100 (ar_capability_id r) \<and>
     1 \<le> length (ar_allowed_methods r) \<and> length (ar_allowed_methods r) \<le> 3 \<and>
     pat ''/'' path_char 1 200 (ar_allowed_path r) \<and>
     (case ar_query_param r of [] \<Rightarrow> False | c # cs \<Rightarrow> is_lower c \<and> pat [] ident 0 31 cs) \<and>
     1 \<le> ar_max_requests r \<and> ar_max_requests r \<le> 512 \<and>
     0 < ar_rate_per_second r \<and> ar_rate_per_second r \<le> 10 \<and>
     30 \<le> ar_ttl_seconds r \<and> ar_ttl_seconds r \<le> MAX_LIFETIME_SECONDS \<and>
     length (ar_confirmation_phrase r) \<le> 120"

record active_binding =
  ab_projection_digest :: string
  ab_allowlist_digest :: string
  ab_manifest_digest :: string
  ab_budget_id :: string
  ab_audience :: string

datatype store_state = ISSUED | S_CONSUMED | COMPLETED | S_REVOKED | S_EXPIRED

record active_lease =
  al_lease_id :: string
  al_token :: string
  al_binding :: active_binding
  al_target_ref :: string
  al_origin :: string
  al_classification :: classification
  al_profile_id :: string
  al_capability_id :: string
  al_allowed_methods :: "scan_method list"
  al_allowed_path :: string
  al_query_param :: string
  al_max_requests :: int
  al_rate_per_second :: rat
  al_state :: store_state
  al_issued_at :: int
  al_expires_at :: int
  al_consumed_at :: "int option"
  al_terminated_at :: "int option"
  al_termination_reason :: "string option"

definition is_live :: "active_lease \<Rightarrow> int \<Rightarrow> bool" where
  "is_live l now \<longleftrightarrow> al_state l = ISSUED \<and> now < al_expires_at l"

datatype store_error = Lease_Error string | Rejected_Error lease_error | Validation_Error | Type_Error

text \<open>The store: the lease slot, and how often the stop callback was called.\<close>

record lease_store =
  ls_lease :: "active_lease option"
  ls_stops :: nat

type_synonym 'a store = "(lease_store, store_error, 'a) prog"

section \<open>Operations\<close>

definition set_lease :: "active_lease \<Rightarrow> unit store" where
  "set_lease l = modifyE (ls_lease_update (\<lambda>_. Some l))"

text \<open>\<open>t1\<close> and \<open>t2\<close> are the two readings of \<open>_expire_if_needed\<close>.\<close>

definition expire_if_needed :: "int \<Rightarrow> int \<Rightarrow> unit store" where
  "expire_if_needed t1 t2 =
     bindE (getE ls_lease) (\<lambda>l.
     case l of
       Some lease \<Rightarrow>
         if al_state lease = ISSUED \<and> al_expires_at lease \<le> t1 then
           set_lease (lease\<lparr>al_state := S_EXPIRED, al_terminated_at := Some t2\<rparr>)
         else retE ()
     | None \<Rightarrow> retE ())"

definition current :: "int \<Rightarrow> int \<Rightarrow> active_lease option store" where
  "current t1 t2 = thenE (expire_if_needed t1 t2) (getE ls_lease)"

definition timestamp :: "int \<Rightarrow> int" where "timestamp t = t div 1000000"

definition lease_expiry :: "activation_request \<Rightarrow> int \<Rightarrow> int" where
  "lease_expiry r now = now + ar_ttl_seconds r * 1000000"

definition issued_claims :: "activation_request \<Rightarrow> active_binding \<Rightarrow> string \<Rightarrow> string \<Rightarrow> int \<Rightarrow> lease_claims" where
  "issued_claims r b lid nonce now =
     \<lparr>c_lease_id = lid, c_capability_id = ar_capability_id r, c_profile_id = ar_profile_id r,
      c_target_ref = ar_target_ref r, c_target_origin = rstrip (CHR ''/'') (ar_origin r),
      c_projection_digest = ab_projection_digest b, c_allowlist_digest = ab_allowlist_digest b,
      c_manifest_digest = ab_manifest_digest b, c_issued_at = timestamp now,
      c_not_before = timestamp now, c_expires_at = timestamp (lease_expiry r now), c_nonce = nonce,
      c_audience = ab_audience b, c_budget_id = ab_budget_id b\<rparr>"

definition issued_lease :: "activation_request \<Rightarrow> active_binding \<Rightarrow> string \<Rightarrow> string \<Rightarrow> int \<Rightarrow> active_lease" where
  "issued_lease r b lid token now =
     \<lparr>al_lease_id = lid, al_token = token, al_binding = b, al_target_ref = ar_target_ref r,
      al_origin = ar_origin r, al_classification = ar_classification r, al_profile_id = ar_profile_id r,
      al_capability_id = ar_capability_id r, al_allowed_methods = ar_allowed_methods r,
      al_allowed_path = ar_allowed_path r, al_query_param = ar_query_param r,
      al_max_requests = ar_max_requests r, al_rate_per_second = ar_rate_per_second r,
      al_state = ISSUED, al_issued_at = now, al_expires_at = lease_expiry r now,
      al_consumed_at = None, al_terminated_at = None, al_termination_reason = None\<rparr>"

definition issue ::
  "(string \<Rightarrow> string option) \<Rightarrow> string \<Rightarrow> activation_request \<Rightarrow> active_binding \<Rightarrow> string \<Rightarrow> string
    \<Rightarrow> int \<Rightarrow> int \<Rightarrow> int \<Rightarrow> active_lease store" where
  "issue flt secret r b hex8 hex16 now t1 t2 =
     thenE (rejectE (ar_confirmation_phrase r \<noteq> CONFIRMATION_PHRASE) (Lease_Error ''CONFIRMATION_PHRASE_MISMATCH''))
     (thenE (rejectE (ar_classification r \<notin> set active_classes) (Lease_Error ''ENVIRONMENT_NOT_AUTHORISED''))
     (thenE (expire_if_needed t1 t2)
     (bindE (getE ls_lease) (\<lambda>l.
      thenE (rejectE (case l of Some lease \<Rightarrow> is_live lease now | None \<Rightarrow> False) (Lease_Error ''LEASE_ALREADY_ACTIVE''))
     (let lid = ''lease-'' @ hex8; claims = issued_claims r b lid hex16 now in
      thenE (rejectE (\<not> claims_ok claims) Validation_Error)
      (case sign_lease flt claims (Some secret) of
         Inl e \<Rightarrow> throwE (Rejected_Error e)
       | Inr token \<Rightarrow>
           thenE (rejectE (length token < 64 \<or> 1024 < length token) Validation_Error)
           (thenE (set_lease (issued_lease r b lid token now))
           (retE (issued_lease r b lid token now)))))))))"

definition consume_lease ::
  "string \<Rightarrow> string \<Rightarrow> string \<Rightarrow> string \<Rightarrow> int \<Rightarrow> int \<Rightarrow> int \<Rightarrow> int \<Rightarrow> active_lease store" where
  "consume_lease token target profile capability t1 t2 t3 t4 =
     thenE (expire_if_needed t1 t2)
     (bindE (getE ls_lease) (\<lambda>l.
      case l of
        None \<Rightarrow> throwE (Lease_Error ''NO_LIVE_LEASE'')
      | Some lease \<Rightarrow>
          thenE (rejectE (\<not> is_live lease t3) (Lease_Error ''NO_LIVE_LEASE''))
          (thenE (rejectE (\<not> list_all (\<lambda>c. of_char c < (128::nat)) token) Type_Error)
          (thenE (rejectE (token \<noteq> al_token lease) (Lease_Error ''LEASE_TOKEN_MISMATCH''))
          (thenE (rejectE (al_target_ref lease \<noteq> target \<or> al_profile_id lease \<noteq> profile \<or>
                al_capability_id lease \<noteq> capability) (Lease_Error ''LEASE_BINDING_MISMATCH''))
          (let lease' = lease\<lparr>al_state := S_CONSUMED, al_consumed_at := Some t4\<rparr> in
           thenE (set_lease lease') (retE lease')))))))"

definition terminate_lease :: "string \<Rightarrow> store_state \<Rightarrow> string \<Rightarrow> int \<Rightarrow> unit store" where
  "terminate_lease lid st reason now =
     bindE (getE ls_lease) (\<lambda>l.
     case l of
       Some lease \<Rightarrow>
         if al_lease_id lease = lid \<and> al_state lease \<in> {ISSUED, S_CONSUMED} then
           set_lease (lease\<lparr>al_state := st, al_terminated_at := Some now,
             al_termination_reason := Some (take 60 reason)\<rparr>)
         else retE ()
     | None \<Rightarrow> retE ())"

definition complete_lease :: "string \<Rightarrow> int \<Rightarrow> unit store" where
  "complete_lease lid now = terminate_lease lid COMPLETED ''completed'' now"

definition revoke_lease :: "string \<Rightarrow> string \<Rightarrow> int \<Rightarrow> unit store" where
  "revoke_lease lid reason now = terminate_lease lid S_REVOKED reason now"

definition emergency_stop :: "string \<Rightarrow> int \<Rightarrow> bool store" where
  "emergency_stop reason now =
     bindE (getE ls_lease) (\<lambda>l.
     let fired = (case l of Some lease \<Rightarrow> al_state lease \<in> {ISSUED, S_CONSUMED} | None \<Rightarrow> False) in
     thenE (case l of
         Some lease \<Rightarrow> if fired then
             set_lease (lease\<lparr>al_state := S_REVOKED, al_terminated_at := Some now,
               al_termination_reason := Some (take 60 reason)\<rparr>)
           else retE ()
       | None \<Rightarrow> retE ())
     (thenE (modifyE (ls_stops_update Suc)) (retE fired)))"


section \<open>Histories\<close>

text \<open>
  A history keeps the ids issued and the ids consumed.  The random part of an id is drawn by
  \<open>secrets.token_hex(8)\<close>: a step that would repeat an id already issued is left out.
\<close>

datatype store_op =
    Issue_Op activation_request active_binding string string int int int
  | Consume_Lease_Op string string string string int int int int
  | Complete_Op string int | Revoke_Lease_Op string string int | Stop_Op string int | Current_Op int int

type_synonym store_history = "lease_store \<times> string list \<times> string list"

definition store_step :: "(string \<Rightarrow> string option) \<Rightarrow> string \<Rightarrow> store_op \<Rightarrow> store_history \<Rightarrow> store_history" where
  "store_step flt secret x h = (case h of (s, issued, used) \<Rightarrow>
     case x of
       Issue_Op r b hex8 hex16 now t1 t2 \<Rightarrow>
         if ''lease-'' @ hex8 \<in> set issued then h
         else (case issue flt secret r b hex8 hex16 now t1 t2 s of
             (Inr l, s') \<Rightarrow> (s', al_lease_id l # issued, used) | (Inl _, s') \<Rightarrow> (s', issued, used))
     | Consume_Lease_Op token target profile capability t1 t2 t3 t4 \<Rightarrow>
         (case consume_lease token target profile capability t1 t2 t3 t4 s of
             (Inr l, s') \<Rightarrow> (s', issued, al_lease_id l # used) | (Inl _, s') \<Rightarrow> (s', issued, used))
     | Complete_Op lid now \<Rightarrow> (snd (complete_lease lid now s), issued, used)
     | Revoke_Lease_Op lid reason now \<Rightarrow> (snd (revoke_lease lid reason now s), issued, used)
     | Stop_Op reason now \<Rightarrow> (snd (emergency_stop reason now s), issued, used)
     | Current_Op t1 t2 \<Rightarrow> (snd (current t1 t2 s), issued, used))"

definition store_ok :: "store_history \<Rightarrow> bool" where
  "store_ok h = (case h of (s, issued, used) \<Rightarrow>
     distinct used \<and> set used \<subseteq> set issued \<and>
     (\<forall>l. ls_lease s = Some l \<longrightarrow> al_lease_id l \<in> set issued \<and> (al_state l = ISSUED \<longrightarrow> al_lease_id l \<notin> set used)))"

definition empty_store :: lease_store where
  "empty_store = \<lparr>ls_lease = None, ls_stops = 0\<rparr>"

lemma set_lease_run [simp]: "set_lease l s = (Inr (), s\<lparr>ls_lease := Some l\<rparr>)"
  by (simp add: set_lease_def)

lemma expire_if_needed_run:
  "expire_if_needed t1 t2 s = (Inr (), case ls_lease s of
     Some l \<Rightarrow> if al_state l = ISSUED \<and> al_expires_at l \<le> t1
       then s\<lparr>ls_lease := Some (l\<lparr>al_state := S_EXPIRED, al_terminated_at := Some t2\<rparr>)\<rparr> else s
   | None \<Rightarrow> s)"
  by (auto simp: expire_if_needed_def split: option.splits)

definition after_expiry :: "int \<Rightarrow> int \<Rightarrow> lease_store \<Rightarrow> lease_store" where
  "after_expiry t1 t2 s = snd (expire_if_needed t1 t2 s)"

lemma expire_then: "expire_if_needed t1 t2 s = (Inr (), after_expiry t1 t2 s)"
  by (simp add: after_expiry_def expire_if_needed_run)

text \<open>\<open>issue\<close> and \<open>consume\<close> as one step, and inversion of a successful one.\<close>

lemma issue_run:
  "issue flt secret r b hex8 hex16 now t1 t2 s =
    (let u = after_expiry t1 t2 s; c = issued_claims r b (''lease-'' @ hex8) hex16 now in
     if ar_confirmation_phrase r \<noteq> CONFIRMATION_PHRASE then (Inl (Lease_Error ''CONFIRMATION_PHRASE_MISMATCH''), s)
     else if ar_classification r \<notin> set active_classes then (Inl (Lease_Error ''ENVIRONMENT_NOT_AUTHORISED''), s)
     else if (case ls_lease u of Some l \<Rightarrow> is_live l now | None \<Rightarrow> False) then (Inl (Lease_Error ''LEASE_ALREADY_ACTIVE''), u)
     else if \<not> claims_ok c then (Inl Validation_Error, u)
     else case sign_lease flt c (Some secret) of
         Inl e \<Rightarrow> (Inl (Rejected_Error e), u)
       | Inr token \<Rightarrow>
           if length token < 64 \<or> 1024 < length token then (Inl Validation_Error, u)
           else (Inr (issued_lease r b (''lease-'' @ hex8) token now),
             u\<lparr>ls_lease := Some (issued_lease r b (''lease-'' @ hex8) token now)\<rparr>))"
  unfolding issue_def Let_def
  by (simp add: expire_then bindE_run rejectE_run split: sum.split)

lemma issue_Inr:
  assumes "issue flt secret r b hex8 hex16 now t1 t2 s = (Inr l, s')"
  obtains token where "ar_confirmation_phrase r = CONFIRMATION_PHRASE" "ar_classification r \<in> set active_classes"
    "\<forall>x. ls_lease (after_expiry t1 t2 s) = Some x \<longrightarrow> \<not> is_live x now"
    "claims_ok (issued_claims r b (''lease-'' @ hex8) hex16 now)"
    "sign_lease flt (issued_claims r b (''lease-'' @ hex8) hex16 now) (Some secret) = Inr token"
    "64 \<le> length token" "length token \<le> 1024"
    "l = issued_lease r b (''lease-'' @ hex8) token now" "s' = (after_expiry t1 t2 s)\<lparr>ls_lease := Some l\<rparr>"
  using assms unfolding issue_run Let_def
  by (simp split: if_splits sum.splits option.splits)

lemma issue_Inl:
  "issue flt secret r b hex8 hex16 now t1 t2 s = (Inl e, s') \<Longrightarrow> s' = s \<or> s' = after_expiry t1 t2 s"
  unfolding issue_run Let_def by (simp split: if_splits sum.splits)

lemma consume_lease_Inr:
  assumes "consume_lease token target profile capability t1 t2 t3 t4 s = (Inr l, s')"
  obtains x where "ls_lease (after_expiry t1 t2 s) = Some x" "is_live x t3" "token = al_token x"
    "al_target_ref x = target" "al_profile_id x = profile" "al_capability_id x = capability"
    "l = x\<lparr>al_state := S_CONSUMED, al_consumed_at := Some t4\<rparr>" "s' = (after_expiry t1 t2 s)\<lparr>ls_lease := Some l\<rparr>"
proof -
  have "consume_lease token target profile capability t1 t2 t3 t4 s =
      (case ls_lease (after_expiry t1 t2 s) of
         None \<Rightarrow> (Inl (Lease_Error ''NO_LIVE_LEASE''), after_expiry t1 t2 s)
       | Some x \<Rightarrow>
          if \<not> is_live x t3 then (Inl (Lease_Error ''NO_LIVE_LEASE''), after_expiry t1 t2 s)
          else if \<not> list_all (\<lambda>c. of_char c < (128::nat)) token then (Inl Type_Error, after_expiry t1 t2 s)
          else if token \<noteq> al_token x then (Inl (Lease_Error ''LEASE_TOKEN_MISMATCH''), after_expiry t1 t2 s)
          else if al_target_ref x \<noteq> target \<or> al_profile_id x \<noteq> profile \<or> al_capability_id x \<noteq> capability
            then (Inl (Lease_Error ''LEASE_BINDING_MISMATCH''), after_expiry t1 t2 s)
          else (Inr (x\<lparr>al_state := S_CONSUMED, al_consumed_at := Some t4\<rparr>),
            (after_expiry t1 t2 s)\<lparr>ls_lease := Some (x\<lparr>al_state := S_CONSUMED, al_consumed_at := Some t4\<rparr>)\<rparr>))"
    by (simp add: consume_lease_def expire_then bindE_run rejectE_run Let_def split: option.splits)
  with assms show ?thesis by (auto split: option.splits if_splits intro: that)
qed


lemma consume_lease_Inl:
  "consume_lease token target profile capability t1 t2 t3 t4 s = (Inl e, s') \<Longrightarrow> s' = after_expiry t1 t2 s"
  by (auto simp: consume_lease_def expire_then bindE_run rejectE_run Let_def split: option.splits if_splits)

text \<open>Moving the lease of the slot to another state keeps the history invariant, unless it becomes
  ISSUED.\<close>

lemma store_ok_slot:
  assumes "store_ok (s, issued, used)" and "ls_lease s = Some l" and "al_lease_id l' = al_lease_id l"
    and "al_state l' \<noteq> ISSUED"
  shows "store_ok (s\<lparr>ls_lease := Some l'\<rparr>, issued, used)"
  using assms by (auto simp: store_ok_def)

lemma after_expiry_ok: "store_ok (s, issued, used) \<Longrightarrow> store_ok (after_expiry t1 t2 s, issued, used)"
  unfolding after_expiry_def expire_if_needed_run snd_conv
  by (auto split: option.splits intro: store_ok_slot)

lemma terminate_ok:
  "store_ok (s, issued, used) \<Longrightarrow> st \<noteq> ISSUED \<Longrightarrow> store_ok (snd (terminate_lease lid st reason now s), issued, used)"
  by (auto simp: terminate_lease_def split: option.splits intro: store_ok_slot)

lemma stop_run: "emergency_stop reason now s =
    (case ls_lease s of
       Some l \<Rightarrow> if al_state l \<in> {ISSUED, S_CONSUMED}
         then (Inr True, \<lparr>ls_lease = Some (l\<lparr>al_state := S_REVOKED, al_terminated_at := Some now,
             al_termination_reason := Some (take 60 reason)\<rparr>), ls_stops = Suc (ls_stops s)\<rparr>)
         else (Inr False, s\<lparr>ls_stops := Suc (ls_stops s)\<rparr>)
     | None \<Rightarrow> (Inr False, s\<lparr>ls_stops := Suc (ls_stops s)\<rparr>))"
  by (cases s) (auto simp: emergency_stop_def Let_def bindE_run split: option.splits)

interpretation store: invariant_system "\<lambda>h. h = (empty_store, [], [])" "store_step flt secret" store_ok
  for flt secret
proof unfold_locales
  show "store_ok h" if "h = (empty_store, [], [])" for h
    using that by (simp add: store_ok_def empty_store_def)
  show "store_ok (store_step flt secret x h)" if ok: "store_ok h" for x h
  proof -
    obtain s issued used where h: "h = (s, issued, used)" by (cases h)
    have ok': "store_ok (s, issued, used)" using ok by (simp add: h)
    show ?thesis
    proof (cases x)
      case (Issue_Op r b hex8 hex16 now t1 t2)
      obtain res s' where run: "issue flt secret r b hex8 hex16 now t1 t2 s = (res, s')" by fastforce
      show ?thesis
      proof (cases res)
        case (Inl e)
        with run issue_Inl [of flt secret r b hex8 hex16 now t1 t2 s] ok' after_expiry_ok [OF ok']
        show ?thesis by (fastforce simp: store_step_def h Issue_Op)
      next
        case (Inr l)
        from run [unfolded Inr] have "al_lease_id l = ''lease-'' @ hex8" "s' = (after_expiry t1 t2 s)\<lparr>ls_lease := Some l\<rparr>"
          by (rule issue_Inr, simp add: issued_lease_def)+
        with run Inr ok' show ?thesis by (auto simp: store_step_def h Issue_Op store_ok_def)
      qed
    next
      case (Consume_Lease_Op token target profile capability t1 t2 t3 t4)
      obtain res s' where run: "consume_lease token target profile capability t1 t2 t3 t4 s = (res, s')" by fastforce
      show ?thesis
      proof (cases res)
        case (Inl e)
        with run consume_lease_Inl [of token target profile capability t1 t2 t3 t4 s] after_expiry_ok [OF ok']
        show ?thesis by (fastforce simp: store_step_def h Consume_Lease_Op)
      next
        case (Inr l)
        from run [unfolded Inr] obtain y where "ls_lease (after_expiry t1 t2 s) = Some y" "is_live y t3"
          "l = y\<lparr>al_state := S_CONSUMED, al_consumed_at := Some t4\<rparr>" "s' = (after_expiry t1 t2 s)\<lparr>ls_lease := Some l\<rparr>"
          by (rule consume_lease_Inr)
        with run Inr after_expiry_ok [OF ok', of t1 t2] show ?thesis
          by (auto simp: store_step_def h Consume_Lease_Op store_ok_def is_live_def)
      qed
    next
      case (Stop_Op reason now)
      show ?thesis
        using ok' by (auto simp: store_step_def h Stop_Op stop_run store_ok_def split: option.splits)
    next
      case (Current_Op t1 t2)
      then show ?thesis
        using after_expiry_ok [OF ok'] by (simp add: store_step_def h current_def expire_then)
    qed (use ok' terminate_ok [OF ok'] in \<open>simp_all add: store_step_def h complete_lease_def revoke_lease_def\<close>)
  qed
qed


section \<open>Properties\<close>

text \<open>Over any history of the store, no lease id is consumed twice, only issued leases are
  consumed, and a lease still ISSUED in the slot has not been consumed.\<close>

theorem lease_consumed_once:
  assumes "fold (store_step flt secret) ops (empty_store, [], []) = (s, issued, used)"
  shows "distinct used \<and> set used \<subseteq> set issued \<and>
    (\<forall>l. ls_lease s = Some l \<and> al_state l = ISSUED \<longrightarrow> al_lease_id l \<notin> set used)"
  using store.inv_reachable [OF refl, of flt secret ops] assms by (auto simp: store_ok_def)

definition demo_activation :: activation_request where
  "demo_activation = \<lparr>ar_target_ref = ''lab-api'', ar_origin = ''http://lab-api:8080/'',
     ar_classification = SYNTHETIC_LAB, ar_profile_id = c_profile_id demo_claims,
     ar_capability_id = c_capability_id demo_claims, ar_allowed_methods = [GET],
     ar_allowed_path = ''/search'', ar_query_param = ''q'', ar_max_requests = 64, ar_rate_per_second = 5,
     ar_ttl_seconds = 900, ar_confirmation_phrase = CONFIRMATION_PHRASE\<rparr>"

definition demo_active_binding :: active_binding where
  "demo_active_binding = \<lparr>ab_projection_digest = c_projection_digest demo_claims,
     ab_allowlist_digest = c_allowlist_digest demo_claims, ab_manifest_digest = c_manifest_digest demo_claims,
     ab_budget_id = c_budget_id demo_claims, ab_audience = AUDIENCE\<rparr>"

lemma demo_issued_claims:
  "issued_claims demo_activation demo_active_binding (''lease-'' @ ''0123456789abcdef'')
     (replicate 32 (CHR ''0'')) 1700000000000000 = demo_claims"
  by (simp add: issued_claims_def demo_activation_def demo_active_binding_def demo_claims_def timestamp_def
      lease_expiry_def rstrip_def)

lemma demo_issue:
  "\<exists>token. issue (\<lambda>_. None) (replicate 40 (CHR ''k'')) demo_activation demo_active_binding ''0123456789abcdef''
      (replicate 32 (CHR ''0'')) 1700000000000000 0 0 empty_store =
    (Inr (issued_lease demo_activation demo_active_binding (''lease-'' @ ''0123456789abcdef'') token 1700000000000000),
     empty_store\<lparr>ls_lease := Some (issued_lease demo_activation demo_active_binding (''lease-'' @ ''0123456789abcdef'')
       token 1700000000000000)\<rparr>)"
proof -
  obtain token where token: "sign_lease (\<lambda>_. None) demo_claims demo_secret = Inr token"
    using sign_lease_eq [OF demo_ok demo_key] by blast
  then have "length token \<le> 1024" using demo_token_length by (simp add: MAX_TOKEN_BYTES_def)
  moreover have "64 \<le> length token"
  proof -
    have "length (b64encode (flat_text (sorted_dump demo_claims))) \<ge> 100"
      unfolding b64encode_eq length_map length_sextets_eq length_canonical [OF demo_ok] by simp
    then show ?thesis using token unfolding sign_lease_eq [OF demo_ok demo_key] by auto
  qed
  moreover have "ar_confirmation_phrase demo_activation = CONFIRMATION_PHRASE"
    "ar_classification demo_activation \<in> set active_classes"
    by (simp_all add: demo_activation_def active_classes_def)
  moreover have "after_expiry 0 0 empty_store = empty_store" "ls_lease empty_store = None"
    by (simp_all add: after_expiry_def expire_if_needed_run empty_store_def)
  ultimately show ?thesis
    using token demo_ok unfolding issue_run Let_def demo_issued_claims by (simp add: demo_secret_def) blast
qed

theorem lease_consumed_once_witness:
  "\<exists>s issued used. fold (store_step (\<lambda>_. None) (replicate 40 (CHR ''k'')))
     [Issue_Op demo_activation demo_active_binding ''0123456789abcdef'' (replicate 32 (CHR ''0'')) 1700000000000000 0 0]
     (empty_store, [], []) = (s, issued, used) \<and> issued \<noteq> [] \<and> distinct used"
proof -
  obtain s issued used where run: "fold (store_step (\<lambda>_. None) (replicate 40 (CHR ''k'')))
     [Issue_Op demo_activation demo_active_binding ''0123456789abcdef'' (replicate 32 (CHR ''0'')) 1700000000000000 0 0]
     (empty_store, [], []) = (s, issued, used)" by (metis prod_cases3)
  moreover have "issued \<noteq> []" using demo_issue run by (auto simp: store_step_def)
  ultimately show ?thesis using lease_consumed_once [OF run] by blast
qed

text \<open>What the runner asserts about the lease it executes.\<close>

definition runner_binding :: "active_lease \<Rightarrow> lease_binding" where
  "runner_binding l =
     \<lparr>b_capability_id = points_of (al_capability_id l), b_profile_id = points_of (al_profile_id l),
      b_target_ref = points_of (al_target_ref l), b_target_origin = points_of (al_origin l),
      b_projection_digest = points_of (ab_projection_digest (al_binding l)),
      b_allowlist_digest = points_of (ab_allowlist_digest (al_binding l)),
      b_manifest_digest = points_of (ab_manifest_digest (al_binding l)),
      b_audience = points_of (ab_audience (al_binding l))\<rparr>"

lemma timestamp_expiry: "timestamp (lease_expiry r now) = timestamp now + ar_ttl_seconds r"
  by (simp add: timestamp_def lease_expiry_def)

lemma slash_code: "of_char CHR ''/'' = (47 :: nat)"
  by simp

lemma slash_iff: "of_char c = (47 :: nat) \<longleftrightarrow> c = CHR ''/''"
proof (rule iffI)
  assume "of_char c = (47 :: nat)"
  from trans [OF this slash_code [symmetric]] show "c = CHR ''/''" by (rule of_char_eqI)
next
  assume "c = CHR ''/''"
  then show "of_char c = (47 :: nat)" by (simp only: slash_code)
qed

lemma points_rstrip: "rstrip 47 (points_of (rstrip (CHR ''/'') s)) = rstrip 47 (points_of s)"
proof -
  have eq: "(\<lambda>x. x = (47 :: nat)) \<circ> of_char = (\<lambda>c. c = CHR ''/'')"
    by (rule ext) (simp only: comp_def slash_iff)
  have strip: "rstrip 47 (points_of t) = points_of (rstrip (CHR ''/'') t)" for t
    unfolding rstrip_def points_of_def by (simp only: rev_map dropWhile_map eq)
  show ?thesis by (simp only: strip rstrip_idem)
qed

text \<open>A lease is issued only for the exact confirmation phrase, in a class that authorises active
  scans, and while no lease is live; it ends \<open>ttl_seconds\<close> after it was issued and its token
  verifies, with the claims the store computed, at any time from one minute before its start to
  one minute after its end.\<close>

theorem issued_lease_is_authorised_and_verifies:
  assumes "request_ok r" and "issue flt secret r b hex8 hex16 now t1 t2 s = (Inr l, s')"
    and "timestamp now - 60 \<le> seconds" and "seconds < timestamp now + ar_ttl_seconds r + 60"
  shows "ar_confirmation_phrase r = CONFIRMATION_PHRASE \<and> ar_classification r \<in> {SYNTHETIC_LAB, CONTROLLED_TEST_ENV} \<and>
    (\<forall>x. ls_lease s = Some x \<longrightarrow> \<not> is_live x (max now t1)) \<and>
    ls_lease s' = Some l \<and> al_state l = ISSUED \<and> al_expires_at l = now + ar_ttl_seconds r * 1000000 \<and>
    verify_lease flt (al_token l) (Some secret) (runner_binding l) seconds =
      Inr (issued_claims r b (al_lease_id l) hex16 now)"
  using assms(2)
proof (rule issue_Inr)
  fix token
  let ?c = "issued_claims r b (''lease-'' @ hex8) hex16 now"
  assume phrase: "ar_confirmation_phrase r = CONFIRMATION_PHRASE" "ar_classification r \<in> set active_classes"
    and free: "\<forall>x. ls_lease (after_expiry t1 t2 s) = Some x \<longrightarrow> \<not> is_live x now"
    and ok: "claims_ok ?c" and token: "sign_lease flt ?c (Some secret) = Inr token" "length token \<le> 1024"
    and l: "l = issued_lease r b (''lease-'' @ hex8) token now" "s' = (after_expiry t1 t2 s)\<lparr>ls_lease := Some l\<rparr>"
  have "30 \<le> ar_ttl_seconds r" "ar_ttl_seconds r \<le> 900"
    using assms(1) by (simp_all add: request_ok_def MAX_LIFETIME_SECONDS_def)
  then have "trusted_claims ?c (runner_binding l) seconds = Inr ?c"
    using assms(3,4)
    by (simp add: trusted_claims_def runner_binding_def l issued_claims_def issued_lease_def timestamp_expiry
        MAX_LIFETIME_SECONDS_def MAX_CLOCK_SKEW_SECONDS_def points_rstrip)
  then have "verify_lease flt token (Some secret) (runner_binding l) seconds = Inr ?c"
    using verify_signed [OF ok token(1)] token(2) by (simp add: MAX_TOKEN_BYTES_def)
  moreover have "\<not> is_live x (max now t1)" if x: "ls_lease s = Some x" for x
  proof (cases "al_state x = ISSUED \<and> al_expires_at x \<le> t1")
    case False
    then have "ls_lease (after_expiry t1 t2 s) = Some x"
      using x by (auto simp: after_expiry_def expire_if_needed_run)
    with free show ?thesis by (auto simp: is_live_def)
  qed (simp add: is_live_def)
  ultimately show ?thesis
    using phrase l by (auto simp: issued_lease_def lease_expiry_def active_classes_def)
qed

theorem issued_lease_is_authorised_and_verifies_witness:
  "\<exists>l. verify_lease (\<lambda>_. None) (al_token l) (Some (replicate 40 (CHR ''k''))) (runner_binding l) 1700000300 = Inr demo_claims"
proof -
  have "request_ok demo_activation"
    by (simp add: request_ok_def demo_activation_def demo_claims_def pat_def slug_def upper_ident_def ident_def
        path_char_def is_lower_def is_upper_def is_digit_def is_alnum_def less_eq_char_def MAX_LIFETIME_SECONDS_def
        CONFIRMATION_PHRASE_def)
  moreover obtain l s' where run: "issue (\<lambda>_. None) (replicate 40 (CHR ''k'')) demo_activation demo_active_binding
      ''0123456789abcdef'' (replicate 32 (CHR ''0'')) 1700000000000000 0 0 empty_store = (Inr l, s')"
    and lid: "al_lease_id l = ''lease-'' @ ''0123456789abcdef''"
    using demo_issue by (auto simp: issued_lease_def)
  ultimately show ?thesis
    using issued_lease_is_authorised_and_verifies [OF _ run, of 1700000300] lid demo_issued_claims
    by (auto simp: timestamp_def demo_activation_def)
qed


text \<open>After an emergency stop nothing can be consumed until a new lease is issued: the slot holds
  no ISSUED lease, the stop callback has been called once more, and \<open>consume\<close> refuses every
  token at every time.\<close>

theorem emergency_stop_blocks_consume:
  "\<exists>fired s'. emergency_stop reason now s = (Inr fired, s') \<and>
     (fired \<longleftrightarrow> (\<exists>l. ls_lease s = Some l \<and> al_state l \<in> {ISSUED, S_CONSUMED})) \<and>
     ls_stops s' = ls_stops s + 1 \<and>
     consume_lease token target profile capability t1 t2 t3 t4 s' = (Inl (Lease_Error ''NO_LIVE_LEASE''), s')"
  by (auto simp: stop_run consume_lease_def bindE_run expire_if_needed_run is_live_def rejectE_run split: option.splits)

text \<open>A terminated lease never moves again: whatever is called other than a successful \<open>issue\<close>, a
  COMPLETED, REVOKED or EXPIRED lease stays in the slot unchanged, so a late completion cannot
  resurrect a lease the operator revoked.\<close>

theorem terminated_lease_stays:
  assumes "ls_lease s = Some l" and "al_state l \<in> {COMPLETED, S_REVOKED, S_EXPIRED}"
    and "store_step flt secret x (s, issued, used) = (s', issued', used')"
    and "length issued' = length issued"
  shows "ls_lease s' = Some l \<and> used' = used"
proof -
  have keep: "after_expiry t1 t2 s = s" for t1 t2
    using assms(1,2) by (auto simp: after_expiry_def expire_if_needed_run)
  have dead: "\<not> is_live l t" for t using assms(2) by (auto simp: is_live_def)
  show ?thesis
  proof (cases x)
    case (Issue_Op r b hex8 hex16 now t1 t2)
    then show ?thesis
      using assms issue_Inl [of flt secret r b hex8 hex16 now t1 t2 s] keep
      by (auto simp: store_step_def split: if_splits prod.splits sum.splits)
  next
    case (Consume_Lease_Op token target profile capability t1 t2 t3 t4)
    then show ?thesis
      using assms keep dead by (auto simp: store_step_def consume_lease_def expire_then bindE_run rejectE_run
        split: prod.splits sum.splits)
  next
    case (Current_Op t1 t2)
    then show ?thesis using assms keep by (auto simp: store_step_def current_def expire_then bindE_run)
  qed (use assms in \<open>auto simp: store_step_def complete_lease_def revoke_lease_def terminate_lease_def stop_run\<close>)
qed

theorem terminated_lease_stays_witness:
  "let l = (issued_lease demo_activation demo_active_binding ''lease-1'' [] 0)\<lparr>al_state := S_REVOKED\<rparr>;
       s = empty_store\<lparr>ls_lease := Some l\<rparr> in
   ls_lease (fst (store_step (\<lambda>_. None) [] (Complete_Op ''lease-1'' 5) (s, [''lease-1''], []))) = Some l"
proof -
  let ?l = "(issued_lease demo_activation demo_active_binding ''lease-1'' [] 0)\<lparr>al_state := S_REVOKED\<rparr>"
  let ?s = "empty_store\<lparr>ls_lease := Some ?l\<rparr>"
  obtain s' where run: "store_step (\<lambda>_. None) [] (Complete_Op ''lease-1'' 5) (?s, [''lease-1''], []) = (s', [''lease-1''], [])"
    by (simp add: store_step_def)
  from terminated_lease_stays [OF _ _ run, of ?l] run show ?thesis by (simp add: Let_def)
qed

end
