(* ===== verification/Web.thy ===== *)
theory Web
  imports Json
begin

text \<open>
  The parts of Python's standard library that the HTTP components call: \<open>str.partition\<close> and
  \<open>rpartition\<close>, \<open>str.strip\<close>, \<open>int(text)\<close>, \<open>urllib.parse.urlsplit\<close> with the derived
  attributes \<open>hostname\<close>, \<open>port\<close>, \<open>username\<close> and \<open>password\<close>, and the parameter names that
  \<open>parse_qs\<close> returns.  Texts are the Latin-1 characters that \<open>http.server\<close> decodes a request
  line to, so a character is an 8-bit \<open>char\<close>.
\<close>

section \<open>Splitting and stripping\<close>

definition rpartition_at :: "char \<Rightarrow> string \<Rightarrow> string \<times> string \<times> string" where
  "rpartition_at c s =
     (if c \<in> set s then
        (rev (tl (dropWhile (\<lambda>x. x \<noteq> c) (rev s))), [c], rev (takeWhile (\<lambda>x. x \<noteq> c) (rev s)))
      else ([], [], s))"

definition latin_space :: "char \<Rightarrow> bool" where
  "latin_space c \<longleftrightarrow>
     (let n = of_char c :: nat in 9 \<le> n \<and> n \<le> 13 \<or> 28 \<le> n \<and> n \<le> 32 \<or> n = 133 \<or> n = 160)"

definition strip :: "string \<Rightarrow> string" where
  "strip s = rev (dropWhile latin_space (rev (dropWhile latin_space s)))"

definition lower_latin :: "string \<Rightarrow> string" where
  "lower_latin s = map (\<lambda>c. let n = of_char c :: nat in
     if 65 \<le> n \<and> n \<le> 90 \<or> 192 \<le> n \<and> n \<le> 222 \<and> n \<noteq> 215 then char_of (n + 32) else c) s"

text \<open>\<open>int(text)\<close>: surrounding white space, a sign, digits with single underscores between
  them.  \<open>None\<close> is the \<open>ValueError\<close>.\<close>

fun digit_groups :: "string list \<Rightarrow> bool" where
  "digit_groups gs = (gs \<noteq> [] \<and> list_all (\<lambda>g. g \<noteq> [] \<and> list_all is_digit g) gs)"

definition py_int :: "string \<Rightarrow> int option" where
  "py_int s =
     (let t = strip s; neg = (take 1 t = ''-''); u = (if take 1 t \<in> {''-'', ''+''} then tl t else t);
          gs = split_on (CHR ''_'') u in
      if digit_groups gs then
        Some ((if neg then - 1 else 1) * int (str_nat (concat gs)))
      else None)"

section \<open>\<open>urlsplit\<close>\<close>

record split_result =
  us_scheme :: string
  us_netloc :: string
  us_path :: string
  us_query :: string
  us_fragment :: string

definition scheme_char :: "char \<Rightarrow> bool" where
  "scheme_char c \<longleftrightarrow> is_alnum c \<or> c = CHR ''+'' \<or> c = CHR ''-'' \<or> c = CHR ''.''"

definition url_clean :: "string \<Rightarrow> string" where
  "url_clean s = filter (\<lambda>c. (of_char c :: nat) \<notin> {9, 10, 13}) (dropWhile (\<lambda>c. (of_char c :: nat) \<le> 32) s)"

definition url_scheme :: "string \<Rightarrow> string \<times> string" where
  "url_scheme s =
     (case partition_at (CHR '':'') s of (a, sep, b) \<Rightarrow>
        if sep \<noteq> [] \<and> a \<noteq> [] \<and> (is_lower (hd a) \<or> is_upper (hd a)) \<and> list_all scheme_char a
        then (lower_latin a, b) else ([], s))"

text \<open>The authority ends at the first of \<open>/\<close>, \<open>?\<close>, \<open>#\<close>.  Whether a bracketed host is accepted
  is decided by the standard library's address parser, the argument \<open>ip\<close>; \<open>None\<close> is the
  \<open>ValueError\<close>.\<close>

definition authority_end :: "char \<Rightarrow> bool" where
  "authority_end c \<longleftrightarrow> c = CHR ''/'' \<or> c = CHR ''?'' \<or> c = CHR ''#''"

definition brackets_ok :: "(string \<Rightarrow> bool) \<Rightarrow> string \<Rightarrow> bool" where
  "brackets_ok ip netloc \<longleftrightarrow>
     (CHR ''['' \<in> set netloc \<longleftrightarrow> CHR '']'' \<in> set netloc) \<and> (CHR ''['' \<in> set netloc \<longrightarrow> ip netloc)"

definition urlsplit :: "(string \<Rightarrow> bool) \<Rightarrow> string \<Rightarrow> split_result option" where
  "urlsplit ip url =
     (case url_scheme (url_clean url) of (scheme, rest) \<Rightarrow>
      let has = (take 2 rest = ''//'');
          netloc = (if has then takeWhile (\<lambda>c. \<not> authority_end c) (drop 2 rest) else []);
          rest1 = (if has then dropWhile (\<lambda>c. \<not> authority_end c) (drop 2 rest) else rest) in
      if brackets_ok ip netloc then
        (case partition_at (CHR ''#'') rest1 of (rest2, _, fragment) \<Rightarrow>
         case partition_at (CHR ''?'') rest2 of (path, _, query) \<Rightarrow>
           Some \<lparr>us_scheme = scheme, us_netloc = netloc, us_path = path, us_query = query,
             us_fragment = fragment\<rparr>)
      else None)"

definition us_hostinfo :: "split_result \<Rightarrow> string \<times> string" where
  "us_hostinfo u =
     (case rpartition_at (CHR ''@'') (us_netloc u) of (_, _, info) \<Rightarrow>
      case partition_at (CHR ''['') info of (_, br, bracketed) \<Rightarrow>
      if br \<noteq> [] then
        (case partition_at (CHR '']'') bracketed of (host, _, tail) \<Rightarrow>
         case partition_at (CHR '':'') tail of (_, _, port) \<Rightarrow> (host, port))
      else (case partition_at (CHR '':'') info of (host, _, port) \<Rightarrow> (host, port)))"

definition us_hostname :: "split_result \<Rightarrow> string" where
  "us_hostname u =
     (case partition_at (CHR ''%'') (fst (us_hostinfo u)) of (h, pct, zone) \<Rightarrow>
        lower_latin h @ pct @ zone)"

text \<open>\<open>parsed.port\<close>: \<open>None\<close> is the \<open>ValueError\<close>, \<open>Some None\<close> an absent port.\<close>

definition us_port :: "split_result \<Rightarrow> nat option option" where
  "us_port u =
     (let p = snd (us_hostinfo u) in
      if p = [] then Some None
      else if list_all is_digit p \<and> str_nat p \<le> 65535 then Some (Some (str_nat p)) else None)"

definition us_username :: "split_result \<Rightarrow> string" where
  "us_username u =
     (case rpartition_at (CHR ''@'') (us_netloc u) of (user, _, _) \<Rightarrow> fst (partition_at (CHR '':'') user))"

definition us_password :: "split_result \<Rightarrow> string" where
  "us_password u =
     (case rpartition_at (CHR ''@'') (us_netloc u) of (user, _, _) \<Rightarrow>
        snd (snd (partition_at (CHR '':'') user)))"

section \<open>\<open>parse_qs\<close>\<close>

text \<open>The names of \<open>parse_qs(query, keep_blank_values=True)\<close>.  A name that holds a character
  outside ASCII after percent decoding is \<open>None\<close>: it differs from every ASCII name.\<close>

fun unquote :: "string \<Rightarrow> string" where
  "unquote (p # a # b # s) =
     (if p = CHR ''%'' then
        (case (hex_value a, hex_value b) of
           (Some x, Some y) \<Rightarrow> char_of (16 * x + y) # unquote s
         | _ \<Rightarrow> p # unquote (a # b # s))
      else p # unquote (a # b # s))"
| "unquote s = s"

definition param_name :: "string \<Rightarrow> string option" where
  "param_name pair =
     (let n = unquote (map (\<lambda>c. if c = CHR ''+'' then CHR '' '' else c) (fst (partition_at (CHR ''='') pair))) in
      if list_all (\<lambda>c. (of_char c :: nat) < 128) n then Some n else None)"

definition param_names :: "string \<Rightarrow> string option list" where
  "param_names query = map param_name (filter (\<lambda>p. p \<noteq> []) (split_on (CHR ''&'') query))"

text \<open>\<open>text.encode()\<close> of a Latin-1 text.\<close>

definition utf8_latin :: "string \<Rightarrow> string" where
  "utf8_latin s = concat (map (\<lambda>c. let n = of_char c :: nat in
     if n < 128 then [c] else [char_of (192 + n div 64), char_of (128 + n mod 64)]) s)"

section \<open>Keys and fields of decoded JSON\<close>

definition has_keys :: "(points \<times> json) list \<Rightarrow> string list \<Rightarrow> bool" where
  "has_keys kvs names \<longleftrightarrow>
     list_all (\<lambda>k. k \<in> set (map points_of names)) (map fst kvs) \<and>
     list_all (\<lambda>n. points_of n \<in> set (map fst kvs)) names"

definition field :: "(points \<times> json) list \<Rightarrow> string \<Rightarrow> json option" where
  "field kvs k = map_of kvs (points_of k)"

definition str_field :: "(points \<times> json) list \<Rightarrow> string \<Rightarrow> string option" where
  "str_field kvs k = (case field kvs k of Some (JStr p) \<Rightarrow> as_ascii p | _ \<Rightarrow> None)"

definition int_field :: "(points \<times> json) list \<Rightarrow> string \<Rightarrow> int option" where
  "int_field kvs k = (case field kvs k of Some (JInt i) \<Rightarrow> Some i | _ \<Rightarrow> None)"

definition arr_field :: "(points \<times> json) list \<Rightarrow> string \<Rightarrow> json list option" where
  "arr_field kvs k = (case field kvs k of Some (JArr xs) \<Rightarrow> Some xs | _ \<Rightarrow> None)"

definition str_value :: "string \<Rightarrow> json" where "str_value s = JStr (points_of s)"

definition opt_value :: "string option \<Rightarrow> json" where
  "opt_value x = (case x of None \<Rightarrow> JNull | Some s \<Rightarrow> str_value s)"

definition obj :: "(string \<times> json) list \<Rightarrow> json" where
  "obj kvs = JObj (map (\<lambda>(k, v). (points_of k, v)) kvs)"

lemma partition_at_parts:
  assumes "partition_at c s = (a, sep, b)"
  shows "s = a @ sep @ b \<and> c \<notin> set a"
proof (cases "c \<in> set s")
  case True
  then have "\<exists>r. dropWhile (\<lambda>x. x \<noteq> c) s = c # r"
    by (induction s) auto
  moreover from this have "takeWhile (\<lambda>x. x \<noteq> c) s @ c # tl (dropWhile (\<lambda>x. x \<noteq> c) s) = s"
    by (metis list.sel(3) takeWhile_dropWhile_id)
  moreover have "c \<notin> set (takeWhile (\<lambda>x. x \<noteq> c) s)" by (auto dest: set_takeWhileD)
  ultimately show ?thesis using assms True by (auto simp: partition_at_def)
qed (use assms in \<open>auto simp: partition_at_def\<close>)

lemma query_has_no_hash:
  "urlsplit ip url = Some u \<Longrightarrow> CHR ''#'' \<notin> set (us_path u) \<and> CHR ''#'' \<notin> set (us_query u)"
proof -
  assume "urlsplit ip url = Some u"
  then obtain rest1 rest2 f sep path sep2 q where
    "partition_at (CHR ''#'') rest1 = (rest2, sep, f)"
    "partition_at (CHR ''?'') rest2 = (path, sep2, q)" "us_path u = path" "us_query u = q"
    unfolding urlsplit_def Let_def by (auto split: prod.splits if_splits)
  then show ?thesis by (auto dest!: partition_at_parts)
qed

end
