(* ===== verification/Json_Values.thy ===== *)
theory Json_Values
  imports Web Sha256
begin

text \<open>
  What Python does with a decoded JSON value beside taking it apart: truth, equality with
  \<open>True\<close> (numbers included: \<open>1 == True\<close>), equality with a fixed dictionary, and the canonical
  printing and hexadecimal digests of the \<open>canonical_json\<close> helpers.
\<close>

section \<open>Float literals\<close>

text \<open>A float literal is a decimal \<open>m * 10 ^ e\<close>, read to the nearest double: it is \<open>0.0\<close> up to
  half the smallest subnormal number, and \<open>1.0\<close> between the midpoints to its two neighbours
  (ties go to the even significand, which is that of \<open>1.0\<close>).\<close>

definition float_scale :: "string \<Rightarrow> nat \<times> int" where
  "float_scale s =
     (let t = dropWhile (\<lambda>c. c = CHR ''-'') s; ip = takeWhile is_digit t; r = drop (length ip) t;
          fr = (if take 1 r = ''.'' then takeWhile is_digit (tl r) else []);
          x = dropWhile (\<lambda>c. c \<noteq> CHR ''e'' \<and> c \<noteq> CHR ''E'') r;
          ds = dropWhile (\<lambda>c. \<not> is_digit c) x;
          e = (if take 1 (tl x) = ''-'' then - int (str_nat ds) else int (str_nat ds)) in
      (str_nat (ip @ fr), e - int (length fr)))"

definition is_special :: "string \<Rightarrow> bool" where
  "is_special s \<longleftrightarrow> s \<in> {''NaN'', ''Infinity'', ''-Infinity''}"

definition float_is_zero :: "string \<Rightarrow> bool" where
  "float_is_zero s \<longleftrightarrow> \<not> is_special s \<and>
     (case float_scale s of (m, e) \<Rightarrow> if 0 \<le> e then m = 0 else m * 2 ^ 1075 \<le> 10 ^ nat (- e))"

definition float_is_one :: "string \<Rightarrow> bool" where
  "float_is_one s \<longleftrightarrow> \<not> is_special s \<and> take 1 s \<noteq> ''-'' \<and>
     (case float_scale s of (m, e) \<Rightarrow>
        if 0 \<le> e then m = 1 \<and> e = 0
        else (2 ^ 54 - 1) * 10 ^ nat (- e) \<le> m * 2 ^ 54 \<and> m * 2 ^ 53 \<le> (2 ^ 53 + 1) * 10 ^ nat (- e))"

section \<open>Truth and equality\<close>

definition truthy :: "json \<Rightarrow> bool" where
  "truthy v \<longleftrightarrow>
     (case v of JNull \<Rightarrow> False | JBool b \<Rightarrow> b | JInt i \<Rightarrow> i \<noteq> 0 | JFloat x \<Rightarrow> \<not> float_is_zero x
      | JStr p \<Rightarrow> p \<noteq> [] | JArr vs \<Rightarrow> vs \<noteq> [] | JObj kvs \<Rightarrow> kvs \<noteq> [])"

definition equals_true :: "json \<Rightarrow> bool" where
  "equals_true v \<longleftrightarrow>
     (case v of JBool b \<Rightarrow> b | JInt i \<Rightarrow> i = 1 | JFloat x \<Rightarrow> float_is_one x | _ \<Rightarrow> False)"

definition equals_text :: "string \<Rightarrow> json \<Rightarrow> bool" where
  "equals_text s v \<longleftrightarrow> v = JStr (points_of s)"

text \<open>\<open>payload == {...}\<close>, for a dictionary given by a test per key.\<close>

definition equals_dict :: "(string \<times> (json \<Rightarrow> bool)) list \<Rightarrow> json \<Rightarrow> bool" where
  "equals_dict spec v \<longleftrightarrow>
     (case v of
        JObj kvs \<Rightarrow> length kvs = length spec \<and>
          list_all (\<lambda>(k, t). case field kvs k of Some w \<Rightarrow> t w | None \<Rightarrow> False) spec
      | _ \<Rightarrow> False)"

text \<open>\<open>dict.get\<close> on a decoded object: an absent key and a \<open>null\<close> are both \<open>None\<close>.\<close>

definition get_field :: "(points \<times> json) list \<Rightarrow> string \<Rightarrow> json" where
  "get_field kvs k = (case field kvs k of None \<Rightarrow> JNull | Some v \<Rightarrow> v)"

definition has_key :: "(points \<times> json) list \<Rightarrow> string \<Rightarrow> bool" where
  "has_key kvs k \<longleftrightarrow> points_of k \<in> set (map fst kvs)"

definition points_start :: "string \<Rightarrow> points \<Rightarrow> bool" where
  "points_start pre p \<longleftrightarrow> take (length pre) p = points_of pre"

section \<open>Canonical printing and digests\<close>

text \<open>\<open>json.dumps(value, sort_keys=True, separators=(",", ":"), ensure_ascii=True)\<close> of a value
  without floats.\<close>

definition canonical_json :: "json \<Rightarrow> string" where
  "canonical_json v = (case dumps (\<lambda>x. Some x) v of Some s \<Rightarrow> s | None \<Rightarrow> [])"

definition hexdigest :: "string \<Rightarrow> string" where
  "hexdigest m = concat (map (\<lambda>c. let n = of_char c :: nat in [hex_digit (n div 16), hex_digit (n mod 16)]) (sha256 m))"

end
