(* ===== verification/Regex.thy ===== *)
theory Regex
  imports Unicode
begin

text \<open>
  The regular expressions of the modelled code, for Python's \<open>re\<close> module on text: \<open>re.fullmatch\<close>
  is membership in the language of the pattern, decided by derivatives, and \<open>re.search\<close> is
  \<open>fullmatch\<close> of the pattern between two stretches of anything.  A character class is a
  predicate on code points, so the classes are written as the patterns write them.
\<close>

datatype rx = R_Fail | R_Eps | R_Cls "nat \<Rightarrow> bool" | R_Alt rx rx | R_Seq rx rx | R_Star rx

primrec lang :: "rx \<Rightarrow> points set" where
  "lang R_Fail = {}"
| "lang R_Eps = {[]}"
| "lang (R_Cls p) = {[c] |c. p c}"
| "lang (R_Alt r s) = lang r \<union> lang s"
| "lang (R_Seq r s) = {u @ v |u v. u \<in> lang r \<and> v \<in> lang s}"
| "lang (R_Star r) = {concat us |us. set us \<subseteq> lang r}"

section \<open>Matching by derivatives\<close>

definition mk_seq :: "rx \<Rightarrow> rx \<Rightarrow> rx" where
  "mk_seq r s = (case r of R_Fail \<Rightarrow> R_Fail | R_Eps \<Rightarrow> s | _ \<Rightarrow> (case s of R_Fail \<Rightarrow> R_Fail | _ \<Rightarrow> R_Seq r s))"

definition mk_alt :: "rx \<Rightarrow> rx \<Rightarrow> rx" where
  "mk_alt r s = (case r of R_Fail \<Rightarrow> s | _ \<Rightarrow> (case s of R_Fail \<Rightarrow> r | _ \<Rightarrow> R_Alt r s))"

primrec nullable :: "rx \<Rightarrow> bool" where
  "nullable R_Fail = False"
| "nullable R_Eps = True"
| "nullable (R_Cls p) = False"
| "nullable (R_Alt r s) = (nullable r \<or> nullable s)"
| "nullable (R_Seq r s) = (nullable r \<and> nullable s)"
| "nullable (R_Star r) = True"

primrec deriv :: "nat \<Rightarrow> rx \<Rightarrow> rx" where
  "deriv c R_Fail = R_Fail"
| "deriv c R_Eps = R_Fail"
| "deriv c (R_Cls p) = (if p c then R_Eps else R_Fail)"
| "deriv c (R_Alt r s) = mk_alt (deriv c r) (deriv c s)"
| "deriv c (R_Seq r s) =
     (if nullable r then mk_alt (mk_seq (deriv c r) s) (deriv c s) else mk_seq (deriv c r) s)"
| "deriv c (R_Star r) = mk_seq (deriv c r) (R_Star r)"

fun fullmatch :: "rx \<Rightarrow> points \<Rightarrow> bool" where
  "fullmatch r [] = nullable r"
| "fullmatch r (c # cs) = fullmatch (deriv c r) cs"

lemma lang_mk_seq [simp]: "lang (mk_seq r s) = lang (R_Seq r s)"
  by (auto simp: mk_seq_def split: rx.splits)

lemma lang_mk_alt [simp]: "lang (mk_alt r s) = lang (R_Alt r s)"
  by (auto simp: mk_alt_def split: rx.splits)

lemma nullable_iff: "nullable r \<longleftrightarrow> [] \<in> lang r"
by (induction r) (auto intro: exI [of _ "[]"])

lemma star_Cons: "c # w \<in> lang (R_Star r) \<longleftrightarrow> (\<exists>u v. w = u @ v \<and> c # u \<in> lang r \<and> v \<in> lang (R_Star r))"
proof
  assume "c # w \<in> lang (R_Star r)"
  then obtain us where "c # w = concat us" "set us \<subseteq> lang r" by auto
  then show "\<exists>u v. w = u @ v \<and> c # u \<in> lang r \<and> v \<in> lang (R_Star r)"
  proof (induction us)
    case (Cons u us)
    then show ?case by (cases u) auto
  qed simp
next
  assume "\<exists>u v. w = u @ v \<and> c # u \<in> lang r \<and> v \<in> lang (R_Star r)"
  then obtain u us where w: "w = u @ concat us" and u: "c # u \<in> lang r" and us: "set us \<subseteq> lang r" by auto
  have "c # w = concat ((c # u) # us)" by (simp add: w)
  moreover have "set ((c # u) # us) \<subseteq> lang r" using u us by simp
  ultimately show "c # w \<in> lang (R_Star r)" by (simp only: lang.simps) blast
qed

lemma seq_Cons:
  "c # w \<in> lang (R_Seq r s) \<longleftrightarrow>
     (\<exists>u v. w = u @ v \<and> c # u \<in> lang r \<and> v \<in> lang s) \<or> [] \<in> lang r \<and> c # w \<in> lang s"
  unfolding lang.simps(5) by (auto simp: Cons_eq_append_conv; blast)

lemma lang_deriv: "w \<in> lang (deriv c r) \<longleftrightarrow> c # w \<in> lang r"
proof (induction r arbitrary: w)
  case (R_Seq r s)
  have "w \<in> lang (mk_seq (deriv c r) s) \<longleftrightarrow> (\<exists>u v. w = u @ v \<and> c # u \<in> lang r \<and> v \<in> lang s)"
    using R_Seq.IH(1) by auto
  then show ?case
    unfolding seq_Cons using R_Seq.IH(2) by (simp add: nullable_iff del: lang.simps(5) lang_mk_seq)
next
  case (R_Star r)
  have "w \<in> lang (mk_seq (deriv c r) (R_Star r)) \<longleftrightarrow>
      (\<exists>u v. w = u @ v \<and> c # u \<in> lang r \<and> v \<in> lang (R_Star r))"
    using R_Star.IH by (auto simp del: lang.simps(6))
  then show ?case by (simp add: star_Cons del: lang.simps(6) lang_mk_seq)
qed (auto simp: Cons_eq_append_conv)

theorem fullmatch_iff: "fullmatch r s \<longleftrightarrow> s \<in> lang r"
  by (induction r s rule: fullmatch.induct) (simp_all add: nullable_iff lang_deriv)

section \<open>Patterns\<close>

definition R_any :: rx where "R_any = R_Star (R_Cls (\<lambda>_. True))"

definition R_plus :: "rx \<Rightarrow> rx" where "R_plus r = R_Seq r (R_Star r)"

fun R_upto :: "nat \<Rightarrow> rx \<Rightarrow> rx" where
  "R_upto 0 r = R_Eps"
| "R_upto (Suc n) r = R_Alt R_Eps (R_Seq r (R_upto n r))"

text \<open>\<open>r{lo,hi}\<close>.\<close>

definition R_count :: "nat \<Rightarrow> nat \<Rightarrow> rx \<Rightarrow> rx" where
  "R_count lo hi r = foldr R_Seq (replicate lo r) (R_upto (hi - lo) r)"

fun R_seqs :: "rx list \<Rightarrow> rx" where
  "R_seqs [] = R_Eps"
| "R_seqs [r] = r"
| "R_seqs (r # rs) = R_Seq r (R_seqs rs)"

fun R_alts :: "rx list \<Rightarrow> rx" where
  "R_alts [] = R_Fail"
| "R_alts [r] = r"
| "R_alts (r # rs) = R_Alt r (R_alts rs)"

definition R_text :: "string \<Rightarrow> rx" where
  "R_text s = R_seqs (map (\<lambda>c. R_Cls (\<lambda>n. n = of_char c)) s)"

definition R_ascii :: "(char \<Rightarrow> bool) \<Rightarrow> rx" where
  "R_ascii p = R_Cls (\<lambda>n. n < 128 \<and> p (char_of n))"

definition search :: "rx \<Rightarrow> points \<Rightarrow> bool" where
  "search r s = fullmatch (R_seqs [R_any, r, R_any]) s"

text \<open>Under \<open>(?i)\<close> a letter matches both its cases, and \<open>i\<close>, \<open>k\<close>, \<open>s\<close> also the characters
  outside ASCII that lower or upper to them.\<close>

definition folded :: "(char \<Rightarrow> bool) \<Rightarrow> nat \<Rightarrow> bool" where
  "folded p n \<longleftrightarrow>
     (let q = (\<lambda>m. p (char_of m)) in
      n < 128 \<and> q n \<or> 65 \<le> n \<and> n \<le> 90 \<and> q (n + 32) \<or> 97 \<le> n \<and> n \<le> 122 \<and> q (n - 32) \<or>
      (n = 0x130 \<or> n = 0x131) \<and> (q 105 \<or> q 73) \<or> n = 0x212A \<and> (q 107 \<or> q 75) \<or>
      n = 0x17F \<and> (q 115 \<or> q 83))"

definition R_fold :: "string \<Rightarrow> rx" where
  "R_fold s = R_seqs (map (\<lambda>c. R_Cls (folded (\<lambda>d. d = c))) s)"

definition R_fold_ascii :: "(char \<Rightarrow> bool) \<Rightarrow> rx" where
  "R_fold_ascii p = R_Cls (folded p)"

text \<open>\<open>\b\<close> before a word character, at the start of a search: nothing before it, or a character
  that is not a word character.  Which characters outside ASCII are word characters is
  Unicode's, the argument \<open>alnum\<close>.\<close>

definition word_point :: "(nat \<Rightarrow> bool) \<Rightarrow> nat \<Rightarrow> bool" where
  "word_point alnum n \<longleftrightarrow> (if n < 128 then is_alnum (char_of n) \<or> n = 95 else alnum n)"

definition search_word :: "(nat \<Rightarrow> bool) \<Rightarrow> rx \<Rightarrow> points \<Rightarrow> bool" where
  "search_word alnum r s =
     fullmatch (R_seqs [R_Alt R_Eps (R_Seq R_any (R_Cls (\<lambda>n. \<not> word_point alnum n))), r, R_any]) s"

section \<open>What a match says of the text\<close>

lemma star_concat: "set us \<subseteq> lang r \<Longrightarrow> concat us \<in> lang (R_Star r)"
  by auto

lemma lang_R_any [simp]: "s \<in> lang R_any"
  using star_concat [of "map (\<lambda>c. [c]) s" "R_Cls (\<lambda>_. True)"] by (auto simp: R_any_def)

lemma search_iff: "search r s \<longleftrightarrow> (\<exists>a m b. s = a @ m @ b \<and> m \<in> lang r)"
  unfolding search_def fullmatch_iff R_seqs.simps lang.simps(5) by (simp del: lang.simps) metis

lemma lang_R_seqs_Cons: "lang (R_seqs (r # rs)) = {u @ v |u v. u \<in> lang r \<and> v \<in> lang (R_seqs rs)}"
  by (cases rs) auto

lemma lang_R_text [simp]: "lang (R_text t) = {points_of t}"
proof -
  have "lang (R_seqs (map (\<lambda>c. R_Cls (\<lambda>n. n = of_char c)) t)) = {map of_char t}"
    by (induction t) (simp_all add: lang_R_seqs_Cons del: R_seqs.simps(3))
  then show ?thesis by (simp add: R_text_def points_of_def)
qed

text \<open>Every character of a match lies in a class of the pattern.\<close>

primrec rx_chars :: "rx \<Rightarrow> nat set" where
  "rx_chars R_Fail = {}"
| "rx_chars R_Eps = {}"
| "rx_chars (R_Cls p) = Collect p"
| "rx_chars (R_Alt r s) = rx_chars r \<union> rx_chars s"
| "rx_chars (R_Seq r s) = rx_chars r \<union> rx_chars s"
| "rx_chars (R_Star r) = rx_chars r"

lemma lang_chars: "s \<in> lang r \<Longrightarrow> set s \<subseteq> rx_chars r"
proof (induction r arbitrary: s)
  case (R_Star r)
  then obtain us where "s = concat us" "set us \<subseteq> lang r" by auto
  with R_Star.IH show ?case by fastforce
qed fastforce+

text \<open>A class that every match of a pattern meets; a text without it does not match.\<close>

primrec needs :: "(nat \<Rightarrow> bool) \<Rightarrow> rx \<Rightarrow> bool" where
  "needs P R_Fail = True"
| "needs P R_Eps = False"
| "needs P (R_Cls p) = (\<forall>c. p c \<longrightarrow> P c)"
| "needs P (R_Alt r s) = (needs P r \<and> needs P s)"
| "needs P (R_Seq r s) = (needs P r \<or> needs P s)"
| "needs P (R_Star r) = False"

lemma needs_lang: "needs P r \<Longrightarrow> s \<in> lang r \<Longrightarrow> \<exists>c\<in>set s. P c"
  by (induction r arbitrary: s) fastforce+

lemma needs_seqs: "needs P (R_seqs rs) \<longleftrightarrow> list_ex (needs P) rs"
  by (induction rs rule: R_seqs.induct) auto

lemma needs_alts: "needs P (R_alts rs) \<longleftrightarrow> list_all (needs P) rs"
  by (induction rs rule: R_alts.induct) auto

lemma needs_text: "needs P (R_text s) \<longleftrightarrow> list_ex (\<lambda>c. P (of_char c)) s"
  by (auto simp: R_text_def needs_seqs list_ex_iff)

lemma needs_fold: "needs P (R_fold s) \<longleftrightarrow> list_ex (\<lambda>c. \<forall>n. folded (\<lambda>d. d = c) n \<longrightarrow> P n) s"
  by (auto simp: R_fold_def needs_seqs list_ex_iff)

lemma ascii_char_iff: "n < 128 \<Longrightarrow> char_of n = c \<longleftrightarrow> n = of_char c" for n :: nat and c :: char
  by auto

end
