(* ===== verification/Guard.thy ===== *)
theory Guard
  imports Web
begin

text \<open>
  The ZAP scope guard, \<open>zap_guard/guard.py\<close>: the only network path between the scanner and
  the target.  \<open>guard\<close> is the \<open>GuardState\<close> object; \<open>arm\<close>, \<open>revoke\<close>, \<open>counters\<close>, \<open>admit\<close>
  and the recorders are its methods, each atomic under the lock; \<open>handle_proxy\<close>,
  \<open>handle_get\<close> and \<open>handle_post\<close> are the HTTP handlers.

  Clock readings are inputs, in nanoseconds; \<open>lease_expires_at\<close> is in seconds and \<open>ttl_ms\<close> in
  milliseconds, as in the code.  The token drawn by \<open>secrets.token_hex\<close>, the decoded body of
  a control request (\<open>None\<close> for a body that \<open>json.loads\<close> refuses) and the outcome of the
  upstream connection are inputs too.  A decoded object is a Python dict: its keys are
  distinct.
\<close>

section \<open>State\<close>

datatype guard_mode = PASSIVE | ACTIVE

datatype guard_error = Py_TypeError | Py_ValueError

record guard =
  gd_allowed_origins :: "string list"
  gd_control_secret :: string
  gd_booted_at :: string
  gd_executions_total :: nat
  gd_forwarded_total :: nat
  gd_blocked_total :: nat
  gd_blocked_while_idle :: nat
  gd_armed :: bool
  gd_mode :: guard_mode
  gd_lease_id :: "string option"
  gd_lease_expires_at :: "int option"
  gd_projection_digest :: "string option"
  gd_allowlist_digest :: "string option"
  gd_lease_revoked :: bool
  gd_execution_id :: "string option"
  gd_token :: "string option"
  gd_origin :: "string option"
  gd_allowlist :: "(string \<times> string) list"
  gd_allowed_params :: "string list"
  gd_max_requests :: int
  gd_deadline :: int
  gd_received :: nat
  gd_forwarded :: nat
  gd_blocked :: "(string \<times> nat) list"
  gd_redirects :: nat
  gd_upstream_failures :: nat
  gd_upstream_timeouts :: nat
  gd_budget_exceeded :: bool
  gd_per_path :: "((string \<times> string) \<times> nat) list"
  gd_statuses :: "(string \<times> nat) list"

type_synonym 'a guarded = "(guard, guard_error, 'a) prog"
type_synonym reply = "nat \<times> json"

record clock =
  clk_mono :: int
  clk_wall :: int

definition ALLOWED_ORIGINS :: "string list" where "ALLOWED_ORIGINS = [''http://lab-api:8001'']"
definition ACTIVE_MAX_REQUESTS :: int where "ACTIVE_MAX_REQUESTS = 512"
definition MAX_RELAY_BYTES :: nat where "MAX_RELAY_BYTES = 1048576"
definition MAX_CONTROL_BYTES :: int where "MAX_CONTROL_BYTES = 4096"
definition FORWARD_HEADERS :: "string list" where "FORWARD_HEADERS = [''User-Agent'', ''Accept'']"
definition GUARD_SCHEMA :: string where "GUARD_SCHEMA = ''aegis.zap.guard/1''"
definition GUARD_VERSION :: string where "GUARD_VERSION = ''zap-scope-guard/1.3.0''"

definition HOP_BY_HOP :: "string list" where
  "HOP_BY_HOP = [''connection'', ''keep-alive'', ''proxy-authenticate'', ''proxy-authorization'',
     ''te'', ''trailer'', ''trailers'', ''transfer-encoding'', ''upgrade'', ''content-length'',
     ''set-cookie'']"

definition ARM_KEYS :: "string list" where
  "ARM_KEYS = [''schema_version'', ''execution_id'', ''origin'', ''allowlist'', ''max_requests'', ''ttl_ms'']"

definition ACTIVE_ARM_KEYS :: "string list" where
  "ACTIVE_ARM_KEYS = [''schema_version'', ''execution_id'', ''origin'', ''allowlist'', ''max_requests'',
     ''ttl_ms'', ''mode'', ''allowed_query_params'', ''lease_id'', ''lease_expires_at'',
     ''projection_digest'', ''allowlist_digest'']"

definition guard_path :: "string \<Rightarrow> bool" where
  "guard_path s \<longleftrightarrow>
     pat ''/'' (\<lambda>c. is_alnum c \<or> c = CHR ''/'' \<or> c = CHR ''_'' \<or> c = CHR ''-'') 1 200 s"

definition guard_param :: "string \<Rightarrow> bool" where
  "guard_param s \<longleftrightarrow> s \<noteq> [] \<and> is_lower (hd s) \<and>
     pat [] (\<lambda>c. is_lower c \<or> is_digit c \<or> c = CHR ''_'') 0 31 (tl s)"

definition guard_exec :: "string \<Rightarrow> bool" where "guard_exec s \<longleftrightarrow> pat ''exec-'' is_hex 12 12 s"
definition guard_token :: "string \<Rightarrow> bool" where "guard_token s \<longleftrightarrow> pat [] is_hex 32 32 s"
definition guard_lease_id :: "string \<Rightarrow> bool" where "guard_lease_id s \<longleftrightarrow> pat ''lease-'' is_hex 16 16 s"
definition guard_digest :: "string \<Rightarrow> bool" where "guard_digest s \<longleftrightarrow> pat [] is_hex 64 64 s"

definition reset_guard :: "guard \<Rightarrow> guard" where
  "reset_guard g = g\<lparr>gd_armed := False, gd_mode := PASSIVE, gd_lease_id := None,
     gd_lease_expires_at := None, gd_projection_digest := None, gd_allowlist_digest := None,
     gd_lease_revoked := False, gd_execution_id := None, gd_token := None, gd_origin := None,
     gd_allowlist := [], gd_allowed_params := [], gd_max_requests := 0, gd_deadline := 0,
     gd_received := 0, gd_forwarded := 0, gd_blocked := [], gd_redirects := 0,
     gd_upstream_failures := 0, gd_upstream_timeouts := 0, gd_budget_exceeded := False,
     gd_per_path := [], gd_statuses := []\<rparr>"

definition boot_guard :: "string list \<Rightarrow> string \<Rightarrow> string \<Rightarrow> guard" where
  "boot_guard origins secret booted =
     \<lparr>gd_allowed_origins = origins, gd_control_secret = secret, gd_booted_at = booted,
      gd_executions_total = 0, gd_forwarded_total = 0, gd_blocked_total = 0,
      gd_blocked_while_idle = 0, gd_armed = False, gd_mode = PASSIVE, gd_lease_id = None,
      gd_lease_expires_at = None, gd_projection_digest = None, gd_allowlist_digest = None,
      gd_lease_revoked = False, gd_execution_id = None, gd_token = None, gd_origin = None,
      gd_allowlist = [], gd_allowed_params = [], gd_max_requests = 0, gd_deadline = 0,
      gd_received = 0, gd_forwarded = 0, gd_blocked = [], gd_redirects = 0,
      gd_upstream_failures = 0, gd_upstream_timeouts = 0, gd_budget_exceeded = False,
      gd_per_path = [], gd_statuses = []\<rparr>"

text \<open>\<open>counter[key] += 1\<close> on a \<open>collections.Counter\<close>.\<close>

definition bump :: "'k \<Rightarrow> ('k \<times> nat) list \<Rightarrow> ('k \<times> nat) list" where
  "bump k t = AList.update k (case map_of t k of None \<Rightarrow> 1 | Some n \<Rightarrow> n + 1) t"

section \<open>Arming\<close>

definition is_armed :: "clock \<Rightarrow> guard \<Rightarrow> bool" where
  "is_armed c g \<longleftrightarrow>
     gd_armed g \<and> \<not> gd_lease_revoked g \<and> clk_mono c < gd_deadline g \<and>
     (case gd_lease_expires_at g of None \<Rightarrow> True | Some e \<Rightarrow> clk_wall c < e * 1000000000)"

definition error_reply :: "nat \<Rightarrow> string \<Rightarrow> reply" where
  "error_reply status code = (status, obj [(''error'', str_value code)])"

definition invalid_arm :: reply where "invalid_arm = error_reply 400 ''INVALID_ARM''"

text \<open>The loop over \<open>allowlist\<close>.  \<open>Inr None\<close> is the early return; a method that is a list or
  an object is not hashable, so \<open>item["method"] not in {...}\<close> raises.\<close>

fun arm_pairs :: "json list \<Rightarrow> guard_error + (string \<times> string) list option" where
  "arm_pairs [] = Inr (Some [])"
| "arm_pairs (x # xs) =
     (case x of
        JObj kvs \<Rightarrow>
          if \<not> has_keys kvs [''method'', ''path''] then Inr None
          else (case field kvs ''method'' of
              Some (JArr _) \<Rightarrow> Inl Py_TypeError
            | Some (JObj _) \<Rightarrow> Inl Py_TypeError
            | _ \<Rightarrow>
              (case (str_field kvs ''method'', str_field kvs ''path'') of
                 (Some m, Some p) \<Rightarrow>
                   if m \<notin> {''GET'', ''HEAD''} \<or> \<not> guard_path p then Inr None
                   else (case arm_pairs xs of
                       Inr (Some ps) \<Rightarrow> Inr (Some ((m, p) # ps)) | r \<Rightarrow> r)
               | _ \<Rightarrow> Inr None))
      | _ \<Rightarrow> Inr None)"

definition arm_params :: "json list \<Rightarrow> string list option" where
  "arm_params xs = all_some (map (\<lambda>x. case x of
     JStr p \<Rightarrow> (case as_ascii p of Some s \<Rightarrow> if guard_param s then Some s else None | None \<Rightarrow> None)
   | _ \<Rightarrow> None) xs)"

text \<open>The checks both modes share: the execution, the origin, the allowlist and the two bounds.\<close>

record arm_request =
  aq_execution_id :: string
  aq_origin :: string
  aq_allowlist :: "json list"
  aq_max_requests :: int
  aq_ttl :: int

definition arm_fields :: "guard \<Rightarrow> (points \<times> json) list \<Rightarrow> nat \<Rightarrow> int \<Rightarrow> int \<Rightarrow> arm_request option" where
  "arm_fields g kvs max_list max_budget max_ttl =
     (case (str_field kvs ''execution_id'', str_field kvs ''origin'', arr_field kvs ''allowlist'',
            int_field kvs ''max_requests'', int_field kvs ''ttl_ms'') of
        (Some e, Some origin, Some items, Some m, Some ttl) \<Rightarrow>
          if str_field kvs ''schema_version'' \<noteq> Some GUARD_SCHEMA \<or> \<not> guard_exec e \<or>
             origin \<notin> set (gd_allowed_origins g) \<or> \<not> (1 \<le> length items \<and> length items \<le> max_list) \<or>
             \<not> (1 \<le> m \<and> m \<le> max_budget) \<or> \<not> (1000 \<le> ttl \<and> ttl \<le> max_ttl) then None
          else Some \<lparr>aq_execution_id = e, aq_origin = origin, aq_allowlist = items,
            aq_max_requests = m, aq_ttl = ttl\<rparr>
      | _ \<Rightarrow> None)"

definition armed_passive :: "arm_request \<Rightarrow> (string \<times> string) list \<Rightarrow> string \<Rightarrow> int \<Rightarrow> guard \<Rightarrow> guard" where
  "armed_passive q pairs token deadline g = (reset_guard g)\<lparr>gd_armed := True,
     gd_execution_id := Some (aq_execution_id q), gd_token := Some token,
     gd_origin := Some (aq_origin q), gd_allowlist := remdups pairs,
     gd_max_requests := aq_max_requests q, gd_deadline := deadline\<rparr>"

definition arm_passive :: "string \<Rightarrow> clock \<Rightarrow> clock \<Rightarrow> (points \<times> json) list \<Rightarrow> reply guarded" where
  "arm_passive token c1 c2 kvs = (\<lambda>g.
     if \<not> has_keys kvs ARM_KEYS then (Inr invalid_arm, g)
     else (case arm_fields g kvs 8 8 330000 of
       None \<Rightarrow> (Inr invalid_arm, g)
     | Some q \<Rightarrow>
         (case arm_pairs (aq_allowlist q) of
            Inl e \<Rightarrow> (Inl e, g)
          | Inr None \<Rightarrow> (Inr invalid_arm, g)
          | Inr (Some pairs) \<Rightarrow>
              if aq_max_requests q \<noteq> int (length (remdups pairs)) then (Inr invalid_arm, g)
              else if is_armed c1 g then (Inr (error_reply 409 ''BUSY''), g)
              else
                (Inr (200, obj [(''schema_version'', str_value GUARD_SCHEMA),
                    (''token'', str_value token), (''execution_id'', str_value (aq_execution_id q))]),
                 armed_passive q pairs token (clk_mono c2 + aq_ttl q * 1000000) g))))"

record arm_lease =
  al_id :: string
  al_expires_at :: int
  al_projection :: string
  al_allowlist :: string

definition arm_lease_fields :: "(points \<times> json) list \<Rightarrow> arm_lease option" where
  "arm_lease_fields kvs =
     (case (str_field kvs ''lease_id'', int_field kvs ''lease_expires_at'',
            str_field kvs ''projection_digest'', str_field kvs ''allowlist_digest'') of
        (Some l, Some e, Some p, Some a) \<Rightarrow>
          if \<not> guard_lease_id l \<or> \<not> (1600000000 \<le> e \<and> e \<le> 4102444800) \<or> \<not> guard_digest p \<or> \<not> guard_digest a
          then None
          else Some \<lparr>al_id = l, al_expires_at = e, al_projection = p, al_allowlist = a\<rparr>
      | _ \<Rightarrow> None)"

definition armed_active ::
  "arm_request \<Rightarrow> arm_lease \<Rightarrow> (string \<times> string) list \<Rightarrow> string list \<Rightarrow> string \<Rightarrow> int \<Rightarrow> guard \<Rightarrow> guard" where
  "armed_active q l pairs params token deadline g = (reset_guard g)\<lparr>gd_armed := True,
     gd_mode := ACTIVE, gd_execution_id := Some (aq_execution_id q), gd_token := Some token,
     gd_origin := Some (aq_origin q), gd_allowlist := remdups pairs,
     gd_allowed_params := remdups params, gd_max_requests := aq_max_requests q,
     gd_lease_id := Some (al_id l), gd_lease_expires_at := Some (al_expires_at l),
     gd_projection_digest := Some (al_projection l), gd_allowlist_digest := Some (al_allowlist l),
     gd_lease_revoked := False, gd_deadline := deadline\<rparr>"

text \<open>The clock is read five times: for the expiry (\<open>c0\<close>), in \<open>is_armed\<close> (\<open>c1\<close>) and for the two
  bounds of the deadline (\<open>c2\<close>, \<open>c3\<close>).\<close>

definition active_deadline :: "clock \<Rightarrow> clock \<Rightarrow> int \<Rightarrow> int \<Rightarrow> int" where
  "active_deadline c2 c3 ttl expires =
     min (clk_mono c2 + ttl * 1000000) (clk_mono c3 + max 0 (expires * 1000000000 - clk_wall c3))"

definition arm_active ::
  "string \<Rightarrow> clock \<Rightarrow> clock \<Rightarrow> clock \<Rightarrow> clock \<Rightarrow> (points \<times> json) list \<Rightarrow> reply guarded" where
  "arm_active token c0 c1 c2 c3 kvs = (\<lambda>g.
     if \<not> has_keys kvs ACTIVE_ARM_KEYS then (Inr invalid_arm, g)
     else (case arm_lease_fields kvs of
       None \<Rightarrow> (Inr invalid_arm, g)
     | Some l \<Rightarrow>
       if al_expires_at l * 1000000000 \<le> clk_wall c0 then (Inr (error_reply 400 ''LEASE_EXPIRED''), g)
       else (case (arm_fields g kvs 4 ACTIVE_MAX_REQUESTS 660000, arr_field kvs ''allowed_query_params'') of
         (Some q, Some names) \<Rightarrow>
           if \<not> (1 \<le> length names \<and> length names \<le> 4) then (Inr invalid_arm, g)
           else (case arm_pairs (aq_allowlist q) of
             Inl e \<Rightarrow> (Inl e, g)
           | Inr None \<Rightarrow> (Inr invalid_arm, g)
           | Inr (Some pairs) \<Rightarrow>
             (case arm_params names of
                None \<Rightarrow> (Inr invalid_arm, g)
              | Some params \<Rightarrow>
                  if is_armed c1 g then (Inr (error_reply 409 ''BUSY''), g)
                  else
                    (Inr (200, obj [(''schema_version'', str_value GUARD_SCHEMA),
                        (''token'', str_value token), (''execution_id'', str_value (aq_execution_id q)),
                        (''lease_id'', str_value (al_id l)), (''lease_expires_at'', JInt (al_expires_at l)),
                        (''projection_digest'', str_value (al_projection l)),
                        (''allowlist_digest'', str_value (al_allowlist l)),
                        (''max_requests'', JInt (aq_max_requests q))]),
                     armed_active q l pairs params token
                       (active_deadline c2 c3 (aq_ttl q) (al_expires_at l)) g)))
       | _ \<Rightarrow> (Inr invalid_arm, g))))"

definition arm_guard :: "string \<Rightarrow> clock \<Rightarrow> clock \<Rightarrow> clock \<Rightarrow> clock \<Rightarrow> json \<Rightarrow> reply guarded" where
  "arm_guard token c0 c1 c2 c3 payload =
     (case payload of
        JObj kvs \<Rightarrow>
          if field kvs ''mode'' = Some (str_value ''ACTIVE'') then arm_active token c0 c1 c2 c3 kvs
          else arm_passive token c1 c2 kvs
      | _ \<Rightarrow> retE invalid_arm)"

section \<open>Counters, revocation and the read-only routes\<close>

definition count_rows :: "(string \<times> nat) list \<Rightarrow> json" where
  "count_rows t = JArr (map (\<lambda>(k, v). JArr [str_value k, JInt (int v)]) (sort_key fst t))"

definition path_rows :: "((string \<times> string) \<times> nat) list \<Rightarrow> json" where
  "path_rows t = JArr (map (\<lambda>((m, p), n). JArr [str_value m, str_value p, JInt (int n)])
     (sort_key (\<lambda>((m, p), _). [m, p]) t))"

definition counters_body :: "guard \<Rightarrow> json" where
  "counters_body g = obj [
     (''received'', JInt (int (gd_received g))),
     (''forwarded'', JInt (int (gd_forwarded g))),
     (''blocked'', JInt (int (sum_list (map snd (gd_blocked g))))),
     (''blocked_reasons'', count_rows (gd_blocked g)),
     (''redirects'', JInt (int (gd_redirects g))),
     (''upstream_failures'', JInt (int (gd_upstream_failures g))),
     (''upstream_timeouts'', JInt (int (gd_upstream_timeouts g))),
     (''budget_exceeded'', JBool (gd_budget_exceeded g)),
     (''per_path'', path_rows (gd_per_path g)),
     (''statuses'', count_rows (gd_statuses g))]"

definition revoke_guard :: "json \<Rightarrow> reply guarded" where
  "revoke_guard payload = (\<lambda>g.
     case payload of
       JObj kvs \<Rightarrow>
         (case str_field kvs ''lease_id'' of
            Some l \<Rightarrow>
              if \<not> list_all (\<lambda>k. k \<in> set (map points_of [''lease_id'', ''reason''])) (map fst kvs) \<or>
                 \<not> guard_lease_id l then (Inr (error_reply 400 ''INVALID_REVOKE''), g)
              else if gd_lease_id g \<noteq> Some l then (Inr (error_reply 404 ''UNKNOWN_LEASE''), g)
              else
                (Inr (200, obj [(''schema_version'', str_value GUARD_SCHEMA), (''lease_id'', str_value l),
                    (''state'', str_value ''REVOKED''),
                    (''counters'', counters_body (g\<lparr>gd_lease_revoked := True\<rparr>))]),
                 g\<lparr>gd_lease_revoked := True\<rparr>)
          | None \<Rightarrow> (Inr (error_reply 400 ''INVALID_REVOKE''), g))
     | _ \<Rightarrow> (Inr (error_reply 400 ''INVALID_REVOKE''), g))"

definition mode_name :: "guard_mode \<Rightarrow> string" where
  "mode_name m = (case m of PASSIVE \<Rightarrow> ''PASSIVE'' | ACTIVE \<Rightarrow> ''ACTIVE'')"

definition binding :: "clock \<Rightarrow> guard \<Rightarrow> json" where
  "binding c g = obj [
     (''schema_version'', str_value GUARD_SCHEMA),
     (''armed'', JBool (is_armed c g)),
     (''mode'', str_value (mode_name (gd_mode g))),
     (''execution_id'', opt_value (gd_execution_id g)),
     (''lease_id'', opt_value (gd_lease_id g)),
     (''lease_expires_at'', (case gd_lease_expires_at g of None \<Rightarrow> JNull | Some e \<Rightarrow> JInt e)),
     (''projection_digest'', opt_value (gd_projection_digest g)),
     (''allowlist_digest'', opt_value (gd_allowlist_digest g)),
     (''origin'', opt_value (gd_origin g)),
     (''max_requests'', JInt (gd_max_requests g)),
     (''lease_revoked'', JBool (gd_lease_revoked g))]"

definition attestation :: "clock \<Rightarrow> guard \<Rightarrow> json" where
  "attestation c g = obj [
     (''schema_version'', str_value GUARD_SCHEMA),
     (''guard_version'', str_value GUARD_VERSION),
     (''state'', str_value (if is_armed c g then ''ARMED'' else ''IDLE'')),
     (''allowed_origins'', JArr (map str_value (gd_allowed_origins g))),
     (''booted_at'', str_value (gd_booted_at g)),
     (''executions_total'', JInt (int (gd_executions_total g))),
     (''forwarded_total'', JInt (int (gd_forwarded_total g))),
     (''blocked_total'', JInt (int (gd_blocked_total g))),
     (''blocked_while_idle'', JInt (int (gd_blocked_while_idle g)))]"

definition disarmed :: "guard \<Rightarrow> guard" where
  "disarmed g = (reset_guard (g\<lparr>gd_executions_total := gd_executions_total g + 1\<rparr>))
     \<lparr>gd_lease_revoked := gd_lease_revoked g\<rparr>"

definition counters :: "json \<Rightarrow> bool \<Rightarrow> reply guarded" where
  "counters payload disarm = (\<lambda>g.
     case payload of
       JObj kvs \<Rightarrow>
         (case field kvs ''token'' of
            Some (JStr p) \<Rightarrow>
              if \<not> has_keys kvs [''token''] then (Inr (error_reply 400 ''INVALID_TOKEN''), g)
              else (case as_ascii p of
                None \<Rightarrow> (Inr (error_reply 403 ''INVALID_TOKEN''), g)
              | Some token \<Rightarrow>
                  if \<not> guard_token token \<or> gd_token g \<noteq> Some token then
                    (Inr (error_reply 403 ''INVALID_TOKEN''), g)
                  else
                    (Inr (200, obj [(''schema_version'', str_value GUARD_SCHEMA),
                        (''execution_id'', opt_value (gd_execution_id g)),
                        (''state'', str_value (if disarm then ''DISARMED'' else ''ARMED'')),
                        (''counters'', counters_body g)]),
                     if disarm then disarmed g else g))
          | _ \<Rightarrow> (Inr (error_reply 400 ''INVALID_TOKEN''), g))
     | _ \<Rightarrow> (Inr (error_reply 400 ''INVALID_TOKEN''), g))"

section \<open>Proxy decisions\<close>

definition blocked_by :: "string \<Rightarrow> guard \<Rightarrow> guard" where
  "blocked_by reason g = g\<lparr>gd_blocked_total := gd_blocked_total g + 1,
     gd_blocked := bump reason (gd_blocked g)\<rparr>"

definition forward_path :: "split_result \<Rightarrow> string" where
  "forward_path u = us_path u @ (if us_query u = [] then [] else CHR ''?'' # us_query u)"

definition origin_of :: "split_result \<Rightarrow> nat \<Rightarrow> string" where
  "origin_of u port = ''http://'' @ lower_latin (us_hostname u) @ '':'' @ nat_str port"

definition forwarded_one :: "string \<Rightarrow> string \<Rightarrow> guard \<Rightarrow> guard" where
  "forwarded_one m path g = g\<lparr>gd_forwarded_total := gd_forwarded_total g + 1,
     gd_forwarded := gd_forwarded g + 1, gd_per_path := bump (m, path) (gd_per_path g)\<rparr>"

text \<open>The verdict on a request whose target was split: the reason for blocking it, or where it
  goes.  It does not depend on the counters except \<open>forwarded\<close>.\<close>

definition scope_verdict :: "string \<Rightarrow> split_result \<Rightarrow> guard \<Rightarrow> string + string \<times> nat \<times> string" where
  "scope_verdict m u g =
     (case us_port u of
        None \<Rightarrow> Inl ''MALFORMED_TARGET''
      | Some None \<Rightarrow> Inl ''MALFORMED_TARGET''
      | Some (Some port) \<Rightarrow>
          if us_scheme u \<noteq> ''http'' \<or> us_hostname u = [] \<or> us_username u \<noteq> [] \<or> us_password u \<noteq> [] \<or>
             us_fragment u \<noteq> [] \<or> (us_query u \<noteq> [] \<and> gd_mode g \<noteq> ACTIVE) then Inl ''MALFORMED_TARGET''
          else if gd_origin g \<noteq> Some (origin_of u port) \<or> origin_of u port \<notin> set (gd_allowed_origins g)
          then Inl ''ORIGIN''
          else if \<not> guard_path (us_path u) \<or> (m, us_path u) \<notin> set (gd_allowlist g) then Inl ''PATH''
          else if us_query u \<noteq> [] \<and>
             \<not> list_all (\<lambda>n. n \<in> set (map Some (gd_allowed_params g))) (param_names (us_query u))
          then Inl ''PARAM''
          else if gd_max_requests g \<le> int (gd_forwarded g) then Inl ''BUDGET''
          else Inr (lower_latin (us_hostname u), port, forward_path u))"

definition admit ::
  "(string \<Rightarrow> bool) \<Rightarrow> clock \<Rightarrow> string \<Rightarrow> string \<Rightarrow> (string + string \<times> nat \<times> string) guarded" where
  "admit ip c m target = (\<lambda>g.
     if \<not> is_armed c g then
       (Inr (Inl ''NOT_ARMED''), g\<lparr>gd_blocked_total := gd_blocked_total g + 1,
          gd_blocked_while_idle := gd_blocked_while_idle g + 1\<rparr>)
     else
       let g1 = g\<lparr>gd_received := gd_received g + 1\<rparr> in
       if m \<noteq> ''GET'' \<and> m \<noteq> ''HEAD'' then (Inr (Inl ''METHOD''), blocked_by ''METHOD'' g1)
       else (case urlsplit ip target of
         None \<Rightarrow> (Inl Py_ValueError, g1)
       | Some u \<Rightarrow>
           (case scope_verdict m u g1 of
              Inl reason \<Rightarrow>
                (Inr (Inl reason), blocked_by reason
                   (if reason = ''BUDGET'' then g1\<lparr>gd_budget_exceeded := True\<rparr> else g1))
            | Inr dest \<Rightarrow> (Inr (Inr dest), forwarded_one m (us_path u) g1))))"

definition record_response :: "nat \<Rightarrow> guard \<Rightarrow> guard" where
  "record_response status g = g\<lparr>gd_statuses := bump (nat_str status) (gd_statuses g),
     gd_redirects := (if 300 \<le> status \<and> status < 400 then gd_redirects g + 1 else gd_redirects g)\<rparr>"

definition record_failure :: "bool \<Rightarrow> guard \<Rightarrow> guard" where
  "record_failure timeout g =
     (if timeout then g\<lparr>gd_upstream_timeouts := gd_upstream_timeouts g + 1\<rparr>
      else g\<lparr>gd_upstream_failures := gd_upstream_failures g + 1\<rparr>)"

section \<open>The proxy handler\<close>

text \<open>What the upstream connection does with a request that was sent.\<close>

datatype upstream = Up_Reply nat "(string \<times> string) list" string | Up_Timeout | Up_Failure

record sent_request =
  sq_method :: string
  sq_host :: string
  sq_port :: nat
  sq_path :: string
  sq_headers :: "(string \<times> string) list"

datatype proxy_reply = Refused string | Relayed nat "(string \<times> string) list" string | Closed
  | Unsupported

definition header_value :: "(string \<times> string) list \<Rightarrow> string \<Rightarrow> string" where
  "header_value hs name =
     (case find (\<lambda>(k, _). lower_latin k = lower_latin name) hs of None \<Rightarrow> [] | Some (_, v) \<Rightarrow> v)"

definition forward_headers :: "(string \<times> string) list \<Rightarrow> string \<Rightarrow> nat \<Rightarrow> (string \<times> string) list" where
  "forward_headers hs host port =
     map (\<lambda>n. (n, header_value hs n)) (filter (\<lambda>n. header_value hs n \<noteq> []) FORWARD_HEADERS) @
     [(''Host'', host @ '':'' @ nat_str port)]"

text \<open>\<open>connection.request\<close> adds one header of its own, as no \<open>Accept-Encoding\<close> is given and a request
  without a body has no \<open>Content-Length\<close>.\<close>

definition client_headers :: "(string \<times> string) list \<Rightarrow> (string \<times> string) list" where
  "client_headers hs = (''Accept-Encoding'', ''identity'') # hs"

text \<open>\<open>http.client\<close> refuses a path with a control character or a space (\<open>InvalidURL\<close>, an
  \<open>HTTPException\<close>) and then encodes it as ASCII (\<open>UnicodeEncodeError\<close>, which is not).\<close>

definition relay_upstream :: "upstream \<Rightarrow> sent_request \<Rightarrow> (sent_request option \<times> proxy_reply) guarded" where
  "relay_upstream up req =
     (if list_ex (\<lambda>c. (of_char c :: nat) \<le> 32 \<or> (of_char c :: nat) = 127) (sq_path req) then
        thenE (modifyE (record_failure False)) (retE (None, Closed))
      else if list_ex (\<lambda>c. 128 \<le> (of_char c :: nat)) (sq_path req) then throwE Py_ValueError
      else (case up of
          Up_Timeout \<Rightarrow> thenE (modifyE (record_failure True)) (retE (Some req, Closed))
        | Up_Failure \<Rightarrow> thenE (modifyE (record_failure False)) (retE (Some req, Closed))
        | Up_Reply status headers body \<Rightarrow>
            if MAX_RELAY_BYTES < length (take (MAX_RELAY_BYTES + 1) body) then
              thenE (modifyE (record_failure False)) (retE (Some req, Closed))
            else
              thenE (modifyE (record_response status))
              (retE (Some req, Relayed status
                 (filter (\<lambda>(k, _). lower_latin k \<notin> set HOP_BY_HOP) headers @
                  [(''Content-Length'', nat_str (length body))])
                 (if sq_method req = ''HEAD'' then [] else body)))))"

definition handle_forward ::
  "(string \<Rightarrow> bool) \<Rightarrow> clock \<Rightarrow> upstream \<Rightarrow> string \<Rightarrow> string \<Rightarrow> (string \<times> string) list \<Rightarrow>
   (sent_request option \<times> proxy_reply) guarded" where
  "handle_forward ip c up m target hs =
     bindE (admit ip c m target) (\<lambda>v.
     case v of
       Inl reason \<Rightarrow> retE (None, Refused reason)
     | Inr (host, port, path) \<Rightarrow>
         relay_upstream up \<lparr>sq_method = m, sq_host = host, sq_port = port, sq_path = path,
           sq_headers = client_headers (forward_headers hs host port)\<rparr>)"

definition refused_methods :: "string list" where
  "refused_methods = [''POST'', ''PUT'', ''PATCH'', ''DELETE'', ''OPTIONS'', ''CONNECT'', ''TRACE'']"

definition handle_method ::
  "(string \<Rightarrow> bool) \<Rightarrow> clock \<Rightarrow> string \<Rightarrow> string \<Rightarrow> (sent_request option \<times> proxy_reply) guarded" where
  "handle_method ip c m target =
     bindE (admit ip c m target) (\<lambda>v.
     retE (None, Refused (case v of Inl reason \<Rightarrow> reason | Inr _ \<Rightarrow> ''METHOD'')))"

definition handle_proxy ::
  "(string \<Rightarrow> bool) \<Rightarrow> clock \<Rightarrow> upstream \<Rightarrow> string \<Rightarrow> string \<Rightarrow> (string \<times> string) list \<Rightarrow>
   (sent_request option \<times> proxy_reply) guarded" where
  "handle_proxy ip c up m target hs =
     (if m = ''GET'' \<or> m = ''HEAD'' then handle_forward ip c up m target hs
      else if m \<in> set refused_methods then handle_method ip c m target
      else retE (None, Unsupported))"

section \<open>The control handler\<close>

text \<open>The header values are the empty text when absent.\<close>

record control_request =
  cr_path :: string
  cr_control :: string
  cr_content_type :: string
  cr_content_length :: string
  cr_body :: "json option"

definition authorized :: "string \<Rightarrow> guard \<Rightarrow> bool" where
  "authorized supplied g \<longleftrightarrow>
     gd_control_secret g = [] \<or> utf8_latin supplied \<noteq> [] \<and> utf8_latin supplied = gd_control_secret g"

definition handle_get :: "clock \<Rightarrow> string \<Rightarrow> string \<Rightarrow> reply guarded" where
  "handle_get c path supplied =
     (if path = ''/health'' then retE (200, obj [(''status'', str_value ''READY'')])
      else bindE (getE (authorized supplied)) (\<lambda>ok.
        if \<not> ok then retE (error_reply 403 ''CONTROL_UNAUTHORIZED'')
        else if path = ''/v1/attestation'' then bindE (getE (attestation c)) (\<lambda>b. retE (200, b))
        else if path = ''/v1/binding'' then bindE (getE (binding c)) (\<lambda>b. retE (200, b))
        else retE (error_reply 404 ''NOT_FOUND'')))"

definition handle_post ::
  "string \<Rightarrow> clock \<Rightarrow> clock \<Rightarrow> clock \<Rightarrow> clock \<Rightarrow> control_request \<Rightarrow> reply guarded" where
  "handle_post token c0 c1 c2 c3 q =
     (if cr_path q \<notin> {''/v1/arm'', ''/v1/counters'', ''/v1/disarm'', ''/v1/revoke''} then
        retE (error_reply 404 ''NOT_FOUND'')
      else bindE (getE (authorized (cr_control q))) (\<lambda>ok.
        if \<not> ok then retE (error_reply 403 ''CONTROL_UNAUTHORIZED'')
        else if strip (hd (split_on (CHR '';'') (cr_content_type q))) \<noteq> ''application/json'' then
          retE (error_reply 415 ''INVALID_REQUEST'')
        else (case py_int (cr_content_length q) of
          None \<Rightarrow> retE (error_reply 411 ''INVALID_REQUEST'')
        | Some len \<Rightarrow>
            if len \<le> 0 \<or> MAX_CONTROL_BYTES < len then retE (error_reply 413 ''INVALID_REQUEST'')
            else (case cr_body q of
              None \<Rightarrow> retE (error_reply 400 ''INVALID_REQUEST'')
            | Some payload \<Rightarrow>
                if cr_path q = ''/v1/arm'' then arm_guard token c0 c1 c2 c3 payload
                else if cr_path q = ''/v1/revoke'' then revoke_guard payload
                else counters payload (cr_path q = ''/v1/disarm'')))))"

end
