(* ===== verification/Guard_Props.thy ===== *)
theory Guard_Props
  imports Guard "HOL-Library.Code_Target_Nat"
begin

text \<open>
  What the scope guard promises: the invariant of its counters and its scope, the conditions
  under which a request leaves it, and that revoking, disarming or exhausting the budget stops
  every further request until the next successful arm.
\<close>

section \<open>Histories\<close>

datatype guard_op =
    Op_Get clock string string
  | Op_Post string clock clock clock clock control_request
  | Op_Proxy clock upstream string string "(string \<times> string) list"

definition guard_step :: "(string \<Rightarrow> bool) \<Rightarrow> guard_op \<Rightarrow> guard \<Rightarrow> guard" where
  "guard_step ip op g = (case op of
       Op_Get c path supplied \<Rightarrow> snd (handle_get c path supplied g)
     | Op_Post token c0 c1 c2 c3 q \<Rightarrow> snd (handle_post token c0 c1 c2 c3 q g)
     | Op_Proxy c up m target hs \<Rightarrow> snd (handle_proxy ip c up m target hs g))"

text \<open>The requests that reach the target.\<close>

definition sent_by :: "(string \<Rightarrow> bool) \<Rightarrow> guard_op \<Rightarrow> guard \<Rightarrow> sent_request list" where
  "sent_by ip op g = (case op of
       Op_Proxy c up m target hs \<Rightarrow>
         (case fst (handle_proxy ip c up m target hs g) of Inr (Some r, _) \<Rightarrow> [r] | _ \<Rightarrow> [])
     | _ \<Rightarrow> [])"

fun sends :: "(string \<Rightarrow> bool) \<Rightarrow> guard_op list \<Rightarrow> guard \<Rightarrow> sent_request list" where
  "sends ip [] g = []"
| "sends ip (x # xs) g = sent_by ip x g @ sends ip xs (guard_step ip x g)"

text \<open>A control request that arms the guard.\<close>

definition arms :: "guard_op \<Rightarrow> guard \<Rightarrow> bool" where
  "arms op g = (case op of
       Op_Post token c0 c1 c2 c3 q \<Rightarrow>
         cr_path q = ''/v1/arm'' \<and>
         (case fst (handle_post token c0 c1 c2 c3 q g) of Inr (status, _) \<Rightarrow> status = 200 | _ \<Rightarrow> False)
     | _ \<Rightarrow> False)"

fun arm_free :: "(string \<Rightarrow> bool) \<Rightarrow> guard_op list \<Rightarrow> guard \<Rightarrow> bool" where
  "arm_free ip [] g = True"
| "arm_free ip (x # xs) g = (\<not> arms x g \<and> arm_free ip xs (guard_step ip x g))"

section \<open>The operations, case by case\<close>

text \<open>A validated arming request, as \<open>arm\<close> leaves it behind.\<close>

definition arm_request_ok :: "guard \<Rightarrow> arm_request \<Rightarrow> (string \<times> string) list \<Rightarrow> int \<Rightarrow> bool" where
  "arm_request_ok g q pairs bound \<longleftrightarrow>
     guard_exec (aq_execution_id q) \<and> aq_origin q \<in> set (gd_allowed_origins g) \<and>
     1 \<le> aq_max_requests q \<and> aq_max_requests q \<le> bound \<and> 1000 \<le> aq_ttl q \<and>
     list_all (\<lambda>(m, p). m \<in> {''GET'', ''HEAD''} \<and> guard_path p) pairs"

lemma arm_pairs_ok:
  "arm_pairs xs = Inr (Some ps) \<Longrightarrow> list_all (\<lambda>(m, p). m \<in> {''GET'', ''HEAD''} \<and> guard_path p) ps"
  by (induction xs arbitrary: ps)
     (auto split: json.splits if_splits option.splits sum.splits)

lemma arm_fields_ok:
  "arm_fields g kvs n bound ttl = Some q \<Longrightarrow>
   guard_exec (aq_execution_id q) \<and> aq_origin q \<in> set (gd_allowed_origins g) \<and>
   1 \<le> aq_max_requests q \<and> aq_max_requests q \<le> bound \<and> 1000 \<le> aq_ttl q"
  by (auto simp: arm_fields_def split: option.splits if_splits)

lemma arm_passive_cases:
  assumes "arm_passive token c1 c2 kvs g = (r, t)"
  obtains "t = g" and "\<And>body. r \<noteq> Inr (200, body)"
    | q pairs d where "t = armed_passive q pairs token d g" and "arm_request_ok g q pairs 8"
        and "aq_max_requests q = int (length (remdups pairs))" and "\<not> is_armed c1 g"
        and "\<exists>body. r = Inr (200, body)"
  using assms
  by (auto simp: arm_passive_def arm_request_ok_def invalid_arm_def error_reply_def
      dest!: arm_fields_ok arm_pairs_ok split: if_splits option.splits sum.splits)

lemma arm_active_cases:
  assumes "arm_active token c0 c1 c2 c3 kvs g = (r, t)"
  obtains "t = g" and "\<And>body. r \<noteq> Inr (200, body)"
    | q l pairs params where
        "t = armed_active q l pairs params token (active_deadline c2 c3 (aq_ttl q) (al_expires_at l)) g"
        and "arm_request_ok g q pairs ACTIVE_MAX_REQUESTS" and "\<not> is_armed c1 g"
        and "clk_wall c0 < al_expires_at l * 1000000000"
        and "\<exists>body. r = Inr (200, body)"
  using assms
  by (auto simp: arm_active_def arm_request_ok_def invalid_arm_def error_reply_def
      dest!: arm_fields_ok arm_pairs_ok split: if_splits option.splits sum.splits)

lemma arm_cases:
  assumes "arm_guard token c0 c1 c2 c3 payload g = (r, t)"
  obtains "t = g" and "\<And>body. r \<noteq> Inr (200, body)"
    | q pairs d where "t = armed_passive q pairs token d g" and "arm_request_ok g q pairs 8"
        and "aq_max_requests q = int (length (remdups pairs))" and "\<not> is_armed c1 g"
        and "\<exists>body. r = Inr (200, body)"
    | q l pairs params where
        "t = armed_active q l pairs params token (active_deadline c2 c3 (aq_ttl q) (al_expires_at l)) g"
        and "arm_request_ok g q pairs ACTIVE_MAX_REQUESTS" and "\<not> is_armed c1 g"
        and "clk_wall c0 < al_expires_at l * 1000000000"
        and "\<exists>body. r = Inr (200, body)"
proof (cases "\<exists>kvs. payload = JObj kvs")
  case True
  then obtain kvs where obj: "payload = JObj kvs" by blast
  show ?thesis
  proof (cases "field kvs ''mode'' = Some (str_value ''ACTIVE'')")
    case True
    with assms obj have "arm_active token c0 c1 c2 c3 kvs g = (r, t)" by (simp add: arm_guard_def)
    then show ?thesis by (rule arm_active_cases) (fact that)+
  next
    case False
    with assms obj have "arm_passive token c1 c2 kvs g = (r, t)" by (simp add: arm_guard_def)
    then show ?thesis by (rule arm_passive_cases) (fact that)+
  qed
next
  case False
  with assms have "(r, t) = (Inr invalid_arm, g)"
    by (cases payload) (simp_all add: arm_guard_def)
  then show ?thesis using that(1) by (simp add: invalid_arm_def error_reply_def)
qed

lemma revoke_out:
  "snd (revoke_guard payload g) = g \<or>
   (\<exists>l. gd_lease_id g = Some l \<and> snd (revoke_guard payload g) = g\<lparr>gd_lease_revoked := True\<rparr>)"
  unfolding revoke_guard_def error_reply_def
  by (cases payload; simp split: option.split if_split)

lemma counters_out:
  "snd (counters payload disarm g) = g \<or>
   (\<exists>tok. disarm \<and> gd_token g = Some tok \<and> snd (counters payload disarm g) = disarmed g)"
  unfolding counters_def
  by (cases payload; simp split: option.split json.split if_split)

lemma handle_get_state [simp]: "snd (handle_get c path supplied g) = g"
  by (simp add: handle_get_def bindE_run)

lemma handle_post_routes:
  "(snd (handle_post token c0 c1 c2 c3 q g) = g \<and>
    (\<forall>body. fst (handle_post token c0 c1 c2 c3 q g) \<noteq> Inr (200, body))) \<or>
   (\<exists>payload. authorized (cr_control q) g \<and> cr_body q = Some payload \<and>
     handle_post token c0 c1 c2 c3 q g =
       (if cr_path q = ''/v1/arm'' then arm_guard token c0 c1 c2 c3 payload g
        else if cr_path q = ''/v1/revoke'' then revoke_guard payload g
        else counters payload (cr_path q = ''/v1/disarm'') g))"
  unfolding handle_post_def error_reply_def
  by (simp add: bindE_run split: if_split option.split)

text \<open>What a control request can do to the state.\<close>

lemma handle_post_cases:
  obtains (kept) "snd (handle_post token c0 c1 c2 c3 q g) = g"
        and "cr_path q = ''/v1/arm'' \<Longrightarrow> \<forall>body. fst (handle_post token c0 c1 c2 c3 q g) \<noteq> Inr (200, body)"
    | (armed) payload where "cr_path q = ''/v1/arm''" and "authorized (cr_control q) g"
        and "handle_post token c0 c1 c2 c3 q g = arm_guard token c0 c1 c2 c3 payload g"
        and "\<exists>body. fst (handle_post token c0 c1 c2 c3 q g) = Inr (200, body)"
    | (revoked) l where "cr_path q = ''/v1/revoke''" and "gd_lease_id g = Some l"
        and "snd (handle_post token c0 c1 c2 c3 q g) = g\<lparr>gd_lease_revoked := True\<rparr>"
    | (disarm) tok where "cr_path q = ''/v1/disarm''" and "gd_token g = Some tok"
        and "snd (handle_post token c0 c1 c2 c3 q g) = disarmed g"
proof -
  let ?h = "handle_post token c0 c1 c2 c3 q g"
  consider "snd ?h = g" "\<forall>body. fst ?h \<noteq> Inr (200, body)"
    | payload where "authorized (cr_control q) g"
        "?h = (if cr_path q = ''/v1/arm'' then arm_guard token c0 c1 c2 c3 payload g
           else if cr_path q = ''/v1/revoke'' then revoke_guard payload g
           else counters payload (cr_path q = ''/v1/disarm'') g)"
    using handle_post_routes [of token c0 c1 c2 c3 q g] by blast
  then show thesis
  proof cases
    case 1
    then show ?thesis using kept by blast
  next
    case (2 payload)
    consider (arm) "cr_path q = ''/v1/arm''" | (rev) "cr_path q = ''/v1/revoke''"
      | (rest) "cr_path q \<noteq> ''/v1/arm''" "cr_path q \<noteq> ''/v1/revoke''" by blast
    then show ?thesis
    proof cases
      case arm
      with 2 have run_arm: "?h = arm_guard token c0 c1 c2 c3 payload g" by simp
      obtain r t where run: "?h = (r, t)" by fastforce
      have arm': "arm_guard token c0 c1 c2 c3 payload g = (r, t)" using run_arm run by simp
      have ok: thesis if "\<exists>body. r = Inr (200, body)"
        using armed [OF arm 2(1) run_arm] that run by (metis fst_conv)
      from arm' show ?thesis
      proof (cases rule: arm_cases)
        case 1
        then show ?thesis using kept run by (metis fst_conv snd_conv)
      qed (use ok in blast)+
    next
      case rev
      with 2 have run: "?h = revoke_guard payload g" by simp
      have other: "cr_path q \<noteq> ''/v1/arm''" using rev by simp
      from revoke_out [of payload g] show ?thesis
      proof (elim disjE exE conjE)
        assume "snd (revoke_guard payload g) = g"
        then show ?thesis using kept run other by simp
      qed (use revoked run rev in simp)
    next
      case rest
      with 2 have run: "?h = counters payload (cr_path q = ''/v1/disarm'') g" by simp
      from counters_out [of payload "cr_path q = ''/v1/disarm''" g] show ?thesis
      proof (elim disjE exE conjE)
        assume "snd (counters payload (cr_path q = ''/v1/disarm'') g) = g"
        then show ?thesis using kept run rest by simp
      qed (use disarm run in simp)
    qed
  qed
qed

lemma relay_upstream_fst:
  "fst (relay_upstream up req g) = Inr (Some s, x) \<Longrightarrow> s = req"
  by (auto simp: relay_upstream_def bindE_run split: if_splits upstream.splits)

text \<open>The fields the recorders leave alone.\<close>

definition same_scope :: "guard \<Rightarrow> guard \<Rightarrow> bool" where
  "same_scope g t \<longleftrightarrow>
     gd_allowed_origins t = gd_allowed_origins g \<and> gd_control_secret t = gd_control_secret g \<and>
     gd_armed t = gd_armed g \<and> gd_mode t = gd_mode g \<and> gd_lease_id t = gd_lease_id g \<and>
     gd_lease_expires_at t = gd_lease_expires_at g \<and> gd_lease_revoked t = gd_lease_revoked g \<and>
     gd_execution_id t = gd_execution_id g \<and> gd_token t = gd_token g \<and> gd_origin t = gd_origin g \<and>
     gd_allowlist t = gd_allowlist g \<and> gd_allowed_params t = gd_allowed_params g \<and>
     gd_max_requests t = gd_max_requests g \<and> gd_deadline t = gd_deadline g"

definition same_counts :: "guard \<Rightarrow> guard \<Rightarrow> bool" where
  "same_counts g t \<longleftrightarrow>
     gd_forwarded t = gd_forwarded g \<and> gd_per_path t = gd_per_path g \<and>
     gd_received t = gd_received g \<and> gd_blocked t = gd_blocked g"

lemma relay_upstream_state:
  "same_scope g (snd (relay_upstream up req g)) \<and> same_counts g (snd (relay_upstream up req g))"
  by (auto simp: relay_upstream_def bindE_run same_scope_def same_counts_def record_failure_def
      record_response_def split: if_splits upstream.splits)

lemma scope_verdict_Inr:
  assumes "scope_verdict m u g = Inr (host, port, path)"
  shows "us_port u = Some (Some port)" "us_scheme u = ''http''" "host = lower_latin (us_hostname u)"
    "path = forward_path u" "us_username u = []" "us_password u = []" "us_fragment u = []"
    "us_query u \<noteq> [] \<Longrightarrow> gd_mode g = ACTIVE"
    "gd_origin g = Some (''http://'' @ host @ '':'' @ nat_str port)"
    "''http://'' @ host @ '':'' @ nat_str port \<in> set (gd_allowed_origins g)"
    "guard_path (us_path u)" "(m, us_path u) \<in> set (gd_allowlist g)"
    "us_query u \<noteq> [] \<Longrightarrow> \<forall>n \<in> set (param_names (us_query u)). n \<in> Some ` set (gd_allowed_params g)"
    "int (gd_forwarded g) < gd_max_requests g"
  using assms
  by (auto simp: scope_verdict_def origin_of_def list_all_iff split: option.splits if_splits)

lemma admit_cases:
  assumes "admit ip c m target g = (r, t)"
  obtains "\<not> is_armed c g" and "r = Inr (Inl ''NOT_ARMED'')"
        and "same_scope g t" and "same_counts g t"
    | reason where "is_armed c g" and "r = Inr (Inl reason)" and "same_scope g t"
        and "gd_forwarded t = gd_forwarded g" and "gd_per_path t = gd_per_path g"
        and "gd_received t = gd_received g + 1" and "gd_blocked t = bump reason (gd_blocked g)"
    | "is_armed c g" and "r = Inl Py_ValueError" and "urlsplit ip target = None"
        and "t = g\<lparr>gd_received := gd_received g + 1\<rparr>"
    | u dest where "is_armed c g" and "m = ''GET'' \<or> m = ''HEAD''" and "urlsplit ip target = Some u"
        and "scope_verdict m u g = Inr dest" and "r = Inr (Inr dest)"
        and "t = forwarded_one m (us_path u) (g\<lparr>gd_received := gd_received g + 1\<rparr>)"
proof -
  have verdict: "scope_verdict m u (g\<lparr>gd_received := n\<rparr>) = scope_verdict m u g" for u n
    by (simp add: scope_verdict_def cong: option.case_cong if_cong)
  show ?thesis
    using assms
    by (auto simp: admit_def Let_def verdict blocked_by_def same_scope_def same_counts_def
        split: if_splits option.splits sum.splits intro: that)
qed

section \<open>The invariant\<close>

lemma bump_Nil [simp]: "bump k [] = [(k, 1)]"
  by (simp add: bump_def)

lemma bump_Cons [simp]: "bump k (p # t) = (if fst p = k then (k, snd p + 1) # t else p # bump k t)"
  by (cases p) (auto simp: bump_def)

lemma sum_bump [simp]: "sum_list (map snd (bump k t)) = sum_list (map snd t) + 1"
  by (induction t) auto

lemma keys_bump [simp]: "fst ` set (bump k t) = insert k (fst ` set t)"
  by (induction t) auto

lemma distinct_bump [simp]: "distinct_keys t \<Longrightarrow> distinct_keys (bump k t)"
  by (simp add: bump_def)

text \<open>What \<open>arm\<close> wrote stays in force until the next reset.\<close>

definition scope_ok :: "guard \<Rightarrow> bool" where
  "scope_ok g \<longleftrightarrow>
     list_all (\<lambda>(m, p). m \<in> {''GET'', ''HEAD''} \<and> guard_path p) (gd_allowlist g) \<and>
     (if gd_armed g then
        (\<exists>origin \<in> set (gd_allowed_origins g). gd_origin g = Some origin) \<and> gd_token g \<noteq> None \<and>
        (case gd_mode g of
           PASSIVE \<Rightarrow> gd_max_requests g \<le> 8 \<and> gd_max_requests g = int (length (gd_allowlist g)) \<and>
             gd_allowed_params g = [] \<and> gd_lease_id g = None
         | ACTIVE \<Rightarrow> gd_max_requests g \<le> ACTIVE_MAX_REQUESTS \<and>
             gd_lease_id g \<noteq> None \<and> gd_lease_expires_at g \<noteq> None)
      else gd_max_requests g = 0 \<and> gd_token g = None \<and> gd_mode g = PASSIVE)"

definition counts_ok :: "guard \<Rightarrow> bool" where
  "counts_ok g \<longleftrightarrow>
     distinct_keys (gd_per_path g) \<and> fst ` set (gd_per_path g) \<subseteq> set (gd_allowlist g) \<and>
     sum_list (map snd (gd_per_path g)) = gd_forwarded g \<and>
     gd_forwarded g + sum_list (map snd (gd_blocked g)) \<le> gd_received g \<and>
     int (gd_forwarded g) \<le> gd_max_requests g"

definition guard_ok :: "guard \<Rightarrow> bool" where
  "guard_ok g \<longleftrightarrow> scope_ok g \<and> counts_ok g"

lemma scope_ok_frame: "same_scope g t \<Longrightarrow> scope_ok g \<Longrightarrow> scope_ok t"
  by (simp add: same_scope_def scope_ok_def split: guard_mode.split_asm if_splits)

lemma counts_ok_frame: "same_scope g t \<Longrightarrow> same_counts g t \<Longrightarrow> counts_ok g \<Longrightarrow> counts_ok t"
  by (simp add: same_scope_def same_counts_def counts_ok_def)

lemma armed_passive_ok:
  assumes "arm_request_ok g q pairs 8" and "aq_max_requests q = int (length (remdups pairs))"
  shows "guard_ok (armed_passive q pairs token d g)"
  using assms
  by (auto simp: guard_ok_def scope_ok_def counts_ok_def arm_request_ok_def armed_passive_def
      reset_guard_def list_all_iff)

lemma armed_active_ok:
  assumes "arm_request_ok g q pairs ACTIVE_MAX_REQUESTS"
  shows "guard_ok (armed_active q l pairs params token d g)"
  using assms
  by (auto simp: guard_ok_def scope_ok_def counts_ok_def arm_request_ok_def armed_active_def
      reset_guard_def list_all_iff)

lemma guard_arm_ok: "guard_ok g \<Longrightarrow> guard_ok (snd (arm_guard token c0 c1 c2 c3 payload g))"
proof -
  assume ok: "guard_ok g"
  obtain r t where run: "arm_guard token c0 c1 c2 c3 payload g = (r, t)" by fastforce
  then have "guard_ok t"
    by (cases rule: arm_cases) (use ok in \<open>auto intro: armed_passive_ok armed_active_ok\<close>)
  with run show ?thesis by simp
qed

lemma disarmed_ok: "guard_ok (disarmed g)"
  by (simp add: guard_ok_def scope_ok_def counts_ok_def disarmed_def reset_guard_def)

lemma revoked_ok: "guard_ok g \<Longrightarrow> guard_ok (g\<lparr>gd_lease_revoked := True\<rparr>)"
  by (auto simp: guard_ok_def scope_ok_def counts_ok_def split: guard_mode.splits if_splits)

lemma handle_post_ok: "guard_ok g \<Longrightarrow> guard_ok (snd (handle_post token c0 c1 c2 c3 q g))"
  by (cases rule: handle_post_cases [of token c0 c1 c2 c3 q g])
     (auto simp: guard_arm_ok disarmed_ok revoked_ok)

lemma admit_ok: "guard_ok g \<Longrightarrow> guard_ok (snd (admit ip c m target g))"
proof -
  assume ok: "guard_ok g"
  obtain r t where run: "admit ip c m target g = (r, t)" by fastforce
  then have "guard_ok t"
  proof (cases rule: admit_cases)
    case 1
    then show ?thesis
      using ok by (auto simp: guard_ok_def intro: scope_ok_frame counts_ok_frame)
  next
    case (2 reason)
    then show ?thesis
      using ok by (auto simp: guard_ok_def counts_ok_def same_scope_def intro: scope_ok_frame)
  next
    case 3
    then show ?thesis using ok by (auto simp: guard_ok_def counts_ok_def scope_ok_def split: guard_mode.splits if_splits)
  next
    case (4 u dest)
    obtain host port path where dest: "dest = (host, port, path)" by (cases dest) auto
    note verdict = scope_verdict_Inr [OF 4(4) [unfolded dest]]
    show ?thesis
      using ok verdict(12,14) 4(6)
      by (auto simp: guard_ok_def counts_ok_def scope_ok_def forwarded_one_def
          split: guard_mode.splits if_splits)
  qed
  with run show ?thesis by simp
qed

lemma relay_upstream_ok: "guard_ok g \<Longrightarrow> guard_ok (snd (relay_upstream up req g))"
  using relay_upstream_state [of g up req]
  by (auto simp: guard_ok_def intro: scope_ok_frame counts_ok_frame)

lemma handle_proxy_preserves: "preserves guard_ok (handle_proxy ip c up m target hs)"
proof -
  have "preserves guard_ok (admit ip c m target)" "preserves guard_ok (relay_upstream up req)" for req
    by (simp_all add: preserves_def admit_ok relay_upstream_ok)
  then show ?thesis
    unfolding handle_proxy_def handle_forward_def handle_method_def
    by (auto intro!: pres split: sum.split)
qed

interpretation guard_inv: invariant_system "\<lambda>g. \<exists>origins secret booted. g = boot_guard origins secret booted"
  "guard_step ip" guard_ok for ip
proof unfold_locales
  show "\<exists>origins secret booted. g = boot_guard origins secret booted \<Longrightarrow> guard_ok g" for g
    by (auto simp: boot_guard_def guard_ok_def scope_ok_def counts_ok_def)
  show "guard_ok g \<Longrightarrow> guard_ok (guard_step ip op g)" for g op
    by (cases op) (auto simp: guard_step_def handle_post_ok preservesD [OF handle_proxy_preserves])
qed

section \<open>What a request that leaves the guard has passed\<close>

lemma handle_proxy_sent:
  assumes "fst (handle_proxy ip c up m target hs g) = Inr (Some r, rest)"
  obtains u host port where "is_armed c g" and "m = ''GET'' \<or> m = ''HEAD''"
    and "urlsplit ip target = Some u" and "scope_verdict m u g = Inr (host, port, forward_path u)"
    and "r = \<lparr>sq_method = m, sq_host = host, sq_port = port, sq_path = forward_path u,
           sq_headers = client_headers (forward_headers hs host port)\<rparr>"
    and "same_scope g (snd (handle_proxy ip c up m target hs g))"
    and "gd_forwarded (snd (handle_proxy ip c up m target hs g)) = gd_forwarded g + 1"
proof -
  from assms have run: "handle_proxy ip c up m target hs g = handle_forward ip c up m target hs g"
    by (auto simp: handle_proxy_def handle_method_def bindE_run split: if_splits sum.splits prod.splits)
  obtain v t where admit: "admit ip c m target g = (v, t)" by fastforce
  with assms run obtain host port path where v: "v = Inr (Inr (host, port, path))"
    by (auto simp: handle_forward_def bindE_run split: sum.splits)
  let ?req = "\<lparr>sq_method = m, sq_host = host, sq_port = port, sq_path = path,
           sq_headers = client_headers (forward_headers hs host port)\<rparr>"
  have relay: "handle_proxy ip c up m target hs g = relay_upstream up ?req t"
    using run admit v by (simp add: handle_forward_def bindE_run)
  from admit show thesis
  proof (cases rule: admit_cases)
    case (4 u dest)
    then have dest: "dest = (host, port, path)" using v by simp
    note verdict = scope_verdict_Inr [OF 4(4) [unfolded dest]]
    have "r = ?req" using assms relay relay_upstream_fst by metis
    moreover have "same_scope g t" "gd_forwarded t = gd_forwarded g + 1"
      using 4(6) by (simp_all add: same_scope_def forwarded_one_def)
    moreover have "same_scope t (snd (relay_upstream up ?req t))"
      "gd_forwarded (snd (relay_upstream up ?req t)) = gd_forwarded t"
      using relay_upstream_state [of t up ?req] by (simp_all add: same_counts_def)
    ultimately show ?thesis
      using that [of u host port] 4 dest verdict(4) relay by (simp add: same_scope_def)
  qed (use v in auto)
qed

text \<open>C6: A request leaves the guard only from a GET or HEAD handled while the guard is armed, not
  revoked and inside both deadlines, with budget left; its host and port are the armed origin,
  which is one of the guard's own origins; its method and bare path are on the armed allowlist;
  it has a query only in active mode and then only with projected parameters; and it carries, each at
  most once, no header but \<open>User-Agent\<close>, \<open>Accept\<close>, the \<open>Host\<close> of the armed origin and the
  \<open>Accept-Encoding\<close> that \<open>http.client\<close> writes.\<close>

theorem forwarded_request_is_in_scope:
  assumes "r \<in> set (sent_by ip op g)"
  shows "\<exists>c up target hs u. op = Op_Proxy c up (sq_method r) target hs \<and>
    urlsplit ip target = Some u \<and> is_armed c g \<and> sq_method r \<in> {''GET'', ''HEAD''} \<and>
    int (gd_forwarded g) < gd_max_requests g \<and>
    gd_origin g = Some (''http://'' @ sq_host r @ '':'' @ nat_str (sq_port r)) \<and>
    ''http://'' @ sq_host r @ '':'' @ nat_str (sq_port r) \<in> set (gd_allowed_origins g) \<and>
    guard_path (us_path u) \<and> (sq_method r, us_path u) \<in> set (gd_allowlist g) \<and>
    (sq_path r = us_path u \<or>
     gd_mode g = ACTIVE \<and> sq_path r = us_path u @ ''?'' @ us_query u \<and>
     (\<forall>n \<in> set (param_names (us_query u)). n \<in> Some ` set (gd_allowed_params g))) \<and>
    distinct (map fst (sq_headers r)) \<and>
    set (map fst (sq_headers r)) \<subseteq> {''Accept-Encoding'', ''User-Agent'', ''Accept'', ''Host''} \<and>
    map_of (sq_headers r) ''Host'' = Some (sq_host r @ '':'' @ nat_str (sq_port r)) \<and>
    map_of (sq_headers r) ''Accept-Encoding'' = Some ''identity''"
proof -
  obtain c up m target hs rest where op: "op = Op_Proxy c up m target hs"
    and fst: "fst (handle_proxy ip c up m target hs g) = Inr (Some r, rest)"
    using assms by (auto simp: sent_by_def split: guard_op.splits sum.splits option.splits dest: sym)
  from fst show ?thesis
  proof (rule handle_proxy_sent)
    fix u host port
    assume *: "is_armed c g" "m = ''GET'' \<or> m = ''HEAD''" "urlsplit ip target = Some u"
      "scope_verdict m u g = Inr (host, port, forward_path u)"
      "r = \<lparr>sq_method = m, sq_host = host, sq_port = port, sq_path = forward_path u,
           sq_headers = client_headers (forward_headers hs host port)\<rparr>"
    have "distinct (map fst (sq_headers r))"
      "set (map fst (sq_headers r)) \<subseteq> {''Accept-Encoding'', ''User-Agent'', ''Accept'', ''Host''}"
      "map_of (sq_headers r) ''Host'' = Some (sq_host r @ '':'' @ nat_str (sq_port r))"
      "map_of (sq_headers r) ''Accept-Encoding'' = Some ''identity''"
      by (auto simp: *(5) client_headers_def forward_headers_def FORWARD_HEADERS_def)
    then show ?thesis
      using * op scope_verdict_Inr [OF *(4)]
      by (intro exI [of _ c] exI [of _ up] exI [of _ target] exI [of _ hs] exI [of _ u])
         (auto simp: forward_path_def)
  qed
qed

section \<open>Budget and silence\<close>

lemma arms_iff:
  "arms (Op_Post token c0 c1 c2 c3 q) g \<longleftrightarrow>
   cr_path q = ''/v1/arm'' \<and> (\<exists>body. fst (handle_post token c0 c1 c2 c3 q g) = Inr (200, body))"
  by (auto simp: arms_def split: sum.splits)

text \<open>Without arming, what is left of the budget pays for every request that leaves, and a guard
  that is revoked or disarmed stays so.\<close>

definition budget_left :: "guard \<Rightarrow> int" where
  "budget_left g = (if gd_armed g \<and> \<not> gd_lease_revoked g then gd_max_requests g - int (gd_forwarded g) else 0)"

lemma handle_proxy_keeps:
  "same_scope g (snd (handle_proxy ip c up m target hs g)) \<and>
   gd_forwarded g \<le> gd_forwarded (snd (handle_proxy ip c up m target hs g))"
proof -
  obtain v t where admit: "admit ip c m target g = (v, t)" by fastforce
  then have t: "same_scope g t \<and> gd_forwarded g \<le> gd_forwarded t"
    by (cases rule: admit_cases) (auto simp: same_scope_def same_counts_def forwarded_one_def)
  have "same_scope t (snd (relay_upstream up req t)) \<and>
      gd_forwarded (snd (relay_upstream up req t)) = gd_forwarded t" for req
    using relay_upstream_state [of t up req] by (simp add: same_counts_def)
  then show ?thesis
    using t unfolding handle_proxy_def handle_forward_def handle_method_def
    by (auto simp: bindE_run admit same_scope_def split: sum.split prod.split)
qed

lemma step_pays:
  assumes "guard_ok g" and "\<not> arms op g"
  shows "int (length (sent_by ip op g)) + budget_left (guard_step ip op g) \<le> budget_left g"
proof (cases op)
  case (Op_Get c path supplied)
  then show ?thesis by (simp add: sent_by_def guard_step_def)
next
  case (Op_Post token c0 c1 c2 c3 q)
  have nonneg: "0 \<le> budget_left g"
    using assms(1) by (simp add: budget_left_def guard_ok_def counts_ok_def)
  show ?thesis
    by (cases rule: handle_post_cases [of token c0 c1 c2 c3 q g])
       (use assms(2) Op_Post nonneg in \<open>auto simp: sent_by_def guard_step_def arms_iff budget_left_def
          disarmed_def reset_guard_def\<close>)
next
  case (Op_Proxy c up m target hs)
  let ?h = "handle_proxy ip c up m target hs g"
  note keeps = handle_proxy_keeps [of g ip c up m target hs]
  show ?thesis
  proof (cases "\<exists>r rest. fst ?h = Inr (Some r, rest)")
    case True
    then obtain r rest where sent: "fst ?h = Inr (Some r, rest)" by blast
    then have "is_armed c g \<and> gd_forwarded (snd ?h) = gd_forwarded g + 1"
      by (rule handle_proxy_sent) simp
    then show ?thesis
      using sent keeps Op_Proxy
      by (simp add: sent_by_def guard_step_def budget_left_def is_armed_def same_scope_def)
  next
    case False
    then have "sent_by ip op g = []"
      using Op_Proxy by (auto simp: sent_by_def split: sum.splits option.splits)
    then show ?thesis
      using keeps Op_Proxy
      by (simp add: guard_step_def budget_left_def same_scope_def)
  qed
qed

lemma sends_bounded:
  "guard_ok g \<Longrightarrow> arm_free ip ops g \<Longrightarrow> int (length (sends ip ops g)) \<le> budget_left g"
proof (induction ops arbitrary: g)
  case Nil
  then show ?case by (simp add: budget_left_def guard_ok_def counts_ok_def)
next
  case (Cons op ops)
  then show ?case
    using step_pays [of g op ip] guard_inv.inv_step [of g ip op] by fastforce
qed

lemma silent_when_stopped:
  assumes "guard_ok g" and "arm_free ip ops g" and "gd_lease_revoked g \<or> \<not> gd_armed g"
  shows "sends ip ops g = []"
  using sends_bounded [OF assms(1,2)] assms(3) by (simp add: budget_left_def split: if_splits)

text \<open>A guard armed for one operation, used by the examples.\<close>

definition demo_guard :: guard where
  "demo_guard = armed_passive
     \<lparr>aq_execution_id = ''exec-0123456789ab'', aq_origin = ''http://lab-api:8001'', aq_allowlist = [],
      aq_max_requests = 1, aq_ttl = 1000\<rparr> [(''GET'', ''/health'')] ''t'' 100
     (boot_guard ALLOWED_ORIGINS [] ''boot'')"

definition demo_clock :: clock where "demo_clock = \<lparr>clk_mono = 1, clk_wall = 1\<rparr>"

definition demo_get :: guard_op where
  "demo_get = Op_Proxy demo_clock (Up_Reply 200 [] ''ok'') ''GET'' ''http://lab-api:8001/health''
     [(''cookie'', ''s''), (''accept'', ''*'')]"

lemma demo_guard_ok: "guard_ok demo_guard"
  unfolding demo_guard_def
  by (rule armed_passive_ok)
     (simp_all add: arm_request_ok_def boot_guard_def ALLOWED_ORIGINS_def guard_exec_def guard_path_def
        pat_def is_hex_def is_digit_def is_alnum_def is_lower_def)

abbreviation demo_url :: split_result where
  "demo_url \<equiv> \<lparr>us_scheme = ''http'', us_netloc = ''lab-api:8001'', us_path = ''/health'',
     us_query = [], us_fragment = []\<rparr>"

lemma demo_split: "urlsplit ip ''http://lab-api:8001/health'' = Some demo_url"
  by (simp add: urlsplit_def url_clean_def url_scheme_def partition_at_def is_lower_def is_upper_def
      scheme_char_def is_alnum_def is_digit_def lower_latin_def authority_end_def brackets_ok_def)

lemma demo_hostinfo: "us_hostinfo demo_url = (''lab-api'', ''8001'')"
  by (simp add: us_hostinfo_def rpartition_at_def partition_at_def)

lemma demo_url_parts:
  "us_port demo_url = Some (Some 8001)" "us_hostname demo_url = ''lab-api''"
  "us_username demo_url = []" "us_password demo_url = []"
  by (simp_all add: us_port_def us_hostname_def demo_hostinfo is_digit_def partition_at_def
      lower_latin_def us_username_def us_password_def rpartition_at_def)

lemma demo_port_text: "nat_str 8001 = ''8001''"
  by (simp add: nat_str.simps char_of_def bit_Suc_0_iff)

lemma demo_fields:
  "gd_armed demo_guard" "\<not> gd_lease_revoked demo_guard" "gd_deadline demo_guard = 100"
  "gd_lease_expires_at demo_guard = None" "gd_origin demo_guard = Some ''http://lab-api:8001''"
  "gd_allowed_origins demo_guard = [''http://lab-api:8001'']" "gd_max_requests demo_guard = 1"
  "gd_forwarded demo_guard = 0" "gd_allowlist demo_guard = [(''GET'', ''/health'')]"
  "gd_token demo_guard = Some ''t''"
  by (simp_all add: demo_guard_def armed_passive_def reset_guard_def boot_guard_def ALLOWED_ORIGINS_def)

lemma demo_armed: "is_armed demo_clock demo_guard"
  by (simp add: is_armed_def demo_fields demo_clock_def)

lemma demo_verdict: "scope_verdict ''GET'' demo_url demo_guard = Inr (''lab-api'', 8001, ''/health'')"
  by (simp add: scope_verdict_def demo_url_parts origin_of_def demo_port_text demo_fields lower_latin_def
      guard_path_def pat_def is_alnum_def is_digit_def is_lower_def forward_path_def)

lemma demo_sent:
  "sent_by ip demo_get demo_guard =
     [\<lparr>sq_method = ''GET'', sq_host = ''lab-api'', sq_port = 8001, sq_path = ''/health'',
       sq_headers = [(''Accept-Encoding'', ''identity''), (''Accept'', ''*''), (''Host'', ''lab-api:8001'')]\<rparr>]"
proof -
  have verdict: "scope_verdict m u (demo_guard\<lparr>gd_received := n\<rparr>) = scope_verdict m u demo_guard" for m u n
    by (simp add: scope_verdict_def cong: option.case_cong if_cong)
  have "fst (admit ip demo_clock ''GET'' ''http://lab-api:8001/health'' demo_guard) =
      Inr (Inr (''lab-api'', 8001, ''/health''))"
    by (simp add: admit_def demo_armed demo_split verdict demo_verdict Let_def)
  then show ?thesis
    by (auto simp: sent_by_def demo_get_def handle_proxy_def handle_forward_def bindE_run relay_upstream_def
        MAX_RELAY_BYTES_def client_headers_def forward_headers_def FORWARD_HEADERS_def header_value_def lower_latin_def
        demo_port_text char_of_def bit_Suc_0_iff split: prod.splits sum.splits)
qed

theorem forwarded_request_is_in_scope_witness:
  "\<exists>c up target hs u. demo_get = Op_Proxy c up ''GET'' target hs \<and> is_armed c demo_guard \<and>
     urlsplit (\<lambda>_. True) target = Some u \<and> (''GET'', us_path u) \<in> set (gd_allowlist demo_guard)"
  using forwarded_request_is_in_scope
    [of "\<lparr>sq_method = ''GET'', sq_host = ''lab-api'', sq_port = 8001, sq_path = ''/health'',
       sq_headers = [(''Accept-Encoding'', ''identity''), (''Accept'', ''*''), (''Host'', ''lab-api:8001'')]\<rparr>" "\<lambda>_. True" demo_get demo_guard]
  by (simp add: demo_sent) metis

text \<open>C13: From any state the guard can reach, a sequence of control and proxy requests that contains no
  successful arm sends at most the rest of the armed budget to the target, and that budget is at
  most 8 requests in passive and 512 in active mode.\<close>

theorem budget_bounds_requests:
  assumes "g = fold (guard_step ip) history (boot_guard origins secret booted)"
    and "arm_free ip ops g"
  shows "int (length (sends ip ops g)) + int (gd_forwarded g) \<le> gd_max_requests g \<and>
    gd_max_requests g \<le> (if gd_mode g = ACTIVE then 512 else 8)"
proof -
  have ok: "guard_ok g"
    unfolding assms(1) by (rule guard_inv.inv_reachable) blast
  then show ?thesis
    using sends_bounded [OF ok assms(2)]
    by (auto simp: budget_left_def guard_ok_def scope_ok_def counts_ok_def ACTIVE_MAX_REQUESTS_def
        split: if_splits guard_mode.splits)
qed

text \<open>After a revocation or a disarm that succeeded, nothing reaches the target until the guard is
  armed again, whatever is requested meanwhile.\<close>

theorem stopped_guard_is_silent:
  assumes "guard_ok g" and "arm_free ip ops t"
    and "(Inr (200, body), t) = revoke_guard payload g \<or> (Inr (200, body), t) = counters payload True g"
  shows "sends ip ops t = []"
proof (rule silent_when_stopped [OF _ assms(2)])
  have "t = g\<lparr>gd_lease_revoked := True\<rparr> \<or> t = disarmed g"
    using assms(3)
    by (auto simp: revoke_guard_def counters_def error_reply_def split: json.splits option.splits if_splits)
  then show "guard_ok t" and "gd_lease_revoked t \<or> \<not> gd_armed t"
    using assms(1) revoked_ok disarmed_ok by (auto simp: disarmed_def reset_guard_def)
qed

text \<open>A guard armed over its control interface for two requests, and three requests to its target.\<close>

definition demo_arm_payload :: json where
  "demo_arm_payload = obj
     [(''schema_version'', str_value GUARD_SCHEMA), (''execution_id'', str_value ''exec-0123456789ab''),
      (''origin'', str_value ''http://lab-api:8001''), (''max_requests'', JInt 2), (''ttl_ms'', JInt 60000),
      (''allowlist'', JArr [obj [(''method'', str_value ''GET''), (''path'', str_value ''/health'')],
         obj [(''method'', str_value ''GET''), (''path'', str_value ''/docs'')]])]"

definition demo_arm :: guard_op where
  "demo_arm = Op_Post ''t'' demo_clock demo_clock demo_clock demo_clock
     \<lparr>cr_path = ''/v1/arm'', cr_control = [], cr_content_type = ''application/json'', cr_content_length = ''300'',
      cr_body = Some demo_arm_payload\<rparr>"

lemma demo_budget:
  "gd_max_requests (guard_step (\<lambda>_. True) demo_arm (boot_guard ALLOWED_ORIGINS [] [])) = 2"
  "gd_mode (guard_step (\<lambda>_. True) demo_arm (boot_guard ALLOWED_ORIGINS [] [])) = PASSIVE"
  "map sq_path (sends (\<lambda>_. True) [demo_get, demo_get, demo_get] (guard_step (\<lambda>_. True) demo_arm (boot_guard ALLOWED_ORIGINS [] []))) =
     [''/health'', ''/health'']"
  "arm_free (\<lambda>_. True) [demo_get, demo_get, demo_get] (guard_step (\<lambda>_. True) demo_arm (boot_guard ALLOWED_ORIGINS [] []))"
  by code_simp+

theorem budget_bounds_requests_witness:
  "let g = fold (guard_step (\<lambda>_. True)) [demo_arm] (boot_guard ALLOWED_ORIGINS [] []) in
   length (sends (\<lambda>_. True) [demo_get, demo_get, demo_get] g) = 2 \<and> gd_max_requests g = 2 \<and>
   int (length (sends (\<lambda>_. True) [demo_get, demo_get, demo_get] g)) + int (gd_forwarded g) \<le> gd_max_requests g \<and>
   gd_max_requests g \<le> 8"
proof -
  let ?g = "fold (guard_step (\<lambda>_. True)) [demo_arm] (boot_guard ALLOWED_ORIGINS [] [])"
  have g: "?g = guard_step (\<lambda>_. True) demo_arm (boot_guard ALLOWED_ORIGINS [] [])" by simp
  have "length (sends (\<lambda>_. True) [demo_get, demo_get, demo_get] ?g) = 2"
    using arg_cong [OF demo_budget(3), of length] unfolding g by (simp del: sends.simps)
  with budget_bounds_requests [OF refl, of "\<lambda>_. True" "[demo_get, demo_get, demo_get]" "[demo_arm]" ALLOWED_ORIGINS "[]" "[]"]
    demo_budget show ?thesis unfolding Let_def g by (simp del: sends.simps arm_free.simps)
qed

text \<open>A disarm with the token the guard was armed with.\<close>

definition demo_token :: string where "demo_token = ''0123456789abcdef0123456789abcdef''"

lemma demo_disarm:
  "\<exists>body. counters (JObj [(points_of ''token'', JStr (points_of demo_token))]) True
     (demo_guard\<lparr>gd_token := Some demo_token\<rparr>) =
   (Inr (200, body), disarmed (demo_guard\<lparr>gd_token := Some demo_token\<rparr>))"
proof -
  have "guard_token demo_token"
    by (simp add: guard_token_def demo_token_def pat_def is_hex_def is_digit_def)
  moreover have "as_ascii (points_of demo_token) = Some demo_token"
    by (rule points_of_ascii) (simp add: demo_token_def)
  ultimately show ?thesis
    by (simp add: counters_def field_def has_keys_def)
qed

theorem stopped_guard_is_silent_witness:
  "sends (\<lambda>_. True) [demo_get, demo_get] (disarmed (demo_guard\<lparr>gd_token := Some demo_token\<rparr>)) = []"
proof -
  obtain body where run: "counters (JObj [(points_of ''token'', JStr (points_of demo_token))]) True
     (demo_guard\<lparr>gd_token := Some demo_token\<rparr>) =
   (Inr (200, body), disarmed (demo_guard\<lparr>gd_token := Some demo_token\<rparr>))"
    using demo_disarm by blast
  have ok: "guard_ok (demo_guard\<lparr>gd_token := Some demo_token\<rparr>)"
    using demo_guard_ok
    by (auto simp: demo_fields guard_ok_def scope_ok_def counts_ok_def split: guard_mode.splits if_splits)
  show ?thesis
    by (rule stopped_guard_is_silent [OF ok _ disjI2 [OF run [symmetric]]])
       (simp add: arms_def demo_get_def)
qed

text \<open>The counters of a reachable guard are consistent: the per-path counts are for allowlisted
  operations and sum to the forwarded requests, which fit the budget, and every forwarded or
  blocked request was received; an armed guard is armed for one of its own origins.\<close>

theorem guard_counters_are_consistent:
  assumes "g = fold (guard_step ip) ops (boot_guard origins secret booted)"
  shows "sum_list (map snd (gd_per_path g)) = gd_forwarded g \<and>
    fst ` set (gd_per_path g) \<subseteq> set (gd_allowlist g) \<and> int (gd_forwarded g) \<le> gd_max_requests g \<and>
    gd_forwarded g + sum_list (map snd (gd_blocked g)) \<le> gd_received g \<and>
    (gd_armed g \<longrightarrow> (\<exists>origin \<in> set (gd_allowed_origins g). gd_origin g = Some origin))"
proof -
  have "guard_ok g"
    unfolding assms by (rule guard_inv.inv_reachable) blast
  then show ?thesis
    by (auto simp: guard_ok_def counts_ok_def scope_ok_def)
qed

theorem guard_counters_are_consistent_witness:
  "let g = fold (guard_step (\<lambda>_. True)) [demo_get] (boot_guard ALLOWED_ORIGINS [] []) in
   sum_list (map snd (gd_per_path g)) = gd_forwarded g"
  using guard_counters_are_consistent [OF refl, of "\<lambda>_. True" "[demo_get]" ALLOWED_ORIGINS "[]" "[]"]
  by (simp add: Let_def)

text \<open>While the guard is armed, no arming request changes anything: it is refused, with BUSY when
  it is otherwise valid, so the armed scope can be neither widened nor replaced.\<close>

theorem rearming_is_refused_while_armed:
  assumes "is_armed c1 g"
  shows "snd (arm_guard token c0 c1 c2 c3 payload g) = g \<and>
    (\<forall>body. fst (arm_guard token c0 c1 c2 c3 payload g) \<noteq> Inr (200, body))"
proof -
  obtain r t where run: "arm_guard token c0 c1 c2 c3 payload g = (r, t)" by fastforce
  then have "t = g \<and> (\<forall>body. r \<noteq> Inr (200, body))"
    by (cases rule: arm_cases) (use assms in auto)
  with run show ?thesis by simp
qed

theorem rearming_is_refused_while_armed_witness:
  "snd (arm_guard ''x'' demo_clock demo_clock demo_clock demo_clock JNull demo_guard) = demo_guard"
  using rearming_is_refused_while_armed [OF demo_armed] by blast

text \<open>A control request without the control credential is refused and changes nothing, and the
  counters are given out, and the guard disarmed, only to the token it was armed with.\<close>

theorem control_needs_its_credentials:
  "(\<not> authorized (cr_control q) g \<longrightarrow>
      (\<exists>status body. handle_post token c0 c1 c2 c3 q g = (Inr (status, body), g) \<and> status \<in> {403, 404})) \<and>
   (counters payload disarm g = (Inr (200, body), t) \<longrightarrow>
      (\<exists>kvs tok. payload = JObj kvs \<and> str_field kvs ''token'' = Some tok \<and> gd_token g = Some tok \<and>
        t = (if disarm then disarmed g else g)))"
  by (auto simp: handle_post_def bindE_run error_reply_def counters_def str_field_def
      split: json.splits option.splits if_splits)

theorem control_needs_its_credentials_witness:
  "(\<exists>status body. handle_post ''x'' demo_clock demo_clock demo_clock demo_clock
      \<lparr>cr_path = ''/v1/arm'', cr_control = [], cr_content_type = [], cr_content_length = [], cr_body = None\<rparr>
      (boot_guard ALLOWED_ORIGINS ''secret'' []) = (Inr (status, body), boot_guard ALLOWED_ORIGINS ''secret'' []) \<and>
      status \<in> {403, 404}) \<and>
   (\<exists>kvs tok. JObj [(points_of ''token'', JStr (points_of demo_token))] = JObj kvs \<and>
      str_field kvs ''token'' = Some tok)"
proof -
  have "\<not> authorized [] (boot_guard ALLOWED_ORIGINS ''secret'' [])"
    by (simp add: authorized_def boot_guard_def utf8_latin_def)
  then show ?thesis
    using control_needs_its_credentials
        [of "\<lparr>cr_path = ''/v1/arm'', cr_control = [], cr_content_type = [], cr_content_length = [], cr_body = None\<rparr>"
          "boot_guard ALLOWED_ORIGINS ''secret'' []" "''x''" demo_clock demo_clock demo_clock demo_clock]
      control_needs_its_credentials [of _ "demo_guard\<lparr>gd_token := Some demo_token\<rparr>" _ _ _ _ _
          "JObj [(points_of ''token'', JStr (points_of demo_token))]" True] demo_disarm
    by (metis control_request.select_convs(2))
qed

text \<open>A target whose bracketed host \<open>urlsplit\<close> refuses is received, and then neither forwarded nor
  counted as blocked: the \<open>ValueError\<close> leaves \<open>admit\<close>.\<close>

lemma unparsable_target_is_uncounted:
  assumes "is_armed c g" and "urlsplit ip target = None"
  shows "handle_proxy ip c up ''GET'' target hs g = (Inl Py_ValueError, g\<lparr>gd_received := gd_received g + 1\<rparr>)"
  using assms by (simp add: handle_proxy_def handle_forward_def admit_def bindE_run Let_def)

lemma unparsable_target: "urlsplit ip ''http://['' = None"
  by (simp add: urlsplit_def url_clean_def url_scheme_def partition_at_def is_lower_def is_upper_def
      scheme_char_def is_alnum_def is_digit_def lower_latin_def authority_end_def brackets_ok_def)

end
