(* ===== verification/Agent_Budget.thy ===== *)
theory Agent_Budget
  imports Web
begin

text \<open>
  The three budgets of the agent runtime: \<open>ScanBudget\<close> (\<open>aegis/budget.py\<close>), the atomic
  per-campaign and per-agent budget (\<open>multi_agent/budget.py\<close> with the ledger types of
  \<open>multi_agent/contracts.py\<close>), and the reserve-before-dispatch provider budget with the live
  execution guard (\<open>multi_agent/live_safety.py\<close>).

  Clock readings are inputs in nanoseconds.  Quantities that the contracts constrain to be
  non-negative are natural numbers; the provider budget, whose fields are plain Python
  integers, keeps integers.
\<close>

section \<open>Rounding\<close>

text \<open>\<open>round(n / d)\<close> of Python for a positive divisor: to the nearest integer, ties to even.\<close>

definition py_round :: "int \<Rightarrow> int \<Rightarrow> int" where
  "py_round n d = (let q = n div d; r = n mod d in
     if 2 * r < d \<or> 2 * r = d \<and> even q then q else q + 1)"

lemma py_round_nonneg: "0 \<le> n \<Longrightarrow> 0 < d \<Longrightarrow> 0 \<le> py_round n d"
  by (simp add: py_round_def Let_def pos_imp_zdiv_nonneg_iff add_nonneg_nonneg)

section \<open>Campaign budget\<close>

record budget_limit =
  bl_model_calls :: nat
  bl_tokens :: nat
  bl_target_requests :: nat
  bl_commands :: nat
  bl_elapsed_ms :: int
  bl_evidence_bytes :: nat

definition limit_ok :: "budget_limit \<Rightarrow> bool" where
  "limit_ok l \<longleftrightarrow>
     bl_model_calls l \<le> 100 \<and> bl_tokens l \<le> 1000000 \<and> bl_target_requests l \<le> 10000 \<and>
     bl_commands l \<le> 1000 \<and> 1 \<le> bl_elapsed_ms l \<and> bl_elapsed_ms l \<le> 86400000 \<and>
     bl_evidence_bytes l \<le> 100000000"

record budget_usage =
  bu_model_calls :: nat
  bu_input_tokens :: nat
  bu_output_tokens :: nat
  bu_target_requests :: nat
  bu_commands :: nat
  bu_elapsed_ms :: int
  bu_evidence_bytes :: nat

definition no_spend :: budget_usage where
  "no_spend = \<lparr>bu_model_calls = 0, bu_input_tokens = 0, bu_output_tokens = 0,
     bu_target_requests = 0, bu_commands = 0, bu_elapsed_ms = 0, bu_evidence_bytes = 0\<rparr>"

definition bu_tokens :: "budget_usage \<Rightarrow> nat" where
  "bu_tokens u = bu_input_tokens u + bu_output_tokens u"

record agent_ledger =
  lg_run_id :: string
  lg_agent_id :: "string option"
  lg_limit :: budget_limit
  lg_usage :: budget_usage

record ceiling =
  ce_tokens :: nat
  ce_model_calls :: nat

record atomic_budget =
  ab_ceiling :: ceiling
  ab_global :: agent_ledger
  ab_agents :: "(string \<times> agent_ledger) list"
  ab_started :: int

datatype budget_error = AgentBudgetExceeded string | Budget_ValueError string | Budget_Invalid

type_synonym 'a budgeted = "(atomic_budget, budget_error, 'a) prog"

definition run_id_ok :: "string \<Rightarrow> bool" where "run_id_ok s \<longleftrightarrow> pat ''marun-'' is_hex 16 16 s"
definition agent_id_ok :: "string \<Rightarrow> bool" where "agent_id_ok s \<longleftrightarrow> pat ''agent-'' is_hex 16 16 s"

definition fresh_ledger :: "string \<Rightarrow> string option \<Rightarrow> budget_limit \<Rightarrow> agent_ledger option" where
  "fresh_ledger run agent limit =
     (if run_id_ok run \<and> (case agent of None \<Rightarrow> True | Some a \<Rightarrow> agent_id_ok a) then
        Some \<lparr>lg_run_id = run, lg_agent_id = agent, lg_limit = limit, lg_usage = no_spend\<rparr>
      else None)"

definition new_budget :: "string \<Rightarrow> budget_limit \<Rightarrow> ceiling \<Rightarrow> int \<Rightarrow> budget_error + atomic_budget" where
  "new_budget run limit ceil now =
     (if ce_tokens ceil < bl_tokens limit then Inl (AgentBudgetExceeded ''CAMPAIGN_TOKEN_CEILING'')
      else if ce_model_calls ceil < bl_model_calls limit then
        Inl (AgentBudgetExceeded ''CAMPAIGN_MODEL_CALL_CEILING'')
      else (case fresh_ledger run None limit of
          None \<Rightarrow> Inl Budget_Invalid
        | Some l \<Rightarrow> Inr \<lparr>ab_ceiling = ceil, ab_global = l, ab_agents = [], ab_started = now\<rparr>))"

definition register_agent :: "string \<Rightarrow> budget_limit \<Rightarrow> unit budgeted" where
  "register_agent agent limit =
     bindE (getE ab_agents) (\<lambda>agents.
     thenE (rejectE (map_of agents agent \<noteq> None) (Budget_ValueError ''AGENT_BUDGET_ALREADY_REGISTERED''))
     (bindE (getE (\<lambda>b. lg_run_id (ab_global b))) (\<lambda>run.
      case fresh_ledger run (Some agent) limit of
        None \<Rightarrow> throwE Budget_Invalid
      | Some l \<Rightarrow> modifyE (\<lambda>b. b\<lparr>ab_agents := AList.update agent l (ab_agents b)\<rparr>))))"

definition check_ledger :: "agent_ledger \<Rightarrow> budget_usage \<Rightarrow> int \<Rightarrow> string option" where
  "check_ledger l d elapsed =
     (let u = lg_usage l; m = lg_limit l in
      if bl_model_calls m < bu_model_calls u + bu_model_calls d then Some ''MODEL_CALL_BUDGET''
      else if bl_tokens m < bu_tokens u + bu_tokens d then Some ''TOKEN_BUDGET''
      else if bl_target_requests m < bu_target_requests u + bu_target_requests d then
        Some ''TARGET_REQUEST_BUDGET''
      else if bl_commands m < bu_commands u + bu_commands d then Some ''COMMAND_BUDGET''
      else if bl_evidence_bytes m < bu_evidence_bytes u + bu_evidence_bytes d then Some ''EVIDENCE_BUDGET''
      else if bl_elapsed_ms m < elapsed then Some ''ELAPSED_TIME_BUDGET''
      else None)"

definition apply_usage :: "budget_usage \<Rightarrow> budget_usage \<Rightarrow> int \<Rightarrow> budget_usage" where
  "apply_usage u d elapsed = u\<lparr>
     bu_model_calls := bu_model_calls u + bu_model_calls d,
     bu_input_tokens := bu_input_tokens u + bu_input_tokens d,
     bu_output_tokens := bu_output_tokens u + bu_output_tokens d,
     bu_target_requests := bu_target_requests u + bu_target_requests d,
     bu_commands := bu_commands u + bu_commands d,
     bu_evidence_bytes := bu_evidence_bytes u + bu_evidence_bytes d,
     bu_elapsed_ms := elapsed\<rparr>"

definition charge_ledger :: "budget_usage \<Rightarrow> int \<Rightarrow> agent_ledger \<Rightarrow> agent_ledger" where
  "charge_ledger d elapsed l = l\<lparr>lg_usage := apply_usage (lg_usage l) d elapsed\<rparr>"

definition budget_check :: "agent_ledger \<Rightarrow> budget_usage \<Rightarrow> int \<Rightarrow> unit budgeted" where
  "budget_check l d elapsed =
     (case check_ledger l d elapsed of None \<Rightarrow> retE () | Some code \<Rightarrow> throwE (AgentBudgetExceeded code))"

definition consume_budget :: "int \<Rightarrow> string option \<Rightarrow> budget_usage \<Rightarrow> unit budgeted" where
  "consume_budget now agent d =
     bindE (getE (\<lambda>b. py_round (now - ab_started b) 1000000)) (\<lambda>elapsed.
     bindE (getE ab_global) (\<lambda>global.
     thenE (budget_check global d elapsed)
     (bindE (getE (\<lambda>b. case agent of
          None \<Rightarrow> None | Some a \<Rightarrow> if a = [] then None else map_of (ab_agents b) a)) (\<lambda>ledger.
      thenE (rejectE (agent \<noteq> None \<and> ledger = None) (Budget_ValueError ''AGENT_BUDGET_NOT_REGISTERED''))
      (thenE (case ledger of None \<Rightarrow> retE () | Some l \<Rightarrow> budget_check l d elapsed)
       (thenE (modifyE (\<lambda>b. b\<lparr>ab_global := charge_ledger d elapsed (ab_global b)\<rparr>))
        (case (agent, ledger) of
           (Some a, Some l) \<Rightarrow>
             modifyE (\<lambda>b. b\<lparr>ab_agents := AList.update a (charge_ledger d elapsed l) (ab_agents b)\<rparr>)
         | _ \<Rightarrow> retE ())))))))"

definition reconcile_elapsed :: "int \<Rightarrow> unit budgeted" where
  "reconcile_elapsed now = consume_budget now None no_spend"

section \<open>Scan budget\<close>

record scan_settings =
  st_max_requests_per_scan :: nat
  st_scan_timeout_ns :: int
  st_max_iterations :: nat
  st_max_model_calls :: nat
  st_max_tokens_per_scan :: int

record scan_budget =
  sb_settings :: scan_settings
  sb_requests :: nat
  sb_iterations :: nat
  sb_model_calls :: nat
  sb_reserved_tokens :: int
  sb_max_requests :: nat
  sb_time_budget :: int
  sb_deadline :: int

type_synonym 'a scanning = "(scan_budget, string, 'a) prog"

text \<open>\<open>max_requests or settings...\<close>: an absent value and zero both mean the setting.\<close>

definition or_default :: "'a::zero option \<Rightarrow> 'a \<Rightarrow> 'a" where
  "or_default x d = (case x of None \<Rightarrow> d | Some v \<Rightarrow> if v = 0 then d else v)"

definition new_scan_budget :: "scan_settings \<Rightarrow> nat option \<Rightarrow> int option \<Rightarrow> int \<Rightarrow> scan_budget" where
  "new_scan_budget st requests time_budget now =
     (let t = min (or_default time_budget (st_scan_timeout_ns st)) (st_scan_timeout_ns st) in
      \<lparr>sb_settings = st, sb_requests = 0, sb_iterations = 0, sb_model_calls = 0, sb_reserved_tokens = 0,
       sb_max_requests = min (or_default requests (st_max_requests_per_scan st)) (st_max_requests_per_scan st),
       sb_time_budget = t, sb_deadline = now + t\<rparr>)"

definition check_time :: "int \<Rightarrow> unit scanning" where
  "check_time now = bindE (getE sb_deadline) (\<lambda>d. rejectE (d \<le> now) ''TIME_BUDGET'')"

definition remaining_time_ms :: "int \<Rightarrow> scan_budget \<Rightarrow> int" where
  "remaining_time_ms now b = max 0 (py_round (sb_deadline b - now) 1000000)"

definition scan_request :: "int \<Rightarrow> unit scanning" where
  "scan_request now =
     thenE (check_time now)
     (bindE (getE (\<lambda>b. sb_max_requests b \<le> sb_requests b)) (\<lambda>full.
      thenE (rejectE full ''REQUEST_BUDGET'')
      (modifyE (\<lambda>b. b\<lparr>sb_requests := sb_requests b + 1\<rparr>))))"

definition scan_iteration :: "int \<Rightarrow> unit scanning" where
  "scan_iteration now =
     thenE (check_time now)
     (bindE (getE (\<lambda>b. st_max_iterations (sb_settings b) \<le> sb_iterations b)) (\<lambda>full.
      thenE (rejectE full ''ITERATION_BUDGET'')
      (modifyE (\<lambda>b. b\<lparr>sb_iterations := sb_iterations b + 1\<rparr>))))"

definition scan_model_call :: "int \<Rightarrow> int \<Rightarrow> unit scanning" where
  "scan_model_call now reservation =
     thenE (check_time now)
     (bindE (getE (\<lambda>b. st_max_model_calls (sb_settings b) \<le> sb_model_calls b)) (\<lambda>full.
      thenE (rejectE full ''MODEL_CALL_BUDGET'')
      (bindE (getE (\<lambda>b. st_max_tokens_per_scan (sb_settings b) < sb_reserved_tokens b + reservation)) (\<lambda>over.
       thenE (rejectE over ''TOKEN_RESERVATION_BUDGET'')
       (modifyE (\<lambda>b. b\<lparr>sb_model_calls := sb_model_calls b + 1,
          sb_reserved_tokens := sb_reserved_tokens b + reservation\<rparr>))))))"

section \<open>Live execution guard\<close>

datatype live_error = LiveAuthorizationRequired | InvalidLiveBudget

record live_request =
  lv_execute_live :: bool
  lv_authorization_ref :: "string option"
  lv_max_provider_calls :: "int option"
  lv_max_total_tokens :: "int option"

record live_policy =
  lp_max_provider_calls :: int
  lp_max_total_tokens :: int
  lp_output_ceiling :: int

record armed_live =
  av_authorization_ref :: string
  av_max_provider_calls :: int
  av_max_total_tokens :: int

fun contains_some :: "(string \<Rightarrow> bool) \<Rightarrow> string \<Rightarrow> bool" where
  "contains_some p [] = p []"
| "contains_some p (c # s) = (p (c # s) \<or> contains_some p s)"

definition secretish :: "string \<Rightarrow> bool" where
  "secretish s = contains_some (\<lambda>t.
     list_ex (\<lambda>w. take (length w) t = w)
       [''sk-'', ''apikey'', ''api_key'', ''api-key'', ''token='', ''secret''] \<or>
     take 6 t = ''bearer'' \<and> (case drop 6 t of [] \<Rightarrow> False | c # _ \<Rightarrow> latin_space c)) (lower_latin s)"

definition authorization_ref_ok :: "string \<Rightarrow> bool" where
  "authorization_ref_ok s \<longleftrightarrow> s \<noteq> [] \<and> is_alnum (hd s) \<and>
     pat [] (\<lambda>c. is_alnum c \<or> c \<in> {CHR ''.'', CHR ''_'', CHR '':'', CHR ''-''}) 2 119 (tl s)"

definition evaluate_live :: "live_policy \<Rightarrow> live_request \<Rightarrow> live_error + armed_live" where
  "evaluate_live p r =
     (if \<not> lv_execute_live r then Inl LiveAuthorizationRequired
      else
        let ref = strip (case lv_authorization_ref r of None \<Rightarrow> [] | Some s \<Rightarrow> s) in
        if ref = [] then Inl LiveAuthorizationRequired
        else if secretish ref \<or> \<not> authorization_ref_ok ref then Inl LiveAuthorizationRequired
        else (case (lv_max_provider_calls r, lv_max_total_tokens r) of
            (Some calls, Some tokens) \<Rightarrow>
              if calls \<noteq> lp_max_provider_calls p then Inl InvalidLiveBudget
              else if tokens \<noteq> lp_max_total_tokens p then Inl InvalidLiveBudget
              else Inr \<lparr>av_authorization_ref = ref, av_max_provider_calls = calls, av_max_total_tokens = tokens\<rparr>
          | _ \<Rightarrow> Inl InvalidLiveBudget))"

definition live_is_armed :: "live_policy \<Rightarrow> live_request \<Rightarrow> bool" where
  "live_is_armed p r = (case evaluate_live p r of Inl _ \<Rightarrow> False | Inr _ \<Rightarrow> True)"

section \<open>Provider budget\<close>

record reservation =
  rv_index :: int
  rv_operation :: string
  rv_estimated_input :: int
  rv_max_output :: int
  rv_reserved_tokens :: int

record attempt_usage =
  au_index :: int
  au_operation :: string
  au_reserved_tokens :: int
  au_input_tokens :: "int option"
  au_output_tokens :: "int option"
  au_total_tokens :: "int option"
  au_known :: bool

record provider_budget =
  pb_max_calls :: int
  pb_max_tokens :: int
  pb_output_ceiling :: int
  pb_calls_reserved :: int
  pb_calls_recorded :: int
  pb_tokens_recorded :: int
  pb_usage_complete :: bool
  pb_outstanding :: "reservation option"
  pb_attempts :: "attempt_usage list"

datatype budget_stop = CONCURRENCY_VIOLATION | PRIOR_USAGE_UNKNOWN_CEILING_UNENFORCEABLE
  | PER_CALL_OUTPUT_CEILING_EXCEEDED | CALL_CEILING | TOKEN_CEILING | RESERVATION_MISMATCH

type_synonym 'a provided = "(provider_budget, budget_stop, 'a) prog"

definition new_provider_budget :: "int \<Rightarrow> int \<Rightarrow> int \<Rightarrow> provider_budget" where
  "new_provider_budget calls tokens output =
     \<lparr>pb_max_calls = calls, pb_max_tokens = tokens, pb_output_ceiling = output, pb_calls_reserved = 0,
      pb_calls_recorded = 0, pb_tokens_recorded = 0, pb_usage_complete = True, pb_outstanding = None,
      pb_attempts = []\<rparr>"

definition reserve :: "string \<Rightarrow> int \<Rightarrow> int option \<Rightarrow> reservation provided" where
  "reserve operation estimated max_output = (\<lambda>b.
     let out = (case max_output of None \<Rightarrow> pb_output_ceiling b | Some m \<Rightarrow> m) in
     if pb_outstanding b \<noteq> None then (Inl CONCURRENCY_VIOLATION, b)
     else if \<not> pb_usage_complete b then (Inl PRIOR_USAGE_UNKNOWN_CEILING_UNENFORCEABLE, b)
     else if pb_output_ceiling b < out then (Inl PER_CALL_OUTPUT_CEILING_EXCEEDED, b)
     else if pb_max_calls b < pb_calls_reserved b + 1 then (Inl CALL_CEILING, b)
     else if pb_max_tokens b < pb_tokens_recorded b + max 0 estimated + max 0 out then (Inl TOKEN_CEILING, b)
     else
       let r = \<lparr>rv_index = pb_calls_reserved b + 1, rv_operation = operation,
             rv_estimated_input = max 0 estimated, rv_max_output = max 0 out,
             rv_reserved_tokens = max 0 estimated + max 0 out\<rparr> in
       (Inr r, b\<lparr>pb_calls_reserved := pb_calls_reserved b + 1, pb_outstanding := Some r\<rparr>))"

definition attempt_of :: "reservation \<Rightarrow> int option \<Rightarrow> int option \<Rightarrow> attempt_usage" where
  "attempt_of r input output =
     \<lparr>au_index = rv_index r, au_operation = rv_operation r, au_reserved_tokens = rv_reserved_tokens r,
      au_input_tokens = input, au_output_tokens = output,
      au_total_tokens = (case (input, output) of (Some i, Some j) \<Rightarrow> Some (max 0 i + max 0 j) | _ \<Rightarrow> None),
      au_known = (input \<noteq> None \<and> output \<noteq> None)\<rparr>"

definition record_actual :: "reservation \<Rightarrow> int option \<Rightarrow> int option \<Rightarrow> attempt_usage provided" where
  "record_actual r input output = (\<lambda>b.
     if (case pb_outstanding b of None \<Rightarrow> True | Some o' \<Rightarrow> rv_index o' \<noteq> rv_index r) then
       (Inl RESERVATION_MISMATCH, b)
     else
       let a = attempt_of r input output in
       (Inr a, b\<lparr>pb_outstanding := None, pb_calls_recorded := pb_calls_recorded b + 1,
          pb_tokens_recorded := pb_tokens_recorded b +
            (case au_total_tokens a of None \<Rightarrow> 0 | Some n \<Rightarrow> n),
          pb_usage_complete := pb_usage_complete b \<and> au_known a,
          pb_attempts := pb_attempts b @ [a]\<rparr>))"

definition within_ceilings :: "provider_budget \<Rightarrow> bool" where
  "within_ceilings b \<longleftrightarrow> pb_calls_recorded b \<le> pb_max_calls b \<and> pb_tokens_recorded b \<le> pb_max_tokens b"

end
