(* ===== verification/Agent_Budget_Props.thy ===== *)
theory Agent_Budget_Props
  imports Agent_Budget
begin

text \<open>
  The budgets hold: no ledger ever exceeds its limit, the campaign ledger covers the sum of the
  agents' ledgers, a refused charge changes nothing, and the provider budget never commits
  more calls or tokens than its ceilings as long as providers keep to their reservations.
\<close>

section \<open>The campaign budget\<close>

datatype budget_op = Register_Agent string budget_limit | Consume int "string option" budget_usage
  | Reconcile int

definition budget_step :: "budget_op \<Rightarrow> atomic_budget \<Rightarrow> atomic_budget" where
  "budget_step op b = (case op of
       Register_Agent a l \<Rightarrow> snd (register_agent a l b)
     | Consume now a d \<Rightarrow> snd (consume_budget now a d b)
     | Reconcile now \<Rightarrow> snd (reconcile_elapsed now b))"

definition within_limit :: "agent_ledger \<Rightarrow> bool" where
  "within_limit l \<longleftrightarrow>
     bu_model_calls (lg_usage l) \<le> bl_model_calls (lg_limit l) \<and>
     bu_tokens (lg_usage l) \<le> bl_tokens (lg_limit l) \<and>
     bu_target_requests (lg_usage l) \<le> bl_target_requests (lg_limit l) \<and>
     bu_commands (lg_usage l) \<le> bl_commands (lg_limit l) \<and>
     bu_evidence_bytes (lg_usage l) \<le> bl_evidence_bytes (lg_limit l)"

lemma check_ledger_None:
  "check_ledger l d elapsed = None \<Longrightarrow> within_limit (charge_ledger d elapsed l) \<and> elapsed \<le> bl_elapsed_ms (lg_limit l)"
  by (auto simp: check_ledger_def within_limit_def charge_ledger_def apply_usage_def bu_tokens_def Let_def
      split: if_splits)

lemma charge_ledger_simps [simp]:
  "lg_limit (charge_ledger d elapsed l) = lg_limit l" "lg_run_id (charge_ledger d elapsed l) = lg_run_id l"
  "lg_agent_id (charge_ledger d elapsed l) = lg_agent_id l"
  by (simp_all add: charge_ledger_def)

text \<open>What a charge does: it either is refused as a whole, or goes to the campaign and, when an
  agent is named, to that agent.\<close>

lemma consume_budget_cases:
  obtains (refused) e where "consume_budget now agent d b = (Inl e, b)"
    | (charged) elapsed where "consume_budget now agent d b =
          (Inr (), b\<lparr>ab_global := charge_ledger d elapsed (ab_global b)\<rparr>)"
        and "agent = None" and "elapsed = py_round (now - ab_started b) 1000000"
        and "check_ledger (ab_global b) d elapsed = None"
    | (agent) elapsed a l where "consume_budget now agent d b =
          (Inr (), b\<lparr>ab_global := charge_ledger d elapsed (ab_global b),
             ab_agents := AList.update a (charge_ledger d elapsed l) (ab_agents b)\<rparr>)"
        and "agent = Some a" and "map_of (ab_agents b) a = Some l"
        and "elapsed = py_round (now - ab_started b) 1000000"
        and "check_ledger (ab_global b) d elapsed = None" and "check_ledger l d elapsed = None"
proof -
  let ?e = "py_round (now - ab_started b) 1000000"
  show thesis
  proof (cases "check_ledger (ab_global b) d ?e")
    case (Some code)
    then show thesis
      by (intro refused) (simp add: consume_budget_def budget_check_def bindE_run)
  next
    case global: None
    show thesis
    proof (cases agent)
      case None
      with global show thesis
        by (intro charged) (simp_all add: consume_budget_def budget_check_def bindE_run rejectE_run)
    next
      case (Some a)
      show thesis
      proof (cases "if a = [] then None else map_of (ab_agents b) a")
        case None
        with global Some show thesis
          by (intro refused) (simp add: consume_budget_def budget_check_def bindE_run rejectE_run)
      next
        case l: (Some l)
        then have l': "map_of (ab_agents b) a = Some l" by (simp split: if_splits)
        show thesis
        proof (cases "check_ledger l d ?e")
          case None
          with global Some l l' show thesis
            by (intro agent [OF _ Some l' refl global None])
               (simp add: consume_budget_def budget_check_def bindE_run rejectE_run split: if_splits)
        next
          case (Some code)
          with global \<open>agent = Some a\<close> l l' show thesis
            by (intro refused)
               (simp add: consume_budget_def budget_check_def bindE_run rejectE_run split: if_splits)
        qed
      qed
    qed
  qed
qed

text \<open>The counters that a charge adds to: for each of them the campaign's ledger covers the sum over
  its agents.\<close>

locale spend_counter =
  fixes count :: "budget_usage \<Rightarrow> nat"
  assumes count_apply: "count (apply_usage u d elapsed) = count u + count d"
    and count_none: "count no_spend = 0"
begin

definition agents_total :: "(string \<times> agent_ledger) list \<Rightarrow> nat" where
  "agents_total t = sum_list (map (\<lambda>(_, l). count (lg_usage l)) t)"

lemma count_charge: "count (lg_usage (charge_ledger d elapsed l)) = count (lg_usage l) + count d"
  by (simp add: charge_ledger_def count_apply)

lemma agents_total_charge:
  "map_of t a = Some l \<Longrightarrow>
   agents_total (AList.update a (charge_ledger d elapsed l) t) = agents_total t + count d"
  by (induction t) (auto simp: agents_total_def charge_ledger_def count_apply split: if_splits)

lemma agents_total_register:
  "map_of t a = None \<Longrightarrow> lg_usage l = no_spend \<Longrightarrow> agents_total (AList.update a l t) = agents_total t"
  by (induction t) (auto simp: agents_total_def count_none split: if_splits)

definition covered :: "atomic_budget \<Rightarrow> bool" where
  "covered b \<longleftrightarrow> agents_total (ab_agents b) \<le> count (lg_usage (ab_global b))"

lemma covered_new: "new_budget run limit ceil now = Inr b \<Longrightarrow> covered b"
  by (auto simp: new_budget_def covered_def agents_total_def split: if_splits option.splits)

lemma covered_consume: "covered b \<Longrightarrow> covered (snd (consume_budget now agent d b))"
  by (cases rule: consume_budget_cases [of now agent d b])
     (auto simp: covered_def agents_total_charge count_charge)

lemma covered_register: "covered b \<Longrightarrow> covered (snd (register_agent a l b))"
  by (auto simp: register_agent_def covered_def bindE_run rejectE_run agents_total_register
      fresh_ledger_def split: option.split if_splits)

lemma covered_step: "covered b \<Longrightarrow> covered (budget_step op b)"
  by (cases op) (simp_all add: budget_step_def reconcile_elapsed_def covered_consume covered_register)

lemma covered_run: "covered b \<Longrightarrow> covered (fold budget_step ops b)"
  by (induction ops arbitrary: b) (simp_all add: covered_step)

end

interpretation calls: spend_counter bu_model_calls
  by unfold_locales (simp_all add: apply_usage_def no_spend_def)

interpretation tokens: spend_counter bu_tokens
  by unfold_locales (simp_all add: apply_usage_def no_spend_def bu_tokens_def)

interpretation requests: spend_counter bu_target_requests
  by unfold_locales (simp_all add: apply_usage_def no_spend_def)

interpretation commands: spend_counter bu_commands
  by unfold_locales (simp_all add: apply_usage_def no_spend_def)

interpretation evidence: spend_counter bu_evidence_bytes
  by unfold_locales (simp_all add: apply_usage_def no_spend_def)

definition ledgers_ok :: "atomic_budget \<Rightarrow> bool" where
  "ledgers_ok b \<longleftrightarrow>
     within_limit (ab_global b) \<and> (\<forall>(a, l) \<in> set (ab_agents b). within_limit l) \<and>
     bl_tokens (lg_limit (ab_global b)) \<le> ce_tokens (ab_ceiling b) \<and>
     bl_model_calls (lg_limit (ab_global b)) \<le> ce_model_calls (ab_ceiling b)"

lemma set_update_subset': "set (AList.update k v t) \<subseteq> insert (k, v) (set t)"
  by (induction t) auto

lemma fresh_within: "fresh_ledger run agent limit = Some l \<Longrightarrow> within_limit l"
  by (auto simp: fresh_ledger_def within_limit_def no_spend_def bu_tokens_def split: if_splits)

interpretation budget_inv: invariant_system
  "\<lambda>b. \<exists>run limit ceil now. new_budget run limit ceil now = Inr b" budget_step ledgers_ok
proof unfold_locales
  fix b assume "\<exists>run limit ceil now. new_budget run limit ceil now = Inr b"
  then show "ledgers_ok b"
    by (auto simp: new_budget_def ledgers_ok_def fresh_within fresh_ledger_def split: if_splits option.splits)
       (auto simp: within_limit_def no_spend_def bu_tokens_def)
next
  fix b op assume ok: "ledgers_ok b"
  have consume: "ledgers_ok (snd (consume_budget now agent d b))" for now agent d
  proof (cases rule: consume_budget_cases [of now agent d b])
    case (charged elapsed)
    then show ?thesis using ok check_ledger_None by (auto simp: ledgers_ok_def)
  next
    case (agent elapsed a l)
    then show ?thesis
      using ok check_ledger_None set_update_subset' [of a "charge_ledger d elapsed l" "ab_agents b"]
      by (auto simp: ledgers_ok_def)
  qed (use ok in auto)
  have register: "ledgers_ok (snd (register_agent a limit b))" for a limit
  proof (cases "fresh_ledger (lg_run_id (ab_global b)) (Some a) limit")
    case (Some l)
    then show ?thesis
      using ok fresh_within set_update_subset' [of a l "ab_agents b"]
      by (auto simp: register_agent_def ledgers_ok_def bindE_run rejectE_run)
  qed (use ok in \<open>auto simp: register_agent_def bindE_run rejectE_run\<close>)
  show "ledgers_ok (budget_step op b)"
    by (cases op) (simp_all add: budget_step_def reconcile_elapsed_def consume register)
qed

definition demo_limit :: budget_limit where
  "demo_limit = \<lparr>bl_model_calls = 2, bl_tokens = 100, bl_target_requests = 3, bl_commands = 1,
     bl_elapsed_ms = 1000, bl_evidence_bytes = 50\<rparr>"

definition demo_ceiling :: ceiling where "demo_ceiling = \<lparr>ce_tokens = 1000, ce_model_calls = 10\<rparr>"

definition demo_run_id :: string where "demo_run_id = ''marun-0123456789abcdef''"
definition demo_agent_id :: string where "demo_agent_id = ''agent-0123456789abcdef''"

definition demo_budget :: atomic_budget where
  "demo_budget = \<lparr>ab_ceiling = demo_ceiling, ab_global = \<lparr>lg_run_id = demo_run_id, lg_agent_id = None,
     lg_limit = demo_limit, lg_usage = no_spend\<rparr>, ab_agents = [], ab_started = 0\<rparr>"

lemma demo_new: "new_budget demo_run_id demo_limit demo_ceiling 0 = Inr demo_budget"
proof -
  have "run_id_ok demo_run_id"
    by (simp add: run_id_ok_def demo_run_id_def pat_def is_hex_def is_digit_def)
  then show ?thesis
    by (simp add: new_budget_def fresh_ledger_def demo_budget_def demo_limit_def demo_ceiling_def)
qed

text \<open>Whatever sequence of registrations and charges a campaign budget goes through, the campaign
  stays within its limit, which is within the operator's ceiling, every agent stays within its
  own limit, and for each counter the campaign's ledger covers the sum over all its agents.\<close>

theorem agents_spend_within_limits:
  assumes "new_budget run limit ceil now = Inr b0" and "b = fold budget_step ops b0"
  shows "within_limit (ab_global b) \<and> (\<forall>(a, l) \<in> set (ab_agents b). within_limit l) \<and>
    bl_tokens (lg_limit (ab_global b)) \<le> ce_tokens (ab_ceiling b) \<and>
    bl_model_calls (lg_limit (ab_global b)) \<le> ce_model_calls (ab_ceiling b) \<and>
    (\<forall>count \<in> {bu_model_calls, bu_tokens, bu_target_requests, bu_commands, bu_evidence_bytes}.
       sum_list (map (\<lambda>(_, l). count (lg_usage l)) (ab_agents b)) \<le> count (lg_usage (ab_global b)))"
proof -
  have "ledgers_ok b"
    unfolding assms(2) using assms(1) by (blast intro: budget_inv.inv_reachable)
  moreover note calls.covered_run [OF calls.covered_new [OF assms(1)], of ops]
    tokens.covered_run [OF tokens.covered_new [OF assms(1)], of ops]
    requests.covered_run [OF requests.covered_new [OF assms(1)], of ops]
    commands.covered_run [OF commands.covered_new [OF assms(1)], of ops]
    evidence.covered_run [OF evidence.covered_new [OF assms(1)], of ops]
  ultimately show ?thesis
    by (simp add: ledgers_ok_def assms(2) [symmetric] calls.covered_def calls.agents_total_def
        tokens.covered_def tokens.agents_total_def requests.covered_def requests.agents_total_def
        commands.covered_def commands.agents_total_def evidence.covered_def evidence.agents_total_def)
qed

theorem agents_spend_within_limits_witness:
  "within_limit (ab_global (fold budget_step
     [Register_Agent demo_agent_id demo_limit, Consume 1000000 (Some demo_agent_id) (no_spend\<lparr>bu_target_requests := 2\<rparr>),
      Consume 2000000 (Some demo_agent_id) (no_spend\<lparr>bu_target_requests := 2\<rparr>)] demo_budget))"
  using agents_spend_within_limits [OF demo_new refl] by blast

text \<open>A charge is all or nothing: when it is refused neither the campaign nor any agent is charged;
  when it is accepted the campaign, and the named agent if there is one, are charged exactly the
  amount asked for, and no other ledger changes.\<close>

theorem charges_are_atomic:
  "case consume_budget now agent d b of
     (Inl e, t) \<Rightarrow> t = b
   | (Inr _, t) \<Rightarrow>
       (\<exists>elapsed. ab_global t = charge_ledger d elapsed (ab_global b) \<and>
         (\<forall>a. map_of (ab_agents t) a =
            (if agent = Some a then map_option (charge_ledger d elapsed) (map_of (ab_agents b) a)
             else map_of (ab_agents b) a)))"
proof (cases rule: consume_budget_cases [of now agent d b])
  case (charged elapsed)
  then show ?thesis by auto
next
  case (agent elapsed a l)
  then show ?thesis by (auto simp: update_conv intro!: exI [of _ elapsed])
qed auto

section \<open>The scan budget\<close>

datatype scan_op = Scan_Request int | Scan_Iteration int | Scan_Model_Call int int

definition scan_step :: "scan_op \<Rightarrow> scan_budget \<Rightarrow> scan_budget" where
  "scan_step op b = (case op of
       Scan_Request now \<Rightarrow> snd (scan_request now b)
     | Scan_Iteration now \<Rightarrow> snd (scan_iteration now b)
     | Scan_Model_Call now n \<Rightarrow> snd (scan_model_call now n b))"

definition scan_ok :: "scan_budget \<Rightarrow> bool" where
  "scan_ok b \<longleftrightarrow>
     sb_requests b \<le> sb_max_requests b \<and> sb_max_requests b \<le> st_max_requests_per_scan (sb_settings b) \<and>
     sb_iterations b \<le> st_max_iterations (sb_settings b) \<and>
     sb_model_calls b \<le> st_max_model_calls (sb_settings b) \<and>
     (0 \<le> st_max_tokens_per_scan (sb_settings b) \<longrightarrow> sb_reserved_tokens b \<le> st_max_tokens_per_scan (sb_settings b)) \<and>
     sb_time_budget b \<le> st_scan_timeout_ns (sb_settings b)"

interpretation scan_inv: invariant_system
  "\<lambda>b. \<exists>st requests time now. b = new_scan_budget st requests time now" scan_step scan_ok
proof unfold_locales
  fix b assume "\<exists>st requests time now. b = new_scan_budget st requests time now"
  then show "scan_ok b" by (auto simp: new_scan_budget_def scan_ok_def Let_def)
next
  fix b op assume "scan_ok b"
  then show "scan_ok (scan_step op b)"
    by (cases op)
       (auto simp: scan_step_def scan_ok_def scan_request_def scan_iteration_def scan_model_call_def
          check_time_def bindE_run rejectE_run split: sum.split)
qed

section \<open>The provider budget\<close>

datatype provider_op = Reserve string int "int option" | Record_Actual reservation "int option" "int option"

definition provider_step :: "provider_op \<Rightarrow> provider_budget \<Rightarrow> provider_budget" where
  "provider_step op b = (case op of
       Reserve name est out \<Rightarrow> snd (reserve name est out b)
     | Record_Actual r i j \<Rightarrow> snd (record_actual r i j b))"

text \<open>A provider keeps to a reservation when the usage it reports for the outstanding call is no more
  than what was reserved for it.\<close>

definition keeps_to :: "provider_op \<Rightarrow> provider_budget \<Rightarrow> bool" where
  "keeps_to op b = (case op of
       Reserve name est out \<Rightarrow> True
     | Record_Actual r i j \<Rightarrow>
         (case (pb_outstanding b, i, j) of
            (Some o', Some n, Some m) \<Rightarrow> max 0 n + max 0 m \<le> rv_reserved_tokens o'
          | _ \<Rightarrow> True))"

fun all_keep_to :: "provider_op list \<Rightarrow> provider_budget \<Rightarrow> bool" where
  "all_keep_to [] b = True"
| "all_keep_to (x # xs) b = (keeps_to x b \<and> all_keep_to xs (provider_step x b))"

definition provider_ok :: "provider_budget \<Rightarrow> bool" where
  "provider_ok b \<longleftrightarrow>
     pb_calls_reserved b \<le> pb_max_calls b \<and>
     pb_calls_recorded b + (if pb_outstanding b = None then 0 else 1) = pb_calls_reserved b \<and>
     pb_tokens_recorded b + (case pb_outstanding b of None \<Rightarrow> 0 | Some r \<Rightarrow> rv_reserved_tokens r) \<le> pb_max_tokens b \<and>
     (\<forall>r. pb_outstanding b = Some r \<longrightarrow> pb_usage_complete b \<and> 0 \<le> rv_reserved_tokens r) \<and>
     int (length (pb_attempts b)) = pb_calls_recorded b"

lemma provider_ok_step: "provider_ok b \<Longrightarrow> keeps_to op b \<Longrightarrow> provider_ok (provider_step op b)"
proof (cases op)
  case (Reserve name est out)
  assume "provider_ok b"
  with Reserve show ?thesis
    by (auto simp: provider_step_def provider_ok_def reserve_def Let_def)
next
  case (Record_Actual r i j)
  assume "provider_ok b" "keeps_to op b"
  with Record_Actual show ?thesis
    by (cases "pb_outstanding b"; cases i; cases j)
       (auto simp: provider_step_def provider_ok_def record_actual_def keeps_to_def attempt_of_def Let_def)
qed

lemma provider_ok_run: "provider_ok b \<Longrightarrow> all_keep_to ops b \<Longrightarrow> provider_ok (fold provider_step ops b)"
  by (induction ops arbitrary: b) (auto intro: provider_ok_step)

lemma provider_fixed [simp]:
  "pb_max_calls (provider_step op b) = pb_max_calls b"
  "pb_max_tokens (provider_step op b) = pb_max_tokens b"
  by (cases op; simp add: provider_step_def reserve_def record_actual_def Let_def)+

lemma provider_fixed_run [simp]:
  "pb_max_calls (fold provider_step ops b) = pb_max_calls b"
  "pb_max_tokens (fold provider_step ops b) = pb_max_tokens b"
  by (induction ops arbitrary: b) simp_all

text \<open>As long as every provider reports no more than was reserved for its call, the provider budget
  never commits more than its ceilings: reserved calls stay within the call ceiling, and the
  tokens recorded together with the worst case of the call in flight within the token ceiling;
  at most one call is in flight, and none after a call whose usage is unknown.\<close>

theorem provider_budget_holds:
  assumes "0 \<le> calls" and "0 \<le> max_tokens"
    and "all_keep_to ops (new_provider_budget calls max_tokens output)"
    and "b = fold provider_step ops (new_provider_budget calls max_tokens output)"
  shows "pb_calls_reserved b \<le> calls \<and> within_ceilings b \<and>
    pb_tokens_recorded b + (case pb_outstanding b of None \<Rightarrow> 0 | Some r \<Rightarrow> rv_reserved_tokens r) \<le> max_tokens \<and>
    pb_calls_reserved b - pb_calls_recorded b \<in> {0, 1} \<and>
    (\<not> pb_usage_complete b \<longrightarrow> pb_outstanding b = None \<and> (\<forall>op. pb_outstanding (provider_step op b) = None))"
proof -
  let ?b0 = "new_provider_budget calls max_tokens output"
  have "provider_ok ?b0"
    using assms(1,2) by (simp add: provider_ok_def new_provider_budget_def)
  then have ok: "provider_ok b" unfolding assms(4) using assms(3) by (rule provider_ok_run)
  have fixed: "pb_max_calls b = calls" "pb_max_tokens b = max_tokens"
    by (simp_all add: assms(4)) (simp_all add: new_provider_budget_def)
  have nonneg: "0 \<le> (case pb_outstanding b of None \<Rightarrow> 0 | Some r \<Rightarrow> rv_reserved_tokens r)"
    using ok by (auto simp: provider_ok_def split: option.split)
  have "pb_outstanding (provider_step op b) = None" if "\<not> pb_usage_complete b" for op
    using ok that by (cases op) (auto simp: provider_step_def reserve_def record_actual_def provider_ok_def Let_def)
  then show ?thesis
    using ok fixed nonneg by (auto simp: provider_ok_def within_ceilings_def split: if_splits)
qed

theorem provider_budget_holds_witness:
  "within_ceilings (fold provider_step
     [Reserve ''plan'' 40 None, Record_Actual \<lparr>rv_index = 1, rv_operation = ''plan'', rv_estimated_input = 40,
        rv_max_output = 20, rv_reserved_tokens = 60\<rparr> (Some 35) (Some 20), Reserve ''plan'' 40 None]
     (new_provider_budget 2 100 20))"
proof -
  have "all_keep_to [Reserve ''plan'' 40 None, Record_Actual \<lparr>rv_index = 1, rv_operation = ''plan'',
      rv_estimated_input = 40, rv_max_output = 20, rv_reserved_tokens = 60\<rparr> (Some 35) (Some 20),
      Reserve ''plan'' 40 None] (new_provider_budget 2 100 20)"
    by (simp add: keeps_to_def provider_step_def reserve_def new_provider_budget_def Let_def)
  from provider_budget_holds [OF _ _ this refl] show ?thesis by simp
qed

text \<open>Nothing checks the reported usage against the reservation: one call whose provider reports more
  than the estimate takes the recorded tokens past the ceiling.\<close>

lemma reported_usage_can_pass_the_ceiling:
  "\<not> within_ceilings (fold provider_step
     [Reserve ''plan'' 40 None, Record_Actual \<lparr>rv_index = 1, rv_operation = ''plan'', rv_estimated_input = 40,
        rv_max_output = 20, rv_reserved_tokens = 60\<rparr> (Some 200) (Some 20)] (new_provider_budget 2 100 20))"
  by (simp add: within_ceilings_def provider_step_def reserve_def record_actual_def attempt_of_def
      new_provider_budget_def Let_def)

section \<open>The live execution guard\<close>

text \<open>A live run is armed exactly when the operator asked for it, gave an authorization reference
  that is a short slug and does not look like a secret, and declared both caps with exactly the
  values of the policy; the armed run carries those values.\<close>

theorem live_run_needs_explicit_authority:
  "evaluate_live p r = Inr a \<longleftrightarrow>
     lv_execute_live r \<and>
     (\<exists>ref. lv_authorization_ref r = Some ref \<and> av_authorization_ref a = strip ref \<and>
       authorization_ref_ok (strip ref) \<and> \<not> secretish (strip ref)) \<and>
     lv_max_provider_calls r = Some (lp_max_provider_calls p) \<and>
     lv_max_total_tokens r = Some (lp_max_total_tokens p) \<and>
     av_max_provider_calls a = lp_max_provider_calls p \<and> av_max_total_tokens a = lp_max_total_tokens p"
proof -
  have [simp]: "strip [] = []" by (simp add: strip_def)
  have "authorization_ref_ok s \<Longrightarrow> s \<noteq> []" for s by (simp add: authorization_ref_ok_def)
  then show ?thesis
    by (cases a) (auto simp: evaluate_live_def Let_def split: option.splits if_splits)
qed

end
