(* ===== verification/Agent_Roles.thy ===== *)
theory Agent_Roles
  imports Prelude
begin

text \<open>
  The role and capability registries of the agent runtime, \<open>multi_agent/registry.py\<close>, with
  the role and observation enumerations of \<open>multi_agent/contracts.py\<close>.  A \<open>frozenset\<close> is the
  list of its members and a dict an association list; \<open>authorize\<close> is the only function.
\<close>

datatype agent_role = LEAD_ORCHESTRATOR | SURFACE_AGENT | AUTHORIZATION_AGENT | INJECTION_AGENT
  | CHAIN_AGENT | RECON_AGENT | CLOUD_BOUNDARY_AGENT | REPORT_AGENT

datatype observation_type = OBS_SURFACE | OBS_AUTHORIZATION_COMPARISON | OBS_AUTHENTICATION_PROBE
  | OBS_VERIFIER_SUMMARY | OBS_RECON_INVENTORY | OBS_INJECTION_PROBE | OBS_ADVERSARY_PROBE

record role_policy =
  rp_role :: agent_role
  rp_system_contract :: string
  rp_observation_types :: "observation_type list"
  rp_capabilities :: "string list"
  rp_output_contract :: string

record capability_policy =
  cp_capability_id :: string
  cp_roles :: "agent_role list"
  cp_target_requests :: nat
  cp_read_only :: bool
  cp_enabled :: bool

text \<open>The constructor call, \<open>enabled\<close> defaulting to true.\<close>

definition capability :: "string \<Rightarrow> agent_role list \<Rightarrow> nat \<Rightarrow> bool \<Rightarrow> capability_policy" where
  "capability cid roles requests read_only =
     \<lparr>cp_capability_id = cid, cp_roles = roles, cp_target_requests = requests,
      cp_read_only = read_only, cp_enabled = True\<rparr>"

definition ROLE_REGISTRY :: "(agent_role \<times> role_policy) list" where
  "ROLE_REGISTRY = [
     (LEAD_ORCHESTRATOR, \<lparr>rp_role = LEAD_ORCHESTRATOR,
        rp_system_contract =
          ''Delegate typed tasks; never decide verdict, severity, authority, '' @
          ''budget or cleanup.'',
        rp_observation_types = [OBS_SURFACE, OBS_VERIFIER_SUMMARY],
        rp_capabilities = [],
        rp_output_contract = ''LeadTaskOutput''\<rparr>),
     (SURFACE_AGENT, \<lparr>rp_role = SURFACE_AGENT,
        rp_system_contract =
          ''Interpret only controller-observed surface and return approved '' @
          ''references.'',
        rp_observation_types = [OBS_SURFACE],
        rp_capabilities = [''aegis.surface.openapi''],
        rp_output_contract = ''SurfaceAgentOutput''\<rparr>),
     (AUTHORIZATION_AGENT, \<lparr>rp_role = AUTHORIZATION_AGENT,
        rp_system_contract =
          ''Propose owner comparisons using only supplied aliases and resource '' @
          ''references.'',
        rp_observation_types = [OBS_SURFACE, OBS_AUTHORIZATION_COMPARISON, OBS_AUTHENTICATION_PROBE],
        rp_capabilities = [''aegis.surface.openapi'', ''aegis.authorization.compare'',
          ''aegis.cloud.internal_service_access'', ''aegis.bank.auth_rate_limit_probe''],
        rp_output_contract = ''AuthorizationAgentOutput''\<rparr>),
     (INJECTION_AGENT, \<lparr>rp_role = INJECTION_AGENT,
        rp_system_contract =
          ''Select a registered injection capability and payload class for a '' @
          ''controller-approved parameter. Never author raw payloads, targets, or '' @
          ''verdicts.'',
        rp_observation_types = [OBS_RECON_INVENTORY, OBS_INJECTION_PROBE],
        rp_capabilities = [''aegis.injection.xss_reflected'', ''aegis.injection.sql_boolean'',
          ''aegis.injection.sqlmap''],
        rp_output_contract = ''InjectionAgentOutput''\<rparr>),
     (RECON_AGENT, \<lparr>rp_role = RECON_AGENT,
        rp_system_contract =
          ''Select only registered recon capabilities and approved profiles '' @
          ''against inventory references. Never author raw flags, templates, '' @
          ''policies, URLs, headers or payloads; never confirm a vulnerability, '' @
          ''emit PASS, severity, or a final finding.'',
        rp_observation_types = [OBS_SURFACE, OBS_RECON_INVENTORY],
        rp_capabilities = [''aegis.surface.openapi'', ''aegis.recon.network_service_discovery'',
          ''aegis.recon.nuclei_reviewed_exposure'', ''aegis.recon.zap_passive_openapi'',
          ''aegis.ops.detection_control_probe'', ''aegis.recon.http_probe'',
          ''aegis.recon.web_crawl'', ''aegis.recon.content_discovery'',
          ''aegis.recon.api_http_probe'', ''aegis.recon.dns_discovery'',
          ''aegis.recon.tls_inspect''],
        rp_output_contract = ''NormalizedReconReport''\<rparr>),
     (CLOUD_BOUNDARY_AGENT, \<lparr>rp_role = CLOUD_BOUNDARY_AGENT,
        rp_system_contract =
          ''Select only registered cloud-boundary capabilities and symbolic probe '' @
          ''destinations against inventory references. Never author raw URLs, '' @
          ''credentials, headers or bodies; never confirm a boundary violation, '' @
          ''emit PASS, severity, or a final finding.'',
        rp_observation_types = [OBS_SURFACE, OBS_RECON_INVENTORY],
        rp_capabilities = [''aegis.surface.openapi'', ''aegis.cloud.metadata_boundary_probe''],
        rp_output_contract = ''CloudBoundaryInterpretationOutput''\<rparr>),
     (CHAIN_AGENT, \<lparr>rp_role = CHAIN_AGENT,
        rp_system_contract =
          ''Compose only already-registered recon and injection capabilities '' @
          ''within one authorized target scope. Never acquire new capabilities or '' @
          ''broaden scope on a failed step.'',
        rp_observation_types = [OBS_SURFACE, OBS_RECON_INVENTORY, OBS_INJECTION_PROBE, OBS_VERIFIER_SUMMARY],
        rp_capabilities = [''aegis.surface.openapi'', ''aegis.injection.xss_reflected'',
          ''aegis.injection.sql_boolean'', ''aegis.cloud.metadata_boundary_probe'',
          ''aegis.cloud.internal_service_access''],
        rp_output_contract = ''ChainPlanOutput''\<rparr>)]"

definition CAPABILITY_REGISTRY :: "(string \<times> capability_policy) list" where
  "CAPABILITY_REGISTRY = [
     (''aegis.surface.openapi'', capability ''aegis.surface.openapi'' [SURFACE_AGENT, AUTHORIZATION_AGENT, CHAIN_AGENT, RECON_AGENT] 1 True),
     (''aegis.authorization.compare'', capability ''aegis.authorization.compare'' [AUTHORIZATION_AGENT] 3 True),
     (''aegis.injection.xss_reflected'', capability ''aegis.injection.xss_reflected'' [INJECTION_AGENT, CHAIN_AGENT] 2 False),
     (''aegis.injection.sql_boolean'', capability ''aegis.injection.sql_boolean'' [INJECTION_AGENT, CHAIN_AGENT] 2 False),
     (''aegis.nuclei.passive'', capability ''aegis.nuclei.passive'' [] 0 True),
     (''aegis.zap.passive'', capability ''aegis.zap.passive'' [] 0 True),
     (''aegis.recon.network_service_discovery'', capability ''aegis.recon.network_service_discovery'' [RECON_AGENT] 0 True),
     (''aegis.recon.nuclei_reviewed_exposure'', capability ''aegis.recon.nuclei_reviewed_exposure'' [RECON_AGENT] 4 True),
     (''aegis.recon.zap_passive_openapi'', capability ''aegis.recon.zap_passive_openapi'' [RECON_AGENT] 8 True),
     (''aegis.cloud.metadata_boundary_probe'', capability ''aegis.cloud.metadata_boundary_probe'' [CLOUD_BOUNDARY_AGENT, CHAIN_AGENT] 2 True),
     (''aegis.cloud.internal_service_access'', capability ''aegis.cloud.internal_service_access'' [AUTHORIZATION_AGENT, CHAIN_AGENT] 2 False),
     (''aegis.bank.auth_rate_limit_probe'', capability ''aegis.bank.auth_rate_limit_probe'' [AUTHORIZATION_AGENT] 12 False),
     (''aegis.ops.detection_control_probe'', capability ''aegis.ops.detection_control_probe'' [RECON_AGENT] 4 False),
     (''aegis.recon.http_probe'', capability ''aegis.recon.http_probe'' [RECON_AGENT] 4 True),
     (''aegis.recon.web_crawl'', capability ''aegis.recon.web_crawl'' [RECON_AGENT] 25 True),
     (''aegis.recon.content_discovery'', capability ''aegis.recon.content_discovery'' [RECON_AGENT] 32 True),
     (''aegis.recon.api_http_probe'', capability ''aegis.recon.api_http_probe'' [RECON_AGENT] 6 True),
     (''aegis.recon.dns_discovery'', capability ''aegis.recon.dns_discovery'' [RECON_AGENT] 8 True),
     (''aegis.recon.tls_inspect'', capability ''aegis.recon.tls_inspect'' [RECON_AGENT] 2 True),
     (''aegis.injection.sqlmap'', capability ''aegis.injection.sqlmap'' [INJECTION_AGENT] 160 False)]"

datatype role_error = CAPABILITY_NOT_AUTHORIZED | Role_KeyError

definition authorize :: "agent_role \<Rightarrow> string \<Rightarrow> role_error + capability_policy" where
  "authorize role cid =
     (case map_of ROLE_REGISTRY role of
        None \<Rightarrow> Inl Role_KeyError
      | Some rp \<Rightarrow>
          (case map_of CAPABILITY_REGISTRY cid of
             None \<Rightarrow> Inl CAPABILITY_NOT_AUTHORIZED
           | Some cp \<Rightarrow>
               if \<not> cp_enabled cp \<or> role \<notin> set (cp_roles cp) \<or> cid \<notin> set (rp_capabilities rp)
               then Inl CAPABILITY_NOT_AUTHORIZED else Inr cp))"

section \<open>What the registries grant\<close>

text \<open>What may be granted.\<close>

definition grant_ok :: "agent_role \<Rightarrow> string \<Rightarrow> capability_policy \<Rightarrow> bool" where
  "grant_ok role cid cp \<longleftrightarrow>
     role \<in> {SURFACE_AGENT, AUTHORIZATION_AGENT, INJECTION_AGENT, CHAIN_AGENT, RECON_AGENT, CLOUD_BOUNDARY_AGENT} \<and>
     cid \<notin> {''aegis.nuclei.passive'', ''aegis.zap.passive''} \<and>
     cp_capability_id cp = cid \<and> cp_target_requests cp \<le> 160 \<and>
     (cid = ''aegis.injection.sqlmap'' \<longrightarrow> role = INJECTION_AGENT) \<and>
     (cid \<noteq> ''aegis.injection.sqlmap'' \<longrightarrow> cp_target_requests cp \<le> 32) \<and>
     (\<not> cp_read_only cp \<longrightarrow>
        role \<in> {INJECTION_AGENT, CHAIN_AGENT} \<and>
          cid \<in> {''aegis.injection.xss_reflected'', ''aegis.injection.sql_boolean'', ''aegis.injection.sqlmap'',
            ''aegis.cloud.internal_service_access''} \<or>
        role = AUTHORIZATION_AGENT \<and>
          cid \<in> {''aegis.cloud.internal_service_access'', ''aegis.bank.auth_rate_limit_probe''} \<or>
        role = RECON_AGENT \<and> cid = ''aegis.ops.detection_control_probe'')"

lemma registries_checked:
  "list_all (\<lambda>(cid, cp). list_all (\<lambda>(role, rp).
     cp_enabled cp \<and> role \<in> set (cp_roles cp) \<and> cid \<in> set (rp_capabilities rp) \<longrightarrow> grant_ok role cid cp)
     ROLE_REGISTRY) CAPABILITY_REGISTRY"
  by code_simp

text \<open>C16: Authority is confined: a role is authorised for a capability only when both registries say
  so, the orchestrator and the report agent never are, the catalogue-only scanners are granted
  to nobody, SQLMap only to the injection agent, and every other capability that is not
  read-only only to the agents that execute it.\<close>

theorem authority_is_confined:
  assumes "authorize role cid = Inr cp"
  shows "grant_ok role cid cp \<and> cp_enabled cp \<and> role \<in> set (cp_roles cp) \<and>
    (\<exists>rp. map_of ROLE_REGISTRY role = Some rp \<and> cid \<in> set (rp_capabilities rp))"
proof -
  obtain rp where *: "map_of ROLE_REGISTRY role = Some rp" "map_of CAPABILITY_REGISTRY cid = Some cp"
    "cp_enabled cp" "role \<in> set (cp_roles cp)" "cid \<in> set (rp_capabilities rp)"
    using assms by (auto simp: authorize_def split: option.splits if_splits)
  from *(1,2) have "(role, rp) \<in> set ROLE_REGISTRY" "(cid, cp) \<in> set CAPABILITY_REGISTRY"
    by (simp_all add: map_of_SomeD)
  then have "grant_ok role cid cp"
    using registries_checked *(3-5) unfolding list_all_iff by (metis (mono_tags, lifting) case_prodD)
  with * show ?thesis by blast
qed

theorem authority_is_confined_witness:
  "grant_ok INJECTION_AGENT ''aegis.injection.sqlmap''
     (capability ''aegis.injection.sqlmap'' [INJECTION_AGENT] 160 False)"
proof -
  have "authorize INJECTION_AGENT ''aegis.injection.sqlmap'' =
      Inr (capability ''aegis.injection.sqlmap'' [INJECTION_AGENT] 160 False)"
    by code_simp
  then show ?thesis using authority_is_confined by blast
qed

text \<open>A grant that can never be used: the cloud-boundary role lists the surface capability, whose own
  policy does not list the role.\<close>

lemma cloud_surface_grant_is_dead:
  "\<exists>rp. map_of ROLE_REGISTRY CLOUD_BOUNDARY_AGENT = Some rp \<and> ''aegis.surface.openapi'' \<in> set (rp_capabilities rp) \<and>
     authorize CLOUD_BOUNDARY_AGENT ''aegis.surface.openapi'' = Inl CAPABILITY_NOT_AUTHORIZED"
proof -
  have "list_ex (\<lambda>(r, rp). r = CLOUD_BOUNDARY_AGENT \<and> map_of ROLE_REGISTRY r \<noteq> None \<and>
      ''aegis.surface.openapi'' \<in> set (rp_capabilities (the (map_of ROLE_REGISTRY r)))) ROLE_REGISTRY"
    by code_simp
  then have "map_of ROLE_REGISTRY CLOUD_BOUNDARY_AGENT \<noteq> None"
    "''aegis.surface.openapi'' \<in> set (rp_capabilities (the (map_of ROLE_REGISTRY CLOUD_BOUNDARY_AGENT)))"
    by (auto simp: list_ex_iff)
  moreover have "authorize CLOUD_BOUNDARY_AGENT ''aegis.surface.openapi'' = Inl CAPABILITY_NOT_AUTHORIZED"
    by code_simp
  ultimately show ?thesis by auto
qed

text \<open>The report agent has no role policy, so asking raises a \<open>KeyError\<close>.\<close>

lemma report_agent_has_no_policy: "authorize REPORT_AGENT cid = Inl Role_KeyError"
proof -
  have "map_of ROLE_REGISTRY REPORT_AGENT = None" by code_simp
  then show ?thesis by (simp add: authorize_def)
qed

end
