(* ===== verification/Broker.thy ===== *)
theory Broker
  imports Agent_Budget Agent_Roles Sha256
begin

text \<open>
  The controlled tool broker, \<open>multi_agent/broker.py\<close>, over the fixed target inventory of
  \<open>aegis_range/inventory.py\<close> and the campaign budget: \<open>discover_surface\<close> reads the API
  description of a target, \<open>execute_action\<close> performs the owner-control and cross-owner requests of
  an authorised action.

  The state is the broker with its budget and, for the record, the requests it has sent.  The
  target is the argument \<open>http\<close>: it answers the n-th request, or raises (\<open>None\<close>).  The text of an
  answer and what \<open>response.json()\<close> makes of it (\<open>None\<close> for a \<open>ValueError\<close>) are part of the answer.
\<close>

section \<open>Inventory\<close>

record range_target =
  rt_target_ref :: string
  rt_application_id :: string
  rt_name :: string
  rt_origin :: string
  rt_management_origin :: string
  rt_openapi_path :: string
  rt_environment :: string
  rt_synthetic_data_only :: bool
  rt_reset_available :: bool

definition range_target :: "string \<Rightarrow> string \<Rightarrow> string \<Rightarrow> string \<Rightarrow> string \<Rightarrow> string \<Rightarrow> range_target" where
  "range_target ref app nm origin management openapi =
     \<lparr>rt_target_ref = ref, rt_application_id = app, rt_name = nm, rt_origin = origin,
      rt_management_origin = management, rt_openapi_path = openapi,
      rt_environment = ''SYNTHETIC_RANGE'', rt_synthetic_data_only = True, rt_reset_available = True\<rparr>"

definition RANGE_TARGETS :: "(string \<times> range_target) list" where
  "RANGE_TARGETS = map (\<lambda>t. (rt_application_id t, t))
     [range_target ''range-bank'' ''aegis-bank'' ''Aegis Bank'' ''http://aegis-bank:8101''
        ''http://aegis-bank-control:8101'' ''/openapi.json'',
      range_target ''range-shop'' ''aegis-shop'' ''Aegis Shop'' ''http://aegis-shop:8102''
        ''http://aegis-shop-control:8102'' ''/openapi.json'',
      range_target ''range-ops'' ''aegis-ops'' ''Aegis Ops'' ''http://aegis-ops:8103''
        ''http://aegis-ops-control:8103'' ''/openapi.json'',
      range_target ''range-cloud'' ''aegis-cloud'' ''Aegis Cloud'' ''http://aegis-cloud:8104''
        ''http://aegis-cloud-control:8104'' ''/openapi.json'']"

definition scanner_projection :: "range_target \<Rightarrow> (string \<times> json) list" where
  "scanner_projection t =
     [(''target_ref'', str_value (rt_target_ref t)), (''application_id'', str_value (rt_application_id t)),
      (''name'', str_value (rt_name t)), (''origin'', str_value (rt_origin t)),
      (''openapi_url'', str_value (rt_origin t @ rt_openapi_path t)),
      (''environment'', str_value (rt_environment t)),
      (''synthetic_data_only'', JBool (rt_synthetic_data_only t))]"

definition scanner_inventory :: "(string \<times> json) list list" where
  "scanner_inventory = map (\<lambda>(_, t). scanner_projection t) (sort_key fst RANGE_TARGETS)"

section \<open>Contracts\<close>

record task_context =
  tc_target_ref :: string
  tc_scenario_ref :: string
  tc_allowed_operation_ids :: "string list"
  tc_credential_aliases :: "string list"
  tc_resource_refs :: "string list"
  tc_observation_refs :: "string list"

record agent_task =
  tk_task_id :: string
  tk_run_id :: string
  tk_agent_id :: string
  tk_role :: agent_role
  tk_context :: task_context

record action_request =
  ac_action_id :: string
  ac_nonce :: string
  ac_run_id :: string
  ac_task_id :: string
  ac_agent_id :: string
  ac_role :: agent_role
  ac_capability_id :: string
  ac_operation_id :: string
  ac_credential_aliases :: "string list"
  ac_resource_refs :: "string list"
  ac_issued_at :: int
  ac_expires_at :: int

record action_result =
  ax_action_id :: string
  ax_run_id :: string
  ax_task_id :: string
  ax_agent_id :: string
  ax_capability_id :: string
  ax_accepted :: bool
  ax_observation_ref :: string
  ax_target_requests :: nat

record observation =
  ob_observation_id :: string
  ob_run_id :: string
  ob_task_id :: string
  ob_agent_id :: string
  ob_observation_type :: observation_type
  ob_summary :: string
  ob_operation_ids :: "points list"
  ob_resource_refs :: "string list"
  ob_statuses :: "(string \<times> nat) list"
  ob_evidence_sha256 :: string
  ob_evidence_bytes :: nat

section \<open>State\<close>

definition CREDENTIALS :: "(string \<times> string) list" where
  "CREDENTIALS = [(''cred-bank-alex'', ''range-user-alex''), (''cred-bank-blair'', ''range-user-blair'')]"

definition RESOURCES :: "(string \<times> string) list" where
  "RESOURCES = [(''resource-account-owner'', ''ACC-100''), (''resource-account-alternate'', ''ACC-200'')]"

record http_answer =
  ha_status :: nat
  ha_content :: string
  ha_json :: "json option"

record http_request =
  hq_nonce :: "string option"
  hq_application :: string
  hq_origin :: string
  hq_path :: string
  hq_bearer :: "string option"

record broker =
  br_budget :: atomic_budget
  br_used_nonces :: "string list"
  br_sent :: "http_request list"

datatype broker_error = BrokerRejection string | Broker_Role role_error | Broker_Budget budget_error
  | Broker_KeyError | Broker_Http | Broker_Json | Broker_Invalid

type_synonym 'a brokered = "(broker, broker_error, 'a) prog"
type_synonym target_system = "nat \<Rightarrow> http_request \<Rightarrow> http_answer option"

definition charge :: "int \<Rightarrow> string \<Rightarrow> budget_usage \<Rightarrow> unit brokered" where
  "charge now agent d = (\<lambda>s.
     case consume_budget now (Some agent) d (br_budget s) of
       (Inl e, b) \<Rightarrow> (Inl (Broker_Budget e), s\<lparr>br_budget := b\<rparr>)
     | (Inr _, b) \<Rightarrow> (Inr (), s\<lparr>br_budget := b\<rparr>))"

definition raise_if :: "bool \<Rightarrow> string \<Rightarrow> unit brokered" where
  "raise_if bad code = rejectE bad (BrokerRejection code)"

definition authorize_or :: "agent_role \<Rightarrow> string \<Rightarrow> capability_policy brokered" where
  "authorize_or role cid =
     (case authorize role cid of Inl e \<Rightarrow> throwE (Broker_Role e) | Inr cp \<Rightarrow> retE cp)"

definition bind_action :: "action_request \<Rightarrow> agent_task \<Rightarrow> unit brokered" where
  "bind_action q t = raise_if
     (ac_run_id q \<noteq> tk_run_id t \<or> ac_task_id q \<noteq> tk_task_id t \<or> ac_agent_id q \<noteq> tk_agent_id t \<or>
      ac_role q \<noteq> tk_role t) ''ACTION_IDENTITY_BINDING_MISMATCH''"

definition target_of :: "string \<Rightarrow> (string \<times> string) brokered" where
  "target_of ref =
     (case map (\<lambda>(_, t). (rt_application_id t, rt_origin t))
             (filter (\<lambda>(_, t). rt_target_ref t = ref) RANGE_TARGETS) of
        [m] \<Rightarrow> retE m
      | _ \<Rightarrow> throwE (BrokerRejection ''TARGET_REF_NOT_IN_INVENTORY''))"

definition broker_get ::
  "target_system \<Rightarrow> string option \<Rightarrow> string \<Rightarrow> string \<Rightarrow> string \<Rightarrow> string option \<Rightarrow> http_answer brokered" where
  "broker_get http nonce app origin path alias =
     (case (case alias of None \<Rightarrow> Some None | Some a \<Rightarrow> map_option Some (map_of CREDENTIALS a)) of
        None \<Rightarrow> throwE (BrokerRejection ''CREDENTIAL_ALIAS_UNKNOWN'')
      | Some bearer \<Rightarrow>
          let q = \<lparr>hq_nonce = nonce, hq_application = app, hq_origin = origin, hq_path = path,
                hq_bearer = bearer\<rparr> in
          bindE (getE (\<lambda>s. http (length (br_sent s)) q)) (\<lambda>a.
          thenE (modifyE (\<lambda>s. s\<lparr>br_sent := br_sent s @ [q]\<rparr>))
          (case a of None \<Rightarrow> throwE Broker_Http | Some r \<Rightarrow> retE r)))"

definition hex_of :: "string \<Rightarrow> string" where
  "hex_of s = concat (map (\<lambda>c. let n = of_char c :: nat in
     [''0123456789abcdef'' ! (n div 16), ''0123456789abcdef'' ! (n mod 16)]) s)"

text \<open>The text of \<open>json.dumps(...)\<close>; the values dumped here hold no float.\<close>

definition bounded_text :: "json \<Rightarrow> string" where
  "bounded_text j = (case dumps (\<lambda>_. None) j of None \<Rightarrow> [] | Some s \<Rightarrow> s)"

definition observation_ok :: "observation \<Rightarrow> bool" where
  "observation_ok x \<longleftrightarrow>
     pat ''obs-'' is_hex 16 16 (ob_observation_id x) \<and> length (ob_summary x) \<le> 500 \<and>
     length (ob_operation_ids x) \<le> 32 \<and> length (ob_resource_refs x) \<le> 32 \<and> ob_evidence_bytes x \<le> 262144"

section \<open>Surface discovery\<close>

text \<open>The identifiers of the operations in an API description, in document order.\<close>

definition operation_ids_of :: "json \<Rightarrow> points list" where
  "operation_ids_of item =
     (case item of
        JObj ops \<Rightarrow> concat (map (\<lambda>(_, op).
          case op of
            JObj fs \<Rightarrow> (case field fs ''operationId'' of Some (JStr p) \<Rightarrow> [p] | _ \<Rightarrow> [])
          | _ \<Rightarrow> []) ops)
      | _ \<Rightarrow> [])"

definition document_operations :: "(points \<times> json) list \<Rightarrow> points list" where
  "document_operations document =
     (case field document ''paths'' of
        Some (JObj paths) \<Rightarrow> concat (map (\<lambda>(_, item). operation_ids_of item) paths)
      | _ \<Rightarrow> [])"

definition surface_observation :: "string \<Rightarrow> agent_task \<Rightarrow> string \<Rightarrow> points list \<Rightarrow> observation" where
  "surface_observation run t oid ids =
     (let bounded = bounded_text (JArr (map JStr (sort ids))) in
      \<lparr>ob_observation_id = oid, ob_run_id = run, ob_task_id = tk_task_id t, ob_agent_id = tk_agent_id t,
       ob_observation_type = OBS_SURFACE,
       ob_summary = ''Observed '' @ nat_str (length ids) @ '' documented operation identifiers.'',
       ob_operation_ids = take 32 (sort ids),
       ob_resource_refs = [''resource-account-owner'', ''resource-account-alternate''],
       ob_statuses = [], ob_evidence_sha256 = hex_of (sha256 bounded), ob_evidence_bytes = length bounded\<rparr>)"

text \<open>From the answer to the observation.\<close>

definition surface_from :: "int \<Rightarrow> string \<Rightarrow> agent_task \<Rightarrow> string \<Rightarrow> http_answer \<Rightarrow> observation brokered" where
  "surface_from m2 run t oid r =
     thenE (raise_if (ha_status r \<noteq> 200 \<or> 262144 < length (ha_content r)) ''SURFACE_OBSERVATION_FAILED'')
     (case ha_json r of
        None \<Rightarrow> throwE Broker_Json
      | Some (JObj document) \<Rightarrow>
          let x = surface_observation run t oid (document_operations document) in
          thenE (charge m2 (tk_agent_id t) (no_spend\<lparr>bu_evidence_bytes := ob_evidence_bytes x\<rparr>))
          (if observation_ok x then retE x else throwE Broker_Invalid)
      | Some _ \<Rightarrow> throwE (BrokerRejection ''SURFACE_OUTPUT_MALFORMED''))"

definition discover_surface ::
  "target_system \<Rightarrow> int \<Rightarrow> int \<Rightarrow> string \<Rightarrow> agent_task \<Rightarrow> string \<Rightarrow> string \<Rightarrow> observation brokered" where
  "discover_surface http m1 m2 run t ref oid =
     thenE (raise_if (tk_role t \<noteq> SURFACE_AGENT \<and> tk_role t \<noteq> AUTHORIZATION_AGENT) ''SURFACE_ROLE_REQUIRED'')
     (thenE (authorize_or (tk_role t) ''aegis.surface.openapi'')
     (bindE (target_of ref) (\<lambda>(app, origin).
      thenE (charge m1 (tk_agent_id t) (no_spend\<lparr>bu_target_requests := 1\<rparr>))
      (bindE (broker_get http None app origin ''/openapi.json'' None) (surface_from m2 run t oid)))))"

section \<open>Execution of an action\<close>

definition account_path :: "string \<Rightarrow> string" where
  "account_path resource = ''/api/accounts/'' @ resource"

definition transactions_path :: "string \<Rightarrow> string" where
  "transactions_path resource = ''/api/accounts/'' @ resource @ ''/transactions''"

text \<open>The checks before anything is sent, in the order of the code; the nonce is used up by the first
  request that gets past the time checks.\<close>

definition admit_action :: "action_request \<Rightarrow> agent_task \<Rightarrow> int \<Rightarrow> unit brokered" where
  "admit_action q t now =
     thenE (bind_action q t)
     (thenE (authorize_or (ac_role q) (ac_capability_id q))
     (thenE (raise_if (ac_expires_at q \<le> now) ''ACTION_EXPIRED'')
     (thenE (raise_if (now < ac_issued_at q) ''ACTION_NOT_YET_VALID'')
     (bindE (getE (\<lambda>s. ac_nonce q \<in> set (br_used_nonces s))) (\<lambda>used.
      thenE (raise_if used ''ACTION_REPLAYED'')
      (thenE (modifyE (\<lambda>s. s\<lparr>br_used_nonces := ac_nonce q # br_used_nonces s\<rparr>))
      (thenE (raise_if (ac_operation_id q \<notin> set (tc_allowed_operation_ids (tk_context t)))
         ''OPERATION_NOT_AUTHORIZED'')
      (thenE (raise_if (\<not> list_all (\<lambda>a. a \<in> set (tc_credential_aliases (tk_context t))) (ac_credential_aliases q))
         ''CREDENTIAL_ALIAS_NOT_AUTHORIZED'')
      (thenE (raise_if (\<not> list_all (\<lambda>r. r \<in> set (tc_resource_refs (tk_context t))) (ac_resource_refs q))
         ''RESOURCE_NOT_AUTHORIZED'')
      (raise_if (length (ac_credential_aliases q) \<noteq> 2 \<or> length (ac_resource_refs q) \<noteq> 2)
         ''COMPARISON_SHAPE_INVALID''))))))))))"

definition resource_of :: "string \<Rightarrow> string brokered" where
  "resource_of ref = (case map_of RESOURCES ref of None \<Rightarrow> throwE Broker_KeyError | Some r \<Rightarrow> retE r)"

definition comparison_observation ::
  "action_request \<Rightarrow> string \<Rightarrow> string \<Rightarrow> string \<Rightarrow> nat \<Rightarrow> nat \<Rightarrow> nat \<Rightarrow> observation" where
  "comparison_observation q oid owner_ref alternate_ref s1 s2 s3 =
     (let statuses = [(''owner_control'', s1), (''cross_owner'', s2), (''cross_owner_transactions'', s3)];
          bounded = bounded_text (JObj (map (\<lambda>(k, v). (points_of k, JInt (int v))) statuses)) in
      \<lparr>ob_observation_id = oid, ob_run_id = ac_run_id q, ob_task_id = ac_task_id q,
       ob_agent_id = ac_agent_id q, ob_observation_type = OBS_AUTHORIZATION_COMPARISON,
       ob_summary = ''Controller executed owner-control and cross-owner comparison requests.'',
       ob_operation_ids = [points_of ''getAccount'', points_of ''listAccountTransactions''],
       ob_resource_refs = [owner_ref, alternate_ref], ob_statuses = statuses,
       ob_evidence_sha256 = hex_of (sha256 bounded), ob_evidence_bytes = length bounded\<rparr>)"

definition action_result_of :: "action_request \<Rightarrow> observation \<Rightarrow> action_result" where
  "action_result_of q x =
     \<lparr>ax_action_id = ac_action_id q, ax_run_id = ac_run_id q, ax_task_id = ac_task_id q,
      ax_agent_id = ac_agent_id q, ax_capability_id = ac_capability_id q, ax_accepted = True,
      ax_observation_ref = ob_observation_id x, ax_target_requests = 3\<rparr>"

text \<open>The sending half of an action, after it was admitted.\<close>

definition comparison ::
  "target_system \<Rightarrow> int \<Rightarrow> action_request \<Rightarrow> agent_task \<Rightarrow> string \<Rightarrow> string \<Rightarrow> string \<Rightarrow> string \<Rightarrow>
   string \<Rightarrow> (action_result \<times> observation) brokered" where
  "comparison http m2 q t oid app origin own alt =
     (let owner = Some (ac_credential_aliases q ! 0); n = Some (ac_nonce q) in
      bindE (broker_get http n app origin (account_path own) owner) (\<lambda>r1.
      bindE (broker_get http n app origin (account_path alt) owner) (\<lambda>r2.
      bindE (broker_get http n app origin (transactions_path alt) owner) (\<lambda>r3.
      let x = comparison_observation q oid (ac_resource_refs q ! 0) (ac_resource_refs q ! 1)
            (ha_status r1) (ha_status r2) (ha_status r3) in
      thenE (charge m2 (tk_agent_id t) (no_spend\<lparr>bu_evidence_bytes := ob_evidence_bytes x\<rparr>))
      (if observation_ok x then retE (action_result_of q x, x) else throwE Broker_Invalid)))))"

definition paid_comparison ::
  "target_system \<Rightarrow> int \<Rightarrow> int \<Rightarrow> action_request \<Rightarrow> agent_task \<Rightarrow> string \<Rightarrow>
   (action_result \<times> observation) brokered" where
  "paid_comparison http m1 m2 q t oid =
     bindE (target_of (tc_target_ref (tk_context t))) (\<lambda>(app, origin).
     bindE (resource_of (ac_resource_refs q ! 0)) (\<lambda>own.
     bindE (resource_of (ac_resource_refs q ! 1)) (\<lambda>alt.
     thenE (charge m1 (tk_agent_id t) (no_spend\<lparr>bu_target_requests := 3\<rparr>))
     (comparison http m2 q t oid app origin own alt))))"

definition execute_action ::
  "target_system \<Rightarrow> int \<Rightarrow> int \<Rightarrow> int \<Rightarrow> action_request \<Rightarrow> agent_task \<Rightarrow> string \<Rightarrow>
   (action_result \<times> observation) brokered" where
  "execute_action http now m1 m2 q t oid =
     thenE (admit_action q t now) (paid_comparison http m1 m2 q t oid)"

end
