(* ===== verification/Broker_Props.thy ===== *)
theory Broker_Props
  imports Broker Agent_Budget_Props
begin

text \<open>
  What the broker promises over any history of calls, against any target: every request goes to
  an inventory target and a known path and was paid for from the campaign budget before it was
  sent, and one nonce pays for at most one comparison of three requests.
\<close>

section \<open>Counting what a program sends\<close>

definition known_paths :: "string list" where
  "known_paths = ''/openapi.json'' # map (account_path \<circ> snd) RESOURCES @ map (transactions_path \<circ> snd) RESOURCES"

definition in_inventory :: "http_request \<Rightarrow> bool" where
  "in_inventory q \<longleftrightarrow>
     (hq_application q, hq_origin q) \<in> set (map (\<lambda>(_, t). (rt_application_id t, rt_origin t)) RANGE_TARGETS) \<and>
     hq_path q \<in> set known_paths \<and>
     (\<forall>b. hq_bearer q = Some b \<longrightarrow> hq_nonce q \<noteq> None \<and> b \<in> set (map snd CREDENTIALS))"

definition paid :: "broker \<Rightarrow> nat" where
  "paid s = bu_target_requests (lg_usage (ab_global (br_budget s)))"

text \<open>\<open>p\<close> sends at most \<open>k\<close> requests, all under the nonce \<open>n\<close>, uses up no nonce and pays nothing back.\<close>

definition sends_at_most :: "nat \<Rightarrow> string option \<Rightarrow> 'a brokered \<Rightarrow> bool" where
  "sends_at_most k n p \<longleftrightarrow> (\<forall>s. \<exists>xs.
     br_sent (snd (p s)) = br_sent s @ xs \<and> length xs \<le> k \<and>
     (\<forall>x \<in> set xs. hq_nonce x = n \<and> in_inventory x) \<and>
     br_used_nonces (snd (p s)) = br_used_nonces s \<and> paid s \<le> paid (snd (p s)))"

lemma sends_silent:
  "(\<And>s. snd (p s) = s) \<Longrightarrow> sends_at_most 0 n p"
  by (simp add: sends_at_most_def)

lemma sends_pure [simp]:
  "sends_at_most 0 n (retE a)" "sends_at_most 0 n (throwE e)" "sends_at_most 0 n (raise_if b c)"
  "sends_at_most 0 n (getE f)" "sends_at_most 0 n (authorize_or role cid)"
  "sends_at_most 0 n (target_of ref)" "sends_at_most 0 n (resource_of ref)"
  by (intro sends_silent; simp add: raise_if_def rejectE_run authorize_or_def target_of_def resource_of_def
      split: sum.split option.split list.split)+

lemma sends_bind:
  assumes "sends_at_most j n p" and "\<And>a s t. p s = (Inr a, t) \<Longrightarrow> sends_at_most k n (f a)"
  shows "sends_at_most (j + k) n (bindE p f)"
  unfolding sends_at_most_def
proof
  fix s
  obtain r t where p: "p s = (r, t)" by fastforce
  obtain xs where xs: "br_sent t = br_sent s @ xs" "length xs \<le> j"
    "\<forall>x \<in> set xs. hq_nonce x = n \<and> in_inventory x" "br_used_nonces t = br_used_nonces s" "paid s \<le> paid t"
    using assms(1) p unfolding sends_at_most_def by (metis snd_conv)
  show "\<exists>xs. br_sent (snd (bindE p f s)) = br_sent s @ xs \<and> length xs \<le> j + k \<and>
      (\<forall>x \<in> set xs. hq_nonce x = n \<and> in_inventory x) \<and>
      br_used_nonces (snd (bindE p f s)) = br_used_nonces s \<and> paid s \<le> paid (snd (bindE p f s))"
  proof (cases r)
    case (Inl e)
    with xs p show ?thesis by (intro exI [of _ xs]) (simp add: bindE_run)
  next
    case (Inr a)
    obtain ys where "br_sent (snd (f a t)) = br_sent t @ ys" "length ys \<le> k"
      "\<forall>x \<in> set ys. hq_nonce x = n \<and> in_inventory x" "br_used_nonces (snd (f a t)) = br_used_nonces t"
      "paid t \<le> paid (snd (f a t))"
      using assms(2) [OF p [unfolded Inr]] unfolding sends_at_most_def by meson
    with xs p Inr show ?thesis by (intro exI [of _ "xs @ ys"]) (auto simp: bindE_run)
  qed
qed

lemma charge_cases:
  obtains (refused) e where "charge now a d s = (Inl e, s)"
    | (paid) b where "charge now a d s = (Inr (), s\<lparr>br_budget := b\<rparr>)"
        and "paid (s\<lparr>br_budget := b\<rparr>) = paid s + bu_target_requests d"
proof (cases rule: consume_budget_cases [of now "Some a" d "br_budget s"])
  case (refused e)
  then show ?thesis using that(1) by (simp add: charge_def)
next
  case (agent elapsed x l)
  let ?b = "snd (consume_budget now (Some a) d (br_budget s))"
  have "charge now a d s = (Inr (), s\<lparr>br_budget := ?b\<rparr>)"
    unfolding charge_def agent(1) by simp
  moreover have "paid (s\<lparr>br_budget := ?b\<rparr>) = paid s + bu_target_requests d"
    unfolding paid_def agent(1) by (simp add: charge_ledger_def apply_usage_def)
  ultimately show ?thesis by (rule that(2))
qed simp

lemma sends_charge: "sends_at_most 0 n (charge now a d)"
  unfolding sends_at_most_def
proof
  fix s
  show "\<exists>xs. br_sent (snd (charge now a d s)) = br_sent s @ xs \<and> length xs \<le> 0 \<and>
      (\<forall>x \<in> set xs. hq_nonce x = n \<and> in_inventory x) \<and>
      br_used_nonces (snd (charge now a d s)) = br_used_nonces s \<and> paid s \<le> paid (snd (charge now a d s))"
    by (cases rule: charge_cases [of now a d s]) auto
qed

lemma sends_get:
  assumes "(app, origin) \<in> set (map (\<lambda>(_, t). (rt_application_id t, rt_origin t)) RANGE_TARGETS)"
    and "path \<in> set known_paths" and "alias \<noteq> None \<Longrightarrow> n \<noteq> None"
  shows "sends_at_most 1 n (broker_get http n app origin path alias)"
proof -
  define bearer where
    "bearer = (case alias of None \<Rightarrow> Some None | Some a \<Rightarrow> map_option Some (map_of CREDENTIALS a))"
  show ?thesis
  proof (cases bearer)
    case None
    then have "broker_get http n app origin path alias = throwE (BrokerRejection ''CREDENTIAL_ALIAS_UNKNOWN'')"
      by (simp add: broker_get_def bearer_def [symmetric])
    then show ?thesis by (auto simp: sends_at_most_def)
  next
    case (Some b)
    let ?q = "\<lparr>hq_nonce = n, hq_application = app, hq_origin = origin, hq_path = path, hq_bearer = b\<rparr>"
    have "x \<in> set (map snd CREDENTIALS) \<and> alias \<noteq> None" if "b = Some x" for x
      using that Some map_of_SomeD [of CREDENTIALS] by (force simp: bearer_def split: option.splits)
    with assms have "in_inventory ?q" by (auto simp: in_inventory_def)
    moreover have "snd (broker_get http n app origin path alias s) = s\<lparr>br_sent := br_sent s @ [?q]\<rparr>" for s
      using Some by (simp add: broker_get_def bearer_def [symmetric] bindE_run Let_def split: option.split)
    ultimately show ?thesis by (simp add: sends_at_most_def paid_def)
  qed
qed

text \<open>The part of a program that pays \<open>k\<close> requests first and then sends at most \<open>k\<close>.\<close>

lemma charge_then_paid:
  assumes "sends_at_most k n p" and "length (br_sent s) + c \<le> paid s"
  shows "length (br_sent (snd (thenE (charge now a (no_spend\<lparr>bu_target_requests := k\<rparr>)) p s))) + c \<le>
     paid (snd (thenE (charge now a (no_spend\<lparr>bu_target_requests := k\<rparr>)) p s))"
proof (cases rule: charge_cases [of now a "no_spend\<lparr>bu_target_requests := k\<rparr>" s])
  case (refused e)
  with assms show ?thesis by (simp add: bindE_run)
next
  case (paid b)
  obtain xs where "br_sent (snd (p (s\<lparr>br_budget := b\<rparr>))) = br_sent s @ xs" "length xs \<le> k"
    "paid (s\<lparr>br_budget := b\<rparr>) \<le> paid (snd (p (s\<lparr>br_budget := b\<rparr>)))"
    using assms(1) unfolding sends_at_most_def by (metis broker.select_convs(3) broker.surjective broker.update_convs(1))
  with paid assms(2) show ?thesis by (simp add: bindE_run)
qed

lemma target_of_Inr:
  "target_of ref s = (Inr (app, origin), t) \<Longrightarrow>
   (app, origin) \<in> set (map (\<lambda>(_, t). (rt_application_id t, rt_origin t)) RANGE_TARGETS)"
proof -
  assume "target_of ref s = (Inr (app, origin), t)"
  then have "map (\<lambda>(_, t). (rt_application_id t, rt_origin t))
      (filter (\<lambda>(_, t). rt_target_ref t = ref) RANGE_TARGETS) = [(app, origin)]"
    by (auto simp: target_of_def split: list.splits)
  then have "(app, origin) \<in> set (map (\<lambda>(_, t). (rt_application_id t, rt_origin t))
      (filter (\<lambda>(_, t). rt_target_ref t = ref) RANGE_TARGETS))"
    by (metis list.set_intros(1))
  then show ?thesis by auto
qed

lemma resource_of_Inr:
  "resource_of ref s = (Inr r, t) \<Longrightarrow> {account_path r, transactions_path r} \<subseteq> set known_paths"
  by (force simp: resource_of_def known_paths_def dest: map_of_SomeD split: option.splits)

lemma sends_comparison:
  assumes "(app, origin) \<in> set (map (\<lambda>(_, t). (rt_application_id t, rt_origin t)) RANGE_TARGETS)"
    and "{account_path own, transactions_path own} \<subseteq> set known_paths"
    and "{account_path alt, transactions_path alt} \<subseteq> set known_paths"
  shows "sends_at_most 3 (Some (ac_nonce q)) (comparison http m2 q t oid app origin own alt)"
proof -
  have get: "sends_at_most 1 (Some (ac_nonce q)) (broker_get http (Some (ac_nonce q)) app origin path al)"
    if "path \<in> set known_paths" for path al
    by (rule sends_get) (use assms that in auto)
  have fin: "sends_at_most 0 (Some (ac_nonce q)) (thenE (charge m2 a d) (if ok then retE y else throwE e))"
    for a d ok and y :: "action_result \<times> observation" and e
    by (rule sends_bind [where j = 0 and k = 0, simplified]) (auto intro: sends_charge)
  have "sends_at_most (1 + (1 + (1 + 0))) (Some (ac_nonce q)) (comparison http m2 q t oid app origin own alt)"
    unfolding comparison_def Let_def
    by (intro sends_bind get fin) (use assms in auto)
  then show ?thesis by (simp add: numeral_3_eq_3)
qed

lemma sends_paid_comparison:
  "sends_at_most 3 (Some (ac_nonce q)) (paid_comparison http m1 m2 q t oid)"
proof -
  let ?n = "Some (ac_nonce q)"
  have rest: "sends_at_most (0 + 3) ?n
      (thenE (charge m1 (tk_agent_id t) (no_spend\<lparr>bu_target_requests := 3\<rparr>))
         (comparison http m2 q t oid app origin own alt))"
    if "(app, origin) \<in> set (map (\<lambda>(_, t). (rt_application_id t, rt_origin t)) RANGE_TARGETS)"
      "{account_path own, transactions_path own} \<subseteq> set known_paths"
      "{account_path alt, transactions_path alt} \<subseteq> set known_paths" for app origin own alt
    using that by (intro sends_bind sends_charge sends_comparison)
  have "sends_at_most (0 + (0 + (0 + (0 + 3)))) ?n (paid_comparison http m1 m2 q t oid)"
    unfolding paid_comparison_def
  proof (intro sends_bind sends_pure)
    fix a s t' assume run: "target_of (tc_target_ref (tk_context t)) s = (Inr a, t')"
    obtain app origin where a: "a = (app, origin)" by fastforce
    have "sends_at_most (0 + (0 + (0 + 3))) ?n
       (bindE (resource_of (ac_resource_refs q ! 0)) (\<lambda>own.
        bindE (resource_of (ac_resource_refs q ! 1)) (\<lambda>alt.
        thenE (charge m1 (tk_agent_id t) (no_spend\<lparr>bu_target_requests := 3\<rparr>))
        (comparison http m2 q t oid app origin own alt))))"
      by (intro sends_bind sends_pure rest) (use run a target_of_Inr resource_of_Inr in auto)
    then show "sends_at_most (0 + (0 + (0 + 3))) ?n
       (case a of (app, origin) \<Rightarrow>
        bindE (resource_of (ac_resource_refs q ! 0)) (\<lambda>own.
        bindE (resource_of (ac_resource_refs q ! 1)) (\<lambda>alt.
        thenE (charge m1 (tk_agent_id t) (no_spend\<lparr>bu_target_requests := 3\<rparr>))
        (comparison http m2 q t oid app origin own alt))))"
      by (simp add: a)
  qed
  then show ?thesis by simp
qed

section \<open>Histories\<close>

datatype broker_op =
    Discover int int string agent_task string string
  | Execute int int int action_request agent_task string
  | Campaign budget_op

text \<open>Between the broker's own calls the campaign budget, which the broker shares with the rest of the
  runtime, registers agents and is charged by others.\<close>

definition broker_step :: "target_system \<Rightarrow> broker_op \<Rightarrow> broker \<Rightarrow> broker" where
  "broker_step http op s = (case op of
       Discover m1 m2 run t ref oid \<Rightarrow> snd (discover_surface http m1 m2 run t ref oid s)
     | Execute now m1 m2 q t oid \<Rightarrow> snd (execute_action http now m1 m2 q t oid s)
     | Campaign b \<Rightarrow> s\<lparr>br_budget := budget_step b (br_budget s)\<rparr>)"

text \<open>A history also counts the requests that others than the broker were charged for.\<close>

definition broker_observe :: "target_system \<Rightarrow> broker_op \<Rightarrow> broker \<times> nat \<Rightarrow> broker \<times> nat" where
  "broker_observe http op h = (case h of (s, others) \<Rightarrow>
     (broker_step http op s,
      (case op of Campaign _ \<Rightarrow> others + (paid (broker_step http op s) - paid s) | _ \<Rightarrow> others)))"

definition sent_under :: "string \<Rightarrow> broker \<Rightarrow> http_request list" where
  "sent_under n s = filter (\<lambda>q. hq_nonce q = Some n) (br_sent s)"

definition broker_ok :: "nat \<Rightarrow> broker \<Rightarrow> bool" where
  "broker_ok c s \<longleftrightarrow>
     length (br_sent s) + c \<le> paid s \<and> list_all in_inventory (br_sent s) \<and>
     (\<forall>n. length (sent_under n s) \<le> 3 \<and> (n \<notin> set (br_used_nonces s) \<longrightarrow> sent_under n s = []))"

text \<open>Admission sends nothing; it uses up the nonce of a request that it lets through, and it lets
  through only a nonce that was not used.\<close>

lemma raise_if_run: "raise_if b c s = (if b then Inl (BrokerRejection c) else Inr (), s)"
  by (simp add: raise_if_def rejectE_run)

lemma authorize_or_run:
  "authorize_or role cid s = (case authorize role cid of Inl e \<Rightarrow> Inl (Broker_Role e) | Inr cp \<Rightarrow> Inr cp, s)"
  by (simp add: authorize_or_def split: sum.split)

definition past_time_checks :: "action_request \<Rightarrow> agent_task \<Rightarrow> int \<Rightarrow> broker \<Rightarrow> bool" where
  "past_time_checks q t now s \<longleftrightarrow>
     ac_run_id q = tk_run_id t \<and> ac_task_id q = tk_task_id t \<and> ac_agent_id q = tk_agent_id t \<and>
     ac_role q = tk_role t \<and> (\<exists>cp. authorize (ac_role q) (ac_capability_id q) = Inr cp) \<and>
     now < ac_expires_at q \<and> ac_issued_at q \<le> now \<and> ac_nonce q \<notin> set (br_used_nonces s)"

definition in_context :: "action_request \<Rightarrow> agent_task \<Rightarrow> bool" where
  "in_context q t \<longleftrightarrow>
     ac_operation_id q \<in> set (tc_allowed_operation_ids (tk_context t)) \<and>
     list_all (\<lambda>a. a \<in> set (tc_credential_aliases (tk_context t))) (ac_credential_aliases q) \<and>
     list_all (\<lambda>r. r \<in> set (tc_resource_refs (tk_context t))) (ac_resource_refs q) \<and>
     length (ac_credential_aliases q) = 2 \<and> length (ac_resource_refs q) = 2"

lemma admit_action_run:
  "snd (admit_action q t now s) =
     (if past_time_checks q t now s then s\<lparr>br_used_nonces := ac_nonce q # br_used_nonces s\<rparr> else s)"
  "(\<exists>u. fst (admit_action q t now s) = Inr u) \<longleftrightarrow> past_time_checks q t now s \<and> in_context q t"
  by (auto simp: admit_action_def bind_action_def bindE_run raise_if_run authorize_or_run
      past_time_checks_def in_context_def split: sum.splits)

lemma execute_action_run:
  obtains (refused) "fst (admit_action q t now s) \<noteq> Inr ()" and "\<exists>e. execute_action http now m1 m2 q t oid s = (Inl e, snd (admit_action q t now s))"
    | (admitted) "past_time_checks q t now s" and "in_context q t"
        and "execute_action http now m1 m2 q t oid s =
          paid_comparison http m1 m2 q t oid (s\<lparr>br_used_nonces := ac_nonce q # br_used_nonces s\<rparr>)"
proof (cases "fst (admit_action q t now s)")
  case (Inl e)
  then have "execute_action http now m1 m2 q t oid s = (Inl e, snd (admit_action q t now s))"
    by (cases "admit_action q t now s") (simp add: execute_action_def)
  with Inl show ?thesis by (intro that(1)) auto
next
  case (Inr u)
  then have ok: "past_time_checks q t now s" "in_context q t"
    using admit_action_run(2) [of q t now s] by auto
  have "admit_action q t now s = (Inr (), s\<lparr>br_used_nonces := ac_nonce q # br_used_nonces s\<rparr>)"
    using Inr ok admit_action_run(1) [of q t now s] by (metis old.unit.exhaust prod.collapse)
  then show ?thesis using ok by (intro that(2)) (simp_all add: execute_action_def)
qed

lemma broker_ok_sends:
  assumes "broker_ok c s" and "sends_at_most k n p" and "length (br_sent (snd (p s))) + c \<le> paid (snd (p s))"
    and "k \<le> 3" and "\<And>m. n = Some m \<Longrightarrow> sent_under m s = [] \<and> m \<in> set (br_used_nonces s)"
  shows "broker_ok c (snd (p s))"
proof -
  obtain xs where xs: "br_sent (snd (p s)) = br_sent s @ xs" "length xs \<le> k"
    "\<forall>x \<in> set xs. hq_nonce x = n \<and> in_inventory x" "br_used_nonces (snd (p s)) = br_used_nonces s"
    using assms(2) unfolding sends_at_most_def by meson
  have under: "sent_under m (snd (p s)) = sent_under m s @ (if n = Some m then xs else [])" for m
    using xs(1,3) by (auto simp: sent_under_def filter_id_conv filter_empty_conv)
  show ?thesis
    unfolding broker_ok_def
  proof (intro conjI allI)
    show "list_all in_inventory (br_sent (snd (p s)))"
      using assms(1) xs by (auto simp: broker_ok_def list_all_iff)
    show "length (sent_under m (snd (p s))) \<le> 3" for m
      using assms(1,4,5) xs(2) under by (auto simp: broker_ok_def)
    show "m \<notin> set (br_used_nonces (snd (p s))) \<longrightarrow> sent_under m (snd (p s)) = []" for m
      using assms(1,5) xs(4) under by (auto simp: broker_ok_def)
  qed (fact assms(3))
qed

text \<open>Every request was paid for first.\<close>

abbreviation paid_up :: "nat \<Rightarrow> broker \<Rightarrow> bool" where
  "paid_up c s \<equiv> length (br_sent s) + c \<le> paid s"

lemma preserves_bind_run:
  assumes "preserves P p" and "\<And>a s t. p s = (Inr a, t) \<Longrightarrow> preserves P (f a)"
  shows "preserves P (bindE p f)"
proof (rule preservesI)
  fix s assume "P s"
  obtain r t where p: "p s = (r, t)" by fastforce
  from assms(1) p \<open>P s\<close> have "P t" by (rule preservesD_eq)
  then show "P (snd (bindE p f s))"
    using p assms(2) by (cases r) (auto simp: bindE_run dest: preservesD)
qed

lemma paid_silent: "sends_at_most 0 n p \<Longrightarrow> preserves (paid_up c) p"
proof (rule preservesI)
  fix s assume silent: "sends_at_most 0 n p" and "paid_up c s"
  then obtain xs where "br_sent (snd (p s)) = br_sent s @ xs" "length xs \<le> 0" "paid s \<le> paid (snd (p s))"
    unfolding sends_at_most_def by meson
  with \<open>paid_up c s\<close> show "paid_up c (snd (p s))" by simp
qed

lemma paid_charge:
  "sends_at_most k n p \<Longrightarrow> preserves (paid_up c) (thenE (charge now a (no_spend\<lparr>bu_target_requests := k\<rparr>)) p)"
  by (rule preservesI) (rule charge_then_paid)

lemma paid_paid_comparison: "preserves (paid_up c) (paid_comparison http m1 m2 q t oid)"
  unfolding paid_comparison_def
proof (rule preserves_bind_run)
  show "preserves (paid_up c) (target_of (tc_target_ref (tk_context t)))"
    by (rule paid_silent [of None]) simp
  fix a s t' assume run: "target_of (tc_target_ref (tk_context t)) s = (Inr a, t')"
  obtain app origin where a: "a = (app, origin)" by fastforce
  have "preserves (paid_up c)
     (bindE (resource_of (ac_resource_refs q ! 0)) (\<lambda>own.
      bindE (resource_of (ac_resource_refs q ! 1)) (\<lambda>alt.
      thenE (charge m1 (tk_agent_id t) (no_spend\<lparr>bu_target_requests := 3\<rparr>))
      (comparison http m2 q t oid app origin own alt))))"
    by (intro preserves_bind_run paid_charge [OF sends_comparison] paid_silent [of None] sends_pure)
       (use run a target_of_Inr resource_of_Inr in auto)
  then show "preserves (paid_up c)
     (case a of (app, origin) \<Rightarrow>
      bindE (resource_of (ac_resource_refs q ! 0)) (\<lambda>own.
      bindE (resource_of (ac_resource_refs q ! 1)) (\<lambda>alt.
      thenE (charge m1 (tk_agent_id t) (no_spend\<lparr>bu_target_requests := 3\<rparr>))
      (comparison http m2 q t oid app origin own alt))))"
    by (simp add: a)
qed

lemma execute_ok: "broker_ok c s \<Longrightarrow> broker_ok c (snd (execute_action http now m1 m2 q t oid s))"
proof -
  assume ok: "broker_ok c s"
  have used: "broker_ok c (s\<lparr>br_used_nonces := ac_nonce q # br_used_nonces s\<rparr>)"
    using ok by (simp add: broker_ok_def sent_under_def paid_def)
  show ?thesis
  proof (cases rule: execute_action_run [of q t now s http m1 m2 oid])
    case refused
    then show ?thesis using ok used by (auto simp: admit_action_run(1))
  next
    case admitted
    have fresh: "sent_under (ac_nonce q) s = []"
      using ok admitted(1) by (simp add: broker_ok_def past_time_checks_def)
    show ?thesis
      unfolding admitted(3)
      by (rule broker_ok_sends [OF used sends_paid_comparison])
         (use used preservesD [OF paid_paid_comparison] fresh in \<open>auto simp: broker_ok_def sent_under_def\<close>)
  qed
qed

lemma sends_pay_and_end:
  "sends_at_most 0 n (thenE (charge m a d) (if ok then retE y else throwE e))"
  by (rule sends_bind [where j = 0 and k = 0, simplified]) (auto intro: sends_charge)

lemma sends_surface_from: "sends_at_most (0 + 0) None (surface_from m2 run t oid r)"
  unfolding surface_from_def
  by (rule sends_bind) (simp_all add: Let_def sends_pay_and_end split: option.split json.split)

lemma sends_discovery:
  assumes "(app, origin) \<in> set (map (\<lambda>(_, t). (rt_application_id t, rt_origin t)) RANGE_TARGETS)"
  shows "sends_at_most (1 + 0) None
    (bindE (broker_get http None app origin ''/openapi.json'' None) (surface_from m2 run t oid))"
  by (intro sends_bind sends_get sends_surface_from [simplified])
     (use assms in \<open>auto simp: known_paths_def\<close>)

lemma discover_ok: "broker_ok c s \<Longrightarrow> broker_ok c (snd (discover_surface http m1 m2 run t ref oid s))"
proof -
  assume ok: "broker_ok c s"
  let ?tail = "\<lambda>(app, origin). thenE (charge m1 (tk_agent_id t) (no_spend\<lparr>bu_target_requests := 1\<rparr>))
      (bindE (broker_get http None app origin ''/openapi.json'' None) (surface_from m2 run t oid))"
  have sends: "sends_at_most (0 + 1) None (?tail a)" and pays: "preserves (paid_up c) (?tail a)"
    if run: "target_of ref s' = (Inr a, t')" for a s' t'
  proof -
    obtain app origin where a: "a = (app, origin)" by fastforce
    have discovery: "sends_at_most 1 None
        (bindE (broker_get http None app origin ''/openapi.json'' None) (surface_from m2 run t oid))"
      using sends_discovery [OF target_of_Inr [OF run [unfolded a]]] by simp
    show "sends_at_most (0 + 1) None (?tail a)"
      unfolding a prod.case by (rule sends_bind [OF sends_charge discovery])
    show "preserves (paid_up c) (?tail a)"
      unfolding a prod.case by (rule paid_charge [OF discovery])
  qed
  have "sends_at_most (0 + (0 + (0 + (0 + 1)))) None (discover_surface http m1 m2 run t ref oid)"
    unfolding discover_surface_def by (intro sends_bind [OF sends_pure(3)] sends_bind [OF sends_pure(5)] sends_bind [OF sends_pure(6)] sends)
  moreover have "preserves (paid_up c) (discover_surface http m1 m2 run t ref oid)"
    unfolding discover_surface_def
    by (intro preserves_bind_run [OF paid_silent [OF sends_pure(3) [of None]]]
        preserves_bind_run [OF paid_silent [OF sends_pure(5) [of None]]]
        preserves_bind_run [OF paid_silent [OF sends_pure(6) [of None]]] pays)
  ultimately show ?thesis
    using broker_ok_sends [OF ok, of 1 None "discover_surface http m1 m2 run t ref oid"] ok
    by (auto simp: broker_ok_def dest: preservesD)
qed

definition fresh_broker :: "broker \<Rightarrow> bool" where
  "fresh_broker s \<longleftrightarrow> br_sent s = [] \<and> br_used_nonces s = [] \<and>
     (\<exists>run limit ceil now. new_budget run limit ceil now = Inr (br_budget s))"

lemma budget_step_pays:
  "bu_target_requests (lg_usage (ab_global b)) \<le> bu_target_requests (lg_usage (ab_global (budget_step op b)))"
proof -
  have "bu_target_requests (lg_usage (ab_global b)) \<le>
      bu_target_requests (lg_usage (ab_global (snd (consume_budget now agent d b))))" for now agent d
    by (cases rule: consume_budget_cases [of now agent d b]) (simp_all add: charge_ledger_def apply_usage_def)
  then show ?thesis
    by (cases op) (simp_all add: budget_step_def reconcile_elapsed_def register_agent_def bindE_run rejectE_run
        split: option.split)
qed

abbreviation history_ok :: "broker \<times> nat \<Rightarrow> bool" where
  "history_ok h \<equiv> broker_ok (snd h) (fst h)"

interpretation broker_inv: invariant_system "\<lambda>h. fresh_broker (fst h) \<and> snd h = 0" "broker_observe http" history_ok for http
proof unfold_locales
  show "fresh_broker (fst h) \<and> snd h = 0 \<Longrightarrow> history_ok h" for h
    by (simp add: fresh_broker_def broker_ok_def sent_under_def)
  show "history_ok h \<Longrightarrow> history_ok (broker_observe http op h)" for h op
  proof (cases op)
    case (Campaign b)
    assume ok: "history_ok h"
    have "paid (fst h) \<le> paid (broker_step http op (fst h))"
      using budget_step_pays [of "br_budget (fst h)" b] by (simp add: Campaign broker_step_def paid_def)
    then show "history_ok (broker_observe http op h)"
      using ok by (cases h) (auto simp: Campaign broker_observe_def broker_step_def broker_ok_def sent_under_def)
  qed (cases h; simp add: broker_observe_def broker_step_def discover_ok execute_ok)+
qed

text \<open>The broker's charges keep the campaign budget in order.\<close>

abbreviation budget_in_order :: "broker \<Rightarrow> bool" where
  "budget_in_order s \<equiv> ledgers_ok (br_budget s)"

lemma charge_in_order [pres]: "preserves budget_in_order (charge now a d)"
proof (rule preservesI)
  fix s assume "budget_in_order s"
  then have "ledgers_ok (budget_step (Consume now (Some a) d) (br_budget s))"
    by (rule budget_inv.inv_step)
  then show "budget_in_order (snd (charge now a d s))"
    by (auto simp: budget_step_def charge_def split: prod.splits sum.splits)
qed

lemma get_in_order [pres]: "preserves budget_in_order (broker_get http n app origin path alias)"
  by (auto simp: preserves_def broker_get_def bindE_run Let_def split: option.split)

lemma pure_in_order [pres]:
  "preserves budget_in_order (raise_if b c)" "preserves budget_in_order (authorize_or role cid)"
  "preserves budget_in_order (target_of ref)" "preserves budget_in_order (resource_of ref)"
  "preserves budget_in_order (modifyE (\<lambda>s. s\<lparr>br_used_nonces := h s\<rparr>))"
  by (simp_all add: preserves_def raise_if_run authorize_or_run target_of_def resource_of_def
      split: list.split option.split)

lemma steps_in_order:
  "preserves budget_in_order (execute_action http now m1 m2 q t oid)"
  "preserves budget_in_order (discover_surface http m1 m2 run t ref oid)"
  unfolding execute_action_def admit_action_def bind_action_def paid_comparison_def comparison_def
    discover_surface_def surface_from_def Let_def
  by (intro pres | split option.split json.split | intro conjI impI allI)+

lemma step_in_order: "budget_in_order s \<Longrightarrow> budget_in_order (broker_step http op s)"
  by (cases op)
     (simp_all add: broker_step_def preservesD [OF steps_in_order(1)] preservesD [OF steps_in_order(2)] budget_inv.inv_step)

interpretation broker_budget: invariant_system "\<lambda>h. fresh_broker (fst h) \<and> snd h = 0" "broker_observe http"
  "\<lambda>h. budget_in_order (fst h)" for http
proof unfold_locales
  show "fresh_broker (fst h) \<and> snd h = 0 \<Longrightarrow> budget_in_order (fst h)" for h
    unfolding fresh_broker_def by (blast intro: budget_inv.inv_init)
  show "budget_in_order (fst h) \<Longrightarrow> budget_in_order (fst (broker_observe http op h))" for h op
    by (cases h) (simp add: broker_observe_def step_in_order)
qed

section \<open>Properties\<close>

definition demo_broker :: broker where
  "demo_broker = \<lparr>br_budget = demo_budget, br_used_nonces = [], br_sent = []\<rparr>"

lemma demo_broker_fresh: "fresh_broker demo_broker"
  using demo_new by (auto simp: fresh_broker_def demo_broker_def)

text \<open>C14: Over any history of a campaign, in which agents are registered, the broker discovers surfaces
  and executes actions, and other parts of the runtime charge the same budget, and against any
  target, the campaign was charged for every request that the broker sent, on top of what the
  others were charged for, and no more than its limit, and each agent no more than its own;
  every request went to the origin of an inventory target, on a known path.\<close>

theorem target_requests_are_paid_for:
  assumes "fresh_broker s0" and "(s, others) = fold (broker_observe http) ops (s0, 0)"
  shows "length (br_sent s) + others \<le> bu_target_requests (lg_usage (ab_global (br_budget s))) \<and>
    bu_target_requests (lg_usage (ab_global (br_budget s))) \<le> bl_target_requests (lg_limit (ab_global (br_budget s))) \<and>
    (\<forall>(a, l) \<in> set (ab_agents (br_budget s)). bu_target_requests (lg_usage l) \<le> bl_target_requests (lg_limit l)) \<and>
    (\<forall>q \<in> set (br_sent s). in_inventory q)"
  using broker_inv.inv_reachable [of "(s0, 0)" http ops] broker_budget.inv_reachable [of "(s0, 0)" http ops] assms(1)
  by (simp add: assms(2) [symmetric] broker_ok_def paid_def ledgers_ok_def within_limit_def list_all_iff case_prod_beta)

text \<open>An authorization task and an action for it, the campaign ready to pay.\<close>

definition demo_task :: agent_task where
  "demo_task = \<lparr>tk_task_id = ''t'', tk_run_id = ''r'', tk_agent_id = demo_agent_id, tk_role = AUTHORIZATION_AGENT,
     tk_context = \<lparr>tc_target_ref = ''range-bank'', tc_scenario_ref = ''s'', tc_allowed_operation_ids = [''getAccount''],
       tc_credential_aliases = [''cred-bank-alex'', ''cred-bank-blair''],
       tc_resource_refs = [''resource-account-owner'', ''resource-account-alternate''], tc_observation_refs = []\<rparr>\<rparr>"

definition demo_action :: action_request where
  "demo_action = \<lparr>ac_action_id = ''a'', ac_nonce = ''n'', ac_run_id = ''r'', ac_task_id = ''t'',
     ac_agent_id = demo_agent_id, ac_role = AUTHORIZATION_AGENT, ac_capability_id = ''aegis.authorization.compare'',
     ac_operation_id = ''getAccount'', ac_credential_aliases = [''cred-bank-alex'', ''cred-bank-blair''],
     ac_resource_refs = [''resource-account-owner'', ''resource-account-alternate''], ac_issued_at = 0, ac_expires_at = 10\<rparr>"

definition demo_http :: target_system where
  "demo_http k q = Some \<lparr>ha_status = 200, ha_content = [], ha_json = None\<rparr>"

text \<open>A campaign that may send four requests, before and after its agent is registered.\<close>

definition campaign_limit :: budget_limit where
  "campaign_limit = demo_limit\<lparr>bl_target_requests := 4, bl_evidence_bytes := 500\<rparr>"

definition demo_start :: broker where
  "demo_start = demo_broker\<lparr>br_budget := demo_budget\<lparr>
     ab_global := (ab_global demo_budget)\<lparr>lg_limit := campaign_limit\<rparr>\<rparr>\<rparr>"

definition demo_campaign :: broker where
  "demo_campaign = demo_start\<lparr>br_budget := (br_budget demo_start)\<lparr>
     ab_agents := [(demo_agent_id, \<lparr>lg_run_id = demo_run_id, lg_agent_id = Some demo_agent_id,
       lg_limit = campaign_limit, lg_usage = no_spend\<rparr>)]\<rparr>\<rparr>"

lemma demo_start_fresh: "fresh_broker demo_start"
proof -
  have "run_id_ok demo_run_id"
    by (simp add: run_id_ok_def demo_run_id_def pat_def is_hex_def is_digit_def)
  then have "new_budget demo_run_id campaign_limit demo_ceiling 0 = Inr (br_budget demo_start)"
    by (simp add: new_budget_def fresh_ledger_def demo_start_def demo_broker_def demo_budget_def campaign_limit_def
        demo_limit_def demo_ceiling_def)
  then show ?thesis by (auto simp: fresh_broker_def demo_start_def demo_broker_def)
qed

lemma demo_registers:
  "broker_step http (Campaign (Register_Agent demo_agent_id campaign_limit)) demo_start = demo_campaign"
proof -
  have "run_id_ok demo_run_id" "agent_id_ok demo_agent_id"
    by (simp_all add: run_id_ok_def agent_id_ok_def demo_run_id_def demo_agent_id_def pat_def is_hex_def is_digit_def)
  then show ?thesis
    by (simp add: broker_step_def budget_step_def register_agent_def bindE_run rejectE_run fresh_ledger_def
        demo_campaign_def demo_start_def demo_broker_def demo_budget_def)
qed

text \<open>Over any history, the requests sent under one nonce are at most three, those of a single action,
  and a nonce under which anything was sent is used up: no further action under it sends
  anything.\<close>

theorem nonce_pays_for_one_action:
  assumes "fresh_broker s0" and "s = fst (fold (broker_observe http) ops (s0, 0))"
  shows "length (sent_under n s) \<le> 3 \<and>
    (ac_nonce q = n \<and> sent_under n s \<noteq> [] \<longrightarrow>
       br_sent (snd (execute_action http now m1 m2 q t oid s)) = br_sent s)"
proof -
  have "history_ok (fold (broker_observe http) ops (s0, 0))"
    by (rule broker_inv.inv_reachable) (simp add: assms(1))
  then obtain c where ok: "broker_ok c s" unfolding assms(2) by blast
  have "br_sent (snd (execute_action http now m1 m2 q t oid s)) = br_sent s"
    if "ac_nonce q = n" "sent_under n s \<noteq> []"
  proof (cases rule: execute_action_run [of q t now s http m1 m2 oid])
    case refused
    then show ?thesis by (auto simp: admit_action_run(1))
  next
    case admitted
    with ok that show ?thesis by (auto simp: broker_ok_def past_time_checks_def)
  qed
  with ok show ?thesis by (auto simp: broker_ok_def)
qed

lemma broker_get_Inr:
  assumes "broker_get http n app origin path (Some a) s = (Inr r, s')"
  obtains b where "map_of CREDENTIALS a = Some b"
    and "s' = s\<lparr>br_sent := br_sent s @ [\<lparr>hq_nonce = n, hq_application = app, hq_origin = origin,
           hq_path = path, hq_bearer = Some b\<rparr>]\<rparr>"
  using assms by (auto simp: broker_get_def bindE_run Let_def split: option.splits)

lemma charge_sent: "charge now a d s = (Inr u, s') \<Longrightarrow> br_sent s' = br_sent s \<and> br_used_nonces s' = br_used_nonces s"
  by (auto simp: charge_def split: prod.splits sum.splits)

text \<open>C15: An action that succeeds was bound to its task, authorised for its role, in its time window and
  under a fresh nonce, inside the task's operations, aliases and resources; and it sent exactly
  three requests with the first alias's credential: the owner's account, the other account, and
  the transactions of the other account.\<close>

theorem executed_action_sends_the_comparison:
  assumes "execute_action http now m1 m2 q t oid s = (Inr (res, obs), s')"
  shows "past_time_checks q t now s \<and> in_context q t \<and> ac_nonce q \<in> set (br_used_nonces s') \<and>
    (\<exists>app origin own alt b.
       map_of RESOURCES (ac_resource_refs q ! 0) = Some own \<and> map_of RESOURCES (ac_resource_refs q ! 1) = Some alt \<and>
       map_of CREDENTIALS (ac_credential_aliases q ! 0) = Some b \<and>
       br_sent s' = br_sent s @ map (\<lambda>path. \<lparr>hq_nonce = Some (ac_nonce q), hq_application = app,
           hq_origin = origin, hq_path = path, hq_bearer = Some b\<rparr>)
         [account_path own, account_path alt, transactions_path alt])"
proof (cases rule: execute_action_run [of q t now s http m1 m2 oid])
  case refused
  with assms show ?thesis by auto
next
  case admitted
  let ?s1 = "s\<lparr>br_used_nonces := ac_nonce q # br_used_nonces s\<rparr>"
  from admitted(3) assms have "paid_comparison http m1 m2 q t oid ?s1 = (Inr (res, obs), s')" by simp
  then obtain app origin own alt s2 where res:
      "map_of RESOURCES (ac_resource_refs q ! 0) = Some own" "map_of RESOURCES (ac_resource_refs q ! 1) = Some alt"
    and charge: "charge m1 (tk_agent_id t) (no_spend\<lparr>bu_target_requests := 3\<rparr>) ?s1 = (Inr (), s2)"
    and run: "comparison http m2 q t oid app origin own alt s2 = (Inr (res, obs), s')"
    unfolding paid_comparison_def
    by (auto elim!: bindE_InrE simp: target_of_def resource_of_def split: list.splits option.splits)
  from run obtain r1 s3 r2 s4 r3 s5 d y where
      "broker_get http (Some (ac_nonce q)) app origin (account_path own) (Some (ac_credential_aliases q ! 0)) s2 = (Inr r1, s3)"
      "broker_get http (Some (ac_nonce q)) app origin (account_path alt) (Some (ac_credential_aliases q ! 0)) s3 = (Inr r2, s4)"
      "broker_get http (Some (ac_nonce q)) app origin (transactions_path alt) (Some (ac_credential_aliases q ! 0)) s4 = (Inr r3, s5)"
      "charge m2 (tk_agent_id t) d s5 = (Inr (), y)" "s' = y"
    unfolding comparison_def Let_def by (auto elim!: bindE_InrE split: if_splits)
  then show ?thesis
    using res charge_sent [OF charge] admitted(1,2)
    by (auto elim!: broker_get_Inr dest!: charge_sent)
qed

lemma demo_statuses:
  "bounded_text (JObj [(points_of ''owner_control'', JInt 200), (points_of ''cross_owner'', JInt 200),
     (points_of ''cross_owner_transactions'', JInt 200)]) =
   ''{'' @ [CHR 0x22] @ ''cross_owner'' @ [CHR 0x22] @ '':200,'' @ [CHR 0x22] @ ''cross_owner_transactions'' @ [CHR 0x22] @
     '':200,'' @ [CHR 0x22] @ ''owner_control'' @ [CHR 0x22] @ '':200}''"
  by code_simp

lemma demo_observation:
  "ob_evidence_bytes (comparison_observation demo_action oid r1 r2 200 200 200) = 70"
  "ob_summary (comparison_observation demo_action oid r1 r2 200 200 200) = ''Controller executed owner-control and cross-owner comparison requests.''"
  "ob_observation_id (comparison_observation demo_action oid r1 r2 200 200 200) = oid"
  "length (ob_operation_ids (comparison_observation demo_action oid r1 r2 200 200 200)) = 2"
  "length (ob_resource_refs (comparison_observation demo_action oid r1 r2 200 200 200)) = 2"
  by (simp_all add: comparison_observation_def Let_def demo_statuses)

lemma demo_task_simps [simp]:
  "tc_target_ref (tk_context demo_task) = ''range-bank''" "tk_agent_id demo_task = demo_agent_id"
  "ac_resource_refs demo_action ! 0 = ''resource-account-owner''"
  "ac_resource_refs demo_action ! Suc 0 = ''resource-account-alternate''"
  "ac_credential_aliases demo_action ! 0 = ''cred-bank-alex''" "ac_nonce demo_action = ''n''"
  by (simp_all add: demo_task_def demo_action_def)

lemma demo_gets:
  "broker_get demo_http n app origin path (Some ''cred-bank-alex'') s =
     (Inr \<lparr>ha_status = 200, ha_content = [], ha_json = None\<rparr>, s\<lparr>br_sent := br_sent s @ [\<lparr>hq_nonce = n,
        hq_application = app, hq_origin = origin, hq_path = path, hq_bearer = Some ''range-user-alex''\<rparr>]\<rparr>)"
  by (simp add: broker_get_def bindE_run Let_def demo_http_def CREDENTIALS_def)

lemma demo_charge:
  assumes "br_budget s = br_budget demo_campaign"
  shows "\<exists>b. charge 0 demo_agent_id (no_spend\<lparr>bu_target_requests := 3\<rparr>) s = (Inr (), s\<lparr>br_budget := b\<rparr>) \<and>
    (\<forall>s'. br_budget s' = b \<longrightarrow> (\<exists>t. charge 0 demo_agent_id (no_spend\<lparr>bu_evidence_bytes := 70\<rparr>) s' = (Inr (), t)))"
proof -
  let ?b = "snd (consume_budget 0 (Some demo_agent_id) (no_spend\<lparr>bu_target_requests := 3\<rparr>) (br_budget demo_campaign))"
  have [simp]: "demo_agent_id \<noteq> []" by (simp add: demo_agent_id_def)
  note defs = charge_def demo_campaign_def demo_start_def campaign_limit_def demo_broker_def demo_budget_def consume_budget_def bindE_run
    budget_check_def check_ledger_def demo_limit_def no_spend_def bu_tokens_def py_round_def Let_def
    rejectE_run charge_ledger_def apply_usage_def
  have "charge 0 demo_agent_id (no_spend\<lparr>bu_target_requests := 3\<rparr>) s = (Inr (), s\<lparr>br_budget := ?b\<rparr>)"
    using assms by (simp add: defs)
  moreover have "\<exists>t. charge 0 demo_agent_id (no_spend\<lparr>bu_evidence_bytes := 70\<rparr>) s' = (Inr (), t)"
    if "br_budget s' = ?b" for s'
    using that by (simp add: defs)
  ultimately show ?thesis by blast
qed

lemma demo_executes:
  "\<exists>res obs s'. execute_action demo_http 1 0 0 demo_action demo_task ''obs-0123456789abcdef'' demo_campaign =
     (Inr (res, obs), s') \<and> length (br_sent s') = 3"
proof -
  have grant: "authorize AUTHORIZATION_AGENT ''aegis.authorization.compare'' =
      Inr (capability ''aegis.authorization.compare'' [AUTHORIZATION_AGENT] 3 True)"
    by code_simp
  have target: "target_of ''range-bank'' = retE (''aegis-bank'', ''http://aegis-bank:8101'')"
    by (simp add: target_of_def RANGE_TARGETS_def range_target_def)
  have id: "pat ''obs-'' is_hex 16 16 ''obs-0123456789abcdef''"
    by (simp add: pat_def is_hex_def is_digit_def)
  have admit: "admit_action demo_action demo_task 1 demo_campaign =
      (Inr (), demo_campaign\<lparr>br_used_nonces := [''n'']\<rparr>)"
    by (simp add: admit_action_def bind_action_def bindE_run raise_if_run authorize_or_run grant demo_action_def
        demo_task_def demo_campaign_def demo_start_def demo_broker_def)
  obtain b where charge: "charge 0 demo_agent_id (no_spend\<lparr>bu_target_requests := 3\<rparr>)
      (demo_campaign\<lparr>br_used_nonces := [''n'']\<rparr>) = (Inr (), demo_campaign\<lparr>br_used_nonces := [''n''], br_budget := b\<rparr>)"
    and pay: "\<And>s'. br_budget s' = b \<Longrightarrow> \<exists>t. charge 0 demo_agent_id (no_spend\<lparr>bu_evidence_bytes := 70\<rparr>) s' = (Inr (), t)"
    using demo_charge [of "demo_campaign\<lparr>br_used_nonces := [''n'']\<rparr>"] by auto
  let ?s1 = "demo_campaign\<lparr>br_used_nonces := [''n''], br_budget := b\<rparr>"
  have "\<forall>xs. \<exists>t. charge 0 demo_agent_id (no_spend\<lparr>bu_evidence_bytes := 70\<rparr>) (?s1\<lparr>br_sent := xs\<rparr>) = (Inr (), t)"
    using pay by simp
  then obtain f where "\<And>xs. charge 0 demo_agent_id (no_spend\<lparr>bu_evidence_bytes := 70\<rparr>) (?s1\<lparr>br_sent := xs\<rparr>) = (Inr (), f xs)"
    by metis
  moreover from this have "br_sent (f xs) = xs" for xs
    using charge_sent by fastforce
  moreover have "br_sent demo_campaign = []"
    by (simp add: demo_campaign_def demo_start_def demo_broker_def)
  ultimately have "\<exists>res obs s'. comparison demo_http 0 demo_action demo_task ''obs-0123456789abcdef''
      ''aegis-bank'' ''http://aegis-bank:8101'' ''ACC-100'' ''ACC-200'' ?s1 = (Inr (res, obs), s') \<and> length (br_sent s') = 3"
    by (simp add: comparison_def bindE_run demo_gets demo_observation Let_def observation_ok_def id)
  then show ?thesis
    unfolding execute_action_def paid_comparison_def
    by (simp add: bindE_run admit target resource_of_def RESOURCES_def charge)
qed

text \<open>An agent is registered, its action is executed and its three requests are sent, and they are paid for
  beside a charge of someone else.\<close>

lemma demo_history:
  "broker_observe demo_http (Execute 1 0 0 demo_action demo_task ''obs-0123456789abcdef'')
      (broker_observe demo_http (Campaign (Register_Agent demo_agent_id campaign_limit)) (demo_start, 0)) = (s, others) \<Longrightarrow>
   length (br_sent s) = 3"
  using demo_executes by (auto simp: broker_observe_def demo_registers) (auto simp: broker_step_def)

theorem target_requests_are_paid_for_witness:
  "\<exists>s others. (s, others) = fold (broker_observe demo_http)
       [Campaign (Register_Agent demo_agent_id campaign_limit),
        Execute 1 0 0 demo_action demo_task ''obs-0123456789abcdef'',
        Campaign (Consume 0 (Some demo_agent_id) (no_spend\<lparr>bu_target_requests := 1\<rparr>))] (demo_start, 0) \<and>
     length (br_sent s) = 3 \<and> 3 \<le> bu_target_requests (lg_usage (ab_global (br_budget s)))"
proof -
  let ?ops = "[Campaign (Register_Agent demo_agent_id campaign_limit),
        Execute 1 0 0 demo_action demo_task ''obs-0123456789abcdef'',
        Campaign (Consume 0 (Some demo_agent_id) (no_spend\<lparr>bu_target_requests := 1\<rparr>))]"
  obtain s others where h: "(s, others) = fold (broker_observe demo_http) ?ops (demo_start, 0)"
    by (metis surj_pair)
  obtain s1 o1 where h1: "broker_observe demo_http (Execute 1 0 0 demo_action demo_task ''obs-0123456789abcdef'')
      (broker_observe demo_http (Campaign (Register_Agent demo_agent_id campaign_limit)) (demo_start, 0)) = (s1, o1)"
    by fastforce
  from h have "br_sent s = br_sent s1"
    by (simp add: h1) (simp add: broker_observe_def broker_step_def)
  then have sent: "length (br_sent s) = 3"
    using demo_history [OF h1] by simp
  from target_requests_are_paid_for [OF demo_start_fresh h] sent h show ?thesis
    by (intro exI [of _ s] exI [of _ others]) simp
qed

theorem executed_action_sends_the_comparison_witness:
  "\<exists>res obs s' app origin. execute_action demo_http 1 0 0 demo_action demo_task ''obs-0123456789abcdef'' demo_campaign =
       (Inr (res, obs), s') \<and> in_context demo_action demo_task \<and>
     br_sent s' = br_sent demo_campaign @ map (\<lambda>path. \<lparr>hq_nonce = Some ''n'', hq_application = app,
           hq_origin = origin, hq_path = path, hq_bearer = Some ''range-user-alex''\<rparr>)
         [account_path ''ACC-100'', account_path ''ACC-200'', transactions_path ''ACC-200'']"
proof -
  obtain res obs s' where run: "execute_action demo_http 1 0 0 demo_action demo_task ''obs-0123456789abcdef'' demo_campaign =
      (Inr (res, obs), s')"
    using demo_executes by blast
  show ?thesis
    using executed_action_sends_the_comparison [OF run] run
    by (simp add: RESOURCES_def CREDENTIALS_def)
qed

end
