(* ===== verification/Delegation.thy ===== *)
theory Delegation
  imports Prelude
begin

text \<open>
  The delegation queue of \<open>multi_agent/delegation.py\<close> and the chain plans of
  \<open>multi_agent/chain.py\<close>.

  The SQLite table is the list of its rows in insertion order; a row's payload column holds the
  JSON of the delegation, which \<open>model_validate_json\<close> reads back unchanged, so a row is the
  delegation itself.  \<open>enqueued_at\<close> is its ISO text, by which SQLite orders.
\<close>

section \<open>Delegations\<close>

datatype delegation_status = QUEUED | CLAIMED | CLOSED

record delegation =
  dg_delegation_id :: string
  dg_from_agent :: string
  dg_to_agent :: string
  dg_capability_id :: string
  dg_target_ref :: string
  dg_route :: string
  dg_parameter :: string
  dg_rationale :: string
  dg_reference_only :: bool
  dg_confirmed :: bool
  dg_unconfirmed :: bool
  dg_status :: delegation_status
  dg_source_evidence_sha256 :: string
  dg_enqueued_at :: string

definition ROUTABLE_AGENTS :: "string list" where
  "ROUTABLE_AGENTS = [''AUTHORIZATION_AGENT'', ''INJECTION_AGENT'']"

definition ADDRESS_PREFIX :: string where "ADDRESS_PREFIX = ''agentqueue://''"

definition delegation_ok :: "delegation \<Rightarrow> bool" where
  "delegation_ok d \<longleftrightarrow>
     pat ''delg-'' is_hex 16 16 (dg_delegation_id d) \<and> dg_from_agent d = ''RECON_AGENT'' \<and>
     dg_to_agent d \<in> set ROUTABLE_AGENTS \<and>
     take 6 (dg_capability_id d) = ''aegis.'' \<and> drop 6 (dg_capability_id d) \<noteq> [] \<and>
     list_all (\<lambda>c. is_lower c \<or> is_digit c \<or> c = CHR ''_'' \<or> c = CHR ''.'') (drop 6 (dg_capability_id d)) \<and>
     take 6 (dg_target_ref d) = ''range-'' \<and> drop 6 (dg_target_ref d) \<noteq> [] \<and>
     list_all (\<lambda>c. is_lower c \<or> is_digit c \<or> c = CHR ''-'') (drop 6 (dg_target_ref d)) \<and>
     (dg_route d = [] \<or> length (dg_route d) \<le> 200 \<and> hd (dg_route d) = CHR ''/'' \<and>
        list_all (\<lambda>c. is_alnum c \<or> c \<in> set ''/._{}~-'') (tl (dg_route d))) \<and>
     length (dg_parameter d) \<le> 64 \<and>
     list_all (\<lambda>c. is_alnum c \<or> c = CHR ''_'' \<or> c = CHR ''.'' \<or> c = CHR ''-'') (dg_parameter d) \<and>
     3 \<le> length (dg_rationale d) \<and> length (dg_rationale d) \<le> 300 \<and>
     \<not> dg_reference_only d \<and> \<not> dg_confirmed d \<and> dg_unconfirmed d \<and>
     pat [] is_hex 64 64 (dg_source_evidence_sha256 d)"

definition address_of :: "delegation \<Rightarrow> string" where
  "address_of d = ADDRESS_PREFIX @ dg_to_agent d @ ''/'' @ dg_delegation_id d"

datatype queue_error = DELEGATION_ADDRESS_SCHEME_INVALID | DELEGATION_ADDRESS_MALFORMED
  | DELEGATION_ID_ALREADY_ENQUEUED | DELEGATION_ADDRESS_ROUTING_MISMATCH

definition parse_delegation_address :: "string \<Rightarrow> queue_error + string \<times> string" where
  "parse_delegation_address address =
     (if \<not> starts_with ADDRESS_PREFIX address then Inl DELEGATION_ADDRESS_SCHEME_INVALID
      else (case partition_at (CHR ''/'') (drop (length ADDRESS_PREFIX) address) of (to_agent, sep, did) \<Rightarrow>
        if sep = [] \<or> to_agent \<notin> set ROUTABLE_AGENTS \<or> did = [] then Inl DELEGATION_ADDRESS_MALFORMED
        else Inr (to_agent, did)))"

type_synonym queue = "delegation list"

text \<open>The primary key and the unique address column refuse a second row.\<close>

definition enqueue :: "delegation \<Rightarrow> (queue, queue_error, string) prog" where
  "enqueue d = (\<lambda>t.
     if list_ex (\<lambda>r. dg_delegation_id r = dg_delegation_id d \<or> address_of r = address_of d) t then
       (Inl DELEGATION_ID_ALREADY_ENQUEUED, t)
     else (Inr (address_of d), t @ [d]))"

definition get_delegation :: "string \<Rightarrow> queue \<Rightarrow> delegation option" where
  "get_delegation did t = find (\<lambda>r. dg_delegation_id r = did) t"

definition resolve :: "string \<Rightarrow> queue \<Rightarrow> queue_error + delegation option" where
  "resolve address t =
     (case parse_delegation_address address of
        Inl e \<Rightarrow> Inl e
      | Inr (to_agent, did) \<Rightarrow>
          (case get_delegation did t of
             Some d \<Rightarrow> if dg_to_agent d \<noteq> to_agent then Inl DELEGATION_ADDRESS_ROUTING_MISMATCH else Inr (Some d)
           | None \<Rightarrow> Inr None))"

definition pending_for :: "string \<Rightarrow> queue \<Rightarrow> delegation list" where
  "pending_for agent t = sort_key (\<lambda>d. [dg_enqueued_at d, dg_delegation_id d])
     (filter (\<lambda>d. dg_to_agent d = agent \<and> dg_status d = QUEUED) t)"

definition queue_count :: "queue \<Rightarrow> nat" where "queue_count t = length t"

section \<open>Chain plans\<close>

definition MAX_CHAIN_STEPS :: nat where "MAX_CHAIN_STEPS = 5"
definition RECON_CAPABILITY :: string where "RECON_CAPABILITY = ''aegis.surface.openapi''"

definition INJECTION_CAPABILITIES :: "string list" where
  "INJECTION_CAPABILITIES = [''aegis.injection.xss_reflected'', ''aegis.injection.sql_boolean'']"

definition CHAIN_CAPABILITIES :: "string list" where
  "CHAIN_CAPABILITIES = RECON_CAPABILITY # INJECTION_CAPABILITIES"

record chain_step =
  cs_capability :: string
  cs_input_from :: "string option"

datatype chain_error = CHAIN_MAX_DEPTH_EXCEEDED | CHAIN_CAPABILITY_NOT_REGISTERED
  | CHAIN_MUST_START_WITH_RECON | CHAIN_FIRST_STEP_HAS_NO_INPUT | CHAIN_ILLEGAL_TRANSITION
  | CHAIN_STEP_MISSING_INPUT | CHAIN_INPUT_NOT_EARLIER_STEP

text \<open>The field patterns of \<open>ChainStep\<close> and the length bound of \<open>ChainPlanOutput\<close>: \<open>input_from\<close> is
  \<open>step-\<close> and one digit.\<close>

definition chain_step_ok :: "chain_step \<Rightarrow> bool" where
  "chain_step_ok s \<longleftrightarrow> cs_capability s \<in> set CHAIN_CAPABILITIES \<and>
     (case cs_input_from s of None \<Rightarrow> True | Some r \<Rightarrow> pat ''step-'' is_digit 1 1 r)"

definition chain_plan_ok :: "chain_step list \<Rightarrow> bool" where
  "chain_plan_ok steps \<longleftrightarrow> 1 \<le> length steps \<and> length steps \<le> MAX_CHAIN_STEPS \<and> list_all chain_step_ok steps"

text \<open>\<open>int(step.input_from.split("-", 1)[1])\<close>.\<close>

definition step_source :: "string \<Rightarrow> nat" where
  "step_source r = (case partition_at (CHR ''-'') r of (_, _, n) \<Rightarrow> str_nat n)"

definition check_step :: "nat \<Rightarrow> chain_step \<Rightarrow> chain_error option" where
  "check_step index s =
     (if cs_capability s \<notin> set CHAIN_CAPABILITIES then Some CHAIN_CAPABILITY_NOT_REGISTERED
      else if index = 0 then
        (if cs_capability s \<noteq> RECON_CAPABILITY then Some CHAIN_MUST_START_WITH_RECON
         else if cs_input_from s \<noteq> None then Some CHAIN_FIRST_STEP_HAS_NO_INPUT else None)
      else if cs_capability s = RECON_CAPABILITY then Some CHAIN_ILLEGAL_TRANSITION
      else if cs_capability s \<notin> set INJECTION_CAPABILITIES then Some CHAIN_ILLEGAL_TRANSITION
      else (case cs_input_from s of
          None \<Rightarrow> Some CHAIN_STEP_MISSING_INPUT
        | Some r \<Rightarrow> if step_source r < 1 \<or> index + 1 \<le> step_source r then Some CHAIN_INPUT_NOT_EARLIER_STEP
            else None))"

fun check_steps :: "nat \<Rightarrow> chain_step list \<Rightarrow> chain_error option" where
  "check_steps index [] = None"
| "check_steps index (s # ss) =
     (case check_step index s of Some e \<Rightarrow> Some e | None \<Rightarrow> check_steps (index + 1) ss)"

definition validate_chain :: "chain_step list \<Rightarrow> chain_error option" where
  "validate_chain steps =
     (if MAX_CHAIN_STEPS < length steps then Some CHAIN_MAX_DEPTH_EXCEEDED else check_steps 0 steps)"

section \<open>Queue properties\<close>

definition queue_ok :: "queue \<Rightarrow> bool" where
  "queue_ok t \<longleftrightarrow> distinct (map dg_delegation_id t) \<and> list_all delegation_ok t"

definition enqueue_step :: "delegation \<Rightarrow> queue \<Rightarrow> queue" where
  "enqueue_step d t = (if delegation_ok d then snd (enqueue d t) else t)"

interpretation queue_inv: invariant_system "\<lambda>t. t = []" enqueue_step queue_ok
  by unfold_locales
     (auto simp: queue_ok_def enqueue_step_def enqueue_def list_ex_iff)

lemma routable_plain: "a \<in> set ROUTABLE_AGENTS \<Longrightarrow> CHR ''/'' \<notin> set a"
  by (auto simp: ROUTABLE_AGENTS_def)

lemma partition_at_append: "c \<notin> set a \<Longrightarrow> partition_at c (a @ c # b) = (a, [c], b)"
  by (induction a) (auto simp: partition_at_def)

text \<open>The address of a valid delegation parses back to its destination and its id.\<close>

lemma parse_address_of:
  assumes "delegation_ok d"
  shows "parse_delegation_address (address_of d) = Inr (dg_to_agent d, dg_delegation_id d)"
proof -
  have "dg_to_agent d \<in> set ROUTABLE_AGENTS" "dg_delegation_id d \<noteq> []"
    using assms by (auto simp: delegation_ok_def pat_def)
  then show ?thesis
    by (simp add: parse_delegation_address_def address_of_def starts_with_def partition_at_append routable_plain)
qed

definition demo_delegation :: delegation where
  "demo_delegation = \<lparr>dg_delegation_id = ''delg-0123456789abcdef'', dg_from_agent = ''RECON_AGENT'',
     dg_to_agent = ''INJECTION_AGENT'', dg_capability_id = ''aegis.x'', dg_target_ref = ''range-ops'', dg_route = ''/a'',
     dg_parameter = ''q'', dg_rationale = ''why'', dg_reference_only = False, dg_confirmed = False,
     dg_unconfirmed = True, dg_status = QUEUED,
     dg_source_evidence_sha256 = ''0123456789abcdef0123456789abcdef0123456789abcdef0123456789abcdef'',
     dg_enqueued_at = ''2026''\<rparr>"

lemma demo_delegation_ok: "delegation_ok demo_delegation"
  by (simp add: delegation_ok_def demo_delegation_def pat_def is_hex_def is_digit_def is_lower_def
      is_alnum_def ROUTABLE_AGENTS_def)

text \<open>A delegation that is enqueued is found again: its address resolves to it, in every later
  state of the queue, and while queued it is pending for its destination agent and for no other.\<close>

theorem enqueued_delegation_is_addressable:
  assumes "delegation_ok d" and "enqueue d (fold enqueue_step before []) = (Inr address, t)"
  shows "resolve address (fold enqueue_step later t) = Inr (Some d) \<and>
    (dg_status d = QUEUED \<longrightarrow>
       (d \<in> set (pending_for agent (fold enqueue_step later t)) \<longleftrightarrow> agent = dg_to_agent d))"
proof -
  let ?start = "fold enqueue_step before []" and ?t = "fold enqueue_step later t"
  have t: "t = ?start @ [d]" and addr: "address = address_of d"
    using assms(2) by (auto simp: enqueue_def split: if_splits)
  have "t = enqueue_step d ?start"
    unfolding enqueue_step_def assms(2) using assms(1) by simp
  then have ok: "queue_ok ?t"
    using queue_inv.inv_run [OF queue_inv.inv_step [OF queue_inv.inv_reachable [OF refl]]] by metis
  have mono: "set q \<subseteq> set (fold enqueue_step xs q)" for xs q
  proof (induction xs arbitrary: q)
    case (Cons x xs)
    have "set q \<subseteq> set (enqueue_step x q)" by (auto simp: enqueue_step_def enqueue_def)
    with Cons.IH [of "enqueue_step x q"] show ?case by simp
  qed simp
  have mem: "d \<in> set ?t" using mono [of t later] by (auto simp: t)
  have "get_delegation (dg_delegation_id d) ?t = Some d"
  proof -
    have "\<exists>r. find (\<lambda>r. dg_delegation_id r = dg_delegation_id d) ?t = Some r"
      using mem by (metis (mono_tags, lifting) find_None_iff not_Some_eq)
    then obtain r where r: "find (\<lambda>r. dg_delegation_id r = dg_delegation_id d) ?t = Some r" by blast
    then have "r \<in> set ?t" "dg_delegation_id r = dg_delegation_id d"
      by (auto simp: find_Some_iff)
    then have "r = d" using ok mem by (auto simp: queue_ok_def distinct_map inj_on_def)
    with r show ?thesis by (simp add: get_delegation_def)
  qed
  moreover have "parse_delegation_address address = Inr (dg_to_agent d, dg_delegation_id d)"
    unfolding addr using assms(1) by (rule parse_address_of)
  ultimately show ?thesis
    using mem by (auto simp: resolve_def pending_for_def)
qed

theorem enqueued_delegation_is_addressable_witness:
  "resolve (address_of demo_delegation) (fold enqueue_step [] [demo_delegation]) = Inr (Some demo_delegation)"
  using enqueued_delegation_is_addressable [OF demo_delegation_ok, of "[]" "address_of demo_delegation" "[demo_delegation]" "[]"]
  by (simp add: enqueue_def)

section \<open>Chain properties\<close>

lemma check_steps_None:
  "check_steps k ss = None \<longleftrightarrow> (\<forall>i < length ss. check_step (k + i) (ss ! i) = None)"
proof (induction ss arbitrary: k)
  case (Cons s ss)
  then show ?case
    by (auto simp: nth_Cons less_Suc_eq_0_disj split: option.splits nat.splits)
qed simp

text \<open>Following \<open>input_from\<close> from a step; the position of a step counts from 1.\<close>

function trace_input :: "chain_step list \<Rightarrow> nat \<Rightarrow> nat list" where
  "trace_input steps position =
     position # (case (if 1 \<le> position \<and> position \<le> length steps then cs_input_from (steps ! (position - 1)) else None) of
       None \<Rightarrow> []
     | Some r \<Rightarrow> if step_source r < position then trace_input steps (step_source r) else [])"
  by pat_completeness auto
termination by (relation "measure snd") auto

declare trace_input.simps [simp del]

lemma last_trace_input:
  assumes "\<And>i. i < length steps \<Longrightarrow> check_step i (steps ! i) = None" and "1 \<le> p" and "p \<le> length steps"
  shows "last (trace_input steps p) = 1 \<and> length (trace_input steps p) \<le> p \<and> sorted_wrt (>) (trace_input steps p) \<and>
    hd (trace_input steps p) = p \<and> (\<forall>x \<in> set (tl (trace_input steps p)). x < p)"
  using assms(2,3)
proof (induction p rule: less_induct)
  case (less p)
  have check: "check_step (p - 1) (steps ! (p - 1)) = None" using assms(1) less.prems by simp
  show ?case
  proof (cases "p = 1")
    case True
    then have "cs_input_from (steps ! 0) = None"
      using check by (auto simp: check_step_def split: if_splits)
    with True less.prems show ?thesis by (simp add: trace_input.simps)
  next
    case False
    then obtain r where r: "cs_input_from (steps ! (p - 1)) = Some r" "1 \<le> step_source r" "step_source r < p"
      using check less.prems by (auto simp: check_step_def split: if_splits option.splits)
    then have eq: "trace_input steps p = p # trace_input steps (step_source r)"
      using less.prems by (simp add: trace_input.simps [of steps p])
    have IH: "last (trace_input steps (step_source r)) = 1"
      "length (trace_input steps (step_source r)) \<le> step_source r"
      "sorted_wrt (>) (trace_input steps (step_source r))"
      "hd (trace_input steps (step_source r)) = step_source r"
      "\<forall>x \<in> set (tl (trace_input steps (step_source r))). x < step_source r"
      using less.IH [OF r(3) r(2)] r(3) less.prems by auto
    have ne: "trace_input steps (step_source r) \<noteq> []" by (subst trace_input.simps) simp
    have below: "\<forall>x \<in> set (trace_input steps (step_source r)). x < p"
      using IH(4,5) r(3) ne by (cases "trace_input steps (step_source r)") auto
    show ?thesis using eq IH below ne r(3) by auto
  qed
qed

text \<open>C19: Every accepted chain is rooted in its recon step: it has at most five steps, the first is the
  only recon step and takes no input, every other is an injection probe, and following inputs
  from any step goes strictly backwards and ends at the first step.\<close>

theorem chain_is_rooted_in_recon:
  assumes "validate_chain steps = None" and "1 \<le> p" and "p \<le> length steps"
  shows "length steps \<le> 5 \<and> cs_capability (hd steps) = RECON_CAPABILITY \<and>
    (\<forall>i. 0 < i \<and> i < length steps \<longrightarrow> cs_capability (steps ! i) \<in> set INJECTION_CAPABILITIES) \<and>
    last (trace_input steps p) = 1 \<and> sorted_wrt (>) (trace_input steps p) \<and> length (trace_input steps p) \<le> p"
proof -
  have check: "check_step i (steps ! i) = None" if "i < length steps" for i
    using assms(1) that check_steps_None [of 0 steps] by (auto simp: validate_chain_def split: if_splits)
  have "length steps \<le> 5"
    using assms(1) by (auto simp: validate_chain_def MAX_CHAIN_STEPS_def split: if_splits)
  moreover have "cs_capability (hd steps) = RECON_CAPABILITY"
    using check [of 0] assms(2,3) by (cases steps) (auto simp: check_step_def split: if_splits)
  moreover have "cs_capability (steps ! i) \<in> set INJECTION_CAPABILITIES" if "0 < i" "i < length steps" for i
    using check [of i] that by (auto simp: check_step_def split: if_splits)
  ultimately show ?thesis
    using last_trace_input [of steps p] check assms(2,3) by blast
qed

definition demo_chain :: "chain_step list" where
  "demo_chain = [\<lparr>cs_capability = RECON_CAPABILITY, cs_input_from = None\<rparr>,
     \<lparr>cs_capability = ''aegis.injection.xss_reflected'', cs_input_from = Some ''step-1''\<rparr>,
     \<lparr>cs_capability = ''aegis.injection.sql_boolean'', cs_input_from = Some ''step-2''\<rparr>]"

theorem chain_is_rooted_in_recon_witness: "last (trace_input demo_chain 3) = 1"
proof -
  have "validate_chain demo_chain = None"
    by (simp add: validate_chain_def demo_chain_def MAX_CHAIN_STEPS_def check_step_def CHAIN_CAPABILITIES_def
        RECON_CAPABILITY_def INJECTION_CAPABILITIES_def step_source_def partition_at_def)
  then show ?thesis
    using chain_is_rooted_in_recon [of demo_chain 3] by (simp add: demo_chain_def)
qed

end
