(* ===== verification/Engine_Catalog.thy ===== *)
theory Engine_Catalog
  imports Prelude
begin

text \<open>
  The engine catalog, \<open>aegis/engine/catalog.py\<close>, with the enumerations of
  \<open>aegis/engine/contracts.py\<close> it is written in: what each security engine may do, and the
  profiles that bind an engine to its capabilities.  Texts are their UTF-8 bytes.
\<close>

datatype security_engine = AEGIS_NATIVE | NUCLEI | ZAP | BURP_DAST
datatype engine_activity = PASSIVE_OBSERVATION | ACTIVE_PROBING
datatype engine_environment = ENV_SYNTHETIC_LAB | ENV_SYNTHETIC_RANGE | ENV_STAGING | ENV_PRODUCTION
datatype verification_policy = DETERMINISTIC_AEGIS_VERIFIER | HUMAN_REVIEW_REQUIRED | NO_PROMOTION
datatype severity = SEV_LOW | SEV_MEDIUM | SEV_HIGH | SEV_CRITICAL

definition adapter_version :: "security_engine \<Rightarrow> string" where
  "adapter_version e = (case e of
       AEGIS_NATIVE \<Rightarrow> ''aegis-native/1.1.0'' | NUCLEI \<Rightarrow> ''nuclei-adapter/1.2.0''
     | ZAP \<Rightarrow> ''zap-adapter/1.3.0'' | BURP_DAST \<Rightarrow> ''burp-dast-adapter/0.0.0-disabled'')"

record engine_capability =
  ec_capability_id :: string
  ec_engine :: security_engine
  ec_title :: string
  ec_activity :: engine_activity
  ec_supported_methods :: "string list"
  ec_allowed_environments :: "engine_environment list"
  ec_requires_authentication :: bool
  ec_state_changing_possible :: bool
  ec_required_approvals :: "string list"
  ec_request_budget :: int
  ec_concurrency_budget :: int
  ec_time_budget_ms :: int
  ec_evidence_types :: "string list"
  ec_verification_policy :: verification_policy
  ec_adapter_version :: string
  ec_protocol :: string
  ec_verified_severity :: severity

record engine_profile =
  ep_profile_id :: string
  ep_engine :: security_engine
  ep_title :: string
  ep_capability_ids :: "string list"
  ep_enabled :: bool
  ep_environment :: engine_environment
  ep_adapter_version :: string
  ep_description :: string
  ep_isolation_boundary :: string

definition em_dash :: string where "em_dash = [CHR 0xE2, CHR 0x80, CHR 0x94]"

definition CAPABILITY_CATALOG :: "engine_capability list" where
  "CAPABILITY_CATALOG = [
    \<lparr>ec_capability_id = ''bola_object_read_v1'', ec_engine = AEGIS_NATIVE,
      ec_title = ''Object-level authorization read comparison (BOLA)'',
      ec_activity = ACTIVE_PROBING, ec_supported_methods = [''GET'', ''HEAD'', ''OPTIONS''],
      ec_allowed_environments = [ENV_SYNTHETIC_LAB, ENV_SYNTHETIC_RANGE],
      ec_requires_authentication = True, ec_state_changing_possible = False,
      ec_required_approvals = [''SYNTHETIC_LAB_SCOPE''],
      ec_request_budget = 8, ec_concurrency_budget = 1, ec_time_budget_ms = 90000,
      ec_evidence_types = [''API_EVIDENCE_CARD''],
      ec_verification_policy = DETERMINISTIC_AEGIS_VERIFIER,
      ec_adapter_version = adapter_version AEGIS_NATIVE, ec_protocol = ''http'',
      ec_verified_severity = SEV_HIGH\<rparr>,
    \<lparr>ec_capability_id = ''nuclei_scm_metadata_exposure_v1'', ec_engine = NUCLEI,
      ec_title = ''Source-control metadata exposure (Nuclei, signed template, read-only)'',
      ec_activity = ACTIVE_PROBING, ec_supported_methods = [''GET'', ''HEAD''],
      ec_allowed_environments = [ENV_SYNTHETIC_LAB],
      ec_requires_authentication = False, ec_state_changing_possible = False,
      ec_required_approvals = [''SYNTHETIC_LAB_SCOPE'', ''OPERATOR_ENABLE_NUCLEI''],
      ec_request_budget = 1, ec_concurrency_budget = 1, ec_time_budget_ms = 30000,
      ec_evidence_types = [''NUCLEI_EXECUTION_CARD'', ''VERIFIER_PROBE_CARD''],
      ec_verification_policy = DETERMINISTIC_AEGIS_VERIFIER,
      ec_adapter_version = adapter_version NUCLEI, ec_protocol = ''http'',
      ec_verified_severity = SEV_MEDIUM\<rparr>,
    \<lparr>ec_capability_id = ''nuclei_http_state_changing_v0'', ec_engine = NUCLEI,
      ec_title = ''State-changing HTTP templates (denied)'',
      ec_activity = ACTIVE_PROBING, ec_supported_methods = [''POST'', ''PUT'', ''PATCH'', ''DELETE''],
      ec_allowed_environments = [ENV_SYNTHETIC_LAB],
      ec_requires_authentication = False, ec_state_changing_possible = True,
      ec_required_approvals = [''NEVER_APPROVED''],
      ec_request_budget = 0, ec_concurrency_budget = 1, ec_time_budget_ms = 1,
      ec_evidence_types = [],
      ec_verification_policy = NO_PROMOTION,
      ec_adapter_version = adapter_version NUCLEI, ec_protocol = ''http'',
      ec_verified_severity = SEV_HIGH\<rparr>,
    \<lparr>ec_capability_id = ''nuclei_network_protocol_v0'', ec_engine = NUCLEI,
      ec_title = ''Non-HTTP (network/TCP) templates (denied)'',
      ec_activity = ACTIVE_PROBING, ec_supported_methods = [],
      ec_allowed_environments = [ENV_SYNTHETIC_LAB],
      ec_requires_authentication = False, ec_state_changing_possible = False,
      ec_required_approvals = [''NEVER_APPROVED''],
      ec_request_budget = 0, ec_concurrency_budget = 1, ec_time_budget_ms = 1,
      ec_evidence_types = [],
      ec_verification_policy = NO_PROMOTION,
      ec_adapter_version = adapter_version NUCLEI, ec_protocol = ''network'',
      ec_verified_severity = SEV_HIGH\<rparr>,
    \<lparr>ec_capability_id = ''nuclei_passive_http_templates_v0'', ec_engine = NUCLEI,
      ec_title = ''Nuclei templated passive HTTP checks (planned)'',
      ec_activity = PASSIVE_OBSERVATION, ec_supported_methods = [''GET'', ''HEAD''],
      ec_allowed_environments = [ENV_SYNTHETIC_LAB],
      ec_requires_authentication = False, ec_state_changing_possible = False,
      ec_required_approvals = [''SYNTHETIC_LAB_SCOPE'', ''OPERATOR_ENABLE_NUCLEI''],
      ec_request_budget = 0, ec_concurrency_budget = 1, ec_time_budget_ms = 1,
      ec_evidence_types = [''NUCLEI_TEMPLATE_MATCH''],
      ec_verification_policy = HUMAN_REVIEW_REQUIRED,
      ec_adapter_version = adapter_version NUCLEI, ec_protocol = ''http'',
      ec_verified_severity = SEV_HIGH\<rparr>,
    \<lparr>ec_capability_id = ''zap_passive_scan_v0'', ec_engine = ZAP,
      ec_title = ''ZAP passive scan (Phase 1.1 placeholder, retired)'',
      ec_activity = PASSIVE_OBSERVATION, ec_supported_methods = [''GET'', ''HEAD''],
      ec_allowed_environments = [ENV_SYNTHETIC_LAB],
      ec_requires_authentication = False, ec_state_changing_possible = False,
      ec_required_approvals = [''SYNTHETIC_LAB_SCOPE'', ''OPERATOR_ENABLE_ZAP''],
      ec_request_budget = 0, ec_concurrency_budget = 1, ec_time_budget_ms = 1,
      ec_evidence_types = [''ZAP_ALERT''],
      ec_verification_policy = HUMAN_REVIEW_REQUIRED,
      ec_adapter_version = adapter_version ZAP, ec_protocol = ''http'',
      ec_verified_severity = SEV_HIGH\<rparr>,
    \<lparr>ec_capability_id = ''zap_passive_header_openapi_v1'', ec_engine = ZAP,
      ec_title = ''Missing anti-MIME-sniffing header (ZAP passive, projected OpenAPI, ''
        @ ''read-only)'',
      ec_activity = PASSIVE_OBSERVATION, ec_supported_methods = [''GET'', ''HEAD''],
      ec_allowed_environments = [ENV_SYNTHETIC_LAB],
      ec_requires_authentication = False, ec_state_changing_possible = False,
      ec_required_approvals = [''SYNTHETIC_LAB_SCOPE'', ''OPERATOR_ENABLE_ZAP''],
      ec_request_budget = 4, ec_concurrency_budget = 1, ec_time_budget_ms = 120000,
      ec_evidence_types = [''ZAP_EXECUTION_CARD'', ''ZAP_ALERT_CARD'', ''VERIFIER_PROBE_CARD''],
      ec_verification_policy = DETERMINISTIC_AEGIS_VERIFIER,
      ec_adapter_version = adapter_version ZAP, ec_protocol = ''http'',
      ec_verified_severity = SEV_LOW\<rparr>,
    \<lparr>ec_capability_id = ''zap_active_reflected_xss_v1'', ec_engine = ZAP,
      ec_title = ''Reflected XSS (ZAP active, one rule, one projected query parameter, ''
        @ ''read-only)'',
      ec_activity = ACTIVE_PROBING, ec_supported_methods = [''GET'', ''HEAD''],
      ec_allowed_environments = [ENV_SYNTHETIC_LAB],
      ec_requires_authentication = False, ec_state_changing_possible = False,
      ec_required_approvals = [''SYNTHETIC_LAB_SCOPE'', ''OPERATOR_ENABLE_ZAP'', ''OPERATOR_ACTIVE_SCAN_LEASE''],
      ec_request_budget = 200, ec_concurrency_budget = 1, ec_time_budget_ms = 300000,
      ec_evidence_types = [''ZAP_EXECUTION_CARD'', ''ZAP_ALERT_CARD'', ''VERIFIER_PROBE_CARD''],
      ec_verification_policy = DETERMINISTIC_AEGIS_VERIFIER,
      ec_adapter_version = adapter_version ZAP, ec_protocol = ''http'',
      ec_verified_severity = SEV_HIGH\<rparr>,
    \<lparr>ec_capability_id = ''zap_active_scan_v0'', ec_engine = ZAP,
      ec_title = ''ZAP active scan (denied)'',
      ec_activity = ACTIVE_PROBING, ec_supported_methods = [''GET'', ''HEAD'', ''POST'', ''PUT'', ''PATCH'', ''DELETE''],
      ec_allowed_environments = [ENV_SYNTHETIC_LAB],
      ec_requires_authentication = False, ec_state_changing_possible = True,
      ec_required_approvals = [''NEVER_APPROVED''],
      ec_request_budget = 0, ec_concurrency_budget = 1, ec_time_budget_ms = 1,
      ec_evidence_types = [],
      ec_verification_policy = NO_PROMOTION,
      ec_adapter_version = adapter_version ZAP, ec_protocol = ''http'',
      ec_verified_severity = SEV_HIGH\<rparr>,
    \<lparr>ec_capability_id = ''burp_dast_passive_v0'', ec_engine = BURP_DAST,
      ec_title = ''Burp DAST passive audit (planned)'',
      ec_activity = PASSIVE_OBSERVATION, ec_supported_methods = [''GET'', ''HEAD''],
      ec_allowed_environments = [ENV_SYNTHETIC_LAB],
      ec_requires_authentication = False, ec_state_changing_possible = False,
      ec_required_approvals = [''SYNTHETIC_LAB_SCOPE'', ''OPERATOR_ENABLE_BURP''],
      ec_request_budget = 0, ec_concurrency_budget = 1, ec_time_budget_ms = 1,
      ec_evidence_types = [''BURP_ISSUE''],
      ec_verification_policy = HUMAN_REVIEW_REQUIRED,
      ec_adapter_version = adapter_version BURP_DAST, ec_protocol = ''http'',
      ec_verified_severity = SEV_HIGH\<rparr>]"

definition PROFILE_CATALOG :: "engine_profile list" where
  "PROFILE_CATALOG = [
    \<lparr>ep_profile_id = ''aegis-native-bola-synthetic'', ep_engine = AEGIS_NATIVE,
      ep_title = ''Aegis Native ''
        @ em_dash
        @ '' synthetic BOLA'',
      ep_capability_ids = [''bola_object_read_v1''], ep_enabled = True,
      ep_environment = ENV_SYNTHETIC_LAB, ep_adapter_version = adapter_version AEGIS_NATIVE,
      ep_description =
        ''The migrated Phase 0.8 read-only object-authorization path. Executes ''
        @ ''controller-compiled read-only requests against the authorized synthetic ''
        @ ''lab; the deterministic Aegis verifier is the sole authority for ''
        @ ''confirmation.'',
      ep_isolation_boundary =
        ''In-process. Synthetic credentials are resolved only inside the executor ''
        @ ''connector boundary; the control plane holds no credential and reaches ''
        @ ''only the allowlisted lab origin with deny-all egress otherwise.''\<rparr>,
    \<lparr>ep_profile_id = ''NUCLEI_LAB_SAFE_HTTP_V1'', ep_engine = NUCLEI,
      ep_title = ''Nuclei ''
        @ em_dash
        @ '' lab-safe HTTP (pinned, signed, read-only)'',
      ep_capability_ids = [''nuclei_scm_metadata_exposure_v1''], ep_enabled = True,
      ep_environment = ENV_SYNTHETIC_LAB, ep_adapter_version = adapter_version NUCLEI,
      ep_description =
        ''Nuclei v3.11.1 (pinned binary) executing only the admitted, signed ''
        @ ''template set aegis-nuclei-lab-safe-http-v1 against inventory-resolved ''
        @ ''synthetic-lab targets. Results enter as TOOL_REPORTED; only the ''
        @ ''deterministic Aegis verifier promotes.'',
      ep_isolation_boundary =
        ''Separate nuclei-runner container: non-root, read-only root filesystem, ''
        @ ''bounded tmpfs, all capabilities dropped, no shell, no Docker socket, no ''
        @ ''host mount, no credential. Reached only over the internal engine-rpc ''
        @ ''network; reaches only the synthetic target network; no internet, planner ''
        @ ''or model-gateway access. Fixed argv, no shell.''\<rparr>,
    \<lparr>ep_profile_id = ''nuclei-passive-synthetic'', ep_engine = NUCLEI,
      ep_title = ''Nuclei ''
        @ em_dash
        @ '' Phase 1.1 placeholder (retired, disabled)'',
      ep_capability_ids = [''nuclei_passive_http_templates_v0''], ep_enabled = False,
      ep_environment = ENV_SYNTHETIC_LAB, ep_adapter_version = adapter_version NUCLEI,
      ep_description =
        ''Retired Phase 1.1 placeholder. Superseded by NUCLEI_LAB_SAFE_HTTP_V1.'',
      ep_isolation_boundary =
        ''SUPERSEDED: Nuclei runs as a separate, non-privileged sidecar on an ''
        @ ''isolated network segment with egress restricted to the approved ''
        @ ''synthetic origin only; templates come from a pinned, reviewed template ''
        @ ''set (no remote template fetch); no credential is mounted unless a ''
        @ ''reviewed synthetic profile is provisioned into the sidecar boundary; no ''
        @ ''shell passthrough ''
        @ em_dash
        @ '' the adapter builds the invocation from the typed job only.''\<rparr>,
    \<lparr>ep_profile_id = ''ZAP_LAB_PASSIVE_OPENAPI_V1'', ep_engine = ZAP,
      ep_title = ''ZAP ''
        @ em_dash
        @ '' lab passive OpenAPI (pinned, projected, read-only)'',
      ep_capability_ids = [''zap_passive_header_openapi_v1''], ep_enabled = True,
      ep_environment = ENV_SYNTHETIC_LAB, ep_adapter_version = adapter_version ZAP,
      ep_description =
        ''ZAP 2.17.0 (pinned image digest and add-on inventory) running one fixed ''
        @ ''Automation Framework plan: import a controller-projected local OpenAPI ''
        @ ''of approved GET/HEAD operations and passively analyse the responses with ''
        @ ''the admitted rule manifest. No active scan, spider, script, ''
        @ ''authentication or remote OpenAPI source. Alerts enter as TOOL_REPORTED; ''
        @ ''only the deterministic Aegis verifier promotes.'',
      ep_isolation_boundary =
        ''Separate zap-runner container built from the pinned ZAP image: non-root, ''
        @ ''read-only root filesystem, bounded tmpfs for all ZAP state, all ''
        @ ''capabilities dropped, no shell, no Docker socket, host mount, credential ''
        @ ''or published port. Reached only over the internal zap-rpc network; its ''
        @ ''only outbound network contains just the scope guard, which forwards only ''
        @ ''armed, allowlisted GET/HEAD requests to the synthetic origin within a ''
        @ ''hard budget. Fixed argv, no shell.''\<rparr>,
    \<lparr>ep_profile_id = ''ZAP_LAB_ACTIVE_REFLECTED_XSS_V1'', ep_engine = ZAP,
      ep_title = ''ZAP ''
        @ em_dash
        @ '' lab active reflected XSS (pinned, one rule, one query parameter)'',
      ep_capability_ids = [''zap_active_reflected_xss_v1''], ep_enabled = True,
      ep_environment = ENV_SYNTHETIC_LAB, ep_adapter_version = adapter_version ZAP,
      ep_description =
        ''ZAP 2.17.0 (a separate pinned image with the eight passive add-ons plus ''
        @ ''ascanrules-release-83 and its neutralised forced dependencies ''
        @ ''oast/database) running one fixed Automation Framework plan: import a ''
        @ ''controller-projected local OpenAPI of one GET operation with one bounded ''
        @ ''query parameter, then an activeScan whose inline policy disables every ''
        @ ''rule but the admitted reflected-XSS rule 40012 (strength LOW, threshold ''
        @ ''MEDIUM). No spider, script, authentication or remote source. Requires a ''
        @ ''single-use activation lease. Alerts enter as TOOL_REPORTED; only the ''
        @ ''deterministic Aegis XSS verifier promotes.'',
      ep_isolation_boundary =
        ''Separate active zap-runner container from the pinned Phase 1.5 image: ''
        @ ''non-root, read-only root filesystem, bounded tmpfs, all capabilities ''
        @ ''dropped, no shell, no Docker socket, host mount, credential or published ''
        @ ''port. Reached only over the internal active-rpc network; its only ''
        @ ''outbound network contains just the active scope guard, which in ACTIVE ''
        @ ''mode forwards only armed GET/HEAD requests to the one approved ''
        @ ''origin+path, permits a query string only on the projected parameter, and ''
        @ ''enforces a hard measured request budget. An emergency stop kills the ''
        @ ''scan mid-flight.''\<rparr>,
    \<lparr>ep_profile_id = ''zap-passive-synthetic'', ep_engine = ZAP,
      ep_title = ''ZAP ''
        @ em_dash
        @ '' Phase 1.1 placeholder (retired, disabled)'',
      ep_capability_ids = [''zap_passive_scan_v0''], ep_enabled = False,
      ep_environment = ENV_SYNTHETIC_LAB, ep_adapter_version = adapter_version ZAP,
      ep_description =
        ''Retired Phase 1.1 placeholder. Superseded by ZAP_LAB_PASSIVE_OPENAPI_V1.'',
      ep_isolation_boundary =
        ''SUPERSEDED: ZAP runs as an isolated daemon reached over a pinned ''
        @ ''internal API; egress is restricted to the approved origin; active scan ''
        @ ''is disabled ''
        @ em_dash
        @ '' only passive analysis of controller-driven traffic is permitted.''\<rparr>,
    \<lparr>ep_profile_id = ''burp-dast-passive-synthetic'', ep_engine = BURP_DAST,
      ep_title = ''Burp DAST ''
        @ em_dash
        @ '' passive audit (disabled)'',
      ep_capability_ids = [''burp_dast_passive_v0''], ep_enabled = False,
      ep_environment = ENV_SYNTHETIC_LAB, ep_adapter_version = adapter_version BURP_DAST,
      ep_description =
        ''Planned integration. Not installed, not connected, no Burp MCP, ''
        @ ''fail-closed.'',
      ep_isolation_boundary =
        ''FUTURE: Burp runs behind its own connector with credentials confined to ''
        @ ''that boundary; the Burp MCP surface is NOT invoked; egress is restricted ''
        @ ''to the approved origin; only passive audit of controller-driven traffic ''
        @ ''is permitted and active scan stays disabled.''\<rparr>]"

text \<open>Look-up by id; the ids are distinct.\<close>

definition get_engine_capability :: "string \<Rightarrow> engine_capability option" where
  "get_engine_capability cid = find (\<lambda>c. ec_capability_id c = cid) CAPABILITY_CATALOG"

definition get_engine_profile :: "string \<Rightarrow> engine_profile option" where
  "get_engine_profile pid = find (\<lambda>p. ep_profile_id p = pid) PROFILE_CATALOG"

definition profiles_for_engine :: "security_engine \<Rightarrow> engine_profile list" where
  "profiles_for_engine e = filter (\<lambda>p. ep_engine p = e) PROFILE_CATALOG"

definition enabled_profiles :: "engine_profile list" where
  "enabled_profiles = filter ep_enabled PROFILE_CATALOG"

text \<open>What the catalog says of every capability that an enabled profile can run.\<close>

definition operational :: "engine_capability \<Rightarrow> bool" where
  "operational c \<longleftrightarrow>
     ec_capability_id c \<in> {''bola_object_read_v1'', ''nuclei_scm_metadata_exposure_v1'',
       ''zap_passive_header_openapi_v1'', ''zap_active_reflected_xss_v1''} \<and>
     \<not> ec_state_changing_possible c \<and> ec_verification_policy c = DETERMINISTIC_AEGIS_VERIFIER \<and>
     set (ec_supported_methods c) \<subseteq> {''GET'', ''HEAD'', ''OPTIONS''} \<and>
     set (ec_allowed_environments c) \<subseteq> {ENV_SYNTHETIC_LAB, ENV_SYNTHETIC_RANGE} \<and>
     ''NEVER_APPROVED'' \<notin> set (ec_required_approvals c) \<and> ec_protocol c = ''http''"

lemma catalog_ids_distinct:
  "distinct (map ec_capability_id CAPABILITY_CATALOG)" "distinct (map ep_profile_id PROFILE_CATALOG)"
  by code_simp+

lemma profiles_checked:
  "list_all (\<lambda>p. ep_enabled p \<longrightarrow> list_all (\<lambda>c.
      ec_capability_id c \<in> set (ep_capability_ids p) \<longrightarrow> ec_engine c = ep_engine p \<and> operational c)
     CAPABILITY_CATALOG) PROFILE_CATALOG"
  by code_simp

lemma enabled_capability_operational:
  assumes "get_engine_profile pid = Some p" and "ep_enabled p"
    and "get_engine_capability cid = Some c" and "cid \<in> set (ep_capability_ids p)"
  shows "operational c" and "ec_engine c = ep_engine p" and "ec_capability_id c = cid"
proof -
  have "p \<in> set PROFILE_CATALOG" "c \<in> set CAPABILITY_CATALOG" "ec_capability_id c = cid"
    using assms(1,3) by (auto simp: get_engine_profile_def get_engine_capability_def find_Some_iff)
  then show "operational c" "ec_engine c = ep_engine p" "ec_capability_id c = cid"
    using profiles_checked assms(2,4) by (auto simp: list_all_iff)
qed

end
