(* ===== verification/Engine_Policy.thy ===== *)
theory Engine_Policy
  imports Engine_Catalog
begin

text \<open>
  The deterministic engine policy and the finding lifecycle: \<open>build_engine_job\<close> of
  \<open>aegis/engine/policy.py\<close> and the promotion rules of \<open>aegis/engine/lifecycle.py\<close>, over the
  contracts of \<open>aegis/engine/contracts.py\<close>.

  The fresh job id is an input.  The pydantic models are records with their field constraints
  as predicates; a constraint that fails where the code does not catch it is the exception
  \<open>Uncaught_Validation\<close>.
\<close>

section \<open>Contracts\<close>

datatype engine_error_code = ENGINE_DISABLED | UNKNOWN_ENGINE | UNKNOWN_PROFILE | UNKNOWN_CAPABILITY
  | OUT_OF_SCOPE_ORIGIN | OUT_OF_SCOPE_OPERATION | UNAPPROVED_STATE_CHANGE | MISSING_AUTH_CONTEXT
  | UNSUPPORTED_METHOD | ARBITRARY_COMMAND_FIELD | UNKNOWN_TEMPLATE_OR_SCAN_CONFIG | BUDGET_EXCEEDED
  | DISALLOWED_ENVIRONMENT | MALFORMED_ENGINE_OUTPUT | OVERSIZED_ENGINE_OUTPUT

record engine_error =
  ee_code :: engine_error_code
  ee_engine :: security_engine
  ee_detail :: string

datatype policy_error = Rejected engine_error | Uncaught_Validation

record target_reference =
  tr_engine :: security_engine
  tr_environment :: engine_environment
  tr_origin :: string
  tr_operation_id :: string
  tr_method :: string
  tr_normalized_path :: string
  tr_object_ref :: "string option"

record job_request =
  jr_name :: string
  jr_method :: string
  jr_path :: string
  jr_credential_profile :: string
  jr_object_ref :: "string option"

record engine_budget =
  eb_max_requests :: int
  eb_max_concurrency :: int
  eb_time_budget_ms :: int

definition engine_budget_ok :: "engine_budget \<Rightarrow> bool" where
  "engine_budget_ok b \<longleftrightarrow>
     0 \<le> eb_max_requests b \<and> eb_max_requests b \<le> 64 \<and>
     1 \<le> eb_max_concurrency b \<and> eb_max_concurrency b \<le> 8 \<and>
     1 \<le> eb_time_budget_ms b \<and> eb_time_budget_ms b \<le> 600000"

record engine_job =
  ej_job_id :: string
  ej_engine :: security_engine
  ej_profile_id :: string
  ej_capability_id :: string
  ej_adapter_version :: string
  ej_run_id :: string
  ej_environment :: engine_environment
  ej_activity :: engine_activity
  ej_target :: target_reference
  ej_credential_profile_refs :: "string list"
  ej_requests :: "job_request list"
  ej_budget :: engine_budget

definition CREDENTIAL_PROFILES :: "string list" where
  "CREDENTIAL_PROFILES = [''anonymous'', ''user_a'', ''user_b'']"

definition engine_job_ok :: "engine_job \<Rightarrow> bool" where
  "engine_job_ok j \<longleftrightarrow>
     pat ''job-'' is_hex 12 12 (ej_job_id j) \<and>
     ej_profile_id j \<noteq> [] \<and> length (ej_profile_id j) \<le> 100 \<and>
     ej_capability_id j \<noteq> [] \<and> length (ej_capability_id j) \<le> 100 \<and>
     ej_adapter_version j \<noteq> [] \<and> length (ej_adapter_version j) \<le> 40 \<and>
     ej_run_id j \<noteq> [] \<and> length (ej_run_id j) \<le> 64 \<and>
     1 \<le> length (ej_credential_profile_refs j) \<and> length (ej_credential_profile_refs j) \<le> 3 \<and>
     list_all (\<lambda>p. p \<in> set CREDENTIAL_PROFILES) (ej_credential_profile_refs j) \<and>
     1 \<le> length (ej_requests j) \<and> length (ej_requests j) \<le> 16 \<and>
     distinct (map jr_name (ej_requests j))"

section \<open>Policy\<close>

definition COMMAND_FIELDS :: "string list" where
  "COMMAND_FIELDS = [''command'', ''args'', ''argv'', ''cmd'', ''flags'', ''shell'', ''raw_url'', ''url'']"

definition CONFIG_FIELDS :: "string list" where
  "CONFIG_FIELDS = [''template'', ''templates'', ''scan_config'', ''scan_profile'', ''config'']"

definition READ_ONLY_METHODS :: "string list" where
  "READ_ONLY_METHODS = [''GET'', ''HEAD'', ''OPTIONS'']"

definition rejection :: "security_engine \<Rightarrow> engine_error_code \<Rightarrow> string \<Rightarrow> policy_error" where
  "rejection e c detail = Rejected \<lparr>ee_code = c, ee_engine = e, ee_detail = take 200 detail\<rparr>"

definition environment_name :: "engine_environment \<Rightarrow> string" where
  "environment_name e = (case e of
       ENV_SYNTHETIC_LAB \<Rightarrow> ''SYNTHETIC_LAB'' | ENV_SYNTHETIC_RANGE \<Rightarrow> ''SYNTHETIC_RANGE''
     | ENV_STAGING \<Rightarrow> ''STAGING'' | ENV_PRODUCTION \<Rightarrow> ''PRODUCTION'')"

definition engine_name :: "security_engine \<Rightarrow> string" where
  "engine_name e = (case e of
       AEGIS_NATIVE \<Rightarrow> ''AEGIS_NATIVE'' | NUCLEI \<Rightarrow> ''NUCLEI'' | ZAP \<Rightarrow> ''ZAP'' | BURP_DAST \<Rightarrow> ''BURP_DAST'')"

definition lower_ascii :: "string \<Rightarrow> string" where
  "lower_ascii s = map (\<lambda>c. if is_upper c then char_of (of_char c + 32 :: nat) else c) s"

fun guard_no_raw_command_fields :: "string list \<Rightarrow> security_engine \<Rightarrow> policy_error option" where
  "guard_no_raw_command_fields [] e = None"
| "guard_no_raw_command_fields (k # ks) e =
     (if lower_ascii k \<in> set COMMAND_FIELDS then Some (rejection e ARBITRARY_COMMAND_FIELD (lower_ascii k))
      else if lower_ascii k \<in> set CONFIG_FIELDS then
        Some (rejection e UNKNOWN_TEMPLATE_OR_SCAN_CONFIG (lower_ascii k))
      else guard_no_raw_command_fields ks e)"

definition path_prefix :: "string \<Rightarrow> string" where
  "path_prefix template = rstrip (CHR ''/'') (fst (partition_at (CHR ''{'') template))"

definition path_in_scope :: "string \<Rightarrow> string \<Rightarrow> bool" where
  "path_in_scope path template \<longleftrightarrow>
     path_prefix template \<noteq> [] \<and>
     (path = path_prefix template \<or> starts_with (path_prefix template @ ''/'') path)"

text \<open>The arguments of \<open>build_engine_job\<close>; \<open>remaining.get("requests", 0)\<close> is one number.\<close>

record job_arguments =
  ja_engine :: security_engine
  ja_profile_id :: string
  ja_capability_id :: string
  ja_run_id :: string
  ja_environment :: engine_environment
  ja_target :: target_reference
  ja_credential_profile_refs :: "string list"
  ja_requests :: "job_request list"
  ja_remaining_requests :: int
  ja_allowed_origins :: "string list"
  ja_authenticated_profiles :: "string list"
  ja_adapter_enabled :: bool
  ja_time_budget_ms :: "int option"
  ja_concurrency :: int

type_synonym 'a decision = "policy_error + 'a"

definition guarded :: "bool \<Rightarrow> policy_error \<Rightarrow> 'a decision \<Rightarrow> 'a decision" where
  "guarded bad e rest = (if bad then Inl e else rest)"

fun check_requests :: "engine_capability \<Rightarrow> job_arguments \<Rightarrow> job_request list \<Rightarrow> policy_error option" where
  "check_requests c a [] = None"
| "check_requests c a (r # rs) =
     (if jr_method r \<notin> set READ_ONLY_METHODS then
        Some (rejection (ja_engine a) UNAPPROVED_STATE_CHANGE (jr_method r))
      else if jr_method r \<notin> set (ec_supported_methods c) then
        Some (rejection (ja_engine a) UNSUPPORTED_METHOD (jr_method r))
      else if \<not> path_in_scope (jr_path r) (tr_normalized_path (ja_target a)) then
        Some (rejection (ja_engine a) OUT_OF_SCOPE_OPERATION (jr_path r))
      else check_requests c a rs)"

definition effective_time :: "engine_capability \<Rightarrow> job_arguments \<Rightarrow> int" where
  "effective_time c a = min (ec_time_budget_ms c)
     (case ja_time_budget_ms a of None \<Rightarrow> ec_time_budget_ms c
      | Some t \<Rightarrow> if t = 0 then ec_time_budget_ms c else t)"

definition budget_for :: "engine_capability \<Rightarrow> job_arguments \<Rightarrow> engine_budget" where
  "budget_for c a = \<lparr>eb_max_requests = min (ec_request_budget c) (ja_remaining_requests a),
     eb_max_concurrency = min (ja_concurrency a) (ec_concurrency_budget c),
     eb_time_budget_ms = effective_time c a\<rparr>"

definition job_for :: "string \<Rightarrow> engine_capability \<Rightarrow> job_arguments \<Rightarrow> engine_job" where
  "job_for job_id c a = \<lparr>ej_job_id = job_id, ej_engine = ja_engine a, ej_profile_id = ja_profile_id a,
     ej_capability_id = ja_capability_id a, ej_adapter_version = ec_adapter_version c,
     ej_run_id = ja_run_id a, ej_environment = ja_environment a, ej_activity = ec_activity c,
     ej_target = ja_target a, ej_credential_profile_refs = ja_credential_profile_refs a,
     ej_requests = ja_requests a, ej_budget = budget_for c a\<rparr>"

definition missing_authentication :: "engine_capability \<Rightarrow> job_arguments \<Rightarrow> bool" where
  "missing_authentication c a \<longleftrightarrow>
     ec_requires_authentication c \<and>
     (let auth = filter (\<lambda>p. p \<noteq> ''anonymous'') (ja_credential_profile_refs a) in
      auth = [] \<or> \<not> list_all (\<lambda>p. p \<in> set (ja_authenticated_profiles a)) auth)"

text \<open>The checks after the profile and the capability were found.\<close>

definition decide_job :: "string \<Rightarrow> engine_profile \<Rightarrow> engine_capability \<Rightarrow> job_arguments \<Rightarrow> engine_job decision" where
  "decide_job job_id p c a =
     (let reject = rejection (ja_engine a); t = ja_target a; cid = ja_capability_id a in
      guarded (\<not> ep_enabled p \<or> \<not> ja_adapter_enabled a) (reject ENGINE_DISABLED (ja_profile_id a))
      (guarded (ja_environment a \<notin> set (ec_allowed_environments c))
         (reject DISALLOWED_ENVIRONMENT (environment_name (ja_environment a)))
      (guarded (tr_environment t \<noteq> ja_environment a)
         (reject DISALLOWED_ENVIRONMENT (environment_name (tr_environment t)))
      (guarded (rstrip (CHR ''/'') (tr_origin t) \<notin> set (map (rstrip (CHR ''/'')) (ja_allowed_origins a)))
         (reject OUT_OF_SCOPE_ORIGIN (tr_origin t))
      (guarded (tr_method t \<notin> set (ec_supported_methods c)) (reject UNSUPPORTED_METHOD (tr_method t))
      (guarded (ec_state_changing_possible c) (reject UNAPPROVED_STATE_CHANGE cid)
      (guarded (tr_method t \<notin> set READ_ONLY_METHODS) (reject UNAPPROVED_STATE_CHANGE (tr_method t))
      (guarded (missing_authentication c a) (reject MISSING_AUTH_CONTEXT cid)
      (case check_requests c a (ja_requests a) of
         Some e \<Rightarrow> Inl e
       | None \<Rightarrow>
           guarded (ja_remaining_requests a < int (length (ja_requests a))) (reject BUDGET_EXCEEDED ''requests'')
           (guarded (ec_request_budget c < int (length (ja_requests a)))
              (reject BUDGET_EXCEEDED ''capability_requests'')
           (guarded (effective_time c a < 1) (reject BUDGET_EXCEEDED ''time'')
           (guarded (\<not> engine_budget_ok (budget_for c a)) Uncaught_Validation
           (guarded (\<not> engine_job_ok (job_for job_id c a)) (reject MALFORMED_ENGINE_OUTPUT ''job_validation'')
           (Inr (job_for job_id c a)))))))))))))))"

definition build_engine_job :: "string \<Rightarrow> job_arguments \<Rightarrow> engine_job decision" where
  "build_engine_job job_id a =
     (let reject = rejection (ja_engine a); cid = ja_capability_id a in
      case get_engine_profile (ja_profile_id a) of
        None \<Rightarrow> Inl (reject UNKNOWN_PROFILE (ja_profile_id a))
      | Some p \<Rightarrow>
          guarded (ep_engine p \<noteq> ja_engine a) (reject UNKNOWN_ENGINE (engine_name (ja_engine a)))
          (case get_engine_capability cid of
             None \<Rightarrow> Inl (reject UNKNOWN_CAPABILITY cid)
           | Some c \<Rightarrow>
               guarded (cid \<notin> set (ep_capability_ids p) \<or> ec_engine c \<noteq> ja_engine a)
                 (reject UNKNOWN_CAPABILITY cid)
               (decide_job job_id p c a)))"

section \<open>Lifecycle of a reported finding\<close>

datatype finding_state = TOOL_REPORTED | AEGIS_CORRELATED | VERIFIED | REVIEW_REQUIRED | REJECTED
datatype verdict_status = V_CONFIRMED | V_PASS | V_INSUFFICIENT
datatype review_decision = ACCEPTED | DECLINED | PENDING
datatype confidence = C_CONFIRMED | C_PROBABLE | C_UNVERIFIED

record engine_observation =
  eo_request_name :: string
  eo_content_digest :: string

record reported_finding =
  rf_report_key :: string
  rf_claimed_category :: string
  rf_observation_names :: "string list"
  rf_signal :: string

record engine_execution =
  ex_execution_id :: string
  ex_engine :: security_engine
  ex_adapter_version :: string
  ex_started_at :: int
  ex_completed_at :: "int option"
  ex_observations :: "engine_observation list"
  ex_reported_findings :: "reported_finding list"

record normalized_evidence =
  ne_evidence_id :: string
  ne_engine :: security_engine
  ne_adapter_version :: string
  ne_engine_execution_id :: string
  ne_run_id :: string
  ne_scan_id :: string
  ne_timestamp :: int
  ne_capability_id :: string
  ne_target_ref :: string
  ne_request_refs :: "string list"
  ne_artifact_refs :: "string list"
  ne_content_digest :: string
  ne_standard_retention :: bool

record verifier_conclusion =
  vc_status :: verdict_status
  vc_summary :: string
  vc_aegis_finding_id :: "string option"
  vc_evidence_ids :: "string list"

record human_review =
  hr_reviewer :: string
  hr_decision :: review_decision
  hr_note :: string

record normalized_finding =
  nf_normalized_id :: string
  nf_engine :: security_engine
  nf_adapter_version :: string
  nf_capability_id :: string
  nf_run_id :: string
  nf_lifecycle_state :: finding_state
  nf_ai_hypothesis :: string
  nf_controller_authorization :: string
  nf_engine_reported :: string
  nf_engine_report_key :: string
  nf_evidence_ids :: "string list"
  nf_verifier_conclusion :: "verifier_conclusion option"
  nf_human_review :: "human_review option"
  nf_aegis_finding_id :: "string option"
  nf_severity :: "severity option"
  nf_confidence :: "confidence option"

definition MAX_OBSERVATIONS :: nat where "MAX_OBSERVATIONS = 64"

text \<open>\<open>None\<close> when the execution passes, the error otherwise.\<close>

definition assert_execution_bounded :: "engine_execution \<Rightarrow> engine_error_code option" where
  "assert_execution_bounded x =
     (if MAX_OBSERVATIONS < length (ex_observations x) then Some OVERSIZED_ENGINE_OUTPUT
      else if MAX_OBSERVATIONS < length (ex_reported_findings x) then Some OVERSIZED_ENGINE_OUTPUT
      else if \<not> distinct (map eo_request_name (ex_observations x)) then Some MALFORMED_ENGINE_OUTPUT
      else None)"

datatype lifecycle_error = Malformed_Engine_Output engine_error_code | Lifecycle_Validation

text \<open>The length bounds of \<open>NormalizedEvidence\<close> that the inputs do not imply.\<close>

definition evidence_ok :: "normalized_evidence \<Rightarrow> bool" where
  "evidence_ok x \<longleftrightarrow>
     length (ne_evidence_id x) \<le> 160 \<and> ne_scan_id x \<noteq> [] \<and> length (ne_scan_id x) \<le> 64"

definition evidence_of :: "engine_execution \<Rightarrow> engine_job \<Rightarrow> string \<Rightarrow> engine_observation \<Rightarrow> normalized_evidence" where
  "evidence_of x j scan o' =
     \<lparr>ne_evidence_id = scan @ '':'' @ eo_request_name o', ne_engine = ex_engine x,
      ne_adapter_version = ex_adapter_version x, ne_engine_execution_id = ex_execution_id x,
      ne_run_id = ej_run_id j, ne_scan_id = scan,
      ne_timestamp = (case ex_completed_at x of None \<Rightarrow> ex_started_at x | Some t \<Rightarrow> t),
      ne_capability_id = ej_capability_id j, ne_target_ref = tr_operation_id (ej_target j),
      ne_request_refs = [eo_request_name o'], ne_artifact_refs = [scan @ '':'' @ eo_request_name o'],
      ne_content_digest = eo_content_digest o',
      ne_standard_retention = (get_engine_capability (ej_capability_id j) \<noteq> None)\<rparr>"

definition normalize_observation_evidence ::
  "engine_execution \<Rightarrow> engine_job \<Rightarrow> string \<Rightarrow> lifecycle_error + normalized_evidence list" where
  "normalize_observation_evidence x j scan =
     (case assert_execution_bounded x of
        Some e \<Rightarrow> Inl (Malformed_Engine_Output e)
      | None \<Rightarrow>
          let items = map (evidence_of x j scan) (ex_observations x) in
          if list_all evidence_ok items then Inr items else Inl Lifecycle_Validation)"

text \<open>The separator in the authorization text is the two UTF-8 bytes of a middle dot.\<close>

definition mid_dot :: string where "mid_dot = '' '' @ [CHR 0xC2, CHR 0xB7] @ '' ''"

definition finding_of ::
  "reported_finding \<Rightarrow> engine_job \<Rightarrow> string \<Rightarrow> bool \<Rightarrow> normalized_finding" where
  "finding_of r j hypothesis in_scope =
     \<lparr>nf_normalized_id = ej_run_id j @ '':'' @ rf_report_key r, nf_engine = ej_engine j,
      nf_adapter_version = ej_adapter_version j, nf_capability_id = ej_capability_id j,
      nf_run_id = ej_run_id j,
      nf_lifecycle_state = (if in_scope then AEGIS_CORRELATED else REJECTED),
      nf_ai_hypothesis = take 300 hypothesis,
      nf_controller_authorization =
        ''job '' @ ej_job_id j @ mid_dot @ ej_capability_id j @ mid_dot @ tr_operation_id (ej_target j),
      nf_engine_reported = take 300 (rf_claimed_category r @ '': '' @ rf_signal r),
      nf_engine_report_key = rf_report_key r,
      nf_evidence_ids = map (\<lambda>n. ej_run_id j @ '':'' @ n) (rf_observation_names r),
      nf_verifier_conclusion = None, nf_human_review = None, nf_aegis_finding_id = None,
      nf_severity = None, nf_confidence = None\<rparr>"

text \<open>The constructor refuses an id longer than 200 characters.\<close>

definition correlate_reported_finding ::
  "reported_finding \<Rightarrow> engine_job \<Rightarrow> string \<Rightarrow> bool \<Rightarrow> lifecycle_error + normalized_finding" where
  "correlate_reported_finding r j hypothesis in_scope =
     (let f = finding_of r j hypothesis in_scope in
      if 200 < length (nf_normalized_id f) then Inl Lifecycle_Validation else Inr f)"

text \<open>First report per key, in key order.\<close>

fun first_per_key :: "reported_finding list \<Rightarrow> reported_finding list" where
  "first_per_key [] = []"
| "first_per_key (r # rs) = r # filter (\<lambda>x. rf_report_key x \<noteq> rf_report_key r) (first_per_key rs)"

definition dedupe_reported :: "reported_finding list \<Rightarrow> reported_finding list" where
  "dedupe_reported rs = sort_key rf_report_key (first_per_key rs)"

definition policy_of :: "string \<Rightarrow> verification_policy" where
  "policy_of cid = (case get_engine_capability cid of
     None \<Rightarrow> HUMAN_REVIEW_REQUIRED | Some c \<Rightarrow> ec_verification_policy c)"

definition record_verifier_conclusion ::
  "verifier_conclusion \<Rightarrow> finding_state \<Rightarrow> normalized_finding \<Rightarrow> normalized_finding" where
  "record_verifier_conclusion c inconclusive f =
     (let f1 = f\<lparr>nf_verifier_conclusion := Some c\<rparr> in
      case vc_status c of
        V_CONFIRMED \<Rightarrow>
          if policy_of (nf_capability_id f) = DETERMINISTIC_AEGIS_VERIFIER then
            f1\<lparr>nf_lifecycle_state := VERIFIED, nf_aegis_finding_id := vc_aegis_finding_id c,
              nf_severity := Some (case get_engine_capability (nf_capability_id f) of
                None \<Rightarrow> SEV_HIGH | Some cap \<Rightarrow> ec_verified_severity cap),
              nf_confidence := Some C_CONFIRMED,
              nf_evidence_ids := (if vc_evidence_ids c = [] then nf_evidence_ids f else vc_evidence_ids c)\<rparr>
          else f1\<lparr>nf_lifecycle_state := REVIEW_REQUIRED\<rparr>
      | V_INSUFFICIENT \<Rightarrow> f1\<lparr>nf_lifecycle_state := inconclusive\<rparr>
      | V_PASS \<Rightarrow> f1\<lparr>nf_lifecycle_state := REJECTED\<rparr>)"

definition record_human_review :: "human_review \<Rightarrow> normalized_finding \<Rightarrow> normalized_finding" where
  "record_human_review r f =
     (let f1 = f\<lparr>nf_human_review := Some r\<rparr> in
      if nf_lifecycle_state f \<noteq> REVIEW_REQUIRED then f1
      else (case hr_decision r of
          ACCEPTED \<Rightarrow> f1\<lparr>nf_lifecycle_state := VERIFIED, nf_confidence := Some C_PROBABLE\<rparr>
        | DECLINED \<Rightarrow> f1\<lparr>nf_lifecycle_state := REJECTED\<rparr>
        | PENDING \<Rightarrow> f1))"

end
