(* ===== verification/Engine_Props.thy ===== *)
theory Engine_Props
  imports Engine_Policy
begin

text \<open>
  What the engine policy and the finding lifecycle promise: a job that is built is confined to the
  catalog, the scope and the budgets, and a finding becomes verified only through the
  deterministic verifier or a human.
\<close>

section \<open>Jobs\<close>

lemma guarded_Inr: "guarded bad e rest = Inr j \<longleftrightarrow> \<not> bad \<and> rest = Inr j"
  by (simp add: guarded_def)

lemma check_requests_None:
  "check_requests c a rs = None \<longleftrightarrow>
   (\<forall>r \<in> set rs. jr_method r \<in> set READ_ONLY_METHODS \<and> jr_method r \<in> set (ec_supported_methods c) \<and>
      path_in_scope (jr_path r) (tr_normalized_path (ja_target a)))"
  by (induction rs) auto

lemma build_engine_job_Inr:
  assumes "build_engine_job jid a = Inr j"
  obtains p c where "get_engine_profile (ja_profile_id a) = Some p" and "ep_engine p = ja_engine a"
    and "get_engine_capability (ja_capability_id a) = Some c" and "ja_capability_id a \<in> set (ep_capability_ids p)"
    and "ec_engine c = ja_engine a" and "decide_job jid p c a = Inr j"
  using assms by (auto simp: build_engine_job_def Let_def guarded_Inr split: option.splits)

lemma decide_job_Inr:
  "decide_job jid p c a = Inr j \<longleftrightarrow>
   j = job_for jid c a \<and> ep_enabled p \<and> ja_adapter_enabled a \<and>
   ja_environment a \<in> set (ec_allowed_environments c) \<and> tr_environment (ja_target a) = ja_environment a \<and>
   rstrip (CHR ''/'') (tr_origin (ja_target a)) \<in> set (map (rstrip (CHR ''/'')) (ja_allowed_origins a)) \<and>
   tr_method (ja_target a) \<in> set (ec_supported_methods c) \<and> \<not> ec_state_changing_possible c \<and>
   tr_method (ja_target a) \<in> set READ_ONLY_METHODS \<and> \<not> missing_authentication c a \<and>
   check_requests c a (ja_requests a) = None \<and>
   int (length (ja_requests a)) \<le> ja_remaining_requests a \<and>
   int (length (ja_requests a)) \<le> ec_request_budget c \<and> 1 \<le> effective_time c a \<and>
   engine_budget_ok (budget_for c a) \<and> engine_job_ok (job_for jid c a)"
  by (auto simp: decide_job_def Let_def guarded_Inr not_less not_le split: option.splits)

text \<open>C17: A job that the policy builds runs an operational capability of an enabled profile of its own
  engine, in an allowed environment, against an allowed origin, with the methods of the
  capability; every request is a read-only method under the target's fixed path prefix; the number
  of requests fits the job's own budget, the capability's and what remains of the run; the job's
  time is positive and within the capability's time budget and the time asked for, if any; and
  its concurrency is within the capability's and the one asked for.\<close>

theorem built_job_is_confined:
  assumes "build_engine_job jid a = Inr j"
  shows "\<exists>p c. get_engine_profile (ej_profile_id j) = Some p \<and> ep_enabled p \<and> ja_adapter_enabled a \<and>
    get_engine_capability (ej_capability_id j) = Some c \<and> ej_capability_id j \<in> set (ep_capability_ids p) \<and> operational c \<and>
    ec_engine c = ej_engine j \<and> ep_engine p = ej_engine j \<and> ej_engine j = ja_engine a \<and>
    ej_environment j \<in> set (ec_allowed_environments c) \<and> ej_environment j \<in> {ENV_SYNTHETIC_LAB, ENV_SYNTHETIC_RANGE} \<and>
    ej_target j = ja_target a \<and> tr_environment (ej_target j) = ej_environment j \<and>
    rstrip (CHR ''/'') (tr_origin (ej_target j)) \<in> rstrip (CHR ''/'') ` set (ja_allowed_origins a) \<and>
    tr_method (ej_target j) \<in> set (ec_supported_methods c) \<inter> {''GET'', ''HEAD'', ''OPTIONS''} \<and>
    ej_requests j = ja_requests a \<and>
    (\<forall>r \<in> set (ej_requests j). jr_method r \<in> set (ec_supported_methods c) \<inter> {''GET'', ''HEAD'', ''OPTIONS''} \<and>
       path_in_scope (jr_path r) (tr_normalized_path (ej_target j))) \<and>
    int (length (ej_requests j)) \<le> eb_max_requests (ej_budget j) \<and>
    eb_max_requests (ej_budget j) \<le> ja_remaining_requests a \<and> eb_max_requests (ej_budget j) \<le> ec_request_budget c \<and>
    1 \<le> eb_time_budget_ms (ej_budget j) \<and> eb_time_budget_ms (ej_budget j) \<le> ec_time_budget_ms c \<and>
    (\<forall>t. ja_time_budget_ms a = Some t \<longrightarrow> t \<noteq> 0 \<longrightarrow> eb_time_budget_ms (ej_budget j) \<le> t) \<and>
    eb_max_concurrency (ej_budget j) \<le> ec_concurrency_budget c \<and> eb_max_concurrency (ej_budget j) \<le> ja_concurrency a \<and>
    engine_budget_ok (ej_budget j) \<and> engine_job_ok j"
  using assms
proof (rule build_engine_job_Inr)
  fix p c
  assume *: "get_engine_profile (ja_profile_id a) = Some p" "ep_engine p = ja_engine a"
    "get_engine_capability (ja_capability_id a) = Some c" "ja_capability_id a \<in> set (ep_capability_ids p)"
    "ec_engine c = ja_engine a" "decide_job jid p c a = Inr j"
  note d = *(6) [unfolded decide_job_Inr]
  have op: "operational c" using enabled_capability_operational(1) *(1,3,4) d by blast
  then have env: "ja_environment a \<in> {ENV_SYNTHETIC_LAB, ENV_SYNTHETIC_RANGE}"
    using d by (auto simp: operational_def)
  show ?thesis
    using * d op env check_requests_None [of c a "ja_requests a"]
    by (intro exI [of _ p] exI [of _ c]) (simp add: job_for_def budget_for_def effective_time_def READ_ONLY_METHODS_def)
qed

definition demo_target :: target_reference where
  "demo_target = \<lparr>tr_engine = AEGIS_NATIVE, tr_environment = ENV_SYNTHETIC_LAB, tr_origin = ''http://lab-api:8001/'',
     tr_operation_id = ''getAccount'', tr_method = ''GET'', tr_normalized_path = ''/api/accounts/{id}'', tr_object_ref = None\<rparr>"

definition demo_arguments :: job_arguments where
  "demo_arguments = \<lparr>ja_engine = AEGIS_NATIVE, ja_profile_id = ''aegis-native-bola-synthetic'',
     ja_capability_id = ''bola_object_read_v1'', ja_run_id = ''run'', ja_environment = ENV_SYNTHETIC_LAB,
     ja_target = demo_target, ja_credential_profile_refs = [''user_a''],
     ja_requests = [\<lparr>jr_name = ''own'', jr_method = ''GET'', jr_path = ''/api/accounts/1'',
       jr_credential_profile = ''user_a'', jr_object_ref = None\<rparr>],
     ja_remaining_requests = 5, ja_allowed_origins = [''http://lab-api:8001''], ja_authenticated_profiles = [''user_a''],
     ja_adapter_enabled = True, ja_time_budget_ms = Some 5000, ja_concurrency = 2\<rparr>"

theorem built_job_is_confined_witness:
  "\<exists>j. build_engine_job ''job-0123456789ab'' demo_arguments = Inr j \<and>
     int (length (ej_requests j)) \<le> eb_max_requests (ej_budget j) \<and> length (ej_requests j) = 1 \<and>
     eb_time_budget_ms (ej_budget j) \<le> 5000"
proof -
  have "case build_engine_job ''job-0123456789ab'' demo_arguments of Inl _ \<Rightarrow> False | Inr _ \<Rightarrow> True"
    by code_simp
  then obtain j where "build_engine_job ''job-0123456789ab'' demo_arguments = Inr j"
    by (auto split: sum.splits)
  with built_job_is_confined [OF this] show ?thesis
    by (intro exI [of _ j]) (auto simp: demo_arguments_def)
qed

text \<open>The budget of the job is built outside the handler that turns validation errors into rejections:
  the active ZAP capability allows 200 requests, the job's budget at most 64, so a run with more
  than 64 requests left ends in an uncaught exception.\<close>

lemma active_job_escapes_validation:
  "build_engine_job ''job-0123456789ab'' (demo_arguments\<lparr>ja_engine := ZAP,
     ja_profile_id := ''ZAP_LAB_ACTIVE_REFLECTED_XSS_V1'', ja_capability_id := ''zap_active_reflected_xss_v1'',
     ja_remaining_requests := 200\<rparr>) = Inl Uncaught_Validation"
  by code_simp

text \<open>The path of a request in scope is the prefix of the target's template, or lies under it.\<close>

lemma path_in_scope_prefix:
  "path_in_scope path template \<Longrightarrow> \<exists>rest. path = path_prefix template @ rest \<and> (rest = [] \<or> hd rest = CHR ''/'')"
proof -
  assume "path_in_scope path template"
  then consider "path = path_prefix template" | "starts_with (path_prefix template @ ''/'') path"
    by (auto simp: path_in_scope_def)
  then show ?thesis
  proof cases
    case 2
    then have "path = path_prefix template @ ''/'' @ drop (Suc (length (path_prefix template))) path"
      by (metis append.assoc append_take_drop_id length_append_singleton starts_with_def)
    then show ?thesis by (metis append_Cons list.sel(1))
  qed simp
qed

section \<open>Findings\<close>

datatype lifecycle_op = Conclude verifier_conclusion finding_state | Review human_review

definition lifecycle_step :: "lifecycle_op \<Rightarrow> normalized_finding \<Rightarrow> normalized_finding" where
  "lifecycle_step op f = (case op of
       Conclude c s \<Rightarrow> record_verifier_conclusion c s f
     | Review r \<Rightarrow> record_human_review r f)"

definition confirms :: "string \<Rightarrow> lifecycle_op \<Rightarrow> bool" where
  "confirms cid op = (case op of
       Conclude c s \<Rightarrow> vc_status c = V_CONFIRMED \<and> policy_of cid = DETERMINISTIC_AEGIS_VERIFIER
     | Review r \<Rightarrow> False)"

definition accepts :: "lifecycle_op \<Rightarrow> bool" where
  "accepts op = (case op of Conclude c s \<Rightarrow> False | Review r \<Rightarrow> hr_decision r = ACCEPTED)"

text \<open>The state that stands for an inconclusive result is never \<open>VERIFIED\<close>.\<close>

definition proper :: "lifecycle_op \<Rightarrow> bool" where
  "proper op = (case op of Conclude c s \<Rightarrow> s \<noteq> VERIFIED | Review r \<Rightarrow> True)"

lemma lifecycle_step_capability [simp]: "nf_capability_id (lifecycle_step op f) = nf_capability_id f"
  by (auto simp: lifecycle_step_def record_verifier_conclusion_def record_human_review_def Let_def
      split: lifecycle_op.split verdict_status.split review_decision.split)

lemma lifecycle_run_capability [simp]: "nf_capability_id (fold lifecycle_step ops f) = nf_capability_id f"
  by (induction ops arbitrary: f) simp_all

lemma lifecycle_step_cases:
  assumes "proper op"
  shows "nf_lifecycle_state (lifecycle_step op f) = VERIFIED \<Longrightarrow>
      nf_lifecycle_state f = VERIFIED \<or> confirms (nf_capability_id f) op \<or> accepts op"
    and "nf_severity (lifecycle_step op f) \<noteq> None \<Longrightarrow> nf_severity f \<noteq> None \<or> confirms (nf_capability_id f) op"
    and "nf_confidence (lifecycle_step op f) = Some C_CONFIRMED \<Longrightarrow>
      nf_confidence f = Some C_CONFIRMED \<or> confirms (nf_capability_id f) op"
  using assms
  by (auto simp: lifecycle_step_def record_verifier_conclusion_def record_human_review_def Let_def
      confirms_def accepts_def proper_def
      split: lifecycle_op.splits verdict_status.splits review_decision.splits if_splits)

lemma lifecycle_run_cases:
  assumes "\<forall>op \<in> set ops. proper op"
  shows "(nf_lifecycle_state (fold lifecycle_step ops f) = VERIFIED \<longrightarrow>
      nf_lifecycle_state f = VERIFIED \<or> (\<exists>op \<in> set ops. confirms (nf_capability_id f) op \<or> accepts op)) \<and>
    (nf_severity (fold lifecycle_step ops f) \<noteq> None \<longrightarrow>
      nf_severity f \<noteq> None \<or> (\<exists>op \<in> set ops. confirms (nf_capability_id f) op)) \<and>
    (nf_confidence (fold lifecycle_step ops f) = Some C_CONFIRMED \<longrightarrow>
      nf_confidence f = Some C_CONFIRMED \<or> (\<exists>op \<in> set ops. confirms (nf_capability_id f) op))"
  using assms
proof (induction ops arbitrary: f)
  case (Cons op ops)
  have "proper op" "\<forall>op \<in> set ops. proper op" using Cons.prems by simp_all
  then show ?case
    using Cons.IH [of "lifecycle_step op f"] lifecycle_step_cases [of op f] by auto
qed simp

text \<open>C18: No engine can confirm its own report: whatever conclusions and reviews follow a correlated
  report, it is VERIFIED only if the deterministic verifier confirmed it under a capability that
  grants it that authority or a human accepted it, and it carries a severity or the confidence
  CONFIRMED only in the first case.\<close>

theorem verified_needs_verifier_or_human:
  assumes "correlate_reported_finding r j hypothesis in_scope = Inr f" and "\<forall>op \<in> set ops. proper op"
  shows "(nf_lifecycle_state (fold lifecycle_step ops f) = VERIFIED \<longrightarrow>
       (\<exists>op \<in> set ops. confirms (ej_capability_id j) op \<or> accepts op)) \<and>
    (nf_severity (fold lifecycle_step ops f) \<noteq> None \<or>
     nf_confidence (fold lifecycle_step ops f) = Some C_CONFIRMED \<longrightarrow>
       (\<exists>op \<in> set ops. confirms (ej_capability_id j) op))"
proof -
  have "f = finding_of r j hypothesis in_scope"
    using assms(1) by (simp add: correlate_reported_finding_def Let_def split: if_splits)
  then have "nf_lifecycle_state f \<noteq> VERIFIED" "nf_severity f = None" "nf_confidence f = None"
    "nf_capability_id f = ej_capability_id j"
    by (simp_all add: finding_of_def)
  then show ?thesis using lifecycle_run_cases [OF assms(2), of f] by auto
qed

definition demo_finding :: normalized_finding where
  "demo_finding = finding_of \<lparr>rf_report_key = ''k'', rf_claimed_category = ''BOLA'', rf_observation_names = [''own''],
     rf_signal = ''sig''\<rparr> (job_for ''job-0123456789ab'' (hd CAPABILITY_CATALOG) demo_arguments) [] False"

definition demo_confirmation :: verifier_conclusion where
  "demo_confirmation = \<lparr>vc_status = V_CONFIRMED, vc_summary = ''yes'', vc_aegis_finding_id = Some ''f'', vc_evidence_ids = []\<rparr>"

lemma demo_policy: "policy_of ''bola_object_read_v1'' = DETERMINISTIC_AEGIS_VERIFIER"
  by code_simp

lemma demo_finding_capability: "nf_capability_id demo_finding = ''bola_object_read_v1''"
  by (simp add: demo_finding_def finding_of_def job_for_def demo_arguments_def)

theorem verified_needs_verifier_or_human_witness:
  "nf_lifecycle_state (lifecycle_step (Conclude demo_confirmation REJECTED) demo_finding) = VERIFIED \<and>
   (\<exists>op \<in> {Conclude demo_confirmation REJECTED}. confirms ''bola_object_read_v1'' op \<or> accepts op)"
proof -
  let ?j = "job_for ''job-0123456789ab'' (hd CAPABILITY_CATALOG) demo_arguments"
  have "correlate_reported_finding \<lparr>rf_report_key = ''k'', rf_claimed_category = ''BOLA'', rf_observation_names = [''own''],
     rf_signal = ''sig''\<rparr> ?j [] False = Inr demo_finding"
    by (simp add: correlate_reported_finding_def demo_finding_def finding_of_def Let_def job_for_def demo_arguments_def)
  moreover have "nf_lifecycle_state (lifecycle_step (Conclude demo_confirmation REJECTED) demo_finding) = VERIFIED"
    by (simp add: lifecycle_step_def record_verifier_conclusion_def demo_confirmation_def demo_finding_capability demo_policy)
  moreover have "ej_capability_id ?j = ''bola_object_read_v1''" by (simp add: job_for_def demo_arguments_def)
  ultimately show ?thesis
    using verified_needs_verifier_or_human [of _ ?j "[]" False demo_finding "[Conclude demo_confirmation REJECTED]"]
    by (simp add: proper_def)
qed

text \<open>The promotion does not look at the state it starts from: a report rejected as out of scope is
  promoted to VERIFIED by a later confirmation, and a verified finding that the verifier later
  disproves is REJECTED with its severity and confidence kept.\<close>

lemma rejected_report_is_promoted:
  "nf_lifecycle_state demo_finding = REJECTED \<and>
   nf_lifecycle_state (record_verifier_conclusion demo_confirmation REJECTED demo_finding) = VERIFIED"
  by (simp add: record_verifier_conclusion_def demo_confirmation_def demo_finding_capability demo_policy)
     (simp add: demo_finding_def finding_of_def)

lemma disproved_finding_keeps_severity:
  "vc_status c = V_PASS \<Longrightarrow>
   nf_lifecycle_state (record_verifier_conclusion c s (record_verifier_conclusion demo_confirmation s demo_finding)) = REJECTED \<and>
   nf_confidence (record_verifier_conclusion c s (record_verifier_conclusion demo_confirmation s demo_finding)) = Some C_CONFIRMED"
  by (simp add: record_verifier_conclusion_def demo_confirmation_def demo_finding_capability demo_policy)

section \<open>Deduplication\<close>

lemma first_per_key_keys: "rf_report_key ` set (first_per_key rs) = rf_report_key ` set rs"
proof (induction rs)
  case (Cons r rs)
  have "rf_report_key ` set (first_per_key (r # rs)) =
      insert (rf_report_key r) (rf_report_key ` set (first_per_key rs))" by auto
  with Cons.IH show ?case by simp
qed simp

lemma first_per_key_distinct: "distinct (map rf_report_key (first_per_key rs))"
  by (induction rs) (auto simp: distinct_map inj_on_def)

lemma dedupe_reported_keys:
  "distinct (map rf_report_key (dedupe_reported rs))" "sorted (map rf_report_key (dedupe_reported rs))"
  "rf_report_key ` set (dedupe_reported rs) = rf_report_key ` set rs"
  by (simp_all add: dedupe_reported_def first_per_key_keys distinct_map inj_on_def)
     (use first_per_key_distinct [of rs] in \<open>auto simp: distinct_map inj_on_def\<close>)

end
