(* ===== verification/Projection.thy ===== *)
theory Projection
  imports Json_Values Regex "HOL-Library.Product_Lexorder"
begin

text \<open>
  The target inventory of the ZAP passive profile (\<open>aegis_zap/inventory.py\<close>) and the
  projection of a controller-owned OpenAPI source onto its approved operations
  (\<open>aegis_zap/projection.py\<close>).  The checked-in source files are the argument \<open>files\<close>, from a
  file name to its bytes; which characters outside ASCII are word characters is the argument
  \<open>alnum\<close>.  The \<open>detail\<close> texts of a rejection are left out.
\<close>

section \<open>The inventory\<close>

datatype purpose = ACCEPTANCE | NEGATIVE_CONTROL

record zap_target =
  zt_target_ref :: string
  zt_origin :: string
  zt_variant :: string
  zt_source :: string
  zt_operation_ids :: "string list"
  zt_path_values :: "(string \<times> string) list"
  zt_purpose :: purpose
  zt_title :: string
  zt_scenario :: "string option"
  zt_control :: "string option"
  zt_negative_class :: "string option"

definition LAB_ORIGIN :: string where "LAB_ORIGIN = ''http://lab-api:8001''"
definition ZAP_MAIN_SOURCE :: string where "ZAP_MAIN_SOURCE = ''synthetic-lab-openapi.json''"
definition CATALOG_ID :: string where "CATALOG_ID = ''synthetic-catalog-1''"

definition expected_requests :: "zap_target \<Rightarrow> nat" where
  "expected_requests t = length (zt_operation_ids t)"

definition zap_base_path :: "zap_target \<Rightarrow> string" where
  "zap_base_path t = ''/lab/zap/'' @ (if zt_purpose t = ACCEPTANCE then zt_variant t else ''negative'')"

definition path_value :: "zap_target \<Rightarrow> string \<Rightarrow> string option" where
  "path_value t name = map_of (rev (zt_path_values t)) name"

definition zap_acceptance :: "string \<Rightarrow> zap_target" where
  "zap_acceptance variant =
     (let prefix = (if variant = ''vulnerable'' then ''labZapVulnerable'' else ''labZapPatched'') in
      \<lparr>zt_target_ref = ''synthetic-zap-'' @ variant, zt_origin = LAB_ORIGIN, zt_variant = variant,
       zt_source = ZAP_MAIN_SOURCE, zt_operation_ids = [prefix @ ''Status'', prefix @ ''Catalog''],
       zt_path_values = [(''catalog_id'', CATALOG_ID)], zt_purpose = ACCEPTANCE,
       zt_title = ''Synthetic ZAP passive header scenario ('' @ variant @ '')'',
       zt_scenario = Some (prefix @ ''Catalog''), zt_control = Some (prefix @ ''Status''),
       zt_negative_class = None\<rparr>)"

definition spaced_lower :: "string \<Rightarrow> string" where
  "spaced_lower s = map (\<lambda>c. if c = CHR ''_'' then CHR '' '' else c) (lower_latin s)"

definition zap_negative :: "string \<Rightarrow> string \<Rightarrow> string list \<Rightarrow> string \<Rightarrow> zap_target" where
  "zap_negative ref source ops cls =
     \<lparr>zt_target_ref = ''synthetic-zap-negative-'' @ ref, zt_origin = LAB_ORIGIN,
      zt_variant = ''negative'', zt_source = source, zt_operation_ids = ops,
      zt_path_values = [(''catalog_id'', CATALOG_ID)], zt_purpose = NEGATIVE_CONTROL,
      zt_title = ''Negative control: '' @ spaced_lower cls, zt_scenario = None, zt_control = None,
      zt_negative_class = Some cls\<rparr>"

definition ZAP_TARGETS :: "zap_target list" where
  "ZAP_TARGETS =
    [zap_acceptance ''vulnerable'', zap_acceptance ''patched'',
     zap_negative ''state-changing'' ZAP_MAIN_SOURCE [''labZapVulnerableStatus'', ''labZapAdminPurge'']
       ''STATE_CHANGING_OPERATION'',
     zap_negative ''alternate-server'' ''negative-alternate-server.json'' [''labZapVulnerableStatus'']
       ''ALTERNATE_SERVER'',
     zap_negative ''external-ref'' ''negative-external-ref.json'' [''labZapVulnerableStatus'']
       ''EXTERNAL_REFERENCE'',
     zap_negative ''redirect'' ZAP_MAIN_SOURCE [''labZapRedirectStatus''] ''UNEXPECTED_REDIRECT'',
     zap_negative ''unstable'' ZAP_MAIN_SOURCE [''labZapUnstableStatus''] ''UNEXPECTED_EXTRA_REQUEST'',
     zap_negative ''slow'' ZAP_MAIN_SOURCE [''labZapSlowStatus''] ''TARGET_TIMEOUT'']"

section \<open>Rejections\<close>

datatype projection_code = SOURCE_OVERSIZED | SOURCE_MALFORMED | EXCESSIVE_NESTING | UNSUPPORTED_VERSION
  | EXTERNAL_REFERENCE | WEBHOOKS_PRESENT | CALLBACKS_PRESENT | LINKS_PRESENT | ALTERNATE_SERVER
  | SERVER_VARIABLES | TOO_MANY_PATHS | TOO_MANY_OPERATIONS | CUSTOM_METHOD | PATH_ITEM_REFERENCE
  | OPERATION_NOT_FOUND | DUPLICATE_OPERATION_ID | STATE_CHANGING_OPERATION | METHOD_NOT_ALLOWED
  | UNSAFE_PATH | UNAPPROVED_PARAMETER | CREDENTIAL_MATERIAL | ORIGIN_NOT_APPROVED

text \<open>A \<open>ProjectionRejected\<close>, or the name of another Python exception that leaves the function.\<close>

datatype projection_error = Projection_Rejected projection_code | Projection_Raised string

type_synonym 'a projected = "projection_error + 'a"

definition refuse :: "projection_code \<Rightarrow> 'a projected" where
  "refuse c = Inl (Projection_Rejected c)"

definition andThen :: "'e + 'a \<Rightarrow> ('a \<Rightarrow> 'e + 'b) \<Rightarrow> 'e + 'b" where
  "andThen m f = (case m of Inl e \<Rightarrow> Inl e | Inr a \<Rightarrow> f a)"

text \<open>\<open>if bad: raise ProjectionRejected(code)\<close>, before what follows.\<close>

definition unless :: "bool \<Rightarrow> projection_code \<Rightarrow> 'a projected \<Rightarrow> 'a projected" where
  "unless bad c m = (if bad then refuse c else m)"

definition source_bytes :: "(string \<Rightarrow> string option) \<Rightarrow> string \<Rightarrow> string projected" where
  "source_bytes files source =
     (if CHR ''/'' \<in> set source \<or> rev (take 5 (rev source)) \<noteq> ''.json'' then Inl (Projection_Raised ''ValueError'')
      else case files source of None \<Rightarrow> Inl (Projection_Raised ''FileNotFoundError'') | Some b \<Rightarrow> Inr b)"

section \<open>Patterns and limits\<close>

definition MAX_SOURCE_BYTES :: nat where "MAX_SOURCE_BYTES = 131072"
definition MAX_DEPTH :: nat where "MAX_DEPTH = 24"
definition MAX_NODES :: nat where "MAX_NODES = 20000"
definition MAX_SOURCE_PATHS :: nat where "MAX_SOURCE_PATHS = 64"
definition MAX_SOURCE_OPERATIONS :: nat where "MAX_SOURCE_OPERATIONS = 128"
definition MAX_PROJECTED_OPERATIONS :: nat where "MAX_PROJECTED_OPERATIONS = 8"
definition MAX_STRING :: nat where "MAX_STRING = 4096"
definition PROJECTION_VERSION :: string where "PROJECTION_VERSION = ''1.3.0''"

definition READ_ONLY_METHODS :: "string list" where "READ_ONLY_METHODS = [''get'', ''head'']"
definition STATE_CHANGING_METHODS :: "string list" where
  "STATE_CHANGING_METHODS = [''post'', ''put'', ''patch'', ''delete'']"
definition OTHER_OPENAPI_METHODS :: "string list" where "OTHER_OPENAPI_METHODS = [''options'', ''trace'']"
definition PATH_ITEM_FIELDS :: "string list" where
  "PATH_ITEM_FIELDS = [''summary'', ''description'', ''parameters'', ''servers'', ''$ref'']"

definition is_template_char :: "char \<Rightarrow> bool" where
  "is_template_char c \<longleftrightarrow> is_lower c \<or> is_digit c \<or> c = CHR ''_'' \<or> c = CHR ''-''"

definition is_param_char :: "char \<Rightarrow> bool" where
  "is_param_char c \<longleftrightarrow> is_lower c \<or> c = CHR ''_''"

definition is_concrete_char :: "char \<Rightarrow> bool" where
  "is_concrete_char c \<longleftrightarrow> is_alnum c \<or> c = CHR ''_'' \<or> c = CHR ''-''"

definition is_value_char :: "char \<Rightarrow> bool" where
  "is_value_char c \<longleftrightarrow> is_lower c \<or> is_digit c \<or> c = CHR ''-''"

definition TEMPLATE :: rx where
  "TEMPLATE = R_seqs [R_text ''/lab/zap/'', R_plus (R_ascii is_template_char),
     R_Star (R_Seq (R_text ''/'') (R_Alt (R_plus (R_ascii is_template_char))
       (R_seqs [R_text ''{'', R_count 1 32 (R_ascii is_param_char), R_text ''}''])))]"

definition CONCRETE :: rx where
  "CONCRETE = R_seqs [R_text ''/lab/zap/'', R_plus (R_ascii is_concrete_char),
     R_Star (R_Seq (R_text ''/'') (R_plus (R_ascii is_concrete_char)))]"

definition VALUE :: rx where "VALUE = R_count 1 64 (R_ascii is_value_char)"

definition OPENAPI_VERSION :: rx where
  "OPENAPI_VERSION = R_seqs [R_text ''3.'', R_Alt (R_text ''0'') (R_text ''1''), R_text ''.'', R_plus (R_ascii is_digit)]"

definition ORIGIN :: rx where
  "ORIGIN = R_seqs [R_text ''http://'',
     R_plus (R_ascii (\<lambda>c. is_lower c \<or> is_digit c \<or> c = CHR ''.'' \<or> c = CHR ''-'')),
     R_text '':'', R_count 1 5 (R_ascii is_digit)]"

definition OPERATION_ID :: rx where
  "OPERATION_ID = R_Seq (R_ascii (\<lambda>c. is_lower c \<or> is_upper c)) (R_count 2 80 (R_ascii is_alnum))"

text \<open>The credential pattern, under \<open>(?i)\<close>.  Its two alternatives that begin with \<open>\b\<close> are
  searched for at the start of a word.\<close>

definition SPACES :: rx where "SPACES = R_Star (R_Cls uni_space)"
definition NON_SPACE :: rx where "NON_SPACE = R_Cls (\<lambda>n. \<not> uni_space n)"

definition is_bearer_char :: "char \<Rightarrow> bool" where
  "is_bearer_char c \<longleftrightarrow> is_lower c \<or> is_digit c \<or> c \<in> set ''._~+/=-''"

definition is_token_char :: "char \<Rightarrow> bool" where
  "is_token_char c \<longleftrightarrow> is_alnum c \<or> c = CHR ''_'' \<or> c = CHR ''-''"

definition at_least :: "nat \<Rightarrow> rx \<Rightarrow> rx" where
  "at_least n r = foldr R_Seq (replicate n r) (R_Star r)"

definition BEARER :: rx where
  "BEARER = R_seqs [R_fold ''bearer'', R_plus (R_Cls uni_space), at_least 8 (R_fold_ascii is_bearer_char)]"

definition COOKIE :: rx where "COOKIE = R_seqs [R_fold ''cookie'', SPACES, R_text '':'']"

definition CREDENTIALS :: rx where
  "CREDENTIALS = R_alts
    [R_seqs [R_fold ''authorization'', SPACES, R_text '':''],
     R_fold ''set-cookie'', R_fold ''lab-token-'',
     R_seqs [R_alts [R_seqs [R_fold ''api'', R_Alt R_Eps (R_ascii (\<lambda>c. c = CHR ''_'' \<or> c = CHR ''-'')), R_fold ''key''],
         R_fold ''secret'', R_fold ''password'', R_fold ''passwd'', R_fold ''token''],
       SPACES, R_ascii (\<lambda>c. c = CHR '':'' \<or> c = CHR ''=''), SPACES, at_least 4 NON_SPACE],
     R_seqs [R_fold ''eyJ'', at_least 10 (R_fold_ascii is_token_char), R_text ''.'',
       at_least 10 (R_fold_ascii is_token_char)],
     R_seqs [R_fold ''AKIA'', R_count 16 16 (R_fold_ascii (\<lambda>c. is_digit c \<or> is_upper c))],
     R_seqs [R_fold ''-----BEGIN '', R_Star (R_fold_ascii (\<lambda>c. is_upper c \<or> c = CHR '' '')),
       R_fold ''PRIVATE KEY'']]"

definition credential :: "(nat \<Rightarrow> bool) \<Rightarrow> points \<Rightarrow> bool" where
  "credential alnum p \<longleftrightarrow> search_word alnum (R_Alt BEARER COOKIE) p \<or> search CREDENTIALS p"

text \<open>A text without any of the characters that each alternative needs is no credential, which spares
  the evaluation of the patterns.\<close>

definition telling :: "nat \<Rightarrow> bool" where
  "telling n \<longleftrightarrow> n \<in> {45, 46, 58, 61, 75, 107, 0x212A} \<or> uni_space n"

lemma needs_at_least: "needs P (at_least n r) \<longleftrightarrow> n \<noteq> 0 \<and> needs P r"
  by (induction n) (auto simp: at_least_def)

lemma folded_telling:
  "\<forall>n. folded (\<lambda>d. d = CHR ''k'') n \<longrightarrow> telling n" "\<forall>n. folded (\<lambda>d. d = CHR ''K'') n \<longrightarrow> telling n"
  "\<forall>n. folded (\<lambda>d. d = CHR ''-'') n \<longrightarrow> telling n"
  by (auto simp: folded_def telling_def Let_def ascii_char_iff)

lemma telling_points: "telling 58" "telling 46"
  "\<forall>n. uni_space n \<longrightarrow> telling n" "\<forall>n. n < 128 \<and> (char_of n = CHR '':'' \<or> char_of n = CHR ''='') \<longrightarrow> telling n"
  by (auto simp: telling_def ascii_char_iff)

lemma telling_credential: "credential alnum p \<Longrightarrow> \<exists>n\<in>set p. telling n"
proof -
  have b: "needs telling (R_Alt BEARER COOKIE)"
    by (simp add: BEARER_def COOKIE_def needs_seqs needs_fold needs_at_least needs_text R_plus_def folded_telling telling_points del: R_seqs.simps)
  have c: "needs telling CREDENTIALS"
    by (simp add: CREDENTIALS_def needs_seqs needs_alts needs_fold needs_at_least needs_text R_ascii_def
       folded_telling telling_points del: R_seqs.simps R_alts.simps)
  assume "credential alnum p"
  then have "p \<in> lang (R_seqs [R_Alt R_Eps (R_Seq R_any (R_Cls (\<lambda>n. \<not> word_point alnum n))), R_Alt BEARER COOKIE, R_any])
      \<or> p \<in> lang (R_seqs [R_any, CREDENTIALS, R_any])"
    by (simp only: credential_def search_word_def search_def fullmatch_iff)
  moreover have "needs telling (R_seqs [x, R_Alt BEARER COOKIE, R_any])" "needs telling (R_seqs [R_any, CREDENTIALS, R_any])" for x
    using b c by (simp_all add: needs_seqs del: R_seqs.simps needs.simps)
  ultimately show ?thesis using needs_lang by blast
qed

declare credential_def [code del]

lemma credential_code [code]:
  "credential alnum p =
     (if list_all (\<lambda>n. \<not> telling n) p then False
      else search_word alnum (R_Alt BEARER COOKIE) p \<or> search CREDENTIALS p)"
  using telling_credential [of alnum p] by (auto simp: credential_def list_all_iff)

section \<open>The structural walk\<close>

text \<open>\<open>_walk\<close>, with the shared node counter passed along.\<close>

definition str_of :: "json \<Rightarrow> points option" where
  "str_of v = (case v of JStr p \<Rightarrow> Some p | _ \<Rightarrow> None)"

function walk :: "(nat \<Rightarrow> bool) \<Rightarrow> json \<Rightarrow> nat \<Rightarrow> points option \<Rightarrow> nat \<Rightarrow> nat projected"
  and walk_member :: "(nat \<Rightarrow> bool) \<Rightarrow> (points \<times> json) list \<Rightarrow> nat \<Rightarrow> points option \<Rightarrow> nat \<Rightarrow> nat projected"
  and walk_items :: "(nat \<Rightarrow> bool) \<Rightarrow> json list \<Rightarrow> nat \<Rightarrow> points option \<Rightarrow> nat \<Rightarrow> nat projected" where
  "walk alnum node depth parent counter =
     unless (MAX_NODES < counter + 1) SOURCE_OVERSIZED
      (unless (MAX_DEPTH < depth) EXCESSIVE_NESTING
        (case node of
           JObj kvs \<Rightarrow> walk_member alnum kvs depth parent (counter + 1)
         | JArr xs \<Rightarrow> walk_items alnum xs depth parent (counter + 1)
         | JStr p \<Rightarrow> unless (MAX_STRING < length p) SOURCE_OVERSIZED
             (unless (credential alnum p) CREDENTIAL_MATERIAL (Inr (counter + 1)))
         | _ \<Rightarrow> Inr (counter + 1)))"
| "walk_member alnum [] depth parent counter = Inr counter"
| "walk_member alnum ((key, v) # kvs) depth parent counter =
     unless (key = points_of ''$ref'' \<and> str_of v = None) SOURCE_MALFORMED
      (unless (key = points_of ''$ref'' \<and> \<not> points_start ''#/'' (the (str_of v))) EXTERNAL_REFERENCE
        (unless (key = points_of ''externalValue'' \<or> key = points_of ''operationRef'') EXTERNAL_REFERENCE
          (unless (key = points_of ''callbacks'') CALLBACKS_PRESENT
            (unless (key = points_of ''links'') LINKS_PRESENT
              (unless (key = points_of ''servers'' \<and> parent \<noteq> None) ALTERNATE_SERVER
                (andThen (walk alnum v (depth + 1) (Some key) counter)
                  (walk_member alnum kvs depth parent)))))))"
| "walk_items alnum [] depth parent counter = Inr counter"
| "walk_items alnum (x # xs) depth parent counter =
     andThen (walk alnum x (depth + 1) parent counter) (walk_items alnum xs depth parent)"
  by pat_completeness auto
termination
  by (relation "measure (\<lambda>x. case x of Inl (_, node, _) \<Rightarrow> 2 * size node
      | Inr (Inl (_, kvs, _)) \<Rightarrow> 2 * size_list (size_prod (\<lambda>_. 0) size) kvs + 1
      | Inr (Inr (_, xs, _)) \<Rightarrow> 2 * size_list size xs + 1)") auto

declare walk.simps [simp del]

section \<open>Servers and parameters\<close>

fun check_each_server :: "string \<Rightarrow> json list \<Rightarrow> unit projected" where
  "check_each_server origin [] = Inr ()"
| "check_each_server origin (JObj kvs # rest) =
     (case get_field kvs ''url'' of
        JStr url \<Rightarrow>
          unless (has_key kvs ''variables'' \<or> of_char (CHR ''{'') \<in> set url) SERVER_VARIABLES
            (unless (rstrip (of_char (CHR ''/'')) url \<noteq> points_of (rstrip (CHR ''/'') origin)) ALTERNATE_SERVER
              (check_each_server origin rest))
      | _ \<Rightarrow> refuse SOURCE_MALFORMED)"
| "check_each_server origin (_ # rest) = refuse SOURCE_MALFORMED"

definition check_servers :: "(points \<times> json) list \<Rightarrow> string \<Rightarrow> unit projected" where
  "check_servers doc origin =
     (case get_field doc ''servers'' of
        JNull \<Rightarrow> Inr ()
      | JArr servers \<Rightarrow> unless (servers = []) SOURCE_MALFORMED (check_each_server origin servers)
      | _ \<Rightarrow> refuse SOURCE_MALFORMED)"

text \<open>\<open>(value or {}).get(key)\<close>: a true value that is no dictionary has no method \<open>get\<close>.\<close>

definition or_empty_get :: "json \<Rightarrow> points \<Rightarrow> json projected" where
  "or_empty_get v k =
     (if \<not> truthy v then Inr JNull
      else case v of JObj kvs \<Rightarrow> Inr (case map_of kvs k of None \<Rightarrow> JNull | Some w \<Rightarrow> w)
         | _ \<Rightarrow> Inl (Projection_Raised ''AttributeError''))"

definition PARAMETER_PREFIX :: string where "PARAMETER_PREFIX = ''#/components/parameters/''"

definition resolve_parameter :: "(points \<times> json) list \<Rightarrow> json \<Rightarrow> (points \<times> json) list projected" where
  "resolve_parameter doc item =
     (case item of
        JObj kvs \<Rightarrow>
          (case get_field kvs ''$ref'' of
             JNull \<Rightarrow> Inr kvs
           | JStr ref \<Rightarrow>
               unless (\<not> points_start PARAMETER_PREFIX ref \<or> length kvs \<noteq> 1) SOURCE_MALFORMED
                (andThen (or_empty_get (get_field doc ''components'') (points_of ''parameters'')) (\<lambda>ps.
                 andThen (or_empty_get ps (drop (length PARAMETER_PREFIX) ref)) (\<lambda>target.
                   case target of
                     JObj t \<Rightarrow> unless (has_key t ''$ref'') SOURCE_MALFORMED (Inr t)
                   | _ \<Rightarrow> refuse SOURCE_MALFORMED)))
           | _ \<Rightarrow> refuse SOURCE_MALFORMED)
      | _ \<Rightarrow> refuse SOURCE_MALFORMED)"

text \<open>\<open>list(value or [])\<close>: a text gives its characters, a dictionary its keys.\<close>

definition as_list :: "json \<Rightarrow> json list projected" where
  "as_list v =
     (if \<not> truthy v then Inr []
      else case v of
        JArr xs \<Rightarrow> Inr xs
      | JStr p \<Rightarrow> Inr (map (\<lambda>c. JStr [c]) p)
      | JObj kvs \<Rightarrow> Inr (map (\<lambda>kv. JStr (fst kv)) kvs)
      | _ \<Rightarrow> Inl (Projection_Raised ''TypeError''))"

definition LOCATIONS :: "string list" where "LOCATIONS = [''path'', ''query'', ''header'', ''cookie'']"

definition location_of :: "(points \<times> json) list \<Rightarrow> string option" where
  "location_of param = find (\<lambda>l. get_field param ''in'' = JStr (points_of l)) LOCATIONS"

text \<open>\<open>value in {...}\<close> raises on a list or a dictionary.\<close>

definition unhashable :: "json \<Rightarrow> bool" where
  "unhashable v \<longleftrightarrow> (case v of JArr _ \<Rightarrow> True | JObj _ \<Rightarrow> True | _ \<Rightarrow> False)"

text \<open>The names of the declared path parameters.\<close>

fun declared_names :: "(points \<times> json) list \<Rightarrow> json list \<Rightarrow> points list projected" where
  "declared_names doc [] = Inr []"
| "declared_names doc (raw # rest) =
     andThen (resolve_parameter doc raw) (\<lambda>param.
       case (get_field param ''name'', location_of param) of
         (JStr name, Some location) \<Rightarrow>
           if location \<noteq> ''path'' then
             unless (get_field param ''required'' = JBool True) UNAPPROVED_PARAMETER (declared_names doc rest)
           else andThen (declared_names doc rest) (\<lambda>ns. Inr (name # ns))
       | (JStr name, None) \<Rightarrow>
           if unhashable (get_field param ''in'') then Inl (Projection_Raised ''TypeError'') else refuse SOURCE_MALFORMED
       | _ \<Rightarrow> refuse SOURCE_MALFORMED)"

section \<open>Operations\<close>

record source_operation =
  so_template :: points
  so_method :: string
  so_item :: "(points \<times> json) list"
  so_operation :: "(points \<times> json) list"

definition method_of :: "points \<Rightarrow> string option" where
  "method_of key = find (\<lambda>m. points_of m = key)
     (READ_ONLY_METHODS @ STATE_CHANGING_METHODS @ OTHER_OPENAPI_METHODS)"

definition skipped_field :: "points \<Rightarrow> bool" where
  "skipped_field key \<longleftrightarrow> key \<in> set (map points_of PATH_ITEM_FIELDS) \<or> points_start ''x-'' key"

type_synonym operation_table = "(points \<times> source_operation) list"

definition index_operation ::
  "points \<Rightarrow> (points \<times> json) list \<Rightarrow> points \<Rightarrow> json \<Rightarrow> operation_table \<Rightarrow> operation_table projected" where
  "index_operation template item key operation tbl =
     (if skipped_field key then Inr tbl
      else case method_of key of
        None \<Rightarrow> refuse CUSTOM_METHOD
      | Some m \<Rightarrow>
          (case operation of
             JObj op \<Rightarrow>
               (case get_field op ''operationId'' of
                  JStr i \<Rightarrow>
                    unless (\<not> fullmatch OPERATION_ID i) SOURCE_MALFORMED
                     (unless (i \<in> set (map fst tbl)) DUPLICATE_OPERATION_ID
                       (Inr (tbl @ [(i, \<lparr>so_template = template, so_method = m, so_item = item, so_operation = op\<rparr>)])))
                | _ \<Rightarrow> refuse SOURCE_MALFORMED)
           | _ \<Rightarrow> refuse SOURCE_MALFORMED))"

fun index_item ::
  "points \<Rightarrow> (points \<times> json) list \<Rightarrow> (points \<times> json) list \<Rightarrow> operation_table \<Rightarrow> operation_table projected" where
  "index_item template item [] tbl = Inr tbl"
| "index_item template item ((key, operation) # rest) tbl =
     andThen (index_operation template item key operation tbl) (index_item template item rest)"

fun index_paths :: "(points \<times> json) list \<Rightarrow> operation_table \<Rightarrow> operation_table projected" where
  "index_paths [] tbl = Inr tbl"
| "index_paths ((template, item) # rest) tbl =
     (case item of
        JObj kvs \<Rightarrow> unless (has_key kvs ''$ref'') PATH_ITEM_REFERENCE
          (andThen (index_item template kvs kvs tbl) (index_paths rest))
      | _ \<Rightarrow> refuse SOURCE_MALFORMED)"

text \<open>\<open>_PARAM.findall\<close>: the names in braces, left to right.\<close>

function find_params :: "points \<Rightarrow> points list" where
  "find_params [] = []"
| "find_params (c # cs) =
     (let name = takeWhile (\<lambda>n. n < 128 \<and> is_param_char (char_of n)) cs; rest = drop (length name) cs in
      if c = of_char (CHR ''{'') \<and> 1 \<le> length name \<and> length name \<le> 32 \<and> take 1 rest = points_of ''}''
      then name # find_params (tl rest) else find_params cs)"
  by pat_completeness auto
termination
  by (relation "measure length") (auto simp: less_Suc_eq_le)

text \<open>\<open>text.replace(old, new, 1)\<close>.\<close>

fun replace_first :: "'a list \<Rightarrow> 'a list \<Rightarrow> 'a list \<Rightarrow> 'a list" where
  "replace_first old new [] = (if old = [] then new else [])"
| "replace_first old new (c # cs) =
     (if take (length old) (c # cs) = old then new @ drop (length old) (c # cs)
      else c # replace_first old new cs)"

record projected_operation =
  po_method :: string
  po_template :: points
  po_path :: points
  po_id :: points

fun fill_params :: "(string \<times> string) list \<Rightarrow> points list \<Rightarrow> points \<Rightarrow> (points \<times> (points \<times> points) list) projected" where
  "fill_params approved [] concrete = Inr (concrete, [])"
| "fill_params approved (name # names) concrete =
     (case map_of (rev (map (map_prod points_of points_of) approved)) name of
        None \<Rightarrow> refuse UNAPPROVED_PARAMETER
      | Some value \<Rightarrow>
          unless (\<not> fullmatch VALUE value) UNAPPROVED_PARAMETER
            (andThen (fill_params approved names
                (replace_first (points_of ''{'' @ name @ points_of ''}'') value concrete))
              (\<lambda>(path, params). Inr (path, (name, value) # params))))"

definition upper_of :: "string \<Rightarrow> string" where
  "upper_of s = map (\<lambda>c. if is_lower c then char_of (of_char c - (32::nat)) else c) s"

type_synonym projected_entry = "projected_operation \<times> (points \<times> points) list"

definition project_one ::
  "(points \<times> json) list \<Rightarrow> (string \<times> string) list \<Rightarrow> operation_table \<Rightarrow> string \<Rightarrow> projected_entry projected" where
  "project_one doc approved tbl op_id =
     (case map_of tbl (points_of op_id) of
        None \<Rightarrow> refuse OPERATION_NOT_FOUND
      | Some so \<Rightarrow>
          unless (so_method so \<in> set STATE_CHANGING_METHODS) STATE_CHANGING_OPERATION
           (unless (so_method so \<notin> set READ_ONLY_METHODS) METHOD_NOT_ALLOWED
             (unless (\<not> fullmatch TEMPLATE (so_template so)) UNSAFE_PATH
               (andThen (as_list (get_field (so_item so) ''parameters'')) (\<lambda>outer.
                andThen (as_list (get_field (so_operation so) ''parameters'')) (\<lambda>inner.
                andThen (declared_names doc (outer @ inner)) (\<lambda>declared.
                let names = find_params (so_template so) in
                unless (set names \<noteq> set declared) UNAPPROVED_PARAMETER
                 (andThen (fill_params approved names (so_template so)) (\<lambda>(path, params).
                   unless (\<not> fullmatch CONCRETE path) UNSAFE_PATH
                     (Inr (\<lparr>po_method = upper_of (so_method so), po_template = so_template so,
                        po_path = path, po_id = points_of op_id\<rparr>, params)))))))))))"

fun project_each ::
  "(points \<times> json) list \<Rightarrow> (string \<times> string) list \<Rightarrow> operation_table \<Rightarrow> string list \<Rightarrow> projected_entry list projected" where
  "project_each doc approved tbl [] = Inr []"
| "project_each doc approved tbl (i # is) =
     andThen (project_one doc approved tbl i) (\<lambda>e.
     andThen (project_each doc approved tbl is) (\<lambda>es. Inr (e # es)))"

section \<open>The projection\<close>

definition operation_key :: "projected_operation \<Rightarrow> string \<times> points" where
  "operation_key p = (po_method p, po_path p)"

definition out_parameter :: "points \<times> points \<Rightarrow> json" where
  "out_parameter nv =
     obj [(''name'', JStr (fst nv)), (''in'', str_value ''path''), (''required'', JBool True),
       (''schema'', obj [(''type'', str_value ''string''), (''enum'', JArr [JStr (snd nv)])]),
       (''example'', JStr (snd nv))]"

definition out_entry :: "projected_entry \<Rightarrow> json" where
  "out_entry e =
     obj ([(''operationId'', JStr (po_id (fst e))),
       (''responses'', obj [(''200'', obj [(''description'', str_value ''Synthetic response'')])])] @
      (if snd e = [] then [] else [(''parameters'', JArr (map out_parameter (snd e)))]))"

text \<open>\<open>out_paths.setdefault(template, {})[method] = entry\<close>, in the sorted order.\<close>

definition add_out_path :: "projected_entry \<Rightarrow> (points \<times> json) list \<Rightarrow> (points \<times> json) list" where
  "add_out_path e out =
     (let old = (case map_of out (po_template (fst e)) of Some (JObj ms) \<Rightarrow> ms | _ \<Rightarrow> []) in
      AList.update (po_template (fst e))
        (JObj (AList.update (points_of (lower_latin (po_method (fst e)))) (out_entry e) old)) out)"

definition out_document :: "string \<Rightarrow> projected_entry list \<Rightarrow> json" where
  "out_document origin entries =
     obj [(''openapi'', str_value ''3.0.3''),
       (''info'', obj [(''title'', str_value ''Aegis projected synthetic surface''),
         (''version'', str_value PROJECTION_VERSION)]),
       (''servers'', JArr [obj [(''url'', str_value origin)]]),
       (''paths'', JObj (fold add_out_path
          (sort_key (\<lambda>e. (po_template (fst e), points_of (po_method (fst e)))) entries) []))]"

definition allowlist_digest :: "projected_operation list \<Rightarrow> string" where
  "allowlist_digest ops = hexdigest (canonical_json (JArr (map (\<lambda>row. JArr (map JStr row))
     (sort (map (\<lambda>p. [points_of (po_method p), po_path p, po_id p]) ops)))))"

text \<open>\<open>_stripped_categories\<close>.\<close>

definition category_of :: "points \<Rightarrow> string list" where
  "category_of key =
     (case map_of (map (\<lambda>(k, c). (points_of k, c))
        [(''description'', ''descriptions''), (''summary'', ''descriptions''), (''tags'', ''tags''),
         (''security'', ''security''), (''securitySchemes'', ''security''), (''example'', ''examples''),
         (''examples'', ''examples''), (''default'', ''examples''), (''externalDocs'', ''external_docs''),
         (''contact'', ''contact''), (''requestBody'', ''request_bodies''), (''content'', ''response_content'')]) key of
        Some c \<Rightarrow> [c]
      | None \<Rightarrow> if points_start ''x-'' key then [''extensions''] else [])"

primrec categories :: "json \<Rightarrow> string list" where
  "categories JNull = []"
| "categories (JBool b) = []"
| "categories (JInt i) = []"
| "categories (JFloat x) = []"
| "categories (JStr p) = []"
| "categories (JArr xs) = concat (map categories xs)"
| "categories (JObj kvs) = concat (map (\<lambda>kv. category_of (fst kv) @ snd kv) (map (map_prod id categories) kvs))"

definition stripped_categories :: "(points \<times> json) list \<Rightarrow> string list" where
  "stripped_categories doc = sort (remdups (categories (JObj doc) @
     (if truthy (get_field doc ''components'') then [''components''] else [])))"

record projection_result =
  pr_target_ref :: string
  pr_origin :: string
  pr_source_name :: string
  pr_source_sha256 :: string
  pr_document :: string
  pr_digest :: string
  pr_operations :: "projected_operation list"
  pr_allowlist_digest :: string
  pr_removed :: nat
  pr_stripped :: "string list"

definition parse_source :: "string \<Rightarrow> (points \<times> json) list projected" where
  "parse_source raw =
     unless (MAX_SOURCE_BYTES < length raw) SOURCE_OVERSIZED
      (case decode_utf8 raw of
         None \<Rightarrow> refuse SOURCE_MALFORMED
       | Some _ \<Rightarrow>
           (case loads raw of
              Inr (JObj doc) \<Rightarrow> Inr doc
            | _ \<Rightarrow> refuse SOURCE_MALFORMED))"

definition is_version :: "json \<Rightarrow> bool" where
  "is_version v \<longleftrightarrow> (case v of JStr p \<Rightarrow> fullmatch OPENAPI_VERSION p | _ \<Rightarrow> False)"

definition origin_ok :: "string \<Rightarrow> bool" where
  "origin_ok origin \<longleftrightarrow> rstrip (CHR ''/'') origin = origin \<and> fullmatch ORIGIN (points_of origin)"

text \<open>The whole-document checks, up to the table of its operations.\<close>

definition validate_source :: "(nat \<Rightarrow> bool) \<Rightarrow> string \<Rightarrow> (points \<times> json) list \<Rightarrow> operation_table projected" where
  "validate_source alnum origin doc =
     unless (\<not> is_version (get_field doc ''openapi'')) UNSUPPORTED_VERSION
      (unless (truthy (get_field doc ''webhooks'')) WEBHOOKS_PRESENT
        (andThen (walk alnum (JObj doc) 0 None 0) (\<lambda>_.
         unless (\<not> origin_ok origin) ORIGIN_NOT_APPROVED
          (andThen (check_servers doc origin) (\<lambda>_.
           case get_field doc ''paths'' of
             JObj paths \<Rightarrow>
               unless (paths = []) SOURCE_MALFORMED
                (unless (MAX_SOURCE_PATHS < length paths) TOO_MANY_PATHS
                  (andThen (index_paths paths []) (\<lambda>tbl.
                   unless (MAX_SOURCE_OPERATIONS < length tbl) TOO_MANY_OPERATIONS (Inr tbl))))
           | _ \<Rightarrow> refuse SOURCE_MALFORMED)))))"

definition project_entries ::
  "(nat \<Rightarrow> bool) \<Rightarrow> zap_target \<Rightarrow> (points \<times> json) list \<Rightarrow> (nat \<times> projected_entry list) projected" where
  "project_entries alnum t doc =
     andThen (validate_source alnum (zt_origin t) doc) (\<lambda>tbl.
     let wanted = zt_operation_ids t in
     unless (wanted = [] \<or> MAX_PROJECTED_OPERATIONS < length wanted \<or> \<not> distinct wanted) TOO_MANY_OPERATIONS
      (andThen (project_each doc (zt_path_values t) tbl wanted) (\<lambda>entries.
       unless (\<not> distinct (map (operation_key \<circ> fst) entries)) DUPLICATE_OPERATION_ID
         (Inr (length tbl, entries)))))"

definition project :: "(nat \<Rightarrow> bool) \<Rightarrow> zap_target \<Rightarrow> string \<Rightarrow> projection_result projected" where
  "project alnum t raw =
     andThen (parse_source raw) (\<lambda>doc.
     andThen (project_entries alnum t doc) (\<lambda>(total, entries).
       let document = canonical_json (out_document (zt_origin t) entries);
           operations = sort_key (\<lambda>p. (po_path p, points_of (po_method p))) (map fst entries) in
       Inr \<lparr>pr_target_ref = zt_target_ref t, pr_origin = zt_origin t, pr_source_name = zt_source t,
         pr_source_sha256 = hexdigest raw, pr_document = document, pr_digest = hexdigest document,
         pr_operations = operations, pr_allowlist_digest = allowlist_digest operations,
         pr_removed = total - length operations, pr_stripped = stripped_categories doc\<rparr>))"

text \<open>\<open>project(target)\<close> with the checked-in source.\<close>

definition project_target :: "(nat \<Rightarrow> bool) \<Rightarrow> (string \<Rightarrow> string option) \<Rightarrow> zap_target \<Rightarrow> projection_result projected" where
  "project_target alnum files t = andThen (source_bytes files (zt_source t)) (project alnum t)"

definition projected_urls :: "projection_result \<Rightarrow> points list" where
  "projected_urls r = map (\<lambda>p. points_of (pr_origin r) @ po_path p) (pr_operations r)"

end
