(* ===== verification/Projection_Props.thy ===== *)
theory Projection_Props
  imports Projection "HOL-Library.Code_Target_Nat"
begin

text \<open>
  What the projection promises: the structural walk accepts exactly the documents that are small,
  shallow and free of references, callbacks, links, nested servers and credentials, and an
  accepted projection holds one read-only operation per approved operation id, each under the
  synthetic route prefix.
\<close>

named_theorems projected "inversion of a projection step that returned"

lemma andThen_Inr [projected]: "andThen m f = Inr b \<longleftrightarrow> (\<exists>a. m = Inr a \<and> f a = Inr b)"
  by (cases m) (auto simp: andThen_def)

lemma unless_Inr [projected]: "unless bad c m = Inr b \<longleftrightarrow> \<not> bad \<and> m = Inr b"
  by (simp add: unless_def refuse_def)

lemma refuse_Inr [projected]: "refuse c \<noteq> Inr b"
  by (simp add: refuse_def)

text \<open>A check that a computation returned a value with a property, for evaluation.\<close>

definition succeeds :: "'e + 'a \<Rightarrow> ('a \<Rightarrow> bool) \<Rightarrow> bool" where
  "succeeds m Q \<longleftrightarrow> (case m of Inl _ \<Rightarrow> False | Inr a \<Rightarrow> Q a)"

lemma succeeds_iff: "succeeds m Q \<longleftrightarrow> (\<exists>a. m = Inr a \<and> Q a)"
  by (cases m) (simp_all add: succeeds_def)

section \<open>The walk against its specification\<close>

primrec nodes :: "json \<Rightarrow> nat" where
  "nodes JNull = 1" | "nodes (JBool b) = 1" | "nodes (JInt i) = 1" | "nodes (JFloat x) = 1"
| "nodes (JStr p) = 1"
| "nodes (JArr xs) = 1 + sum_list (map nodes xs)"
| "nodes (JObj kvs) = 1 + sum_list (map snd (map (map_prod id nodes) kvs))"

primrec height :: "json \<Rightarrow> nat" where
  "height JNull = 0" | "height (JBool b) = 0" | "height (JInt i) = 0" | "height (JFloat x) = 0"
| "height (JStr p) = 0"
| "height (JArr xs) = foldr max (map (\<lambda>x. Suc (height x)) xs) 0"
| "height (JObj kvs) = foldr max (map (\<lambda>kv. Suc (snd kv)) (map (map_prod id height) kvs)) 0"

text \<open>What a member may be, \<open>outer\<close> telling whether it belongs to the document itself.\<close>

definition forbidden_keys :: "string list" where
  "forbidden_keys = [''externalValue'', ''operationRef'', ''callbacks'', ''links'']"

definition member_allowed :: "bool \<Rightarrow> points \<Rightarrow> json \<Rightarrow> bool" where
  "member_allowed outer key v \<longleftrightarrow>
     key \<notin> set (map points_of forbidden_keys) \<and> (key = points_of ''servers'' \<longrightarrow> outer) \<and>
     (key = points_of ''$ref'' \<longrightarrow> (\<exists>p. v = JStr p \<and> points_start ''#/'' p))"

fun clean :: "(nat \<Rightarrow> bool) \<Rightarrow> bool \<Rightarrow> json \<Rightarrow> bool" where
  "clean alnum outer (JObj kvs) \<longleftrightarrow>
     (\<forall>kv\<in>set kvs. member_allowed outer (fst kv) (snd kv) \<and> clean alnum False (snd kv))"
| "clean alnum outer (JArr xs) \<longleftrightarrow> (\<forall>x\<in>set xs. clean alnum outer x)"
| "clean alnum outer (JStr p) \<longleftrightarrow> length p \<le> MAX_STRING \<and> \<not> credential alnum p"
| "clean alnum outer _ \<longleftrightarrow> True"

lemma member_checks:
  "member_allowed (parent = None) key v \<longleftrightarrow>
     \<not> (key = points_of ''$ref'' \<and> str_of v = None) \<and>
     \<not> (key = points_of ''$ref'' \<and> \<not> points_start ''#/'' (the (str_of v))) \<and>
     \<not> (key = points_of ''externalValue'' \<or> key = points_of ''operationRef'') \<and>
     key \<noteq> points_of ''callbacks'' \<and> key \<noteq> points_of ''links'' \<and>
     \<not> (key = points_of ''servers'' \<and> parent \<noteq> None)"
  by (cases v) (auto simp: member_allowed_def forbidden_keys_def str_of_def)

lemma walk_iff:
  "walk alnum node depth parent counter = Inr n \<longleftrightarrow>
     n = counter + nodes node \<and> n \<le> MAX_NODES \<and> depth + height node \<le> MAX_DEPTH \<and>
     clean alnum (parent = None) node"
  "counter \<le> MAX_NODES \<Longrightarrow> depth \<le> MAX_DEPTH \<Longrightarrow>
   walk_member alnum kvs depth parent counter = Inr n \<longleftrightarrow>
     n + 1 = counter + nodes (JObj kvs) \<and> n \<le> MAX_NODES \<and> depth + height (JObj kvs) \<le> MAX_DEPTH \<and>
     clean alnum (parent = None) (JObj kvs)"
  "counter \<le> MAX_NODES \<Longrightarrow> depth \<le> MAX_DEPTH \<Longrightarrow>
   walk_items alnum xs depth parent counter = Inr n \<longleftrightarrow>
     n + 1 = counter + nodes (JArr xs) \<and> n \<le> MAX_NODES \<and> depth + height (JArr xs) \<le> MAX_DEPTH \<and>
     clean alnum (parent = None) (JArr xs)"
proof (induction alnum node depth parent counter and alnum kvs depth parent counter
    and alnum xs depth parent counter arbitrary: n and n and n rule: walk_walk_member_walk_items.induct)
  case (1 alnum node depth parent counter)
  show ?case
    using "1.IH" by (cases node; auto simp: walk.simps projected; fastforce)
next
  case (3 alnum key v kvs depth parent counter)
  show ?case
  proof
    assume "walk_member alnum ((key, v) # kvs) depth parent counter = Inr n"
    then obtain m where ok: "member_allowed (parent = None) key v"
      and v: "walk alnum v (depth + 1) (Some key) counter = Inr m"
      and rest: "walk_member alnum kvs depth parent m = Inr n"
      by (auto simp: projected member_checks)
    from v "3.IH"(1) have m: "m = counter + nodes v" "m \<le> MAX_NODES" "Suc (depth + height v) \<le> MAX_DEPTH" "clean alnum False v"
      by auto
    show "n + 1 = counter + nodes (JObj ((key, v) # kvs)) \<and> n \<le> MAX_NODES \<and>
      depth + height (JObj ((key, v) # kvs)) \<le> MAX_DEPTH \<and> clean alnum (parent = None) (JObj ((key, v) # kvs))"
      using rest "3.IH"(2) m ok "3.prems" by auto
  next
    assume *: "n + 1 = counter + nodes (JObj ((key, v) # kvs)) \<and> n \<le> MAX_NODES \<and>
      depth + height (JObj ((key, v) # kvs)) \<le> MAX_DEPTH \<and> clean alnum (parent = None) (JObj ((key, v) # kvs))"
    then have ok: "member_allowed (parent = None) key v" by auto
    have "walk alnum v (depth + 1) (Some key) counter = Inr (counter + nodes v)"
      using * "3.IH"(1) by auto
    moreover have "walk_member alnum kvs depth parent (counter + nodes v) = Inr n"
      using * "3.IH"(2) "3.prems" by auto
    ultimately show "walk_member alnum ((key, v) # kvs) depth parent counter = Inr n"
      using ok by (auto simp: unless_def andThen_def member_checks)
  qed
qed (auto simp: projected)

text \<open>The structural walk of \<open>project\<close> accepts a source document exactly when the document
  meets the specification: at most \<open>MAX_NODES\<close> values, nested at most \<open>MAX_DEPTH\<close> deep, every
  \<open>$ref\<close> local, no \<open>externalValue\<close>, \<open>operationRef\<close>, \<open>callbacks\<close> or \<open>links\<close>, servers only at the top,
  and no text that is too long or looks like a credential.\<close>

theorem walk_accepts_clean_documents:
  "walk alnum (JObj doc) 0 None 0 = Inr n \<longleftrightarrow>
     n = nodes (JObj doc) \<and> n \<le> MAX_NODES \<and> height (JObj doc) \<le> MAX_DEPTH \<and>
     clean alnum True (JObj doc)"
  by (simp add: walk_iff(1) del: nodes.simps height.simps clean.simps)

section \<open>Accepted projections\<close>

definition route_char :: "nat \<Rightarrow> bool" where
  "route_char n \<longleftrightarrow> n < 128 \<and> (is_concrete_char (char_of n) \<or> n = 47)"

lemma concrete_path:
  assumes "fullmatch CONCRETE p"
  shows "points_start ''/lab/zap/'' p \<and> list_all route_char p"
proof -
  have "p \<in> lang CONCRETE" using assms by (simp add: fullmatch_iff)
  then obtain rest where p: "p = points_of ''/lab/zap/'' @ rest"
    and rest: "rest \<in> lang (R_Seq (R_plus (R_ascii is_concrete_char))
      (R_Star (R_Seq (R_text ''/'') (R_plus (R_ascii is_concrete_char)))))"
    unfolding CONCRETE_def R_seqs.simps by (auto simp del: lang.simps simp: lang.simps(5))
  from lang_chars [OF rest] have "n \<in> set rest \<Longrightarrow> route_char n" for n
    by (auto simp: R_plus_def R_ascii_def R_text_def route_char_def)
  moreover have "list_all route_char (points_of ''/lab/zap/'')"
    by code_simp
  ultimately show ?thesis by (simp add: p points_start_def list_all_iff points_of_def)
qed

lemma upper_read_only: "m \<in> set READ_ONLY_METHODS \<Longrightarrow> upper_of m \<in> {''GET'', ''HEAD''}"
proof -
  have "list_all (\<lambda>m. upper_of m \<in> {''GET'', ''HEAD''}) READ_ONLY_METHODS" by code_simp
  then show "m \<in> set READ_ONLY_METHODS \<Longrightarrow> ?thesis" by (auto simp: list_all_iff)
qed

text \<open>What one projected operation satisfies.\<close>

definition operation_confined :: "string \<Rightarrow> projected_operation \<Rightarrow> bool" where
  "operation_confined i p \<longleftrightarrow> po_id p = points_of i \<and> po_method p \<in> {''GET'', ''HEAD''} \<and>
     points_start ''/lab/zap/'' (po_path p) \<and> list_all route_char (po_path p)"

lemma project_one_confined: "project_one doc approved tbl i = Inr e \<Longrightarrow> operation_confined i (fst e)"
  by (auto simp: project_one_def projected Let_def operation_confined_def dest: concrete_path upper_read_only
      split: option.splits)

lemma project_each_confined:
  "project_each doc approved tbl is = Inr es \<Longrightarrow> list_all2 (\<lambda>i e. operation_confined i (fst e)) is es"
  by (induction "is" arbitrary: es) (auto simp: projected dest: project_one_confined)

lemma project_Inr:
  assumes "project alnum t raw = Inr r"
  obtains doc n entries where "parse_source raw = Inr doc"
    and "project_entries alnum t doc = Inr (n, entries)" and "pr_origin r = zt_origin t"
    and "pr_operations r = sort_key (\<lambda>p. (po_path p, points_of (po_method p))) (map fst entries)"
    and "pr_document r = canonical_json (out_document (zt_origin t) entries)"
  using assms by (auto simp: project_def projected Let_def)

lemma project_entries_Inr:
  assumes "project_entries alnum t doc = Inr (n, entries)"
  shows "\<exists>tbl. validate_source alnum (zt_origin t) doc = Inr tbl \<and>
      project_each doc (zt_path_values t) tbl (zt_operation_ids t) = Inr entries"
    and "distinct (zt_operation_ids t)" and "length (zt_operation_ids t) \<le> MAX_PROJECTED_OPERATIONS"
    and "distinct (map (operation_key \<circ> fst) entries)"
  using assms by (auto simp: project_entries_def projected Let_def)

lemma list_all2_pointwise:
  "list_all2 P xs ys \<Longrightarrow> (\<forall>y\<in>set ys. \<exists>x\<in>set xs. P x y) \<and> (\<forall>x\<in>set xs. \<exists>y\<in>set ys. P x y)"
  by (induction rule: list_all2_induct) auto

lemma points_start_append:
  "points_start prefix p \<Longrightarrow> \<exists>rest. p = points_of prefix @ rest"
  by (auto simp: points_start_def points_of_def) (metis append_take_drop_id)

text \<open>C20: whatever the source document, an accepted projection holds exactly one operation for each
  approved operation id, at most eight, no two for the same method and path, each of them \<open>GET\<close> or
  \<open>HEAD\<close> on a path under \<open>/lab/zap/\<close> made of letters, digits, \<open>_\<close>, \<open>-\<close> and slashes only, so that no
  path climbs out of the prefix or carries a query.  The origin is the one of the target inventory,
  plain \<open>http\<close> with a port, never one that the document names: every projected URL is at it, and the
  document that is handed on is built for it from exactly the projected operations.\<close>

theorem projection_is_confined:
  assumes "project alnum t raw = Inr r"
  shows "pr_origin r = zt_origin t \<and> origin_ok (zt_origin t) \<and>
    (\<forall>u\<in>set (projected_urls r). \<exists>path. u = points_of (zt_origin t) @ points_of ''/lab/zap/'' @ path \<and> list_all route_char path) \<and>
    (\<exists>entries. pr_operations r = sort_key (\<lambda>p. (po_path p, points_of (po_method p))) (map fst entries) \<and>
       pr_document r = canonical_json (out_document (zt_origin t) entries)) \<and>
    length (pr_operations r) = expected_requests t \<and> expected_requests t \<le> MAX_PROJECTED_OPERATIONS \<and>
    distinct (map operation_key (pr_operations r)) \<and>
    (\<forall>p\<in>set (pr_operations r). \<exists>i\<in>set (zt_operation_ids t). operation_confined i p) \<and>
    (\<forall>i\<in>set (zt_operation_ids t). \<exists>p\<in>set (pr_operations r). po_id p = points_of i)"
proof -
  obtain doc n entries where e: "project_entries alnum t doc = Inr (n, entries)"
    and origin: "pr_origin r = zt_origin t"
    and ops: "pr_operations r = sort_key (\<lambda>p. (po_path p, points_of (po_method p))) (map fst entries)"
    and document: "pr_document r = canonical_json (out_document (zt_origin t) entries)"
    by (rule project_Inr [OF assms])
  note props = project_entries_Inr [OF e]
  from props(1) have all: "list_all2 (\<lambda>i e. operation_confined i (fst e)) (zt_operation_ids t) entries"
    by (auto dest: project_each_confined)
  have "distinct (map operation_key (pr_operations r)) \<longleftrightarrow> distinct (map operation_key (map fst entries))"
    unfolding ops distinct_map [of operation_key] by simp
  moreover have "\<forall>p\<in>set (pr_operations r). \<exists>i\<in>set (zt_operation_ids t). operation_confined i p"
    using list_all2_pointwise [OF all] by (simp add: ops)
  moreover have "\<forall>i\<in>set (zt_operation_ids t). \<exists>p\<in>set (pr_operations r). po_id p = points_of i"
    using list_all2_pointwise [OF all] by (fastforce simp: ops operation_confined_def)
  moreover have "origin_ok (zt_origin t)"
    using props(1) by (auto simp: validate_source_def projected)
  moreover have "\<exists>path. u = points_of (zt_origin t) @ points_of ''/lab/zap/'' @ path \<and> list_all route_char path"
    if "u \<in> set (projected_urls r)" for u
  proof -
    from that obtain p where p: "p \<in> set (pr_operations r)" "u = points_of (zt_origin t) @ po_path p"
      by (auto simp: projected_urls_def origin)
    then have "points_start ''/lab/zap/'' (po_path p)" "list_all route_char (po_path p)"
      using list_all2_pointwise [OF all] by (auto simp: ops operation_confined_def)
    then show ?thesis using p(2) by (auto dest!: points_start_append)
  qed
  moreover have "\<exists>entries. pr_operations r = sort_key (\<lambda>p. (po_path p, points_of (po_method p))) (map fst entries) \<and>
      pr_document r = canonical_json (out_document (zt_origin t) entries)"
    by (intro exI [of _ entries] conjI) (simp_all add: ops document)
  ultimately show ?thesis
    using props(3,4) list_all2_lengthD [OF all] origin by (simp add: ops expected_requests_def)
qed

definition demo_source :: string where
  \<open>demo_source = ''{"openapi":"3.0.3","paths":{"/lab/zap/a/{b}":{"get":{"operationId":"getB","parameters":'' @
     ''[{"name":"b","in":"path"}]},"post":{"operationId":"purge"}}}}''\<close>

definition demo_zap :: zap_target where
  "demo_zap = (zap_acceptance ''patched'') \<lparr>zt_operation_ids := [''getB''], zt_path_values := [(''b'', ''x1'')]\<rparr>"

lemma demo_entries:
  "succeeds (parse_source demo_source) (\<lambda>doc. succeeds (project_entries (\<lambda>_. False) demo_zap doc)
     (\<lambda>ne. map (po_path \<circ> fst) (snd ne) = [points_of ''/lab/zap/a/x1'']))"
  by code_simp

theorem projection_is_confined_witness:
  "\<exists>r. project (\<lambda>_. False) demo_zap demo_source = Inr r \<and> pr_origin r = zt_origin demo_zap \<and>
     length (pr_operations r) = expected_requests demo_zap"
proof -
  obtain r where r: "project (\<lambda>_. False) demo_zap demo_source = Inr r"
    using demo_entries by (auto simp: succeeds_iff project_def andThen_def Let_def)
  with projection_is_confined [OF r] show ?thesis by blast
qed

end
