(* ===== verification/Projection_Active.thy ===== *)
theory Projection_Active
  imports Projection_Props
begin

text \<open>
  The target inventory of the active reflected-XSS profile (\<open>aegis_zap_active/inventory.py\<close>) and
  its projection onto one \<open>GET\<close> operation with one query parameter
  (\<open>aegis_zap_active/projection.py\<close>), which shares the structural checks of the passive one.
  \<open>str.lower\<close> outside ASCII is the argument \<open>lower\<close>.
\<close>

section \<open>The inventory\<close>

record active_target =
  at_target_ref :: string
  at_origin :: string
  at_variant :: string
  at_source :: string
  at_operation_id :: string
  at_query_param :: string
  at_purpose :: purpose
  at_title :: string
  at_negative_class :: "string option"

definition ACTIVE_MAIN_SOURCE :: string where "ACTIVE_MAIN_SOURCE = ''synthetic-active-openapi.json''"
definition QUERY_PARAM :: string where "QUERY_PARAM = ''q''"

definition active_base_path :: "active_target \<Rightarrow> string" where
  "active_base_path t = ''/lab/zap-active/'' @ (if at_purpose t = ACCEPTANCE then at_variant t else ''negative'')"

definition search_path :: "active_target \<Rightarrow> string" where
  "search_path t = ''/lab/zap-active/'' @ at_variant t @ ''/search''"

definition active_acceptance :: "string \<Rightarrow> active_target" where
  "active_acceptance variant =
     \<lparr>at_target_ref = ''synthetic-zap-active-'' @ variant, at_origin = LAB_ORIGIN, at_variant = variant,
      at_source = ACTIVE_MAIN_SOURCE,
      at_operation_id = (if variant = ''vulnerable'' then ''labZapActiveVulnerableSearch''
        else ''labZapActivePatchedSearch''),
      at_query_param = QUERY_PARAM, at_purpose = ACCEPTANCE,
      at_title = ''Synthetic ZAP active reflected-XSS scenario ('' @ variant @ '')'',
      at_negative_class = None\<rparr>"

definition active_negative :: "string \<Rightarrow> string \<Rightarrow> string \<Rightarrow> string \<Rightarrow> active_target" where
  "active_negative ref source op cls =
     \<lparr>at_target_ref = ''synthetic-zap-active-negative-'' @ ref, at_origin = LAB_ORIGIN,
      at_variant = ''negative'', at_source = source, at_operation_id = op,
      at_query_param = QUERY_PARAM, at_purpose = NEGATIVE_CONTROL,
      at_title = ''Negative control: '' @ spaced_lower cls, at_negative_class = Some cls\<rparr>"

definition ZAP_ACTIVE_TARGETS :: "active_target list" where
  "ZAP_ACTIVE_TARGETS =
    [active_acceptance ''vulnerable'', active_acceptance ''patched'',
     active_negative ''state-changing'' ACTIVE_MAIN_SOURCE ''labZapActiveAdminPurge'' ''STATE_CHANGING_OPERATION'',
     active_negative ''alternate-server'' ''negative-active-alternate-server.json''
       ''labZapActiveVulnerableSearch'' ''ALTERNATE_SERVER'',
     active_negative ''external-ref'' ''negative-active-external-ref.json''
       ''labZapActiveVulnerableSearch'' ''EXTERNAL_REFERENCE'']"

section \<open>The projection\<close>

definition ACTIVE_VERSION :: string where "ACTIVE_VERSION = ''1.5.0''"
definition MAX_QUERY_VALUE :: int where "MAX_QUERY_VALUE = 32"
definition EXAMPLE_QUERY_VALUE :: string where "EXAMPLE_QUERY_VALUE = ''aegis-probe''"

definition is_slug_char :: "char \<Rightarrow> bool" where
  "is_slug_char c \<longleftrightarrow> is_lower c \<or> is_digit c \<or> c = CHR ''-''"

definition SLUG :: rx where "SLUG = R_Seq (R_ascii is_lower) (R_count 0 30 (R_ascii is_slug_char))"

definition ACTIVE_PATH :: rx where
  "ACTIVE_PATH = R_seqs [R_text ''/lab/zap-active/'', SLUG, R_text ''/'', SLUG]"

definition PARAM_NAME :: rx where
  "PARAM_NAME = R_Seq (R_ascii is_lower) (R_count 0 31 (R_ascii (\<lambda>c. is_lower c \<or> is_digit c \<or> c = CHR ''_'')))"

record active_result =
  ar_target_ref :: string
  ar_origin :: string
  ar_source_name :: string
  ar_source_sha256 :: string
  ar_path :: points
  ar_operation_id :: string
  ar_query_param :: string
  ar_document :: string
  ar_digest :: string
  ar_allowlist_digest :: string
  ar_removed :: nat

definition active_allowlist_digest :: "points list \<Rightarrow> string" where
  "active_allowlist_digest row = hexdigest (canonical_json (JArr [JArr (map JStr row)]))"

text \<open>This \<open>_resolve_parameter\<close> checks the types on the way to the components.\<close>

definition resolve_active :: "(points \<times> json) list \<Rightarrow> json \<Rightarrow> (points \<times> json) list projected" where
  "resolve_active doc item =
     (case item of
        JObj kvs \<Rightarrow>
          (case get_field kvs ''$ref'' of
             JNull \<Rightarrow> Inr kvs
           | JStr ref \<Rightarrow>
               unless (\<not> points_start PARAMETER_PREFIX ref \<or> length kvs \<noteq> 1) SOURCE_MALFORMED
                (let components = get_field doc ''components'';
                     params = (case components of JObj c \<Rightarrow> get_field c ''parameters'' | _ \<Rightarrow> JNull);
                     target = (case params of JObj ps \<Rightarrow>
                         (case map_of ps (drop (length PARAMETER_PREFIX) ref) of None \<Rightarrow> JNull | Some v \<Rightarrow> v)
                       | _ \<Rightarrow> JNull) in
                 case target of
                   JObj t \<Rightarrow> unless (has_key t ''$ref'') SOURCE_MALFORMED (Inr t)
                 | _ \<Rightarrow> refuse SOURCE_MALFORMED)
           | _ \<Rightarrow> refuse SOURCE_MALFORMED)
      | _ \<Rightarrow> refuse SOURCE_MALFORMED)"

text \<open>The search for the approved operation: the last one with its id, and how many there are.\<close>

record found_operation =
  fo_template :: points
  fo_method :: points
  fo_item :: "(points \<times> json) list"
  fo_operation :: "(points \<times> json) list"

type_synonym search_state = "found_operation option \<times> nat"

definition visit_operation ::
  "(points \<Rightarrow> points) \<Rightarrow> string \<Rightarrow> points \<Rightarrow> (points \<times> json) list \<Rightarrow> points \<Rightarrow> json \<Rightarrow> search_state \<Rightarrow> search_state projected" where
  "visit_operation lower wanted template item key operation st =
     (if skipped_field key then Inr st
      else if key \<noteq> lower key then refuse CUSTOM_METHOD
      else case operation of
        JObj op \<Rightarrow>
          (case get_field op ''operationId'' of
             JStr i \<Rightarrow>
               unless (\<not> fullmatch OPERATION_ID i) SOURCE_MALFORMED
                 (Inr (if i = points_of wanted
                   then Some \<lparr>fo_template = template, fo_method = lower key, fo_item = item, fo_operation = op\<rparr>
                   else fst st, snd st + 1))
           | _ \<Rightarrow> refuse SOURCE_MALFORMED)
      | _ \<Rightarrow> refuse CUSTOM_METHOD)"

fun visit_item ::
  "(points \<Rightarrow> points) \<Rightarrow> string \<Rightarrow> points \<Rightarrow> (points \<times> json) list \<Rightarrow> (points \<times> json) list \<Rightarrow> search_state \<Rightarrow> search_state projected" where
  "visit_item lower wanted template item [] st = Inr st"
| "visit_item lower wanted template item ((key, operation) # rest) st =
     andThen (visit_operation lower wanted template item key operation st)
       (visit_item lower wanted template item rest)"

fun visit_paths ::
  "(points \<Rightarrow> points) \<Rightarrow> string \<Rightarrow> (points \<times> json) list \<Rightarrow> search_state \<Rightarrow> search_state projected" where
  "visit_paths lower wanted [] st = Inr st"
| "visit_paths lower wanted ((template, item) # rest) st =
     (case item of
        JObj kvs \<Rightarrow> unless (has_key kvs ''$ref'') PATH_ITEM_REFERENCE
          (andThen (visit_item lower wanted template kvs kvs st) (visit_paths lower wanted rest))
      | _ \<Rightarrow> refuse SOURCE_MALFORMED)"

definition parameter_list :: "json \<Rightarrow> json list projected" where
  "parameter_list v = (case v of JNull \<Rightarrow> Inr [] | JArr xs \<Rightarrow> Inr xs | _ \<Rightarrow> refuse SOURCE_MALFORMED)"

fun query_names :: "(points \<times> json) list \<Rightarrow> json list \<Rightarrow> points list projected" where
  "query_names doc [] = Inr []"
| "query_names doc (raw # rest) =
     andThen (resolve_active doc raw) (\<lambda>param.
       case (get_field param ''name'', location_of param) of
         (JStr name, Some location) \<Rightarrow>
           unless (location \<noteq> ''query'' \<or> \<not> fullmatch PARAM_NAME name) UNAPPROVED_PARAMETER
             (andThen (query_names doc rest) (\<lambda>ns. Inr (name # ns)))
       | (JStr name, None) \<Rightarrow>
           if unhashable (get_field param ''in'') then Inl (Projection_Raised ''TypeError'') else refuse SOURCE_MALFORMED
       | _ \<Rightarrow> refuse SOURCE_MALFORMED)"

definition active_document :: "active_target \<Rightarrow> points \<Rightarrow> json" where
  "active_document t template =
     obj [(''openapi'', str_value ''3.0.3''),
       (''info'', obj [(''title'', str_value ''Aegis projected active surface''), (''version'', str_value ACTIVE_VERSION)]),
       (''servers'', JArr [obj [(''url'', str_value (at_origin t))]]),
       (''paths'', JObj [(template, obj [(''get'', obj
         [(''operationId'', str_value (at_operation_id t)),
          (''parameters'', JArr [obj
             [(''name'', str_value (at_query_param t)), (''in'', str_value ''query''), (''required'', JBool True),
              (''schema'', obj [(''type'', str_value ''string''), (''maxLength'', JInt MAX_QUERY_VALUE)]),
              (''example'', str_value EXAMPLE_QUERY_VALUE)]]),
          (''responses'', obj [(''200'', obj [(''description'', str_value ''Synthetic response'')])])])])])]"

definition find_active ::
  "(nat \<Rightarrow> bool) \<Rightarrow> (points \<Rightarrow> points) \<Rightarrow> active_target \<Rightarrow> (points \<times> json) list \<Rightarrow> search_state projected" where
  "find_active alnum lower t doc =
     unless (\<not> is_version (get_field doc ''openapi'')) UNSUPPORTED_VERSION
      (unless (truthy (get_field doc ''webhooks'')) WEBHOOKS_PRESENT
        (andThen (walk alnum (JObj doc) 0 None 0) (\<lambda>_.
         unless (\<not> origin_ok (at_origin t)) ORIGIN_NOT_APPROVED
          (andThen (check_servers doc (at_origin t)) (\<lambda>_.
           case get_field doc ''paths'' of
             JObj paths \<Rightarrow> unless (paths = []) SOURCE_MALFORMED
               (visit_paths lower (at_operation_id t) paths (None, 0))
           | _ \<Rightarrow> refuse SOURCE_MALFORMED)))))"

definition check_active :: "active_target \<Rightarrow> (points \<times> json) list \<Rightarrow> found_operation \<Rightarrow> points projected" where
  "check_active t doc fo =
     unless (fo_method fo \<in> set (map points_of STATE_CHANGING_METHODS)) STATE_CHANGING_OPERATION
      (unless (fo_method fo \<noteq> points_of ''get'') METHOD_NOT_ALLOWED
        (unless (\<not> fullmatch ACTIVE_PATH (fo_template fo)) UNSAFE_PATH
          (andThen (parameter_list (get_field (fo_item fo) ''parameters'')) (\<lambda>outer.
           andThen (parameter_list (get_field (fo_operation fo) ''parameters'')) (\<lambda>inner.
           andThen (query_names doc (outer @ inner)) (\<lambda>names.
             unless (names \<noteq> [points_of (at_query_param t)]) UNAPPROVED_PARAMETER (Inr (fo_template fo))))))))"

definition project_active ::
  "(nat \<Rightarrow> bool) \<Rightarrow> (points \<Rightarrow> points) \<Rightarrow> active_target \<Rightarrow> string \<Rightarrow> active_result projected" where
  "project_active alnum lower t raw =
     andThen (parse_source raw) (\<lambda>doc.
     andThen (find_active alnum lower t doc) (\<lambda>st.
     case st of
       (None, _) \<Rightarrow> refuse OPERATION_NOT_FOUND
     | (Some fo, n) \<Rightarrow>
         andThen (check_active t doc fo) (\<lambda>template.
         let document = canonical_json (active_document t template) in
         Inr \<lparr>ar_target_ref = at_target_ref t, ar_origin = at_origin t, ar_source_name = at_source t,
           ar_source_sha256 = hexdigest raw, ar_path = template, ar_operation_id = at_operation_id t,
           ar_query_param = at_query_param t, ar_document = document, ar_digest = hexdigest document,
           ar_allowlist_digest = active_allowlist_digest
             [points_of ''GET'', template, points_of (at_operation_id t), points_of (at_query_param t)],
           ar_removed = n - 1\<rparr>)))"

section \<open>Confinement\<close>

lemma active_path:
  assumes "fullmatch ACTIVE_PATH p"
  shows "points_start ''/lab/zap-active/'' p \<and> list_all route_char p"
proof -
  have "p \<in> lang ACTIVE_PATH" using assms by (simp add: fullmatch_iff)
  then obtain rest where p: "p = points_of ''/lab/zap-active/'' @ rest"
    and rest: "rest \<in> lang (R_Seq SLUG (R_Seq (R_text ''/'') SLUG))"
    unfolding ACTIVE_PATH_def R_seqs.simps by (auto simp del: lang.simps simp: lang.simps(5))
  have upto: "rx_chars (R_upto n r) \<subseteq> rx_chars r" for n r by (induction n) auto
  have "n \<in> rx_chars SLUG \<Longrightarrow> route_char n" for n
    using upto [of 30 "R_ascii is_slug_char"]
    by (auto simp: SLUG_def R_count_def R_ascii_def route_char_def is_slug_char_def is_concrete_char_def is_alnum_def)
  with lang_chars [OF rest] have "n \<in> set rest \<Longrightarrow> route_char n" for n
    by (auto simp: R_text_def route_char_def)
  moreover have "list_all route_char (points_of ''/lab/zap-active/'')" by code_simp
  ultimately show ?thesis by (simp add: p points_start_def list_all_iff points_of_def)
qed

text \<open>The operation that the search returns is in the document under the approved id.\<close>

definition found_in :: "string \<Rightarrow> (points \<times> json) list \<Rightarrow> found_operation \<Rightarrow> bool" where
  "found_in wanted paths fo \<longleftrightarrow>
     (fo_template fo, JObj (fo_item fo)) \<in> set paths \<and>
     (\<exists>key. (key, JObj (fo_operation fo)) \<in> set (fo_item fo) \<and> fo_method fo = key) \<and>
     get_field (fo_operation fo) ''operationId'' = JStr (points_of wanted)"

definition all_found :: "string \<Rightarrow> (points \<times> json) list \<Rightarrow> search_state \<Rightarrow> bool" where
  "all_found wanted paths st \<longleftrightarrow> (\<forall>fo. fst st = Some fo \<longrightarrow> found_in wanted paths fo)"

lemma visit_operation_found:
  assumes "visit_operation lower wanted template item key operation st = Inr st'"
    and "all_found wanted paths st"
    and "(template, JObj item) \<in> set paths" and "(key, operation) \<in> set item"
  shows "all_found wanted paths st'"
  using assms by (auto simp: visit_operation_def projected all_found_def found_in_def split: if_splits json.splits)

lemma visit_item_found:
  assumes "visit_item lower wanted template item kvs st = Inr st'"
    and "all_found wanted paths st"
    and "(template, JObj item) \<in> set paths" and "set kvs \<subseteq> set item"
  shows "all_found wanted paths st'"
  using assms
proof (induction kvs arbitrary: st)
  case (Cons kv kvs)
  obtain key operation where kv: "kv = (key, operation)" by fastforce
  with Cons.prems obtain st1 where
      step: "visit_operation lower wanted template item key operation st = Inr st1"
    and rest: "visit_item lower wanted template item kvs st1 = Inr st'"
    by (auto simp: projected)
  have "all_found wanted paths st1"
    by (rule visit_operation_found [OF step Cons.prems(2,3)]) (use Cons.prems(4) kv in simp)
  then show ?case
    by (rule Cons.IH [OF rest _ Cons.prems(3)]) (use Cons.prems(4) in simp)
qed auto

lemma visit_paths_found:
  assumes "visit_paths lower wanted rest st = Inr st'"
    and "all_found wanted paths st" and "set rest \<subseteq> set paths"
  shows "all_found wanted paths st'"
  using assms
proof (induction rest arbitrary: st)
  case (Cons x rest)
  obtain template item where x: "x = (template, item)" by fastforce
  with Cons.prems obtain kvs st1 where kvs: "item = JObj kvs"
    and step: "visit_item lower wanted template kvs kvs st = Inr st1"
    and rest: "visit_paths lower wanted rest st1 = Inr st'"
    by (auto simp: projected split: json.splits)
  have "all_found wanted paths st1"
    by (rule visit_item_found [OF step Cons.prems(2)]) (use Cons.prems(3) x kvs in simp_all)
  then show ?case
    by (rule Cons.IH [OF rest]) (use Cons.prems(3) in simp)
qed auto

lemma find_active_found:
  assumes "find_active alnum lower t doc = Inr (Some fo, n)"
  shows "\<exists>paths. get_field doc ''paths'' = JObj paths \<and> found_in (at_operation_id t) paths fo \<and> origin_ok (at_origin t)"
proof -
  from assms obtain paths where paths: "get_field doc ''paths'' = JObj paths" and origin: "origin_ok (at_origin t)"
    and visit: "visit_paths lower (at_operation_id t) paths (None, 0) = Inr (Some fo, n)"
    by (auto simp: find_active_def projected split: json.splits)
  have "all_found (at_operation_id t) paths (Some fo, n)"
    by (rule visit_paths_found [OF visit]) (simp_all add: all_found_def)
  with paths origin show ?thesis by (simp add: all_found_def)
qed

text \<open>C21: an accepted active projection is one \<open>GET\<close> at the approved origin on a plain path under
  \<open>/lab/zap-active/\<close>, and its query parameter and operation id are those that the inventory approves:
  the document has this operation under the approved id, on this path, and declares for it the
  approved query parameter and nothing else.  What is handed on is built from these values, and
  the rest of the document's operations are counted as removed.\<close>

theorem active_projection_is_confined:
  assumes "project_active alnum lower t raw = Inr r"
  shows "points_start ''/lab/zap-active/'' (ar_path r) \<and> list_all route_char (ar_path r) \<and>
    ar_origin r = at_origin t \<and> origin_ok (at_origin t) \<and>
    ar_query_param r = at_query_param t \<and> ar_operation_id r = at_operation_id t \<and>
    ar_document r = canonical_json (active_document t (ar_path r)) \<and>
    (\<exists>doc paths fo n ps qs.
       parse_source raw = Inr doc \<and> get_field doc ''paths'' = JObj paths \<and>
       find_active alnum lower t doc = Inr (Some fo, n) \<and> ar_removed r = n - 1 \<and>
       fo_template fo = ar_path r \<and> (ar_path r, JObj (fo_item fo)) \<in> set paths \<and>
       (points_of ''get'', JObj (fo_operation fo)) \<in> set (fo_item fo) \<and>
       get_field (fo_operation fo) ''operationId'' = JStr (points_of (at_operation_id t)) \<and>
       parameter_list (get_field (fo_item fo) ''parameters'') = Inr ps \<and>
       parameter_list (get_field (fo_operation fo) ''parameters'') = Inr qs \<and>
       query_names doc (ps @ qs) = Inr [points_of (at_query_param t)])"
proof -
  obtain doc fo n where doc: "parse_source raw = Inr doc"
    and find: "find_active alnum lower t doc = Inr (Some fo, n)"
    and check: "check_active t doc fo = Inr (ar_path r)"
    and r: "ar_origin r = at_origin t" "ar_query_param r = at_query_param t" "ar_operation_id r = at_operation_id t"
      "ar_document r = canonical_json (active_document t (ar_path r))" "ar_removed r = n - 1"
    using assms by (auto simp: project_active_def projected Let_def split: option.splits)
  obtain paths where paths: "get_field doc ''paths'' = JObj paths" and found: "found_in (at_operation_id t) paths fo"
    and origin: "origin_ok (at_origin t)"
    using find_active_found [OF find] by blast
  from check obtain ps qs where fo: "fo_method fo = points_of ''get''" "fo_template fo = ar_path r"
    and path: "fullmatch ACTIVE_PATH (ar_path r)"
    and ps: "parameter_list (get_field (fo_item fo) ''parameters'') = Inr ps"
    and qs: "parameter_list (get_field (fo_operation fo) ''parameters'') = Inr qs"
    and names: "query_names doc (ps @ qs) = Inr [points_of (at_query_param t)]"
    by (auto simp: check_active_def projected)
  show ?thesis
    using active_path [OF path] doc find r paths found origin fo ps qs names
    by (intro conjI) (auto simp: found_in_def)
qed

definition demo_active_source :: string where
  \<open>demo_active_source = ''{"openapi":"3.0.3","paths":{"/lab/zap-active/patched/search":{"get":{"operationId":'' @
     ''"labZapActivePatchedSearch","parameters":[{"name":"q","in":"query"}]}}}}''\<close>

lemma demo_active_runs:
  "succeeds (parse_source demo_active_source) (\<lambda>doc.
     succeeds (find_active (\<lambda>_. False) (\<lambda>k. k) (active_acceptance ''patched'') doc) (\<lambda>st.
       fst st \<noteq> None \<and> succeeds (check_active (active_acceptance ''patched'') doc (the (fst st))) (\<lambda>_. True)))"
  by code_simp

theorem active_projection_is_confined_witness:
  "\<exists>r. project_active (\<lambda>_. False) (\<lambda>k. k) (active_acceptance ''patched'') demo_active_source = Inr r \<and>
     points_start ''/lab/zap-active/'' (ar_path r) \<and> ar_query_param r = ''q''"
proof -
  obtain r where r: "project_active (\<lambda>_. False) (\<lambda>k. k) (active_acceptance ''patched'') demo_active_source = Inr r"
    using demo_active_runs by (auto simp: succeeds_iff project_active_def andThen_def Let_def)
  with active_projection_is_confined [OF r] show ?thesis
    by (intro exI [of _ r]) (simp add: active_acceptance_def QUERY_PARAM_def)
qed

end
