(* ===== verification/Safety.thy ===== *)
theory Safety
  imports Projection_Active
begin

text \<open>
  The authorised lab surface (\<open>aegis/surface.py\<close>), the Nuclei target inventory
  (\<open>aegis_nuclei/targets.py\<close>) and the safety controller (\<open>aegis/safety.py\<close>), the only component
  that approves a request to a target.  The settings it reads are a record; whether a bracketed host
  is an address is the argument \<open>ip\<close>.
\<close>

section \<open>The authorised surface\<close>

datatype variant = Vulnerable | Patched

definition OBJECTS :: "(string \<times> string) list" where
  "OBJECTS = [(''A-100'', ''user-a''), (''B-200'', ''user-b'')]"

definition PROFILE_ACTORS :: "(string \<times> string) list" where
  "PROFILE_ACTORS = [(''user_a'', ''user-a''), (''user_b'', ''user-b'')]"

definition ACCOUNT_ID :: string where "ACCOUNT_ID = ''{account_id}''"

definition account_template :: "variant \<Rightarrow> string" where
  "account_template v = (if v = Patched then ''/api/v1/patched'' else ''/api/v1'') @ ''/accounts/'' @ ACCOUNT_ID"

text \<open>\<open>text.replace(old, new)\<close> for a nonempty \<open>old\<close>.\<close>

function replace_all :: "'a list \<Rightarrow> 'a list \<Rightarrow> 'a list \<Rightarrow> 'a list" where
  "replace_all old new [] = []"
| "replace_all old new (c # cs) =
     (if old \<noteq> [] \<and> take (length old) (c # cs) = old
      then new @ replace_all old new (drop (length old) (c # cs)) else c # replace_all old new cs)"
  by pat_completeness auto
termination
  by (relation "measure (\<lambda>(_, _, s). length s)") (auto simp: neq_Nil_conv)

definition object_path :: "variant \<Rightarrow> string \<Rightarrow> string" where
  "object_path v oid = replace_all ACCOUNT_ID oid (account_template v)"

definition object_paths :: "variant \<Rightarrow> string list" where
  "object_paths v = map (object_path v \<circ> fst) OBJECTS"

definition compact_surface :: "(points \<times> json) list \<Rightarrow> variant \<Rightarrow> json option" where
  "compact_surface spec v =
     (case (case field spec ''paths'' of None \<Rightarrow> JObj [] | Some p \<Rightarrow> p) of
        JObj paths \<Rightarrow>
          (case field paths (account_template v) of
             Some (JObj item) \<Rightarrow>
               if has_key item ''get'' then
                 Some (obj
                   [(''paths'', obj [(account_template v, obj [(''get'', obj [(''path_parameter'', str_value ''account_id'')])])]),
                    (''available_credentials'', JArr (map str_value [''anonymous'', ''user_a'', ''user_b''])),
                    (''known_test_objects'', obj [(''user_a'', JArr [str_value ''A-100'']), (''user_b'', JArr [str_value ''B-200''])])])
               else None
           | _ \<Rightarrow> None)
      | _ \<Rightarrow> None)"

record nuclei_target =
  nt_target_ref :: string
  nt_origin :: string
  nt_base_path :: string
  nt_variant :: string
  nt_operation_id :: string

definition NUCLEI_TARGETS :: "nuclei_target list" where
  "NUCLEI_TARGETS =
    [\<lparr>nt_target_ref = ''synthetic-scm-vulnerable'', nt_origin = LAB_ORIGIN,
      nt_base_path = ''/lab/nuclei/vulnerable'', nt_variant = ''vulnerable'',
      nt_operation_id = ''labScmMetadataVulnerable''\<rparr>,
     \<lparr>nt_target_ref = ''synthetic-scm-patched'', nt_origin = LAB_ORIGIN,
      nt_base_path = ''/lab/nuclei/patched'', nt_variant = ''patched'',
      nt_operation_id = ''labScmMetadataPatched''\<rparr>]"

definition nuclei_target_url :: "nuclei_target \<Rightarrow> string" where
  "nuclei_target_url t = nt_origin t @ nt_base_path t"

text \<open>\<open>origin_parts\<close>; \<open>None\<close> is the \<open>ValueError\<close>.\<close>

definition origin_parts :: "(string \<Rightarrow> bool) \<Rightarrow> string \<Rightarrow> (string \<times> string \<times> nat) option" where
  "origin_parts ip origin =
     (case urlsplit ip origin of
        None \<Rightarrow> None
      | Some u \<Rightarrow>
          if us_scheme u \<notin> {''http'', ''https''} \<or> us_hostname u = [] \<or> us_username u \<noteq> [] \<or>
             us_password u \<noteq> [] \<or> us_path u \<notin> {[], ''/''} \<or> us_query u \<noteq> [] \<or> us_fragment u \<noteq> []
          then None
          else (case us_port u of
             None \<Rightarrow> None
           | Some p \<Rightarrow>
               Some (us_scheme u, lower_latin (us_hostname u),
                 (case p of Some n \<Rightarrow> if n \<noteq> 0 then n else if us_scheme u = ''https'' then 443 else 80
                  | None \<Rightarrow> if us_scheme u = ''https'' then 443 else 80))))"

section \<open>Planned requests\<close>

record planned_request =
  pq_name :: string
  pq_method :: string
  pq_path :: string
  pq_profile :: string
  pq_purpose :: string

definition is_planned_char :: "char \<Rightarrow> bool" where
  "is_planned_char c \<longleftrightarrow> is_alnum c \<or> c \<in> set ''/_{}-''"

text \<open>\<open>PlannedRequest.model_validate\<close>.\<close>

definition planned_ok :: "planned_request \<Rightarrow> bool" where
  "planned_ok r \<longleftrightarrow>
     3 \<le> length (pq_name r) \<and> length (pq_name r) \<le> 100 \<and> pq_method r \<in> {''GET'', ''HEAD'', ''OPTIONS''} \<and>
     take 1 (pq_path r) = ''/'' \<and> tl (pq_path r) \<noteq> [] \<and> list_all is_planned_char (tl (pq_path r)) \<and>
     length (pq_path r) \<le> 200 \<and> \<not> starts_with ''//'' (pq_path r) \<and> CHR ''?'' \<notin> set (pq_path r) \<and>
     CHR ''#'' \<notin> set (pq_path r) \<and> \<not> occurs ''..'' (pq_path r) \<and>
     pq_profile r \<in> {''anonymous'', ''user_a'', ''user_b''} \<and>
     3 \<le> length (pq_purpose r) \<and> length (pq_purpose r) \<le> 300"

record hypothesis =
  hy_id :: string
  hy_title :: string
  hy_category :: string
  hy_requests :: "planned_request list"

section \<open>URLs\<close>

record safety_settings =
  ss_allowed_hosts :: "string list"
  ss_lab_base_url :: string
  ss_lab_openapi_url :: string
  ss_max_requests :: nat

text \<open>A \<open>SafetyViolation\<close> with its message, the \<open>ValueError\<close> of a URL that does not parse, the
  \<open>ValidationError\<close> of a malformed model, a \<open>KeyError\<close>, or what the projection raised.\<close>

datatype approval_error = Safety_Violation string | Bad_Url | Validation_Error | Key_Error
  | Projection_Failed projection_error

type_synonym 'a approval = "approval_error + 'a"

definition violates :: "bool \<Rightarrow> string \<Rightarrow> 'a approval \<Rightarrow> 'a approval" where
  "violates bad msg m = (if bad then Inl (Safety_Violation msg) else m)"

definition from_option :: "'e \<Rightarrow> 'a option \<Rightarrow> 'e + 'a" where
  "from_option e x = (case x of None \<Rightarrow> Inl e | Some a \<Rightarrow> Inr a)"

definition validate_absolute_url :: "(string \<Rightarrow> bool) \<Rightarrow> safety_settings \<Rightarrow> string \<Rightarrow> unit approval" where
  "validate_absolute_url ip s url =
     andThen (from_option Bad_Url (urlsplit ip url)) (\<lambda>u.
     violates (us_scheme u \<notin> {''http'', ''https''}) ''Only HTTP(S) targets are supported''
      (violates (us_username u \<noteq> [] \<or> us_password u \<noteq> [] \<or> us_query u \<noteq> [] \<or> us_fragment u \<noteq> [])
         ''Credentials, query and fragment in URLs are forbidden''
       (violates (lower_latin (us_hostname u) \<notin> set (ss_allowed_hosts s)) ''Host is outside the exact allowlist''
         (andThen (from_option Bad_Url (urlsplit ip (ss_lab_base_url s))) (\<lambda>b.
          andThen (from_option Bad_Url (us_port u)) (\<lambda>p.
          andThen (from_option Bad_Url (us_port b)) (\<lambda>q.
          violates ((us_scheme u, us_hostname u, p) \<noteq> (us_scheme b, us_hostname b, q))
            ''Request escaped the approved target origin'' (Inr ()))))))))"

definition approve_import :: "(string \<Rightarrow> bool) \<Rightarrow> safety_settings \<Rightarrow> string approval" where
  "approve_import ip s =
     (let url = ss_lab_openapi_url s in
      andThen (validate_absolute_url ip s url) (\<lambda>_.
      andThen (from_option Bad_Url (urlsplit ip url)) (\<lambda>u.
      violates (us_path u \<noteq> ''/openapi.json'') ''Only the lab OpenAPI document can be imported'' (Inr url))))"

text \<open>\<open>urljoin(base, ref)\<close> for a base that ends in \<open>/\<close> and a relative reference of plain path
  segments, the only one it is called with: the segments of the base without its empty middle ones,
  dots resolved, and the reference appended.\<close>

definition USES_RELATIVE :: "string list" where
  "USES_RELATIVE = [[], ''ftp'', ''http'', ''gopher'', ''nntp'', ''imap'', ''wais'', ''file'', ''https'',
     ''shttp'', ''mms'', ''prospero'', ''rtsp'', ''rtsps'', ''rtspu'', ''sftp'', ''svn'', ''svn+ssh'', ''ws'', ''wss'']"

fun resolve_dots :: "string list \<Rightarrow> string list \<Rightarrow> string list" where
  "resolve_dots acc [] = rev acc"
| "resolve_dots acc (s # ss) =
     (if s = ''..'' then resolve_dots (tl acc) ss
      else if s = ''.'' then resolve_dots acc ss else resolve_dots (s # acc) ss)"

definition merge_segments :: "string \<Rightarrow> string \<Rightarrow> string list" where
  "merge_segments bpath ref =
     (let base = split_on (CHR ''/'') bpath;
          segs = (if last base \<noteq> [] then butlast base else base) @ split_on (CHR ''/'') ref in
      [hd segs] @ filter (\<lambda>x. x \<noteq> []) (butlast (tl segs)) @ [last segs])"

definition urljoin_plain :: "(string \<Rightarrow> bool) \<Rightarrow> string \<Rightarrow> string \<Rightarrow> string option" where
  "urljoin_plain ip base ref =
     (case urlsplit ip base of
        None \<Rightarrow> None
      | Some b \<Rightarrow>
          if us_scheme b \<notin> set USES_RELATIVE then Some ref
          else
            let path = join_with ''/'' (resolve_dots [] (merge_segments (us_path b) ref)) in
            Some ((if us_scheme b = [] then [] else us_scheme b @ '':'') @
              (if us_netloc b = [] \<and> us_scheme b = [] then path
               else ''//'' @ us_netloc b @ (if take 1 path = ''/'' then [] else ''/'') @ path)))"

section \<open>Approvals\<close>

definition approve_request ::
  "(string \<Rightarrow> bool) \<Rightarrow> safety_settings \<Rightarrow> string \<Rightarrow> variant \<Rightarrow> planned_request \<Rightarrow> string approval" where
  "approve_request ip s base v r =
     (if \<not> planned_ok r then Inl Validation_Error
      else violates (pq_method r \<notin> {''GET'', ''HEAD'', ''OPTIONS''}) ''State-changing HTTP methods are forbidden''
       (violates (pq_path r \<notin> set (object_paths v)) ''Request is outside the authorized synthetic object surface''
         (andThen (from_option Bad_Url (urljoin_plain ip (rstrip (CHR ''/'') base @ ''/'')
             (dropWhile (\<lambda>c. c = CHR ''/'') (pq_path r)))) (\<lambda>url.
          andThen (validate_absolute_url ip s url) (\<lambda>_. Inr url)))))"

fun approve_each ::
  "(string \<Rightarrow> bool) \<Rightarrow> safety_settings \<Rightarrow> string \<Rightarrow> variant \<Rightarrow> planned_request list \<Rightarrow> string list approval" where
  "approve_each ip s base v [] = Inr []"
| "approve_each ip s base v (r # rs) =
     andThen (approve_request ip s base v r) (\<lambda>_.
     andThen (approve_each ip s base v rs) (\<lambda>events.
       Inr ((''APPROVED '' @ pq_method r @ '' '' @ pq_path r @ '' as '' @ pq_profile r) # events)))"

definition approve_plan ::
  "(string \<Rightarrow> bool) \<Rightarrow> safety_settings \<Rightarrow> string \<Rightarrow> hypothesis list \<Rightarrow> variant \<Rightarrow> nat \<Rightarrow> string list \<Rightarrow>
   string list option \<Rightarrow> string list approval" where
  "approve_plan ip s base hs v used_requests used_names imported =
     andThen (validate_absolute_url ip s base) (\<lambda>_.
     let requests = concat (map hy_requests hs); names = map pq_name requests in
     violates (ss_max_requests s < length requests + used_requests) ''Planner exceeded the per-scan request budget''
      (violates (\<not> distinct names \<or> set used_names \<inter> set names \<noteq> {}) ''Request names must be unique across the scan''
        (violates (case imported of None \<Rightarrow> False | Some ps \<Rightarrow> account_template v \<notin> set ps)
           ''Request is not present in the imported surface''
          (approve_each ip s base v requests))))"

definition same_origin :: "string \<Rightarrow> string \<Rightarrow> bool" where
  "same_origin a b \<longleftrightarrow> rstrip (CHR ''/'') a = rstrip (CHR ''/'') b"

definition approve_fixed ::
  "(string \<Rightarrow> bool) \<Rightarrow> safety_settings \<Rightarrow> string \<Rightarrow> string list \<Rightarrow> string \<Rightarrow> string \<Rightarrow> string approval" where
  "approve_fixed ip s msg permitted base path =
     violates (path \<notin> set permitted) msg
      (let url = rstrip (CHR ''/'') base @ path in
       andThen (validate_absolute_url ip s url) (\<lambda>_. Inr url))"

definition approve_scm_verification ::
  "(string \<Rightarrow> bool) \<Rightarrow> safety_settings \<Rightarrow> string \<Rightarrow> string \<Rightarrow> string approval" where
  "approve_scm_verification ip s base path =
     approve_fixed ip s ''Verifier request is outside the fixed synthetic SCM surface''
       (concat (map (\<lambda>t. [nt_base_path t, nt_base_path t @ ''/.git/config''])
          (filter (\<lambda>t. same_origin (nt_origin t) base) NUCLEI_TARGETS))) base path"

text \<open>The projected paths are ASCII.\<close>

definition ascii_text :: "points \<Rightarrow> string" where
  "ascii_text p = map char_of p"

fun permitted_zap ::
  "(nat \<Rightarrow> bool) \<Rightarrow> (string \<Rightarrow> string option) \<Rightarrow> string \<Rightarrow> zap_target list \<Rightarrow> string list approval" where
  "permitted_zap alnum files base [] = Inr []"
| "permitted_zap alnum files base (t # ts) =
     (if zt_purpose t = ACCEPTANCE \<and> same_origin (zt_origin t) base then
        (case project_target alnum files t of
           Inl e \<Rightarrow> Inl (Projection_Failed e)
         | Inr r \<Rightarrow> andThen (permitted_zap alnum files base ts) (\<lambda>rest.
             Inr (map (ascii_text \<circ> po_path) (filter (\<lambda>p. po_method p = ''GET'' \<and>
               Some (po_id p) \<in> {map_option points_of (zt_control t), map_option points_of (zt_scenario t)})
                 (pr_operations r)) @ rest)))
      else permitted_zap alnum files base ts)"

definition approve_zap_verification ::
  "(string \<Rightarrow> bool) \<Rightarrow> (nat \<Rightarrow> bool) \<Rightarrow> (string \<Rightarrow> string option) \<Rightarrow> safety_settings \<Rightarrow> string \<Rightarrow> string \<Rightarrow> string approval" where
  "approve_zap_verification ip alnum files s base path =
     andThen (permitted_zap alnum files base ZAP_TARGETS) (\<lambda>permitted.
     approve_fixed ip s ''Verifier request is outside the fixed synthetic ZAP surface'' permitted base path)"

definition approve_zap_active_verification ::
  "(string \<Rightarrow> bool) \<Rightarrow> safety_settings \<Rightarrow> string \<Rightarrow> string \<Rightarrow> string approval" where
  "approve_zap_active_verification ip s base path =
     approve_fixed ip s ''Verifier request is outside the fixed synthetic active surface''
       (map search_path (filter (\<lambda>t. at_purpose t = ACCEPTANCE \<and> same_origin (at_origin t) base) ZAP_ACTIVE_TARGETS))
       base path"

end
