(* ===== verification/Probe_Verifiers.thy ===== *)
theory Probe_Verifiers
  imports Safety
begin

text \<open>
  The three deterministic verifiers that send their own requests: the missing anti-sniffing header
  (\<open>aegis/zap_verifier.py\<close>), exposed source-control metadata (\<open>aegis/scm_verifier.py\<close>) and reflected
  scripts (\<open>aegis/zap_active_verifier.py\<close>).  Each plans a control and a probe, sends both through the
  safety controller, keeps typed facts and evaluates them.  The target is the argument \<open>http\<close>: its
  answer to the n-th request of a collection, \<open>None\<close> for an \<open>httpx.HTTPError\<close>.
\<close>

section \<open>Requests and replies\<close>

record reply =
  rp_status :: int
  rp_headers :: "(string \<times> points) list"
  rp_body :: string

text \<open>A URL and the query parameters handed to the client with it.\<close>

type_synonym sent_request = "string \<times> (string \<times> string) list"

type_synonym server = "nat \<Rightarrow> sent_request \<Rightarrow> reply option"

text \<open>\<open>bounded_body\<close>: a body over the limit raises \<open>ValueError\<close>, which every caller handles like a
  transport error.\<close>

definition within :: "nat \<Rightarrow> reply option \<Rightarrow> reply option" where
  "within limit r = (case r of None \<Rightarrow> None | Some p \<Rightarrow> if limit < length (rp_body p) then None else Some p)"

definition header_values :: "string \<Rightarrow> reply \<Rightarrow> points list" where
  "header_values name r = map snd (filter (\<lambda>h. lower_latin (fst h) = name) (rp_headers r))"

text \<open>\<open>headers.get\<close>: \<open>None\<close>, or all values joined with a comma.\<close>

fun join_points :: "points list \<Rightarrow> points" where
  "join_points [] = []"
| "join_points [p] = p"
| "join_points (p # ps) = p @ points_of '', '' @ join_points ps"

definition content_type :: "reply \<Rightarrow> points" where
  "content_type r = join_points (header_values ''content-type'' r)"

datatype content_class = C_JSON | C_TEXT_PLAIN | C_HTML | C_OTHER | C_NONE

definition content_class_of :: "points \<Rightarrow> content_class" where
  "content_class_of ct =
     (let v = lower_points (strip_points (takeWhile (\<lambda>n. n \<noteq> of_char (CHR '';'')) ct)) in
      if v = points_of ''application/json'' then C_JSON
      else if v = points_of ''text/plain'' then C_TEXT_PLAIN
      else if v = points_of ''text/html'' then C_HTML
      else if v \<noteq> [] then C_OTHER else C_NONE)"

text \<open>\<open>json.loads(body.decode("utf-8"))\<close>, with \<open>None\<close> for both errors.\<close>

definition json_body :: "string \<Rightarrow> json option" where
  "json_body b = (case decode_utf8 b of None \<Rightarrow> None | Some _ \<Rightarrow> (case loads_plain b of Inl _ \<Rightarrow> None | Inr v \<Rightarrow> Some v))"

text \<open>The common loop of the three \<open>collect\<close> functions: approve, send, keep the facts, with
  everything that was sent.  Facts that their model refuses raise.\<close>

fun run_probes ::
  "server \<Rightarrow> ('p \<Rightarrow> string approval) \<Rightarrow> ('p \<Rightarrow> (string \<times> string) list) \<Rightarrow> ('p \<Rightarrow> reply option \<Rightarrow> 'f option) \<Rightarrow>
   nat \<Rightarrow> 'p list \<Rightarrow> sent_request list \<times> 'f list approval" where
  "run_probes http approve params observe n [] = ([], Inr [])"
| "run_probes http approve params observe n (p # ps) =
     (case approve p of
        Inl e \<Rightarrow> ([], Inl e)
      | Inr url \<Rightarrow>
          (case observe p (http n (url, params p)) of
             None \<Rightarrow> ([(url, params p)], Inl Validation_Error)
           | Some f \<Rightarrow>
               (case run_probes http approve params observe (n + 1) ps of (sent, r) \<Rightarrow>
                  ((url, params p) # sent, map_sum id (Cons f) r))))"

datatype verdict_status = CONFIRMED | PASS | INSUFFICIENT

record verification =
  vf_status :: verdict_status
  vf_marker :: string
  vf_evidence :: "string list"

datatype probe_role = BASE_CONTROL | HEADER_PROBE | METADATA_PROBE | XSS_PROBE

definition checked :: "('f \<Rightarrow> bool) \<Rightarrow> 'f \<Rightarrow> 'f option" where
  "checked ok f = (if ok f then Some f else None)"

definition sha_field_ok :: "string option \<Rightarrow> bool" where
  "sha_field_ok d \<longleftrightarrow> (case d of None \<Rightarrow> True | Some h \<Rightarrow> pat [] is_hex 64 64 h)"

definition is_redirect :: "int \<Rightarrow> bool" where
  "is_redirect status \<longleftrightarrow> 300 \<le> status \<and> status < 400"

section \<open>The anti-sniffing header\<close>

definition HEADER_MAX_BYTES :: nat where "HEADER_MAX_BYTES = 4096"

datatype header_state = PRESENT_NOSNIFF | H_ABSENT | H_INVALID | H_NOT_OBSERVED

record header_facts =
  hf_name :: string
  hf_role :: probe_role
  hf_path :: string
  hf_status :: "int option"
  hf_class :: content_class
  hf_body_bytes :: nat
  hf_body_sha256 :: "string option"
  hf_marker_ok :: bool
  hf_nosniff :: header_state
  hf_redirect :: bool
  hf_transport_error :: bool

definition header_facts_ok :: "header_facts \<Rightarrow> bool" where
  "header_facts_ok f \<longleftrightarrow> length (hf_name f) \<le> 100 \<and> length (hf_path f) \<le> 200 \<and> sha_field_ok (hf_body_sha256 f)"

definition header_state_of :: "points list \<Rightarrow> header_state" where
  "header_state_of vs =
     (if vs = [] then H_ABSENT
      else if length vs = 1 \<and> lower_points (strip_points (hd vs)) = points_of ''nosniff'' then PRESENT_NOSNIFF
      else H_INVALID)"

type_synonym zap_probe = "string \<times> probe_role \<times> string"

definition header_plan ::
  "(nat \<Rightarrow> bool) \<Rightarrow> (string \<Rightarrow> string option) \<Rightarrow> zap_target \<Rightarrow> string \<Rightarrow> zap_probe list approval" where
  "header_plan alnum files t scan_id =
     (case (zt_purpose t, zt_control t, zt_scenario t) of
        (ACCEPTANCE, Some c, Some s) \<Rightarrow>
          if c = [] \<or> s = [] then Inr []
          else (case project_target alnum files t of
             Inl e \<Rightarrow> Inl (Projection_Failed e)
           | Inr r \<Rightarrow>
               let by_id = map (\<lambda>p. (po_id p, ascii_text (po_path p))) (rev (pr_operations r)) in
               andThen (from_option Key_Error (map_of by_id (points_of c))) (\<lambda>cp.
               andThen (from_option Key_Error (map_of by_id (points_of s))) (\<lambda>sp.
               Inr [(scan_id @ ''-verify-control'', BASE_CONTROL, cp), (scan_id @ ''-verify-header'', HEADER_PROBE, sp)])))
      | _ \<Rightarrow> Inr [])"

definition header_marker :: "zap_target \<Rightarrow> probe_role \<Rightarrow> json \<Rightarrow> bool" where
  "header_marker t role payload \<longleftrightarrow>
     equals_dict
       ([(''lab'', equals_text ''zap-passive-header''), (''variant'', equals_text (zt_variant t)),
         (''route'', equals_text (if role = BASE_CONTROL then ''status'' else ''catalog'')),
         (''synthetic'', equals_true)] @
        (if role = HEADER_PROBE then [(''catalog_id'', \<lambda>v. v = opt_value (path_value t ''catalog_id''))] else []))
       payload"

definition header_fact :: "zap_target \<Rightarrow> zap_probe \<Rightarrow> reply option \<Rightarrow> header_facts option" where
  "header_fact t p answer =
     (case p of (name, role, path) \<Rightarrow>
      checked header_facts_ok
       (case within (HEADER_MAX_BYTES + 1) answer of
          None \<Rightarrow> \<lparr>hf_name = name, hf_role = role, hf_path = path, hf_status = None, hf_class = C_NONE,
            hf_body_bytes = 0, hf_body_sha256 = None, hf_marker_ok = False, hf_nosniff = H_NOT_OBSERVED,
            hf_redirect = False, hf_transport_error = True\<rparr>
        | Some r \<Rightarrow>
            let cls = content_class_of (content_type r);
                payload = (if cls = C_JSON then json_body (rp_body r) else None) in
            \<lparr>hf_name = name, hf_role = role, hf_path = path, hf_status = Some (rp_status r), hf_class = cls,
             hf_body_bytes = length (rp_body r), hf_body_sha256 = Some (hexdigest (rp_body r)),
             hf_marker_ok = (rp_status r = 200 \<and> length (rp_body r) \<le> HEADER_MAX_BYTES \<and>
               (case payload of None \<Rightarrow> False | Some v \<Rightarrow> header_marker t role v)),
             hf_nosniff = header_state_of (header_values ''x-content-type-options'' r),
             hf_redirect = is_redirect (rp_status r), hf_transport_error = False\<rparr>))"

definition collect_header ::
  "(string \<Rightarrow> bool) \<Rightarrow> (nat \<Rightarrow> bool) \<Rightarrow> (string \<Rightarrow> string option) \<Rightarrow> safety_settings \<Rightarrow> server \<Rightarrow> zap_target \<Rightarrow> string \<Rightarrow>
   sent_request list \<times> header_facts list approval" where
  "collect_header ip alnum files s http t scan_id =
     (case header_plan alnum files t scan_id of
        Inl e \<Rightarrow> ([], Inl e)
      | Inr plan \<Rightarrow>
          run_probes http (\<lambda>p. approve_zap_verification ip alnum files s (zt_origin t) (snd (snd p)))
            (\<lambda>p. []) (header_fact t) 0 plan)"

definition evaluate_header :: "header_facts list \<Rightarrow> verification" where
  "evaluate_header facts =
     (case (find (\<lambda>f. hf_role f = BASE_CONTROL) facts, find (\<lambda>f. hf_role f = HEADER_PROBE) facts) of
        (Some control, Some probe) \<Rightarrow>
          if length facts \<noteq> 2 \<or> hf_transport_error control \<or> hf_transport_error probe \<or>
             hf_redirect control \<or> hf_redirect probe \<or> \<not> hf_marker_ok control \<or>
             hf_nosniff control \<noteq> PRESENT_NOSNIFF \<or> \<not> hf_marker_ok probe \<or> hf_class probe \<noteq> C_JSON
          then \<lparr>vf_status = INSUFFICIENT, vf_marker = [], vf_evidence = []\<rparr>
          else if hf_nosniff probe = H_ABSENT then
            \<lparr>vf_status = CONFIRMED, vf_marker = [], vf_evidence = [hf_name control, hf_name probe]\<rparr>
          else if hf_nosniff probe = PRESENT_NOSNIFF then
            \<lparr>vf_status = PASS, vf_marker = [], vf_evidence = [hf_name control, hf_name probe]\<rparr>
          else \<lparr>vf_status = INSUFFICIENT, vf_marker = [], vf_evidence = []\<rparr>
      | _ \<Rightarrow> \<lparr>vf_status = INSUFFICIENT, vf_marker = [], vf_evidence = []\<rparr>)"

section \<open>Source-control metadata\<close>

definition SCM_MAX_BYTES :: nat where "SCM_MAX_BYTES = 4096"

record scm_facts =
  sf_name :: string
  sf_role :: probe_role
  sf_path :: string
  sf_status :: "int option"
  sf_class :: content_class
  sf_body_bytes :: nat
  sf_body_sha256 :: "string option"
  sf_marker_ok :: bool
  sf_git_config :: bool
  sf_denial :: bool
  sf_transport_error :: bool

definition scm_facts_ok :: "scm_facts \<Rightarrow> bool" where
  "scm_facts_ok f \<longleftrightarrow> length (sf_name f) \<le> 100 \<and> length (sf_path f) \<le> 200 \<and> sha_field_ok (sf_body_sha256 f)"

definition REPO_FORMAT :: rx where
  "REPO_FORMAT = R_seqs [R_Star (R_Cls uni_space), R_text ''repositoryformatversion'', R_Star (R_Cls uni_space),
     R_text ''='', R_Star (R_Cls uni_space), R_plus (R_ascii is_digit), R_Star (R_Cls uni_space)]"

text \<open>The loop over the lines: the section, the first section, and whether the format was declared.
  \<open>None\<close> is a key outside any section.\<close>

fun git_config_lines :: "points option \<Rightarrow> points option \<Rightarrow> bool \<Rightarrow> points list \<Rightarrow> (points option \<times> bool) option" where
  "git_config_lines section first declared [] = Some (first, declared)"
| "git_config_lines section first declared (line # rest) =
     (let stripped = strip_points line in
      if stripped = [] \<or> hd stripped \<in> {of_char (CHR ''#''), of_char (CHR '';'')}
      then git_config_lines section first declared rest
      else if hd stripped = of_char (CHR ''['') \<and> last stripped = of_char (CHR '']'')
      then git_config_lines (Some stripped) (if first = None then Some stripped else first) declared rest
      else if section = None then None
      else git_config_lines section first
        (declared \<or> section = Some (points_of ''[core]'') \<and> fullmatch REPO_FORMAT stripped) rest)"

definition has_git_config :: "string \<Rightarrow> bool" where
  "has_git_config body \<longleftrightarrow> body \<noteq> [] \<and> length body \<le> SCM_MAX_BYTES \<and>
     (case decode_utf8 body of
        None \<Rightarrow> False
      | Some txt \<Rightarrow>
          \<not> occurs (points_of ''<html'') (lower_points txt) \<and> \<not> occurs (points_of ''<body'') (lower_points txt) \<and>
          (case git_config_lines None None False (splitlines txt) of
             None \<Rightarrow> False
           | Some (first, declared) \<Rightarrow> first = Some (points_of ''[core]'') \<and> declared))"

definition scm_plan :: "nuclei_target \<Rightarrow> string \<Rightarrow> zap_probe list" where
  "scm_plan t scan_id =
     [(scan_id @ ''-verify-base'', BASE_CONTROL, nt_base_path t),
      (scan_id @ ''-verify-metadata'', METADATA_PROBE, nt_base_path t @ ''/.git/config'')]"

definition scm_fact :: "nuclei_target \<Rightarrow> zap_probe \<Rightarrow> reply option \<Rightarrow> scm_facts option" where
  "scm_fact t p answer =
     (case p of (name, role, path) \<Rightarrow>
      checked scm_facts_ok
       (case within (SCM_MAX_BYTES + 1) answer of
          None \<Rightarrow> \<lparr>sf_name = name, sf_role = role, sf_path = path, sf_status = None, sf_class = C_NONE,
            sf_body_bytes = 0, sf_body_sha256 = None, sf_marker_ok = False, sf_git_config = False,
            sf_denial = False, sf_transport_error = True\<rparr>
        | Some r \<Rightarrow>
            let cls = content_class_of (content_type r);
                payload = (if cls = C_JSON then json_body (rp_body r) else None) in
            \<lparr>sf_name = name, sf_role = role, sf_path = path, sf_status = Some (rp_status r), sf_class = cls,
             sf_body_bytes = length (rp_body r), sf_body_sha256 = Some (hexdigest (rp_body r)),
             sf_marker_ok = (role = BASE_CONTROL \<and> rp_status r = 200 \<and>
               (case payload of None \<Rightarrow> False
                | Some v \<Rightarrow> equals_dict [(''lab'', equals_text ''scm-metadata-exposure''),
                    (''variant'', equals_text (nt_variant t)), (''synthetic'', equals_true)] v)),
             sf_git_config = (role = METADATA_PROBE \<and> cls = C_TEXT_PLAIN \<and> has_git_config (rp_body r)),
             sf_denial = (role = METADATA_PROBE \<and> rp_status r = 404 \<and>
               (case payload of None \<Rightarrow> False
                | Some v \<Rightarrow> equals_dict [(''detail'', equals_text ''Repository metadata is not served'')] v)),
             sf_transport_error = False\<rparr>))"

definition collect_scm ::
  "(string \<Rightarrow> bool) \<Rightarrow> safety_settings \<Rightarrow> server \<Rightarrow> nuclei_target \<Rightarrow> string \<Rightarrow> sent_request list \<times> scm_facts list approval" where
  "collect_scm ip s http t scan_id =
     run_probes http (\<lambda>p. approve_scm_verification ip s (nt_origin t) (snd (snd p))) (\<lambda>p. []) (scm_fact t) 0
       (scm_plan t scan_id)"

definition evaluate_scm :: "scm_facts list \<Rightarrow> verification" where
  "evaluate_scm facts =
     (case (find (\<lambda>f. sf_role f = BASE_CONTROL) facts, find (\<lambda>f. sf_role f = METADATA_PROBE) facts) of
        (Some base, Some probe) \<Rightarrow>
          if length facts \<noteq> 2 \<or> sf_transport_error base \<or> sf_transport_error probe \<or> \<not> sf_marker_ok base
          then \<lparr>vf_status = INSUFFICIENT, vf_marker = [], vf_evidence = []\<rparr>
          else if sf_status probe = Some 200 \<and> sf_class probe = C_TEXT_PLAIN \<and> sf_git_config probe \<and>
            sf_body_bytes probe \<le> SCM_MAX_BYTES
          then \<lparr>vf_status = CONFIRMED, vf_marker = [], vf_evidence = [sf_name base, sf_name probe]\<rparr>
          else if sf_status probe = Some 404 \<and> sf_denial probe \<and> \<not> sf_git_config probe
          then \<lparr>vf_status = PASS, vf_marker = [], vf_evidence = [sf_name base, sf_name probe]\<rparr>
          else \<lparr>vf_status = INSUFFICIENT, vf_marker = [], vf_evidence = []\<rparr>
      | _ \<Rightarrow> \<lparr>vf_status = INSUFFICIENT, vf_marker = [], vf_evidence = []\<rparr>)"

section \<open>Reflected scripts\<close>

definition XSS_MAX_BYTES :: nat where "XSS_MAX_BYTES = 16384"

datatype reflection = RAW_EXECUTABLE | ENTITY_ENCODED | R_ABSENT | R_AMBIGUOUS | R_NOT_OBSERVED

record xss_facts =
  xf_name :: string
  xf_role :: probe_role
  xf_path :: string
  xf_marker :: string
  xf_status :: "int option"
  xf_class :: content_class
  xf_body_bytes :: nat
  xf_body_sha256 :: "string option"
  xf_variant_ok :: bool
  xf_reflection :: reflection
  xf_redirect :: bool
  xf_transport_error :: bool

definition xss_facts_ok :: "xss_facts \<Rightarrow> bool" where
  "xss_facts_ok f \<longleftrightarrow> length (xf_name f) \<le> 100 \<and> length (xf_path f) \<le> 200 \<and> length (xf_marker f) \<le> 64 \<and>
     sha_field_ok (xf_body_sha256 f)"

definition fresh_marker :: "string \<Rightarrow> string" where
  "fresh_marker token = ''AEGIS'' @ token"

definition xss_payload :: "string \<Rightarrow> string" where
  "xss_payload marker = ''<script>'' @ marker @ ''</script>''"

definition escape_char :: "char \<Rightarrow> string" where
  "escape_char c = (if c = CHR ''&'' then ''&amp;'' else if c = CHR ''<'' then ''&lt;''
     else if c = CHR ''>'' then ''&gt;'' else if c = CHR 0x22 then ''&quot;''
     else if c = CHR 0x27 then ''&#x27;'' else [c])"

text \<open>\<open>html.escape(text, quote=True)\<close>.\<close>

definition html_escape :: "string \<Rightarrow> string" where
  "html_escape s = concat (map escape_char s)"

definition variant_marker :: "string \<Rightarrow> string" where
  "variant_marker v = ''data-lab='' @ [CHR 0x22] @ ''zap-active-reflected-xss'' @ [CHR 0x22] @
     '' data-variant='' @ [CHR 0x22] @ v @ [CHR 0x22]"

definition classify_reflection :: "points \<Rightarrow> string \<Rightarrow> reflection" where
  "classify_reflection txt marker =
     (if occurs (points_of (xss_payload marker)) txt then RAW_EXECUTABLE
      else if occurs (points_of (html_escape (xss_payload marker))) txt then ENTITY_ENCODED
      else if occurs (points_of marker) txt then R_AMBIGUOUS else R_ABSENT)"

type_synonym xss_probe = "string \<times> probe_role"

definition xss_plan :: "active_target \<Rightarrow> string \<Rightarrow> xss_probe list" where
  "xss_plan t scan_id =
     (if at_purpose t \<noteq> ACCEPTANCE then []
      else [(scan_id @ ''-verify-control'', BASE_CONTROL), (scan_id @ ''-verify-xss'', XSS_PROBE)])"

definition xss_query :: "active_target \<Rightarrow> string \<Rightarrow> xss_probe \<Rightarrow> (string \<times> string) list" where
  "xss_query t marker p =
     [(at_query_param t, if snd p = BASE_CONTROL then ''benign-'' @ marker else xss_payload marker)]"

definition xss_fact :: "active_target \<Rightarrow> string \<Rightarrow> xss_probe \<Rightarrow> reply option \<Rightarrow> xss_facts option" where
  "xss_fact t marker p answer =
     (case p of (name, role) \<Rightarrow>
      checked xss_facts_ok
       (case within (XSS_MAX_BYTES + 1) answer of
          None \<Rightarrow> \<lparr>xf_name = name, xf_role = role, xf_path = search_path t, xf_marker = marker,
            xf_status = None, xf_class = C_NONE, xf_body_bytes = 0, xf_body_sha256 = None,
            xf_variant_ok = False, xf_reflection = R_NOT_OBSERVED, xf_redirect = False, xf_transport_error = True\<rparr>
        | Some r \<Rightarrow>
            let cls = content_class_of (content_type r); oversized = XSS_MAX_BYTES < length (rp_body r);
                txt = (if oversized then [] else decode_replace (rp_body r)) in
            \<lparr>xf_name = name, xf_role = role, xf_path = search_path t, xf_marker = marker,
             xf_status = Some (rp_status r), xf_class = cls, xf_body_bytes = length (rp_body r),
             xf_body_sha256 = Some (hexdigest (rp_body r)),
             xf_variant_ok = (rp_status r = 200 \<and> \<not> oversized \<and> cls = C_HTML \<and>
               occurs (points_of (variant_marker (at_variant t))) txt),
             xf_reflection = (if role = BASE_CONTROL \<or> oversized then R_NOT_OBSERVED else classify_reflection txt marker),
             xf_redirect = is_redirect (rp_status r), xf_transport_error = False\<rparr>))"

definition collect_xss ::
  "(string \<Rightarrow> bool) \<Rightarrow> safety_settings \<Rightarrow> server \<Rightarrow> active_target \<Rightarrow> string \<Rightarrow> string \<Rightarrow> sent_request list \<times> xss_facts list approval" where
  "collect_xss ip s http t scan_id marker =
     run_probes http (\<lambda>p. approve_zap_active_verification ip s (at_origin t) (search_path t)) (xss_query t marker)
       (xss_fact t marker) 0 (xss_plan t scan_id)"

definition evaluate_xss :: "xss_facts list \<Rightarrow> verification" where
  "evaluate_xss facts =
     (let control = find (\<lambda>f. xf_role f = BASE_CONTROL) facts; probe = find (\<lambda>f. xf_role f = XSS_PROBE) facts;
          marker = (case probe of None \<Rightarrow> [] | Some p \<Rightarrow> xf_marker p) in
      case (control, probe) of
        (Some c, Some p) \<Rightarrow>
          if length facts \<noteq> 2 \<or> xf_transport_error c \<or> xf_transport_error p \<or> xf_redirect c \<or> xf_redirect p \<or>
             \<not> xf_variant_ok c \<or> \<not> xf_variant_ok p \<or> xf_marker p \<noteq> xf_marker c \<or> marker = []
          then \<lparr>vf_status = INSUFFICIENT, vf_marker = marker, vf_evidence = []\<rparr>
          else if xf_reflection p = RAW_EXECUTABLE then
            \<lparr>vf_status = CONFIRMED, vf_marker = marker, vf_evidence = [xf_name c, xf_name p]\<rparr>
          else if xf_reflection p = ENTITY_ENCODED then
            \<lparr>vf_status = PASS, vf_marker = marker, vf_evidence = [xf_name c, xf_name p]\<rparr>
          else \<lparr>vf_status = INSUFFICIENT, vf_marker = marker, vf_evidence = []\<rparr>
      | _ \<Rightarrow> \<lparr>vf_status = INSUFFICIENT, vf_marker = marker, vf_evidence = []\<rparr>)"

end
