(* ===== verification/Probe_Props.thy ===== *)
theory Probe_Props
  imports Probe_Verifiers
begin

text \<open>
  What the safety controller and the probing verifiers promise: approved requests stay on the lab
  origin, a verifier sends nothing else, and its verdict is the one its specification gives for the
  two answers it received.
\<close>

section \<open>Approved URLs\<close>

text \<open>A URL on the lab: it parses, its host is allowed, its scheme, host and port are those of the
  configured base URL, and it carries no credentials, query or fragment.\<close>

definition on_lab :: "(string \<Rightarrow> bool) \<Rightarrow> safety_settings \<Rightarrow> string \<Rightarrow> bool" where
  "on_lab ip s url \<longleftrightarrow>
     (\<exists>u b. urlsplit ip url = Some u \<and> urlsplit ip (ss_lab_base_url s) = Some b \<and>
        us_scheme u \<in> {''http'', ''https''} \<and> lower_latin (us_hostname u) \<in> set (ss_allowed_hosts s) \<and>
        us_scheme u = us_scheme b \<and> us_hostname u = us_hostname b \<and> us_port u = us_port b \<and> us_port u \<noteq> None \<and>
        us_username u = [] \<and> us_password u = [] \<and> us_query u = [] \<and> us_fragment u = [])"

lemma violates_Inr [projected]: "violates bad msg m = Inr a \<longleftrightarrow> \<not> bad \<and> m = Inr a"
  by (simp add: violates_def)

lemma from_option_Inr [projected]: "from_option e x = Inr a \<longleftrightarrow> x = Some a"
  by (cases x) (simp_all add: from_option_def)

lemma validate_on_lab: "validate_absolute_url ip s url = Inr x \<Longrightarrow> on_lab ip s url"
  by (auto simp: validate_absolute_url_def on_lab_def projected)

lemma approve_fixed_Inr:
  "approve_fixed ip s msg permitted base path = Inr url \<Longrightarrow>
     on_lab ip s url \<and> path \<in> set permitted \<and> url = rstrip (CHR ''/'') base @ path"
  by (auto simp: approve_fixed_def projected Let_def intro: validate_on_lab)

lemma approve_request_Inr:
  "approve_request ip s base v r = Inr url \<Longrightarrow>
     on_lab ip s url \<and> planned_ok r \<and> pq_path r \<in> set (object_paths v)"
  by (auto simp: approve_request_def projected intro: validate_on_lab split: if_splits)

lemma approve_each_length: "approve_each ip s base v rs = Inr events \<Longrightarrow> length events = length rs"
  by (induction rs arbitrary: events) (auto simp: projected)

lemma approve_each_url:
  "approve_each ip s base v rs = Inr events \<Longrightarrow> r \<in> set rs \<Longrightarrow> \<exists>url. approve_request ip s base v r = Inr url"
  by (induction rs arbitrary: events) (auto simp: projected)

lemma plan_checks:
  assumes "approve_plan ip s base hs v used_requests used_names imported = Inr events"
  shows "approve_each ip s base v (concat (map hy_requests hs)) = Inr events"
    and "length (concat (map hy_requests hs)) + used_requests \<le> ss_max_requests s"
    and "distinct (map pq_name (concat (map hy_requests hs)))"
    and "set used_names \<inter> set (map pq_name (concat (map hy_requests hs))) = {}"
  using assms unfolding approve_plan_def Let_def andThen_Inr violates_Inr not_less by blast+

text \<open>C22: a plan that the safety controller approves stays within the scan's request budget, uses each
  request name once and none used before, and every request in it is a well-formed \<open>GET\<close>, \<open>HEAD\<close> or
  \<open>OPTIONS\<close> of one of the two authorised object paths, whose URL is on the lab.\<close>

theorem approved_plan_is_confined:
  assumes "approve_plan ip s base hs v used_requests used_names imported = Inr events"
  shows "let requests = concat (map hy_requests hs) in
    length events = length requests \<and> length requests + used_requests \<le> ss_max_requests s \<and>
    distinct (map pq_name requests) \<and> set used_names \<inter> set (map pq_name requests) = {} \<and>
    (\<forall>r\<in>set requests. pq_method r \<in> {''GET'', ''HEAD'', ''OPTIONS''} \<and> pq_path r \<in> set (object_paths v) \<and>
       (\<exists>url. approve_request ip s base v r = Inr url \<and> on_lab ip s url))"
proof -
  define rs where "rs = concat (map hy_requests hs)"
  have each: "approve_each ip s base v rs = Inr events"
    and rest: "length rs + used_requests \<le> ss_max_requests s" "distinct (map pq_name rs)"
      "set used_names \<inter> set (map pq_name rs) = {}"
    using plan_checks [OF assms] unfolding rs_def by simp_all
  have "pq_method r \<in> {''GET'', ''HEAD'', ''OPTIONS''} \<and> pq_path r \<in> set (object_paths v) \<and>
      (\<exists>url. approve_request ip s base v r = Inr url \<and> on_lab ip s url)" if "r \<in> set rs" for r
  proof -
    from approve_each_url [OF each that] obtain url where url: "approve_request ip s base v r = Inr url" ..
    have "on_lab ip s url" "planned_ok r" "pq_path r \<in> set (object_paths v)"
      using approve_request_Inr [OF url] by simp_all
    moreover have "pq_method r \<in> {''GET'', ''HEAD'', ''OPTIONS''}"
      using \<open>planned_ok r\<close> unfolding planned_ok_def by (elim conjE)
    ultimately show ?thesis using url by (intro conjI exI)
  qed
  moreover have "length events = length rs" by (rule approve_each_length [OF each])
  ultimately show ?thesis using rest unfolding rs_def [symmetric] Let_def by blast
qed

section \<open>What a collection sends\<close>

lemma run_probes_sent:
  "fst (run_probes http approve params observe n (p # ps)) =
     (case approve p of Inl e \<Rightarrow> []
      | Inr url \<Rightarrow> (url, params p) # (case observe p (http n (url, params p)) of None \<Rightarrow> []
          | Some f \<Rightarrow> fst (run_probes http approve params observe (n + 1) ps)))"
  by (simp split: sum.split option.split prod.split)

text \<open>The interface between the safety controller and a verifier: what is approved is safe.  Every
  collection that sends only what was approved then sends only what is safe, and returns one fact per
  planned probe, about the answer to its own request.\<close>

locale approver =
  fixes approve :: "'p \<Rightarrow> string approval" and safe :: "string \<Rightarrow> bool"
  assumes approved_safe: "approve p = Inr url \<Longrightarrow> safe url"
begin

lemma sent_safe:
  "q \<in> set (fst (run_probes http approve params observe n ps)) \<Longrightarrow> safe (fst q) \<and> snd q \<in> params ` set ps"
proof (induction ps arbitrary: n)
  case (Cons p ps)
  then show ?case
    unfolding run_probes_sent by (auto simp: approved_safe split: sum.splits option.splits)
qed simp

lemma all_sent_safe:
  assumes "\<And>p. p \<in> set ps \<Longrightarrow> ok (params p)"
  shows "list_all (\<lambda>q. safe (fst q) \<and> ok (snd q)) (fst (run_probes http approve params observe n ps))"
  unfolding list_all_iff using assms by (auto dest!: sent_safe)

end

lemma length_sent: "length (fst (run_probes http approve params observe n ps)) \<le> length ps"
proof (induction ps arbitrary: n)
  case (Cons p ps)
  show ?case
    unfolding run_probes_sent using Cons by (auto split: sum.splits option.splits)
qed simp

lemma run_two_probes:
  assumes "run_probes http approve params observe 0 [p, q] = (sent, Inr facts)"
  shows "\<exists>f g. facts = [f, g] \<and> length sent = 2 \<and> observe p (http 0 (sent ! 0)) = Some f \<and>
    observe q (http 1 (sent ! 1)) = Some g"
  using assms by (auto split: sum.splits option.splits prod.splits)

text \<open>The fixed surfaces, read off the inventories: the base path of a template target and its metadata
  file, the control and scenario operations that the projection of a passive acceptance target
  has as \<open>GET\<close>, and the search path of an active acceptance target, each at the target's own
  origin.\<close>

definition on_scm_surface :: "string \<Rightarrow> string \<Rightarrow> bool" where
  "on_scm_surface base url \<longleftrightarrow> (\<exists>t \<in> set NUCLEI_TARGETS. same_origin (nt_origin t) base \<and>
     url \<in> {rstrip (CHR ''/'') base @ nt_base_path t, rstrip (CHR ''/'') base @ nt_base_path t @ ''/.git/config''})"

definition on_zap_surface :: "(nat \<Rightarrow> bool) \<Rightarrow> (string \<Rightarrow> string option) \<Rightarrow> string \<Rightarrow> string \<Rightarrow> bool" where
  "on_zap_surface alnum files base url \<longleftrightarrow> (\<exists>t \<in> set ZAP_TARGETS. \<exists>r p. zt_purpose t = ACCEPTANCE \<and>
     same_origin (zt_origin t) base \<and> project_target alnum files t = Inr r \<and> p \<in> set (pr_operations r) \<and>
     po_method p = ''GET'' \<and> Some (po_id p) \<in> {map_option points_of (zt_control t), map_option points_of (zt_scenario t)} \<and>
     url = rstrip (CHR ''/'') base @ ascii_text (po_path p))"

definition on_active_surface :: "string \<Rightarrow> string \<Rightarrow> bool" where
  "on_active_surface base url \<longleftrightarrow> (\<exists>t \<in> set ZAP_ACTIVE_TARGETS. at_purpose t = ACCEPTANCE \<and>
     same_origin (at_origin t) base \<and> url = rstrip (CHR ''/'') base @ search_path t)"

lemma permitted_zap_on_surface:
  assumes "permitted_zap alnum files base ts = Inr paths" and "path \<in> set paths" and "set ts \<subseteq> set ZAP_TARGETS"
  shows "on_zap_surface alnum files base (rstrip (CHR ''/'') base @ path)"
  using assms
proof (induction ts arbitrary: paths)
  case (Cons t ts)
  show ?case
  proof (cases "zt_purpose t = ACCEPTANCE \<and> same_origin (zt_origin t) base")
    case False
    then show ?thesis using Cons by (auto split: if_splits)
  next
    case True
    with Cons.prems(1) obtain r rest where r: "project_target alnum files t = Inr r"
      and rest: "permitted_zap alnum files base ts = Inr rest"
      and paths: "paths = map (ascii_text \<circ> po_path) (filter (\<lambda>p. po_method p = ''GET'' \<and>
          Some (po_id p) \<in> {map_option points_of (zt_control t), map_option points_of (zt_scenario t)}) (pr_operations r)) @ rest"
      by (auto simp: projected split: sum.splits)
    show ?thesis
    proof (cases "path \<in> set rest")
      case True
      then show ?thesis by (rule Cons.IH [OF rest]) (use Cons.prems(3) in simp)
    next
      case False
      with paths Cons.prems(2) obtain p where "p \<in> set (pr_operations r)" "po_method p = ''GET''"
        "Some (po_id p) \<in> {map_option points_of (zt_control t), map_option points_of (zt_scenario t)}"
        "path = ascii_text (po_path p)"
        by auto
      with True r Cons.prems(3) show ?thesis unfolding on_zap_surface_def
        by (intro bexI [of _ t] exI [of _ r] exI [of _ p]) simp_all
    qed
  qed
qed simp

interpretation header_probes: approver "\<lambda>p :: zap_probe. approve_zap_verification ip alnum files s base (snd (snd p))"
    "\<lambda>url. on_lab ip s url \<and> on_zap_surface alnum files base url" for ip alnum files s base
  by unfold_locales
     (auto simp: approve_zap_verification_def projected dest!: approve_fixed_Inr intro: permitted_zap_on_surface)

interpretation scm_probes: approver "\<lambda>p :: zap_probe. approve_scm_verification ip s base (snd (snd p))"
    "\<lambda>url. on_lab ip s url \<and> on_scm_surface base url" for ip s base
  by unfold_locales (auto simp: approve_scm_verification_def on_scm_surface_def dest!: approve_fixed_Inr)

interpretation xss_probes: approver "\<lambda>p :: xss_probe. approve_zap_active_verification ip s base path"
    "\<lambda>url. on_lab ip s url \<and> on_active_surface base url" for ip s base path
  by unfold_locales (auto simp: approve_zap_active_verification_def on_active_surface_def dest!: approve_fixed_Inr)

lemma header_sent:
  "list_all (\<lambda>q. (on_lab ip s (fst q) \<and> on_zap_surface alnum files (zt_origin t) (fst q)) \<and> snd q = [])
     (fst (collect_header ip alnum files s http t scan_id))"
proof (cases "header_plan alnum files t scan_id")
  case (Inl e)
  then show ?thesis by (simp add: collect_header_def)
next
  case (Inr plan)
  then show ?thesis unfolding collect_header_def by (simp only: sum.case) (rule header_probes.all_sent_safe, rule refl)
qed

lemma header_plan_length: "header_plan alnum files t scan_id = Inr plan \<Longrightarrow> length plan \<le> 2"
  by (auto simp: header_plan_def projected Let_def split: purpose.splits option.splits if_splits sum.splits)

lemma header_sent_length: "length (fst (collect_header ip alnum files s http t scan_id)) \<le> 2"
proof (cases "header_plan alnum files t scan_id")
  case (Inl e)
  then show ?thesis by (simp add: collect_header_def)
next
  case (Inr plan)
  then show ?thesis
    unfolding collect_header_def
    by (simp only: sum.case) (rule order_trans [OF length_sent header_plan_length])
qed

text \<open>C23: whatever the target answers, each probing verifier sends at most two requests per
  collection, and every one of them is on the lab and on the fixed surface of its own inventory, at
  the target's origin; the first two send no query at all, the third nothing but the target's query
  parameter, with a harmless value or the payload.\<close>

theorem verifiers_only_contact_the_lab:
  "length (fst (collect_header ip alnum files s http zt scan_id)) \<le> 2 \<and>
   length (fst (collect_scm ip s http nt scan_id)) \<le> 2 \<and>
   length (fst (collect_xss ip s http xt scan_id marker)) \<le> 2 \<and>
   list_all (\<lambda>q. (on_lab ip s (fst q) \<and> on_zap_surface alnum files (zt_origin zt) (fst q)) \<and> snd q = [])
     (fst (collect_header ip alnum files s http zt scan_id)) \<and>
   list_all (\<lambda>q. (on_lab ip s (fst q) \<and> on_scm_surface (nt_origin nt) (fst q)) \<and> snd q = [])
     (fst (collect_scm ip s http nt scan_id)) \<and>
   list_all (\<lambda>q. (on_lab ip s (fst q) \<and> on_active_surface (at_origin xt) (fst q)) \<and>
       snd q \<in> {[(at_query_param xt, ''benign-'' @ marker)], [(at_query_param xt, xss_payload marker)]})
     (fst (collect_xss ip s http xt scan_id marker))"
proof (intro conjI)
  show "length (fst (collect_header ip alnum files s http zt scan_id)) \<le> 2"
    by (rule header_sent_length)
  show "length (fst (collect_scm ip s http nt scan_id)) \<le> 2"
    unfolding collect_scm_def by (rule order_trans [OF length_sent]) (simp add: scm_plan_def)
  show "length (fst (collect_xss ip s http xt scan_id marker)) \<le> 2"
    unfolding collect_xss_def by (rule order_trans [OF length_sent]) (simp add: xss_plan_def)
  show "list_all (\<lambda>q. (on_lab ip s (fst q) \<and> on_zap_surface alnum files (zt_origin zt) (fst q)) \<and> snd q = [])
     (fst (collect_header ip alnum files s http zt scan_id))"
    by (rule header_sent)
  show "list_all (\<lambda>q. (on_lab ip s (fst q) \<and> on_scm_surface (nt_origin nt) (fst q)) \<and> snd q = [])
     (fst (collect_scm ip s http nt scan_id))"
    unfolding collect_scm_def by (rule scm_probes.all_sent_safe) (rule refl)
  show "list_all (\<lambda>q. (on_lab ip s (fst q) \<and> on_active_surface (at_origin xt) (fst q)) \<and>
       snd q \<in> {[(at_query_param xt, ''benign-'' @ marker)], [(at_query_param xt, xss_payload marker)]})
     (fst (collect_xss ip s http xt scan_id marker))"
    unfolding collect_xss_def by (rule xss_probes.all_sent_safe) (simp add: xss_query_def)
qed

section \<open>Verdicts against their specification\<close>

lemma within_Some: "within n a = Some r \<longleftrightarrow> a = Some r \<and> length (rp_body r) \<le> n"
  by (auto simp: within_def split: option.splits)

lemma within_None: "within n a = None \<longleftrightarrow> (\<forall>r. a = Some r \<longrightarrow> n < length (rp_body r))"
  by (auto simp: within_def split: option.splits)

lemma checked_Some: "checked ok f = Some g \<longleftrightarrow> ok f \<and> g = f"
  by (auto simp: checked_def)

text \<open>An answer that proves the route: the variant's marker in a page that was read whole.\<close>

definition xss_proves :: "active_target \<Rightarrow> reply \<Rightarrow> bool" where
  "xss_proves t r \<longleftrightarrow> rp_status r = 200 \<and> length (rp_body r) \<le> XSS_MAX_BYTES \<and>
     content_class_of (content_type r) = C_HTML \<and>
     occurs (points_of (variant_marker (at_variant t))) (decode_replace (rp_body r))"

definition xss_verdict :: "active_target \<Rightarrow> string \<Rightarrow> reply option \<Rightarrow> reply option \<Rightarrow> verdict_status" where
  "xss_verdict t marker control probe =
     (case (control, probe) of
        (Some c, Some r) \<Rightarrow>
          if marker \<noteq> [] \<and> xss_proves t c \<and> xss_proves t r then
            if occurs (points_of (xss_payload marker)) (decode_replace (rp_body r)) then CONFIRMED
            else if occurs (points_of (html_escape (xss_payload marker))) (decode_replace (rp_body r)) then PASS
            else INSUFFICIENT
          else INSUFFICIENT
      | _ \<Rightarrow> INSUFFICIENT)"

lemma xss_fact_read:
  assumes "xss_fact t marker (name, role) a = Some f"
  shows "xf_role f = role" "xf_marker f = marker"
    and "xf_variant_ok f \<longleftrightarrow> (\<exists>r. a = Some r \<and> xss_proves t r)"
    and "xf_variant_ok f \<Longrightarrow> \<not> xf_transport_error f \<and> \<not> xf_redirect f"
    and "a = Some r \<Longrightarrow> xss_proves t r \<Longrightarrow> role \<noteq> BASE_CONTROL \<Longrightarrow>
      xf_reflection f = classify_reflection (decode_replace (rp_body r)) marker"
  using assms
  by (auto simp: xss_fact_def checked_Some within_Some within_None Let_def xss_proves_def is_redirect_def
      split: option.splits if_splits)

text \<open>C24: the verdict that \<open>evaluate\<close> reads off the structured facts is the one the specification gives
  for the two answers: CONFIRMED exactly when both answers prove the route and the second one carries
  the fresh payload unescaped, PASS when it carries it escaped and not unescaped.\<close>

theorem xss_verdict_refines_specification:
  assumes "collect_xss ip s http t scan_id marker = (sent, Inr facts)" and "at_purpose t = ACCEPTANCE"
  shows "vf_status (evaluate_xss facts) = xss_verdict t marker (http 0 (sent ! 0)) (http 1 (sent ! 1))"
proof -
  have plan: "xss_plan t scan_id = [(scan_id @ ''-verify-control'', BASE_CONTROL), (scan_id @ ''-verify-xss'', XSS_PROBE)]"
    by (simp add: xss_plan_def assms(2))
  from run_two_probes [OF assms(1) [unfolded collect_xss_def plan]] obtain f g where facts: "facts = [f, g]"
    and f: "xss_fact t marker (scan_id @ ''-verify-control'', BASE_CONTROL) (http 0 (sent ! 0)) = Some f"
    and g: "xss_fact t marker (scan_id @ ''-verify-xss'', XSS_PROBE) (http 1 (sent ! 1)) = Some g"
    by blast
  note F = xss_fact_read [OF f] and G = xss_fact_read [OF g]
  show ?thesis
  proof (cases "xf_variant_ok f \<and> xf_variant_ok g \<and> marker \<noteq> []")
    case True
    then obtain c r where a: "http 0 (sent ! 0) = Some c" "http 1 (sent ! 1) = Some r"
      and ok: "xss_proves t c" "xss_proves t r"
      using F(3) G(3) by blast
    have "xf_reflection g = classify_reflection (decode_replace (rp_body r)) marker"
      by (rule G(5) [OF a(2) ok(2)]) simp
    then show ?thesis
      using True F(1,2,4) G(1,2,4) ok unfolding facts a
      by (simp add: evaluate_xss_def Let_def xss_verdict_def classify_reflection_def)
  next
    case False
    then have "vf_status (evaluate_xss facts) = INSUFFICIENT"
      using F(1,2) G(1,2) by (auto simp: facts evaluate_xss_def Let_def)
    moreover have "xss_verdict t marker (http 0 (sent ! 0)) (http 1 (sent ! 1)) = INSUFFICIENT"
      using False F(3) G(3) by (auto simp: xss_verdict_def split: option.split)
    ultimately show ?thesis by simp
  qed
qed

definition json_body_is :: "(json \<Rightarrow> bool) \<Rightarrow> string \<Rightarrow> bool" where
  "json_body_is P b \<longleftrightarrow> (case json_body b of None \<Rightarrow> False | Some v \<Rightarrow> P v)"

text \<open>The header verifier: an answer that proves its route, and the states of the header in both.\<close>

definition header_proves :: "zap_target \<Rightarrow> probe_role \<Rightarrow> reply \<Rightarrow> bool" where
  "header_proves t role r \<longleftrightarrow> rp_status r = 200 \<and> length (rp_body r) \<le> HEADER_MAX_BYTES \<and>
     content_class_of (content_type r) = C_JSON \<and> json_body_is (header_marker t role) (rp_body r)"

definition sniff_state :: "reply \<Rightarrow> header_state" where
  "sniff_state r = header_state_of (header_values ''x-content-type-options'' r)"

definition header_verdict :: "zap_target \<Rightarrow> reply option \<Rightarrow> reply option \<Rightarrow> verdict_status" where
  "header_verdict t control probe =
     (case (control, probe) of
        (Some c, Some r) \<Rightarrow>
          if header_proves t BASE_CONTROL c \<and> sniff_state c = PRESENT_NOSNIFF \<and> header_proves t HEADER_PROBE r then
            (case sniff_state r of H_ABSENT \<Rightarrow> CONFIRMED | PRESENT_NOSNIFF \<Rightarrow> PASS | _ \<Rightarrow> INSUFFICIENT)
          else INSUFFICIENT
      | _ \<Rightarrow> INSUFFICIENT)"

lemma header_fact_read:
  assumes "header_fact t (name, role, path) a = Some f"
  shows "hf_role f = role"
    and "hf_marker_ok f \<longleftrightarrow> (\<exists>r. a = Some r \<and> header_proves t role r)"
    and "hf_marker_ok f \<Longrightarrow> \<not> hf_transport_error f \<and> \<not> hf_redirect f \<and> hf_class f = C_JSON"
    and "a = Some r \<Longrightarrow> header_proves t role r \<Longrightarrow> hf_nosniff f = sniff_state r"
  using assms
  by (auto simp: header_fact_def checked_Some within_Some within_None Let_def header_proves_def json_body_is_def is_redirect_def
      sniff_state_def split: option.splits if_splits)

lemma header_plan_shape:
  assumes "header_plan alnum files t scan_id = Inr plan" and "plan \<noteq> []"
  obtains n m p q where "plan = [(n, BASE_CONTROL, p), (m, HEADER_PROBE, q)]"
  using assms
  by (auto simp: header_plan_def projected Let_def split: purpose.splits option.splits if_splits sum.splits)

text \<open>The header verifier's verdict is the specified one: CONFIRMED exactly when the control proves
  the variant's status route and shows the header, and the probe proves the catalog route and shows
  none; PASS when the probe shows exactly one \<open>nosniff\<close>.\<close>

theorem header_verdict_refines_specification:
  assumes "collect_header ip alnum files s http t scan_id = (sent, Inr facts)" and "facts \<noteq> []"
  shows "vf_status (evaluate_header facts) = header_verdict t (http 0 (sent ! 0)) (http 1 (sent ! 1))"
proof -
  obtain plan where plan: "header_plan alnum files t scan_id = Inr plan"
    using assms(1) by (cases "header_plan alnum files t scan_id") (simp_all add: collect_header_def)
  note run = assms(1) [unfolded collect_header_def plan sum.case]
  have "plan \<noteq> []" using run assms(2) by (cases plan) auto
  then obtain n m p q where shape: "plan = [(n, BASE_CONTROL, p), (m, HEADER_PROBE, q)]"
    by (rule header_plan_shape [OF plan])
  from run_two_probes [OF run [unfolded shape]] obtain f g where facts: "facts = [f, g]"
    and f: "header_fact t (n, BASE_CONTROL, p) (http 0 (sent ! 0)) = Some f"
    and g: "header_fact t (m, HEADER_PROBE, q) (http 1 (sent ! 1)) = Some g"
    by blast
  note F = header_fact_read [OF f] and G = header_fact_read [OF g]
  show ?thesis
  proof (cases "hf_marker_ok f \<and> hf_marker_ok g")
    case True
    then obtain c r where a: "http 0 (sent ! 0) = Some c" "http 1 (sent ! 1) = Some r"
      and ok: "header_proves t BASE_CONTROL c" "header_proves t HEADER_PROBE r"
      using F(2) G(2) by blast
    have "hf_nosniff f = sniff_state c" "hf_nosniff g = sniff_state r"
      by (rule F(4) [OF a(1) ok(1)], rule G(4) [OF a(2) ok(2)])
    then show ?thesis
      using True F(1,3) G(1,3) ok unfolding facts a
      by (simp add: evaluate_header_def header_verdict_def split: header_state.split)
  next
    case False
    then have "vf_status (evaluate_header facts) = INSUFFICIENT"
      using F(1) G(1) by (auto simp: facts evaluate_header_def)
    moreover have "header_verdict t (http 0 (sent ! 0)) (http 1 (sent ! 1)) = INSUFFICIENT"
      using False F(2) G(2) by (auto simp: header_verdict_def split: option.split)
    ultimately show ?thesis by simp
  qed
qed

text \<open>The source-control verifier.\<close>

definition scm_base_proves :: "nuclei_target \<Rightarrow> reply \<Rightarrow> bool" where
  "scm_base_proves t r \<longleftrightarrow> rp_status r = 200 \<and> length (rp_body r) \<le> SCM_MAX_BYTES + 1 \<and>
     content_class_of (content_type r) = C_JSON \<and>
     json_body_is (equals_dict [(''lab'', equals_text ''scm-metadata-exposure''),
        (''variant'', equals_text (nt_variant t)), (''synthetic'', equals_true)]) (rp_body r)"

definition serves_git_config :: "reply \<Rightarrow> bool" where
  "serves_git_config r \<longleftrightarrow>
     rp_status r = 200 \<and> content_class_of (content_type r) = C_TEXT_PLAIN \<and> has_git_config (rp_body r)"

definition denies_deliberately :: "reply \<Rightarrow> bool" where
  "denies_deliberately r \<longleftrightarrow> rp_status r = 404 \<and> length (rp_body r) \<le> SCM_MAX_BYTES + 1 \<and>
     content_class_of (content_type r) = C_JSON \<and>
     json_body_is (equals_dict [(''detail'', equals_text ''Repository metadata is not served'')]) (rp_body r)"

definition scm_verdict :: "nuclei_target \<Rightarrow> reply option \<Rightarrow> reply option \<Rightarrow> verdict_status" where
  "scm_verdict t base probe =
     (case (base, probe) of
        (Some b, Some r) \<Rightarrow>
          if \<not> scm_base_proves t b then INSUFFICIENT
          else if serves_git_config r then CONFIRMED else if denies_deliberately r then PASS else INSUFFICIENT
      | _ \<Rightarrow> INSUFFICIENT)"

lemma scm_fact_read:
  assumes "scm_fact t (name, role, path) a = Some f"
  shows "sf_role f = role"
    and "role = BASE_CONTROL \<Longrightarrow> sf_marker_ok f \<longleftrightarrow> (\<exists>r. a = Some r \<and> scm_base_proves t r)"
    and "sf_marker_ok f \<Longrightarrow> \<not> sf_transport_error f"
    and "role = METADATA_PROBE \<Longrightarrow> \<not> sf_transport_error f \<and> sf_status f = Some 200 \<and> sf_class f = C_TEXT_PLAIN \<and>
      sf_git_config f \<and> sf_body_bytes f \<le> SCM_MAX_BYTES \<longleftrightarrow> (\<exists>r. a = Some r \<and> serves_git_config r)"
    and "role = METADATA_PROBE \<Longrightarrow> \<not> sf_transport_error f \<and> sf_status f = Some 404 \<and> sf_denial f \<and> \<not> sf_git_config f \<longleftrightarrow>
      (\<exists>r. a = Some r \<and> denies_deliberately r)"
  using assms
  by (auto simp: scm_fact_def checked_Some within_Some within_None Let_def scm_base_proves_def json_body_is_def serves_git_config_def
      denies_deliberately_def has_git_config_def split: option.splits if_splits)

text \<open>The source-control verifier's verdict is the specified one: with a control that proves the
  route, CONFIRMED exactly when the probe serves a git configuration as plain text, PASS exactly when
  it answers with the deliberate denial.\<close>

theorem scm_verdict_refines_specification:
  assumes "collect_scm ip s http t scan_id = (sent, Inr facts)"
  shows "vf_status (evaluate_scm facts) = scm_verdict t (http 0 (sent ! 0)) (http 1 (sent ! 1))"
proof -
  from run_two_probes [OF assms [unfolded collect_scm_def scm_plan_def]] obtain f g where facts: "facts = [f, g]"
    and f: "scm_fact t (scan_id @ ''-verify-base'', BASE_CONTROL, nt_base_path t) (http 0 (sent ! 0)) = Some f"
    and g: "scm_fact t (scan_id @ ''-verify-metadata'', METADATA_PROBE, nt_base_path t @ ''/.git/config'')
      (http 1 (sent ! 1)) = Some g"
    by blast
  note F = scm_fact_read [OF f] and G = scm_fact_read [OF g]
  have "vf_status (evaluate_scm facts) =
      (if \<not> sf_marker_ok f \<or> sf_transport_error g then INSUFFICIENT
       else if sf_status g = Some 200 \<and> sf_class g = C_TEXT_PLAIN \<and> sf_git_config g \<and> sf_body_bytes g \<le> SCM_MAX_BYTES
       then CONFIRMED
       else if sf_status g = Some 404 \<and> sf_denial g \<and> \<not> sf_git_config g then PASS else INSUFFICIENT)"
    using F(1,3) G(1) by (auto simp: facts evaluate_scm_def)
  note status = this
  have F2: "sf_marker_ok f \<longleftrightarrow> (\<exists>b. http 0 (sent ! 0) = Some b \<and> scm_base_proves t b)"
    by (rule F(2)) (rule refl)
  note G4 = G(4) [OF refl] and G5 = G(5) [OF refl]
  show ?thesis
  proof (cases "sf_marker_ok f")
    case False
    then show ?thesis using F2 unfolding status scm_verdict_def by (cases "http 0 (sent ! 0)") (auto split: option.split)
  next
    case True
    then obtain b where b: "http 0 (sent ! 0) = Some b" "scm_base_proves t b" using F2 by blast
    show ?thesis
    proof (cases "http 1 (sent ! 1)")
      case None
      show ?thesis using G4 G5 True unfolding status scm_verdict_def b(1) None by auto
    next
      case (Some r)
      then show ?thesis using G4 G5 True b(2) unfolding status scm_verdict_def b(1) Some by auto
    qed
  qed
qed

section \<open>Facts are well typed\<close>

lemma hex_digits: "n < 16 \<Longrightarrow> is_hex (hex_digit n)"
proof -
  have "list_all (\<lambda>n. is_hex (hex_digit n)) [0..<16]" by code_simp
  then show "n < 16 \<Longrightarrow> ?thesis" by (simp add: list_all_iff)
qed

lemma sha_field_hexdigest [simp]: "sha_field_ok (Some (hexdigest b))"
proof -
  have "length (concat (map (\<lambda>c. let n = of_char c :: nat in [hex_digit (n div 16), hex_digit (n mod 16)]) cs)) = 2 * length cs"
    for cs :: string by (induction cs) (simp_all add: Let_def)
  moreover have "(of_char c :: nat) div 16 < 16" for c :: char
    using nat_of_char_less_256 [of c] less_mult_imp_div_less [of "of_char c" 16 16] by simp
  ultimately show ?thesis
    by (auto simp: sha_field_ok_def hexdigest_def pat_def length_sha256 list_all_iff Let_def hex_digits)
qed

lemma sha_field_None [simp]: "sha_field_ok None"
  by (simp add: sha_field_ok_def)

lemma scm_fact_total: "length name \<le> 100 \<Longrightarrow> length path \<le> 200 \<Longrightarrow> \<exists>f. scm_fact t (name, role, path) a = Some f"
  by (simp add: scm_fact_def checked_def scm_facts_ok_def Let_def split: option.split)

lemma xss_fact_total:
  "length name \<le> 100 \<Longrightarrow> length (search_path t) \<le> 200 \<Longrightarrow> length marker \<le> 64 \<Longrightarrow> \<exists>f. xss_fact t marker (name, role) a = Some f"
  by (simp add: xss_fact_def checked_def xss_facts_ok_def Let_def split: option.split)

lemma header_fact_total:
  "length name \<le> 100 \<Longrightarrow> length path \<le> 200 \<Longrightarrow> \<exists>f. header_fact t (name, role, path) a = Some f"
  by (simp add: header_fact_def checked_def header_facts_ok_def Let_def split: option.split)

lemma run_probes_typed:
  assumes "\<And>p. p \<in> set ps \<Longrightarrow> approve p \<noteq> Inl Validation_Error" and "\<And>p a. p \<in> set ps \<Longrightarrow> \<exists>f. observe p a = Some f"
  shows "snd (run_probes http approve params observe n ps) \<noteq> Inl Validation_Error"
  using assms
proof (induction ps arbitrary: n)
  case (Cons p ps)
  obtain sent r where rest: "run_probes http approve params observe (n + 1) ps = (sent, r)"
    by (cases "run_probes http approve params observe (n + 1) ps")
  have r: "r \<noteq> Inl Validation_Error" using Cons.IH [of "n + 1"] Cons.prems rest by simp
  show ?case
  proof (cases "approve p")
    case (Inl e)
    then show ?thesis using Cons.prems(1) [of p] by simp
  next
    case (Inr url)
    obtain f where "observe p (http n (url, params p)) = Some f" using Cons.prems(2) [of p] by auto
    then show ?thesis using r rest by (cases r) (simp_all add: Inr)
  qed
qed simp

lemma run_probes_returned:
  assumes "\<And>p a f. observe p a = Some f \<Longrightarrow> ok f"
  shows "run_probes http approve params observe n ps = (sent, Inr facts) \<Longrightarrow> length facts = length ps \<and> list_all ok facts"
proof (induction ps arbitrary: n sent facts)
  case (Cons p ps)
  obtain sent' r where rest: "run_probes http approve params observe (n + 1) ps = (sent', r)"
    by (cases "run_probes http approve params observe (n + 1) ps")
  with Cons.prems obtain url f fs where "observe p (http n (url, params p)) = Some f" "r = Inr fs" "facts = f # fs"
    by (cases r) (auto split: sum.splits option.splits)
  with Cons.IH [of "n + 1" sent' fs] rest assms show ?case by auto
qed simp

lemma approve_fixed_typed: "approve_fixed ip s msg permitted base path \<noteq> Inl Validation_Error"
  by (auto simp: approve_fixed_def violates_def Let_def andThen_def validate_absolute_url_def from_option_def
      split: sum.splits option.splits if_splits)

lemma short_paths:
  "t \<in> set NUCLEI_TARGETS \<Longrightarrow> length (nt_base_path t) \<le> 30"
  "u \<in> set ZAP_ACTIVE_TARGETS \<Longrightarrow> length (search_path u) \<le> 200"
proof -
  have "list_all (\<lambda>t. length (nt_base_path t) \<le> 30) NUCLEI_TARGETS" by code_simp
  then show "t \<in> set NUCLEI_TARGETS \<Longrightarrow> length (nt_base_path t) \<le> 30" by (simp add: list_all_iff)
  have "list_all (\<lambda>t. length (search_path t) \<le> 200) ZAP_ACTIVE_TARGETS" by code_simp
  then show "u \<in> set ZAP_ACTIVE_TARGETS \<Longrightarrow> length (search_path u) \<le> 200" by (simp add: list_all_iff)
qed

text \<open>On the inventory's targets, a scan id of at most 84 characters and a marker of at most 64, no
  answer of the target makes a collection raise a validation error, and what it returns are two facts
  that satisfy every constraint of their model, the digest's pattern included.\<close>

theorem collected_facts_are_well_typed:
  assumes "t \<in> set NUCLEI_TARGETS" and "u \<in> set ZAP_ACTIVE_TARGETS"
    and "length scan_id \<le> 84" and "length marker \<le> 64"
  shows "snd (collect_scm ip s http t scan_id) \<noteq> Inl Validation_Error \<and>
    snd (collect_xss ip s http u scan_id marker) \<noteq> Inl Validation_Error \<and>
    (\<forall>sent facts. collect_scm ip s http t scan_id = (sent, Inr facts) \<longrightarrow> length facts = 2 \<and> list_all scm_facts_ok facts) \<and>
    (\<forall>sent facts. collect_xss ip s http u scan_id marker = (sent, Inr facts) \<longrightarrow> list_all xss_facts_ok facts)"
proof (intro conjI allI impI)
  note short = short_paths(1) [OF assms(1)] short_paths(2) [OF assms(2)]
  show "snd (collect_scm ip s http t scan_id) \<noteq> Inl Validation_Error"
    unfolding collect_scm_def using short assms(3)
    by (intro run_probes_typed) (auto simp: scm_plan_def approve_scm_verification_def approve_fixed_typed
        scm_fact_total)
  show "snd (collect_xss ip s http u scan_id marker) \<noteq> Inl Validation_Error"
    unfolding collect_xss_def using short assms(3,4)
    by (intro run_probes_typed) (auto simp: xss_plan_def approve_zap_active_verification_def approve_fixed_typed
        xss_fact_total split: if_splits)
  fix sent
  show "length facts = 2" "list_all scm_facts_ok facts" if "collect_scm ip s http t scan_id = (sent, Inr facts)" for facts
    using run_probes_returned [OF _ that [unfolded collect_scm_def], of scm_facts_ok]
    by (auto simp: scm_fact_def checked_Some scm_plan_def)
  show "list_all xss_facts_ok facts" if "collect_xss ip s http u scan_id marker = (sent, Inr facts)" for facts
    using run_probes_returned [OF _ that [unfolded collect_xss_def], of xss_facts_ok]
    by (auto simp: xss_fact_def checked_Some)
qed

section \<open>Witnesses\<close>

definition demo_settings :: safety_settings where
  "demo_settings = \<lparr>ss_allowed_hosts = [''lab-api''], ss_lab_base_url = LAB_ORIGIN,
     ss_lab_openapi_url = LAB_ORIGIN @ ''/openapi.json'', ss_max_requests = 8\<rparr>"

definition demo_request :: planned_request where
  "demo_request = \<lparr>pq_name = ''cross-read'', pq_method = ''GET'', pq_path = ''/api/v1/accounts/B-200'',
     pq_profile = ''user_a'', pq_purpose = ''read another account''\<rparr>"

definition demo_hypothesis :: hypothesis where
  "demo_hypothesis = \<lparr>hy_id = ''h-1'', hy_title = ''cross owner read'', hy_category = ''BOLA'', hy_requests = [demo_request]\<rparr>"

lemma demo_plan_approved:
  "approve_plan (\<lambda>_. False) demo_settings LAB_ORIGIN [demo_hypothesis] Vulnerable 1 [''owner-read''] None =
     Inr [''APPROVED GET /api/v1/accounts/B-200 as user_a'']"
  by code_simp

theorem approved_plan_is_confined_witness:
  "pq_path demo_request \<in> set (object_paths Vulnerable) \<and>
   (\<exists>url. approve_request (\<lambda>_. False) demo_settings LAB_ORIGIN Vulnerable demo_request = Inr url \<and>
      on_lab (\<lambda>_. False) demo_settings url)"
  using approved_plan_is_confined [OF demo_plan_approved] by (simp add: demo_hypothesis_def)

lemma run_two_total:
  assumes "approve p = Inr u" and "approve q = Inr v" and "\<And>x a. x \<in> {p, q} \<Longrightarrow> \<exists>f. observe x a = Some f"
  shows "\<exists>sent facts. run_probes http approve params observe n [p, q] = (sent, Inr facts)"
proof -
  obtain f where f: "observe p (http n (u, params p)) = Some f" using assms(3) [of p] by auto
  obtain g where g: "observe q (http (Suc n) (v, params q)) = Some g" using assms(3) [of q] by auto
  show ?thesis by (simp add: assms(1,2) f g)
qed

definition demo_page :: "string \<Rightarrow> server" where
  "demo_page body n q = Some \<lparr>rp_status = 200, rp_headers = [(''Content-Type'', points_of ''text/html; charset=utf-8'')],
     rp_body = ''<p '' @ variant_marker ''vulnerable'' @ ''>'' @ body\<rparr>"

lemma demo_xss_run:
  "\<exists>sent facts. collect_xss (\<lambda>_. False) demo_settings (demo_page (xss_payload ''AEGIS01''))
    (active_acceptance ''vulnerable'') ''scan-1'' ''AEGIS01'' = (sent, Inr facts)"
proof -
  let ?t = "active_acceptance ''vulnerable''"
  have approved: "approve_zap_active_verification (\<lambda>_. False) demo_settings (at_origin ?t) (search_path ?t) =
      Inr ''http://lab-api:8001/lab/zap-active/vulnerable/search''" by code_simp
  have plan: "xss_plan ?t ''scan-1'' = [(''scan-1-verify-control'', BASE_CONTROL), (''scan-1-verify-xss'', XSS_PROBE)]"
    by code_simp
  have short: "length (search_path ?t) \<le> 200" by code_simp
  show ?thesis
    unfolding collect_xss_def plan
    by (rule run_two_total, rule approved, rule approved) (auto simp: xss_fact_total short)
qed

theorem xss_verdict_refines_specification_witness:
  "\<exists>sent facts. collect_xss (\<lambda>_. False) demo_settings (demo_page (xss_payload ''AEGIS01''))
     (active_acceptance ''vulnerable'') ''scan-1'' ''AEGIS01'' = (sent, Inr facts) \<and>
     vf_status (evaluate_xss facts) = CONFIRMED"
proof -
  obtain sent facts where run: "collect_xss (\<lambda>_. False) demo_settings (demo_page (xss_payload ''AEGIS01''))
    (active_acceptance ''vulnerable'') ''scan-1'' ''AEGIS01'' = (sent, Inr facts)" using demo_xss_run by blast
  have "at_purpose (active_acceptance ''vulnerable'') = ACCEPTANCE" by (simp add: active_acceptance_def)
  note refined = xss_verdict_refines_specification [OF run this]
  have "xss_verdict (active_acceptance ''vulnerable'') ''AEGIS01'' (demo_page (xss_payload ''AEGIS01'') 0 q)
    (demo_page (xss_payload ''AEGIS01'') 1 r) = CONFIRMED" for q r
    unfolding demo_page_def by code_simp
  with run refined show ?thesis by auto
qed

definition demo_scm :: server where
  "demo_scm n q = Some
     (if n = 0 then \<lparr>rp_status = 200, rp_headers = [(''content-type'', points_of ''application/json'')],
        rp_body = canonical_json (obj [(''lab'', str_value ''scm-metadata-exposure''),
          (''variant'', str_value ''vulnerable''), (''synthetic'', JBool True)])\<rparr>
      else \<lparr>rp_status = 200, rp_headers = [(''content-type'', points_of ''text/plain'')],
        rp_body = ''[core]'' @ [CHR 0x0A] @ ''  repositoryformatversion = 0'' @ [CHR 0x0A]\<rparr>)"

theorem scm_verdict_refines_specification_witness:
  "\<exists>sent facts. collect_scm (\<lambda>_. False) demo_settings demo_scm (hd NUCLEI_TARGETS) ''scan-1'' = (sent, Inr facts) \<and>
     vf_status (evaluate_scm facts) = CONFIRMED"
proof -
  let ?t = "hd NUCLEI_TARGETS"
  have base: "approve_scm_verification (\<lambda>_. False) demo_settings (nt_origin ?t) (nt_base_path ?t) =
      Inr ''http://lab-api:8001/lab/nuclei/vulnerable''" by code_simp
  have meta: "approve_scm_verification (\<lambda>_. False) demo_settings (nt_origin ?t) (nt_base_path ?t @ ''/.git/config'') =
      Inr ''http://lab-api:8001/lab/nuclei/vulnerable/.git/config''" by code_simp
  have short: "length (nt_base_path ?t) \<le> 100" by code_simp
  have "\<exists>sent facts. collect_scm (\<lambda>_. False) demo_settings demo_scm ?t ''scan-1'' = (sent, Inr facts)"
    unfolding collect_scm_def scm_plan_def
    by (rule run_two_total, simp only: snd_conv, rule base, simp only: snd_conv, rule meta) (use short in \<open>auto simp: scm_fact_total\<close>)
  then obtain sent facts where run: "collect_scm (\<lambda>_. False) demo_settings demo_scm ?t ''scan-1'' = (sent, Inr facts)"
    by blast
  have "scm_verdict ?t (demo_scm 0 q) (demo_scm 1 r) = CONFIRMED" for q r
    unfolding demo_scm_def by code_simp
  with run scm_verdict_refines_specification [OF run] show ?thesis by auto
qed

theorem collected_facts_are_well_typed_witness:
  "snd (collect_scm (\<lambda>_. False) demo_settings demo_scm (hd NUCLEI_TARGETS) ''scan-1'') \<noteq> Inl Validation_Error \<and>
   snd (collect_xss (\<lambda>_. False) demo_settings demo_scm (active_acceptance ''patched'') ''scan-1'' ''AEGIS01'') \<noteq>
     Inl Validation_Error"
proof -
  have "hd NUCLEI_TARGETS \<in> set NUCLEI_TARGETS" by (simp add: NUCLEI_TARGETS_def)
  moreover have "active_acceptance ''patched'' \<in> set ZAP_ACTIVE_TARGETS" by (simp add: ZAP_ACTIVE_TARGETS_def)
  ultimately show ?thesis
    using collected_facts_are_well_typed [of "hd NUCLEI_TARGETS" "active_acceptance ''patched''" "''scan-1''" "''AEGIS01''"]
    by simp
qed

text \<open>The header verifier needs the projection of both acceptance targets, from a source with their
  four operations.\<close>

definition demo_zap_source :: string where
  \<open>demo_zap_source = ''{"openapi":"3.0.3","paths":{"/lab/zap/v/s":{"get":{"operationId":"labZapVulnerableStatus"}},'' @
     ''"/lab/zap/v/c":{"get":{"operationId":"labZapVulnerableCatalog"}},'' @
     ''"/lab/zap/p/s":{"get":{"operationId":"labZapPatchedStatus"}},'' @
     ''"/lab/zap/p/c":{"get":{"operationId":"labZapPatchedCatalog"}}}}''\<close>

definition demo_files :: "string \<Rightarrow> string option" where "demo_files f = Some demo_zap_source"

definition demo_operation :: "string \<Rightarrow> string \<Rightarrow> projected_operation" where
  "demo_operation i path = \<lparr>po_method = ''GET'', po_template = points_of path, po_path = points_of path, po_id = points_of i\<rparr>"

lemma demo_zap_entries:
  "succeeds (parse_source demo_zap_source) (\<lambda>doc.
     succeeds (project_entries (\<lambda>_. False) (zap_acceptance ''vulnerable'') doc) (\<lambda>ne. map fst (snd ne) =
         [demo_operation ''labZapVulnerableStatus'' ''/lab/zap/v/s'', demo_operation ''labZapVulnerableCatalog'' ''/lab/zap/v/c'']) \<and>
     succeeds (project_entries (\<lambda>_. False) (zap_acceptance ''patched'') doc) (\<lambda>ne. map fst (snd ne) =
         [demo_operation ''labZapPatchedStatus'' ''/lab/zap/p/s'', demo_operation ''labZapPatchedCatalog'' ''/lab/zap/p/c'']))"
  by code_simp

lemma demo_project_target:
  assumes "parse_source demo_zap_source = Inr doc"
    and "succeeds (project_entries (\<lambda>_. False) t doc) (\<lambda>ne. map fst (snd ne) = ops)"
    and "zt_source t = ZAP_MAIN_SOURCE"
  shows "\<exists>r. project_target (\<lambda>_. False) demo_files t = Inr r \<and>
    pr_operations r = sort_key (\<lambda>p. (po_path p, points_of (po_method p))) ops"
proof -
  have "source_bytes demo_files ZAP_MAIN_SOURCE = Inr demo_zap_source"
    by (simp add: source_bytes_def demo_files_def ZAP_MAIN_SOURCE_def)
  with assms show ?thesis
    by (auto simp: succeeds_iff project_target_def project_def andThen_def Let_def)
qed

lemma demo_sorted:
  "sort_key (\<lambda>p. (po_path p, points_of (po_method p)))
     [demo_operation ''labZapVulnerableStatus'' ''/lab/zap/v/s'', demo_operation ''labZapVulnerableCatalog'' ''/lab/zap/v/c''] =
   [demo_operation ''labZapVulnerableCatalog'' ''/lab/zap/v/c'', demo_operation ''labZapVulnerableStatus'' ''/lab/zap/v/s'']"
  "sort_key (\<lambda>p. (po_path p, points_of (po_method p)))
     [demo_operation ''labZapPatchedStatus'' ''/lab/zap/p/s'', demo_operation ''labZapPatchedCatalog'' ''/lab/zap/p/c''] =
   [demo_operation ''labZapPatchedCatalog'' ''/lab/zap/p/c'', demo_operation ''labZapPatchedStatus'' ''/lab/zap/p/s'']"
  by code_simp+

lemma demo_projected:
  "\<exists>r. project_target (\<lambda>_. False) demo_files (zap_acceptance ''vulnerable'') = Inr r \<and> pr_operations r =
     [demo_operation ''labZapVulnerableCatalog'' ''/lab/zap/v/c'', demo_operation ''labZapVulnerableStatus'' ''/lab/zap/v/s'']"
  "\<exists>r. project_target (\<lambda>_. False) demo_files (zap_acceptance ''patched'') = Inr r \<and> pr_operations r =
     [demo_operation ''labZapPatchedCatalog'' ''/lab/zap/p/c'', demo_operation ''labZapPatchedStatus'' ''/lab/zap/p/s'']"
proof -
  have source: "zt_source (zap_acceptance v) = ZAP_MAIN_SOURCE" for v by (simp add: zap_acceptance_def Let_def)
  from demo_zap_entries obtain doc where doc: "parse_source demo_zap_source = Inr doc"
    and v: "succeeds (project_entries (\<lambda>_. False) (zap_acceptance ''vulnerable'') doc) (\<lambda>ne. map fst (snd ne) =
         [demo_operation ''labZapVulnerableStatus'' ''/lab/zap/v/s'', demo_operation ''labZapVulnerableCatalog'' ''/lab/zap/v/c''])"
    and p: "succeeds (project_entries (\<lambda>_. False) (zap_acceptance ''patched'') doc) (\<lambda>ne. map fst (snd ne) =
         [demo_operation ''labZapPatchedStatus'' ''/lab/zap/p/s'', demo_operation ''labZapPatchedCatalog'' ''/lab/zap/p/c''])"
    unfolding succeeds_iff [of "parse_source demo_zap_source"] by blast
  show "\<exists>r. project_target (\<lambda>_. False) demo_files (zap_acceptance ''vulnerable'') = Inr r \<and> pr_operations r =
     [demo_operation ''labZapVulnerableCatalog'' ''/lab/zap/v/c'', demo_operation ''labZapVulnerableStatus'' ''/lab/zap/v/s'']"
    using demo_project_target [OF doc v source] unfolding demo_sorted .
  show "\<exists>r. project_target (\<lambda>_. False) demo_files (zap_acceptance ''patched'') = Inr r \<and> pr_operations r =
     [demo_operation ''labZapPatchedCatalog'' ''/lab/zap/p/c'', demo_operation ''labZapPatchedStatus'' ''/lab/zap/p/s'']"
    using demo_project_target [OF doc p source] unfolding demo_sorted .
qed

definition demo_header :: server where
  "demo_header n q = Some \<lparr>rp_status = 200,
     rp_headers = (''content-type'', points_of ''application/json'') #
       (if n = 0 then [(''X-Content-Type-Options'', points_of ''nosniff'')] else []),
     rp_body = canonical_json (obj ([(''lab'', str_value ''zap-passive-header''), (''variant'', str_value ''vulnerable''),
       (''route'', str_value (if n = 0 then ''status'' else ''catalog'')), (''synthetic'', JBool True)] @
       (if n = 0 then [] else [(''catalog_id'', str_value CATALOG_ID)])))\<rparr>"

lemma permitted_zap_simps:
  "zt_purpose t \<noteq> ACCEPTANCE \<Longrightarrow> permitted_zap alnum files base (t # ts) = permitted_zap alnum files base ts"
  "zt_purpose t = ACCEPTANCE \<Longrightarrow> same_origin (zt_origin t) base \<Longrightarrow> project_target alnum files t = Inr r \<Longrightarrow>
   permitted_zap alnum files base ts = Inr rest \<Longrightarrow>
   permitted_zap alnum files base (t # ts) = Inr (map (ascii_text \<circ> po_path) (filter (\<lambda>p. po_method p = ''GET'' \<and>
               Some (po_id p) \<in> {map_option points_of (zt_control t), map_option points_of (zt_scenario t)})
                 (pr_operations r)) @ rest)"
  by (simp_all add: andThen_def)

lemma demo_permitted:
  "permitted_zap (\<lambda>_. False) demo_files LAB_ORIGIN ZAP_TARGETS =
     Inr [''/lab/zap/v/c'', ''/lab/zap/v/s'', ''/lab/zap/p/c'', ''/lab/zap/p/s'']"
proof -
  obtain r r' where r: "project_target (\<lambda>_. False) demo_files (zap_acceptance ''vulnerable'') = Inr r"
      "pr_operations r = [demo_operation ''labZapVulnerableCatalog'' ''/lab/zap/v/c'', demo_operation ''labZapVulnerableStatus'' ''/lab/zap/v/s'']"
    and r': "project_target (\<lambda>_. False) demo_files (zap_acceptance ''patched'') = Inr r'"
      "pr_operations r' = [demo_operation ''labZapPatchedCatalog'' ''/lab/zap/p/c'', demo_operation ''labZapPatchedStatus'' ''/lab/zap/p/s'']"
    using demo_projected by blast
  have neg: "zt_purpose (zap_negative a b c d) \<noteq> ACCEPTANCE" for a b c d by (simp add: zap_negative_def)
  have acc: "zt_purpose (zap_acceptance v) = ACCEPTANCE" "same_origin (zt_origin (zap_acceptance v)) LAB_ORIGIN" for v
    by (simp_all add: zap_acceptance_def Let_def same_origin_def)
  have tail: "permitted_zap (\<lambda>_. False) demo_files LAB_ORIGIN (drop 2 ZAP_TARGETS) = Inr []"
    unfolding ZAP_TARGETS_def by (simp add: permitted_zap_simps(1) [OF neg] del: permitted_zap.simps(2))
  have targets: "ZAP_TARGETS = zap_acceptance ''vulnerable'' # zap_acceptance ''patched'' # drop 2 ZAP_TARGETS"
    by (simp add: ZAP_TARGETS_def)
  have kept: "map (ascii_text \<circ> po_path) (filter (\<lambda>p. po_method p = ''GET'' \<and> Some (po_id p) \<in>
      {map_option points_of (zt_control (zap_acceptance ''vulnerable'')), map_option points_of (zt_scenario (zap_acceptance ''vulnerable''))})
      [demo_operation ''labZapVulnerableCatalog'' ''/lab/zap/v/c'', demo_operation ''labZapVulnerableStatus'' ''/lab/zap/v/s'']) =
      [''/lab/zap/v/c'', ''/lab/zap/v/s'']"
    "map (ascii_text \<circ> po_path) (filter (\<lambda>p. po_method p = ''GET'' \<and> Some (po_id p) \<in>
      {map_option points_of (zt_control (zap_acceptance ''patched'')), map_option points_of (zt_scenario (zap_acceptance ''patched''))})
      [demo_operation ''labZapPatchedCatalog'' ''/lab/zap/p/c'', demo_operation ''labZapPatchedStatus'' ''/lab/zap/p/s'']) =
      [''/lab/zap/p/c'', ''/lab/zap/p/s'']"
    by code_simp+
  have "permitted_zap (\<lambda>_. False) demo_files LAB_ORIGIN (zap_acceptance ''patched'' # drop 2 ZAP_TARGETS) =
      Inr [''/lab/zap/p/c'', ''/lab/zap/p/s'']"
    using permitted_zap_simps(2) [OF acc r'(1) tail] unfolding r'(2) kept by simp
  from permitted_zap_simps(2) [OF acc r(1) this] show ?thesis
    unfolding r(2) kept targets [symmetric] by simp
qed

lemma demo_header_plan:
  "header_plan (\<lambda>_. False) demo_files (zap_acceptance ''vulnerable'') ''scan-1'' =
     Inr [(''scan-1-verify-control'', BASE_CONTROL, ''/lab/zap/v/s''), (''scan-1-verify-header'', HEADER_PROBE, ''/lab/zap/v/c'')]"
proof -
  obtain r where r: "project_target (\<lambda>_. False) demo_files (zap_acceptance ''vulnerable'') = Inr r"
      "pr_operations r = [demo_operation ''labZapVulnerableCatalog'' ''/lab/zap/v/c'', demo_operation ''labZapVulnerableStatus'' ''/lab/zap/v/s'']"
    using demo_projected by blast
  have fields: "zt_purpose (zap_acceptance ''vulnerable'') = ACCEPTANCE"
    "zt_control (zap_acceptance ''vulnerable'') = Some ''labZapVulnerableStatus''"
    "zt_scenario (zap_acceptance ''vulnerable'') = Some ''labZapVulnerableCatalog''"
    by code_simp+
  have "map_of (map (\<lambda>p. (po_id p, ascii_text (po_path p))) (rev
      [demo_operation ''labZapVulnerableCatalog'' ''/lab/zap/v/c'', demo_operation ''labZapVulnerableStatus'' ''/lab/zap/v/s'']))
      (points_of ''labZapVulnerableStatus'') = Some ''/lab/zap/v/s''"
    "map_of (map (\<lambda>p. (po_id p, ascii_text (po_path p))) (rev
      [demo_operation ''labZapVulnerableCatalog'' ''/lab/zap/v/c'', demo_operation ''labZapVulnerableStatus'' ''/lab/zap/v/s'']))
      (points_of ''labZapVulnerableCatalog'') = Some ''/lab/zap/v/c''"
    by code_simp+
  then show ?thesis
    unfolding header_plan_def fields r Let_def by (simp only: prod.case purpose.case option.case sum.case list.simps
        refl if_False andThen_def from_option_def disj_not1 simp_thms append.simps r(2)) 
qed

lemma demo_header_run:
  "\<exists>sent facts. collect_header (\<lambda>_. False) (\<lambda>_. False) demo_files demo_settings demo_header
     (zap_acceptance ''vulnerable'') ''scan-1'' = (sent, Inr facts)"
proof -
  have origin: "zt_origin (zap_acceptance ''vulnerable'') = LAB_ORIGIN" by code_simp
  have "approve_fixed (\<lambda>_. False) demo_settings msg [''/lab/zap/v/c'', ''/lab/zap/v/s'', ''/lab/zap/p/c'', ''/lab/zap/p/s'']
      LAB_ORIGIN ''/lab/zap/v/s'' = Inr ''http://lab-api:8001/lab/zap/v/s''"
    "approve_fixed (\<lambda>_. False) demo_settings msg [''/lab/zap/v/c'', ''/lab/zap/v/s'', ''/lab/zap/p/c'', ''/lab/zap/p/s'']
      LAB_ORIGIN ''/lab/zap/v/c'' = Inr ''http://lab-api:8001/lab/zap/v/c''" for msg
    by code_simp+
  then have approved: "approve_zap_verification (\<lambda>_. False) (\<lambda>_. False) demo_files demo_settings LAB_ORIGIN ''/lab/zap/v/s'' =
      Inr ''http://lab-api:8001/lab/zap/v/s''"
    "approve_zap_verification (\<lambda>_. False) (\<lambda>_. False) demo_files demo_settings LAB_ORIGIN ''/lab/zap/v/c'' =
      Inr ''http://lab-api:8001/lab/zap/v/c''"
    unfolding approve_zap_verification_def demo_permitted andThen_def by simp_all
  show ?thesis
    unfolding collect_header_def demo_header_plan sum.case origin
    by (rule run_two_total, simp only: snd_conv, rule approved(1), simp only: snd_conv, rule approved(2))
      (auto simp: header_fact_total)
qed

theorem header_verdict_refines_specification_witness:
  "\<exists>sent facts. collect_header (\<lambda>_. False) (\<lambda>_. False) demo_files demo_settings demo_header
     (zap_acceptance ''vulnerable'') ''scan-1'' = (sent, Inr facts) \<and> vf_status (evaluate_header facts) = CONFIRMED"
proof -
  obtain sent facts where run: "collect_header (\<lambda>_. False) (\<lambda>_. False) demo_files demo_settings demo_header
     (zap_acceptance ''vulnerable'') ''scan-1'' = (sent, Inr facts)" using demo_header_run by blast
  have "facts \<noteq> []"
    using run_probes_returned [OF _ run [unfolded collect_header_def demo_header_plan sum.case], of "\<lambda>_. True"] by auto
  note refined = header_verdict_refines_specification [OF run this]
  have "header_verdict (zap_acceptance ''vulnerable'') (demo_header 0 q) (demo_header 1 r) = CONFIRMED" for q r
    unfolding demo_header_def by code_simp
  with run refined show ?thesis by auto
qed

end
