(* ===== verification/Lab_Verifier.thy ===== *)
theory Lab_Verifier
  imports Probe_Verifiers
begin

text \<open>
  The deterministic verifier of the lab's object-level authorisation scenario
  (\<open>aegis/verifier.py\<close>): it sends nothing, and decides from the planned requests and the executor's
  evidence whether a principal read an object of another, or was denied it beside working controls.
\<close>

record request_evidence =
  re_name :: string
  re_method :: string
  re_path :: string
  re_profile :: string
  re_status :: "int option"
  re_excerpt :: json
  re_error :: "string option"

record lab_finding =
  lf_id :: string
  lf_title :: string
  lf_severity :: string
  lf_category :: string
  lf_confidence :: string
  lf_description :: string
  lf_remediation :: string
  lf_evidence :: "string list"

text \<open>\<open>{r.name: r for h in hypotheses if h.category == "BOLA" for r in h.requests}\<close>: the last request
  of a name.\<close>

definition planned_requests :: "hypothesis list \<Rightarrow> planned_request list" where
  "planned_requests hs = concat (map hy_requests (filter (\<lambda>h. hy_category h = ''BOLA'') hs))"

definition planned_for :: "hypothesis list \<Rightarrow> string \<Rightarrow> planned_request option" where
  "planned_for hs name = find (\<lambda>r. pq_name r = name) (rev (planned_requests hs))"

definition is_bound :: "hypothesis list \<Rightarrow> variant \<Rightarrow> request_evidence \<Rightarrow> bool" where
  "is_bound hs v e \<longleftrightarrow>
     (case planned_for hs (re_name e) of
        None \<Rightarrow> False
      | Some r \<Rightarrow> re_method e = pq_method r \<and> pq_method r = ''GET'' \<and> re_path e = pq_path r \<and>
          re_profile e = pq_profile r \<and> re_path e \<in> set (object_paths v) \<and>
          (re_error e = None \<or> re_error e = Some []))"

definition bound_evidence :: "hypothesis list \<Rightarrow> request_evidence list \<Rightarrow> variant \<Rightarrow> request_evidence list" where
  "bound_evidence hs evidence v =
     (if \<not> distinct (map re_name evidence) then [] else filter (is_bound hs v) evidence)"

text \<open>\<open>path.rsplit("/", 1)[-1]\<close>.\<close>

definition object_of :: "string \<Rightarrow> string" where
  "object_of path = rev (takeWhile (\<lambda>c. c \<noteq> CHR ''/'') (rev path))"

definition identity_ok :: "request_evidence \<Rightarrow> bool" where
  "identity_ok e \<longleftrightarrow> re_status e = Some 200 \<and>
     (case re_excerpt e of
        JObj body \<Rightarrow> get_field body ''account_id'' = str_value (object_of (re_path e)) \<and>
          get_field body ''owner_id'' = opt_value (map_of OBJECTS (object_of (re_path e)))
      | _ \<Rightarrow> False)"

definition actor_of :: "request_evidence \<Rightarrow> string option" where
  "actor_of e = map_of PROFILE_ACTORS (re_profile e)"

text \<open>\<open>OBJECTS[obj]\<close>, on the path of bound evidence.\<close>

definition owner_of :: "request_evidence \<Rightarrow> string option" where
  "owner_of e = map_of OBJECTS (object_of (re_path e))"

definition cross_owner :: "request_evidence \<Rightarrow> bool" where
  "cross_owner e \<longleftrightarrow> actor_of e \<noteq> None \<and> actor_of e \<noteq> Some [] \<and> actor_of e \<noteq> owner_of e"

definition lab_finding_of :: "string option \<Rightarrow> request_evidence \<Rightarrow> lab_finding" where
  "lab_finding_of scan_id e =
     \<lparr>lf_id = ''finding-'' @ (case scan_id of None \<Rightarrow> [] | Some i \<Rightarrow> i @ ''-'') @ re_name e,
      lf_title = ''Broken Object Level Authorization in account lookup'', lf_severity = ''HIGH'',
      lf_category = ''API1:2023 BOLA'', lf_confidence = ''CONFIRMED'',
      lf_description = ''Synthetic principal '' @ the (actor_of e) @ '' read '' @ object_of (re_path e) @
        '', owned by '' @ the (owner_of e) @ ''.'',
      lf_remediation = ''Enforce authenticated object ownership before serialization.'',
      lf_evidence = [re_name e]\<rparr>"

definition verify_lab ::
  "hypothesis list \<Rightarrow> request_evidence list \<Rightarrow> variant \<Rightarrow> string option \<Rightarrow> lab_finding list" where
  "verify_lab hs evidence v scan_id =
     map (lab_finding_of scan_id) (filter (\<lambda>e. identity_ok e \<and> cross_owner e) (bound_evidence hs evidence v))"

definition forbidden_body :: "json \<Rightarrow> bool" where
  "forbidden_body b \<longleftrightarrow> equals_dict [(''detail'', equals_text ''Forbidden'')] b"

text \<open>The owner controls by profile, the last of each.\<close>

definition control_of :: "request_evidence list \<Rightarrow> string \<Rightarrow> request_evidence option" where
  "control_of matched profile =
     find (\<lambda>e. re_profile e = profile \<and> identity_ok e \<and> actor_of e = owner_of e) (rev matched)"

definition owner_profile :: "request_evidence \<Rightarrow> string option" where
  "owner_profile e = map_option fst (find (\<lambda>pa. Some (snd pa) = owner_of e) PROFILE_ACTORS)"

definition conclusive :: "request_evidence list \<Rightarrow> request_evidence \<Rightarrow> bool" where
  "conclusive matched e \<longleftrightarrow>
     re_status e = Some 200 \<and> identity_ok e \<and> control_of matched (re_profile e) \<noteq> None \<or>
     re_status e = Some 403 \<and> forbidden_body (re_excerpt e)"

text \<open>The controls that a denied cross-owner probe passes with.\<close>

definition denied_with :: "request_evidence list \<Rightarrow> nat \<Rightarrow> request_evidence \<Rightarrow> (request_evidence \<times> request_evidence) option" where
  "denied_with matched count probe =
     (case (control_of matched (re_profile probe), owner_profile probe) of
        (Some own, Some p) \<Rightarrow>
          (case control_of matched p of
             Some owner \<Rightarrow>
               if re_status probe = Some 403 \<and> cross_owner probe \<and> forbidden_body (re_excerpt probe) \<and>
                  re_path owner = re_path probe \<and> length matched = count \<and> list_all (conclusive matched) matched
               then Some (own, owner) else None
           | None \<Rightarrow> None)
      | _ \<Rightarrow> None)"

fun first_denied :: "request_evidence list \<Rightarrow> nat \<Rightarrow> request_evidence list \<Rightarrow> string list option" where
  "first_denied matched count [] = None"
| "first_denied matched count (probe # rest) =
     (case denied_with matched count probe of
        Some (own, owner) \<Rightarrow> Some [re_name own, re_name owner, re_name probe]
      | None \<Rightarrow> first_denied matched count rest)"

definition evaluate_lab :: "hypothesis list \<Rightarrow> request_evidence list \<Rightarrow> variant \<Rightarrow> verification" where
  "evaluate_lab hs evidence v =
     (let findings = verify_lab hs evidence v None; matched = bound_evidence hs evidence v in
      if findings \<noteq> [] then
        \<lparr>vf_status = CONFIRMED, vf_marker = [], vf_evidence = concat (map lf_evidence findings)\<rparr>
      else case first_denied matched (length evidence) matched of
        Some names \<Rightarrow> \<lparr>vf_status = PASS, vf_marker = [], vf_evidence = names\<rparr>
      | None \<Rightarrow> \<lparr>vf_status = INSUFFICIENT, vf_marker = [], vf_evidence = []\<rparr>)"

section \<open>What the verdicts mean\<close>

text \<open>A cross-owner read: evidence of a planned \<open>GET\<close> of an authorised object, answered with status 200
  and a body naming that object and its owner, sent by a principal who is not the owner.\<close>

definition cross_owner_read :: "hypothesis list \<Rightarrow> variant \<Rightarrow> request_evidence \<Rightarrow> bool" where
  "cross_owner_read hs v e \<longleftrightarrow> is_bound hs v e \<and> identity_ok e \<and> cross_owner e"

text \<open>The lab verifier confirms exactly when the evidence names are distinct and some item of it is
  a cross-owner read.\<close>

theorem lab_confirms_cross_owner_reads:
  "vf_status (evaluate_lab hs evidence v) = CONFIRMED \<longleftrightarrow>
     distinct (map re_name evidence) \<and> list_ex (cross_owner_read hs v) evidence"
proof -
  have "verify_lab hs evidence v None \<noteq> [] \<longleftrightarrow>
      distinct (map re_name evidence) \<and> list_ex (cross_owner_read hs v) evidence"
    by (auto simp: verify_lab_def bound_evidence_def cross_owner_read_def filter_empty_conv list_ex_iff)
  then show ?thesis by (auto simp: evaluate_lab_def Let_def split: option.split)
qed

lemma first_denied_Some:
  "first_denied matched n ps = Some names \<Longrightarrow>
     \<exists>probe\<in>set ps. \<exists>own owner. denied_with matched n probe = Some (own, owner) \<and>
       names = [re_name own, re_name owner, re_name probe]"
  by (induction ps) (auto split: option.splits prod.splits)

lemma control_of_Some:
  "control_of matched p = Some e \<Longrightarrow>
     e \<in> set matched \<and> re_profile e = p \<and> identity_ok e \<and> actor_of e = owner_of e"
  by (auto simp: control_of_def find_Some_iff) (metis length_rev nth_mem set_rev)

text \<open>An answer that settles its request: a read of the object that was asked for, by a profile that has a
  working control of its own, or the exact denial.\<close>

definition settles :: "request_evidence list \<Rightarrow> request_evidence \<Rightarrow> bool" where
  "settles evidence e \<longleftrightarrow>
     re_status e = Some 200 \<and> identity_ok e \<and>
       (\<exists>c\<in>set evidence. re_profile c = re_profile e \<and> identity_ok c \<and> actor_of c = owner_of c) \<or>
     re_status e = Some 403 \<and> forbidden_body (re_excerpt e)"

lemma conclusive_settles: "conclusive evidence e \<Longrightarrow> settles evidence e"
  using control_of_Some by (fastforce simp: conclusive_def settles_def)

text \<open>C26: the lab verifier passes only on a denial beside working controls: the evidence is complete and
  conclusive, that is, its names are distinct, all of it is bound to the plan, and every item of it
  is a proper read by a profile with a working control or the exact denial; some principal was denied an object of another with exactly the forbidden answer, that
  principal and the object's owner each read an object of their own, the owner this very one, and
  nobody read an object of another.\<close>

theorem lab_pass_needs_working_controls:
  assumes "vf_status (evaluate_lab hs evidence v) = PASS"
  shows "distinct (map re_name evidence) \<and> list_all (is_bound hs v) evidence \<and> list_all (settles evidence) evidence \<and> \<not> (\<exists>e\<in>set evidence. cross_owner_read hs v e) \<and>
    (\<exists>probe\<in>set evidence. \<exists>own\<in>set evidence. \<exists>owner\<in>set evidence.
       vf_evidence (evaluate_lab hs evidence v) = [re_name own, re_name owner, re_name probe] \<and>
       re_status probe = Some 403 \<and> forbidden_body (re_excerpt probe) \<and> cross_owner probe \<and>
       re_profile own = re_profile probe \<and> identity_ok own \<and> actor_of own = owner_of own \<and>
       re_path owner = re_path probe \<and> identity_ok owner \<and> actor_of owner = owner_of probe)"
proof -
  let ?m = "bound_evidence hs evidence v"
  have none: "verify_lab hs evidence v None = []"
    using assms by (auto simp: evaluate_lab_def Let_def split: if_splits)
  with assms obtain names where names: "first_denied ?m (length evidence) ?m = Some names"
    and shown: "vf_evidence (evaluate_lab hs evidence v) = names"
    by (auto simp: evaluate_lab_def Let_def split: option.splits)
  from first_denied_Some [OF names] obtain probe own owner where probe: "probe \<in> set ?m"
    and d: "denied_with ?m (length evidence) probe = Some (own, owner)"
    and n: "names = [re_name own, re_name owner, re_name probe]" by blast
  from d obtain p where own: "control_of ?m (re_profile probe) = Some own" and owner: "control_of ?m p = Some owner"
    and c: "re_status probe = Some 403" "cross_owner probe" "forbidden_body (re_excerpt probe)"
      "re_path owner = re_path probe" "length ?m = length evidence" and conclusive: "list_all (conclusive ?m) ?m"
    by (auto simp: denied_with_def split: option.splits if_splits)
  have "evidence \<noteq> []" using probe by (auto simp: bound_evidence_def split: if_splits)
  with c(5) have dist: "distinct (map re_name evidence)" and full: "length (filter (is_bound hs v) evidence) = length evidence"
    by (auto simp: bound_evidence_def split: if_splits)
  from full have bound: "list_all (is_bound hs v) evidence"
    by (metis filter_id_conv length_filter_less less_irrefl list_all_iff)
  have m: "?m = filter (is_bound hs v) evidence" using dist by (simp add: bound_evidence_def)
  have "?m = evidence" using bound by (simp add: m list_all_iff)
  then have "list_all (settles evidence) evidence"
    using conclusive conclusive_settles by (auto simp: list_all_iff)
  note settled = dist this
  have "\<not> (\<exists>e\<in>set evidence. cross_owner_read hs v e)"
    using none by (auto simp: verify_lab_def m cross_owner_read_def filter_empty_conv)
  moreover have "own \<in> set evidence" "owner \<in> set evidence" "probe \<in> set evidence"
    using control_of_Some [OF own] control_of_Some [OF owner] probe by (auto simp: m)
  moreover have "owner_of owner = owner_of probe" by (simp add: owner_of_def c(4))
  ultimately show ?thesis
    using bound settled c control_of_Some [OF own] control_of_Some [OF owner] unfolding shown n by metis
qed

definition demo_evidence :: "string \<Rightarrow> string \<Rightarrow> string \<Rightarrow> int \<Rightarrow> json \<Rightarrow> request_evidence" where
  "demo_evidence name oid profile status body =
     \<lparr>re_name = name, re_method = ''GET'', re_path = object_path Patched oid, re_profile = profile,
      re_status = Some status, re_excerpt = body, re_error = None\<rparr>"

definition demo_plan_of :: "request_evidence \<Rightarrow> planned_request" where
  "demo_plan_of e = \<lparr>pq_name = re_name e, pq_method = ''GET'', pq_path = re_path e, pq_profile = re_profile e,
     pq_purpose = ''check ownership''\<rparr>"

definition demo_denial :: "request_evidence list" where
  "demo_denial =
    [demo_evidence ''own'' ''A-100'' ''user_a'' 200 (obj [(''account_id'', str_value ''A-100''), (''owner_id'', str_value ''user-a'')]),
     demo_evidence ''owner'' ''B-200'' ''user_b'' 200 (obj [(''account_id'', str_value ''B-200''), (''owner_id'', str_value ''user-b'')]),
     demo_evidence ''cross'' ''B-200'' ''user_a'' 403 (obj [(''detail'', str_value ''Forbidden'')])]"

definition demo_hypotheses :: "hypothesis list" where
  "demo_hypotheses = [\<lparr>hy_id = ''h-1'', hy_title = ''ownership'', hy_category = ''BOLA'',
     hy_requests = map demo_plan_of demo_denial\<rparr>]"

lemma demo_lab_pass: "vf_status (evaluate_lab demo_hypotheses demo_denial Patched) = PASS"
  by code_simp

theorem lab_pass_needs_working_controls_witness:
  "vf_status (evaluate_lab demo_hypotheses demo_denial Patched) = PASS \<and>
   list_all (is_bound demo_hypotheses Patched) demo_denial \<and> list_all (settles demo_denial) demo_denial"
  using lab_pass_needs_working_controls [OF demo_lab_pass] demo_lab_pass by blast

end
