(* ===== verification/Report.thy ===== *)
theory Report
  imports Projection "HOL-Library.Code_Target_Nat"
begin

text \<open>
  Reading an untrusted ZAP report (\<open>aegis_zap/parser.py\<close>): size and shape checks, the fixed
  structure of sites, alerts and instances, and what becomes of an instance that was already seen.
  Which rules are admitted and what an instance turns into are arguments; \<open>Zap_Report\<close> gives them
  for the passive scan.  The state keeps the counters and the names of the stripped fields, which
  the outcome reports also when the reading stops half-way.
\<close>

section \<open>Outcomes\<close>

datatype parse_status = PARSED | PS_MISSING | PS_EMPTY | PS_MALFORMED | PS_OVERSIZED | PS_TRUNCATED | NOT_PARSED

datatype report_code = REPORT_MISSING | REPORT_OVERSIZED | REPORT_TRUNCATED | REPORT_MALFORMED
  | ENGINE_INTEGRITY | SCOPE_ESCAPE | UNADMITTED_RULE | UNEXPECTED_PARAM
  | OUTPUT_OVERSIZED | OUTPUT_TRUNCATED | OUTPUT_MALFORMED | COVERAGE_INCOMPLETE

text \<open>A \<open>_Reject\<close>, or any other exception.\<close>

datatype report_error = Rejects parse_status report_code | Faulted

record parse_summary =
  ps_status :: parse_status
  ps_code :: "report_code option"
  ps_sites :: nat
  ps_alerts :: nat
  ps_instances :: nat
  ps_records :: nat
  ps_duplicates :: nat
  ps_stripped :: "string list"

record ('k, 'r) report_state =
  rs_sites :: nat
  rs_alerts :: nat
  rs_instances :: nat
  rs_stripped :: "string list"
  rs_table :: "('k \<times> 'r) list"
  rs_duplicates :: nat

definition fresh_report :: "('k, 'r) report_state" where
  "fresh_report = \<lparr>rs_sites = 0, rs_alerts = 0, rs_instances = 0, rs_stripped = [], rs_table = [], rs_duplicates = 0\<rparr>"

text \<open>\<open>_summary\<close>; the set of stripped names comes out sorted.\<close>

definition summary :: "parse_status \<Rightarrow> report_code option \<Rightarrow> ('k, 'r) report_state \<Rightarrow> nat \<Rightarrow> nat \<Rightarrow> parse_summary" where
  "summary status code s records duplicates =
     \<lparr>ps_status = status, ps_code = code, ps_sites = rs_sites s, ps_alerts = rs_alerts s,
      ps_instances = rs_instances s, ps_records = records, ps_duplicates = duplicates,
      ps_stripped = sort (remdups (rs_stripped s))\<rparr>"

section \<open>Values\<close>

definition MAX_SITES :: nat where "MAX_SITES = 4"
definition REPORT_STRING :: nat where "REPORT_STRING = 8192"

definition TOP_KEYS :: "string list" where
  "TOP_KEYS = [''@programName'', ''@version'', ''@generated'', ''created'', ''site'', ''insights'']"
definition SITE_KEYS :: "string list" where
  "SITE_KEYS = [''@name'', ''@host'', ''@port'', ''@ssl'', ''alerts'']"
definition ALERT_KEYS :: "string list" where
  "ALERT_KEYS = [''pluginid'', ''alertRef'', ''alert'', ''name'', ''riskcode'', ''confidence'', ''riskdesc'',
     ''desc'', ''instances'', ''count'', ''systemic'', ''solution'', ''otherinfo'', ''reference'', ''cweid'',
     ''wascid'', ''sourceid'', ''tags'']"
definition INSTANCE_KEYS :: "string list" where
  "INSTANCE_KEYS = [''id'', ''uri'', ''nodeName'', ''method'', ''param'', ''attack'', ''evidence'', ''otherinfo'']"
definition PROSE_KEYS :: "string list" where
  "PROSE_KEYS = [''desc'', ''solution'', ''otherinfo'', ''reference'', ''riskdesc'', ''tags'']"

definition RISK :: "(string \<times> string) list" where
  "RISK = [(''0'', ''info''), (''1'', ''low''), (''2'', ''medium''), (''3'', ''high'')]"
definition CONFIDENCE :: "(string \<times> string) list" where
  "CONFIDENCE = [(''0'', ''falsepositive''), (''1'', ''low''), (''2'', ''medium''), (''3'', ''high''),
     (''4'', ''confirmed'')]"

definition is_report_param :: "char \<Rightarrow> bool" where
  "is_report_param c \<longleftrightarrow> is_alnum c \<or> c = CHR ''_'' \<or> c = CHR ''.'' \<or> c = CHR ''-''"

definition REPORT_PARAM :: rx where "REPORT_PARAM = R_count 0 100 (R_ascii is_report_param)"

definition known_keys :: "string list \<Rightarrow> (points \<times> json) list \<Rightarrow> bool" where
  "known_keys names kvs \<longleftrightarrow> list_all (\<lambda>k. k \<in> set (map points_of names)) (map fst kvs)"

primrec short_strings :: "json \<Rightarrow> bool" where
  "short_strings JNull = True"
| "short_strings (JBool b) = True"
| "short_strings (JInt i) = True"
| "short_strings (JFloat x) = True"
| "short_strings (JStr p) = (length p \<le> REPORT_STRING)"
| "short_strings (JArr vs) = list_all id (map short_strings vs)"
| "short_strings (JObj kvs) = list_all snd (map (map_prod id short_strings) kvs)"

text \<open>\<open>dict.get\<close> with a default: an explicit \<open>null\<close> stays \<open>None\<close>.\<close>

definition get_default :: "(points \<times> json) list \<Rightarrow> string \<Rightarrow> json \<Rightarrow> json" where
  "get_default kvs k d = (case field kvs k of None \<Rightarrow> d | Some v \<Rightarrow> v)"

text \<open>\<open>str(value)\<close>, where it is compared with a numeral: the texts of \<open>None\<close>, a truth value, a float, a
  list or a dictionary are none.\<close>

definition numeral_text :: "json \<Rightarrow> points option" where
  "numeral_text v = (case v of JStr p \<Rightarrow> Some p | JInt i \<Rightarrow> Some (points_of (int_str i)) | _ \<Rightarrow> None)"

definition label_of :: "(string \<times> string) list \<Rightarrow> json \<Rightarrow> string option" where
  "label_of tbl v = (case numeral_text v of None \<Rightarrow> None
     | Some p \<Rightarrow> map_of (map (\<lambda>(k, l). (points_of k, l)) tbl) p)"

text \<open>\<open>str.isdigit\<close> and \<open>int\<close> on a text of digits. Outside ASCII the character database decides
  (\<open>udigit\<close>): \<open>None\<close> is no digit, \<open>Some None\<close> a digit such as a superscript that \<open>int\<close> refuses.\<close>

definition is_digit_point :: "(nat \<Rightarrow> nat option option) \<Rightarrow> nat \<Rightarrow> bool" where
  "is_digit_point udigit n \<longleftrightarrow> (if n < 128 then 48 \<le> n \<and> n \<le> 57 else udigit n \<noteq> None)"

definition digit_value :: "(nat \<Rightarrow> nat option option) \<Rightarrow> nat \<Rightarrow> nat option" where
  "digit_value udigit n = (if n < 128 then Some (n - 48) else case udigit n of None \<Rightarrow> None | Some v \<Rightarrow> v)"

definition number_of_digits :: "(nat \<Rightarrow> nat option option) \<Rightarrow> points \<Rightarrow> nat option" where
  "number_of_digits udigit p = map_option (foldl (\<lambda>v d. 10 * v + d) 0) (all_some (map (digit_value udigit) p))"

text \<open>\<open>text.encode()\<close>: a lone surrogate raises.\<close>

definition encode_point :: "nat \<Rightarrow> string option" where
  "encode_point n =
     (if n < 0x80 then Some [char_of n]
      else if n < 0x800 then Some [char_of (0xC0 + n div 64), char_of (0x80 + n mod 64)]
      else if 0xD800 \<le> n \<and> n \<le> 0xDFFF then None
      else if n < 0x10000 then
        Some [char_of (0xE0 + n div 4096), char_of (0x80 + n div 64 mod 64), char_of (0x80 + n mod 64)]
      else Some [char_of (0xF0 + n div 262144), char_of (0x80 + n div 4096 mod 64),
        char_of (0x80 + n div 64 mod 64), char_of (0x80 + n mod 64)])"

definition encode_utf8 :: "points \<Rightarrow> string option" where
  "encode_utf8 p = map_option concat (all_some (map encode_point p))"

section \<open>The reading\<close>

type_synonym ('k, 'r, 'a) reading = "(('k, 'r) report_state, report_error, 'a) prog"

definition malformed :: "bool \<Rightarrow> ('k, 'r, unit) reading" where
  "malformed bad = rejectE bad (Rejects PS_MALFORMED REPORT_MALFORMED)"

definition oversized :: "bool \<Rightarrow> ('k, 'r, unit) reading" where
  "oversized bad = rejectE bad (Rejects PS_OVERSIZED REPORT_OVERSIZED)"

definition mismatch :: "report_code \<Rightarrow> bool \<Rightarrow> ('k, 'r, unit) reading" where
  "mismatch code bad = rejectE bad (Rejects PS_MALFORMED code)"

definition fault :: "bool \<Rightarrow> ('k, 'r, unit) reading" where
  "fault bad = rejectE bad Faulted"

definition strips :: "string list \<Rightarrow> ('k, 'r, unit) reading" where
  "strips names = modifyE (\<lambda>s. s\<lparr>rs_stripped := rs_stripped s @ names\<rparr>)"

definition dict_with :: "string list \<Rightarrow> json \<Rightarrow> ('k, 'r, (points \<times> json) list) reading" where
  "dict_with names v =
     (case v of
        JObj kvs \<Rightarrow> thenE (malformed (\<not> known_keys names kvs)) (retE kvs)
      | _ \<Rightarrow> throwE (Rejects PS_MALFORMED REPORT_MALFORMED))"

text \<open>A record met again collapses when its digest is the same, and is a contradiction otherwise.\<close>

definition enter :: "report_code \<Rightarrow> ('r \<Rightarrow> string) \<Rightarrow> 'k \<Rightarrow> 'r \<Rightarrow> ('k, 'r, unit) reading" where
  "enter code digest k r =
     bindE (getE (\<lambda>s. map_of (rs_table s) k)) (\<lambda>existing.
       case existing of
         None \<Rightarrow> modifyE (\<lambda>s. s\<lparr>rs_table := rs_table s @ [(k, r)]\<rparr>)
       | Some old \<Rightarrow> thenE (mismatch code (digest old \<noteq> digest r)) (modifyE (\<lambda>s. s\<lparr>rs_duplicates := rs_duplicates s + 1\<rparr>)))"

record ('k, 'r, 'rule) report_reader =
  rd_origin :: string
  rd_max_alerts :: nat
  rd_max_instances :: nat
  rd_admit :: "points \<Rightarrow> (points \<times> json) list \<Rightarrow> report_error + 'rule"
  rd_instance :: "'rule \<Rightarrow> string \<Rightarrow> string \<Rightarrow> (points \<times> json) list \<Rightarrow> ('k, 'r, unit) reading"

definition read_instance :: "('k, 'r, 'rule) report_reader \<Rightarrow> 'rule \<Rightarrow> string \<Rightarrow> string \<Rightarrow> json \<Rightarrow> ('k, 'r, unit) reading" where
  "read_instance R rule risk confidence v =
     thenE (modifyE (\<lambda>s. s\<lparr>rs_instances := rs_instances s + 1\<rparr>))
      (bindE (dict_with INSTANCE_KEYS v) (\<lambda>i.
        thenE (strips (if has_key i ''otherinfo'' then [''instance.otherinfo''] else []))
          (rd_instance R rule risk confidence i)))"

text \<open>The plugin id of an alert, a text of at most six digits.\<close>

definition plugin_of :: "(nat \<Rightarrow> nat option option) \<Rightarrow> (points \<times> json) list \<Rightarrow> points option" where
  "plugin_of udigit a =
     (case get_field a ''pluginid'' of
        JStr p \<Rightarrow> if p \<noteq> [] \<and> list_all (is_digit_point udigit) p \<and> length p \<le> 6 then Some p else None
      | _ \<Rightarrow> None)"

definition lift :: "report_error + 'a \<Rightarrow> ('k, 'r, 'a) reading" where
  "lift x = (case x of Inl e \<Rightarrow> throwE e | Inr a \<Rightarrow> retE a)"

definition read_body ::
  "('k, 'r, 'rule) report_reader \<Rightarrow> 'rule \<Rightarrow> (points \<times> json) list \<Rightarrow> ('k, 'r, unit) reading" where
  "read_body R rule a =
     (case (label_of RISK (get_field a ''riskcode''), label_of CONFIDENCE (get_field a ''confidence''),
         get_field a ''instances'') of
        (Some risk, Some confidence, JArr vs) \<Rightarrow>
          thenE (oversized (vs = [] \<or> rd_max_instances R < length vs))
           (thenE (malformed (numeral_text (get_field a ''count'') \<noteq> Some (points_of (nat_str (length vs)))))
             (eachE (read_instance R rule risk confidence) vs))
      | _ \<Rightarrow> throwE (Rejects PS_MALFORMED REPORT_MALFORMED))"

definition read_alert ::
  "(nat \<Rightarrow> nat option option) \<Rightarrow> ('k, 'r, 'rule) report_reader \<Rightarrow> json \<Rightarrow> ('k, 'r, unit) reading" where
  "read_alert udigit R v =
     thenE (modifyE (\<lambda>s. s\<lparr>rs_alerts := rs_alerts s + 1\<rparr>))
      (bindE (getE rs_alerts) (\<lambda>n.
       thenE (oversized (rd_max_alerts R < n))
        (bindE (dict_with ALERT_KEYS v) (\<lambda>a.
         thenE (strips (filter (has_key a) PROSE_KEYS))
          (case plugin_of udigit a of
             None \<Rightarrow> throwE (Rejects PS_MALFORMED REPORT_MALFORMED)
           | Some p \<Rightarrow> bindE (lift (rd_admit R p a)) (\<lambda>rule. read_body R rule a))))))"

definition read_site ::
  "(nat \<Rightarrow> nat option option) \<Rightarrow> ('k, 'r, 'rule) report_reader \<Rightarrow> json \<Rightarrow> ('k, 'r, unit) reading" where
  "read_site udigit R v =
     thenE (modifyE (\<lambda>s. s\<lparr>rs_sites := rs_sites s + 1\<rparr>))
      (bindE (dict_with SITE_KEYS v) (\<lambda>site.
       thenE (mismatch SCOPE_ESCAPE (get_field site ''@name'' \<noteq> str_value (rd_origin R) \<or>
           get_field site ''@ssl'' \<noteq> str_value ''false''))
        (case get_field site ''alerts'' of
           JArr alerts \<Rightarrow> eachE (read_alert udigit R) alerts
         | _ \<Rightarrow> throwE (Rejects PS_MALFORMED REPORT_MALFORMED))))"

definition read_report ::
  "(nat \<Rightarrow> nat option option) \<Rightarrow> ('k, 'r, 'rule) report_reader \<Rightarrow> string \<Rightarrow> json \<Rightarrow> ('k, 'r, unit) reading" where
  "read_report udigit R version v =
     bindE (dict_with TOP_KEYS v) (\<lambda>report.
      thenE (oversized (\<not> short_strings v))
       (thenE (malformed (get_field report ''@programName'' \<noteq> str_value ''ZAP''))
        (thenE (mismatch ENGINE_INTEGRITY (get_field report ''@version'' \<noteq> str_value version))
         (case get_field report ''site'' of
            JArr sites \<Rightarrow> thenE (oversized (MAX_SITES < length sites)) (eachE (read_site udigit R) sites)
          | _ \<Rightarrow> throwE (Rejects PS_OVERSIZED REPORT_OVERSIZED)))))"

text \<open>\<open>bytes.strip\<close> removes ASCII white space only.\<close>

definition byte_space :: "char \<Rightarrow> bool" where
  "byte_space c \<longleftrightarrow> (let n = of_char c :: nat in 9 \<le> n \<and> n \<le> 13 \<or> n = 32)"

definition decode_report :: "string \<Rightarrow> ('k, 'r, json) reading" where
  "decode_report raw =
     (case (decode_utf8 raw, loads raw) of
        (Some _, Inr v) \<Rightarrow> retE v
      | _ \<Rightarrow> throwE (Rejects PS_MALFORMED REPORT_MALFORMED))"

definition parse_report ::
  "(nat \<Rightarrow> nat option option) \<Rightarrow> ('k::linorder, 'r, 'rule) report_reader \<Rightarrow> string \<Rightarrow> nat \<Rightarrow> string option \<Rightarrow>
   parse_summary \<times> 'r list" where
  "parse_report udigit R version max_bytes data =
     (let failed = (\<lambda>status code. (summary status (Some code) (fresh_report :: ('k, 'r) report_state) 0 0, [])) in
      case data of
        None \<Rightarrow> failed PS_MISSING REPORT_MISSING
      | Some raw \<Rightarrow>
          if max_bytes < length raw then failed PS_OVERSIZED REPORT_OVERSIZED
          else if list_all byte_space raw then failed PS_EMPTY REPORT_MISSING
          else if take 1 (dropWhile byte_space (rev raw)) \<noteq> ''}'' then failed PS_TRUNCATED REPORT_TRUNCATED
          else (case bindE (decode_report raw) (read_report udigit R version) fresh_report of
              (Inl (Rejects status code), s) \<Rightarrow> (summary status (Some code) s 0 0, [])
            | (Inl Faulted, s) \<Rightarrow> failed NOT_PARSED REPORT_MALFORMED
            | (Inr _, s) \<Rightarrow>
                let records = map snd (sort_key fst (rs_table s)) in
                (summary PARSED None s (length records) (rs_duplicates s), records)))"

end
