(* ===== verification/Report_Props.thy ===== *)
theory Report_Props
  imports Report
begin

text \<open>
  What the reading guarantees for every reader: a report that is accepted has a consistent count of
  records, and the fields that no check reads have no influence.  Both are stated as interfaces that
  a reader's instance handler satisfies.
\<close>

section \<open>Accepted reports\<close>

lemma find_mem: "find P xs = Some x \<Longrightarrow> x \<in> set xs \<and> P x"
  by (induction xs) (auto split: if_splits)

named_theorems reads "inversions of a reading that returned"

lemma checks_Inr [reads]:
  "malformed bad s = (Inr u, t) \<longleftrightarrow> \<not> bad \<and> t = s"
  "oversized bad s = (Inr u, t) \<longleftrightarrow> \<not> bad \<and> t = s"
  "mismatch code bad s = (Inr u, t) \<longleftrightarrow> \<not> bad \<and> t = s"
  "fault bad s = (Inr u, t) \<longleftrightarrow> \<not> bad \<and> t = s"
  by (auto simp: malformed_def oversized_def mismatch_def fault_def rejectE_run)

lemma bindE_Inr [reads]:
  "bindE m f s = (Inr b, t) \<longleftrightarrow> (\<exists>a u. m s = (Inr a, u) \<and> f a u = (Inr b, t))"
  by (auto simp: bindE_run split: prod.splits sum.splits)

lemma strips_Inr [reads]:
  "strips names s = (Inr u, t) \<longleftrightarrow> t = s\<lparr>rs_stripped := rs_stripped s @ names\<rparr>"
  by (auto simp: strips_def)

lemma dict_with_Inr [reads]:
  "dict_with names v s = (Inr kvs, t) \<longleftrightarrow> v = JObj kvs \<and> known_keys names kvs \<and> t = s"
  by (auto simp: dict_with_def malformed_def bindE_run rejectE_run split: json.split sum.splits)

lemma lift_Inr [reads]: "lift x s = (Inr a, t) \<longleftrightarrow> x = Inr a \<and> t = s"
  by (auto simp: lift_def split: sum.splits)

lemma simple_Inr [reads]:
  "modifyE g s = (Inr u, t) \<longleftrightarrow> t = g s"
  "getE h s = (Inr a, t) \<longleftrightarrow> a = h s \<and> t = s"
  "\<not> throwE e s = (Inr a, t)"
  by auto

lemma array_Inr [reads]:
  "(case v of JArr xs \<Rightarrow> f xs | _ \<Rightarrow> throwE e) s = (Inr u, t) \<longleftrightarrow> (\<exists>xs. v = JArr xs \<and> f xs s = (Inr u, t))"
  by (cases v) simp_all

text \<open>One step of the table: a new identity, or a duplicate.\<close>

definition entered :: "('k \<Rightarrow> 'r \<Rightarrow> bool) \<Rightarrow> ('k, 'r) report_state \<Rightarrow> ('k, 'r) report_state \<Rightarrow> bool" where
  "entered good s t \<longleftrightarrow>
     rs_alerts t = rs_alerts s \<and> rs_instances t = rs_instances s \<and>
     (rs_table t = rs_table s \<and> rs_duplicates t = rs_duplicates s + 1 \<or>
      (\<exists>k r. good k r \<and> map_of (rs_table s) k = None \<and> rs_table t = rs_table s @ [(k, r)] \<and>
         rs_duplicates t = rs_duplicates s))"

lemma enter_Inr:
  assumes "enter code digest k r s = (Inr u, t)" and "good k r"
  shows "entered good s t"
  using assms by (auto simp: enter_def entered_def reads split: option.splits)

definition report_ok ::
  "('k \<Rightarrow> 'r \<Rightarrow> bool) \<Rightarrow> ('k, 'r, 'rule) report_reader \<Rightarrow> nat \<Rightarrow> ('k, 'r) report_state \<Rightarrow> bool" where
  "report_ok good R credit s \<longleftrightarrow>
     (\<forall>(k, r)\<in>set (rs_table s). good k r) \<and> distinct (map fst (rs_table s)) \<and>
     length (rs_table s) + rs_duplicates s = rs_instances s \<and>
     rs_instances s + credit \<le> rs_alerts s * rd_max_instances R \<and> rs_alerts s \<le> rd_max_alerts R"

locale confined_reader =
  fixes R :: "('k::linorder, 'r, 'rule) report_reader" and good :: "'k \<Rightarrow> 'r \<Rightarrow> bool"
  assumes instance_entered:
    "rd_admit R p a = Inr rule \<Longrightarrow> risk \<in> snd ` set RISK \<Longrightarrow> confidence \<in> snd ` set CONFIDENCE \<Longrightarrow>
     rd_instance R rule risk confidence i s = (Inr u, t) \<Longrightarrow> entered good s t"
begin

lemma entered_ok:
  assumes "entered good s t" and "report_ok good R (Suc n) (s\<lparr>rs_instances := rs_instances s - 1\<rparr>)"
    and "rs_instances s > 0"
  shows "report_ok good R n t"
proof -
  from assms(1) consider
    "rs_table t = rs_table s" "rs_duplicates t = rs_duplicates s + 1"
    | k r where "good k r" "map_of (rs_table s) k = None" "rs_table t = rs_table s @ [(k, r)]"
        "rs_duplicates t = rs_duplicates s"
    unfolding entered_def by blast
  moreover have "rs_alerts t = rs_alerts s" "rs_instances t = rs_instances s"
    using assms(1) by (simp_all add: entered_def)
  ultimately show ?thesis
    using assms(2,3)
    by cases (auto simp: report_ok_def map_of_eq_None_iff)
qed

lemma instances_ok:
  assumes "rd_admit R p a = Inr rule" and "risk \<in> snd ` set RISK" and "confidence \<in> snd ` set CONFIDENCE"
  shows "eachE (read_instance R rule risk confidence) vs s = (Inr u, t) \<Longrightarrow> report_ok good R (length vs) s \<Longrightarrow>
    report_ok good R 0 t"
proof (induction vs arbitrary: s)
  case (Cons v vs)
  from Cons.prems(1) obtain w where w: "read_instance R rule risk confidence v s = (Inr (), w)"
    and rest: "eachE (read_instance R rule risk confidence) vs w = (Inr u, t)"
    by (auto simp: reads)
  from w obtain i names where
    "rd_instance R rule risk confidence i
       (s\<lparr>rs_instances := rs_instances s + 1, rs_stripped := names\<rparr>) = (Inr (), w)"
    by (auto simp: read_instance_def reads)
  from entered_ok [OF instance_entered [OF assms this], of "length vs"] Cons.prems(2)
  have "report_ok good R (length vs) w" by (simp add: report_ok_def)
  with rest show ?case by (rule Cons.IH)
qed simp

lemma label_of_mem: "label_of tbl v = Some l \<Longrightarrow> l \<in> snd ` set tbl"
proof -
  assume "label_of tbl v = Some l"
  then obtain p where "map_of (map (\<lambda>(k, l). (points_of k, l)) tbl) p = Some l"
    by (auto simp: label_of_def split: option.splits)
  then have "(p, l) \<in> (\<lambda>(k, l). (points_of k, l)) ` set tbl" by (metis map_of_SomeD set_map)
  then show "l \<in> snd ` set tbl" by force
qed

lemma alert_ok:
  assumes "read_alert udigit R v s = (Inr u, t)" and "report_ok good R 0 s"
  shows "report_ok good R 0 t"
proof -
  from assms(1) obtain a p rule names where bound: "rs_alerts s + 1 \<le> rd_max_alerts R"
    and admit: "rd_admit R p a = Inr rule"
    and body: "read_body R rule a (s\<lparr>rs_alerts := rs_alerts s + 1, rs_stripped := names\<rparr>) = (Inr u, t)"
    by (auto simp: read_alert_def reads split: option.splits)
  from body obtain risk confidence vs where labels: "risk \<in> snd ` set RISK" "confidence \<in> snd ` set CONFIDENCE"
    and few: "length vs \<le> rd_max_instances R"
    and each: "eachE (read_instance R rule risk confidence) vs
       (s\<lparr>rs_alerts := rs_alerts s + 1, rs_stripped := names\<rparr>) = (Inr u, t)"
    by (auto simp: read_body_def reads split: option.splits json.splits dest!: label_of_mem) force
  show ?thesis
    by (rule instances_ok [OF admit labels each]) (use assms(2) bound few in \<open>auto simp: report_ok_def\<close>)
qed

lemma each_ok:
  "(\<And>v s t u. f v s = (Inr u, t) \<Longrightarrow> report_ok good R 0 s \<Longrightarrow> report_ok good R 0 t) \<Longrightarrow>
   eachE f vs s = (Inr u, t) \<Longrightarrow> report_ok good R 0 s \<Longrightarrow> report_ok good R 0 t"
  by (induction vs arbitrary: s) (auto simp: reads)

lemma site_ok:
  assumes "read_site udigit R v s = (Inr u, t)" and "report_ok good R 0 s"
  shows "report_ok good R 0 t"
proof -
  from assms(1) obtain alerts where
    "eachE (read_alert udigit R) alerts (s\<lparr>rs_sites := rs_sites s + 1\<rparr>) = (Inr u, t)"
    by (auto simp: read_site_def reads)
  then show ?thesis
  proof (rule each_ok [rotated])
    show "report_ok good R 0 (s\<lparr>rs_sites := rs_sites s + 1\<rparr>)" using assms(2) by (simp add: report_ok_def)
  qed (rule alert_ok)
qed

lemma summary_code [simp]:
  "ps_code (summary status code s n d) = code" "ps_status (summary status code s n d) = status"
  by (simp_all add: summary_def)

lemma parsed_ok:
  assumes "parse_report udigit R version max_bytes data = (summ, records)"
  obtains "ps_code summ \<noteq> None" and "records = []"
  | s where "report_ok good R 0 s" and "records = map snd (sort_key fst (rs_table s))"
      and "summ = summary PARSED None s (length records) (rs_duplicates s)"
proof (cases "\<exists>raw s. bindE (decode_report raw) (read_report udigit R version) fresh_report = (Inr (), s) \<and>
    records = map snd (sort_key fst (rs_table s)) \<and>
    summ = summary PARSED None s (length records) (rs_duplicates s)")
  case False
  have "ps_code summ \<noteq> None \<and> records = []"
  proof (cases data)
    case (Some raw)
    obtain r s where run: "bindE (decode_report raw) (read_report udigit R version) fresh_report = (r, s)"
      by (cases "bindE (decode_report raw) (read_report udigit R version) fresh_report")
    show ?thesis
    proof (cases r)
      case (Inl e)
      then show ?thesis using assms Some
        by (cases e) (auto simp: parse_report_def Let_def run split: if_split_asm)
    next
      case (Inr u)
      then show ?thesis using assms Some run False
        by (auto simp: parse_report_def Let_def split: if_split_asm)
    qed
  qed (use assms in \<open>auto simp: parse_report_def\<close>)
  then show ?thesis by (intro that(1)) simp_all
next
  case True
  then obtain raw s where run: "bindE (decode_report raw) (read_report udigit R version) fresh_report = (Inr (), s)"
    and out: "records = map snd (sort_key fst (rs_table s))"
      "summ = summary PARSED None s (length records) (rs_duplicates s)"
    by blast
  have start: "report_ok good R 0 fresh_report" by (simp add: report_ok_def fresh_report_def)
  from run obtain sites where "eachE (read_site udigit R) sites fresh_report = (Inr (), s)"
    by (auto simp: decode_report_def read_report_def reads split: option.splits sum.splits)
  then have "report_ok good R 0 s" by (rule each_ok [rotated]) (use start in \<open>auto intro: site_ok\<close>)
  with out show ?thesis by (intro that(2))
qed

end

text \<open>Where each row is keyed by the identity of its record, the records come strictly ordered by it.\<close>

lemma keyed_records:
  assumes ok: "\<forall>(k, r)\<in>set (rs_table s). k = key r \<and> ok r" and keys: "distinct (map fst (rs_table s))"
  shows "list_all ok (map snd (sort_key fst (rs_table s)))"
    and "sorted_wrt (\<lambda>x y. key x < key y) (map snd (sort_key fst (rs_table s)))"
proof -
  from ok show "list_all ok (map snd (sort_key fst (rs_table s)))" by (auto simp: list_all_iff)
  have "map key (map snd (sort_key fst (rs_table s))) = map fst (sort_key fst (rs_table s))"
    using ok by (auto intro!: map_cong)
  moreover have "sorted_wrt (<) (map fst (sort_key fst (rs_table s)))"
    using keys by (simp add: strict_sorted_iff sorted_sort_key distinct_map)
  ultimately have "sorted_wrt (<) (map key (map snd (sort_key fst (rs_table s))))" by (simp only:)
  then show "sorted_wrt (\<lambda>x y. key x < key y) (map snd (sort_key fst (rs_table s)))"
    unfolding sorted_wrt_map .
qed

lemma identified_records:
  assumes "report_ok (\<lambda>k r. k = key r \<and> ok r) R n s"
  shows "list_all ok (map snd (sort_key fst (rs_table s)))"
    and "sorted_wrt (\<lambda>x y. key x < key y) (map snd (sort_key fst (rs_table s)))"
  using keyed_records [of s key ok] assms by (simp_all add: report_ok_def)

section \<open>Fields without influence\<close>

text \<open>A report with every field blanked that no check reads: dates, prose, references, identifiers of
  the scanner's own.\<close>

definition blank_fields :: "string list \<Rightarrow> (points \<times> json) list \<Rightarrow> (points \<times> json) list" where
  "blank_fields names kvs = map (\<lambda>(k, v). (k, if k \<in> set (map points_of names) then JNull else v)) kvs"

definition over_items :: "(json \<Rightarrow> json) \<Rightarrow> json \<Rightarrow> json" where
  "over_items f v = (case v of JArr xs \<Rightarrow> JArr (map f xs) | _ \<Rightarrow> v)"

definition over_list :: "(json \<Rightarrow> json) \<Rightarrow> string \<Rightarrow> (points \<times> json) list \<Rightarrow> (points \<times> json) list" where
  "over_list f name kvs = map (\<lambda>(k, v). (k, if k = points_of name then over_items f v else v)) kvs"

definition over_object :: "((points \<times> json) list \<Rightarrow> (points \<times> json) list) \<Rightarrow> json \<Rightarrow> json" where
  "over_object f v = (case v of JObj kvs \<Rightarrow> JObj (f kvs) | _ \<Rightarrow> v)"

definition UNREAD_INSTANCE :: "string list" where "UNREAD_INSTANCE = [''id'', ''nodeName'', ''otherinfo'']"
definition UNREAD_ALERT :: "string list" where
  "UNREAD_ALERT = PROSE_KEYS @ [''systemic'', ''cweid'', ''wascid'', ''sourceid'']"
definition UNREAD_SITE :: "string list" where "UNREAD_SITE = [''@host'', ''@port'']"
definition UNREAD_TOP :: "string list" where "UNREAD_TOP = [''@generated'', ''created'', ''insights'']"

definition blank_instance :: "json \<Rightarrow> json" where
  "blank_instance = over_object (blank_fields UNREAD_INSTANCE)"
definition blank_alert :: "json \<Rightarrow> json" where
  "blank_alert = over_object (\<lambda>a. over_list blank_instance ''instances'' (blank_fields UNREAD_ALERT a))"
definition blank_site :: "json \<Rightarrow> json" where
  "blank_site = over_object (\<lambda>a. over_list blank_alert ''alerts'' (blank_fields UNREAD_SITE a))"
definition blank_report :: "json \<Rightarrow> json" where
  "blank_report = over_object (\<lambda>a. over_list blank_site ''site'' (blank_fields UNREAD_TOP a))"

named_theorems unread "blanking leaves what is read"

lemma map_of_over: "map_of (map (\<lambda>(k, v). (k, f k v)) kvs) k = map_option (f k) (map_of kvs k)"
  by (induction kvs) auto

lemma keys_blank [unread]:
  "map fst (blank_fields names kvs) = map fst kvs" "map fst (over_list f name kvs) = map fst kvs"
  by (simp_all add: blank_fields_def over_list_def comp_def case_prod_beta)

lemma known_blank [unread]:
  "known_keys ks (blank_fields names kvs) = known_keys ks kvs"
  "known_keys ks (over_list f name kvs) = known_keys ks kvs"
  "has_key (blank_fields names kvs) = has_key kvs"
  "has_key (over_list f name kvs) = has_key kvs"
  unfolding known_keys_def has_key_def keys_blank by simp_all

lemma field_blank:
  "field (blank_fields names kvs) k = map_option (\<lambda>v. if k \<in> set names then JNull else v) (field kvs k)"
  "field (over_list f name kvs) k = map_option (\<lambda>v. if k = name then over_items f v else v) (field kvs k)"
proof -
  have "points_of k \<in> points_of ` set names \<longleftrightarrow> k \<in> set names" by auto
  then show "field (blank_fields names kvs) k = map_option (\<lambda>v. if k \<in> set names then JNull else v) (field kvs k)"
    unfolding field_def blank_fields_def map_of_over set_map by simp
  show "field (over_list f name kvs) k = map_option (\<lambda>v. if k = name then over_items f v else v) (field kvs k)"
    unfolding field_def over_list_def map_of_over points_of_inject ..
qed

lemma get_blank [unread]:
  "get_field (blank_fields names kvs) k = (if k \<in> set names then JNull else get_field kvs k)"
  unfolding get_field_def field_blank by (cases "field kvs k") simp_all

lemma get_default_blank [unread]:
  "k \<notin> set names \<Longrightarrow> get_default (blank_fields names kvs) k d = get_default kvs k d"
  unfolding get_default_def field_blank by (cases "field kvs k") simp_all

lemma get_over [unread]:
  "get_field (over_list f name kvs) k = (if k = name then over_items f (get_field kvs k) else get_field kvs k)"
  unfolding get_field_def field_blank by (cases "k = name"; cases "field kvs k") (simp_all add: over_items_def)

lemma eachE_over: "(\<And>x. f (g x) = f x) \<Longrightarrow> eachE f (map g xs) = eachE f xs"
  by (induction xs) auto

lemma dict_over: "(\<And>kvs. map fst (g kvs) = map fst kvs) \<Longrightarrow>
    bindE (dict_with names (over_object g v)) f = bindE (dict_with names v) (\<lambda>kvs. f (g kvs))"
  by (rule ext, cases v)
    (auto simp: dict_with_def over_object_def known_keys_def bindE_run malformed_def rejectE_run)

lemma short_over:
  assumes "\<And>v. short_strings v \<Longrightarrow> short_strings (f v)" and "short_strings v"
  shows "short_strings (over_items f v)"
    and "short_strings (over_object (\<lambda>a. over_list f name (blank_fields names a)) v)"
proof -
  have items: "short_strings (over_items f w)" if "short_strings w" for w
    using that assms(1) by (cases w) (auto simp: over_items_def list_all_iff)
  then show "short_strings (over_items f v)" using assms(2) .
  show "short_strings (over_object (\<lambda>a. over_list f name (blank_fields names a)) v)"
    using assms(2) items
    by (cases v) (auto simp: over_object_def over_list_def blank_fields_def list_all_iff)
qed

lemma short_blank: "short_strings v \<Longrightarrow> short_strings (blank_report v)"
proof -
  have "short_strings (blank_instance w)" if "short_strings w" for w
    using that by (cases w) (auto simp: blank_instance_def over_object_def blank_fields_def list_all_iff)
  then have "short_strings (blank_alert w)" if "short_strings w" for w
    using that unfolding blank_alert_def by (rule short_over)
  then have "short_strings (blank_site w)" if "short_strings w" for w
    using that unfolding blank_site_def by (rule short_over)
  then show "short_strings v \<Longrightarrow> short_strings (blank_report v)"
    unfolding blank_report_def by (rule short_over)
qed

locale blind_reader =
  fixes R :: "('k::linorder, 'r, 'rule) report_reader"
  assumes admit_blank: "rd_admit R p (over_list blank_instance ''instances'' (blank_fields UNREAD_ALERT a)) = rd_admit R p a"
    and instance_blank: "rd_instance R rule risk confidence (blank_fields UNREAD_INSTANCE i) = rd_instance R rule risk confidence i"
begin

lemma read_instance_blank: "read_instance R rule risk confidence (blank_instance v) = read_instance R rule risk confidence v"
  by (simp add: read_instance_def blank_instance_def dict_over unread instance_blank)

lemma read_body_blank:
  "read_body R rule (over_list blank_instance ''instances'' (blank_fields UNREAD_ALERT a)) = read_body R rule a"
  by (auto simp: read_body_def unread UNREAD_ALERT_def PROSE_KEYS_def over_items_def
      eachE_over read_instance_blank split: option.splits json.splits)

lemma plugin_of_blank:
  "plugin_of udigit (over_list blank_instance ''instances'' (blank_fields UNREAD_ALERT a)) = plugin_of udigit a"
  by (simp add: plugin_of_def unread UNREAD_ALERT_def PROSE_KEYS_def)

lemma read_alert_blank: "read_alert udigit R (blank_alert v) = read_alert udigit R v"
  by (simp add: read_alert_def blank_alert_def dict_over unread read_body_blank admit_blank plugin_of_blank
      cong: option.case_cong)

lemma read_site_blank: "read_site udigit R (blank_site v) = read_site udigit R v"
proof -
  have "(case over_items blank_alert w of JArr alerts \<Rightarrow> eachE (read_alert udigit R) alerts
      | _ \<Rightarrow> throwE (Rejects PS_MALFORMED REPORT_MALFORMED)) =
    (case w of JArr alerts \<Rightarrow> eachE (read_alert udigit R) alerts
      | _ \<Rightarrow> throwE (Rejects PS_MALFORMED REPORT_MALFORMED))" for w
    by (cases w) (simp_all add: over_items_def eachE_over read_alert_blank)
  then show ?thesis
    by (simp add: read_site_def blank_site_def dict_over unread UNREAD_SITE_def)
qed

lemma read_report_blank:
  assumes "short_strings v"
  shows "read_report udigit R version (blank_report v) = read_report udigit R version v"
proof -
  have "(case over_items blank_site w of
      JArr sites \<Rightarrow> thenE (oversized (MAX_SITES < length sites)) (eachE (read_site udigit R) sites)
      | _ \<Rightarrow> throwE (Rejects PS_OVERSIZED REPORT_OVERSIZED)) =
    (case w of JArr sites \<Rightarrow> thenE (oversized (MAX_SITES < length sites)) (eachE (read_site udigit R) sites)
      | _ \<Rightarrow> throwE (Rejects PS_OVERSIZED REPORT_OVERSIZED))" for w
    by (cases w) (simp_all add: over_items_def eachE_over read_site_blank)
  then show ?thesis
    using assms short_blank [OF assms] unfolding read_report_def
    by (simp add: blank_report_def dict_over unread UNREAD_TOP_def)
qed

text \<open>Two reports that differ only in such fields have the same outcome.\<close>

lemma same_outcome:
  assumes "decode_utf8 raw \<noteq> None" and "loads raw = Inr v" and "decode_utf8 raw' \<noteq> None" and "loads raw' = Inr w"
    and "blank_report v = blank_report w" and "short_strings v" and "short_strings w"
    and "length raw \<le> max_bytes" and "length raw' \<le> max_bytes"
    and "take 1 (dropWhile byte_space (rev raw)) = ''}''" and "take 1 (dropWhile byte_space (rev raw')) = ''}''"
  shows "parse_report udigit R version max_bytes (Some raw) = parse_report udigit R version max_bytes (Some raw')"
proof -
  have read: "read_report udigit R version v = read_report udigit R version w"
    using read_report_blank [OF assms(6)] read_report_blank [OF assms(7)] assms(5) by simp
  have solid: "\<not> list_all byte_space r" if "take 1 (dropWhile byte_space (rev r)) = ''}''" for r
  proof
    assume "list_all byte_space r"
    then have "dropWhile byte_space (rev r) = []" by (auto simp: list_all_iff)
    with that show False by simp
  qed
  have "bindE (decode_report raw) (read_report udigit R version) fresh_report =
      bindE (decode_report raw') (read_report udigit R version) fresh_report"
    using assms(1-4) read by (auto simp: decode_report_def)
  then show ?thesis
    using assms(8-11) solid by (simp add: parse_report_def)
qed

end

end
