(* ===== verification/Zap_Report.thy ===== *)
theory Zap_Report
  imports Report_Props
begin

text \<open>
  The parser of the passive ZAP report (\<open>aegis_zap/parser.py\<close>): what an admitted alert's instance
  becomes, and what is guaranteed of the records of an untrusted report: each is of an admitted rule,
  on an approved operation, and no free text of the report reaches it.
\<close>

record passive_rule =
  ru_plugin_id :: nat
  ru_name :: string

record alert_record =
  zr_plugin_id :: nat
  zr_rule_name :: string
  zr_method :: string
  zr_path :: points
  zr_param :: points
  zr_risk :: string
  zr_confidence :: string
  zr_evidence_sha256 :: string
  zr_evidence_length :: nat
  zr_digest :: string

definition MAX_EVIDENCE :: nat where "MAX_EVIDENCE = 1024"

definition is_path_char :: "char \<Rightarrow> bool" where
  "is_path_char c \<longleftrightarrow> is_alnum c \<or> c = CHR ''/'' \<or> c = CHR ''_'' \<or> c = CHR ''.'' \<or> c = CHR ''-''"

definition RECORD_PATH :: rx where
  "RECORD_PATH = R_Seq (R_text ''/'') (R_count 0 200 (R_ascii is_path_char))"

text \<open>The field constraints of \<open>ZapAlertRecord\<close>; digests match their pattern by construction.\<close>

definition alert_record_ok :: "alert_record \<Rightarrow> bool" where
  "alert_record_ok r \<longleftrightarrow> zr_plugin_id r \<le> 999999 \<and> length (zr_rule_name r) \<le> 120 \<and>
     zr_method r \<in> {''GET'', ''HEAD''} \<and> fullmatch RECORD_PATH (zr_path r) \<and> length (zr_param r) \<le> 100 \<and>
     zr_risk r \<in> set (map snd RISK) \<and> zr_confidence r \<in> set (map snd CONFIDENCE) \<and>
     zr_evidence_length r \<le> MAX_EVIDENCE"

definition normalized :: "alert_record \<Rightarrow> json" where
  "normalized r = obj [(''plugin_id'', JInt (int (zr_plugin_id r))), (''method'', str_value (zr_method r)),
     (''path'', JStr (zr_path r)), (''param'', JStr (zr_param r)), (''claimed_risk'', str_value (zr_risk r)),
     (''claimed_confidence'', str_value (zr_confidence r)),
     (''evidence_sha256'', str_value (zr_evidence_sha256 r)),
     (''evidence_length'', JInt (int (zr_evidence_length r)))]"

definition record_of ::
  "passive_rule \<Rightarrow> string \<Rightarrow> string \<Rightarrow> string \<Rightarrow> points \<Rightarrow> points \<Rightarrow> string \<Rightarrow> nat \<Rightarrow> alert_record" where
  "record_of rule risk confidence method path param evidence n =
     (let r = \<lparr>zr_plugin_id = ru_plugin_id rule, zr_rule_name = ru_name rule, zr_method = method,
        zr_path = path, zr_param = lower_points param, zr_risk = risk, zr_confidence = confidence,
        zr_evidence_sha256 = hexdigest evidence, zr_evidence_length = n, zr_digest = []\<rparr> in
      r\<lparr>zr_digest := hexdigest (canonical_json (normalized r))\<rparr>)"

type_synonym alert_identity = "nat \<times> string \<times> points \<times> points"

definition identity_of :: "alert_record \<Rightarrow> alert_identity" where
  "identity_of r = (zr_plugin_id r, zr_method r, zr_path r, zr_param r)"

text \<open>The approved requests by method and URL, and the operation a pair names.\<close>

definition approved_operation :: "projection_result \<Rightarrow> json \<Rightarrow> json \<Rightarrow> projected_operation option" where
  "approved_operation pr method uri =
     find (\<lambda>op. method = str_value (po_method op) \<and> uri = JStr (points_of (pr_origin pr) @ po_path op)) (pr_operations pr)"

definition admit_passive ::
  "(nat \<Rightarrow> nat option option) \<Rightarrow> passive_rule list \<Rightarrow> points \<Rightarrow> (points \<times> json) list \<Rightarrow> report_error + passive_rule" where
  "admit_passive udigit rules plugin a =
     (case number_of_digits udigit plugin of
        None \<Rightarrow> Inl Faulted
      | Some n \<Rightarrow>
          (case find (\<lambda>r. ru_plugin_id r = n) (rev rules) of
             None \<Rightarrow> Inl (Rejects PS_MALFORMED UNADMITTED_RULE)
           | Some rule \<Rightarrow>
               let ref = get_field a ''alertRef'' in
               if get_field a ''name'' \<noteq> str_value (ru_name rule) \<or> get_field a ''alert'' \<noteq> str_value (ru_name rule)
               then Inl (Rejects PS_MALFORMED UNADMITTED_RULE)
               else if unhashable ref then Inl Faulted
               else if ref \<notin> {JStr plugin, JStr (plugin @ points_of ''-1'')} then Inl (Rejects PS_MALFORMED UNADMITTED_RULE)
               else Inr rule))"

definition passive_instance ::
  "projection_result \<Rightarrow> passive_rule \<Rightarrow> string \<Rightarrow> string \<Rightarrow> (points \<times> json) list \<Rightarrow> (alert_identity, alert_record, unit) reading" where
  "passive_instance pr rule risk confidence i =
     (let method = get_field i ''method''; uri = get_field i ''uri'';
          param = get_default i ''param'' (JStr []); evidence = get_default i ''evidence'' (JStr []) in
      thenE (fault (unhashable method \<or> unhashable uri))
       (case approved_operation pr method uri of
          None \<Rightarrow> throwE (Rejects PS_MALFORMED SCOPE_ESCAPE)
        | Some op \<Rightarrow>
            thenE (malformed (get_field i ''attack'' \<notin> {JNull, JStr []}))
             (case param of
                JStr p \<Rightarrow>
                  thenE (malformed (\<not> fullmatch REPORT_PARAM p))
                   (case evidence of
                      JStr e \<Rightarrow>
                        thenE (oversized (MAX_EVIDENCE < length e))
                         (thenE (strips (if e = [] then [] else [''instance.evidence'']))
                           (case encode_utf8 e of
                              None \<Rightarrow> throwE Faulted
                            | Some bytes \<Rightarrow>
                                let r = record_of rule risk confidence (po_method op) (po_path op) p bytes (length e) in
                                thenE (fault (\<not> alert_record_ok r)) (enter REPORT_MALFORMED zr_digest (identity_of r) r)))
                    | _ \<Rightarrow> throwE (Rejects PS_OVERSIZED REPORT_OVERSIZED))
              | _ \<Rightarrow> throwE (Rejects PS_MALFORMED REPORT_MALFORMED))))"

definition passive_reader ::
  "(nat \<Rightarrow> nat option option) \<Rightarrow> projection_result \<Rightarrow> passive_rule list \<Rightarrow> nat \<Rightarrow> nat \<Rightarrow>
   (alert_identity, alert_record, passive_rule) report_reader" where
  "passive_reader udigit pr rules max_alerts max_instances =
     \<lparr>rd_origin = pr_origin pr, rd_max_alerts = max_alerts, rd_max_instances = max_instances,
      rd_admit = admit_passive udigit rules, rd_instance = passive_instance pr\<rparr>"

definition parse_passive ::
  "(nat \<Rightarrow> nat option option) \<Rightarrow> string \<Rightarrow> projection_result \<Rightarrow> passive_rule list \<Rightarrow> nat \<Rightarrow> nat \<Rightarrow> nat \<Rightarrow> string option \<Rightarrow>
   parse_summary \<times> alert_record list" where
  "parse_passive udigit version pr rules max_bytes max_alerts max_instances data =
     parse_report udigit (passive_reader udigit pr rules max_alerts max_instances) version max_bytes data"

section \<open>What a record is\<close>

text \<open>A record of an admitted rule on an approved operation, with its own digest.\<close>

definition record_confined :: "projection_result \<Rightarrow> passive_rule list \<Rightarrow> alert_record \<Rightarrow> bool" where
  "record_confined pr rules r \<longleftrightarrow>
     (\<exists>rule\<in>set rules. zr_plugin_id r = ru_plugin_id rule \<and> zr_rule_name r = ru_name rule) \<and>
     (\<exists>op\<in>set (pr_operations pr). zr_method r = po_method op \<and> zr_path r = po_path op) \<and>
     alert_record_ok r \<and> list_all (\<lambda>c. c < 128) (zr_param r) \<and>
     zr_digest r = hexdigest (canonical_json (normalized r))"

lemma normalized_digest [simp]: "normalized (r\<lparr>zr_digest := d\<rparr>) = normalized r"
  by (simp add: normalized_def)

lemma report_param_ascii:
  assumes "fullmatch REPORT_PARAM p"
  shows "list_all (\<lambda>c. c < 128) (lower_points p)"
proof -
  have upto: "rx_chars (R_upto n r) \<subseteq> rx_chars r" for n r by (induction n) auto
  have "n < 128" if "n \<in> rx_chars REPORT_PARAM" for n
    using that upto [of 100 "R_ascii is_report_param"] by (auto simp: REPORT_PARAM_def R_count_def R_ascii_def)
  with lang_chars [of p REPORT_PARAM] assms show ?thesis
    by (fastforce simp: fullmatch_iff lower_points_def list_all_iff)
qed

lemma record_of_fields [simp]:
  "zr_plugin_id (record_of rule risk conf method path param ev n) = ru_plugin_id rule"
  "zr_rule_name (record_of rule risk conf method path param ev n) = ru_name rule"
  "zr_method (record_of rule risk conf method path param ev n) = method"
  "zr_path (record_of rule risk conf method path param ev n) = path"
  "zr_param (record_of rule risk conf method path param ev n) = lower_points param"
  "zr_digest (record_of rule risk conf method path param ev n) =
     hexdigest (canonical_json (normalized (record_of rule risk conf method path param ev n)))"
  by (simp_all add: record_of_def Let_def normalized_def)

lemma passive_instance_entered:
  assumes "rule \<in> set rules"
    and "passive_instance pr rule risk confidence i s = (Inr u, t)"
  shows "entered (\<lambda>k r. k = identity_of r \<and> record_confined pr rules r) s t"
proof -
  from assms(2) obtain op where op: "approved_operation pr (get_field i ''method'') (get_field i ''uri'') = Some op"
    by (auto simp: passive_instance_def Let_def reads split: option.splits)
  from assms(2) obtain p where p: "get_default i ''param'' (JStr []) = JStr p" "fullmatch REPORT_PARAM p"
    by (cases "get_default i ''param'' (JStr [])") (auto simp: passive_instance_def Let_def reads op)
  from assms(2) obtain e where e: "get_default i ''evidence'' (JStr []) = JStr e"
    by (cases "get_default i ''evidence'' (JStr [])") (auto simp: passive_instance_def Let_def reads op p)
  from assms(2) obtain bytes where bytes: "encode_utf8 e = Some bytes"
    by (cases "encode_utf8 e") (auto simp: passive_instance_def Let_def reads op p e)
  define r where "r = record_of rule risk confidence (po_method op) (po_path op) p bytes (length e)"
  from assms(2) obtain names where ok: "alert_record_ok r"
    and enter: "enter REPORT_MALFORMED zr_digest (identity_of r) r (s\<lparr>rs_stripped := names\<rparr>) = (Inr u, t)"
    unfolding passive_instance_def Let_def op p(1) e bytes option.case json.case r_def [symmetric] reads by blast
  have "op \<in> set (pr_operations pr)"
    using op by (auto simp: approved_operation_def dest: find_mem)
  with ok assms(1) have "record_confined pr rules r"
    using report_param_ascii [OF p(2)] by (auto simp: record_confined_def r_def)
  with enter_Inr [OF enter, of "\<lambda>k r. k = identity_of r \<and> record_confined pr rules r"]
  show ?thesis by (simp add: entered_def)
qed

lemma admit_passive_mem: "admit_passive udigit rules plugin a = Inr rule \<Longrightarrow> rule \<in> set rules"
  by (auto simp: admit_passive_def Let_def split: option.splits if_splits dest: find_mem)

interpretation passive_scan: confined_reader "passive_reader udigit pr rules max_alerts max_instances"
    "\<lambda>k r. k = identity_of r \<and> record_confined pr rules r"
  for udigit pr rules max_alerts max_instances
  by unfold_locales (auto simp: passive_reader_def intro: passive_instance_entered admit_passive_mem)

lemma read_keys:
  "get_field (over_list blank_instance ''instances'' (blank_fields UNREAD_ALERT a)) ''name'' = get_field a ''name''"
  "get_field (over_list blank_instance ''instances'' (blank_fields UNREAD_ALERT a)) ''alert'' = get_field a ''alert''"
  "get_field (over_list blank_instance ''instances'' (blank_fields UNREAD_ALERT a)) ''alertRef'' = get_field a ''alertRef''"
  "get_field (blank_fields UNREAD_INSTANCE i) ''method'' = get_field i ''method''"
  "get_field (blank_fields UNREAD_INSTANCE i) ''uri'' = get_field i ''uri''"
  "get_field (blank_fields UNREAD_INSTANCE i) ''attack'' = get_field i ''attack''"
  "get_default (blank_fields UNREAD_INSTANCE i) ''param'' d = get_default i ''param'' d"
  "get_default (blank_fields UNREAD_INSTANCE i) ''evidence'' d = get_default i ''evidence'' d"
  by (simp_all add: unread UNREAD_ALERT_def UNREAD_INSTANCE_def PROSE_KEYS_def)

interpretation blind_passive: blind_reader "passive_reader udigit pr rules max_alerts max_instances"
  for udigit pr rules max_alerts max_instances
proof
  show "rd_admit (passive_reader udigit pr rules max_alerts max_instances) p
      (over_list blank_instance ''instances'' (blank_fields UNREAD_ALERT a)) =
    rd_admit (passive_reader udigit pr rules max_alerts max_instances) p a" for p a
    unfolding passive_reader_def report_reader.simps admit_passive_def read_keys ..
  show "rd_instance (passive_reader udigit pr rules max_alerts max_instances) rule risk confidence
      (blank_fields UNREAD_INSTANCE i) =
    rd_instance (passive_reader udigit pr rules max_alerts max_instances) rule risk confidence i"
    for rule risk confidence i
    unfolding passive_reader_def report_reader.simps passive_instance_def read_keys ..
qed

section \<open>Properties\<close>

text \<open>C27: an untrusted report either fails with a code and yields no record, or every record it yields
  is of an admitted rule under that rule's name, for a request the projection approved, meets the
  record's field constraints and carries the digest of its own fields; records come strictly ordered
  by identity, and together with the collapsed duplicates there is one per instance, of which an
  alert has at most \<open>max_instances\<close>.\<close>

theorem passive_records_are_confined:
  assumes "parse_passive udigit version pr rules max_bytes max_alerts max_instances data = (summ, records)"
  shows "ps_code summ \<noteq> None \<and> records = [] \<or>
    ps_status summ = PARSED \<and> ps_code summ = None \<and>
    list_all (record_confined pr rules) records \<and>
    sorted_wrt (\<lambda>x y. identity_of x < identity_of y) records \<and>
    ps_records summ = length records \<and> length records + ps_duplicates summ = ps_instances summ \<and>
    ps_instances summ \<le> ps_alerts summ * max_instances \<and> ps_alerts summ \<le> max_alerts"
  using assms [unfolded parse_passive_def]
proof (cases rule: passive_scan.parsed_ok)
  case (2 s)
  then have "list_all (record_confined pr rules) records" and
    "sorted_wrt (\<lambda>x y. identity_of x < identity_of y) records"
    using identified_records [OF 2(1)] by auto
  then show ?thesis
    using 2(1) by (auto simp: 2(2,3) summary_def report_ok_def passive_reader_def)
qed blast

text \<open>C28: the prose of a report, its dates, references and the scanner's own identifiers have no
  influence: two readable reports that agree once those fields are blanked have the same outcome,
  records and summary.\<close>

theorem report_prose_is_ignored:
  assumes "decode_utf8 raw \<noteq> None" and "loads raw = Inr v" and "decode_utf8 raw' \<noteq> None" and "loads raw' = Inr w"
    and "blank_report v = blank_report w" and "short_strings v" and "short_strings w"
    and "length raw \<le> max_bytes" and "length raw' \<le> max_bytes"
    and "take 1 (dropWhile byte_space (rev raw)) = ''}''" and "take 1 (dropWhile byte_space (rev raw')) = ''}''"
  shows "parse_passive udigit version pr rules max_bytes max_alerts max_instances (Some raw) =
    parse_passive udigit version pr rules max_bytes max_alerts max_instances (Some raw')"
  unfolding parse_passive_def by (rule blind_passive.same_outcome [OF assms])

section \<open>Witnesses\<close>

definition demo_projection :: projection_result where
  "demo_projection = \<lparr>pr_target_ref = ''t'', pr_origin = ''http://o:1'', pr_source_name = [], pr_source_sha256 = [],
     pr_document = [], pr_digest = [],
     pr_operations = [\<lparr>po_method = ''GET'', po_template = points_of ''/x'', po_path = points_of ''/x'', po_id = points_of ''op''\<rparr>],
     pr_allowlist_digest = [], pr_removed = 0, pr_stripped = []\<rparr>"

definition demo_rule :: passive_rule where
  "demo_rule = \<lparr>ru_plugin_id = 10021, ru_name = ''Header Missing''\<rparr>"

definition demo_instance :: json where
  "demo_instance = obj [(''uri'', str_value ''http://o:1/x''), (''method'', str_value ''GET'')]"

definition demo_alert :: "string \<Rightarrow> json" where
  "demo_alert prose = obj [(''pluginid'', str_value ''10021''), (''alertRef'', str_value ''10021''),
     (''alert'', str_value ''Header Missing''), (''name'', str_value ''Header Missing''), (''riskcode'', str_value ''1''),
     (''confidence'', str_value ''2''), (''desc'', str_value prose), (''count'', str_value ''1''),
     (''instances'', JArr [demo_instance])]"

definition demo_report :: "string \<Rightarrow> json" where
  "demo_report prose = obj [(''@programName'', str_value ''ZAP''), (''@version'', str_value ''2''),
     (''site'', JArr [obj [(''@name'', str_value ''http://o:1''), (''@ssl'', str_value ''false''),
       (''alerts'', JArr [demo_alert prose])]])]"

definition demo_raw :: "string \<Rightarrow> string" where
  "demo_raw prose =
     (let f = (\<lambda>k v. CHR 0x22 # k @ CHR 0x22 # '':'' @ v); t = (\<lambda>k v. f k (CHR 0x22 # v @ [CHR 0x22])) in
      ''{'' @ t ''@programName'' ''ZAP'' @ '','' @ t ''@version'' ''2'' @ '','' @ f ''site'' (''[{'' @
      t ''@name'' ''http://o:1'' @ '','' @ t ''@ssl'' ''false'' @ '','' @ f ''alerts'' (''[{'' @
      t ''pluginid'' ''10021'' @ '','' @ t ''alertRef'' ''10021'' @ '','' @ t ''alert'' ''Header Missing'' @ '','' @
      t ''name'' ''Header Missing'' @ '','' @ t ''riskcode'' ''1'' @ '','' @ t ''confidence'' ''2'' @ '','' @ t ''desc'' prose @ '','' @
      t ''count'' ''1'' @ '','' @ f ''instances'' (''[{'' @ t ''uri'' ''http://o:1/x'' @ '','' @ t ''method'' ''GET'' @ ''}]'') @
      ''}]'') @ ''}]'') @ ''}'')"

lemma demo_loads:
  "loads (demo_raw ''a'') = Inr (demo_report ''a'')" "loads (demo_raw ''b'') = Inr (demo_report ''b'')"
  by code_simp+

lemma demo_raw_facts:
  "decode_utf8 (demo_raw ''a'') \<noteq> None" "decode_utf8 (demo_raw ''b'') \<noteq> None"
  "length (demo_raw ''a'') \<le> 4096" "length (demo_raw ''b'') \<le> 4096"
  "take 1 (dropWhile byte_space (rev (demo_raw ''a''))) = ''}''"
  "take 1 (dropWhile byte_space (rev (demo_raw ''b''))) = ''}''"
  "\<not> list_all byte_space (demo_raw ''a'')"
  by code_simp+

lemma demo_blank:
  "demo_report ''a'' \<noteq> demo_report ''b''" "blank_report (demo_report ''a'') = blank_report (demo_report ''b'')"
  "short_strings (demo_report ''a'')" "short_strings (demo_report ''b'')"
  by code_simp+

theorem report_prose_is_ignored_witness:
  "demo_report ''a'' \<noteq> demo_report ''b'' \<and>
     parse_passive (\<lambda>_. None) ''2'' demo_projection [demo_rule] 4096 16 8 (Some (demo_raw ''a'')) =
     parse_passive (\<lambda>_. None) ''2'' demo_projection [demo_rule] 4096 16 8 (Some (demo_raw ''b''))"
  using report_prose_is_ignored [OF demo_raw_facts(1) demo_loads(1) demo_raw_facts(2) demo_loads(2) demo_blank(2-4)
      demo_raw_facts(3-6)] demo_blank(1)
  by blast

text \<open>The run on \<open>demo_raw\<close>, step by step; the digests stay symbolic.\<close>

definition demo_reader :: "(alert_identity, alert_record, passive_rule) report_reader" where
  "demo_reader = passive_reader (\<lambda>_. None) demo_projection [demo_rule] 16 8"

definition demo_record :: alert_record where
  "demo_record = record_of demo_rule ''low'' ''medium'' ''GET'' (points_of ''/x'') [] [] 0"

definition fields :: "json \<Rightarrow> (points \<times> json) list" where
  "fields v = (case v of JObj kvs \<Rightarrow> kvs | _ \<Rightarrow> [])"

lemma dict_with_fields:
  "v = JObj (fields v) \<Longrightarrow> known_keys names (fields v) \<Longrightarrow> dict_with names v s = (Inr (fields v), s)"
  by (cases v) (simp_all add: dict_with_def malformed_def bindE_run fields_def)

lemma demo_objects:
  "demo_instance = JObj (fields demo_instance)" "demo_alert ''a'' = JObj (fields (demo_alert ''a''))"
  "demo_report ''a'' = JObj (fields (demo_report ''a''))"
  by code_simp+

lemma demo_instance_facts:
  "known_keys INSTANCE_KEYS (fields demo_instance)" "has_key (fields demo_instance) ''otherinfo'' = False"
  "get_field (fields demo_instance) ''method'' = str_value ''GET''"
  "get_field (fields demo_instance) ''uri'' = str_value ''http://o:1/x''"
  "get_field (fields demo_instance) ''attack'' = JNull"
  "get_default (fields demo_instance) ''param'' (JStr []) = JStr []"
  "get_default (fields demo_instance) ''evidence'' (JStr []) = JStr []"
  "approved_operation demo_projection (str_value ''GET'') (str_value ''http://o:1/x'') =
     Some \<lparr>po_method = ''GET'', po_template = points_of ''/x'', po_path = points_of ''/x'', po_id = points_of ''op''\<rparr>"
  "unhashable (str_value ''GET'') = False" "unhashable (str_value ''http://o:1/x'') = False"
  "nullable REPORT_PARAM" "encode_utf8 [] = Some []" "fullmatch RECORD_PATH (points_of ''/x'')"
  by code_simp+

lemma demo_record_ok: "alert_record_ok demo_record"
  by (simp add: alert_record_ok_def demo_record_def demo_instance_facts demo_rule_def record_of_def Let_def
      RISK_def CONFIDENCE_def lower_points_def)

lemma demo_instance_run:
  assumes "map_of (rs_table s) (identity_of demo_record) = None"
  shows "read_instance demo_reader demo_rule ''low'' ''medium'' demo_instance s =
    (Inr (), s\<lparr>rs_instances := rs_instances s + 1, rs_table := rs_table s @ [(identity_of demo_record, demo_record)]\<rparr>)"
  using assms demo_record_ok
  by (simp add: read_instance_def dict_with_fields [OF demo_objects(1)] demo_instance_facts demo_reader_def passive_reader_def strips_def
      passive_instance_def fault_def malformed_def oversized_def enter_def demo_record_def bindE_run Let_def)

definition demo_site :: json where
  "demo_site = hd (case get_field (fields (demo_report ''a'')) ''site'' of JArr vs \<Rightarrow> vs | _ \<Rightarrow> [])"

lemma demo_alert_facts:
  "known_keys ALERT_KEYS (fields (demo_alert ''a''))"
  "filter (has_key (fields (demo_alert ''a''))) PROSE_KEYS = [''desc'']"
  "plugin_of (\<lambda>_. None) (fields (demo_alert ''a'')) = Some (points_of ''10021'')"
  "admit_passive (\<lambda>_. None) [demo_rule] (points_of ''10021'') (fields (demo_alert ''a'')) = Inr demo_rule"
  "label_of RISK (get_field (fields (demo_alert ''a'')) ''riskcode'') = Some ''low''"
  "label_of CONFIDENCE (get_field (fields (demo_alert ''a'')) ''confidence'') = Some ''medium''"
  "get_field (fields (demo_alert ''a'')) ''instances'' = JArr [demo_instance]"
  "numeral_text (get_field (fields (demo_alert ''a'')) ''count'') = Some (points_of (nat_str 1))"
  by code_simp+

lemma demo_outer_facts:
  "demo_site = JObj (fields demo_site)" "known_keys SITE_KEYS (fields demo_site)"
  "get_field (fields demo_site) ''@name'' = str_value ''http://o:1''"
  "get_field (fields demo_site) ''@ssl'' = str_value ''false''"
  "get_field (fields demo_site) ''alerts'' = JArr [demo_alert ''a'']"
  "known_keys TOP_KEYS (fields (demo_report ''a''))"
  "get_field (fields (demo_report ''a'')) ''@programName'' = str_value ''ZAP''"
  "get_field (fields (demo_report ''a'')) ''@version'' = str_value ''2''"
  "get_field (fields (demo_report ''a'')) ''site'' = JArr [demo_site]"
  by code_simp+

lemma demo_alert_run:
  "read_alert (\<lambda>_. None) demo_reader (demo_alert ''a'') (fresh_report\<lparr>rs_sites := 1\<rparr>) =
    (Inr (), \<lparr>rs_sites = 1, rs_alerts = 1, rs_instances = 1, rs_stripped = [''desc''],
       rs_table = [(identity_of demo_record, demo_record)], rs_duplicates = 0\<rparr>)"
proof -
  have admit: "rd_admit demo_reader = admit_passive (\<lambda>_. None) [demo_rule]"
    "rd_max_alerts demo_reader = 16" "rd_max_instances demo_reader = 8"
    by (simp_all add: demo_reader_def passive_reader_def)
  show ?thesis
    using demo_alert_facts(8)
    by (simp add: read_alert_def read_body_def dict_with_fields [OF demo_objects(2)] demo_alert_facts(1-7) admit
        bindE_run oversized_def malformed_def strips_def lift_def fresh_report_def demo_instance_run)
qed

lemma demo_parsed:
  "parse_passive (\<lambda>_. None) ''2'' demo_projection [demo_rule] 4096 16 8 (Some (demo_raw ''a'')) =
    (summary PARSED None \<lparr>rs_sites = 1, rs_alerts = 1, rs_instances = 1, rs_stripped = [''desc''],
       rs_table = [(identity_of demo_record, demo_record)], rs_duplicates = 0\<rparr> 1 0, [demo_record])"
proof -
  have origin: "rd_origin demo_reader = ''http://o:1''"
    by (simp add: demo_reader_def passive_reader_def demo_projection_def)
  have site: "read_site (\<lambda>_. None) demo_reader demo_site fresh_report =
      (Inr (), \<lparr>rs_sites = 1, rs_alerts = 1, rs_instances = 1, rs_stripped = [''desc''],
       rs_table = [(identity_of demo_record, demo_record)], rs_duplicates = 0\<rparr>)"
    using demo_alert_run
    by (simp add: read_site_def dict_with_fields [OF demo_outer_facts(1)] demo_outer_facts(2-5) origin bindE_run
        mismatch_def fresh_report_def)
  have report: "read_report (\<lambda>_. None) demo_reader ''2'' (demo_report ''a'') fresh_report =
      (Inr (), \<lparr>rs_sites = 1, rs_alerts = 1, rs_instances = 1, rs_stripped = [''desc''],
       rs_table = [(identity_of demo_record, demo_record)], rs_duplicates = 0\<rparr>)"
    by (simp add: read_report_def dict_with_fields [OF demo_objects(3)] demo_outer_facts(6-9) demo_blank(3)
        bindE_run oversized_def malformed_def mismatch_def site MAX_SITES_def)
  have "(decode_report (demo_raw ''a'') :: (alert_identity, alert_record, json) reading) fresh_report = (Inr (demo_report ''a''), fresh_report)"
    using demo_raw_facts(1) by (auto simp: decode_report_def demo_loads(1))
  with report have run: "bindE (decode_report (demo_raw ''a'')) (read_report (\<lambda>_. None) demo_reader ''2'') fresh_report =
      (Inr (), \<lparr>rs_sites = 1, rs_alerts = 1, rs_instances = 1, rs_stripped = [''desc''],
       rs_table = [(identity_of demo_record, demo_record)], rs_duplicates = 0\<rparr>)"
    by (simp add: bindE_run)
  show ?thesis
    using demo_raw_facts(3,5,7)
    by (simp add: parse_passive_def demo_reader_def [symmetric] parse_report_def run)
qed

theorem passive_records_are_confined_witness:
  "\<exists>summ. parse_passive (\<lambda>_. None) ''2'' demo_projection [demo_rule] 4096 16 8 (Some (demo_raw ''a'')) =
     (summ, [demo_record]) \<and> ps_status summ = PARSED \<and> record_confined demo_projection [demo_rule] demo_record"
  using passive_records_are_confined [OF demo_parsed] demo_parsed by auto

end
