(* ===== verification/Active_Report.thy ===== *)
theory Active_Report
  imports Report_Props Projection_Active
begin

text \<open>
  The parser of the active ZAP report (\<open>aegis_zap_active/parser.py\<close>), on the reading shared with the
  passive one: the single admitted rule, the URI of an instance taken apart and confined to the
  projected endpoint, and the attack text reduced to a class, a length and a digest.
\<close>

record active_rule =
  va_plugin_id :: nat
  va_name :: string

datatype attack_class = SCRIPT_ELEMENT | ATTRIBUTE_BREAKOUT | EVENT_HANDLER | JS_URI | MARKUP_INJECTION
  | OTHER_ATTACK | NO_ATTACK

record active_record =
  xr_plugin_id :: nat
  xr_rule_name :: string
  xr_path :: points
  xr_param :: points
  xr_risk :: string
  xr_confidence :: string
  xr_evidence_sha256 :: string
  xr_evidence_length :: nat
  xr_attack_class :: attack_class
  xr_attack_sha256 :: string
  xr_attack_length :: nat
  xr_digest :: string

definition ACTIVE_EVIDENCE :: nat where "ACTIVE_EVIDENCE = 4096"
definition MAX_ATTACK :: nat where "MAX_ATTACK = 8192"

definition is_record_char :: "char \<Rightarrow> bool" where
  "is_record_char c \<longleftrightarrow> is_alnum c \<or> c = CHR ''/'' \<or> c = CHR ''_'' \<or> c = CHR ''.'' \<or> c = CHR ''-''"

definition ACTIVE_RECORD_PATH :: rx where
  "ACTIVE_RECORD_PATH = R_Seq (R_text ''/'') (R_count 0 200 (R_ascii is_record_char))"

definition active_record_ok :: "active_record \<Rightarrow> bool" where
  "active_record_ok r \<longleftrightarrow> xr_plugin_id r \<le> 999999 \<and> length (xr_rule_name r) \<le> 120 \<and>
     fullmatch ACTIVE_RECORD_PATH (xr_path r) \<and> length (xr_param r) \<le> 100 \<and>
     xr_risk r \<in> set (map snd RISK) \<and> xr_confidence r \<in> set (map snd CONFIDENCE) \<and>
     xr_evidence_length r \<le> ACTIVE_EVIDENCE \<and> xr_attack_length r \<le> MAX_ATTACK"

section \<open>The class of an attack\<close>

definition HANDLER :: rx where
  "HANDLER = R_seqs [R_fold ''on'', R_count 3 20 (R_fold_ascii is_lower), R_Star (R_Cls uni_space), R_text ''='']"

definition is_quote_point :: "nat \<Rightarrow> bool" where "is_quote_point n \<longleftrightarrow> n = 0x22 \<or> n = 0x27"

definition BREAKOUT :: rx where
  "BREAKOUT = R_seqs [R_Cls is_quote_point, R_Star (R_Cls (\<lambda>n. \<not> is_quote_point n)), R_text ''>'']"

text \<open>\<open>lower()\<close> turns \<open>U+0130\<close> into an \<open>i\<close> and a combining dot, which no needle has after its \<open>i\<close>.\<close>

definition classify_attack :: "points \<Rightarrow> attack_class" where
  "classify_attack a =
     (let lowered = lower_points a in
      if a = [] then NO_ATTACK
      else if occurs (points_of ''<script'') lowered then SCRIPT_ELEMENT
      else if occurs (points_of ''javascript:'') lowered then JS_URI
      else if search HANDLER a then EVENT_HANDLER
      else if search BREAKOUT a \<or> points_start [CHR 0x22, CHR ''>''] a \<or> points_start [CHR 0x27, CHR ''>''] a
      then ATTRIBUTE_BREAKOUT
      else if of_char (CHR ''<'') \<in> set a \<and> of_char (CHR ''>'') \<in> set a then MARKUP_INJECTION
      else OTHER_ATTACK)"

definition class_name :: "attack_class \<Rightarrow> string" where
  "class_name c = (case c of SCRIPT_ELEMENT \<Rightarrow> ''SCRIPT_ELEMENT'' | ATTRIBUTE_BREAKOUT \<Rightarrow> ''ATTRIBUTE_BREAKOUT''
     | EVENT_HANDLER \<Rightarrow> ''EVENT_HANDLER'' | JS_URI \<Rightarrow> ''JS_URI'' | MARKUP_INJECTION \<Rightarrow> ''MARKUP_INJECTION''
     | OTHER_ATTACK \<Rightarrow> ''OTHER'' | NO_ATTACK \<Rightarrow> ''NONE'')"

section \<open>The URI of an instance\<close>

text \<open>A URI is split over its ASCII characters, with one stand-in for every other character: it can
  be neither part of the approved endpoint nor a delimiter.  Only a non-ASCII authority is more than
  that, because \<open>urlsplit\<close> checks its Unicode normal form and \<open>hostname\<close> lowers it; \<open>foreign\<close> is the
  origin that results, \<open>None\<close> for the \<open>ValueError\<close>.\<close>

definition STAND_IN :: char where "STAND_IN = CHR 0xFF"

definition ascii_uri :: "points \<Rightarrow> string" where
  "ascii_uri p = map (\<lambda>n. if n < 128 then char_of n else STAND_IN) p"

definition origin_text :: "split_result \<Rightarrow> nat option \<Rightarrow> string" where
  "origin_text u port = us_scheme u @ ''://'' @ (if us_hostname u = [] then ''None'' else us_hostname u) @
     (case port of None \<Rightarrow> [] | Some n \<Rightarrow> if n = 0 then [] else '':'' @ nat_str n)"

definition uri_origin ::
  "(string \<Rightarrow> bool) \<Rightarrow> (points \<Rightarrow> points option) \<Rightarrow> points \<Rightarrow> (points \<times> split_result) option" where
  "uri_origin ip foreign uri =
     (case urlsplit ip (ascii_uri uri) of
        None \<Rightarrow> None
      | Some u \<Rightarrow>
          if STAND_IN \<in> set (us_netloc u) then map_option (\<lambda>o'. (o', u)) (foreign uri)
          else map_option (\<lambda>port. (points_of (origin_text u port), u)) (us_port u))"

definition instance_path ::
  "(string \<Rightarrow> bool) \<Rightarrow> (points \<Rightarrow> points option) \<Rightarrow> active_result \<Rightarrow> points \<Rightarrow> ('k, 'r, points) reading" where
  "instance_path ip foreign pr uri =
     (case uri_origin ip foreign uri of
        None \<Rightarrow> throwE Faulted
      | Some (origin, u) \<Rightarrow>
          thenE (mismatch SCOPE_ESCAPE (origin \<noteq> points_of (ar_origin pr) \<or> STAND_IN \<in> set (us_path u) \<or>
              points_of (us_path u) \<noteq> ar_path pr))
           (thenE (mismatch UNEXPECTED_PARAM
               (\<not> list_all (\<lambda>n. n = Some (ar_query_param pr)) (param_names (us_query u))))
             (retE (points_of (us_path u)))))"

section \<open>Instances\<close>

definition active_normalized :: "active_record \<Rightarrow> json" where
  "active_normalized r = obj [(''plugin_id'', JInt (int (xr_plugin_id r))), (''method'', str_value ''GET''),
     (''path'', JStr (xr_path r)), (''param'', JStr (xr_param r)), (''claimed_risk'', str_value (xr_risk r)),
     (''claimed_confidence'', str_value (xr_confidence r)),
     (''evidence_sha256'', str_value (xr_evidence_sha256 r)),
     (''evidence_length'', JInt (int (xr_evidence_length r))),
     (''attack_class'', str_value (class_name (xr_attack_class r))),
     (''attack_sha256'', str_value (xr_attack_sha256 r)), (''attack_length'', JInt (int (xr_attack_length r)))]"

definition active_record_of ::
  "active_rule \<Rightarrow> string \<Rightarrow> string \<Rightarrow> points \<Rightarrow> points \<Rightarrow> points \<times> string \<Rightarrow> points \<times> string \<Rightarrow> active_record" where
  "active_record_of rule risk confidence path param evidence attack =
     (let r = \<lparr>xr_plugin_id = va_plugin_id rule, xr_rule_name = va_name rule, xr_path = path,
        xr_param = lower_points param, xr_risk = risk, xr_confidence = confidence,
        xr_evidence_sha256 = hexdigest (snd evidence), xr_evidence_length = length (fst evidence),
        xr_attack_class = classify_attack (fst attack), xr_attack_sha256 = hexdigest (snd attack),
        xr_attack_length = length (fst attack), xr_digest = []\<rparr> in
      r\<lparr>xr_digest := hexdigest (canonical_json (active_normalized r))\<rparr>)"

text \<open>The identity ends in the digest; \<open>sorted\<close> compares the texts of its components.\<close>

type_synonym active_identity = "string \<times> points \<times> points \<times> string"

definition active_identity_of :: "active_record \<Rightarrow> active_identity" where
  "active_identity_of r = (nat_str (xr_plugin_id r), xr_path r, xr_param r, xr_digest r)"

definition admit_active ::
  "(nat \<Rightarrow> nat option option) \<Rightarrow> active_rule \<Rightarrow> points \<Rightarrow> (points \<times> json) list \<Rightarrow> report_error + active_rule" where
  "admit_active udigit rule plugin a =
     (case number_of_digits udigit plugin of
        None \<Rightarrow> Inl Faulted
      | Some n \<Rightarrow>
          if n \<noteq> va_plugin_id rule \<or> get_field a ''name'' \<noteq> str_value (va_name rule) \<or>
             get_field a ''alert'' \<noteq> str_value (va_name rule) \<or>
             (case get_field a ''alertRef'' of JStr ref \<Rightarrow> takeWhile (\<lambda>c. c \<noteq> of_char CHR ''-'') ref \<noteq> plugin | _ \<Rightarrow> True)
          then Inl (Rejects PS_MALFORMED UNADMITTED_RULE) else Inr rule)"

definition redacted ::
  "active_rule \<Rightarrow> string \<Rightarrow> string \<Rightarrow> points \<Rightarrow> points \<Rightarrow> points \<Rightarrow> points \<Rightarrow> (active_identity, active_record, unit) reading" where
  "redacted rule risk confidence path p e a =
     thenE (strips ((if e = [] then [] else [''instance.evidence'']) @ (if a = [] then [] else [''instance.attack''])))
      (case (encode_utf8 e, encode_utf8 a) of
         (Some eb, Some ab) \<Rightarrow>
           let r = active_record_of rule risk confidence path p (e, eb) (a, ab) in
           thenE (fault (\<not> active_record_ok r)) (enter REPORT_MALFORMED xr_digest (active_identity_of r) r)
       | _ \<Rightarrow> throwE Faulted)"

definition active_instance ::
  "(string \<Rightarrow> bool) \<Rightarrow> (points \<Rightarrow> points option) \<Rightarrow> active_result \<Rightarrow> active_rule \<Rightarrow> string \<Rightarrow> string \<Rightarrow> (points \<times> json) list \<Rightarrow>
   (active_identity, active_record, unit) reading" where
  "active_instance ip foreign pr rule risk confidence i =
     (case get_field i ''uri'' of
        JStr uri \<Rightarrow>
          thenE (mismatch SCOPE_ESCAPE (get_field i ''method'' \<noteq> str_value ''GET''))
           (bindE (instance_path ip foreign pr uri) (\<lambda>path.
            case get_default i ''param'' (JStr []) of
              JStr p \<Rightarrow>
                thenE (malformed (\<not> fullmatch REPORT_PARAM p))
                 (thenE (mismatch UNEXPECTED_PARAM (p \<noteq> points_of (ar_query_param pr)))
                  (case (get_default i ''evidence'' (JStr []), get_default i ''attack'' (JStr [])) of
                     (JStr e, JStr a) \<Rightarrow>
                       thenE (oversized (ACTIVE_EVIDENCE < length e \<or> MAX_ATTACK < length a))
                         (redacted rule risk confidence path p e a)
                   | _ \<Rightarrow> throwE (Rejects PS_OVERSIZED REPORT_OVERSIZED)))
            | _ \<Rightarrow> throwE (Rejects PS_MALFORMED REPORT_MALFORMED)))
      | _ \<Rightarrow> throwE (Rejects PS_MALFORMED SCOPE_ESCAPE))"

definition active_reader ::
  "(string \<Rightarrow> bool) \<Rightarrow> (points \<Rightarrow> points option) \<Rightarrow> (nat \<Rightarrow> nat option option) \<Rightarrow> active_result \<Rightarrow> active_rule \<Rightarrow>
   nat \<Rightarrow> nat \<Rightarrow> (active_identity, active_record, active_rule) report_reader" where
  "active_reader ip foreign udigit pr rule max_alerts max_instances =
     \<lparr>rd_origin = ar_origin pr, rd_max_alerts = max_alerts, rd_max_instances = max_instances,
      rd_admit = admit_active udigit rule, rd_instance = active_instance ip foreign pr\<rparr>"

definition parse_active ::
  "(string \<Rightarrow> bool) \<Rightarrow> (points \<Rightarrow> points option) \<Rightarrow> (nat \<Rightarrow> nat option option) \<Rightarrow> string \<Rightarrow> active_result \<Rightarrow> active_rule \<Rightarrow>
   nat \<Rightarrow> nat \<Rightarrow> nat \<Rightarrow> string option \<Rightarrow> parse_summary \<times> active_record list" where
  "parse_active ip foreign udigit version pr rule max_bytes max_alerts max_instances data =
     parse_report udigit (active_reader ip foreign udigit pr rule max_alerts max_instances) version max_bytes data"

section \<open>What a record is\<close>

definition active_confined :: "active_result \<Rightarrow> active_rule \<Rightarrow> active_record \<Rightarrow> bool" where
  "active_confined pr rule r \<longleftrightarrow>
     xr_plugin_id r = va_plugin_id rule \<and> xr_rule_name r = va_name rule \<and> xr_path r = ar_path pr \<and>
     xr_param r = lower_points (points_of (ar_query_param pr)) \<and> active_record_ok r \<and>
     xr_digest r = hexdigest (canonical_json (active_normalized r))"

lemma active_record_of_fields [simp]:
  "xr_plugin_id (active_record_of rule risk conf path param e a) = va_plugin_id rule"
  "xr_rule_name (active_record_of rule risk conf path param e a) = va_name rule"
  "xr_path (active_record_of rule risk conf path param e a) = path"
  "xr_param (active_record_of rule risk conf path param e a) = lower_points param"
  "xr_digest (active_record_of rule risk conf path param e a) =
     hexdigest (canonical_json (active_normalized (active_record_of rule risk conf path param e a)))"
  by (simp_all add: active_record_of_def Let_def active_normalized_def)

lemma instance_path_Inr:
  "instance_path ip foreign pr uri s = (Inr path, t) \<Longrightarrow> path = ar_path pr \<and> t = s"
  by (auto simp: instance_path_def reads split: option.splits prod.splits)

lemma redacted_entered:
  assumes "redacted rule risk confidence path p e a s = (Inr u, t)" and "path = ar_path pr"
    and "p = points_of (ar_query_param pr)"
  shows "entered (\<lambda>k r. k = active_identity_of r \<and> active_confined pr rule r) s t"
proof -
  obtain eb where eb: "encode_utf8 e = Some eb"
    using assms(1) by (cases "encode_utf8 e") (auto simp: redacted_def reads)
  obtain ab where ab: "encode_utf8 a = Some ab"
    using assms(1) by (cases "encode_utf8 a") (auto simp: redacted_def reads eb)
  define r where "r = active_record_of rule risk confidence path p (e, eb) (a, ab)"
  from assms(1) obtain names where ok: "active_record_ok r"
    and enter: "enter REPORT_MALFORMED xr_digest (active_identity_of r) r (s\<lparr>rs_stripped := names\<rparr>) = (Inr u, t)"
    unfolding redacted_def Let_def eb ab option.case prod.case r_def [symmetric] reads by blast
  have "active_confined pr rule r"
    using ok assms(2,3) by (simp add: active_confined_def r_def)
  with enter_Inr [OF enter, of "\<lambda>k r. k = active_identity_of r \<and> active_confined pr rule r"]
  show ?thesis by (simp add: entered_def)
qed

lemma active_instance_entered:
  assumes "active_instance ip foreign pr rule risk confidence i s = (Inr u, t)"
  shows "entered (\<lambda>k r. k = active_identity_of r \<and> active_confined pr rule r) s t"
proof -
  from assms obtain uri where uri: "get_field i ''uri'' = JStr uri"
    by (cases "get_field i ''uri''") (auto simp: active_instance_def reads)
  from assms obtain path s' where path: "instance_path ip foreign pr uri s = (Inr path, s')"
    by (auto simp: active_instance_def uri reads)
  from assms obtain p where p: "get_default i ''param'' (JStr []) = JStr p" "p = points_of (ar_query_param pr)"
    by (cases "get_default i ''param'' (JStr [])") (auto simp: active_instance_def uri reads path)
  from assms obtain e where e: "get_default i ''evidence'' (JStr []) = JStr e"
    by (cases "get_default i ''evidence'' (JStr [])") (auto simp: active_instance_def uri reads path p)
  from assms obtain a where a: "get_default i ''attack'' (JStr []) = JStr a"
    by (cases "get_default i ''attack'' (JStr [])") (auto simp: active_instance_def uri reads path p e)
  have "redacted rule risk confidence path p e a s' = (Inr u, t)"
    using assms by (auto simp: active_instance_def uri reads path p e a)
  with instance_path_Inr [OF path] show ?thesis by (auto intro!: redacted_entered p(2))
qed

lemma admit_active_rule: "admit_active udigit rule plugin a = Inr rule' \<Longrightarrow> rule' = rule"
  by (auto simp: admit_active_def split: option.splits if_splits)

interpretation active_scan: confined_reader "active_reader ip foreign udigit pr rule max_alerts max_instances"
    "\<lambda>k r. k = active_identity_of r \<and> active_confined pr rule r"
  for ip foreign udigit pr rule max_alerts max_instances
  by unfold_locales (auto simp: active_reader_def intro: active_instance_entered dest!: admit_active_rule)

lemma active_read_keys:
  "get_field (over_list blank_instance ''instances'' (blank_fields UNREAD_ALERT a)) ''name'' = get_field a ''name''"
  "get_field (over_list blank_instance ''instances'' (blank_fields UNREAD_ALERT a)) ''alert'' = get_field a ''alert''"
  "get_field (over_list blank_instance ''instances'' (blank_fields UNREAD_ALERT a)) ''alertRef'' = get_field a ''alertRef''"
  "get_field (blank_fields UNREAD_INSTANCE i) ''method'' = get_field i ''method''"
  "get_field (blank_fields UNREAD_INSTANCE i) ''uri'' = get_field i ''uri''"
  "get_default (blank_fields UNREAD_INSTANCE i) ''attack'' d = get_default i ''attack'' d"
  "get_default (blank_fields UNREAD_INSTANCE i) ''param'' d = get_default i ''param'' d"
  "get_default (blank_fields UNREAD_INSTANCE i) ''evidence'' d = get_default i ''evidence'' d"
  by (simp_all add: unread UNREAD_ALERT_def UNREAD_INSTANCE_def PROSE_KEYS_def)

interpretation blind_active: blind_reader "active_reader ip foreign udigit pr rule max_alerts max_instances"
  for ip foreign udigit pr rule max_alerts max_instances
proof
  show "rd_admit (active_reader ip foreign udigit pr rule max_alerts max_instances) p
      (over_list blank_instance ''instances'' (blank_fields UNREAD_ALERT a)) =
    rd_admit (active_reader ip foreign udigit pr rule max_alerts max_instances) p a" for p a
    unfolding active_reader_def report_reader.simps admit_active_def active_read_keys ..
  show "rd_instance (active_reader ip foreign udigit pr rule max_alerts max_instances) rule' risk confidence
      (blank_fields UNREAD_INSTANCE i) =
    rd_instance (active_reader ip foreign udigit pr rule max_alerts max_instances) rule' risk confidence i"
    for rule' risk confidence i
    unfolding active_reader_def report_reader.simps active_instance_def active_read_keys ..
qed

section \<open>Properties\<close>

text \<open>An untrusted active report either fails with a code and yields no record, or every record it
  yields is of the admitted rule, for the projected endpoint and the approved query parameter, meets
  its field constraints and carries the digest of its own fields; records are strictly ordered by
  identity and, with the collapsed duplicates, one per instance of at most \<open>max_alerts\<close> alerts.\<close>

theorem active_records_are_confined:
  assumes "parse_active ip foreign udigit version pr rule max_bytes max_alerts max_instances data = (summ, records)"
  shows "ps_code summ \<noteq> None \<and> records = [] \<or>
    ps_status summ = PARSED \<and> ps_code summ = None \<and>
    list_all (active_confined pr rule) records \<and>
    sorted_wrt (\<lambda>x y. active_identity_of x < active_identity_of y) records \<and>
    ps_records summ = length records \<and> length records + ps_duplicates summ = ps_instances summ \<and>
    ps_instances summ \<le> ps_alerts summ * max_instances \<and> ps_alerts summ \<le> max_alerts"
  using assms [unfolded parse_active_def]
proof (cases rule: active_scan.parsed_ok)
  case (2 s)
  then have "list_all (active_confined pr rule) records" and
    "sorted_wrt (\<lambda>x y. active_identity_of x < active_identity_of y) records"
    using identified_records [OF 2(1)] by auto
  then show ?thesis
    using 2(1) by (auto simp: 2(2,3) summary_def report_ok_def active_reader_def)
qed blast

definition demo_empty_report :: string where
  "demo_empty_report = (let q = (\<lambda>s. CHR 0x22 # s @ [CHR 0x22]) in
     ''{'' @ q ''@programName'' @ '':'' @ q ''ZAP'' @ '','' @ q ''@version'' @ '':'' @ q ''2'' @ '','' @ q ''site'' @ '':[]}'')"

definition demo_active_projection :: active_result where
  "demo_active_projection = \<lparr>ar_target_ref = ''t'', ar_origin = ''http://o:1'', ar_source_name = [],
     ar_source_sha256 = [], ar_path = points_of ''/x'', ar_operation_id = ''op'', ar_query_param = ''q'',
     ar_document = [], ar_digest = [], ar_allowlist_digest = [], ar_removed = 0\<rparr>"

lemma demo_empty_parsed:
  "case parse_active (\<lambda>_. False) (\<lambda>_. None) (\<lambda>_. None) ''2'' demo_active_projection
       \<lparr>va_plugin_id = 40012, va_name = ''XSS''\<rparr> 4096 16 16 (Some demo_empty_report) of
     (summ, records) \<Rightarrow> ps_code summ = None"
  by code_simp

theorem active_records_are_confined_witness:
  "\<exists>summ records. parse_active (\<lambda>_. False) (\<lambda>_. None) (\<lambda>_. None) ''2'' demo_active_projection
       \<lparr>va_plugin_id = 40012, va_name = ''XSS''\<rparr> 4096 16 16 (Some demo_empty_report) = (summ, records) \<and>
     ps_status summ = PARSED \<and> ps_instances summ \<le> ps_alerts summ * 16"
proof -
  obtain summ records where run: "parse_active (\<lambda>_. False) (\<lambda>_. None) (\<lambda>_. None) ''2'' demo_active_projection
       \<lparr>va_plugin_id = 40012, va_name = ''XSS''\<rparr> 4096 16 16 (Some demo_empty_report) = (summ, records)"
    and "ps_code summ = None"
    using demo_empty_parsed by (auto split: prod.splits)
  with active_records_are_confined [OF run] show ?thesis by blast
qed

lemma demo_instance_accepted:
  "fst (instance_path (\<lambda>_. False) (\<lambda>_. None) demo_active_projection (points_of ''http://o:1/x?q=%3Cscript%3E'')
     (fresh_report :: (active_identity, active_record) report_state)) = Inr (points_of ''/x'')"
  by code_simp

lemma attack_classes:
  "classify_attack (points_of ''<scrIpt>alert(1);</scRipt>'') = SCRIPT_ELEMENT"
  "classify_attack (points_of ''x onload =y'') = EVENT_HANDLER"
  "classify_attack (points_of ([CHR 0x22] @ ''><b>'')) = ATTRIBUTE_BREAKOUT"
  "classify_attack (points_of ''<b>'') = MARKUP_INJECTION"
  by code_simp+

end
