(* ===== verification/Nuclei_Report.thy ===== *)
theory Nuclei_Report
  imports Report_Props Safety
begin

text \<open>
  The parser of Nuclei's JSON lines (\<open>aegis_nuclei/parser.py\<close>) and the manifest's template entries it
  checks each line against. Every line must be about an admitted template, the approved target and a
  pinned request; one contradiction or stray field fails the whole output.
\<close>

record template_entry =
  te_template_id :: string
  te_name :: string
  te_protocol :: string
  te_request_paths :: "string list"
  te_allowed_matchers :: "string list"
  te_expected_severity :: string

text \<open>\<open>AdmittedTemplate\<close>; the parser receives them by template id.\<close>

record admitted_template =
  ad_entry :: template_entry
  ad_path :: string

datatype error_class = E_NONE | TARGET_UNREACHABLE | E_TIMEOUT | E_OTHER

text \<open>The time of an observation: microseconds of UTC since the first day of year 1.\<close>

record nuclei_record =
  nr_template_id :: string
  nr_target_ref :: string
  nr_matched :: bool
  nr_checked_path :: points
  nr_error :: error_class
  nr_severity :: points
  nr_extracted :: nat
  nr_digest :: string
  nr_observed_at :: int

definition MAX_LINE_BYTES :: nat where "MAX_LINE_BYTES = 16384"

definition NUCLEI_KEYS :: "string list" where
  "NUCLEI_KEYS = [''template-id'', ''template-path'', ''template-url'', ''info'', ''type'', ''host'', ''port'',
     ''scheme'', ''url'', ''path'', ''matched-at'', ''ip'', ''timestamp'', ''curl-command'', ''matcher-status'',
     ''matcher-name'', ''error'', ''extracted-results'']"
definition REFUSED_KEYS :: "string list" where
  "REFUSED_KEYS = [''request'', ''response'', ''template-encoded'', ''interaction'', ''meta'', ''lines'', ''extractor-name'']"
definition STRIPPED_KEYS :: "string list" where
  "STRIPPED_KEYS = [''curl-command'', ''ip'', ''template-url'', ''extracted-results'']"
definition UNREACHABLE :: "string list" where
  "UNREACHABLE = [''port closed'', ''connection refused'', ''no address'', ''no such host'', ''unreachable'']"
definition TIMEOUTS :: "string list" where
  "TIMEOUTS = [''timeout'', ''deadline exceeded'', ''i/o timeout'']"

section \<open>Time stamps\<close>

text \<open>\<open>^(\d{4}-\d{2}-\d{2}T\d{2}:\d{2}:\d{2})(\.\d+)?(Z|[+-]\d{2}:\d{2})$\<close>: \<open>$\<close> also matches before a final line
  feed.  A digit outside ASCII satisfies the pattern and makes \<open>fromisoformat\<close> raise.\<close>

definition decimal :: "(nat \<Rightarrow> nat option option) \<Rightarrow> nat \<Rightarrow> bool" where
  "decimal udigit n \<longleftrightarrow> is_digit_point udigit n \<and> digit_value udigit n \<noteq> None"

definition STAMP :: "(nat \<Rightarrow> nat option option) \<Rightarrow> rx" where
  "STAMP udigit =
     (let d = R_Cls (decimal udigit); d2 = R_count 2 2 d; dash = R_text ''-''; colon = R_text '':'' in
      R_seqs [R_count 4 4 d, dash, d2, dash, d2, R_text ''T'', d2, colon, d2, colon, d2,
        R_Alt R_Eps (R_Seq (R_text ''.'') (R_plus d)),
        R_Alt (R_text ''Z'') (R_seqs [R_Alt (R_text ''+'') dash, d2, colon, d2])])"

definition leap_year :: "nat \<Rightarrow> bool" where
  "leap_year y \<longleftrightarrow> 4 dvd y \<and> (\<not> 100 dvd y \<or> 400 dvd y)"

definition month_days :: "nat \<Rightarrow> nat \<Rightarrow> nat" where
  "month_days y m = (if m = 2 then if leap_year y then 29 else 28 else if m \<in> {4, 6, 9, 11} then 30 else 31)"

definition day_number :: "nat \<Rightarrow> nat \<Rightarrow> nat \<Rightarrow> int" where
  "day_number y m d =
     365 * (int y - 1) + int ((y - 1) div 4) - int ((y - 1) div 100) + int ((y - 1) div 400) +
     int (sum_list (map (month_days y) [1..<m])) + int d - 1"

definition MAX_DAY :: int where "MAX_DAY = 3652059"

text \<open>The value of an ASCII stamp, \<open>None\<close> for a field out of range or a time outside the years 1 to 9999
  once it is in UTC.\<close>

definition stamp_value :: "string \<Rightarrow> int option" where
  "stamp_value s =
     (let num = (\<lambda>i n. str_nat (take n (drop i s))); y = num 0 4; mo = num 5 2; d = num 8 2;
          h = num 11 2; mi = num 14 2; se = num 17 2; rest = drop 19 s;
          fr = (if take 1 rest = ''.'' then takeWhile is_digit (tl rest) else ''0'');
          zone = (if take 1 rest = ''.'' then drop (length fr + 1) rest else rest);
          micro = str_nat (take 6 (fr @ ''00000''));
          off = (if zone = ''Z'' then 0 else 60 * int (str_nat (take 2 (drop 1 zone))) + int (str_nat (drop 4 zone)));
          away = (if take 1 zone = ''-'' then - off else off);
          utc = ((day_number y mo d * 1440 + int (60 * h + mi) - away) * 60 + int se) * 1000000 + int micro in
      if 1 \<le> y \<and> 1 \<le> mo \<and> mo \<le> 12 \<and> 1 \<le> d \<and> d \<le> month_days y mo \<and> h \<le> 23 \<and> mi \<le> 59 \<and> se \<le> 59 \<and>
         off < 1440 \<and> 0 \<le> utc \<and> utc < MAX_DAY * 86400000000
      then Some utc else None)"

definition parse_timestamp :: "(nat \<Rightarrow> nat option option) \<Rightarrow> json \<Rightarrow> report_error + int" where
  "parse_timestamp udigit v =
     (case v of
        JStr p \<Rightarrow>
          let q = (if p \<noteq> [] \<and> last p = 10 then butlast p else p) in
          if \<not> fullmatch (STAMP udigit) q then Inl (Rejects PS_MALFORMED OUTPUT_MALFORMED)
          else (case as_ascii q of
              None \<Rightarrow> Inl Faulted
            | Some s \<Rightarrow> (case stamp_value s of None \<Rightarrow> Inl Faulted | Some t \<Rightarrow> Inr t))
      | _ \<Rightarrow> Inl (Rejects PS_MALFORMED OUTPUT_MALFORMED))"

section \<open>Values\<close>

text \<open>\<open>str(value).lower()\<close>, exact where it is compared with ASCII text: the two characters outside ASCII
  that lower to one are written out, and the text of a list or a dictionary is no host or severity.\<close>

definition lower_text :: "points \<Rightarrow> points" where
  "lower_text p = concat (map (\<lambda>n. if 65 \<le> n \<and> n \<le> 90 then [n + 32] else if n = 0x130 then [105, 0x307]
     else if n = 0x212A then [107] else [n]) p)"

definition py_str :: "(string \<Rightarrow> string) \<Rightarrow> json \<Rightarrow> points option" where
  "py_str flt v =
     (case v of JNull \<Rightarrow> Some (points_of ''None'')
      | JBool b \<Rightarrow> Some (points_of (if b then ''True'' else ''False''))
      | JInt i \<Rightarrow> Some (points_of (int_str i)) | JFloat x \<Rightarrow> Some (points_of (flt x)) | JStr p \<Rightarrow> Some p
      | _ \<Rightarrow> None)"

definition classify_error :: "json \<Rightarrow> error_class option" where
  "classify_error v =
     (case v of
        JNull \<Rightarrow> Some E_NONE
      | JStr p \<Rightarrow>
          if 1000 < length p then None
          else let has = list_ex (\<lambda>m. occurs (points_of m) (lower_text p)) in
            Some (if has UNREACHABLE then TARGET_UNREACHABLE else if has TIMEOUTS then E_TIMEOUT else E_OTHER)
      | _ \<Rightarrow> None)"

definition error_name :: "error_class \<Rightarrow> string" where
  "error_name e = (case e of E_NONE \<Rightarrow> ''NONE'' | TARGET_UNREACHABLE \<Rightarrow> ''TARGET_UNREACHABLE''
     | E_TIMEOUT \<Rightarrow> ''TIMEOUT'' | E_OTHER \<Rightarrow> ''OTHER'')"

text \<open>\<open>p.replace("{{BaseURL}}", url, 1)\<close> for each request path.\<close>

definition BASE_URL :: string where "BASE_URL = ''{{BaseURL}}''"

definition expected_request_urls :: "template_entry \<Rightarrow> nuclei_target \<Rightarrow> string list" where
  "expected_request_urls e t = map (replace_first BASE_URL (nuclei_target_url t)) (te_request_paths e)"

definition is_checked_char :: "char \<Rightarrow> bool" where
  "is_checked_char c \<longleftrightarrow> is_alnum c \<or> c = CHR ''/'' \<or> c = CHR ''.'' \<or> c = CHR ''_'' \<or> c = CHR ''-''"

definition CHECKED_PATH :: rx where
  "CHECKED_PATH = R_Seq (R_text ''/'') (R_Star (R_ascii is_checked_char))"

definition SEVERITIES :: "string list" where
  "SEVERITIES = [''info'', ''low'', ''medium'', ''high'', ''critical'', ''unknown'']"

definition nuclei_record_ok :: "nuclei_record \<Rightarrow> bool" where
  "nuclei_record_ok r \<longleftrightarrow> length (nr_template_id r) \<le> 100 \<and> length (nr_target_ref r) \<le> 64 \<and>
     length (nr_checked_path r) \<le> 200 \<and> fullmatch CHECKED_PATH (nr_checked_path r) \<and>
     nr_severity r \<in> set (map points_of SEVERITIES) \<and> nr_extracted r \<le> 64"

definition nuclei_normalized :: "nuclei_record \<Rightarrow> json" where
  "nuclei_normalized r = obj [(''template_id'', str_value (nr_template_id r)), (''target_ref'', str_value (nr_target_ref r)),
     (''matcher_status'', JBool (nr_matched r)), (''checked_path'', JStr (nr_checked_path r)),
     (''error_class'', str_value (error_name (nr_error r))), (''claimed_severity'', JStr (nr_severity r)),
     (''extracted_count'', JInt (int (nr_extracted r)))]"

definition nuclei_record_of ::
  "string \<Rightarrow> nuclei_target \<Rightarrow> bool \<Rightarrow> points \<Rightarrow> error_class \<Rightarrow> points \<Rightarrow> nat \<Rightarrow> int \<Rightarrow> nuclei_record" where
  "nuclei_record_of i t matched path err severity extracted stamp =
     (let r = \<lparr>nr_template_id = i, nr_target_ref = nt_target_ref t, nr_matched = matched, nr_checked_path = path,
        nr_error = err, nr_severity = severity, nr_extracted = extracted, nr_digest = [], nr_observed_at = stamp\<rparr> in
      r\<lparr>nr_digest := hexdigest (canonical_json (nuclei_normalized r))\<rparr>)"

section \<open>One line\<close>

type_synonym 'a nuclei_reading = "(string, nuclei_record, 'a) reading"

definition bad_output :: "bool \<Rightarrow> unit nuclei_reading" where
  "bad_output bad = mismatch OUTPUT_MALFORMED bad"

definition admitted_of ::
  "(string \<times> admitted_template) list \<Rightarrow> (points \<times> json) list \<Rightarrow> (string \<times> admitted_template) option" where
  "admitted_of admitted raw =
     (case get_field raw ''template-id'' of
        JStr p \<Rightarrow> find (\<lambda>(i, _). points_of i = p) admitted
      | _ \<Rightarrow> None)"

text \<open>The line is about the approved target: template path, protocol, address and base path.\<close>

definition off_target ::
  "(string \<Rightarrow> string) \<Rightarrow> string \<times> string \<times> nat \<Rightarrow> nuclei_target \<Rightarrow> admitted_template \<Rightarrow> (points \<times> json) list \<Rightarrow> bool" where
  "off_target flt parts t ad raw \<longleftrightarrow>
     (case parts of (scheme, host, port) \<Rightarrow>
       get_field raw ''template-path'' \<noteq> str_value (ad_path ad) \<or>
       get_field raw ''type'' \<noteq> str_value (te_protocol (ad_entry ad)) \<or>
       get_field raw ''scheme'' \<noteq> str_value scheme \<or>
       map_option lower_text (py_str flt (get_default raw ''host'' (JStr []))) \<noteq> Some (points_of host) \<or>
       py_str flt (get_default raw ''port'' (JStr [])) \<noteq> Some (points_of (nat_str port)) \<or>
       get_field raw ''url'' \<noteq> str_value (nuclei_target_url t) \<or>
       get_field raw ''path'' \<noteq> str_value (nt_base_path t))"

text \<open>\<open>str(info.get("severity", "")).lower()\<close> of a line with an \<open>info\<close> dictionary.\<close>

definition severity_of :: "(string \<Rightarrow> string) \<Rightarrow> (points \<times> json) list \<Rightarrow> points option" where
  "severity_of flt raw =
     (case get_field raw ''info'' of
        JObj info \<Rightarrow> map_option lower_text (py_str flt (get_default info ''severity'' (JStr [])))
      | _ \<Rightarrow> None)"

definition unexpected_info :: "(string \<Rightarrow> string) \<Rightarrow> template_entry \<Rightarrow> (points \<times> json) list \<Rightarrow> bool" where
  "unexpected_info flt e raw \<longleftrightarrow>
     (case get_field raw ''info'' of
        JObj info \<Rightarrow> get_field info ''name'' \<noteq> str_value (te_name e) \<or>
          severity_of flt raw \<noteq> Some (points_of (te_expected_severity e))
      | _ \<Rightarrow> True)"

definition unexpected_matcher :: "template_entry \<Rightarrow> (points \<times> json) list \<Rightarrow> bool" where
  "unexpected_matcher e raw \<longleftrightarrow>
     get_field raw ''matcher-name'' \<noteq> JNull \<and>
     get_field raw ''matcher-name'' \<notin> set (map str_value (te_allowed_matchers e))"

definition unexpected_url :: "nuclei_target \<Rightarrow> template_entry \<Rightarrow> bool \<Rightarrow> json \<Rightarrow> bool" where
  "unexpected_url t e matched at \<longleftrightarrow>
     at \<noteq> JNull \<and> at \<notin> set (map str_value (expected_request_urls e t)) \<or> matched \<and> at = JNull"

definition normalize_line ::
  "(string \<Rightarrow> bool) \<Rightarrow> (string \<Rightarrow> string) \<Rightarrow> (nat \<Rightarrow> nat option option) \<Rightarrow> (string \<times> admitted_template) list \<Rightarrow> nuclei_target \<Rightarrow>
   (points \<times> json) list \<Rightarrow> nuclei_record nuclei_reading" where
  "normalize_line ip flt udigit admitted t raw =
     thenE (bad_output (list_ex (has_key raw) REFUSED_KEYS \<or> \<not> known_keys NUCLEI_KEYS raw))
      (thenE (strips (filter (has_key raw) STRIPPED_KEYS))
       (case admitted_of admitted raw of
          None \<Rightarrow> throwE (Rejects PS_MALFORMED OUTPUT_MALFORMED)
        | Some (i, ad) \<Rightarrow>
            let e = ad_entry ad; matched_at = get_field raw ''matched-at'';
                checked = (case matched_at of JStr p \<Rightarrow> p | _ \<Rightarrow> points_of (nuclei_target_url t));
                extracted = get_field raw ''extracted-results'';
                severity = (case severity_of flt raw of None \<Rightarrow> [] | Some p \<Rightarrow> p) in
            (case origin_parts ip (nt_origin t) of
               None \<Rightarrow> if get_field raw ''template-path'' \<noteq> str_value (ad_path ad) \<or>
                   get_field raw ''type'' \<noteq> str_value (te_protocol e)
                 then throwE (Rejects PS_MALFORMED OUTPUT_MALFORMED) else throwE Faulted
             | Some parts \<Rightarrow>
                thenE (bad_output (off_target flt parts t ad raw \<or> unexpected_info flt e raw))
                 (case get_field raw ''matcher-status'' of
                    JBool matched \<Rightarrow>
                      thenE (bad_output (unexpected_matcher e raw))
                       (thenE (fault (unhashable matched_at))
                        (thenE (bad_output (unexpected_url t e matched matched_at))
                         (thenE (bad_output (case extracted of JNull \<Rightarrow> False | JArr vs \<Rightarrow> 64 < length vs | _ \<Rightarrow> True))
                          (case classify_error (get_field raw ''error'') of
                             None \<Rightarrow> throwE (Rejects PS_MALFORMED OUTPUT_MALFORMED)
                           | Some err \<Rightarrow>
                               thenE (bad_output (matched \<and> err \<noteq> E_NONE))
                                (bindE (lift (parse_timestamp udigit (get_field raw ''timestamp''))) (\<lambda>stamp.
                                 let r = nuclei_record_of i t matched (drop (length (nt_origin t)) checked) err
                                     severity (case extracted of JArr vs \<Rightarrow> length vs | _ \<Rightarrow> 0) stamp in
                                 thenE (fault (\<not> nuclei_record_ok r)) (retE r)))))))
                  | _ \<Rightarrow> throwE (Rejects PS_MALFORMED OUTPUT_MALFORMED)))))"

definition read_line ::
  "(string \<Rightarrow> bool) \<Rightarrow> (string \<Rightarrow> string) \<Rightarrow> (nat \<Rightarrow> nat option option) \<Rightarrow> (string \<times> admitted_template) list \<Rightarrow> nuclei_target \<Rightarrow>
   string \<Rightarrow> unit nuclei_reading" where
  "read_line ip flt udigit admitted t line =
     thenE (rejectE (MAX_LINE_BYTES < length line) (Rejects PS_OVERSIZED OUTPUT_OVERSIZED))
      (case (decode_utf8 line, loads line) of
         (Some _, Inr (JObj raw)) \<Rightarrow>
           bindE (normalize_line ip flt udigit admitted t raw) (\<lambda>r.
             enter OUTPUT_MALFORMED nr_digest (nr_template_id r) r)
       | _ \<Rightarrow> throwE (Rejects PS_MALFORMED OUTPUT_MALFORMED))"

section \<open>The output\<close>

record nuclei_summary =
  ns_status :: parse_status
  ns_code :: "report_code option"
  ns_lines :: nat
  ns_records :: nat
  ns_matched :: nat
  ns_unmatched :: nat
  ns_errored :: nat
  ns_duplicates :: nat
  ns_stripped :: "string list"

definition nuclei_summary_of ::
  "parse_status \<Rightarrow> report_code option \<Rightarrow> nat \<Rightarrow> nuclei_record list \<Rightarrow> nat \<Rightarrow> string list \<Rightarrow> nuclei_summary" where
  "nuclei_summary_of status code n records duplicates stripped =
     \<lparr>ns_status = status, ns_code = code, ns_lines = n, ns_records = length records,
      ns_matched = length (filter nr_matched records),
      ns_unmatched = length (filter (\<lambda>r. \<not> nr_matched r \<and> nr_error r = E_NONE) records),
      ns_errored = length (filter (\<lambda>r. nr_error r \<noteq> E_NONE) records),
      ns_duplicates = duplicates, ns_stripped = sort (remdups stripped)\<rparr>"

definition covered :: "(string \<times> admitted_template) list \<Rightarrow> nuclei_record list \<Rightarrow> bool" where
  "covered admitted records \<longleftrightarrow>
     list_all (\<lambda>(i, _). list_ex (\<lambda>r. nr_template_id r = i \<and> nr_error r = E_NONE) records) admitted"

type_synonym nuclei_outcome = "nuclei_summary \<times> nuclei_record list \<times> bool"

definition parse_jsonl ::
  "(string \<Rightarrow> bool) \<Rightarrow> (string \<Rightarrow> string) \<Rightarrow> (nat \<Rightarrow> nat option option) \<Rightarrow> (string \<times> admitted_template) list \<Rightarrow> nuclei_target \<Rightarrow>
   nat \<Rightarrow> nat \<Rightarrow> string \<Rightarrow> nuclei_outcome" where
  "parse_jsonl ip flt udigit admitted t max_results max_bytes data =
     (let failed = (\<lambda>status code n stripped. (nuclei_summary_of status code n [] 0 stripped, [], False));
          lines = butlast (split_on (CHR 0x0A) data) in
      if max_bytes < length data then failed PS_OVERSIZED (Some OUTPUT_OVERSIZED) 0 []
      else if data = [] then failed PS_EMPTY (Some COVERAGE_INCOMPLETE) 0 []
      else if last data \<noteq> CHR 0x0A then failed PS_TRUNCATED (Some OUTPUT_TRUNCATED) 0 []
      else if max_results < length lines then failed PS_OVERSIZED (Some OUTPUT_OVERSIZED) (length lines) []
      else (case eachE (read_line ip flt udigit admitted t) lines fresh_report of
          (Inl (Rejects status code), s) \<Rightarrow> failed status (Some code) (length lines) (rs_stripped s)
        | (Inl Faulted, s) \<Rightarrow> failed NOT_PARSED None 0 []
        | (Inr _, s) \<Rightarrow>
            let records = map snd (sort_key fst (rs_table s)); coverage = covered admitted records in
            (nuclei_summary_of PARSED (if coverage then None else Some COVERAGE_INCOMPLETE) (length lines) records
               (rs_duplicates s) (rs_stripped s), records, coverage)))"

section \<open>What is accepted\<close>

text \<open>A line reports a result: it is a JSON object with known fields only, about an admitted template
  (its id, path and protocol), the approved target (scheme, host, port, URL and base path) and, if it
  names the URL it matched at, a pinned request of the template; verdict, error and severity are
  those of the line, the severity the one the manifest expects.\<close>

definition line_reports ::
  "(string \<Rightarrow> bool) \<Rightarrow> (string \<Rightarrow> string) \<Rightarrow> (string \<times> admitted_template) list \<Rightarrow> nuclei_target \<Rightarrow> string \<Rightarrow> nuclei_record \<Rightarrow> bool" where
  "line_reports ip flt admitted t line r \<longleftrightarrow>
     (\<exists>raw ad scheme host port url.
        decode_utf8 line \<noteq> None \<and> loads line = Inr (JObj raw) \<and> known_keys NUCLEI_KEYS raw \<and>
        (nr_template_id r, ad) \<in> set admitted \<and> get_field raw ''template-id'' = str_value (nr_template_id r) \<and>
        get_field raw ''template-path'' = str_value (ad_path ad) \<and>
        get_field raw ''type'' = str_value (te_protocol (ad_entry ad)) \<and>
        origin_parts ip (nt_origin t) = Some (scheme, host, port) \<and> get_field raw ''scheme'' = str_value scheme \<and>
        map_option lower_text (py_str flt (get_default raw ''host'' (JStr []))) = Some (points_of host) \<and>
        py_str flt (get_default raw ''port'' (JStr [])) = Some (points_of (nat_str port)) \<and>
        get_field raw ''url'' = str_value (nuclei_target_url t) \<and> get_field raw ''path'' = str_value (nt_base_path t) \<and>
        get_field raw ''matcher-status'' = JBool (nr_matched r) \<and>
        classify_error (get_field raw ''error'') = Some (nr_error r) \<and>
        severity_of flt raw = Some (nr_severity r) \<and> nr_severity r = points_of (te_expected_severity (ad_entry ad)) \<and>
        nr_checked_path r = drop (length (nt_origin t)) (points_of url) \<and>
        (get_field raw ''matched-at'' = str_value url \<and> url \<in> set (expected_request_urls (ad_entry ad) t) \<or>
         get_field raw ''matched-at'' = JNull \<and> \<not> nr_matched r \<and> url = nuclei_target_url t))"

text \<open>What else holds of a result: its reference is the target's, a match has no error, it meets the
  constraints of its model, and its digest is the one of its fields.\<close>

definition nuclei_confined :: "nuclei_target \<Rightarrow> nuclei_record \<Rightarrow> bool" where
  "nuclei_confined t r \<longleftrightarrow>
     nr_target_ref r = nt_target_ref t \<and> (nr_matched r \<longrightarrow> nr_error r = E_NONE) \<and> nuclei_record_ok r \<and>
     nr_digest r = hexdigest (canonical_json (nuclei_normalized r))"

lemma nuclei_record_of_fields [simp]:
  "nr_template_id (nuclei_record_of i t matched path err sev ext stamp) = i"
  "nr_target_ref (nuclei_record_of i t matched path err sev ext stamp) = nt_target_ref t"
  "nr_matched (nuclei_record_of i t matched path err sev ext stamp) = matched"
  "nr_checked_path (nuclei_record_of i t matched path err sev ext stamp) = path"
  "nr_error (nuclei_record_of i t matched path err sev ext stamp) = err"
  "nr_severity (nuclei_record_of i t matched path err sev ext stamp) = sev"
  "nr_digest (nuclei_record_of i t matched path err sev ext stamp) =
     hexdigest (canonical_json (nuclei_normalized (nuclei_record_of i t matched path err sev ext stamp)))"
  by (simp_all add: nuclei_record_of_def Let_def nuclei_normalized_def)

lemma cases_Inr:
  "(case v of JBool b \<Rightarrow> f b | _ \<Rightarrow> throwE e) s = (Inr a, t) \<longleftrightarrow> (\<exists>b. v = JBool b \<and> f b s = (Inr a, t))"
  "(case x of None \<Rightarrow> throwE e | Some y \<Rightarrow> g y) s = (Inr a, t) \<longleftrightarrow> (\<exists>y. x = Some y \<and> g y s = (Inr a, t))"
  "retE c s = (Inr a, t) \<longleftrightarrow> c = a \<and> s = t"
proof -
  show "(case v of JBool b \<Rightarrow> f b | _ \<Rightarrow> throwE e) s = (Inr a, t) \<longleftrightarrow> (\<exists>b. v = JBool b \<and> f b s = (Inr a, t))"
    by (cases v) simp_all
  show "(case x of None \<Rightarrow> throwE e | Some y \<Rightarrow> g y) s = (Inr a, t) \<longleftrightarrow> (\<exists>y. x = Some y \<and> g y s = (Inr a, t))"
    by (cases x) simp_all
  show "retE c s = (Inr a, t) \<longleftrightarrow> c = a \<and> s = t" by auto
qed

lemma unexpected_url_cases:
  assumes "\<not> unexpected_url t e matched v"
  obtains url where "(case v of JStr p \<Rightarrow> p | _ \<Rightarrow> points_of (nuclei_target_url t)) = points_of url"
    and "v = str_value url \<and> url \<in> set (expected_request_urls e t) \<or> v = JNull \<and> \<not> matched \<and> url = nuclei_target_url t"
proof (cases "v = JNull")
  case True
  with assms show thesis by (intro that [of "nuclei_target_url t"]) (auto simp: unexpected_url_def)
next
  case False
  with assms obtain url where "v = str_value url" "url \<in> set (expected_request_urls e t)"
    by (auto simp: unexpected_url_def)
  then show thesis by (intro that [of url]) (simp_all add: str_value_def)
qed

lemma normalize_line_reports:
  assumes "normalize_line ip flt udigit admitted t raw s = (Inr r, s')"
    and "decode_utf8 line \<noteq> None" and "loads line = Inr (JObj raw)"
  shows "line_reports ip flt admitted t line r \<and> nuclei_confined t r \<and>
    rs_table s' = rs_table s \<and> rs_duplicates s' = rs_duplicates s"
proof -
  from assms(1) obtain i ad where ad: "admitted_of admitted raw = Some (i, ad)"
    by (cases "admitted_of admitted raw") (auto simp: normalize_line_def bad_output_def reads)
  from assms(1) obtain scheme host port where parts: "origin_parts ip (nt_origin t) = Some (scheme, host, port)"
    by (cases "origin_parts ip (nt_origin t)")
      (auto simp: normalize_line_def bad_output_def reads ad Let_def split: if_splits)
  have mem: "(i, ad) \<in> set admitted" and tid: "get_field raw ''template-id'' = str_value i"
    using ad by (auto simp: admitted_of_def str_value_def split: json.splits dest!: find_mem)
  let ?e = "ad_entry ad" and ?m = "get_field raw ''matched-at''"
  let ?path = "drop (length (nt_origin t)) (case ?m of JStr p \<Rightarrow> p | _ \<Rightarrow> points_of (nuclei_target_url t))"
  let ?ext = "case get_field raw ''extracted-results'' of JArr x \<Rightarrow> length x | _ \<Rightarrow> 0"
  let ?sev = "case severity_of flt raw of None \<Rightarrow> [] | Some p \<Rightarrow> p"
  note run = assms(1) [unfolded normalize_line_def Let_def ad parts option.case prod.case bad_output_def reads cases_Inr not_not]
  from run obtain matched err stamp where
    known: "\<not> (list_ex (has_key raw) REFUSED_KEYS \<or> \<not> known_keys NUCLEI_KEYS raw)"
    and on: "\<not> (off_target flt (scheme, host, port) t ad raw \<or> unexpected_info flt ?e raw)"
    and status: "get_field raw ''matcher-status'' = JBool matched"
    and at: "\<not> unexpected_url t ?e matched ?m" and cls: "classify_error (get_field raw ''error'') = Some err"
    and err: "\<not> (matched \<and> err \<noteq> E_NONE)"
    and ok: "nuclei_record_ok (nuclei_record_of i t matched ?path err ?sev ?ext stamp)"
    and r: "nuclei_record_of i t matched ?path err ?sev ?ext stamp = r"
    by - (elim exE conjE, rule that, assumption+)
  from run have frame: "rs_table s' = rs_table s" "rs_duplicates s' = rs_duplicates s"
    by - (elim exE conjE, simp)+
  from at obtain url where url: "(case ?m of JStr p \<Rightarrow> p | _ \<Rightarrow> points_of (nuclei_target_url t)) = points_of url"
    and pinned: "?m = str_value url \<and> url \<in> set (expected_request_urls ?e t) \<or>
      ?m = JNull \<and> \<not> matched \<and> url = nuclei_target_url t"
    by (rule unexpected_url_cases)
  from on have sev: "severity_of flt raw = Some (points_of (te_expected_severity ?e))"
    by (auto simp: unexpected_info_def split: json.splits)
  have fields: "nr_template_id r = i" "nr_matched r = matched" "nr_error r = err"
    "nr_severity r = points_of (te_expected_severity ?e)" "nr_checked_path r = drop (length (nt_origin t)) (points_of url)"
    unfolding r [symmetric] by (simp_all add: sev url)
  have "line_reports ip flt admitted t line r"
    unfolding line_reports_def fields
    by (rule exI [of _ raw], rule exI [of _ ad], rule exI [of _ scheme], rule exI [of _ host], rule exI [of _ port],
        rule exI [of _ url])
       (use assms(2,3) known on mem tid parts status cls sev pinned in \<open>simp add: off_target_def\<close>)
  moreover have "nuclei_confined t r"
    using err ok unfolding nuclei_confined_def r [symmetric] by simp
  ultimately show ?thesis using frame by blast
qed

text \<open>After the lines \<open>ls\<close>: each of them reports a result, each result in the table is reported by one
  of them, and the results and the collapsed duplicates add up to them.\<close>

definition lines_ok ::
  "(nuclei_record \<Rightarrow> string \<Rightarrow> bool) \<Rightarrow> (nuclei_record \<Rightarrow> bool) \<Rightarrow> string list \<Rightarrow> (string, nuclei_record) report_state \<Rightarrow> bool" where
  "lines_ok reports ok ls s \<longleftrightarrow>
     (\<forall>(k, r)\<in>set (rs_table s). k = nr_template_id r \<and> ok r \<and> list_ex (reports r) ls) \<and>
     list_all (\<lambda>l. \<exists>r. reports r l) ls \<and>
     distinct (map fst (rs_table s)) \<and> length (rs_table s) + rs_duplicates s = length ls"

lemma read_line_ok:
  assumes "read_line ip flt udigit admitted t line s = (Inr u, s')"
    and "lines_ok (\<lambda>r l. line_reports ip flt admitted t l r) (nuclei_confined t) ls s"
  shows "lines_ok (\<lambda>r l. line_reports ip flt admitted t l r) (nuclei_confined t) (ls @ [line]) s'"
proof -
  let ?good = "\<lambda>k r. k = nr_template_id r \<and> nuclei_confined t r \<and> line_reports ip flt admitted t line r"
  from assms(1) obtain raw r w where norm: "normalize_line ip flt udigit admitted t raw s = (Inr r, w)"
    and enter: "enter OUTPUT_MALFORMED nr_digest (nr_template_id r) r w = (Inr u, s')"
    and line: "decode_utf8 line \<noteq> None" "loads line = Inr (JObj raw)"
    by (auto simp: read_line_def reads rejectE_run split: option.splits sum.splits json.splits if_splits)
  from normalize_line_reports [OF norm line] have r: "line_reports ip flt admitted t line r" "nuclei_confined t r"
    and frame: "rs_table w = rs_table s" "rs_duplicates w = rs_duplicates s" by auto
  with enter_Inr [OF enter, of ?good] consider
    "rs_table s' = rs_table s" "rs_duplicates s' = rs_duplicates s + 1"
    | k q where "?good k q" "map_of (rs_table s) k = None" "rs_table s' = rs_table s @ [(k, q)]"
        "rs_duplicates s' = rs_duplicates s"
    unfolding entered_def by auto
  then show ?thesis using assms(2) r(1) by cases (auto simp: lines_ok_def map_of_eq_None_iff)
qed

lemma read_lines_ok:
  "eachE (read_line ip flt udigit admitted t) ls s = (Inr u, s') \<Longrightarrow>
   lines_ok (\<lambda>r l. line_reports ip flt admitted t l r) (nuclei_confined t) done' s \<Longrightarrow>
   lines_ok (\<lambda>r l. line_reports ip flt admitted t l r) (nuclei_confined t) (done' @ ls) s'"
proof (induction ls arbitrary: s done')
  case (Cons l ls)
  then obtain w where "read_line ip flt udigit admitted t l s = (Inr (), w)"
    and rest: "eachE (read_line ip flt udigit admitted t) ls w = (Inr u, s')" by (auto simp: reads)
  with Cons.prems(2) have "lines_ok (\<lambda>r l. line_reports ip flt admitted t l r) (nuclei_confined t) (done' @ [l]) w"
    by (blast intro: read_line_ok)
  from Cons.IH [OF rest this] show ?case by simp
qed simp

lemma identified_lines:
  assumes "lines_ok reports ok ls s"
  shows "list_all (\<lambda>r. ok r \<and> list_ex (reports r) ls) (map snd (sort_key fst (rs_table s)))"
    and "sorted_wrt (\<lambda>x y. nr_template_id x < nr_template_id y) (map snd (sort_key fst (rs_table s)))"
  using keyed_records [of s nr_template_id "\<lambda>r. ok r \<and> list_ex (reports r) ls"] assms by (simp_all add: lines_ok_def)

lemma terminated_lines:
  "s \<noteq> [] \<Longrightarrow> last s = c \<Longrightarrow> s = concat (map (\<lambda>l. l @ [c]) (butlast (split_on c s)))"
proof (induction s)
  case (Cons x s)
  have some: "split_on c s \<noteq> []" by (cases s) (simp_all split: list.split)
  show ?case
  proof (cases "s = []")
    case False
    with Cons have s: "s = concat (map (\<lambda>l. l @ [c]) (butlast (split_on c s)))" by simp
    obtain p ps where p: "split_on c s = p # ps" using some by (cases "split_on c s") auto
    have ps: "ps \<noteq> []"
    proof
      assume "ps = []"
      then have "butlast (split_on c s) = []" by (simp add: p)
      with s False show False by (metis concat.simps(1) list.map(1))
    qed
    have "s = p @ c # concat (map (\<lambda>l. l @ [c]) (butlast ps))"
      by (rule trans [OF s]) (simp add: p ps)
    moreover have "concat (map (\<lambda>l. l @ [c]) (butlast (split_on c (x # s)))) =
        x # p @ c # concat (map (\<lambda>l. l @ [c]) (butlast ps))"
      using ps by (cases "x = c") (simp_all add: p)
    ultimately show ?thesis by (simp only:)
  qed (use Cons in simp)
qed simp

section \<open>Properties\<close>

text \<open>C29: Nuclei's output either yields no result and no coverage, or each of its lines, and so each
  result, is about an admitted template and the approved target: the line's template id and path and
  its protocol are the template's, its scheme, host, port, URL and path the target's, its severity
  the one the manifest expects, and the URL it matched at a pinned request of the template.  A match
  has no error, no two results are of the same template, results and collapsed duplicates add up to
  the lines, and coverage is complete exactly when every admitted template has a result without an
  error.\<close>

theorem nuclei_results_are_admitted:
  assumes "parse_jsonl ip flt udigit admitted t max_results max_bytes data = (summ, results, coverage)"
  shows "results = [] \<and> \<not> coverage \<and> ns_records summ = 0 \<or>
    ns_status summ = PARSED \<and>
    (\<exists>ls. data = concat (map (\<lambda>l. l @ [CHR 0x0A]) ls) \<and> ns_lines summ = length ls \<and> length ls \<le> max_results \<and>
       list_all (\<lambda>l. \<exists>r. line_reports ip flt admitted t l r) ls \<and>
       list_all (\<lambda>r. nuclei_confined t r \<and> list_ex (\<lambda>l. line_reports ip flt admitted t l r) ls) results) \<and>
    sorted_wrt (\<lambda>x y. nr_template_id x < nr_template_id y) results \<and>
    length results + ns_duplicates summ = ns_lines summ \<and>
    ns_matched summ + ns_unmatched summ + ns_errored summ = length results \<and>
    (coverage \<longleftrightarrow> (\<forall>i\<in>fst ` set admitted. \<exists>r\<in>set results. nr_template_id r = i \<and> nr_error r = E_NONE))"
proof (cases "results = [] \<and> \<not> coverage \<and> ns_records summ = 0")
  case False
  define ls where "ls = butlast (split_on CHR 0x0A data)"
  from False assms obtain s where run: "eachE (read_line ip flt udigit admitted t) ls fresh_report = (Inr (), s)"
    and few: "length ls \<le> max_results" and ends: "data \<noteq> []" "last data = CHR 0x0A"
    and out: "results = map snd (sort_key fst (rs_table s))" "coverage = covered admitted results"
    and summ: "summ = nuclei_summary_of PARSED (if coverage then None else Some COVERAGE_INCOMPLETE)
       (length ls) results (rs_duplicates s) (rs_stripped s)"
    unfolding parse_jsonl_def Let_def ls_def
    by (auto simp: nuclei_summary_of_def split: if_splits sum.splits prod.splits report_error.splits)
  have "lines_ok (\<lambda>r l. line_reports ip flt admitted t l r) (nuclei_confined t) [] fresh_report"
    by (simp add: lines_ok_def fresh_report_def)
  from read_lines_ok [OF run this]
  have ok: "lines_ok (\<lambda>r l. line_reports ip flt admitted t l r) (nuclei_confined t) ls s" by simp
  note listed = identified_lines [OF ok, folded out(1)]
  have "length (filter nr_matched results) + length (filter (\<lambda>r. \<not> nr_matched r \<and> nr_error r = E_NONE) results) +
      length (filter (\<lambda>r. nr_error r \<noteq> E_NONE) results) = length results"
    using listed(1) by (induction results) (auto simp: nuclei_confined_def)
  moreover have "coverage \<longleftrightarrow> (\<forall>i\<in>fst ` set admitted. \<exists>r\<in>set results. nr_template_id r = i \<and> nr_error r = E_NONE)"
    by (force simp: out(2) covered_def list_all_iff list_ex_iff)
  moreover have "length results + rs_duplicates s = length ls"
    using ok by (simp add: lines_ok_def out(1))
  moreover have "data = concat (map (\<lambda>l. l @ [CHR 0x0A]) ls)"
    unfolding ls_def by (rule terminated_lines [OF ends])
  ultimately show ?thesis
    using listed few ok by (auto simp: summ nuclei_summary_of_def lines_ok_def)
qed blast

section \<open>Witness\<close>

definition demo_template :: admitted_template where
  "demo_template = \<lparr>ad_entry = \<lparr>te_template_id = ''git-config'', te_name = ''Git'', te_protocol = ''http'',
     te_request_paths = [''{{BaseURL}}/.git/config''], te_allowed_matchers = [], te_expected_severity = ''medium''\<rparr>,
     ad_path = ''/t''\<rparr>"

definition demo_target :: nuclei_target where
  "demo_target = \<lparr>nt_target_ref = ''lab'', nt_origin = ''http://o:1'', nt_base_path = ''/b'', nt_variant = ''patched'',
     nt_operation_id = ''op''\<rparr>"

definition demo_line :: string where
  "demo_line =
     (let q = (\<lambda>s. CHR 0x22 # s @ [CHR 0x22]); f = (\<lambda>k v. q k @ '':'' @ v @ '','') in
      ''{'' @ f ''template-id'' (q ''git-config'') @ f ''template-path'' (q ''/t'') @ f ''type'' (q ''http'') @
      f ''scheme'' (q ''http'') @ f ''host'' (q ''o'') @ f ''port'' (q ''1'') @ f ''url'' (q ''http://o:1/b'') @
      f ''path'' (q ''/b'') @ f ''info'' (''{'' @ f ''name'' (q ''Git'') @ q ''severity'' @ '':'' @ q ''medium'' @ ''}'') @
      f ''matcher-status'' ''false'' @ q ''timestamp'' @ '':'' @ q ''2026-03-01T10:00:00.5Z'' @ ''}'')"

definition demo_fields :: "(points \<times> json) list" where
  "demo_fields = (case loads demo_line of Inr (JObj raw) \<Rightarrow> raw | _ \<Rightarrow> [])"

definition demo_result :: nuclei_record where
  "demo_result = nuclei_record_of ''git-config'' demo_target False (points_of ''/b'') E_NONE (points_of ''medium'') 0 63907956000500000"

lemma demo_line_facts:
  "length demo_line \<le> MAX_LINE_BYTES" "decode_utf8 demo_line \<noteq> None" "loads demo_line = Inr (JObj demo_fields)"
  "CHR 0x0A \<notin> set demo_line"
  by code_simp+

lemma demo_field_facts:
  "list_ex (has_key demo_fields) REFUSED_KEYS = False" "known_keys NUCLEI_KEYS demo_fields"
  "filter (has_key demo_fields) STRIPPED_KEYS = []"
  "admitted_of [(''git-config'', demo_template)] demo_fields = Some (''git-config'', demo_template)"
  "origin_parts (\<lambda>_. False) (nt_origin demo_target) = Some (''http'', ''o'', Suc 0)"
  "off_target (\<lambda>x. x) (''http'', ''o'', Suc 0) demo_target demo_template demo_fields = False"
  "unexpected_info (\<lambda>x. x) (ad_entry demo_template) demo_fields = False"
  "severity_of (\<lambda>x. x) demo_fields = Some (points_of ''medium'')"
  "get_field demo_fields ''matcher-status'' = JBool False"
  "unexpected_matcher (ad_entry demo_template) demo_fields = False"
  "get_field demo_fields ''matched-at'' = JNull" "get_field demo_fields ''extracted-results'' = JNull"
  "get_field demo_fields ''error'' = JNull"
  "parse_timestamp (\<lambda>_. None) (get_field demo_fields ''timestamp'') = Inr 63907956000500000"
  "fullmatch CHECKED_PATH (points_of ''/b'')" "length (points_of ''/b'') = 2"
  "drop (length (nt_origin demo_target)) (points_of (nuclei_target_url demo_target)) = points_of ''/b''"
  "te_expected_severity (ad_entry demo_template) = ''medium''" "nt_target_ref demo_target = ''lab''"
  by code_simp+

lemma demo_result_ok: "nuclei_record_ok demo_result"
  by (simp add: nuclei_record_ok_def demo_result_def demo_field_facts SEVERITIES_def nuclei_record_of_def Let_def)

lemma demo_normalized:
  "normalize_line (\<lambda>_. False) (\<lambda>x. x) (\<lambda>_. None) [(''git-config'', demo_template)] demo_target demo_fields s = (Inr demo_result, s)"
  using demo_result_ok
  by (simp add: normalize_line_def demo_field_facts bindE_run bad_output_def mismatch_def fault_def strips_def Let_def
      unexpected_url_def classify_error_def lift_def unhashable_def demo_result_def)

lemma demo_parses:
  "parse_jsonl (\<lambda>_. False) (\<lambda>x. x) (\<lambda>_. None) [(''git-config'', demo_template)] demo_target 4 4096 (demo_line @ [CHR 0x0A]) =
     (nuclei_summary_of PARSED None 1 [demo_result] 0 [], [demo_result], True)"
proof -
  let ?n = "CHR 0x0A"
  have lines: "butlast (split_on ?n (demo_line @ [?n])) = [demo_line]"
    using split_on_append [OF demo_line_facts(4), of "[]"] by simp
  have run: "eachE (read_line (\<lambda>_. False) (\<lambda>x. x) (\<lambda>_. None) [(''git-config'', demo_template)] demo_target)
      [demo_line] fresh_report = (Inr (), fresh_report\<lparr>rs_table := [(''git-config'', demo_result)]\<rparr>)"
    using demo_line_facts(1,2)
    by (auto simp: read_line_def demo_line_facts(3) demo_normalized bindE_run enter_def rejectE_run fresh_report_def
        demo_result_def)
  have "length (demo_line @ [?n]) \<le> 4096" "covered [(''git-config'', demo_template)] [demo_result]"
    by code_simp (simp add: covered_def demo_result_def)
  then show ?thesis
    unfolding parse_jsonl_def Let_def lines run by (simp add: fresh_report_def)
qed

theorem nuclei_results_are_admitted_witness:
  "\<exists>summ. parse_jsonl (\<lambda>_. False) (\<lambda>x. x) (\<lambda>_. None) [(''git-config'', demo_template)] demo_target 4 4096
       (demo_line @ [CHR 0x0A]) = (summ, [demo_result], True) \<and>
     (\<exists>line. line_reports (\<lambda>_. False) (\<lambda>x. x) [(''git-config'', demo_template)] demo_target line demo_result)"
  using nuclei_results_are_admitted [OF demo_parses] demo_parses by (auto simp: list_ex_iff)

end
