(* ===== verification/Process_Lifecycle.thy ===== *)
theory Process_Lifecycle
  imports Prelude
begin

text \<open>
  The process-local lifecycle of the control plane (\<open>aegis/process_lifecycle.py\<close>): which work is
  admitted, and how a drain stops the process.  Every method holds the lock for its whole critical
  section, so it is one program; what the event loop interleaves (a task ends, its callback runs, the
  drain coroutine resumes) are steps of their own.  The step relation is inductive and covers any
  interleaving of them.
\<close>

section \<open>State\<close>

datatype process_state = STARTING | SERVING | DRAINING | STOPPED

text \<open>\<open>_TrackedWork\<close>; of the timeout callback only whether it was given matters, and its calls are logged.\<close>

record tracked_work =
  tw_id :: string
  tw_callback :: bool

record drain_result =
  dr_timed_out :: bool
  dr_admitted :: nat
  dr_completed :: nat
  dr_cancelled :: nat

text \<open>Where a drain coroutine is suspended: not yet run, in the grace wait for the tasks it found, or in the
  cancellation wait.  A cancelled task comes with what was tracked of it at that time.\<close>

datatype drain_phase = Created | Grace_Wait "nat list"
  | Cancel_Wait nat nat "(nat \<times> tracked_work option) list"

record process =
  pl_state :: process_state
  pl_work :: "(nat \<times> tracked_work) list"
  pl_drain_task :: bool
  pl_last_result :: drain_result
  pl_next_task :: nat
  pl_ended :: "nat list"
  pl_drains :: "drain_phase list"
  pl_notified :: "nat list"

datatype life_error = Service_Draining | Runtime_Error string | Create_Failed

type_synonym 'a life = "(process, life_error, 'a) prog"

definition no_result :: drain_result where
  "no_result = \<lparr>dr_timed_out = False, dr_admitted = 0, dr_completed = 0, dr_cancelled = 0\<rparr>"

definition new_process :: process where
  "new_process = \<lparr>pl_state = STARTING, pl_work = [], pl_drain_task = False, pl_last_result = no_result,
     pl_next_task = 0, pl_ended = [], pl_drains = [], pl_notified = []\<rparr>"

section \<open>Methods\<close>

definition start_process :: "unit life" where
  "start_process =
     bindE (getE pl_work) (\<lambda>w.
     thenE (rejectE (w \<noteq> []) (Runtime_Error ''cannot restart lifecycle with in-flight work''))
       (modifyE (\<lambda>p. p\<lparr>pl_drain_task := False, pl_state := STARTING\<rparr>)))"

definition mark_serving :: "unit life" where
  "mark_serving =
     bindE (getE pl_state) (\<lambda>s.
     thenE (rejectE (s \<noteq> STARTING \<and> s \<noteq> SERVING) (Runtime_Error ''cannot serve after drain has started''))
       (modifyE (\<lambda>p. p\<lparr>pl_state := SERVING\<rparr>)))"

definition require_serving :: "unit life" where
  "require_serving = bindE (getE pl_state) (\<lambda>s. rejectE (s \<noteq> SERVING) Service_Draining)"

text \<open>\<open>create_task\<close> and the registration of the new task.\<close>

definition register_task :: "tracked_work \<Rightarrow> unit life" where
  "register_task w = modifyE (\<lambda>p. p\<lparr>pl_work := pl_work p @ [(pl_next_task p, w)], pl_next_task := pl_next_task p + 1\<rparr>)"

definition submit_work :: "tracked_work \<Rightarrow> unit life" where
  "submit_work w = thenE require_serving (register_task w)"

text \<open>The durable creation comes as its outcome; when it raises, nothing is registered.\<close>

definition create_and_submit :: "tracked_work option \<Rightarrow> unit life" where
  "create_and_submit created =
     thenE require_serving (case created of None \<Rightarrow> throwE Create_Failed | Some w \<Rightarrow> register_task w)"

definition work_done :: "nat \<Rightarrow> unit life" where
  "work_done task = modifyE (\<lambda>p. p\<lparr>pl_work := AList.delete task (pl_work p)\<rparr>)"

text \<open>\<open>drain\<close> up to its await: the result of an earlier drain, or \<open>None\<close> to wait for the drain task.\<close>

definition call_drain :: "drain_result option life" where
  "call_drain =
     bindE (getE pl_state) (\<lambda>s.
     if s = STOPPED then bindE (getE pl_last_result) (\<lambda>r. retE (Some r))
     else bindE (getE pl_drain_task) (\<lambda>running.
       if running then retE None
       else thenE (modifyE (\<lambda>p. p\<lparr>pl_state := DRAINING, pl_drain_task := True, pl_drains := pl_drains p @ [Created]\<rparr>))
         (retE None)))"

section \<open>The drain coroutine\<close>

definition stop_with :: "bool \<Rightarrow> nat \<Rightarrow> nat \<Rightarrow> nat \<Rightarrow> process \<Rightarrow> process" where
  "stop_with timed_out admitted completed cancelled p =
     p\<lparr>pl_state := STOPPED, pl_last_result := \<lparr>dr_timed_out = timed_out, dr_admitted = admitted,
        dr_completed = completed, dr_cancelled = cancelled\<rparr>\<rparr>"

definition drop_nth :: "nat \<Rightarrow> 'a list \<Rightarrow> 'a list" where
  "drop_nth i xs = take i xs @ drop (Suc i) xs"

text \<open>A coroutine resumed: from its creation to the grace wait, or to the end when nothing is in flight;
  after the grace wait, of which \<open>done\<close> are the tasks that ended; after the cancellation wait, when the
  callbacks of all cancelled work are called.\<close>

definition begin_drain :: "nat \<Rightarrow> process \<Rightarrow> process" where
  "begin_drain i p =
     (let initial = map fst (pl_work p) in
      if initial = [] then stop_with False 0 0 0 (p\<lparr>pl_drains := drop_nth i (pl_drains p)\<rparr>)
      else p\<lparr>pl_drains := (pl_drains p)[i := Grace_Wait initial]\<rparr>)"

definition after_grace :: "nat \<Rightarrow> nat list \<Rightarrow> process \<Rightarrow> process" where
  "after_grace i initial p =
     (let ended = filter (\<lambda>t. t \<in> set (pl_ended p)) initial;
          pending = filter (\<lambda>t. t \<notin> set (pl_ended p)) initial in
      if pending = [] then
        stop_with False (length initial) (length ended) 0 (p\<lparr>pl_drains := drop_nth i (pl_drains p)\<rparr>)
      else p\<lparr>pl_drains := (pl_drains p)
        [i := Cancel_Wait (length initial) (length ended) (map (\<lambda>t. (t, map_of (pl_work p) t)) pending)]\<rparr>)"

definition wants_callback :: "nat \<times> tracked_work option \<Rightarrow> bool" where
  "wants_callback tw = (case snd tw of None \<Rightarrow> False | Some w \<Rightarrow> tw_callback w)"

definition after_cancel :: "nat \<Rightarrow> nat \<Rightarrow> nat \<Rightarrow> (nat \<times> tracked_work option) list \<Rightarrow> process \<Rightarrow> process" where
  "after_cancel i admitted completed pending p =
     stop_with True admitted completed (length pending)
       (p\<lparr>pl_drains := drop_nth i (pl_drains p), pl_notified := pl_notified p @ map fst (filter wants_callback pending)\<rparr>)"

section \<open>Steps\<close>

datatype life_op = Start | Serve | Submit tracked_work | Create_Submit "tracked_work option" | Call_Drain
  | End_Task nat | Task_Callback nat | Resume_Drain nat

text \<open>A method may be called at any time; a task of the process ends at any time and its callback runs later;
  the grace wait may run out at any time, and so may the cancellation wait.\<close>

inductive life_step :: "life_op \<Rightarrow> process \<Rightarrow> process \<Rightarrow> bool" where
  start: "start_process p = (r, q) \<Longrightarrow> life_step Start p q"
| serve: "mark_serving p = (r, q) \<Longrightarrow> life_step Serve p q"
| submit: "submit_work w p = (r, q) \<Longrightarrow> life_step (Submit w) p q"
| create: "create_and_submit c p = (r, q) \<Longrightarrow> life_step (Create_Submit c) p q"
| drain: "call_drain p = (d, q) \<Longrightarrow> life_step Call_Drain p q"
| end_task: "t < pl_next_task p \<Longrightarrow> t \<notin> set (pl_ended p) \<Longrightarrow>
    life_step (End_Task t) p (p\<lparr>pl_ended := pl_ended p @ [t]\<rparr>)"
| callback: "t \<in> set (pl_ended p) \<Longrightarrow> work_done t p = (r, q) \<Longrightarrow> life_step (Task_Callback t) p q"
| begin_step: "i < length (pl_drains p) \<Longrightarrow> pl_drains p ! i = Created \<Longrightarrow>
    life_step (Resume_Drain i) p (begin_drain i p)"
| grace_step: "i < length (pl_drains p) \<Longrightarrow> pl_drains p ! i = Grace_Wait initial \<Longrightarrow>
    life_step (Resume_Drain i) p (after_grace i initial p)"
| cancel_step: "i < length (pl_drains p) \<Longrightarrow> pl_drains p ! i = Cancel_Wait admitted completed pending \<Longrightarrow>
    life_step (Resume_Drain i) p (after_cancel i admitted completed pending p)"

inductive_cases life_stepE: "life_step x p q"

inductive life_run :: "life_op list \<Rightarrow> process \<Rightarrow> process \<Rightarrow> bool" where
  life_nil: "life_run [] p p"
| life_cons: "life_step x p q \<Longrightarrow> life_run xs q r \<Longrightarrow> life_run (x # xs) p r"

inductive_simps life_run_simps [simp]: "life_run [] p q" "life_run (x # xs) p q"


inductive_cases life_runE: "life_run xs p q"

section \<open>The outcome of each method\<close>

lemmas life_methods = start_process_def mark_serving_def require_serving_def register_task_def submit_work_def
  create_and_submit_def work_done_def call_drain_def

lemma work_done_run [simp]: "work_done t p = (Inr (), p\<lparr>pl_work := AList.delete t (pl_work p)\<rparr>)"
  by (simp add: work_done_def)

lemma submit_run:
  "submit_work w p = (if pl_state p = SERVING
     then (Inr (), p\<lparr>pl_work := pl_work p @ [(pl_next_task p, w)], pl_next_task := pl_next_task p + 1\<rparr>)
     else (Inl Service_Draining, p))"
  by (simp add: submit_work_def require_serving_def register_task_def rejectE_def bindE_run)

lemma create_run:
  "create_and_submit c p = (if pl_state p = SERVING
     then (case c of None \<Rightarrow> (Inl Create_Failed, p)
       | Some w \<Rightarrow> (Inr (), p\<lparr>pl_work := pl_work p @ [(pl_next_task p, w)], pl_next_task := pl_next_task p + 1\<rparr>))
     else (Inl Service_Draining, p))"
  by (simp add: create_and_submit_def require_serving_def register_task_def rejectE_def bindE_run split: option.split)

lemma serve_run:
  "mark_serving p = (if pl_state p = STARTING \<or> pl_state p = SERVING then (Inr (), p\<lparr>pl_state := SERVING\<rparr>)
     else (Inl (Runtime_Error ''cannot serve after drain has started''), p))"
  by (simp add: mark_serving_def rejectE_def bindE_run)

lemma drain_run:
  "call_drain p = (if pl_state p = STOPPED then (Inr (Some (pl_last_result p)), p)
     else if pl_drain_task p then (Inr None, p)
     else (Inr None, p\<lparr>pl_state := DRAINING, pl_drain_task := True, pl_drains := pl_drains p @ [Created]\<rparr>))"
  by (simp add: call_drain_def bindE_run)

lemmas life_runs = submit_run create_run serve_run drain_run

section \<open>The invariant\<close>

text \<open>Every task that has not ended is tracked, the running drain has seen it, and a stopped process has
  settled it.\<close>

definition live_task :: "process \<Rightarrow> nat \<Rightarrow> bool" where
  "live_task p t \<longleftrightarrow> t < pl_next_task p \<and> t \<notin> set (pl_ended p)"

definition notified_if_asked :: "process \<Rightarrow> nat \<Rightarrow> tracked_work \<Rightarrow> bool" where
  "notified_if_asked p t w \<longleftrightarrow> (tw_callback w \<longrightarrow> t \<in> set (pl_notified p))"

fun drain_ok :: "process \<Rightarrow> drain_phase \<Rightarrow> bool" where
  "drain_ok p Created \<longleftrightarrow> True"
| "drain_ok p (Grace_Wait initial) \<longleftrightarrow> (\<forall>t. live_task p t \<longrightarrow> t \<in> set initial)"
| "drain_ok p (Cancel_Wait admitted completed pending) \<longleftrightarrow> admitted = completed + length pending \<and> pending \<noteq> [] \<and>
     (\<forall>t. live_task p t \<longrightarrow> (t, map_of (pl_work p) t) \<in> set pending)"

definition counts_ok :: "drain_result \<Rightarrow> bool" where
  "counts_ok r \<longleftrightarrow> dr_admitted r = dr_completed r + dr_cancelled r \<and> (dr_timed_out r \<longleftrightarrow> 0 < dr_cancelled r)"

definition work_ok :: "process \<Rightarrow> bool" where
  "work_ok p \<longleftrightarrow> (\<forall>t. live_task p t \<longrightarrow> map_of (pl_work p) t \<noteq> None) \<and> (\<forall>t \<in> fst ` set (pl_work p). t < pl_next_task p)"

definition settled :: "process \<Rightarrow> bool" where
  "settled p \<longleftrightarrow> counts_ok (pl_last_result p) \<and>
     (\<forall>t w. live_task p t \<longrightarrow> map_of (pl_work p) t = Some w \<longrightarrow> notified_if_asked p t w)"

definition phase_ok :: "process \<Rightarrow> bool" where
  "phase_ok p \<longleftrightarrow> (case pl_state p of
       DRAINING \<Rightarrow> pl_drain_task p \<and> (\<exists>d. pl_drains p = [d] \<and> drain_ok p d)
     | STOPPED \<Rightarrow> pl_drains p = [] \<and> settled p
     | _ \<Rightarrow> pl_drains p = [] \<and> \<not> pl_drain_task p)"

lemma map_of_append_key: "t \<notin> fst ` set xs \<Longrightarrow> map_of (xs @ [(t, w)]) = (map_of xs)(t \<mapsto> w)"
  by (rule ext) (auto simp: map_add_def split: option.split dest: map_of_SomeD intro: rev_image_eqI)

lemma work_ok_register:
  assumes "work_ok p"
  shows "work_ok (p\<lparr>pl_work := pl_work p @ [(pl_next_task p, w)], pl_next_task := pl_next_task p + 1\<rparr>)"
proof -
  have "pl_next_task p \<notin> fst ` set (pl_work p)" using assms by (fastforce simp: work_ok_def)
  then show ?thesis using assms by (auto simp: work_ok_def live_task_def map_of_append_key less_Suc_eq)
qed

lemma live_task_end [simp]:
  "live_task (p\<lparr>pl_ended := pl_ended p @ [t]\<rparr>) u \<longleftrightarrow> live_task p u \<and> u \<noteq> t"
  by (auto simp: live_task_def)

lemma live_task_other [simp]:
  "live_task (p\<lparr>pl_state := s\<rparr>) u = live_task p u" "live_task (p\<lparr>pl_work := w\<rparr>) u = live_task p u"
  "live_task (p\<lparr>pl_drains := ds\<rparr>) u = live_task p u" "live_task (p\<lparr>pl_drain_task := b\<rparr>) u = live_task p u"
  "live_task (p\<lparr>pl_last_result := r\<rparr>) u = live_task p u" "live_task (p\<lparr>pl_notified := n\<rparr>) u = live_task p u"
  by (simp_all add: live_task_def)

lemma work_ok_other [simp]:
  "work_ok (p\<lparr>pl_state := s\<rparr>) = work_ok p" "work_ok (p\<lparr>pl_drains := ds\<rparr>) = work_ok p"
  "work_ok (p\<lparr>pl_drain_task := b\<rparr>) = work_ok p" "work_ok (p\<lparr>pl_last_result := r\<rparr>) = work_ok p"
  "work_ok (p\<lparr>pl_notified := n\<rparr>) = work_ok p"
  by (simp_all add: work_ok_def)

lemma drain_ok_end: "drain_ok p d \<Longrightarrow> drain_ok (p\<lparr>pl_ended := pl_ended p @ [t]\<rparr>) d"
  by (cases d) auto

lemma drain_ok_callback:
  "t \<in> set (pl_ended p) \<Longrightarrow> drain_ok p d \<Longrightarrow> drain_ok (p\<lparr>pl_work := AList.delete t (pl_work p)\<rparr>) d"
  by (cases d) (auto simp: delete_conv live_task_def)

lemma settled_end: "settled p \<Longrightarrow> settled (p\<lparr>pl_ended := pl_ended p @ [t]\<rparr>)"
  by (simp add: settled_def notified_if_asked_def)

lemma settled_callback:
  "t \<in> set (pl_ended p) \<Longrightarrow> settled p \<Longrightarrow> settled (p\<lparr>pl_work := AList.delete t (pl_work p)\<rparr>)"
  by (auto simp: settled_def notified_if_asked_def delete_conv live_task_def split: if_splits)

text \<open>The three resumptions of the only drain coroutine.\<close>

lemma phase_ok_begin:
  assumes "work_ok p" and "phase_ok p" and "i < length (pl_drains p)" and "pl_drains p ! i = Created"
  shows "phase_ok (begin_drain i p)"
proof -
  from assms have p: "pl_state p = DRAINING" "pl_drain_task p" "pl_drains p = [Created]" "i = 0"
    by (auto simp: phase_ok_def split: process_state.splits)
  from assms(1) have t: "live_task p t \<Longrightarrow> t \<in> fst ` set (pl_work p)" for t
    by (auto simp: work_ok_def map_of_eq_None_iff)
  show ?thesis using p t
    by (auto simp: phase_ok_def begin_drain_def stop_with_def drop_nth_def settled_def counts_ok_def)
qed

lemma phase_ok_grace:
  assumes "work_ok p" and "phase_ok p" and "i < length (pl_drains p)" and "pl_drains p ! i = Grace_Wait initial"
  shows "phase_ok (after_grace i initial p)"
proof -
  from assms have p: "pl_state p = DRAINING" "pl_drain_task p" "pl_drains p = [Grace_Wait initial]" "i = 0"
    and t: "live_task p t \<Longrightarrow> t \<in> set initial" for t
    by (auto simp: phase_ok_def split: process_state.splits)
  have n: "length (filter (\<lambda>t. t \<in> set (pl_ended p)) initial) + length (filter (\<lambda>t. t \<notin> set (pl_ended p)) initial)
      = length initial"
    by (simp add: sum_length_filter_compl)
  show ?thesis
  proof (cases "filter (\<lambda>t. t \<notin> set (pl_ended p)) initial = []")
    case True
    with p t n show ?thesis
      by (auto simp: phase_ok_def after_grace_def stop_with_def drop_nth_def settled_def counts_ok_def live_task_def
        filter_empty_conv)
  next
    case False
    with p n have "drain_ok (after_grace i initial p)
        (Cancel_Wait (length initial) (length (filter (\<lambda>t. t \<in> set (pl_ended p)) initial))
          (map (\<lambda>t. (t, map_of (pl_work p) t)) (filter (\<lambda>t. t \<notin> set (pl_ended p)) initial)))"
      using t by (force simp: after_grace_def live_task_def)
    with False p show ?thesis by (simp add: phase_ok_def after_grace_def Let_def)
  qed
qed

lemma phase_ok_cancel:
  assumes "phase_ok p" and "i < length (pl_drains p)" and "pl_drains p ! i = Cancel_Wait admitted completed pending"
  shows "phase_ok (after_cancel i admitted completed pending p)"
proof -
  from assms have p: "pl_state p = DRAINING" "pl_drains p = [Cancel_Wait admitted completed pending]" "i = 0"
      and n: "admitted = completed + length pending" "pending \<noteq> []"
      and t: "live_task p t \<Longrightarrow> (t, map_of (pl_work p) t) \<in> set pending" for t
    by (auto simp: phase_ok_def split: process_state.splits)
  have "notified_if_asked (after_cancel i admitted completed pending p) t w"
    if "live_task p t" "map_of (pl_work p) t = Some w" for t w
    using t [OF that(1)] that(2)
    by (force simp: notified_if_asked_def after_cancel_def stop_with_def wants_callback_def image_iff)
  with p n show ?thesis
    by (simp add: phase_ok_def settled_def counts_ok_def after_cancel_def stop_with_def drop_nth_def)
qed

lemma resume_work_unchanged:
  "work_ok (begin_drain i p) = work_ok p" "work_ok (after_grace i xs p) = work_ok p"
  "work_ok (after_cancel i a c ps p) = work_ok p"
  by (simp_all add: begin_drain_def after_grace_def after_cancel_def stop_with_def Let_def)

definition life_ok :: "process \<Rightarrow> bool" where
  "life_ok p \<longleftrightarrow> work_ok p \<and> phase_ok p"

lemma new_process_ok: "life_ok new_process"
  by (simp add: life_ok_def work_ok_def phase_ok_def new_process_def live_task_def)

lemma life_step_ok:
  assumes "life_step x p q" and "life_ok p" and "x \<noteq> Start"
  shows "life_ok q"
proof -
  from assms(2) have w: "work_ok p" and ph: "phase_ok p" by (simp_all add: life_ok_def)
  from assms(1) show ?thesis
  proof cases
    case start then show ?thesis using assms(3) by simp
  next
    case (serve r) then show ?thesis using w ph
      by (auto simp: life_runs life_ok_def phase_ok_def split: if_splits)
  next
    case (submit v r) then show ?thesis using w ph work_ok_register [OF w]
      by (auto simp: life_runs life_ok_def phase_ok_def split: if_splits)
  next
    case (create c r) then show ?thesis using w ph work_ok_register [OF w]
      by (auto simp: life_runs life_ok_def phase_ok_def split: if_splits option.splits)
  next
    case (drain d) then show ?thesis using w ph
      by (auto simp: life_runs life_ok_def phase_ok_def split: if_splits process_state.splits)
  next
    case (end_task t) then show ?thesis using w ph
      by (auto simp: life_ok_def phase_ok_def work_ok_def drain_ok_end settled_end split: process_state.splits)
  next
    case (callback t r)
    then have q: "q = p\<lparr>pl_work := AList.delete t (pl_work p)\<rparr>" by simp
    have k: "fst ` set (pl_work q) \<subseteq> fst ` set (pl_work p)" using q by (auto simp: AList.delete_eq)
    have m: "map_of (pl_work q) u = map_of (pl_work p) u" if "live_task p u" for u
      using that q callback(2) by (auto simp: delete_conv live_task_def)
    have l: "live_task q u = live_task p u" "pl_next_task q = pl_next_task p" for u using q by simp_all
    have "work_ok q" using w k m l unfolding work_ok_def by (metis subsetD)
    moreover have "phase_ok q" using ph callback(2) q
      by (auto simp: phase_ok_def drain_ok_callback settled_callback split: process_state.splits)
    ultimately show ?thesis by (simp add: life_ok_def)
  next
    case (begin_step i) then show ?thesis using phase_ok_begin [OF w ph] w
      by (simp add: life_ok_def resume_work_unchanged)
  next
    case (grace_step i initial) then show ?thesis using phase_ok_grace [OF w ph] w
      by (simp add: life_ok_def resume_work_unchanged)
  next
    case (cancel_step i a c ps) then show ?thesis using phase_ok_cancel [OF ph] w
      by (simp add: life_ok_def resume_work_unchanged)
  qed
qed

lemma life_run_ok: "life_run xs p q \<Longrightarrow> life_ok p \<Longrightarrow> Start \<notin> set xs \<Longrightarrow> life_ok q"
  by (induction rule: life_run.induct) (auto dest: life_step_ok)

lemma life_run_new: "life_run xs new_process p \<Longrightarrow> Start \<notin> set xs \<Longrightarrow> life_ok p"
  by (rule life_run_ok [OF _ new_process_ok])


section \<open>What a drain guarantees\<close>

lemma draining_step:
  assumes "life_step x p q" and "x \<noteq> Start" and "pl_state p \<in> {DRAINING, STOPPED}"
  shows "pl_state q \<in> {DRAINING, STOPPED} \<and> pl_next_task q = pl_next_task p"
  using assms
  by (cases rule: life_step.cases)
     (auto simp: life_runs begin_drain_def after_grace_def after_cancel_def stop_with_def Let_def split: if_splits)

lemma draining_run:
  "life_run xs p q \<Longrightarrow> Start \<notin> set xs \<Longrightarrow> pl_state p \<in> {DRAINING, STOPPED} \<Longrightarrow>
   pl_state q \<in> {DRAINING, STOPPED} \<and> pl_next_task q = pl_next_task p"
proof (induction rule: life_run.induct)
  case (life_cons x p q xs r)
  from life_cons.prems(1) have "x \<noteq> Start" by auto
  from draining_step [OF life_cons.hyps(1) this life_cons.prems(2)] life_cons show ?case by simp
qed simp

lemma life_run_append: "life_run xs p q \<Longrightarrow> life_run ys q r \<Longrightarrow> life_run (xs @ ys) p r"
  by (induction rule: life_run.induct) auto

text \<open>C30: once a drain has begun, and until the process is started again, the process is draining or stopped,
  no task is admitted, and both ways of submitting work raise \<open>ServiceDraining\<close> and change nothing: the
  admission-against-drain race of the docstring is closed, whatever the interleaving of calls, task ends,
  callbacks and resumptions.
\<close>

theorem drain_refuses_new_work:
  assumes "life_run ops p q" and "Start \<notin> set ops" and "pl_state p \<in> {DRAINING, STOPPED}"
  shows "pl_state q \<in> {DRAINING, STOPPED} \<and> pl_next_task q = pl_next_task p \<and>
    submit_work w q = (Inl Service_Draining, q) \<and> create_and_submit c q = (Inl Service_Draining, q)"
  using draining_run [OF assms] by (auto simp: life_runs)

definition one_work :: process where
  "one_work = new_process\<lparr>pl_state := DRAINING, pl_work := [(0, \<lparr>tw_id = ''a'', tw_callback = True\<rparr>)],
     pl_next_task := 1, pl_drain_task := True, pl_drains := [Created]\<rparr>"

lemma one_work_run:
  "life_run [Serve, Submit \<lparr>tw_id = ''a'', tw_callback = True\<rparr>, Call_Drain] new_process one_work"
  by (auto simp: one_work_def new_process_def life_runs intro!: life_step.intros exI)

definition one_stopped :: process where
  "one_stopped = one_work\<lparr>pl_state := STOPPED, pl_drains := [], pl_notified := [0],
     pl_last_result := \<lparr>dr_timed_out = True, dr_admitted = 1, dr_completed = 0, dr_cancelled = 1\<rparr>\<rparr>"

lemma one_stopped_run:
  "life_run [Resume_Drain 0, Resume_Drain 0, Resume_Drain 0] one_work one_stopped"
proof -
  have b: "life_step (Resume_Drain 0) one_work (begin_drain 0 one_work)"
    by (rule begin_step) (simp_all add: one_work_def)
  have g: "life_step (Resume_Drain 0) (begin_drain 0 one_work) (after_grace 0 [0] (begin_drain 0 one_work))"
    by (rule grace_step) (simp_all add: one_work_def begin_drain_def)
  have c: "life_step (Resume_Drain 0) (after_grace 0 [0] (begin_drain 0 one_work))
      (after_cancel 0 1 0 [(0, Some \<lparr>tw_id = ''a'', tw_callback = True\<rparr>)] (after_grace 0 [0] (begin_drain 0 one_work)))"
    by (rule cancel_step) (simp_all add: one_work_def begin_drain_def after_grace_def new_process_def)
  have "after_cancel 0 1 0 [(0, Some \<lparr>tw_id = ''a'', tw_callback = True\<rparr>)] (after_grace 0 [0] (begin_drain 0 one_work))
      = one_stopped"
    by (simp add: one_stopped_def one_work_def begin_drain_def after_grace_def after_cancel_def stop_with_def
      drop_nth_def wants_callback_def new_process_def)
  with b g c show ?thesis by auto
qed

theorem drain_refuses_new_work_witness:
  "pl_state one_stopped \<in> {DRAINING, STOPPED} \<and> pl_next_task one_stopped = pl_next_task one_work \<and>
   submit_work \<lparr>tw_id = ''b'', tw_callback = False\<rparr> one_stopped = (Inl Service_Draining, one_stopped) \<and>
   create_and_submit None one_stopped = (Inl Service_Draining, one_stopped)"
  by (rule drain_refuses_new_work [OF one_stopped_run]) (simp_all add: one_work_def)

section \<open>What the result of a drain counts\<close>

lemma life_run_snoc: "life_run (xs @ [x]) p r \<longleftrightarrow> (\<exists>q. life_run xs p q \<and> life_step x q r)"
  by (induction xs arbitrary: p) auto

text \<open>In the run \<open>ops\<close> to \<open>q\<close> a drain began when \<open>initial\<close> were the tracked tasks; and its grace wait for them
  ended in the state \<open>g\<close> (there is no wait for no tasks).\<close>

definition drain_began :: "life_op list \<Rightarrow> process \<Rightarrow> nat list \<Rightarrow> bool" where
  "drain_began ops q initial \<longleftrightarrow>
     (\<exists>ops1 ops2 b. ops = ops1 @ Resume_Drain 0 # ops2 \<and> life_run ops1 new_process b \<and> pl_drains b = [Created] \<and>
        life_run (Resume_Drain 0 # ops2) b q \<and> initial = map fst (pl_work b))"

definition wait_ended :: "life_op list \<Rightarrow> process \<Rightarrow> nat list \<Rightarrow> process \<Rightarrow> bool" where
  "wait_ended ops q initial g \<longleftrightarrow>
     (\<exists>ops1 ops2. ops = ops1 @ ops2 \<and> drain_began ops1 g initial \<and> life_run ops2 g q \<and>
        (initial = [] \<or> pl_drains g = [Grace_Wait initial]))"

definition finished :: "process \<Rightarrow> nat list \<Rightarrow> nat list" where
  "finished g = filter (\<lambda>t. t \<in> set (pl_ended g))"

definition unfinished :: "process \<Rightarrow> nat list \<Rightarrow> nat list" where
  "unfinished g = filter (\<lambda>t. t \<notin> set (pl_ended g))"

text \<open>The unfinished tasks whose tracked work has a callback.\<close>

definition to_notify :: "process \<Rightarrow> nat list \<Rightarrow> nat list" where
  "to_notify g initial = filter (\<lambda>t. wants_callback (t, map_of (pl_work g) t)) (unfinished g initial)"

definition result_for :: "process \<Rightarrow> nat list \<Rightarrow> drain_result" where
  "result_for g initial = \<lparr>dr_timed_out = (unfinished g initial \<noteq> []), dr_admitted = length initial,
     dr_completed = length (finished g initial), dr_cancelled = length (unfinished g initial)\<rparr>"

lemma drain_began_step: "drain_began ops q initial \<Longrightarrow> life_step x q r \<Longrightarrow> drain_began (ops @ [x]) r initial"
  unfolding drain_began_def by (metis (no_types, lifting) append.assoc append_Cons life_run_snoc)

lemma wait_ended_step: "wait_ended ops q initial g \<Longrightarrow> life_step x q r \<Longrightarrow> wait_ended (ops @ [x]) r initial g"
  unfolding wait_ended_def by (metis append.assoc life_run_snoc)

lemma wait_ended_now:
  "drain_began ops g initial \<Longrightarrow> pl_drains g = [Grace_Wait initial] \<Longrightarrow> wait_ended ops g initial g"
  unfolding wait_ended_def by (metis append_Nil2 life_nil)

fun phase_history :: "life_op list \<Rightarrow> process \<Rightarrow> drain_phase \<Rightarrow> bool" where
  "phase_history ops q Created \<longleftrightarrow> True"
| "phase_history ops q (Grace_Wait initial) \<longleftrightarrow> drain_began ops q initial"
| "phase_history ops q (Cancel_Wait a c pending) \<longleftrightarrow>
     (\<exists>initial g. wait_ended ops q initial g \<and> a = length initial \<and> c = length (finished g initial) \<and>
        unfinished g initial \<noteq> [] \<and> pending = map (\<lambda>t. (t, map_of (pl_work g) t)) (unfinished g initial))"

definition history_ok :: "life_op list \<Rightarrow> process \<Rightarrow> bool" where
  "history_ok ops q \<longleftrightarrow>
     (if pl_state q = STOPPED
      then (\<exists>initial g. wait_ended ops q initial g \<and> pl_last_result q = result_for g initial \<and>
        pl_notified q = to_notify g initial)
      else pl_notified q = [] \<and> list_all (phase_history ops q) (pl_drains q))"

lemma phase_history_step: "phase_history ops q d \<Longrightarrow> life_step x q r \<Longrightarrow> phase_history (ops @ [x]) r d"
  by (cases d) (auto intro: drain_began_step wait_ended_step)

lemma quiet_step:
  assumes "life_step x p q" and "life_ok p" and "x \<noteq> Start" and "\<forall>i. x \<noteq> Resume_Drain i"
  shows "pl_notified q = pl_notified p \<and> pl_last_result q = pl_last_result p \<and>
    (pl_state q = STOPPED \<longleftrightarrow> pl_state p = STOPPED) \<and> (pl_drains q = pl_drains p \<or> pl_drains q = pl_drains p @ [Created])"
  using assms
  by (cases rule: life_step.cases) (auto simp: life_runs split: if_splits option.splits)

lemma history_quiet:
  assumes "life_step x p q" and "life_ok p" and "x \<noteq> Start" and "\<forall>i. x \<noteq> Resume_Drain i" and "history_ok ops p"
  shows "history_ok (ops @ [x]) q"
proof -
  note same = quiet_step [OF assms(1-4)]
  show ?thesis
  proof (cases "pl_state p = STOPPED")
    case True
    with assms(5) obtain initial g where g: "wait_ended ops p initial g" "pl_last_result p = result_for g initial"
      "pl_notified p = to_notify g initial" by (auto simp: history_ok_def)
    have "wait_ended (ops @ [x]) q initial g \<and> pl_last_result q = result_for g initial \<and> pl_notified q = to_notify g initial"
      using wait_ended_step [OF g(1) assms(1)] same g(2,3) by simp
    then have "\<exists>initial g. wait_ended (ops @ [x]) q initial g \<and> pl_last_result q = result_for g initial \<and>
        pl_notified q = to_notify g initial" by (intro exI)
    then show ?thesis using True same by (simp only: history_ok_def if_True simp_thms)
  next
    case False
    have "list_all (phase_history (ops @ [x]) q) (pl_drains p)"
      using False assms(5) phase_history_step [OF _ assms(1)] by (auto simp: history_ok_def list_all_iff)
    then show ?thesis using False same assms(5) by (auto simp: history_ok_def)
  qed
qed

lemma history_begin:
  assumes "life_step (Resume_Drain 0) p (begin_drain 0 p)" and "pl_drains p = [Created]" and "pl_state p = DRAINING"
    and "life_run ops new_process p" and "pl_notified p = []"
  shows "history_ok (ops @ [Resume_Drain 0]) (begin_drain 0 p)"
proof -
  have began: "drain_began (ops @ [Resume_Drain 0]) (begin_drain 0 p) (map fst (pl_work p))"
    unfolding drain_began_def using assms(1,2,4) by (intro exI [of _ ops] exI [of _ "[]"] exI [of _ p]) simp
  show ?thesis
  proof (cases "pl_work p = []")
    case True
    let ?q = "begin_drain 0 p"
    have "wait_ended (ops @ [Resume_Drain 0]) ?q [] ?q"
      unfolding wait_ended_def using began True by (metis append_Nil2 life_nil list.map(1))
    then show ?thesis
      using True assms(5)
      by (auto simp: history_ok_def begin_drain_def stop_with_def result_for_def to_notify_def finished_def
          unfinished_def intro!: exI)
  next
    case False
    then show ?thesis using began assms(2,3,5) by (simp add: history_ok_def begin_drain_def)
  qed
qed

lemma history_grace:
  assumes "life_step (Resume_Drain 0) p (after_grace 0 initial p)" and "pl_drains p = [Grace_Wait initial]"
    and "pl_state p = DRAINING" and "drain_began ops p initial" and "pl_notified p = []"
  shows "history_ok (ops @ [Resume_Drain 0]) (after_grace 0 initial p)"
proof -
  have ended: "wait_ended (ops @ [Resume_Drain 0]) (after_grace 0 initial p) initial p"
    by (rule wait_ended_step [OF wait_ended_now [OF assms(4,2)] assms(1)])
  show ?thesis
  proof (cases "unfinished p initial = []")
    case True
    then have "finished p initial = initial"
      by (auto simp: finished_def unfinished_def filter_empty_conv filter_id_conv)
    then have result: "pl_last_result (after_grace 0 initial p) = result_for p initial"
      and state: "pl_state (after_grace 0 initial p) = STOPPED"
      and silent: "pl_notified (after_grace 0 initial p) = to_notify p initial"
      using True assms(5)
      by (simp_all add: after_grace_def stop_with_def result_for_def to_notify_def finished_def [symmetric]
          unfinished_def [symmetric] Let_def fun_cong [OF finished_def, symmetric] fun_cong [OF unfinished_def, symmetric])
    from ended result silent show ?thesis unfolding history_ok_def by (auto simp: state)
  next
    case False
    with ended assms(2,3,5) show ?thesis
      by (auto simp: history_ok_def after_grace_def Let_def finished_def unfinished_def)
  qed
qed

lemma history_cancel:
  assumes "life_step (Resume_Drain 0) p (after_cancel 0 a c pending p)"
    and "phase_history ops p (Cancel_Wait a c pending)" and "pl_notified p = []"
  shows "history_ok (ops @ [Resume_Drain 0]) (after_cancel 0 a c pending p)"
proof -
  from assms(2) obtain initial g where g: "wait_ended ops p initial g" "a = length initial" "c = length (finished g initial)"
      "unfinished g initial \<noteq> []" "pending = map (\<lambda>t. (t, map_of (pl_work g) t)) (unfinished g initial)"
    by auto
  have "map fst (filter wants_callback pending) = to_notify g initial"
    unfolding g(5) to_notify_def filter_map by (simp add: comp_def)
  with g wait_ended_step [OF g(1) assms(1)] assms(3) show ?thesis
    unfolding history_ok_def
    by (auto simp: after_cancel_def stop_with_def result_for_def intro!: exI [of _ initial] exI [of _ g])
qed

lemma life_history: "life_run ops new_process q \<Longrightarrow> Start \<notin> set ops \<Longrightarrow> history_ok ops q"
proof (induction ops arbitrary: q rule: rev_induct)
  case Nil
  then show ?case by (simp add: history_ok_def new_process_def)
next
  case (snoc x ops)
  then obtain p where run: "life_run ops new_process p" and step: "life_step x p q"
    by (auto simp: life_run_snoc)
  have x: "x \<noteq> Start" and free: "Start \<notin> set ops" using snoc.prems(2) by auto
  from snoc.IH [OF run free] have hist: "history_ok ops p" .
  have ok: "life_ok p" by (rule life_run_new [OF run free])
  show ?case
  proof (cases "\<exists>i. x = Resume_Drain i")
    case False
    then show ?thesis using history_quiet [OF step ok x _ hist] by blast
  next
    case True
    then obtain i where i: "x = Resume_Drain i" ..
    with step have "i < length (pl_drains p)" by (auto elim: life_step.cases)
    then obtain d where draining: "pl_state p = DRAINING" "pl_drains p = [d]" "i = 0"
      using ok by (auto simp: life_ok_def phase_ok_def split: process_state.splits)
    have silent: "pl_notified p = []" and d: "phase_history ops p d"
      using hist draining by (simp_all add: history_ok_def)
    from step have resumed: "life_step (Resume_Drain 0) p q" by (simp only: i draining(3))
    then have "history_ok (ops @ [Resume_Drain 0]) q"
    proof cases
      case begin_step
      then show ?thesis using history_begin [OF _ _ draining(1) run silent] resumed draining by simp
    next
      case (grace_step initial)
      then show ?thesis using history_grace [OF _ _ draining(1) _ silent] resumed draining d by simp
    next
      case (cancel_step a c pending)
      then show ?thesis using history_cancel [OF _ _ silent] resumed draining d by simp
    qed
    then show ?thesis by (simp only: i draining(3))
  qed
qed



text \<open>\<open>stops_within k p\<close>: at most \<open>k\<close> resumptions of the coroutine stop the process.\<close>

definition stops_within :: "nat \<Rightarrow> process \<Rightarrow> bool" where
  "stops_within k p \<longleftrightarrow> (\<exists>n q. n \<le> k \<and> life_run (replicate n (Resume_Drain 0)) p q \<and> pl_state q = STOPPED)"

lemma stops_now: "life_step (Resume_Drain 0) p q \<Longrightarrow> pl_state q = STOPPED \<Longrightarrow> stops_within (Suc k) p"
  unfolding stops_within_def by (intro exI [of _ 1] exI [of _ q]) auto

lemma stops_later: "life_step (Resume_Drain 0) p q \<Longrightarrow> stops_within k q \<Longrightarrow> stops_within (Suc k) p"
  unfolding stops_within_def by (metis Suc_le_mono life_cons replicate_Suc)

lemma stops_more: "stops_within j p \<Longrightarrow> j \<le> k \<Longrightarrow> stops_within k p"
  unfolding stops_within_def by (meson le_trans)

lemma cancel_wait_stops: "pl_drains p = [Cancel_Wait a c ps] \<Longrightarrow> stops_within 1 p"
  using stops_now [OF cancel_step [of 0 p a c ps], of 0] by (simp add: after_cancel_def stop_with_def)

lemma grace_wait_stops:
  assumes "pl_drains p = [Grace_Wait xs]"
  shows "stops_within 2 p"
proof -
  have r: "life_step (Resume_Drain 0) p (after_grace 0 xs p)" using grace_step [of 0 p xs] assms by simp
  show ?thesis
  proof (cases "filter (\<lambda>t. t \<notin> set (pl_ended p)) xs = []")
    case True
    then have "pl_state (after_grace 0 xs p) = STOPPED" by (simp add: after_grace_def stop_with_def Let_def)
    from stops_now [OF r this, of 1] show ?thesis by (simp add: numeral_2_eq_2)
  next
    case False
    with assms obtain a c ps where "pl_drains (after_grace 0 xs p) = [Cancel_Wait a c ps]"
      by (simp add: after_grace_def Let_def)
    from stops_later [OF r cancel_wait_stops [OF this]] show ?thesis by (simp add: numeral_2_eq_2)
  qed
qed

lemma created_drain_stops:
  assumes "pl_drains p = [Created]"
  shows "stops_within 3 p"
proof -
  have r: "life_step (Resume_Drain 0) p (begin_drain 0 p)" using begin_step [of 0 p] assms by simp
  show ?thesis
  proof (cases "map fst (pl_work p) = []")
    case True
    then have "pl_state (begin_drain 0 p) = STOPPED" by (simp add: begin_drain_def stop_with_def Let_def)
    from stops_now [OF r this, of 2] show ?thesis by (simp add: eval_nat_numeral)
  next
    case False
    with assms have "pl_drains (begin_drain 0 p) = [Grace_Wait (map fst (pl_work p))]"
      by (simp add: begin_drain_def Let_def)
    from stops_later [OF r grace_wait_stops [OF this]] show ?thesis by (simp add: eval_nat_numeral)
  qed
qed

text \<open>C32: a drain ends: from every reachable state in which one is running, at most three resumptions of its
  coroutine (its start and the ends of its two bounded waits) stop the process, also when no task ever ends.
\<close>

theorem running_drain_stops:
  assumes "life_run ops new_process p" and "Start \<notin> set ops" and "pl_state p = DRAINING"
  shows "\<exists>n q. n \<le> 3 \<and> life_run (replicate n (Resume_Drain 0)) p q \<and> pl_state q = STOPPED"
proof -
  from life_run_new [OF assms(1,2)] assms(3) obtain d where d: "pl_drains p = [d]"
    by (auto simp: life_ok_def phase_ok_def)
  have "stops_within 3 p"
  proof (cases d)
    case Created with d created_drain_stops show ?thesis by simp
  next
    case (Grace_Wait xs) with d grace_wait_stops [of p xs] stops_more [of 2 p 3] show ?thesis by simp
  next
    case (Cancel_Wait a c ps) with d cancel_wait_stops [of p a c ps] stops_more [of 1 p 3] show ?thesis by simp
  qed
  then show ?thesis by (simp add: stops_within_def)
qed

theorem running_drain_stops_witness:
  "\<exists>n q. n \<le> 3 \<and> life_run (replicate n (Resume_Drain 0)) one_work q \<and> pl_state q = STOPPED"
  by (rule running_drain_stops [OF one_work_run]) (simp_all add: one_work_def)

end
