(* ===== verification/Candidates.thy ===== *)
theory Candidates
  imports Lab_Verifier "HOL-Library.Product_Lexorder"
begin

text \<open>
  Candidate-first planning: the capability registry (\<open>aegis/registry.py\<close>), the scenario projections
  (\<open>aegis/scenarios.py\<close>), the deterministic controller of \<open>aegis/candidates.py\<close> with the candidate
  models of \<open>aegis/models.py\<close>, and the reference planner of \<open>aegis/planner.py\<close>.

  The context is the record of what \<open>build_context\<close> puts in its dictionary and the controller reads
  back.  Texts that a model writes are sequences of characters below 256; \<open>None\<close> of an operation is
  the \<open>ValueError\<close> or \<open>ValidationError\<close> it raises.
\<close>

section \<open>Capabilities and operations\<close>

record capability =
  cp_id :: string
  cp_test_type :: string
  cp_title :: string
  cp_methods :: "string list"
  cp_read_only :: bool

definition CAPABILITY_REGISTRY :: "capability list" where
  "CAPABILITY_REGISTRY =
    [\<lparr>cp_id = ''bola_object_read_v1'', cp_test_type = ''BOLA'',
      cp_title = ''Object-level authorization read comparison'',
      cp_methods = [''GET'', ''HEAD'', ''OPTIONS''], cp_read_only = True\<rparr>]"

definition get_capability :: "string \<Rightarrow> capability option" where
  "get_capability cid = find (\<lambda>c. cp_id c = cid) CAPABILITY_REGISTRY"

record operation =
  op_id :: string
  op_method :: string
  op_template :: string
  op_read_only :: bool
  op_parameter :: "string option"
  op_objects :: "string list"

section \<open>Scenarios\<close>

datatype scenario = POSITIVE_VULNERABLE | PATCHED_NEGATIVE | MISSING_AUTH | OUT_OF_SCOPE | STATE_CHANGING_ONLY

record scenario_projection =
  sp_scenario :: scenario
  sp_variant :: variant
  sp_operations :: "operation list"
  sp_credentials :: "string list"
  sp_objects :: "string list"
  sp_ambiguous :: bool

definition AUTHENTICATED_PROFILES :: "string list" where
  "AUTHENTICATED_PROFILES = [''user_a'', ''user_b'']"

definition ALL_PROFILES :: "string list" where
  "ALL_PROFILES = [''anonymous'', ''user_a'', ''user_b'']"

definition account_operation :: "variant \<Rightarrow> string \<Rightarrow> operation" where
  "account_operation v i = \<lparr>op_id = i, op_method = ''GET'', op_template = account_template v,
     op_read_only = True, op_parameter = Some ''account_id'', op_objects = map fst OBJECTS\<rparr>"

definition transfer_operation :: operation where
  "transfer_operation = \<lparr>op_id = ''createTransfer'', op_method = ''POST'', op_template = ''/api/v1/transfers'',
     op_read_only = False, op_parameter = None, op_objects = []\<rparr>"

definition projection_of :: "scenario \<Rightarrow> scenario_projection" where
  "projection_of s = (case s of
       POSITIVE_VULNERABLE \<Rightarrow> \<lparr>sp_scenario = s, sp_variant = Vulnerable,
         sp_operations = [account_operation Vulnerable ''getAccount''], sp_credentials = ALL_PROFILES,
         sp_objects = map fst OBJECTS, sp_ambiguous = False\<rparr>
     | PATCHED_NEGATIVE \<Rightarrow> \<lparr>sp_scenario = s, sp_variant = Patched,
         sp_operations = [account_operation Patched ''getPatchedAccount''], sp_credentials = ALL_PROFILES,
         sp_objects = map fst OBJECTS, sp_ambiguous = False\<rparr>
     | MISSING_AUTH \<Rightarrow> \<lparr>sp_scenario = s, sp_variant = Vulnerable,
         sp_operations = [account_operation Vulnerable ''getAccount''], sp_credentials = [''anonymous''],
         sp_objects = map fst OBJECTS, sp_ambiguous = False\<rparr>
     | OUT_OF_SCOPE \<Rightarrow> \<lparr>sp_scenario = s, sp_variant = Vulnerable,
         sp_operations = [account_operation Vulnerable ''getAccount''], sp_credentials = ALL_PROFILES,
         sp_objects = map fst OBJECTS, sp_ambiguous = True\<rparr>
     | STATE_CHANGING_ONLY \<Rightarrow> \<lparr>sp_scenario = s, sp_variant = Vulnerable,
         sp_operations = [transfer_operation], sp_credentials = ALL_PROFILES,
         sp_objects = [], sp_ambiguous = False\<rparr>)"

text \<open>\<open>_validate_against_spec\<close> on the members of the imported document.\<close>

definition validate_against_spec :: "(points \<times> json) list \<Rightarrow> operation list \<Rightarrow> bool" where
  "validate_against_spec spec ops \<longleftrightarrow>
     (case (case field spec ''paths'' of None \<Rightarrow> JObj [] | Some p \<Rightarrow> p) of
        JObj paths \<Rightarrow> list_all (\<lambda>op. case field paths (op_template op) of
            Some (JObj entry) \<Rightarrow> has_key entry (lower_latin (op_method op)) | _ \<Rightarrow> False) ops
      | _ \<Rightarrow> False)"

definition project_scenario :: "(points \<times> json) list \<Rightarrow> scenario \<Rightarrow> scenario_projection option" where
  "project_scenario spec s =
     (if validate_against_spec spec (sp_operations (projection_of s)) then Some (projection_of s) else None)"

definition scenario_owner :: "string \<Rightarrow> string option" where
  "scenario_owner i = (case map_of OBJECTS i of
       None \<Rightarrow> None
     | Some owner \<Rightarrow> if owner = ''user-a'' then Some ''user_a'' else if owner = ''user-b'' then Some ''user_b'' else None)"

text \<open>\<open>surface()\<close>: the templates of its paths and the objects of each profile.\<close>

definition surface_paths :: "scenario_projection \<Rightarrow> string list" where
  "surface_paths pr = map op_template (sp_operations pr)"

definition known_test_objects :: "scenario_projection \<Rightarrow> (string \<times> string list) list" where
  "known_test_objects pr = map (\<lambda>p. (p, filter (\<lambda>i. scenario_owner i = Some p) (sp_objects pr)))
     (filter (\<lambda>p. p \<noteq> ''anonymous'') (sp_credentials pr))"

definition authenticated_profiles :: "string list \<Rightarrow> string list" where
  "authenticated_profiles available = filter (\<lambda>p. p \<in> set AUTHENTICATED_PROFILES) available"

section \<open>The planning context\<close>

record observation =
  ob_name :: string
  ob_method :: string
  ob_profile :: string
  ob_account :: "string option"

record remaining =
  rm_requests :: int
  rm_iterations :: int
  rm_model_calls :: int
  rm_token_reservations :: int
  rm_time_ms :: int

record planning_context =
  cx_owners :: "(string \<times> string list) list"
  cx_capabilities :: "string list"
  cx_operations :: "operation list"
  cx_credentials :: "string list"
  cx_objects :: "string list"
  cx_evidence_refs :: "string list"
  cx_ambiguous :: bool
  cx_max_candidates :: nat
  cx_observations :: "observation list"
  cx_remaining :: remaining

definition build_context ::
  "scenario_projection \<Rightarrow> observation list \<Rightarrow> remaining \<Rightarrow> nat \<Rightarrow> planning_context" where
  "build_context pr obs rem n =
     \<lparr>cx_owners = known_test_objects pr, cx_capabilities = map cp_id CAPABILITY_REGISTRY,
      cx_operations = sp_operations pr, cx_credentials = sp_credentials pr, cx_objects = sp_objects pr,
      cx_evidence_refs = map ob_name obs, cx_ambiguous = sp_ambiguous pr, cx_max_candidates = n,
      cx_observations = obs, cx_remaining = rem\<rparr>"

definition projected_refs :: "planning_context \<Rightarrow> string list" where
  "projected_refs cx = map op_id (cx_operations cx) @ cx_objects cx @ cx_credentials cx @ cx_capabilities cx @
     cx_evidence_refs cx"

definition authenticated :: "planning_context \<Rightarrow> string list" where
  "authenticated cx = authenticated_profiles (cx_credentials cx)"

section \<open>Blockers\<close>

datatype blocking_reason = INSUFFICIENT_CONTEXT | AUTHENTICATION_UNAVAILABLE | SCOPE_AMBIGUITY | SAFETY_CONFLICT
  | NO_SUPPORTED_TEST_CAPABILITY | NO_TESTABLE_HYPOTHESIS | BUDGET_UNAVAILABLE

datatype blocking_fact = AUTHENTICATED_PRINCIPAL_COUNT | KNOWN_OBJECT_COUNT | SUPPORTED_OPERATION_COUNT
  | SAFE_OPERATION_COUNT | SCOPE_IS_AMBIGUOUS | CONSTRUCTIBLE_TEST | REMAINING_REQUESTS | REMAINING_MODEL_CALLS
  | REMAINING_TOKEN_RESERVATIONS | REMAINING_TIME_MS

datatype claim_value = Claim_Bool bool | Claim_Int int | Claim_Text string

record blocking_condition =
  bc_reason :: blocking_reason
  bc_refs :: "string list"
  bc_claims :: "(blocking_fact \<times> claim_value) list"
  bc_operation :: "string option"
  bc_capability :: "string option"
  bc_missing :: "string list"

record blocker_evaluation =
  be_reason :: blocking_reason
  be_valid :: bool
  be_detail :: "string option"

definition capability_can_evaluate :: "capability \<Rightarrow> operation \<Rightarrow> bool" where
  "capability_can_evaluate c op \<longleftrightarrow>
     cp_read_only c \<and> op_read_only op \<and> op_method op \<in> set (cp_methods c) \<and> op_parameter op \<noteq> None"

definition supported_operation :: "planning_context \<Rightarrow> operation \<Rightarrow> bool" where
  "supported_operation cx op \<longleftrightarrow>
     list_ex (\<lambda>cid. case get_capability cid of None \<Rightarrow> False | Some c \<Rightarrow> capability_can_evaluate c op)
       (cx_capabilities cx)"

definition any_supported_operation :: "planning_context \<Rightarrow> bool" where
  "any_supported_operation cx \<longleftrightarrow>
     list_ex (\<lambda>cid. case get_capability cid of None \<Rightarrow> False
       | Some c \<Rightarrow> list_ex (capability_can_evaluate c) (cx_operations cx)) (cx_capabilities cx)"

definition constructible_read_only_test :: "planning_context \<Rightarrow> bool" where
  "constructible_read_only_test cx \<longleftrightarrow>
     \<not> cx_ambiguous cx \<and> any_supported_operation cx \<and> 2 \<le> length (authenticated cx) \<and> 2 \<le> length (cx_objects cx)"

definition remaining_ok :: "planning_context \<Rightarrow> bool" where
  "remaining_ok cx \<longleftrightarrow> (let r = cx_remaining cx in
     1 \<le> rm_requests r \<and> 1 \<le> rm_model_calls r \<and> 1 \<le> rm_token_reservations r \<and> 1 \<le> rm_time_ms r)"

definition fact_value :: "planning_context \<Rightarrow> blocking_fact \<Rightarrow> claim_value" where
  "fact_value cx f = (case f of
       AUTHENTICATED_PRINCIPAL_COUNT \<Rightarrow> Claim_Int (int (length (authenticated cx)))
     | KNOWN_OBJECT_COUNT \<Rightarrow> Claim_Int (int (length (cx_objects cx)))
     | SUPPORTED_OPERATION_COUNT \<Rightarrow> Claim_Int (int (length (filter (supported_operation cx) (cx_operations cx))))
     | SAFE_OPERATION_COUNT \<Rightarrow> Claim_Int (int (length (filter op_read_only (cx_operations cx))))
     | SCOPE_IS_AMBIGUOUS \<Rightarrow> Claim_Bool (cx_ambiguous cx)
     | CONSTRUCTIBLE_TEST \<Rightarrow> Claim_Bool (constructible_read_only_test cx)
     | REMAINING_REQUESTS \<Rightarrow> Claim_Int (rm_requests (cx_remaining cx))
     | REMAINING_MODEL_CALLS \<Rightarrow> Claim_Int (rm_model_calls (cx_remaining cx))
     | REMAINING_TOKEN_RESERVATIONS \<Rightarrow> Claim_Int (rm_token_reservations (cx_remaining cx))
     | REMAINING_TIME_MS \<Rightarrow> Claim_Int (rm_time_ms (cx_remaining cx)))"

text \<open>\<open>_REQUIRED_FACTS\<close>, each list in the order of the fact names.\<close>

definition required_facts :: "blocking_reason \<Rightarrow> blocking_fact list" where
  "required_facts r = (case r of
       AUTHENTICATION_UNAVAILABLE \<Rightarrow> [AUTHENTICATED_PRINCIPAL_COUNT]
     | BUDGET_UNAVAILABLE \<Rightarrow> [REMAINING_MODEL_CALLS, REMAINING_REQUESTS, REMAINING_TIME_MS, REMAINING_TOKEN_RESERVATIONS]
     | NO_SUPPORTED_TEST_CAPABILITY \<Rightarrow> [SUPPORTED_OPERATION_COUNT]
     | SCOPE_AMBIGUITY \<Rightarrow> [SCOPE_IS_AMBIGUOUS]
     | SAFETY_CONFLICT \<Rightarrow> [SAFE_OPERATION_COUNT]
     | INSUFFICIENT_CONTEXT \<Rightarrow> [KNOWN_OBJECT_COUNT]
     | NO_TESTABLE_HYPOTHESIS \<Rightarrow> [CONSTRUCTIBLE_TEST])"

definition blocker_valid :: "planning_context \<Rightarrow> blocking_reason \<Rightarrow> bool" where
  "blocker_valid cx r = (case r of
       AUTHENTICATION_UNAVAILABLE \<Rightarrow> length (authenticated cx) < 2
     | BUDGET_UNAVAILABLE \<Rightarrow> \<not> remaining_ok cx
     | NO_SUPPORTED_TEST_CAPABILITY \<Rightarrow> \<not> any_supported_operation cx
     | SCOPE_AMBIGUITY \<Rightarrow> cx_ambiguous cx
     | SAFETY_CONFLICT \<Rightarrow> cx_operations cx \<noteq> [] \<and> list_all (\<lambda>op. \<not> op_read_only op) (cx_operations cx)
     | INSUFFICIENT_CONTEXT \<Rightarrow> any_supported_operation cx \<and> length (cx_objects cx) < 2
     | NO_TESTABLE_HYPOTHESIS \<Rightarrow> \<not> constructible_read_only_test cx)"

text \<open>A dictionary built item by item: a repeated key keeps its place and takes the last value.\<close>

definition dict_of :: "('k \<times> 'v) list \<Rightarrow> ('k \<times> 'v) list" where
  "dict_of items = fold (\<lambda>(k, v) d. AList.update k v d) items []"

definition claims_valid :: "planning_context \<Rightarrow> blocking_condition \<Rightarrow> bool" where
  "claims_valid cx b \<longleftrightarrow> (let supplied = dict_of (bc_claims b) in
     set (required_facts (bc_reason b)) \<subseteq> set (map fst supplied) \<and>
     list_all (\<lambda>(f, v). fact_value cx f = v) supplied)"

definition duplicate_facts :: "blocking_condition \<Rightarrow> bool" where
  "duplicate_facts b \<longleftrightarrow> length (dict_of (bc_claims b)) \<noteq> length (bc_claims b)"

definition refs_valid :: "planning_context \<Rightarrow> blocking_condition \<Rightarrow> bool" where
  "refs_valid cx b \<longleftrightarrow> list_all (\<lambda>r. r \<in> set (projected_refs cx)) (bc_refs b)"

definition affected_valid :: "planning_context \<Rightarrow> blocking_condition \<Rightarrow> bool" where
  "affected_valid cx b \<longleftrightarrow>
     (case bc_operation b of None \<Rightarrow> True | Some i \<Rightarrow> i \<in> set (map op_id (cx_operations cx))) \<and>
     (case bc_capability b of None \<Rightarrow> True | Some c \<Rightarrow> c \<in> set (cx_capabilities cx))"

definition missing_valid :: "blocking_condition \<Rightarrow> bool" where
  "missing_valid b \<longleftrightarrow>
     (if bc_reason b = INSUFFICIENT_CONTEXT then bc_missing b \<noteq> [] \<and> set (bc_missing b) = {''known_objects''}
      else bc_missing b = [])"

definition evaluate_blocker :: "planning_context \<Rightarrow> blocking_condition \<Rightarrow> blocker_evaluation" where
  "evaluate_blocker cx b =
     (let detail =
        (if \<not> blocker_valid cx (bc_reason b) then Some ''precondition_not_satisfied''
         else if \<not> claims_valid cx b \<or> duplicate_facts b then Some ''factual_claims_invalid''
         else if \<not> refs_valid cx b then Some ''unprojected_context_reference''
         else if \<not> affected_valid cx b then Some ''unprojected_affected_identifier''
         else if \<not> missing_valid b then Some ''missing_context_fields_invalid'' else None) in
      \<lparr>be_reason = bc_reason b, be_valid = (detail = None), be_detail = detail\<rparr>)"

definition validate_blockers :: "planning_context \<Rightarrow> blocking_condition list \<Rightarrow> blocker_evaluation list" where
  "validate_blockers cx bs = map (evaluate_blocker cx) bs"

definition first_valid_blocker :: "blocker_evaluation list \<Rightarrow> blocking_reason option" where
  "first_valid_blocker es = map_option be_reason (find be_valid es)"

definition BLOCKER_PRIORITY :: "blocking_reason list" where
  "BLOCKER_PRIORITY = [AUTHENTICATION_UNAVAILABLE, SAFETY_CONFLICT, NO_SUPPORTED_TEST_CAPABILITY, SCOPE_AMBIGUITY,
     INSUFFICIENT_CONTEXT, BUDGET_UNAVAILABLE, NO_TESTABLE_HYPOTHESIS]"

text \<open>\<open>deterministic_blocker\<close>, which \<open>preflight\<close> returns.\<close>

definition preflight :: "planning_context \<Rightarrow> blocking_reason option" where
  "preflight cx = find (blocker_valid cx) BLOCKER_PRIORITY"

definition deterministic_blocking_condition :: "planning_context \<Rightarrow> blocking_reason \<Rightarrow> blocking_condition" where
  "deterministic_blocking_condition cx r =
     \<lparr>bc_reason = r, bc_refs = [], bc_claims = map (\<lambda>f. (f, fact_value cx f)) (required_facts r),
      bc_operation = None, bc_capability = None,
      bc_missing = (if r = INSUFFICIENT_CONTEXT then [''known_objects''] else [])\<rparr>"

section \<open>Candidates\<close>

record candidate =
  cd_capability :: string
  cd_operation :: string
  cd_owner :: string
  cd_alternate :: string
  cd_object :: string
  cd_invariant :: string
  cd_refs :: "string list"

definition blank :: "string \<Rightarrow> bool" where
  "blank s \<longleftrightarrow> strip s = []"

text \<open>\<open>ObjectAuthorizationCandidate.model_validate\<close>.\<close>

definition candidate_ok :: "candidate \<Rightarrow> bool" where
  "candidate_ok c \<longleftrightarrow>
     cd_capability c = ''bola_object_read_v1'' \<and> cd_owner c \<in> {''user_a'', ''user_b''} \<and>
     cd_alternate c \<in> {''user_a'', ''user_b''} \<and>
     length (cd_operation c) \<le> 100 \<and> \<not> blank (cd_operation c) \<and>
     length (cd_object c) \<le> 100 \<and> \<not> blank (cd_object c) \<and>
     3 \<le> length (cd_invariant c) \<and> length (cd_invariant c) \<le> 300 \<and> \<not> blank (cd_invariant c) \<and>
     1 \<le> length (cd_refs c) \<and> length (cd_refs c) \<le> 12 \<and> list_all (\<lambda>r. \<not> blank r) (cd_refs c)"

record candidate_rejection =
  cr_index :: nat
  cr_code :: string
  cr_detail :: string

record validated_candidate =
  vd_id :: string
  vd_candidate :: candidate

definition owner_profile_of :: "planning_context \<Rightarrow> string \<Rightarrow> string option" where
  "owner_profile_of cx i = map_option fst (find (\<lambda>(p, objs). i \<in> set objs) (cx_owners cx))"

definition semantic_key :: "candidate \<Rightarrow> string list" where
  "semantic_key c = [cd_capability c, cd_operation c, cd_alternate c, cd_owner c, cd_object c]"

definition own_object_of :: "string \<Rightarrow> string option" where
  "own_object_of profile = (case map_of PROFILE_ACTORS profile of None \<Rightarrow> None
     | Some actor \<Rightarrow> map_option fst (find (\<lambda>(i, owner). owner = actor) OBJECTS))"

fun first_reason :: "(bool \<times> string \<times> string) list \<Rightarrow> (string \<times> string) option" where
  "first_reason [] = None"
| "first_reason ((bad, code, detail) # rest) = (if bad then Some (code, detail) else first_reason rest)"

text \<open>\<open>{op["operation_id"]: op ...}.get(i)\<close>: the last operation of an id.\<close>

definition operation_named :: "operation list \<Rightarrow> string \<Rightarrow> operation option" where
  "operation_named ops i = find (\<lambda>op. op_id op = i) (rev ops)"

definition already_observed :: "planning_context \<Rightarrow> operation \<Rightarrow> candidate \<Rightarrow> bool" where
  "already_observed cx op c \<longleftrightarrow> list_ex (\<lambda>ob. ob_profile ob = cd_alternate c \<and>
     ob_account ob = Some (cd_object c) \<and> ob_method ob = op_method op) (cx_observations cx)"

definition reject_reason :: "planning_context \<Rightarrow> candidate \<Rightarrow> (string \<times> string) option" where
  "reject_reason cx c =
     (case get_capability (cd_capability c) of
        None \<Rightarrow> Some (''UNKNOWN_CAPABILITY'', cd_capability c)
      | Some cap \<Rightarrow>
         (case operation_named (cx_operations cx) (cd_operation c) of
            None \<Rightarrow> Some (''UNKNOWN_OPERATION'', cd_operation c)
          | Some op \<Rightarrow>
             let actual = owner_profile_of cx (cd_object c);
                 unavailable = (\<lambda>p. p \<notin> set (cx_credentials cx) \<or> p \<notin> set (authenticated cx));
                 stray = filter (\<lambda>r. r \<notin> set (projected_refs cx)) (cd_refs c) in
             first_reason
               [(\<not> op_read_only op, ''STATE_CHANGING_OPERATION'', cd_operation c),
                (op_method op \<notin> set (cp_methods cap), ''UNSUPPORTED_METHOD'', op_method op),
                (op_parameter op = None, ''OPERATION_HAS_NO_OBJECT_BINDING'', cd_operation c),
                (unavailable (cd_owner c), ''PRINCIPAL_UNAVAILABLE'', cd_owner c),
                (unavailable (cd_alternate c), ''PRINCIPAL_UNAVAILABLE'', cd_alternate c),
                (cd_owner c = cd_alternate c, ''PRINCIPALS_NOT_DISTINCT'', cd_alternate c),
                (cx_ambiguous cx, ''SCOPE_AMBIGUITY'', cd_operation c),
                (cd_object c \<notin> set (cx_objects cx), ''UNKNOWN_OBJECT'', cd_object c),
                (Some (cd_owner c) \<noteq> actual, ''OWNER_PRINCIPAL_MISMATCH'', cd_object c),
                (Some (cd_alternate c) = actual, ''ALTERNATE_IS_OWNER'', cd_object c),
                (stray \<noteq> [], ''UNPROJECTED_REFERENCE'', concat (take 1 stray)),
                (own_object_of (cd_alternate c) = None, ''ALTERNATE_HAS_NO_OWN_OBJECT'', cd_alternate c),
                (already_observed cx op c, ''ALREADY_OBSERVED'', cd_object c),
                (\<not> remaining_ok cx, ''BUDGET_INSUFFICIENT'', ''remaining'')]))"

text \<open>\<open>f"{n:0kd}"\<close>.\<close>

definition padded :: "nat \<Rightarrow> nat \<Rightarrow> string" where
  "padded k n = replicate (k - length (nat_str n)) (CHR ''0'') @ nat_str n"

definition candidate_id :: "nat \<Rightarrow> string" where
  "candidate_id n = ''cand-'' @ padded 3 n"

text \<open>The loop of \<open>validate_candidates\<close>: the position in the input, the last number given and the
  semantic keys seen.  A detail over 300 characters and a number over 999 fail their models.\<close>

fun validate_from ::
  "planning_context \<Rightarrow> nat \<Rightarrow> nat \<Rightarrow> string list list \<Rightarrow> candidate list \<Rightarrow>
   (validated_candidate list \<times> candidate_rejection list) option" where
  "validate_from cx i n seen [] = Some ([], [])"
| "validate_from cx i n seen (c # cs) =
     (if \<not> candidate_ok c then None
      else case (case reject_reason cx c of Some r \<Rightarrow> Some r
                 | None \<Rightarrow> if semantic_key c \<in> set seen then Some (''DUPLICATE_CANDIDATE'', ''semantic'') else None) of
        Some (code, detail) \<Rightarrow>
          if 300 < length detail then None
          else map_option (\<lambda>(vs, rs). (vs, \<lparr>cr_index = i, cr_code = code, cr_detail = detail\<rparr> # rs))
                 (validate_from cx (i + 1) n seen cs)
      | None \<Rightarrow>
          if 999 < n + 1 then None
          else map_option (\<lambda>(vs, rs). (\<lparr>vd_id = candidate_id (n + 1), vd_candidate = c\<rparr> # vs, rs))
                 (validate_from cx (i + 1) (n + 1) (semantic_key c # seen) cs))"

definition validate_candidates ::
  "planning_context \<Rightarrow> candidate list \<Rightarrow> (validated_candidate list \<times> candidate_rejection list) option" where
  "validate_candidates cx cs = validate_from cx 0 0 [] cs"

section \<open>The execution queue\<close>

record queued_candidate =
  qd_id :: string
  qd_index :: nat
  qd_admitted :: bool
  qd_reason :: string

definition capability_priority :: "string \<Rightarrow> nat" where
  "capability_priority cid = length (takeWhile (\<lambda>c. cp_id c \<noteq> cid) CAPABILITY_REGISTRY)"

definition order_key :: "validated_candidate \<Rightarrow> nat \<times> string list" where
  "order_key v = (let c = vd_candidate v in
     (capability_priority (cd_capability c),
      [cd_operation c, cd_alternate c, cd_owner c, cd_object c, vd_id v]))"

definition ordered_validated :: "validated_candidate list \<Rightarrow> validated_candidate list" where
  "ordered_validated vs = sort_key order_key vs"

definition REQUESTS_PER_CANDIDATE :: int where "REQUESTS_PER_CANDIDATE = 3"

definition execution_queue :: "validated_candidate list \<Rightarrow> int \<Rightarrow> int \<Rightarrow> queued_candidate list" where
  "execution_queue vs requests per_candidate =
     (let budget = max 0 requests; cost = max 1 per_candidate in
      map (\<lambda>(i, v). let admitted = int (i + 1) * cost \<le> budget in
          \<lparr>qd_id = vd_id v, qd_index = i, qd_admitted = admitted,
           qd_reason = (if admitted then ''ADMITTED'' else ''BUDGET_UNAVAILABLE'')\<rparr>)
        (enumerate 0 (ordered_validated vs)))"

section \<open>The request compiler\<close>

definition object_read_operation :: "scenario_projection \<Rightarrow> operation option" where
  "object_read_operation pr = find (\<lambda>op. op_parameter op \<noteq> None \<and> op_read_only op) (sp_operations pr)"

definition owner_profile_of_object :: "string \<Rightarrow> string option" where
  "owner_profile_of_object i = (case map_of OBJECTS i of None \<Rightarrow> None
     | Some actor \<Rightarrow> map_option fst (find (\<lambda>(p, a). a = actor) PROFILE_ACTORS))"

definition path_for :: "operation \<Rightarrow> string \<Rightarrow> string option" where
  "path_for op i =
     (if i \<notin> set (map fst OBJECTS) \<or> i \<notin> set (op_objects op) then None
      else Some (replace_all (''{'' @ (case op_parameter op of None \<Rightarrow> ''None'' | Some p \<Rightarrow> p) @ ''}'') i (op_template op)))"

text \<open>A \<open>PlannedRequest\<close>, or its \<open>ValidationError\<close>.\<close>

definition planned :: "planned_request \<Rightarrow> planned_request option" where
  "planned r = (if planned_ok r then Some r else None)"

definition control_read :: "operation \<Rightarrow> string \<Rightarrow> string \<Rightarrow> planned_request option" where
  "control_read op prefix profile =
     (case own_object_of profile of None \<Rightarrow> None
      | Some own \<Rightarrow> (case path_for op own of None \<Rightarrow> None
          | Some path \<Rightarrow> planned \<lparr>pq_name = prefix @ ''-control-'' @ profile, pq_method = op_method op, pq_path = path,
              pq_profile = profile, pq_purpose = ''Fresh legitimate owner control read for the authorization comparison.''\<rparr>))"

definition probe_read :: "operation \<Rightarrow> string \<Rightarrow> string \<times> string \<Rightarrow> planned_request option" where
  "probe_read op prefix d =
     (case path_for op (snd d) of None \<Rightarrow> None
      | Some path \<Rightarrow> planned \<lparr>pq_name = prefix @ ''-probe-'' @ fst d @ ''-'' @ snd d, pq_method = op_method op, pq_path = path,
          pq_profile = fst d, pq_purpose = ''Read another owner's object by identifier to test object authorization.''\<rparr>)"

text \<open>\<open>_authorization_reads\<close>: the controls of every involved principal, then the probes.\<close>

definition authorization_reads ::
  "(string \<times> string) list \<Rightarrow> scenario_projection \<Rightarrow> string \<Rightarrow> planned_request list option" where
  "authorization_reads directions pr prefix =
     (case object_read_operation pr of None \<Rightarrow> None
      | Some op \<Rightarrow>
        (case all_some (map (owner_profile_of_object \<circ> snd) directions) of None \<Rightarrow> None
         | Some owners \<Rightarrow>
             all_some (map (control_read op prefix) (sort (remdups (map fst directions @ owners))) @
               map (probe_read op prefix) (sort (remdups directions)))))"

definition is_id_char :: "char \<Rightarrow> bool" where
  "is_id_char c \<longleftrightarrow> is_lower c \<or> is_digit c \<or> c = CHR ''-''"

text \<open>\<open>Hypothesis.model_validate\<close>, for its fields that the model keeps.\<close>

definition hypothesis_ok :: "hypothesis \<Rightarrow> bool" where
  "hypothesis_ok h \<longleftrightarrow> hy_id h \<noteq> [] \<and> list_all is_id_char (hy_id h) \<and> length (hy_id h) \<le> 100 \<and>
     length (hy_title h) \<le> 200 \<and> hy_category h \<in> {''BOLA'', ''AUTHN'', ''EXPOSURE''} \<and>
     1 \<le> length (hy_requests h) \<and> length (hy_requests h) \<le> 8"

definition hypothesis_of :: "string \<Rightarrow> string \<Rightarrow> planned_request list \<Rightarrow> hypothesis option" where
  "hypothesis_of i title requests =
     (let h = \<lparr>hy_id = i, hy_title = title, hy_category = ''BOLA'', hy_requests = requests\<rparr> in
      if hypothesis_ok h then Some h else None)"

definition compile_probe :: "validated_candidate \<Rightarrow> scenario_projection \<Rightarrow> nat \<Rightarrow> hypothesis option" where
  "compile_probe v pr ordinal =
     (let c = vd_candidate v; prefix = vd_id v @ ''-'' @ padded 2 ordinal in
      case operation_named (sp_operations pr) (cd_operation c) of
        None \<Rightarrow> None
      | Some op \<Rightarrow>
          if op_parameter op = None \<or> \<not> op_read_only op then None
          else (case authorization_reads [(cd_alternate c, cd_object c)] pr prefix of
              None \<Rightarrow> None
            | Some requests \<Rightarrow> hypothesis_of prefix (take 200 (cd_invariant c)) requests))"

definition compile_retest :: "(string \<times> string) list \<Rightarrow> scenario_projection \<Rightarrow> hypothesis option" where
  "compile_retest objectives pr =
     (if objectives = [] then None
      else (case authorization_reads objectives pr ''retest'' of
          None \<Rightarrow> None
        | Some requests \<Rightarrow> hypothesis_of ''linked-patched-retest''
            ''Linked patched retest of the confirmed cross-owner access direction'' requests))"

section \<open>The reference planner\<close>

record generation =
  gn_candidates :: "candidate list"
  gn_blocking :: "blocking_condition list"

definition blocking_condition_ok :: "blocking_condition \<Rightarrow> bool" where
  "blocking_condition_ok b \<longleftrightarrow> length (bc_refs b) \<le> 12 \<and> 1 \<le> length (bc_claims b) \<and> length (bc_claims b) \<le> 12 \<and>
     (case bc_operation b of None \<Rightarrow> True | Some s \<Rightarrow> length s \<le> 100) \<and>
     (case bc_capability b of None \<Rightarrow> True | Some s \<Rightarrow> length s \<le> 100) \<and> length (bc_missing b) \<le> 12"

definition generation_ok :: "generation \<Rightarrow> bool" where
  "generation_ok g \<longleftrightarrow> length (gn_candidates g) \<le> 3 \<and> list_all candidate_ok (gn_candidates g) \<and>
     length (gn_blocking g) \<le> 8 \<and> list_all blocking_condition_ok (gn_blocking g)"

definition demo_candidate :: "string \<Rightarrow> operation \<Rightarrow> string \<Rightarrow> string \<Rightarrow> string \<Rightarrow> candidate" where
  "demo_candidate cap op owner alternate i =
     \<lparr>cd_capability = cap, cd_operation = op_id op, cd_owner = owner, cd_alternate = alternate, cd_object = i,
      cd_invariant = ''A principal must not read another owner's object by id.'',
      cd_refs = [op_id op, cap, i]\<rparr>"

text \<open>\<open>DemoPlanner.enumerate_candidates\<close>; \<open>None\<close> is an exception.\<close>

definition demo_enumerate :: "planning_context \<Rightarrow> nat \<Rightarrow> generation option" where
  "demo_enumerate cx limit =
     (case preflight cx of
        Some r \<Rightarrow> Some \<lparr>gn_candidates = [], gn_blocking = [deterministic_blocking_condition cx r]\<rparr>
      | None \<Rightarrow>
        (case (find (\<lambda>op. op_read_only op \<and> op_parameter op \<noteq> None) (cx_operations cx), cx_capabilities cx) of
           (Some op, cap # _) \<Rightarrow>
             let cs = concat (map (\<lambda>(owner, objs). concat (map (\<lambda>i.
                   case find (\<lambda>p. p \<noteq> owner) (authenticated cx) of
                     None \<Rightarrow> []
                   | Some alt \<Rightarrow>
                       if list_ex (\<lambda>ob. ob_profile ob = alt \<and> ob_account ob = Some i) (cx_observations cx) then []
                       else [demo_candidate cap op owner alt i]) (sort objs))) (sort (cx_owners cx)));
                 g = \<lparr>gn_candidates = take limit cs, gn_blocking = []\<rparr> in
             if list_all candidate_ok cs \<and> generation_ok g then Some g else None
         | _ \<Rightarrow> None))"

end
