(* ===== verification/Candidate_Props.thy ===== *)
theory Candidate_Props
  imports Candidates "HOL-Library.Sublist" "HOL-Library.Multiset"
begin

text \<open>
  What the deterministic candidate controller guarantees: the preflight and the blockers, the
  validated candidates, the order of their execution and the compiled requests.
\<close>

section \<open>Preflight and blockers\<close>

lemma supported_operation_is_safe:
  assumes "any_supported_operation cx"
  shows "\<exists>op \<in> set (cx_operations cx). op_read_only op"
proof -
  from assms obtain cid c op where "get_capability cid = Some c" "op \<in> set (cx_operations cx)"
    "capability_can_evaluate c op"
    by (auto simp: any_supported_operation_def list_ex_iff split: option.splits)
  then show ?thesis by (auto simp: capability_can_evaluate_def)
qed

text \<open>C39: the preflight clears a context exactly when a bounded read-only test can be posed in it and
  every remaining budget is at least one: the seven blockers together are complete, and none of them fires
  on a testable context.
\<close>

theorem preflight_clears_constructible_tests:
  "preflight cx = None \<longleftrightarrow> constructible_read_only_test cx \<and> remaining_ok cx"
proof -
  have "preflight cx = None \<longleftrightarrow> list_all (\<lambda>r. \<not> blocker_valid cx r) BLOCKER_PRIORITY"
    by (auto simp: preflight_def find_None_iff list_all_iff)
  also have "\<dots> \<longleftrightarrow> constructible_read_only_test cx \<and> remaining_ok cx"
    using supported_operation_is_safe [of cx]
    by (auto simp: BLOCKER_PRIORITY_def blocker_valid_def constructible_read_only_test_def list_all_iff)
  finally show ?thesis .
qed

lemma dict_of_distinct: "distinct (map fst xs) \<Longrightarrow> dict_of xs = xs"
proof -
  have "fold (\<lambda>(k, v) d. AList.update k v d) xs acc = acc @ xs"
    if "distinct (map fst acc @ map fst xs)" for acc :: "('k \<times> 'v) list" and xs
    using that
  proof (induction xs arbitrary: acc)
    case (Cons x xs)
    obtain k v where x: "x = (k, v)" by (cases x)
    have "AList.update k v acc = acc @ [(k, v)]" if "k \<notin> fst ` set acc"
      using that by (induction acc) auto
    with Cons.prems x have "fold (\<lambda>(k, v) d. AList.update k v d) (x # xs) acc
        = fold (\<lambda>(k, v) d. AList.update k v d) xs (acc @ [(k, v)])" by simp
    also have "\<dots> = acc @ x # xs" using Cons.IH [of "acc @ [(k, v)]"] Cons.prems x by auto
    finally show ?case .
  qed simp
  from this [of "[]" xs] show "distinct (map fst xs) \<Longrightarrow> dict_of xs = xs" by (simp add: dict_of_def)
qed

text \<open>C40: the condition that the reference planner writes for a reason is accepted by the validation of
  model-written conditions exactly when the reason holds in the context, so stating the facts and
  checking them are inverse to each other.
\<close>

theorem reference_blocker_validates:
  "be_valid (evaluate_blocker cx (deterministic_blocking_condition cx r)) = blocker_valid cx r"
proof -
  have d: "distinct (map fst (map (\<lambda>f. (f, fact_value cx f)) (required_facts r)))"
    by (cases r) (simp_all add: required_facts_def)
  have "claims_valid cx (deterministic_blocking_condition cx r)" "\<not> duplicate_facts (deterministic_blocking_condition cx r)"
    using dict_of_distinct [OF d]
    by (simp_all add: claims_valid_def duplicate_facts_def deterministic_blocking_condition_def list_all_iff image_image)
  moreover have "refs_valid cx (deterministic_blocking_condition cx r)" "affected_valid cx (deterministic_blocking_condition cx r)"
    "missing_valid (deterministic_blocking_condition cx r)" "bc_reason (deterministic_blocking_condition cx r) = r"
    by (simp_all add: refs_valid_def affected_valid_def missing_valid_def deterministic_blocking_condition_def)
  ultimately show ?thesis by (simp add: evaluate_blocker_def)
qed

section \<open>Validated candidates\<close>

text \<open>A testable direction: what every later step relies on.\<close>

definition testable :: "planning_context \<Rightarrow> candidate \<Rightarrow> bool" where
  "testable cx c \<longleftrightarrow>
     candidate_ok c \<and> \<not> cx_ambiguous cx \<and> remaining_ok cx \<and>
     list_ex (\<lambda>op. op_id op = cd_operation c \<and> op_read_only op \<and> op_method op \<in> {''GET'', ''HEAD'', ''OPTIONS''} \<and>
       op_parameter op \<noteq> None \<and> \<not> already_observed cx op c) (cx_operations cx) \<and>
     cd_owner c \<in> set (authenticated cx) \<and> cd_alternate c \<in> set (authenticated cx) \<and>
     cd_owner c \<noteq> cd_alternate c \<and> cd_object c \<in> set (cx_objects cx) \<and>
     owner_profile_of cx (cd_object c) = Some (cd_owner c) \<and>
     set (cd_refs c) \<subseteq> set (projected_refs cx)"

lemma first_reason_None: "first_reason xs = None \<longleftrightarrow> list_all (\<lambda>x. \<not> fst x) xs"
  by (induction xs rule: first_reason.induct) auto

lemma not_rejected_testable:
  assumes "reject_reason cx c = None" and "candidate_ok c"
  shows "testable cx c"
proof -
  from assms(1) obtain cap op where cap: "get_capability (cd_capability c) = Some cap"
    and op: "operation_named (cx_operations cx) (cd_operation c) = Some op"
    by (auto simp: reject_reason_def split: option.splits)
  from op have o2: "op \<in> set (cx_operations cx)" "op_id op = cd_operation c"
    by (auto simp: operation_named_def find_Some_iff) (metis length_rev nth_mem set_rev)
  from cap have m: "set (cp_methods cap) = {''GET'', ''HEAD'', ''OPTIONS''}"
    by (auto simp: get_capability_def CAPABILITY_REGISTRY_def split: if_splits)
  have r: "op_read_only op" "op_method op \<in> set (cp_methods cap)" "op_parameter op \<noteq> None"
    "cd_owner c \<in> set (authenticated cx)" "cd_alternate c \<in> set (authenticated cx)" "cd_owner c \<noteq> cd_alternate c"
    "\<not> cx_ambiguous cx" "cd_object c \<in> set (cx_objects cx)" "owner_profile_of cx (cd_object c) = Some (cd_owner c)"
    "filter (\<lambda>r. r \<notin> set (projected_refs cx)) (cd_refs c) = []" "\<not> already_observed cx op c" "remaining_ok cx"
    using assms(1) by (simp_all add: reject_reason_def cap op first_reason_None Let_def eq_commute [of "Some _"] del: first_reason.simps)
  from r(10) have "set (cd_refs c) \<subseteq> set (projected_refs cx)" by (auto simp: filter_empty_conv)
  moreover have "list_ex (\<lambda>op. op_id op = cd_operation c \<and> op_read_only op \<and> op_method op \<in> {''GET'', ''HEAD'', ''OPTIONS''} \<and>
       op_parameter op \<noteq> None \<and> \<not> already_observed cx op c) (cx_operations cx)"
    unfolding list_ex_iff by (rule bexI [OF _ o2(1)]) (use o2(2) r m in blast)
  ultimately show ?thesis using r assms(2) by (simp add: testable_def)
qed

lemma validate_from_properties:
  "validate_from cx i n seen cs = Some (vs, rs) \<Longrightarrow>
     list_all (testable cx) (map vd_candidate vs) \<and>
     map vd_id vs = map candidate_id [Suc n..<Suc (n + length vs)] \<and>
     subseq (map vd_candidate vs) cs \<and> length vs + length rs = length cs"
proof (induction cx i n seen cs arbitrary: vs rs rule: validate_from.induct)
  case (2 cx i n seen c cs)
  show ?case
  proof (cases "case reject_reason cx c of Some r \<Rightarrow> Some r
      | None \<Rightarrow> if semantic_key c \<in> set seen then Some (''DUPLICATE_CANDIDATE'', ''semantic'') else None")
    case None
    then have "reject_reason cx c = None" by (auto split: option.splits)
    moreover have ok: "candidate_ok c" using "2.prems" by (auto split: if_splits)
    ultimately have t: "testable cx c" by (rule not_rejected_testable)
    from None "2.prems" ok obtain us ss where "n + 1 \<le> 999"
      and r: "validate_from cx (i + 1) (n + 1) (semantic_key c # seen) cs = Some (us, ss)"
      and v: "vs = \<lparr>vd_id = candidate_id (n + 1), vd_candidate = c\<rparr> # us" "rs = ss"
      by (auto split: if_splits)
    with "2.IH"(1) [OF _ None _ r] ok t show ?thesis
      by (simp add: upt_conv_Cons del: upt_Suc)
  next
    case (Some p)
    obtain code detail where p: "p = (code, detail)" by (cases p)
    have ok: "candidate_ok c" using "2.prems" by (auto split: if_splits)
    from Some "2.prems" ok p obtain ss where "length detail \<le> 300"
      and r: "validate_from cx (i + 1) n seen cs = Some (vs, ss)" and "length rs = Suc (length ss)"
      by (auto split: if_splits)
    with "2.IH"(2) [OF _ Some p [symmetric] _ r] ok show ?thesis by auto
  qed
qed auto

text \<open>C36: the validation only accepts or rejects: what it accepts is a subsequence of the model's
  candidates, unchanged, each a testable cross-owner direction of the projected context (a registered
  capability, a projected read-only operation on an object, two distinct authenticated principals of
  which one owns the object, nothing observed before, only projected references), numbered in order by
  the controller; every candidate is accepted or rejected.\<close>

theorem validated_candidates_are_testable:
  assumes "validate_candidates cx cs = Some (vs, rs)"
  shows "list_all (testable cx) (map vd_candidate vs) \<and> subseq (map vd_candidate vs) cs \<and>
    map vd_id vs = map candidate_id [1..<Suc (length vs)] \<and> length vs + length rs = length cs"
  using validate_from_properties [OF assms [unfolded validate_candidates_def]] by simp

definition demo_remaining :: remaining where
  "demo_remaining = \<lparr>rm_requests = 7, rm_iterations = 5, rm_model_calls = 6, rm_token_reservations = 80000, rm_time_ms = 90000\<rparr>"

definition demo_context :: planning_context where
  "demo_context = build_context (projection_of POSITIVE_VULNERABLE) [] demo_remaining 3"

definition demo_directions :: "candidate list" where
  "demo_directions =
     [demo_candidate ''bola_object_read_v1'' (account_operation Vulnerable ''getAccount'') ''user_b'' ''user_a'' ''B-200'',
      demo_candidate ''bola_object_read_v1'' (account_operation Vulnerable ''getAccount'') ''user_a'' ''user_a'' ''B-200'',
      demo_candidate ''bola_object_read_v1'' (account_operation Vulnerable ''getAccount'') ''user_a'' ''user_b'' ''A-100'']"

definition demo_validated :: "validated_candidate list" where
  "demo_validated = [\<lparr>vd_id = ''cand-001'', vd_candidate = demo_directions ! 0\<rparr>,
     \<lparr>vd_id = ''cand-002'', vd_candidate = demo_directions ! 2\<rparr>]"

lemma demo_validates:
  "validate_candidates demo_context demo_directions =
     Some (demo_validated, [\<lparr>cr_index = 1, cr_code = ''PRINCIPALS_NOT_DISTINCT'', cr_detail = ''user_a''\<rparr>])"
  by code_simp

theorem validated_candidates_are_testable_witness:
  "testable demo_context (demo_directions ! 0) \<and> testable demo_context (demo_directions ! 2)"
  using validated_candidates_are_testable [OF demo_validates] by (simp add: demo_validated_def)

section \<open>The execution queue\<close>

lemma filter_enumerate_less:
  "filter (\<lambda>(i, v). i < m) (enumerate n xs) = take (m - n) (enumerate n xs)"
proof (induction xs arbitrary: n)
  case (Cons x xs)
  show ?case using Cons.IH [of "Suc n"] by (cases "n < m") (auto simp: take_Cons' Suc_diff_Suc)
qed simp

lemma map_snd_of_enumerate: "map (\<lambda>p. f (snd p)) (enumerate n xs) = map f xs"
  by (induction xs arbitrary: n) simp_all

lemma admitted_index:
  fixes b c :: int
  assumes "0 < c" and "0 \<le> b"
  shows "int (i + 1) * c \<le> b \<longleftrightarrow> i < nat (b div c)"
proof -
  have "int (i + 1) * c \<le> b \<longleftrightarrow> int (i + 1) \<le> b div c"
  proof
    assume "int (i + 1) * c \<le> b"
    then have "int (i + 1) * c div c \<le> b div c" using assms(1) by (rule zdiv_mono1)
    then show "int (i + 1) \<le> b div c" using assms(1) by simp
  next
    assume "int (i + 1) \<le> b div c"
    then have "int (i + 1) * c \<le> b div c * c" using assms(1) by (simp add: mult_right_mono)
    also have "\<dots> \<le> b" using assms(1) by (simp add: minus_mod_eq_div_mult [symmetric])
    finally show "int (i + 1) * c \<le> b" .
  qed
  then show ?thesis by linarith
qed

text \<open>C38: the queue lists every validated candidate once, in the deterministic order, and admits
  exactly the longest prefix whose requests fit in the remaining budget.\<close>

theorem execution_queue_is_within_budget:
  "map qd_id (execution_queue vs requests cost) = map vd_id (ordered_validated vs) \<and>
   map qd_index (execution_queue vs requests cost) = [0..<length vs] \<and>
   filter qd_admitted (execution_queue vs requests cost) =
     take (nat (max 0 requests div max 1 cost)) (execution_queue vs requests cost) \<and>
   int (length (filter qd_admitted (execution_queue vs requests cost))) * max 1 cost \<le> max 0 requests"
proof -
  let ?b = "max 0 requests" and ?c = "max 1 cost" and ?m = "nat (max 0 requests div max 1 cost)"
  define f :: "nat \<times> validated_candidate \<Rightarrow> queued_candidate" where "f = (\<lambda>(i, v). let admitted = int (i + 1) * ?c \<le> ?b in
      \<lparr>qd_id = vd_id v, qd_index = i, qd_admitted = admitted,
       qd_reason = (if admitted then ''ADMITTED'' else ''BUDGET_UNAVAILABLE'')\<rparr>)"
  let ?q = "execution_queue vs requests cost"
  have q: "?q = map f (enumerate 0 (ordered_validated vs))"
    by (simp only: execution_queue_def Let_def f_def)
  have f: "qd_id (f p) = vd_id (snd p)" "qd_index (f p) = fst p" "qd_admitted (f p) \<longleftrightarrow> fst p < ?m" for p
    using admitted_index [of ?c ?b "fst p"] by (simp_all add: f_def case_prod_beta Let_def)
  have l: "length (ordered_validated vs) = length vs" by (simp add: ordered_validated_def)
  have "filter qd_admitted (map f xs) = map f (filter (\<lambda>p. fst p < ?m) xs)" for xs
    using f(3) by (induction xs) auto
  then have t: "filter qd_admitted ?q = take ?m ?q"
    unfolding q using filter_enumerate_less [of ?m 0 "ordered_validated vs"]
    by (simp add: case_prod_unfold take_map del: max_def)
  have "int (length (take ?m ?q)) * ?c \<le> ?b"
  proof (cases "length (take ?m ?q)")
    case (Suc k)
    then have "k < ?m" by auto
    then have "int (k + 1) * ?c \<le> ?b" using admitted_index [of ?c ?b k] by linarith
    then show ?thesis by (simp only: Suc Suc_eq_plus1)
  qed simp
  moreover have "map qd_id ?q = map vd_id (ordered_validated vs)" "map qd_index ?q = [0..<length vs]"
    using f(1, 2) by (simp_all add: q comp_def l map_snd_of_enumerate)
  ultimately show ?thesis using t by simp
qed

text \<open>The order of the queue does not depend on how the model arranged its candidates.\<close>

lemma lex_prefix: "length xs = length ys \<Longrightarrow> xs @ [a] \<le> ys @ [b] \<Longrightarrow> xs \<le> ys" for xs ys :: "'a :: linorder list"
proof (induction xs ys rule: list_induct2)
  case (Cons x xs y ys)
  then show ?case by (auto simp: Cons_less_Cons)
qed simp

abbreviation key_of :: "validated_candidate \<Rightarrow> string list" where
  "key_of v \<equiv> semantic_key (vd_candidate v)"

definition plain_key :: "string list \<Rightarrow> nat \<times> string list" where
  "plain_key s = (capability_priority (hd s), tl s)"

lemma order_key_plain: "order_key v \<le> order_key w \<Longrightarrow> plain_key (key_of v) \<le> plain_key (key_of w)"
  using lex_prefix [of "[cd_operation (vd_candidate v), cd_alternate (vd_candidate v), cd_owner (vd_candidate v), cd_object (vd_candidate v)]"
      "[cd_operation (vd_candidate w), cd_alternate (vd_candidate w), cd_owner (vd_candidate w), cd_object (vd_candidate w)]"
      "vd_id v" "vd_id w"]
  by (auto simp: order_key_def plain_key_def semantic_key_def Let_def less_eq_prod_def)

lemma ordered_plain_sorted: "sorted (map plain_key (map key_of (ordered_validated vs)))"
proof -
  have "sorted_wrt (\<lambda>v w. order_key v \<le> order_key w) (ordered_validated vs)"
    unfolding ordered_validated_def by (metis sorted_map sorted_sort_key)
  then have "sorted_wrt (\<lambda>v w. plain_key (key_of v) \<le> plain_key (key_of w)) (ordered_validated vs)"
    by (rule sorted_wrt_mono_rel [rotated]) (rule order_key_plain)
  then show ?thesis by (simp add: sorted_map comp_def)
qed

text \<open>The semantic keys that the validation accepts: one for each acceptable direction.\<close>

lemma validate_from_keys:
  "validate_from cx i n seen cs = Some (vs, rs) \<Longrightarrow>
     distinct (map key_of vs) \<and>
     set (map key_of vs) = semantic_key ` {c \<in> set cs. reject_reason cx c = None} - set seen"
proof (induction cx i n seen cs arbitrary: vs rs rule: validate_from.induct)
  case (2 cx i n seen c cs)
  let ?acc = "\<lambda>cs. semantic_key ` {c \<in> set cs. reject_reason cx c = None}"
  show ?case
  proof (cases "case reject_reason cx c of Some r \<Rightarrow> Some r
      | None \<Rightarrow> if semantic_key c \<in> set seen then Some (''DUPLICATE_CANDIDATE'', ''semantic'') else None")
    case None
    then have c: "reject_reason cx c = None" "semantic_key c \<notin> set seen" by (auto split: option.splits if_splits)
    have ok: "candidate_ok c" using "2.prems" by (auto split: if_splits)
    from None "2.prems" ok obtain us ss where "n + 1 \<le> 999"
      and r: "validate_from cx (i + 1) (n + 1) (semantic_key c # seen) cs = Some (us, ss)"
      and v: "vs = \<lparr>vd_id = candidate_id (n + 1), vd_candidate = c\<rparr> # us"
      by (auto split: if_splits)
    with "2.IH"(1) [OF _ None _ r] ok
    have "distinct (map key_of us)" and u: "set (map key_of us) = ?acc cs - set (semantic_key c # seen)" by auto
    moreover have "?acc (c # cs) = insert (semantic_key c) (?acc cs)" using c(1) by auto
    ultimately show ?thesis using v c(2) u by auto
  next
    case (Some p)
    obtain code detail where p: "p = (code, detail)" by (cases p)
    have ok: "candidate_ok c" using "2.prems" by (auto split: if_splits)
    from Some "2.prems" ok p obtain ss where "length detail \<le> 300"
      and r: "validate_from cx (i + 1) n seen cs = Some (vs, ss)"
      by (auto split: if_splits)
    have "?acc (c # cs) - set seen = ?acc cs - set seen"
      using Some by (auto split: option.splits if_splits)
    with "2.IH"(2) [OF _ Some p [symmetric] _ r] ok \<open>length detail \<le> 300\<close> show ?thesis by simp
  qed
qed auto

lemma accepted_capability:
  assumes "reject_reason cx c = None"
  shows "hd (semantic_key c) = ''bola_object_read_v1''"
  using assms by (auto simp: reject_reason_def semantic_key_def get_capability_def CAPABILITY_REGISTRY_def
      split: option.splits if_splits)

text \<open>C37: which directions are executed and in which order does not depend on how the model arranged
  its candidates or repeated them: two answers with the same candidates give the same queue of semantic
  directions.\<close>

theorem execution_order_is_model_independent:
  assumes "validate_candidates cx cs = Some (vs, rs)" and "validate_candidates cx cs' = Some (vs', rs')"
    and "set cs = set cs'"
  shows "map (\<lambda>v. semantic_key (vd_candidate v)) (ordered_validated vs) =
    map (\<lambda>v. semantic_key (vd_candidate v)) (ordered_validated vs')"
proof -
  let ?k = "\<lambda>vs. map key_of (ordered_validated vs)"
  have m: "mset (?k vs) = mset (map key_of vs)" for vs
    by (simp only: ordered_validated_def mset_map mset_sort)
  note f = validate_from_keys [OF assms(1) [unfolded validate_candidates_def]]
    validate_from_keys [OF assms(2) [unfolded validate_candidates_def]]
  have d: "distinct (?k vs)" "distinct (?k vs')"
    using f mset_eq_imp_distinct_iff [OF m] by (simp_all only:)
  have k: "set (?k vs) = set (map key_of vs)" for vs using mset_eq_setD [OF m] .
  have s: "set (?k vs) = semantic_key ` {c \<in> set cs. reject_reason cx c = None}"
    "set (?k vs') = semantic_key ` {c \<in> set cs. reject_reason cx c = None}"
    using f assms(3) by (simp_all only: k list.set(1) Diff_empty)
  have inj: "inj_on plain_key (set (?k vs) \<union> set (?k vs'))"
    unfolding s
  proof (rule inj_onI)
    fix x y assume xy: "x \<in> semantic_key ` {c \<in> set cs. reject_reason cx c = None} \<union> semantic_key ` {c \<in> set cs. reject_reason cx c = None}"
      "y \<in> semantic_key ` {c \<in> set cs. reject_reason cx c = None} \<union> semantic_key ` {c \<in> set cs. reject_reason cx c = None}"
      and p: "plain_key x = plain_key y"
    from xy p have "hd x = hd y" using accepted_capability by fastforce
    moreover have "x \<noteq> []" "y \<noteq> []" using xy by (auto simp: semantic_key_def)
    moreover have "tl x = tl y" using p by (simp add: plain_key_def)
    ultimately show "x = y" by (simp add: list.expand)
  qed
  then have "distinct (map plain_key (?k vs))" "distinct (map plain_key (?k vs'))"
    using d inj unfolding distinct_map by (blast intro: inj_on_subset)+
  moreover have "set (map plain_key (?k vs)) = set (map plain_key (?k vs'))"
    unfolding set_map [of plain_key] s by (rule refl)
  ultimately have "map plain_key (?k vs) = map plain_key (?k vs')"
    by (intro sorted_distinct_set_unique ordered_plain_sorted)
  then show ?thesis using inj by (rule map_inj_on)
qed

lemma demo_validates_reversed:
  "validate_candidates demo_context (rev demo_directions) =
     Some ([\<lparr>vd_id = ''cand-001'', vd_candidate = demo_directions ! 2\<rparr>, \<lparr>vd_id = ''cand-002'', vd_candidate = demo_directions ! 0\<rparr>],
       [\<lparr>cr_index = 1, cr_code = ''PRINCIPALS_NOT_DISTINCT'', cr_detail = ''user_a''\<rparr>])"
  by code_simp

theorem execution_order_is_model_independent_witness:
  "map (\<lambda>v. semantic_key (vd_candidate v)) (ordered_validated demo_validated) =
     map (\<lambda>v. semantic_key (vd_candidate v)) (ordered_validated
       [\<lparr>vd_id = ''cand-001'', vd_candidate = demo_directions ! 2\<rparr>, \<lparr>vd_id = ''cand-002'', vd_candidate = demo_directions ! 0\<rparr>])"
  by (rule execution_order_is_model_independent [OF demo_validates demo_validates_reversed]) simp

section \<open>Two corners\<close>

text \<open>A stray reference of more than 300 characters cannot be recorded as the detail of a rejection, so the
  validation raises instead of rejecting its candidate.\<close>

lemma long_reference_raises:
  "validate_candidates demo_context [(demo_directions ! 0)\<lparr>cd_refs := [replicate 300 (CHR ''x'')]\<rparr>] \<noteq> None \<and>
   validate_candidates demo_context [(demo_directions ! 0)\<lparr>cd_refs := [replicate 301 (CHR ''x'')]\<rparr>] = None"
  by code_simp

text \<open>The compiler resolves the candidate's operation but reads through the first read-only one of the
  projection.\<close>

definition two_operations :: scenario_projection where
  "two_operations = (projection_of POSITIVE_VULNERABLE)\<lparr>sp_operations :=
     [account_operation Vulnerable ''getAccount'', account_operation Patched ''getPatchedAccount'']\<rparr>"

lemma compiled_probe_ignores_operation:
  "map_option (map pq_path \<circ> hy_requests) (compile_probe \<lparr>vd_id = ''cand-001'',
      vd_candidate = (demo_directions ! 0)\<lparr>cd_operation := ''getPatchedAccount''\<rparr>\<rparr> two_operations 1) =
   Some [object_path Vulnerable ''A-100'', object_path Vulnerable ''B-200'', object_path Vulnerable ''B-200'']"
  by code_simp

end
