(* ===== verification/Native_Executor.thy ===== *)
theory Native_Executor
  imports Candidates Engine_Policy Agent_Budget
begin

text \<open>
  The native engine: the redacting executor of one planned read (\<open>aegis/executor.py\<close>, with
  \<open>bounded_body\<close> of \<open>aegis/http.py\<close>) and the adapter that runs a whole job through it
  (\<open>AegisNativeAdapter\<close> of \<open>aegis/engine/adapters.py\<close>).

  Everything the scan reads from outside is the record \<open>world\<close>: the target, which sees all the calls
  made so far, the clock by the number of its readings, the planner, fresh identifiers, the digest of
  an excerpt and the JSON decoder of bytes that are not UTF-8.  Durations are not modelled.
\<close>

section \<open>What comes from outside\<close>

record native_call =
  nc_method :: string
  nc_url :: string
  nc_bearer :: "string option"

text \<open>A reply that ends before or after its status line is an \<open>httpx.HTTPError\<close> of the class
  named; the last two are the scan's own time limit and a cancellation, which strike while it waits.\<close>

datatype 'a awaited = Arrived 'a | Time_Limit | Cancellation

datatype native_reply = Reply_Body int string | Reply_Broken "int option" string

text \<open>What leaves the scan's loop: a \<open>SafetyViolation\<close>, a \<open>BudgetExceeded\<close>, the \<open>TimeoutError\<close> of the
  scan's limit, a \<open>CancelledError\<close>, a \<open>PlannerFailure\<close>, or any other exception.\<close>

datatype native_stop = Safety_Stop string | Budget_Stop string | Time_Stop | Cancel_Stop
  | Planner_Stop string | Other_Stop | Out_Of_Fuel

text \<open>A planner raises a \<open>PlannerFailure\<close> with its code, or something else.\<close>

datatype planner_fault = Planner_Failure string | Planner_Error

record planner_answer =
  pa_reservations :: "int list"
  pa_outcome :: "(planner_fault + generation) awaited"

record world =
  wd_target :: "native_call list \<Rightarrow> native_reply awaited"
  wd_clock :: "nat \<Rightarrow> int"
  wd_planner :: "planning_context \<Rightarrow> nat \<Rightarrow> planner_answer"
  wd_fresh :: "nat \<Rightarrow> string"
  wd_digest :: "json \<Rightarrow> string"
  wd_foreign :: "string \<Rightarrow> json option"
  wd_ip :: "string \<Rightarrow> bool"

record native_settings =
  ns_safety :: safety_settings
  ns_scan :: scan_settings
  ns_ai_token :: "string option"
  ns_max_response_bytes :: nat
  ns_max_candidates :: nat

definition credentials :: "(string \<times> string) list" where
  "credentials = [(''user_a'', ''lab-token-user-a''), (''user_b'', ''lab-token-user-b'')]"

section \<open>Redaction\<close>

definition SENSITIVE_KEYS :: "string list" where
  "SENSITIVE_KEYS = [''authorization'', ''cookie'', ''set-cookie'', ''token'', ''access_token'', ''refresh_token'',
     ''password'', ''secret'', ''api_key'', ''apikey'', ''client_secret'']"

text \<open>\<open>key.lower()\<close>, for comparison with the keys above: outside ASCII only the Kelvin sign lowers to
  one ASCII letter.\<close>

definition sensitive_key :: "points \<Rightarrow> bool" where
  "sensitive_key k \<longleftrightarrow>
     map (\<lambda>n. if 65 \<le> n \<and> n \<le> 90 then n + 32 else if n = 0x212A then 107 else n) k \<in> set (map points_of SENSITIVE_KEYS)"

definition token_point :: "nat \<Rightarrow> bool" where
  "token_point n \<longleftrightarrow> \<not> uni_space n \<and> n \<noteq> 34 \<and> n \<noteq> 39"

text \<open>The pattern \<open>(?i)bearer\s+[^\s"']+\<close> at the start of a text: what follows its match.\<close>

definition bearer_match :: "points \<Rightarrow> points option" where
  "bearer_match p =
     (let q = drop 6 p; r = dropWhile uni_space q in
      if lower_points (take 6 p) = points_of ''bearer'' \<and> q \<noteq> r \<and> r \<noteq> [] \<and> token_point (hd r)
      then Some (dropWhile token_point r) else None)"

lemma bearer_match_shorter: "bearer_match p = Some r \<Longrightarrow> length r < length p"
proof -
  assume a: "bearer_match p = Some r"
  then have r: "r = dropWhile token_point (dropWhile uni_space (drop 6 p))"
    and n: "dropWhile uni_space (drop 6 p) \<noteq> []"
    by (auto simp: bearer_match_def Let_def split: if_splits)
  have "length r \<le> length (dropWhile uni_space (drop 6 p))" unfolding r by (rule length_dropWhile_le)
  also have "\<dots> \<le> length (drop 6 p)" by (rule length_dropWhile_le)
  finally have "length r \<le> length p - 6" by simp
  moreover have "drop 6 p \<noteq> []" using n by auto
  then have "6 < length p" by (simp add: not_le)
  ultimately show ?thesis by linarith
qed

function mask_bearer :: "points \<Rightarrow> points" where
  "mask_bearer [] = []"
| "mask_bearer (c # cs) =
     (case bearer_match (c # cs) of
        Some rest \<Rightarrow> points_of ''Bearer [REDACTED]'' @ mask_bearer rest
      | None \<Rightarrow> c # mask_bearer cs)"
  by pat_completeness auto
termination by (relation "measure length") (auto dest: bearer_match_shorter)

definition hide_secret :: "string \<Rightarrow> points \<Rightarrow> points" where
  "hide_secret secret p = (if secret = [] then p else replace_all (points_of secret) (points_of ''[REDACTED]'') p)"

definition redact_text :: "string list \<Rightarrow> points \<Rightarrow> points" where
  "redact_text secrets p = take 1000 (mask_bearer (fold hide_secret secrets p))"

text \<open>\<open>redact\<close> with \<open>13 - depth\<close> levels left.\<close>

primrec redact_within :: "nat \<Rightarrow> string list \<Rightarrow> json \<Rightarrow> json" where
  "redact_within 0 secrets v = str_value ''[DEPTH_LIMIT]''"
| "redact_within (Suc n) secrets v =
     (case v of
        JObj kvs \<Rightarrow> JObj (dict_of (map (\<lambda>(k, x).
          (redact_text secrets k, if sensitive_key k then str_value ''[REDACTED]'' else redact_within n secrets x))
          (take 40 kvs)))
      | JArr xs \<Rightarrow> JArr (map (redact_within n secrets) (take 20 xs))
      | JStr p \<Rightarrow> JStr (redact_text secrets p)
      | _ \<Rightarrow> v)"

definition redact :: "string list \<Rightarrow> json \<Rightarrow> json" where
  "redact secrets v = redact_within 13 secrets v"

section \<open>One read\<close>

text \<open>\<open>json.loads\<close> of bytes: the encodings that \<open>json.detect_encoding\<close> finds, of which only plain UTF-8
  is decoded here.\<close>

definition detected_utf8 :: "string \<Rightarrow> bool" where
  "detected_utf8 b \<longleftrightarrow> (let at = (\<lambda>i. of_char (b ! i) :: nat) in
     \<not> (2 \<le> length b \<and> {at 0, at 1} = {0xFE, 0xFF}) \<and>
     \<not> (4 \<le> length b \<and> at 0 = 0 \<and> at 1 = 0 \<and> at 2 = 0xFE \<and> at 3 = 0xFF) \<and>
     \<not> (3 \<le> length b \<and> at 0 = 0xEF \<and> at 1 = 0xBB \<and> at 2 = 0xBF) \<and>
     (4 \<le> length b \<or> length b = 2 \<longrightarrow> at 0 \<noteq> 0 \<and> at 1 \<noteq> 0))"

definition body_json :: "(string \<Rightarrow> json option) \<Rightarrow> string \<Rightarrow> json option" where
  "body_json foreign b =
     (if detected_utf8 b \<and> decode_utf8 b \<noteq> None then (case loads_plain b of Inl _ \<Rightarrow> None | Inr v \<Rightarrow> Some v)
      else foreign b)"

definition excerpt_of :: "(string \<Rightarrow> json option) \<Rightarrow> string \<Rightarrow> json" where
  "excerpt_of foreign b =
     (let parsed = (case body_json foreign b of Some v \<Rightarrow> v | None \<Rightarrow> JStr (decode_replace b)) in
      case redact (map snd credentials) parsed of
        JObj kvs \<Rightarrow> JObj kvs
      | JStr p \<Rightarrow> JStr p
      | _ \<Rightarrow> str_value ''[NON_OBJECT_RESPONSE]'')"

text \<open>The state of a running scan outside its result.\<close>

record native_io =
  io_calls :: "native_call list"
  io_readings :: nat
  io_ids :: nat

type_synonym ('s, 'a) native = "('s, native_stop, 'a) prog"

definition await :: "'a awaited \<Rightarrow> ('s, native_stop, 'a) prog" where
  "await w = (case w of Arrived a \<Rightarrow> retE a | Time_Limit \<Rightarrow> throwE Time_Stop | Cancellation \<Rightarrow> throwE Cancel_Stop)"

definition send_call :: "world \<Rightarrow> native_call \<Rightarrow> (native_io, native_reply) native" where
  "send_call W c = bindE (modifyE (\<lambda>s. s\<lparr>io_calls := c # io_calls s\<rparr>)) (\<lambda>_.
     bindE (getE (\<lambda>s. wd_target W (io_calls s))) await)"

text \<open>A \<open>SafetyViolation\<close> keeps its message; the other errors of an approval are plain exceptions.\<close>

definition stop_of :: "approval_error \<Rightarrow> native_stop" where
  "stop_of e = (case e of Safety_Violation m \<Rightarrow> Safety_Stop m | _ \<Rightarrow> Other_Stop)"

definition approved :: "'a approval \<Rightarrow> ('s, 'a) native" where
  "approved a = (case a of Inl e \<Rightarrow> throwE (stop_of e) | Inr x \<Rightarrow> retE x)"

text \<open>\<open>None\<close> for \<open>settings.credentials[profile]\<close> without such a profile.\<close>

definition bearer_for :: "string \<Rightarrow> string option option" where
  "bearer_for profile =
     (if profile = ''anonymous'' then Some None else map_option Some (map_of credentials profile))"

definition evidence_from :: "native_settings \<Rightarrow> world \<Rightarrow> planned_request \<Rightarrow> native_reply \<Rightarrow> request_evidence" where
  "evidence_from st W r reply =
     (let e = \<lparr>re_name = pq_name r, re_method = pq_method r, re_path = pq_path r, re_profile = pq_profile r,
         re_status = None, re_excerpt = JNull, re_error = None\<rparr> in
      case reply of
        Reply_Broken status name \<Rightarrow> e\<lparr>re_status := status, re_error := Some name\<rparr>
      | Reply_Body status raw \<Rightarrow>
          if ns_max_response_bytes st < length raw
          then e\<lparr>re_status := Some status, re_error := Some ''ValueError''\<rparr>
          else e\<lparr>re_status := Some status, re_excerpt := excerpt_of (wd_foreign W) raw\<rparr>)"

definition execute_one ::
  "native_settings \<Rightarrow> world \<Rightarrow> string \<Rightarrow> variant \<Rightarrow> planned_request \<Rightarrow> (native_io, request_evidence) native" where
  "execute_one st W base v r =
     bindE (approved (approve_request (wd_ip W) (ns_safety st) base v r)) (\<lambda>url.
     (case bearer_for (pq_profile r) of
        None \<Rightarrow> throwE Other_Stop
      | Some bearer \<Rightarrow>
          bindE (send_call W \<lparr>nc_method = pq_method r, nc_url = url, nc_bearer = bearer\<rparr>) (\<lambda>reply.
          retE (evidence_from st W r reply))))"

section \<open>The adapter\<close>

datatype adapter_failure = SCOPE_EXPANSION_ATTEMPT string | BUDGET_EXCEEDED_REQUESTS

definition probe_of :: "job_request \<Rightarrow> planned_request" where
  "probe_of r = \<lparr>pq_name = jr_name r, pq_method = jr_method r, pq_path = jr_path r,
     pq_profile = jr_credential_profile r, pq_purpose = ''Engine-boundary read-only authorization probe.''\<rparr>"

text \<open>The check of the whole job before anything is sent: only a \<open>SafetyViolation\<close> becomes a failed
  execution.\<close>

fun scope_failure :: "(job_request \<Rightarrow> 'a approval) \<Rightarrow> job_request list \<Rightarrow> ('s, adapter_failure option) native" where
  "scope_failure approve [] = retE None"
| "scope_failure approve (r # rs) =
     (case approve r of
        Inr _ \<Rightarrow> scope_failure approve rs
      | Inl (Safety_Violation _) \<Rightarrow> retE (Some (SCOPE_EXPANSION_ATTEMPT (take 200 (jr_path r))))
      | Inl _ \<Rightarrow> throwE Other_Stop)"

text \<open>\<open>_maybe_report\<close>.\<close>

definition report_of :: "engine_job \<Rightarrow> request_evidence \<Rightarrow> reported_finding list" where
  "report_of j e =
     (let i = object_of (re_path e) in
      case (map_of PROFILE_ACTORS (re_profile e), map_of OBJECTS i) of
        (Some actor, Some owner) \<Rightarrow>
          if re_status e = Some 200 \<and> (re_error e = None \<or> re_error e = Some []) \<and> owner \<noteq> actor
          then [\<lparr>rf_report_key = ej_capability_id j @ '':'' @ re_profile e @ '':'' @ i,
                 rf_claimed_category = ''API1:2023 BOLA'', rf_observation_names = [re_name e],
                 rf_signal = ''Cross-owner object read returned 200 (unverified raw signal).''\<rparr>]
          else []
      | _ \<Rightarrow> [])"

text \<open>The status of an \<open>EngineObservation\<close>, the one field of it that the target chooses.\<close>

definition observable_status :: "request_evidence \<Rightarrow> bool" where
  "observable_status e \<longleftrightarrow> (case re_status e of None \<Rightarrow> True | Some n \<Rightarrow> 100 \<le> n \<and> n \<le> 599)"

definition observe_one ::
  "native_settings \<Rightarrow> world \<Rightarrow> variant \<Rightarrow> engine_job \<Rightarrow> job_request \<Rightarrow> (native_io, request_evidence) native" where
  "observe_one st W v j r =
     bindE (execute_one st W (tr_origin (ej_target j)) v (probe_of r)) (\<lambda>e.
     thenE (rejectE (\<not> observable_status e) Other_Stop) (retE e))"

fun collectE :: "('b \<Rightarrow> ('s, 'e, 'a) prog) \<Rightarrow> 'b list \<Rightarrow> ('s, 'e, 'a list) prog" where
  "collectE f [] = retE []"
| "collectE f (x # xs) = bindE (f x) (\<lambda>y. bindE (collectE f xs) (\<lambda>ys. retE (y # ys)))"

definition native_execution :: "world \<Rightarrow> string \<Rightarrow> engine_job \<Rightarrow> int \<Rightarrow> int \<Rightarrow> request_evidence list \<Rightarrow> engine_execution" where
  "native_execution W i j started completed es =
     \<lparr>ex_execution_id = i, ex_engine = AEGIS_NATIVE, ex_adapter_version = adapter_version AEGIS_NATIVE,
      ex_started_at = started, ex_completed_at = Some completed,
      ex_observations = map (\<lambda>e. \<lparr>eo_request_name = re_name e, eo_content_digest = wd_digest W (re_excerpt e)\<rparr>) es,
      ex_reported_findings = concat (map (report_of j) es)\<rparr>"

definition read_clock :: "world \<Rightarrow> (native_io, int) native" where
  "read_clock W = bindE (getE (\<lambda>s. wd_clock W (io_readings s))) (\<lambda>now.
     thenE (modifyE (\<lambda>s. s\<lparr>io_readings := io_readings s + 1\<rparr>)) (retE now))"

definition fresh_id :: "world \<Rightarrow> string \<Rightarrow> (native_io, string) native" where
  "fresh_id W prefix = bindE (getE (\<lambda>s. prefix @ wd_fresh W (io_ids s))) (\<lambda>i.
     thenE (modifyE (\<lambda>s. s\<lparr>io_ids := io_ids s + 1\<rparr>)) (retE i))"

definition native_execute ::
  "native_settings \<Rightarrow> world \<Rightarrow> variant \<Rightarrow> engine_job \<Rightarrow>
   (native_io, adapter_failure + engine_execution \<times> request_evidence list) native" where
  "native_execute st W v j =
     bindE (read_clock W) (\<lambda>started.
     bindE (fresh_id W ''exec-'') (\<lambda>i.
     bindE (scope_failure (\<lambda>r. approve_request (wd_ip W) (ns_safety st) (tr_origin (ej_target j)) v (probe_of r))
         (ej_requests j)) (\<lambda>failure.
     (case failure of
        Some f \<Rightarrow> retE (Inl f)
      | None \<Rightarrow>
          if eb_max_requests (ej_budget j) < int (length (ej_requests j)) then retE (Inl BUDGET_EXCEEDED_REQUESTS)
          else
            bindE (collectE (observe_one st W v j) (ej_requests j)) (\<lambda>es.
            bindE (read_clock W) (\<lambda>completed.
            retE (Inr (native_execution W i j started completed es, es))))))))"

text \<open>\<open>DisabledEngineAdapter\<close> and \<open>EngineDispatcher.is_enabled\<close>: which adapters are wired.\<close>

definition adapter_is_enabled :: "bool \<Rightarrow> bool \<Rightarrow> security_engine \<Rightarrow> bool" where
  "adapter_is_enabled nuclei zap e = (case e of
     AEGIS_NATIVE \<Rightarrow> True | NUCLEI \<Rightarrow> nuclei | ZAP \<Rightarrow> zap | BURP_DAST \<Rightarrow> False)"

end
