(* ===== verification/Native_Scan.thy ===== *)
theory Native_Scan
  imports Native_Executor Lab_Verifier
begin

text \<open>
  The scan service's own scan, from creation to its terminal state: \<open>create\<close>, \<open>run\<close> and everything
  under it of \<open>ScanService\<close> (\<open>aegis/service.py\<close>).

  The state is the persisted scan result, its budget, what was sent and the names of the audit events;
  the prose of a result and the details of an event are left out, and so is the text after the kind of
  a stop in \<open>terminal_reason\<close>.  \<open>asyncio.timeout\<close> and a cancellation strike where the scan waits, which
  is where \<open>await\<close> stands.  The \<open>while True\<close> runs on fuel.
\<close>

section \<open>The scan result\<close>

datatype scan_status = S_QUEUED | S_RUNNING | S_PASS | S_FAIL | S_REVIEW | S_INCOMPLETE

record stage_record =
  sg_retest :: bool
  sg_generated :: "candidate list"
  sg_validated :: "validated_candidate list"
  sg_rejections :: "candidate_rejection list"
  sg_blockers :: "blocker_evaluation list"
  sg_queue :: "queued_candidate list"
  sg_executed :: "string list"
  sg_terminal :: "string option"

record scan_result =
  sr_id :: string
  sr_base_url :: string
  sr_status :: scan_status
  sr_variant :: variant
  sr_scenario :: scenario
  sr_retest_of :: "string option"
  sr_objectives :: "(string \<times> string) list"
  sr_request_budget :: "nat option"
  sr_time_budget_ms :: "int option"
  sr_hypotheses :: "hypothesis list"
  sr_evidence :: "request_evidence list"
  sr_findings :: "lab_finding list"
  sr_verification :: "verification option"
  sr_stop_reason :: "string option"
  sr_generated_total :: nat
  sr_validated_total :: nat
  sr_rejected_total :: nat
  sr_selected :: "string option"
  sr_executed :: "string list"
  sr_records :: "stage_record list"
  sr_blocker :: "blocking_reason option"
  sr_rejected_jobs :: "engine_error list"
  sr_failed_jobs :: "adapter_failure list"
  sr_executions :: "engine_execution list"
  sr_engine_evidence :: "normalized_evidence list"
  sr_normalized :: "normalized_finding list"
  sr_safety_events :: "string list"
  sr_completed :: bool

record native_state = native_io +
  na_scan :: scan_result
  na_budget :: scan_budget
  na_audit :: "string list"

type_synonym 'a scan = "(native_state, 'a) native"

definition change_scan :: "(scan_result \<Rightarrow> scan_result) \<Rightarrow> unit scan" where
  "change_scan f = modifyE (\<lambda>s. s\<lparr>na_scan := f (na_scan s)\<rparr>)"

definition the_scan :: "(scan_result \<Rightarrow> 'a) \<Rightarrow> 'a scan" where
  "the_scan f = getE (\<lambda>s. f (na_scan s))"

definition audit :: "string \<Rightarrow> unit scan" where
  "audit event = modifyE (\<lambda>s. s\<lparr>na_audit := na_audit s @ [event]\<rparr>)"

text \<open>A step of the executor, which sees only its part of the state.\<close>

definition io_of :: "native_state \<Rightarrow> native_io" where
  "io_of s = \<lparr>io_calls = io_calls s, io_readings = io_readings s, io_ids = io_ids s\<rparr>"

definition lift_io :: "(native_io, 'a) native \<Rightarrow> 'a scan" where
  "lift_io m = (\<lambda>s. case m (io_of s) of
     (r, t) \<Rightarrow> (r, s\<lparr>io_calls := io_calls t, io_readings := io_readings t, io_ids := io_ids t\<rparr>))"

text \<open>A step of the budget at the time it reads.\<close>

definition budgeted :: "world \<Rightarrow> (int \<Rightarrow> unit scanning) \<Rightarrow> unit scan" where
  "budgeted W m = bindE (lift_io (read_clock W)) (\<lambda>now. (\<lambda>s.
     case m now (na_budget s) of (r, b) \<Rightarrow> (map_sum Budget_Stop id r, s\<lparr>na_budget := b\<rparr>)))"

section \<open>Limits\<close>

definition request_limit :: "native_settings \<Rightarrow> scan_result \<Rightarrow> nat" where
  "request_limit st r = min (or_default (sr_request_budget r) (st_max_requests_per_scan (ns_scan st)))
     (st_max_requests_per_scan (ns_scan st))"

text \<open>In nanoseconds.\<close>

definition time_limit :: "native_settings \<Rightarrow> scan_result \<Rightarrow> int" where
  "time_limit st r = min (case sr_time_budget_ms r of None \<Rightarrow> st_scan_timeout_ns (ns_scan st) | Some ms \<Rightarrow> ms * 1000000)
     (st_scan_timeout_ns (ns_scan st))"

definition scan_budget_of :: "native_settings \<Rightarrow> scan_result \<Rightarrow> int \<Rightarrow> scan_budget" where
  "scan_budget_of st r now = new_scan_budget (ns_scan st) (Some (request_limit st r)) (Some (time_limit st r)) now"

section \<open>Creation\<close>

record scan_create =
  sc_variant :: variant
  sc_scenario :: scenario
  sc_retest_of :: "string option"
  sc_request_budget :: "nat option"
  sc_time_budget_ms :: "int option"

definition effective_scenario :: "scan_create \<Rightarrow> scenario" where
  "effective_scenario c =
     (if sc_retest_of c \<noteq> None \<or> sc_variant c = Patched then PATCHED_NEGATIVE else sc_scenario c)"

definition scenario_variant :: "scenario \<Rightarrow> variant" where
  "scenario_variant s = (if s = PATCHED_NEGATIVE then Patched else Vulnerable)"

definition objective_of :: "request_evidence \<Rightarrow> (string \<times> string) option" where
  "objective_of e =
     (if re_profile e \<in> {''user_a'', ''user_b''} \<and> object_of (re_path e) \<in> {''A-100'', ''B-200''}
      then Some (re_profile e, object_of (re_path e)) else None)"

text \<open>What a retest repeats: the directions of the findings that its parent's evidence still gives.\<close>

definition retest_objectives :: "scan_result \<Rightarrow> (string \<times> string) list option" where
  "retest_objectives parent =
     (if sr_status parent \<noteq> S_FAIL \<or> sr_findings parent = [] \<or> sr_variant parent \<noteq> Vulnerable then None
      else
        let names = concat (map lf_evidence (verify_lab (sr_hypotheses parent) (sr_evidence parent) (sr_variant parent) None)) in
        if names = [] then None
        else all_some (map objective_of (filter (\<lambda>e. re_name e \<in> set names) (sr_evidence parent))))"

definition queued_scan :: "native_settings \<Rightarrow> string \<Rightarrow> scan_create \<Rightarrow> (string \<times> string) list \<Rightarrow> scan_result" where
  "queued_scan st i c objectives =
     \<lparr>sr_id = i, sr_base_url = ss_lab_base_url (ns_safety st), sr_status = S_QUEUED,
      sr_variant = scenario_variant (effective_scenario c), sr_scenario = effective_scenario c,
      sr_retest_of = sc_retest_of c, sr_objectives = objectives, sr_request_budget = sc_request_budget c,
      sr_time_budget_ms = sc_time_budget_ms c, sr_hypotheses = [], sr_evidence = [], sr_findings = [],
      sr_verification = None, sr_stop_reason = None, sr_generated_total = 0, sr_validated_total = 0,
      sr_rejected_total = 0, sr_selected = None, sr_executed = [], sr_records = [], sr_blocker = None,
      sr_rejected_jobs = [], sr_failed_jobs = [], sr_executions = [], sr_engine_evidence = [],
      sr_normalized = [], sr_safety_events = [], sr_completed = False\<rparr>"

text \<open>\<open>create\<close>, for a request without an engine capability and a target reference; \<open>None\<close> is
  its \<open>ValueError\<close>.\<close>

definition create_scan ::
  "native_settings \<Rightarrow> (string \<Rightarrow> scan_result option) \<Rightarrow> string \<Rightarrow> scan_create \<Rightarrow> scan_result option" where
  "create_scan st stored i c =
     (case sc_retest_of c of
        None \<Rightarrow> Some (queued_scan st i c [])
      | Some parent \<Rightarrow>
          (case stored parent of
             None \<Rightarrow> None
           | Some p \<Rightarrow> map_option (queued_scan st i c) (retest_objectives p)))"

section \<open>Verification\<close>

definition objective_repeated :: "variant \<Rightarrow> request_evidence list \<Rightarrow> string \<times> string \<Rightarrow> bool" where
  "objective_repeated v es ob \<longleftrightarrow> list_ex (\<lambda>e. re_profile e = fst ob \<and> re_path e = object_path v (snd ob) \<and>
     re_status e = Some 403 \<and> (re_error e = None \<or> re_error e = Some []) \<and> forbidden_body (re_excerpt e)) es"

definition scan_findings :: "scan_result \<Rightarrow> lab_finding list" where
  "scan_findings r = verify_lab (sr_hypotheses r) (sr_evidence r) (sr_variant r) (Some (sr_id r))"

definition scan_verdict :: "scan_result \<Rightarrow> verification" where
  "scan_verdict r =
     (let v = evaluate_lab (sr_hypotheses r) (sr_evidence r) (sr_variant r) in
      if vf_status v = PASS \<and> \<not> list_all (objective_repeated (sr_variant r) (sr_evidence r)) (sr_objectives r)
      then v\<lparr>vf_status := INSUFFICIENT\<rparr> else v)"

definition verify_scan :: "unit scan" where
  "verify_scan = thenE
     (change_scan (\<lambda>r. r\<lparr>sr_findings := scan_findings r, sr_verification := Some (scan_verdict r)\<rparr>))
     (audit ''VERIFIER_RESULT'')"

definition passed :: "scan_result \<Rightarrow> bool" where
  "passed r \<longleftrightarrow> (case sr_verification r of None \<Rightarrow> False | Some v \<Rightarrow> vf_status v = PASS)"

section \<open>Context and terminal states\<close>

definition observation_of :: "request_evidence \<Rightarrow> observation" where
  "observation_of e = \<lparr>ob_name = re_name e, ob_method = re_method e, ob_profile = re_profile e,
     ob_account = (if object_of (re_path e) \<in> set (map fst OBJECTS) then Some (object_of (re_path e)) else None)\<rparr>"

definition scan_context :: "native_settings \<Rightarrow> world \<Rightarrow> scenario_projection \<Rightarrow> planning_context scan" where
  "scan_context st W pr =
     bindE (lift_io (read_clock W)) (\<lambda>now.
     getE (\<lambda>s. let r = na_scan s; b = na_budget s in
       build_context pr (map observation_of (sr_evidence r))
         \<lparr>rm_requests = int (request_limit st r) - int (sb_requests b),
          rm_iterations = int (st_max_iterations (ns_scan st)) - int (sb_iterations b),
          rm_model_calls = int (st_max_model_calls (ns_scan st)) - int (sb_model_calls b),
          rm_token_reservations = st_max_tokens_per_scan (ns_scan st) - sb_reserved_tokens b,
          rm_time_ms = remaining_time_ms now b\<rparr> (ns_max_candidates st)))"

definition finish_scan :: "string \<Rightarrow> scan_status \<Rightarrow> unit scan" where
  "finish_scan reason status = thenE
     (change_scan (\<lambda>r. r\<lparr>sr_stop_reason := Some reason, sr_status := status\<rparr>)) (audit ''TERMINAL_REASON'')"

definition blocking_reason_name :: "blocking_reason \<Rightarrow> string" where
  "blocking_reason_name r = (case r of
       INSUFFICIENT_CONTEXT \<Rightarrow> ''INSUFFICIENT_CONTEXT'' | AUTHENTICATION_UNAVAILABLE \<Rightarrow> ''AUTHENTICATION_UNAVAILABLE''
     | SCOPE_AMBIGUITY \<Rightarrow> ''SCOPE_AMBIGUITY'' | SAFETY_CONFLICT \<Rightarrow> ''SAFETY_CONFLICT''
     | NO_SUPPORTED_TEST_CAPABILITY \<Rightarrow> ''NO_SUPPORTED_TEST_CAPABILITY''
     | NO_TESTABLE_HYPOTHESIS \<Rightarrow> ''NO_TESTABLE_HYPOTHESIS'' | BUDGET_UNAVAILABLE \<Rightarrow> ''BUDGET_UNAVAILABLE'')"

definition blocked_status :: "blocking_reason \<Rightarrow> scan_status" where
  "blocked_status r = (if r \<in> {SCOPE_AMBIGUITY, SAFETY_CONFLICT} then S_REVIEW else S_INCOMPLETE)"

definition blank_record :: "bool \<Rightarrow> stage_record" where
  "blank_record retest = \<lparr>sg_retest = retest, sg_generated = [], sg_validated = [], sg_rejections = [],
     sg_blockers = [], sg_queue = [], sg_executed = [], sg_terminal = None\<rparr>"

definition keep_record :: "stage_record \<Rightarrow> unit scan" where
  "keep_record g = change_scan (\<lambda>r. r\<lparr>sr_records := sr_records r @ [g]\<rparr>)"

definition end_stage :: "stage_record \<Rightarrow> string \<Rightarrow> scan_status \<Rightarrow> unit scan" where
  "end_stage g reason status = thenE (keep_record (g\<lparr>sg_terminal := Some reason\<rparr>)) (finish_scan reason status)"

definition block_scan :: "stage_record \<Rightarrow> blocking_reason \<Rightarrow> unit scan" where
  "block_scan g b = thenE (change_scan (\<lambda>r. r\<lparr>sr_blocker := Some b\<rparr>))
     (end_stage g (''BLOCKED_'' @ blocking_reason_name b) (blocked_status b))"

definition preflight_terminal :: "bool \<Rightarrow> blocking_reason \<Rightarrow> unit scan" where
  "preflight_terminal retest b = block_scan
     ((blank_record retest)\<lparr>sg_blockers := [\<lparr>be_reason = b, be_valid = True, be_detail = Some ''deterministic_preflight''\<rparr>]\<rparr>) b"

section \<open>The engine job\<close>

definition job_request_of :: "planned_request \<Rightarrow> job_request" where
  "job_request_of r = \<lparr>jr_name = pq_name r, jr_method = pq_method r, jr_path = pq_path r,
     jr_credential_profile = pq_profile r,
     jr_object_ref = (if object_of (pq_path r) \<in> set (map fst OBJECTS) then Some (object_of (pq_path r)) else None)\<rparr>"

definition native_arguments ::
  "native_settings \<Rightarrow> scan_result \<Rightarrow> nat \<Rightarrow> scenario_projection \<Rightarrow> string \<Rightarrow> string \<Rightarrow> hypothesis \<Rightarrow> job_arguments" where
  "native_arguments st r used pr capability operation h =
     \<lparr>ja_engine = AEGIS_NATIVE, ja_profile_id = ''aegis-native-bola-synthetic'', ja_capability_id = capability,
      ja_run_id = sr_id r, ja_environment = ENV_SYNTHETIC_LAB,
      ja_target = \<lparr>tr_engine = AEGIS_NATIVE, tr_environment = ENV_SYNTHETIC_LAB, tr_origin = sr_base_url r,
        tr_operation_id = operation, tr_method = ''GET'', tr_normalized_path = account_template (sr_variant r),
        tr_object_ref = None\<rparr>,
      ja_credential_profile_refs = sort (remdups (map pq_profile (hy_requests h))),
      ja_requests = map job_request_of (hy_requests h),
      ja_remaining_requests = int (request_limit st r) - int used,
      ja_allowed_origins = [ss_lab_base_url (ns_safety st), sr_base_url r],
      ja_authenticated_profiles = authenticated_profiles (sp_credentials pr),
      ja_adapter_enabled = adapter_is_enabled False False AEGIS_NATIVE,
      ja_time_budget_ms = None, ja_concurrency = 1\<rparr>"

section \<open>The engine kernel\<close>

definition conclusion_for :: "scan_result \<Rightarrow> string list \<Rightarrow> verifier_conclusion" where
  "conclusion_for r names =
     (case find (\<lambda>f. set names \<inter> set (lf_evidence f) \<noteq> {}) (sr_findings r) of
        Some f \<Rightarrow> \<lparr>vc_status = V_CONFIRMED,
          vc_summary = ''Deterministic verifier confirmed the cross-owner access direction.'',
          vc_aegis_finding_id = Some (lf_id f), vc_evidence_ids = lf_evidence f\<rparr>
      | None \<Rightarrow>
          if passed r then \<lparr>vc_status = V_PASS,
            vc_summary = ''Owner controls succeeded and the cross-owner read was denied.'',
            vc_aegis_finding_id = None, vc_evidence_ids = []\<rparr>
          else \<lparr>vc_status = V_INSUFFICIENT,
            vc_summary = ''No deterministic confirmation exists for the reported raw signal.'',
            vc_aegis_finding_id = None, vc_evidence_ids = []\<rparr>)"

definition record_report :: "engine_job \<Rightarrow> string \<Rightarrow> reported_finding \<Rightarrow> unit scan" where
  "record_report j hypothesis item =
     thenE (audit ''ENGINE_FINDING_REPORTED'')
     (case correlate_reported_finding item j hypothesis True of
        Inl _ \<Rightarrow> throwE Other_Stop
      | Inr n \<Rightarrow>
          thenE (audit ''ENGINE_FINDING_CORRELATED'')
          (bindE (the_scan (\<lambda>r. record_verifier_conclusion (conclusion_for r (rf_observation_names item)) REJECTED n)) (\<lambda>f.
           thenE (if nf_lifecycle_state f = REJECTED then audit ''ENGINE_FINDING_REJECTED''
                  else if nf_lifecycle_state f = REVIEW_REQUIRED then audit ''HUMAN_REVIEW_REQUIRED'' else retE ())
           (change_scan (\<lambda>r. r\<lparr>sr_normalized := sr_normalized r @ [f]\<rparr>)))))"

definition record_kernel :: "engine_job \<Rightarrow> string \<Rightarrow> engine_execution \<Rightarrow> unit scan" where
  "record_kernel j hypothesis x =
     thenE (change_scan (\<lambda>r. r\<lparr>sr_executions := sr_executions r @ [x]\<rparr>))
     (bindE (the_scan sr_id) (\<lambda>i.
      case normalize_observation_evidence x j i of
        Inl (Malformed_Engine_Output _) \<Rightarrow> audit ''ENGINE_EXECUTION_FAILED''
      | Inl Lifecycle_Validation \<Rightarrow> throwE Other_Stop
      | Inr items \<Rightarrow>
          thenE (change_scan (\<lambda>r. r\<lparr>sr_engine_evidence := sr_engine_evidence r @ items\<rparr>))
          (thenE (audit ''VERIFICATION_STARTED'')
          (thenE (eachE (record_report j hypothesis) (dedupe_reported (ex_reported_findings x)))
          (audit ''VERIFICATION_COMPLETED'')))))"

section \<open>One hypothesis\<close>

definition bind_evidence :: "request_evidence \<Rightarrow> unit scan" where
  "bind_evidence e =
     thenE (audit ''REQUEST_STARTED'')
     (thenE (change_scan (\<lambda>r. r\<lparr>sr_evidence := sr_evidence r @ [e]\<rparr>))
     (thenE (audit ''OBSERVATION'') verify_scan))"

text \<open>\<open>TargetReference.model_validate\<close>, as far as its inputs do not imply it.\<close>

definition target_ok :: "target_reference \<Rightarrow> bool" where
  "target_ok t \<longleftrightarrow> length (tr_origin t) \<le> 200 \<and> list_all (\<lambda>c. c \<notin> set ''?#@ '') (tr_origin t) \<and>
     tr_operation_id t \<noteq> [] \<and> length (tr_operation_id t) \<le> 100"

definition make_job ::
  "native_settings \<Rightarrow> world \<Rightarrow> scenario_projection \<Rightarrow> string \<Rightarrow> string \<Rightarrow> hypothesis \<Rightarrow> engine_job scan" where
  "make_job st W pr capability operation h =
     bindE (getE (\<lambda>s. native_arguments st (na_scan s) (sb_requests (na_budget s)) pr capability operation h)) (\<lambda>a.
     thenE (rejectE (\<not> target_ok (ja_target a)) Other_Stop)
     (bindE (lift_io (fresh_id W ''job-'')) (\<lambda>i.
     case build_engine_job i a of
       Inr j \<Rightarrow> thenE (audit ''ENGINE_JOB_CREATED'') (retE j)
     | Inl (Rejected e) \<Rightarrow>
         thenE (audit ''ENGINE_JOB_REJECTED'')
         (thenE (change_scan (\<lambda>r. r\<lparr>sr_rejected_jobs := sr_rejected_jobs r @ [e]\<rparr>))
         (throwE (Planner_Stop ''ENGINE_JOB_REJECTED'')))
     | Inl Uncaught_Validation \<Rightarrow> throwE Other_Stop)))"

definition authorize_hypothesis :: "native_settings \<Rightarrow> world \<Rightarrow> scenario_projection \<Rightarrow> hypothesis \<Rightarrow> unit scan" where
  "authorize_hypothesis st W pr h =
     thenE (audit ''TOOL_REQUEST'')
     (bindE (getE (\<lambda>s. let r = na_scan s in
         approve_plan (wd_ip W) (ns_safety st) (sr_base_url r) [h] (sr_variant r) (sb_requests (na_budget s))
           (map re_name (sr_evidence r)) (Some (surface_paths pr)))) (\<lambda>decision.
      bindE (approved decision) (\<lambda>events.
      thenE (change_scan (\<lambda>r. r\<lparr>sr_safety_events := sr_safety_events r @ events\<rparr>))
      (thenE (audit ''SAFETY_APPROVED'')
      (change_scan (\<lambda>r. r\<lparr>sr_hypotheses := sr_hypotheses r @ [h]\<rparr>))))))"

definition dispatch_job ::
  "native_settings \<Rightarrow> world \<Rightarrow> engine_job \<Rightarrow> (engine_execution \<times> request_evidence list) scan" where
  "dispatch_job st W j =
     thenE (audit ''ENGINE_EXECUTION_STARTED'')
     (bindE (the_scan sr_variant) (\<lambda>v.
      bindE (lift_io (native_execute st W v j)) (\<lambda>outcome.
      case outcome of
        Inl f \<Rightarrow>
          thenE (audit ''ENGINE_EXECUTION_FAILED'')
          (thenE (change_scan (\<lambda>r. r\<lparr>sr_failed_jobs := sr_failed_jobs r @ [f]\<rparr>))
          (throwE (Planner_Stop ''ENGINE_EXECUTION_FAILED'')))
      | Inr result \<Rightarrow> retE result)))"

definition execute_hypothesis ::
  "native_settings \<Rightarrow> world \<Rightarrow> scenario_projection \<Rightarrow> string \<Rightarrow> string \<Rightarrow> string \<Rightarrow> hypothesis \<Rightarrow> unit scan" where
  "execute_hypothesis st W pr capability operation idea h =
     bindE (make_job st W pr capability operation h) (\<lambda>j.
     thenE (authorize_hypothesis st W pr h)
     (thenE (eachE (\<lambda>_. budgeted W scan_request) (hy_requests h))
     (bindE (dispatch_job st W j) (\<lambda>(x, es).
      thenE (eachE bind_evidence es)
      (thenE (audit ''ENGINE_EXECUTION_COMPLETED'')
      (record_kernel j idea x))))))"

section \<open>Secrets in an answer\<close>

text \<open>\<open>json.dumps\<close> with its default separators, on the values that a generation holds.\<close>

primrec dumps_default :: "json \<Rightarrow> string" where
  "dumps_default JNull = ''null''"
| "dumps_default (JBool b) = (if b then ''true'' else ''false'')"
| "dumps_default (JInt i) = int_str i"
| "dumps_default (JFloat x) = x"
| "dumps_default (JStr p) = quoted p"
| "dumps_default (JArr vs) = ''['' @ join_with '', '' (map dumps_default vs) @ '']''"
| "dumps_default (JObj kvs) =
     ''{'' @ join_with '', '' (map (\<lambda>(k, v). quoted k @ '': '' @ v) (map (map_prod id dumps_default) kvs)) @ ''}''"

definition fact_name :: "blocking_fact \<Rightarrow> string" where
  "fact_name f = (case f of
       AUTHENTICATED_PRINCIPAL_COUNT \<Rightarrow> ''authenticated_principal_count'' | KNOWN_OBJECT_COUNT \<Rightarrow> ''known_object_count''
     | SUPPORTED_OPERATION_COUNT \<Rightarrow> ''supported_operation_count'' | SAFE_OPERATION_COUNT \<Rightarrow> ''safe_operation_count''
     | SCOPE_IS_AMBIGUOUS \<Rightarrow> ''scope_ambiguity'' | CONSTRUCTIBLE_TEST \<Rightarrow> ''constructible_test''
     | REMAINING_REQUESTS \<Rightarrow> ''remaining_requests'' | REMAINING_MODEL_CALLS \<Rightarrow> ''remaining_model_calls''
     | REMAINING_TOKEN_RESERVATIONS \<Rightarrow> ''remaining_token_reservations'' | REMAINING_TIME_MS \<Rightarrow> ''remaining_time_ms'')"

definition claim_json :: "blocking_fact \<times> claim_value \<Rightarrow> json" where
  "claim_json c = obj [(''fact'', str_value (fact_name (fst c))),
     (''value'', (case snd c of Claim_Bool b \<Rightarrow> JBool b | Claim_Int i \<Rightarrow> JInt i | Claim_Text t \<Rightarrow> str_value t))]"

definition candidate_json :: "candidate \<Rightarrow> json" where
  "candidate_json c = obj
     [(''capability'', str_value (cd_capability c)), (''operation_id'', str_value (cd_operation c)),
      (''owner_principal_ref'', str_value (cd_owner c)), (''alternate_principal_ref'', str_value (cd_alternate c)),
      (''object_ref'', str_value (cd_object c)), (''expected_authorization_invariant'', str_value (cd_invariant c)),
      (''projected_context_refs'', JArr (map str_value (cd_refs c)))]"

definition blocking_json :: "blocking_condition \<Rightarrow> json" where
  "blocking_json b = obj
     [(''reason'', str_value (blocking_reason_name (bc_reason b))), (''context_refs'', JArr (map str_value (bc_refs b))),
      (''claims'', JArr (map claim_json (bc_claims b))), (''operation_id'', opt_value (bc_operation b)),
      (''capability'', opt_value (bc_capability b)), (''missing_context_fields'', JArr (map str_value (bc_missing b)))]"

definition generation_json :: "generation \<Rightarrow> json" where
  "generation_json g = obj [(''candidates'', JArr (map candidate_json (gn_candidates g))),
     (''blocking_conditions'', JArr (map blocking_json (gn_blocking g)))]"

definition leaks_secret :: "native_settings \<Rightarrow> generation \<Rightarrow> bool" where
  "leaks_secret st g \<longleftrightarrow> list_ex (\<lambda>s. s \<noteq> [] \<and> occurs s (dumps_default (generation_json g)))
     (map snd credentials @ (case ns_ai_token st of None \<Rightarrow> [] | Some t \<Rightarrow> [t]))"

section \<open>Discovery\<close>

text \<open>The planner as the controller sees it: the reservations that it makes before its provider calls,
  then its answer, a value that its model accepted.\<close>

definition ask_planner :: "native_settings \<Rightarrow> world \<Rightarrow> planning_context \<Rightarrow> generation scan" where
  "ask_planner st W cx =
     (let answer = wd_planner W cx (ns_max_candidates st) in
      thenE (eachE (\<lambda>n. budgeted W (\<lambda>now. scan_model_call now n)) (pa_reservations answer))
      (bindE (await (pa_outcome answer)) (\<lambda>outcome.
       case outcome of
         Inl (Planner_Failure code) \<Rightarrow> throwE (Planner_Stop code)
       | Inl Planner_Error \<Rightarrow> throwE Other_Stop
       | Inr g \<Rightarrow> retE g)))"

definition generate_candidates :: "native_settings \<Rightarrow> world \<Rightarrow> planning_context \<Rightarrow> generation scan" where
  "generate_candidates st W cx =
     thenE (audit ''CANDIDATE_GENERATION_REQUEST'')
     (bindE (ask_planner st W cx) (\<lambda>g.
      thenE (rejectE (leaks_secret st g) (Planner_Stop ''SECRET_IN_PLANNER_OUTPUT''))
      (thenE (rejectE (ns_max_candidates st < length (gn_candidates g)) (Planner_Stop ''CANDIDATE_LIMIT_EXCEEDED''))
      (thenE (budgeted W check_time)
      (retE g)))))"

text \<open>An answer without candidates ends the scan.\<close>

definition end_without_candidates :: "stage_record \<Rightarrow> generation \<Rightarrow> unit scan" where
  "end_without_candidates g answer =
     (if gn_blocking answer = [] then end_stage g ''GENERATION_INCOMPLETE'' S_INCOMPLETE
      else (case first_valid_blocker (sg_blockers g) of
         None \<Rightarrow> end_stage g ''BLOCKER_VALIDATION_FAILED'' S_INCOMPLETE
       | Some b \<Rightarrow> block_scan g b))"

definition mark_uncompiled :: "string \<Rightarrow> queued_candidate list \<Rightarrow> queued_candidate list" where
  "mark_uncompiled i q = map (\<lambda>e. if qd_id e = i then e\<lparr>qd_admitted := False, qd_reason := ''COMPILATION_FAILED''\<rparr> else e) q"

definition start_candidate :: "string \<Rightarrow> unit scan" where
  "start_candidate i = change_scan (\<lambda>r. r\<lparr>sr_executed := sr_executed r @ [i],
     sr_selected := (case sr_selected r of None \<Rightarrow> Some i | Some j \<Rightarrow> Some j)\<rparr>)"

definition settled :: "scan_result \<Rightarrow> bool" where
  "settled r \<longleftrightarrow> sr_findings r \<noteq> [] \<or> passed r"

text \<open>The admitted candidates in order, until the verifier settles; the record collects what ran.\<close>

fun execute_queue ::
  "native_settings \<Rightarrow> world \<Rightarrow> scenario_projection \<Rightarrow> string list \<Rightarrow> stage_record \<Rightarrow> validated_candidate list \<Rightarrow> unit scan" where
  "execute_queue st W pr admitted g [] = keep_record g"
| "execute_queue st W pr admitted g (v # vs) =
     (if vd_id v \<notin> set admitted then execute_queue st W pr admitted g vs
      else bindE (the_scan (\<lambda>r. compile_probe v pr (length (sr_hypotheses r) + 1))) (\<lambda>compiled.
        case compiled of
          None \<Rightarrow>
            thenE (keep_record (g\<lparr>sg_queue := mark_uncompiled (vd_id v) (sg_queue g),
              sg_terminal := Some ''REQUEST_COMPILATION_FAILED''\<rparr>))
            (throwE (Planner_Stop ''REQUEST_COMPILATION_FAILED''))
        | Some h \<Rightarrow>
            let g = g\<lparr>sg_executed := sg_executed g @ [vd_id v]\<rparr>; c = vd_candidate v in
            thenE (start_candidate (vd_id v))
            (thenE (execute_hypothesis st W pr (cd_capability c) (cd_operation c) (cd_invariant c) h)
            (bindE (the_scan settled) (\<lambda>stop.
             if stop then keep_record g else execute_queue st W pr admitted g vs)))))"

definition admit_and_execute ::
  "native_settings \<Rightarrow> world \<Rightarrow> scenario_projection \<Rightarrow> planning_context \<Rightarrow> stage_record \<Rightarrow> bool scan" where
  "admit_and_execute st W pr cx g =
     (let queue = execution_queue (sg_validated g) (rm_requests (cx_remaining cx)) REQUESTS_PER_CANDIDATE;
          g = g\<lparr>sg_queue := queue\<rparr>;
          admitted = map qd_id (filter qd_admitted queue) in
      thenE (audit ''EXECUTION_QUEUE'')
      (if admitted = [] then thenE (block_scan g BUDGET_UNAVAILABLE) (retE True)
       else thenE (execute_queue st W pr admitted g (ordered_validated (sg_validated g))) (retE False)))"

text \<open>One discovery round; \<open>True\<close> when it ended the scan.\<close>

definition discover :: "native_settings \<Rightarrow> world \<Rightarrow> scenario_projection \<Rightarrow> planning_context \<Rightarrow> bool scan" where
  "discover st W pr cx =
     bindE (generate_candidates st W cx) (\<lambda>answer.
     let cs = gn_candidates answer;
         g = (blank_record False)\<lparr>sg_generated := cs, sg_blockers := validate_blockers cx (gn_blocking answer)\<rparr> in
     thenE (change_scan (\<lambda>r. r\<lparr>sr_generated_total := sr_generated_total r + length cs\<rparr>))
     (thenE (audit ''CANDIDATE_GENERATED'')
     (thenE (audit ''BLOCKER_VALIDATION'')
     (if cs = [] then thenE (end_without_candidates g answer) (retE True)
      else
        bindE (scan_context st W pr) (\<lambda>cx'.
        case validate_candidates cx' cs of
          None \<Rightarrow> throwE Other_Stop
        | Some (vs, rs) \<Rightarrow>
            let g = g\<lparr>sg_validated := vs, sg_rejections := rs\<rparr> in
            thenE (change_scan (\<lambda>r. r\<lparr>sr_validated_total := sr_validated_total r + length vs,
              sr_rejected_total := sr_rejected_total r + length rs\<rparr>))
            (thenE (audit ''CANDIDATE_VALIDATION'')
            (if vs = [] then thenE (end_stage g ''ALL_CANDIDATES_REJECTED'' S_REVIEW) (retE True)
             else admit_and_execute st W pr cx' g)))))))"

definition run_retest :: "native_settings \<Rightarrow> world \<Rightarrow> scenario_projection \<Rightarrow> bool scan" where
  "run_retest st W pr =
     bindE (the_scan (\<lambda>r. compile_retest (sr_objectives r) pr)) (\<lambda>compiled.
     case compiled of
       None \<Rightarrow> throwE Other_Stop
     | Some h \<Rightarrow>
         thenE (audit ''RETEST_PLAN'')
         (thenE (keep_record ((blank_record True)\<lparr>sg_terminal := Some ''RETEST_EXECUTED''\<rparr>))
         (thenE (execute_hypothesis st W pr ''bola_object_read_v1''
             (case object_read_operation pr of Some op \<Rightarrow> op_id op | None \<Rightarrow> ''getAccount'')
             ''Linked retest of the confirmed cross-owner access direction.'' h)
         (retE False))))"

section \<open>The loop\<close>

text \<open>The three ways the top of the loop ends a scan.\<close>

definition verifier_end :: "scan_result \<Rightarrow> (string \<times> scan_status) option" where
  "verifier_end r =
     (if sr_findings r \<noteq> [] then Some (''DETERMINISTIC_CONFIRMED'', S_FAIL)
      else if passed r then Some (''COVERAGE_COMPLETE'', S_PASS)
      else if sr_retest_of r \<noteq> None \<and> sr_hypotheses r \<noteq> [] then Some (''RETEST_COVERAGE_INCOMPLETE'', S_REVIEW)
      else None)"

definition scan_round :: "native_settings \<Rightarrow> world \<Rightarrow> scenario_projection \<Rightarrow> bool scan" where
  "scan_round st W pr =
     bindE (the_scan verifier_end) (\<lambda>over.
     case over of
       Some (reason, status) \<Rightarrow> thenE (finish_scan reason status) (retE True)
     | None \<Rightarrow>
         thenE (budgeted W scan_iteration)
         (bindE (scan_context st W pr) (\<lambda>cx.
          bindE (the_scan (\<lambda>r. sr_retest_of r \<noteq> None)) (\<lambda>retest.
          thenE (audit ''PREFLIGHT'')
          (case preflight cx of
             Some b \<Rightarrow> thenE (preflight_terminal retest b) (retE True)
           | None \<Rightarrow> if retest then run_retest st W pr else discover st W pr cx)))))"

fun scan_rounds :: "native_settings \<Rightarrow> world \<Rightarrow> scenario_projection \<Rightarrow> nat \<Rightarrow> unit scan" where
  "scan_rounds st W pr 0 = throwE Out_Of_Fuel"
| "scan_rounds st W pr (Suc n) =
     bindE (scan_round st W pr) (\<lambda>over. if over then retE () else scan_rounds st W pr n)"

text \<open>The import of the target's OpenAPI document; the exceptions of reading it are not told apart.\<close>

definition import_surface :: "native_settings \<Rightarrow> world \<Rightarrow> scenario_projection scan" where
  "import_surface st W =
     bindE (approved (approve_import (wd_ip W) (ns_safety st))) (\<lambda>url.
     thenE (budgeted W scan_request)
     (thenE (audit ''TOOL_REQUEST'')
     (thenE (audit ''SAFETY_APPROVED'')
     (bindE (lift_io (send_call W \<lparr>nc_method = ''GET'', nc_url = url, nc_bearer = None\<rparr>)) (\<lambda>reply.
      bindE (the_scan (\<lambda>r. (sr_scenario r, sr_variant r))) (\<lambda>(scenario, v).
      case reply of
        Reply_Broken _ _ \<Rightarrow> throwE Other_Stop
      | Reply_Body status raw \<Rightarrow>
          if status < 200 \<or> 300 \<le> status \<or> ns_max_response_bytes st < length raw then throwE Other_Stop
          else (case body_json (wd_foreign W) raw of
              Some (JObj spec) \<Rightarrow>
                (case project_scenario spec scenario of
                   Some pr \<Rightarrow> if sp_variant pr = v then retE pr else throwE Other_Stop
                 | None \<Rightarrow> throwE Other_Stop)
            | _ \<Rightarrow> throwE Other_Stop)))))))"

definition scan_loop :: "native_settings \<Rightarrow> world \<Rightarrow> unit scan" where
  "scan_loop st W =
     bindE (import_surface st W) (\<lambda>pr.
     thenE (audit ''OPENAPI_OBSERVATION'')
     (thenE verify_scan
     (scan_rounds st W pr (st_max_iterations (ns_scan st) + 1))))"

section \<open>Running a scan\<close>

text \<open>The \<open>except\<close> clauses of \<open>run\<close>: the status, the stop reason and the event.\<close>

definition stop_outcome :: "native_stop \<Rightarrow> scan_status \<times> string \<times> string" where
  "stop_outcome e = (case e of
       Safety_Stop _ \<Rightarrow> (S_REVIEW, ''SAFETY_REJECTED'', ''SAFETY_REJECTED'')
     | Budget_Stop m \<Rightarrow> (S_INCOMPLETE, m, ''BUDGET_EXHAUSTED'')
     | Time_Stop \<Rightarrow> (S_INCOMPLETE, ''TIME_BUDGET'', ''BUDGET_EXHAUSTED'')
     | Cancel_Stop \<Rightarrow> (S_INCOMPLETE, ''CANCELLED'', ''SCAN_CANCELLED'')
     | Planner_Stop _ \<Rightarrow> (S_INCOMPLETE, ''PLANNER_REJECTED'', ''PLANNER_REJECTED'')
     | _ \<Rightarrow> (S_INCOMPLETE, ''SCAN_ERROR'', ''SCAN_FAILED''))"

definition handle_stop :: "native_stop \<Rightarrow> unit scan" where
  "handle_stop e = (case stop_outcome e of (status, reason, event) \<Rightarrow>
     thenE (change_scan (\<lambda>r. r\<lparr>sr_status := status, sr_stop_reason := Some reason,
       sr_safety_events := sr_safety_events r @ (case e of Safety_Stop m \<Rightarrow> [m] | _ \<Rightarrow> [])\<rparr>)) (audit event))"

definition complete_scan :: "unit scan" where
  "complete_scan =
     thenE verify_scan
     (thenE (change_scan (\<lambda>r. r\<lparr>sr_status := (if sr_findings r \<noteq> [] then S_FAIL else sr_status r), sr_completed := True\<rparr>))
     (audit ''SCAN_COMPLETED''))"

text \<open>\<open>run\<close> on the stored scan, for a scan of the native engine; a cancellation is raised again after
  the scan was completed.\<close>

definition initial_state :: "native_settings \<Rightarrow> world \<Rightarrow> scan_result \<Rightarrow> native_state" where
  "initial_state st W r =
     \<lparr>io_calls = [], io_readings = 1, io_ids = 0, na_scan = r\<lparr>sr_status := S_RUNNING\<rparr>,
      na_budget = scan_budget_of st r (wd_clock W 0), na_audit = [''SCAN_STARTED'']\<rparr>"

definition run_scan :: "native_settings \<Rightarrow> world \<Rightarrow> scan_result \<Rightarrow> native_state option" where
  "run_scan st W r =
     (if sr_status r \<noteq> S_QUEUED then None
      else Some (snd (thenE (catchE (scan_loop st W) handle_stop) complete_scan (initial_state st W r))))"

text \<open>\<open>mark_shutdown_timeout\<close>.\<close>

definition mark_shutdown_timeout :: "scan_result \<Rightarrow> scan_result" where
  "mark_shutdown_timeout r =
     (let found = scan_findings r in
      r\<lparr>sr_findings := found, sr_status := (if found \<noteq> [] then S_FAIL else S_INCOMPLETE),
        sr_stop_reason := Some ''SHUTDOWN_DRAIN_TIMEOUT'', sr_completed := True\<rparr>)"

end
