(* ===== verification/Native_Scan_Props.thy ===== *)
theory Native_Scan_Props
  imports Native_Scan Engine_Props "HOL-Library.Code_Target_Nat"
begin

text \<open>
  What a scan of the native engine guarantees against any target, planner and clock: its verdict is the
  verifier's, what it sends is confined to the approved reads within the request budget, its loop ends,
  and a scenario that poses no test reaches neither the planner nor an object.
\<close>

section \<open>Steps that keep a part of the state\<close>

named_theorems keep "what a step keeps, one rule per construct and operation"

definition keeps :: "('s \<Rightarrow> 'v) \<Rightarrow> ('s, 'e, 'a) prog \<Rightarrow> bool" where
  "keeps f m \<longleftrightarrow> (\<forall>s. f (snd (m s)) = f s)"

lemma keepsD: "keeps f m \<Longrightarrow> m s = (r, t) \<Longrightarrow> f t = f s"
  by (metis keeps_def snd_conv)

lemma keeps_bindE [keep]: "keeps f m \<Longrightarrow> (\<And>a. keeps f (g a)) \<Longrightarrow> keeps f (bindE m g)"
  unfolding keeps_def bindE_def by (auto split: prod.splits sum.splits) (metis snd_conv)+

lemma keeps_pure [keep]:
  "keeps f (retE a)" "keeps f (throwE e)" "keeps f (getE h)" "keeps f (rejectE b e)" "keeps f (await w)"
  "keeps f (approved d)"
  by (simp_all add: keeps_def rejectE_run await_def approved_def split: awaited.split sum.split)

lemma keeps_modifyE: "(\<And>s. f (h s) = f s) \<Longrightarrow> keeps f (modifyE h)"
  by (simp add: keeps_def)

lemma keeps_if [keep]: "keeps f m \<Longrightarrow> keeps f n \<Longrightarrow> keeps f (if b then m else n)"
  by simp

lemma keeps_option [keep]: "keeps f m \<Longrightarrow> (\<And>a. keeps f (g a)) \<Longrightarrow> keeps f (case x of None \<Rightarrow> m | Some a \<Rightarrow> g a)"
  by (cases x) simp_all

lemma keeps_prod [keep]: "(\<And>a b. keeps f (g a b)) \<Longrightarrow> keeps f (case x of (a, b) \<Rightarrow> g a b)"
  by (cases x) simp

lemma keeps_sum [keep]: "(\<And>a. keeps f (g a)) \<Longrightarrow> (\<And>b. keeps f (h b)) \<Longrightarrow> keeps f (case x of Inl a \<Rightarrow> g a | Inr b \<Rightarrow> h b)"
  by (cases x) simp_all

lemma keeps_let [keep]: "keeps f (g x) \<Longrightarrow> keeps f (let y = x in g y)"
  by simp

lemma keeps_eachE [keep]: "(\<And>x. keeps f (g x)) \<Longrightarrow> keeps f (eachE g xs)"
  by (induction xs) (simp_all add: keep)

lemma keeps_collectE [keep]: "(\<And>x. keeps f (g x)) \<Longrightarrow> keeps f (collectE g xs)"
  by (induction xs) (simp_all add: keep)

text \<open>The three parts: what the verifier reads and writes, what was sent with the budget, and the
  iterations used.\<close>

definition core :: "native_state \<Rightarrow> (string \<times> scan_status \<times> variant \<times> scenario \<times> string option \<times> (string \<times> string) list) \<times>
    (hypothesis list \<times> request_evidence list \<times> lab_finding list \<times> verification option)" where
  "core s = (let r = na_scan s in
     ((sr_id r, sr_status r, sr_variant r, sr_scenario r, sr_retest_of r, sr_objectives r),
      (sr_hypotheses r, sr_evidence r, sr_findings r, sr_verification r)))"

definition spent :: "native_state \<Rightarrow> native_call list \<times> nat \<times> nat \<times> variant \<times> string" where
  "spent s = (io_calls s, sb_requests (na_budget s), sb_max_requests (na_budget s), sr_variant (na_scan s), sr_base_url (na_scan s))"

definition rounds :: "native_state \<Rightarrow> nat \<times> scan_settings" where
  "rounds s = (sb_iterations (na_budget s), sb_settings (na_budget s))"

lemmas views = core_def spent_def rounds_def

lemma keeps_getters [keep]: "keeps f (the_scan g)"
  by (simp add: the_scan_def keep)

lemma keeps_audit [keep]: "keeps core (audit e)" "keeps spent (audit e)" "keeps rounds (audit e)"
  by (simp_all add: audit_def keeps_modifyE views)

lemma keeps_rounds_change [keep]: "keeps rounds (change_scan g)"
  by (simp add: change_scan_def keeps_modifyE views)

lemma keeps_spent_change:
  "(\<And>r. sr_variant (g r) = sr_variant r \<and> sr_base_url (g r) = sr_base_url r) \<Longrightarrow> keeps spent (change_scan g)"
  by (simp add: change_scan_def keeps_modifyE views)

lemma keeps_core_change:
  "(\<And>r. sr_id (g r) = sr_id r \<and> sr_status (g r) = sr_status r \<and> sr_variant (g r) = sr_variant r \<and>
      sr_scenario (g r) = sr_scenario r \<and> sr_retest_of (g r) = sr_retest_of r \<and> sr_objectives (g r) = sr_objectives r \<and>
      sr_hypotheses (g r) = sr_hypotheses r \<and> sr_evidence (g r) = sr_evidence r \<and> sr_findings (g r) = sr_findings r \<and>
      sr_verification (g r) = sr_verification r) \<Longrightarrow> keeps core (change_scan g)"
  unfolding change_scan_def by (rule keeps_modifyE) (simp add: core_def Let_def)

lemma keeps_core_lift [keep]: "keeps core (lift_io m)" "keeps rounds (lift_io m)"
  by (simp_all add: keeps_def lift_io_def views split: prod.split)

lemma lift_io_run:
  "lift_io m s = (r, t) \<longleftrightarrow> (\<exists>u. m (io_of s) = (r, u) \<and>
     t = s\<lparr>io_calls := io_calls u, io_readings := io_readings u, io_ids := io_ids u\<rparr>)"
  by (auto simp: lift_io_def split: prod.splits)

lemma keeps_spent_lift: "keeps io_calls m \<Longrightarrow> keeps spent (lift_io m)"
  by (simp add: keeps_def lift_io_def views io_of_def split: prod.split) (metis native_io.select_convs(1) snd_conv)

lemma io_steps [keep]: "keeps io_calls (read_clock W)" "keeps io_calls (fresh_id W p)"
  by (auto simp: read_clock_def fresh_id_def intro!: keep keeps_modifyE)

lemma keeps_core_budgeted [keep]: "keeps core (budgeted W m)"
  by (simp add: keeps_def budgeted_def bindE_def views lift_io_def split: prod.split sum.split)

lemma keeps_core_context [keep]: "keeps core (scan_context st W pr)" "keeps spent (scan_context st W pr)"
  "keeps rounds (scan_context st W pr)"
  by (auto simp: scan_context_def intro!: keep keeps_spent_lift)

lemma keeps_finish [keep]: "keeps spent (finish_scan reason status)" "keeps rounds (finish_scan reason status)"
  by (auto simp: finish_scan_def intro!: keep keeps_spent_change)

lemma keeps_keep_record [keep]: "keeps core (keep_record g)" "keeps spent (keep_record g)" "keeps rounds (keep_record g)"
  by (auto simp: keep_record_def intro!: keep keeps_spent_change keeps_core_change)

lemma keeps_verify [keep]: "keeps spent verify_scan" "keeps rounds verify_scan"
  by (auto simp: verify_scan_def intro!: keep keeps_spent_change)

lemma keeps_kernel [keep]: "keeps core (record_kernel j h x)" "keeps spent (record_kernel j h x)" "keeps rounds (record_kernel j h x)"
  unfolding record_kernel_def record_report_def
  by (auto intro!: keep keeps_spent_change keeps_core_change split: sum.split lifecycle_error.split)

section \<open>What a step returns\<close>

named_theorems ret "what a step returns, one rule per construct"

definition returns :: "('s \<Rightarrow> bool) \<Rightarrow> ('s, 'e, 'a) prog \<Rightarrow> ('a \<Rightarrow> 's \<Rightarrow> bool) \<Rightarrow> bool" where
  "returns P m Q \<longleftrightarrow> (\<forall>s a t. P s \<longrightarrow> m s = (Inr a, t) \<longrightarrow> Q a t)"

lemma returnsD: "returns P m Q \<Longrightarrow> P s \<Longrightarrow> m s = (Inr a, t) \<Longrightarrow> Q a t"
  by (simp add: returns_def)

lemma returns_bindE:
  assumes "returns P m R" and "\<And>a. returns (R a) (f a) Q"
  shows "returns P (bindE m f) Q"
  unfolding returns_def
proof (intro allI impI)
  fix s b t assume "P s" "bindE m f s = (Inr b, t)"
  then show "Q b t" using assms by (elim bindE_InrE) (blast dest: returnsD)
qed

lemma returns_throw [ret]: "returns P (throwE e) Q"
  by (simp add: returns_def)

lemma returns_ret: "(\<And>s. P s \<Longrightarrow> Q a s) \<Longrightarrow> returns P (retE a) Q"
  by (simp add: returns_def)

lemma returns_weaken: "returns P m Q \<Longrightarrow> (\<And>s. P' s \<Longrightarrow> P s) \<Longrightarrow> (\<And>a t. Q a t \<Longrightarrow> Q' a t) \<Longrightarrow> returns P' m Q'"
  unfolding returns_def by blast

lemma returns_get: "(\<And>s. P s \<Longrightarrow> returns (\<lambda>t. t = s) (f (h s)) Q) \<Longrightarrow> returns P (bindE (getE h) f) Q"
  unfolding returns_def by (simp add: bindE_def getE_def)

lemma returns_modify: "(\<And>s. P s \<Longrightarrow> Q () (g s)) \<Longrightarrow> returns P (modifyE g) Q"
  by (simp add: returns_def)

text \<open>What depends on the core only, a step that keeps the core cannot change.\<close>

definition on_core :: "(native_state \<Rightarrow> bool) \<Rightarrow> bool" where
  "on_core P \<longleftrightarrow> (\<forall>s t. core s = core t \<longrightarrow> P s = P t)"

lemma returns_kept: "on_core P \<Longrightarrow> keeps core m \<Longrightarrow> returns P m (\<lambda>_. P)"
  unfolding returns_def on_core_def by (metis keepsD)

lemma returns_skip:
  "on_core P \<Longrightarrow> keeps core m \<Longrightarrow> (\<And>a. returns P (f a) Q) \<Longrightarrow> returns P (bindE m f) Q"
  by (rule returns_bindE [OF returns_kept])

lemma returns_option [ret]:
  "(x = None \<Longrightarrow> returns P m Q) \<Longrightarrow> (\<And>a. x = Some a \<Longrightarrow> returns P (f a) Q) \<Longrightarrow>
   returns P (case x of None \<Rightarrow> m | Some a \<Rightarrow> f a) Q"
  by (cases x) simp_all

lemma returns_if [ret]:
  "(b \<Longrightarrow> returns P m Q) \<Longrightarrow> (\<not> b \<Longrightarrow> returns P n Q) \<Longrightarrow> returns P (if b then m else n) Q"
  by simp

lemma returns_prod [ret]: "(\<And>a b. x = (a, b) \<Longrightarrow> returns P (f a b) Q) \<Longrightarrow> returns P (case x of (a, b) \<Rightarrow> f a b) Q"
  by (cases x) simp

section \<open>A laboratory\<close>

text \<open>A target like the lab of the repository: the vulnerable route serves every object to everybody, the
  patched one only to its owner; with the reference planner.\<close>

definition lab_settings :: native_settings where
  "lab_settings = \<lparr>ns_safety = \<lparr>ss_allowed_hosts = [''lab''], ss_lab_base_url = ''http://lab:8000'',
     ss_lab_openapi_url = ''http://lab:8000/openapi.json'', ss_max_requests = 12\<rparr>,
     ns_scan = \<lparr>st_max_requests_per_scan = 12, st_scan_timeout_ns = 120000000000, st_max_iterations = 4,
       st_max_model_calls = 4, st_max_tokens_per_scan = 80000\<rparr>,
     ns_ai_token = None, ns_max_response_bytes = 4096, ns_max_candidates = 3\<rparr>"

definition json_text :: "json \<Rightarrow> string" where
  "json_text v = (case dumps (\<lambda>_. None) v of None \<Rightarrow> [] | Some t \<Rightarrow> t)"

definition lab_document :: string where
  "lab_document = json_text (obj [(''paths'', obj (map (\<lambda>v. (account_template v, obj [(''get'', obj [])])) [Vulnerable, Patched]))])"

definition lab_reply :: "native_call \<Rightarrow> native_reply" where
  "lab_reply c = (let i = object_of (nc_url c) in
     if i = ''openapi.json'' then Reply_Body 200 lab_document
     else if occurs ''/patched/'' (nc_url c) \<and>
       nc_bearer c \<noteq> (if i = ''A-100'' then Some ''lab-token-user-a'' else Some ''lab-token-user-b'')
     then Reply_Body 403 (json_text (obj [(''detail'', str_value ''Forbidden'')]))
     else Reply_Body 200 (json_text (obj [(''account_id'', str_value i), (''owner_id'', opt_value (map_of OBJECTS i))])))"

definition lab_world :: world where
  "lab_world = \<lparr>wd_target = (\<lambda>cs. Arrived (lab_reply (hd cs))), wd_clock = (\<lambda>n. int n),
     wd_planner = (\<lambda>cx n. \<lparr>pa_reservations = [], pa_outcome = Arrived (case demo_enumerate cx n of
       None \<Rightarrow> Inl Planner_Error | Some g \<Rightarrow> Inr g)\<rparr>),
     wd_fresh = (\<lambda>n. replicate 12 (CHR ''a'')), wd_digest = (\<lambda>_. replicate 64 (CHR ''0'')),
     wd_foreign = (\<lambda>_. None), wd_ip = (\<lambda>_. False)\<rparr>"

definition lab_create :: "scenario \<Rightarrow> scan_create" where
  "lab_create sc = \<lparr>sc_variant = scenario_variant sc, sc_scenario = sc, sc_retest_of = None, sc_request_budget = None,
     sc_time_budget_ms = None\<rparr>"

definition lab_scan :: "scenario \<Rightarrow> scan_result" where
  "lab_scan sc = queued_scan lab_settings ''scan-000000000001'' (lab_create sc) []"

definition lab_final :: "scenario \<Rightarrow> native_state" where
  "lab_final sc = (case run_scan lab_settings lab_world (lab_scan sc) of Some t \<Rightarrow> t
     | None \<Rightarrow> initial_state lab_settings lab_world (lab_scan sc))"

lemma lab_created: "create_scan lab_settings (\<lambda>_. None) ''scan-000000000001'' (lab_create sc) = Some (lab_scan sc)"
  by (simp add: create_scan_def lab_create_def lab_scan_def)

lemma lab_run: "run_scan lab_settings lab_world (lab_scan sc) = Some (lab_final sc)"
  by (simp add: lab_final_def run_scan_def lab_scan_def queued_scan_def)

section \<open>The verdict\<close>

text \<open>At the top of the loop the scan runs and its findings and verification are those of its evidence;
  a stage that ends the scan leaves an honest status.\<close>

definition running_fresh :: "native_state \<Rightarrow> bool" where
  "running_fresh s \<longleftrightarrow> (let r = na_scan s in sr_status r = S_RUNNING \<and> sr_findings r = scan_findings r \<and>
     sr_verification r = Some (scan_verdict r))"

definition running :: "native_state \<Rightarrow> bool" where
  "running s \<longleftrightarrow> sr_status (na_scan s) = S_RUNNING"

definition concluded :: "native_state \<Rightarrow> bool" where
  "concluded s \<longleftrightarrow> (let r = na_scan s in sr_status r \<noteq> S_QUEUED \<and> sr_status r \<noteq> S_RUNNING \<and>
     (sr_status r = S_FAIL \<longrightarrow> scan_findings r \<noteq> []) \<and> (sr_status r = S_PASS \<longrightarrow> vf_status (scan_verdict r) = PASS))"

lemma on_core_states [simp]: "on_core running_fresh" "on_core running" "on_core concluded"
  by (auto simp: on_core_def running_fresh_def running_def concluded_def core_def scan_findings_def scan_verdict_def Let_def)

lemma running_fresh_running: "running_fresh s \<Longrightarrow> running s"
  by (simp add: running_fresh_def running_def Let_def)

lemma verify_refreshes: "returns running verify_scan (\<lambda>_. running_fresh)"
  unfolding verify_scan_def
  by (rule returns_bindE [where R = "\<lambda>_. running_fresh"])
     (auto simp: change_scan_def running_def running_fresh_def scan_findings_def scan_verdict_def Let_def
       intro!: returns_modify returns_kept keep)

lemma bind_refreshes: "returns running (bind_evidence e) (\<lambda>_. running_fresh)"
proof -
  have "returns running (change_scan (\<lambda>r. r\<lparr>sr_evidence := sr_evidence r @ [e]\<rparr>)) (\<lambda>_. running)"
    by (auto simp: change_scan_def running_def intro!: returns_modify)
  then show ?thesis unfolding bind_evidence_def
    by (intro returns_skip keep on_core_states verify_refreshes returns_bindE [of running _ "\<lambda>_. running"])
qed

lemma bind_all_refreshes: "es \<noteq> [] \<Longrightarrow> returns running (eachE bind_evidence es) (\<lambda>_. running_fresh)"
proof (induction es)
  case (Cons e es)
  have "returns running_fresh (eachE bind_evidence es) (\<lambda>_. running_fresh)"
  proof (cases es)
    case (Cons a b)
    then show ?thesis using Cons.IH by (auto intro: returns_weaken running_fresh_running)
  qed (simp add: returns_ret)
  then show ?case by (auto intro: returns_bindE [OF bind_refreshes])
qed simp

text \<open>A job has a request, and its completed execution answers every one.\<close>

lemma collectE_length: "collectE f xs s = (Inr ys, t) \<Longrightarrow> length ys = length xs"
  by (induction xs arbitrary: s ys t) (auto elim!: bindE_InrE simp: retE_def)

lemma native_execute_length:
  "native_execute st W v j s = (Inr (Inr (x, es)), t) \<Longrightarrow> length es = length (ej_requests j)"
  unfolding native_execute_def
  by (auto elim!: bindE_InrE dest!: collectE_length split: option.splits if_splits)

lemma built_job:
  assumes "build_engine_job i a = Inr j"
  shows "engine_job_ok j \<and> ej_requests j = ja_requests a \<and> ej_target j = ja_target a"
  using assms by (auto elim!: build_engine_job_Inr simp: decide_job_Inr job_for_def)

lemma make_job_run:
  assumes "make_job st W pr capability operation h s = (Inr j, t)"
  shows "ej_requests j = map job_request_of (hy_requests h) \<and> ej_requests j \<noteq> [] \<and>
    tr_origin (ej_target j) = sr_base_url (na_scan s)"
proof -
  let ?a = "native_arguments st (na_scan s) (sb_requests (na_budget s)) pr capability operation h"
  from assms obtain i where "build_engine_job i ?a = Inr j"
    unfolding make_job_def
    by (auto elim!: bindE_InrE dest!: rejectE_InrD split: sum.splits policy_error.splits)
  from built_job [OF this] have "engine_job_ok j" "ej_requests j = ja_requests ?a" "ej_target j = ja_target ?a" by auto
  then show ?thesis by (auto simp: native_arguments_def engine_job_ok_def)
qed

lemma keeps_hypothesis_steps [keep]:
  "keeps core (make_job st W pr capability operation h)"
  "keeps core (dispatch_job st W j)"
  unfolding make_job_def dispatch_job_def
  by (auto intro!: keep keeps_core_change split: sum.split policy_error.split)

lemma dispatch_length: "returns P (dispatch_job st W j) (\<lambda>(x, es) t. length es = length (ej_requests j))"
  unfolding returns_def dispatch_job_def
  by (auto elim!: bindE_InrE simp: lift_io_run dest: native_execute_length split: sum.splits)

lemma authorize_running: "returns running (authorize_hypothesis st W pr h) (\<lambda>_. running)"
proof -
  have c: "returns running (change_scan f) (\<lambda>_. running)" if "\<And>r. sr_status (f r) = sr_status r" for f
    using that by (auto simp: change_scan_def running_def intro!: returns_modify)
  show ?thesis unfolding authorize_hypothesis_def
    by (intro returns_skip keep on_core_states returns_bindE [OF c] c) simp_all
qed

text \<open>A hypothesis that ran leaves a fresh verdict.\<close>

lemma execute_hypothesis_fresh:
  "returns running_fresh (execute_hypothesis st W pr capability operation idea h) (\<lambda>_. running_fresh)"
proof -
  have tail: "returns (\<lambda>t. ej_requests j \<noteq> [] \<and> running t)
      (thenE (authorize_hypothesis st W pr h)
        (thenE (eachE (\<lambda>_. budgeted W scan_request) (hy_requests h))
          (bindE (dispatch_job st W j) (\<lambda>(x, es).
            thenE (eachE bind_evidence es)
              (thenE (audit ''ENGINE_EXECUTION_COMPLETED'') (record_kernel j idea x)))))) (\<lambda>_. running_fresh)" for j
  proof (cases "ej_requests j = []")
    case False
    have rest: "returns (\<lambda>t. length (snd p) = length (ej_requests j) \<and> running t)
        (case p of (x, es) \<Rightarrow> thenE (eachE bind_evidence es)
              (thenE (audit ''ENGINE_EXECUTION_COMPLETED'') (record_kernel j idea x))) (\<lambda>_. running_fresh)" for p
    proof (cases "length (snd p) = length (ej_requests j)")
      case True
      obtain x es where p: "p = (x, es)" by (cases p)
      with True False have "es \<noteq> []" by auto
      then have "returns running (thenE (eachE bind_evidence es)
              (thenE (audit ''ENGINE_EXECUTION_COMPLETED'') (record_kernel j idea x))) (\<lambda>_. running_fresh)"
        by (rule returns_bindE [OF bind_all_refreshes]) (intro returns_skip returns_kept keep on_core_states)
      then show ?thesis by (auto simp: p intro: returns_weaken)
    qed (simp add: returns_def)
    have "returns running (dispatch_job st W j) (\<lambda>p t. length (snd p) = length (ej_requests j) \<and> running t)"
      using dispatch_length [of running st W j] returns_kept [OF on_core_states(2) keeps_hypothesis_steps(2), of st W j]
      unfolding returns_def by fastforce
    then have "returns running (thenE (authorize_hypothesis st W pr h)
        (thenE (eachE (\<lambda>_. budgeted W scan_request) (hy_requests h))
          (bindE (dispatch_job st W j) (\<lambda>(x, es).
            thenE (eachE bind_evidence es)
              (thenE (audit ''ENGINE_EXECUTION_COMPLETED'') (record_kernel j idea x)))))) (\<lambda>_. running_fresh)"
      by (intro returns_bindE [OF authorize_running] returns_skip [OF on_core_states(2)] keep
          returns_bindE [OF _ rest])
    then show ?thesis by (auto intro: returns_weaken)
  qed (simp add: returns_def)
  have "returns running_fresh (make_job st W pr capability operation h) (\<lambda>j t. ej_requests j \<noteq> [] \<and> running t)"
    unfolding returns_def using make_job_run keepsD [OF keeps_hypothesis_steps(1)] on_core_states(1) running_fresh_running
    unfolding on_core_def by metis
  then show ?thesis unfolding execute_hypothesis_def using tail by (rule returns_bindE)
qed

lemma keeps_discovery_steps [keep]:
  "keeps core (generate_candidates st W cx)" "keeps core (start_candidate i)"
  unfolding generate_candidates_def ask_planner_def start_candidate_def
  by (auto intro!: keep keeps_core_change split: sum.split planner_fault.split)

lemma execute_queue_fresh: "returns running_fresh (execute_queue st W pr admitted g vs) (\<lambda>_. running_fresh)"
proof (induction st W pr admitted g vs rule: execute_queue.induct)
  case (1 st W pr admitted g)
  show ?case by (auto intro: returns_kept keep)
next
  case (2 st W pr admitted g v vs)
  show ?case
  proof (cases "vd_id v \<notin> set admitted")
    case False
    let ?g = "g\<lparr>sg_executed := sg_executed g @ [vd_id v]\<rparr>" and ?c = "vd_candidate v"
    have "returns running_fresh (execute_queue st W pr admitted ?g vs) (\<lambda>_. running_fresh)" if "\<not> stop" for stop
      by (rule 2(2) [OF False refl refl that])
    then have "returns running_fresh (bindE (the_scan settled) (\<lambda>stop.
        if stop then keep_record ?g else execute_queue st W pr admitted ?g vs)) (\<lambda>_. running_fresh)"
      by - (rule returns_skip [OF on_core_states(1) keeps_getters], rule returns_if,
        rule returns_kept [OF on_core_states(1) keeps_keep_record(1)])
    then have "returns running_fresh (thenE (execute_hypothesis st W pr (cd_capability ?c) (cd_operation ?c) (cd_invariant ?c) h)
        (bindE (the_scan settled) (\<lambda>stop. if stop then keep_record ?g else execute_queue st W pr admitted ?g vs)))
        (\<lambda>_. running_fresh)" for h
      by (rule returns_bindE [OF execute_hypothesis_fresh])
    note go = returns_skip [OF on_core_states(1) keeps_discovery_steps(2) this]
    show ?thesis
      unfolding execute_queue.simps(2) Let_def if_not_P [OF False]
      by (intro returns_skip [OF on_core_states(1) keeps_getters] returns_option go
          returns_skip [OF on_core_states(1) keeps_keep_record(1) returns_throw])
  qed (simp add: 2(1))
qed

text \<open>What a stage leaves: an ended scan, or one whose verdict is fresh.\<close>

definition staged :: "bool \<Rightarrow> native_state \<Rightarrow> bool" where
  "staged over s \<longleftrightarrow> (if over then concluded s else running_fresh s)"

lemma finish_concludes:
  assumes "status \<in> {S_REVIEW, S_INCOMPLETE}"
  shows "returns P (finish_scan reason status) (\<lambda>_. concluded)"
proof -
  have "returns P (change_scan (\<lambda>r. r\<lparr>sr_stop_reason := Some reason, sr_status := status\<rparr>)) (\<lambda>_. concluded)"
    using assms by (auto simp: change_scan_def concluded_def Let_def intro!: returns_modify)
  then show ?thesis unfolding finish_scan_def
    by (rule returns_bindE) (intro returns_kept keep on_core_states)
qed

lemma returns_end: "returns P m (\<lambda>_. concluded) \<Longrightarrow> returns P (thenE m (retE True)) staged"
  by (rule returns_bindE) (auto intro!: returns_ret simp: staged_def)

lemma returns_go_on: "returns P m (\<lambda>_. running_fresh) \<Longrightarrow> returns P (thenE m (retE False)) staged"
  by (rule returns_bindE) (auto intro!: returns_ret simp: staged_def)

lemma returns_last: "(\<And>a. returns (\<lambda>_. True) (f a) Q) \<Longrightarrow> returns P (bindE m f) Q"
  by (rule returns_bindE [of P m "\<lambda>_ _. True"]) (simp_all add: returns_def)

lemma ends_conclude:
  "status \<in> {S_REVIEW, S_INCOMPLETE} \<Longrightarrow> returns P (end_stage g reason status) (\<lambda>_. concluded)"
  "returns P (block_scan g b) (\<lambda>_. concluded)"
  "returns P (end_without_candidates g answer) (\<lambda>_. concluded)"
proof -
  show e: "returns P (end_stage g reason status) (\<lambda>_. concluded)" if "status \<in> {S_REVIEW, S_INCOMPLETE}" for P g reason status
    unfolding end_stage_def by (intro returns_last finish_concludes that)
  show b: "returns P (block_scan g b) (\<lambda>_. concluded)" for P g b
    unfolding block_scan_def by (intro returns_last e) (simp add: blocked_status_def)
  show "returns P (end_without_candidates g answer) (\<lambda>_. concluded)"
    unfolding end_without_candidates_def by (intro returns_if returns_option e b) simp_all
qed

lemma discover_staged: "returns running_fresh (discover st W pr cx) staged"
  unfolding discover_def admit_and_execute_def Let_def
  by (intro returns_skip [OF on_core_states(1)] keep returns_if returns_option returns_throw returns_prod
      returns_end returns_go_on ends_conclude execute_queue_fresh keeps_core_change) simp_all

lemma run_retest_staged: "returns running_fresh (run_retest st W pr) staged"
  unfolding run_retest_def
  by (intro returns_skip [OF on_core_states(1)] keep returns_option returns_throw returns_go_on
      execute_hypothesis_fresh)

lemma verifier_end_concludes:
  assumes "running_fresh s" and "verifier_end (na_scan s) = Some (reason, status)"
  shows "returns (\<lambda>t. t = s) (finish_scan reason status) (\<lambda>_. concluded)"
proof -
  have "returns (\<lambda>t. t = s) (change_scan (\<lambda>r. r\<lparr>sr_stop_reason := Some reason, sr_status := status\<rparr>)) (\<lambda>_. concluded)"
    using assms
    by (auto simp: change_scan_def concluded_def running_fresh_def verifier_end_def passed_def scan_findings_def
        scan_verdict_def Let_def split: if_splits intro!: returns_modify)
  then show ?thesis unfolding finish_scan_def
    by (rule returns_bindE) (intro returns_kept keep on_core_states)
qed

lemma scan_round_staged: "returns running_fresh (scan_round st W pr) staged"
proof -
  have "returns running_fresh
      (thenE (budgeted W scan_iteration)
         (bindE (scan_context st W pr) (\<lambda>cx.
          bindE (the_scan (\<lambda>r. sr_retest_of r \<noteq> None)) (\<lambda>retest.
          thenE (audit ''PREFLIGHT'')
          (case preflight cx of
             Some b \<Rightarrow> thenE (preflight_terminal retest b) (retE True)
           | None \<Rightarrow> if retest then run_retest st W pr else discover st W pr cx))))) staged"
    unfolding preflight_terminal_def
    by (intro returns_skip [OF on_core_states(1)] keep returns_option returns_if returns_end ends_conclude
        run_retest_staged discover_staged)
  then show ?thesis
    unfolding scan_round_def the_scan_def
    by (intro returns_get)
       (auto split: option.split prod.split intro!: returns_end verifier_end_concludes elim: returns_weaken)
qed

lemma scan_rounds_conclude: "returns running_fresh (scan_rounds st W pr n) (\<lambda>_. concluded)"
proof (induction n)
  case 0
  show ?case unfolding scan_rounds.simps by (rule returns_throw)
next
  case (Suc n)
  have "returns (staged over) (if over then retE () else scan_rounds st W pr n) (\<lambda>_. concluded)" for over
    using Suc by (cases over) (auto simp: staged_def intro: returns_ret elim: returns_weaken)
  then show ?case by (auto intro: returns_bindE [OF scan_round_staged])
qed

lemma keeps_import [keep]: "keeps core (import_surface st W)"
  unfolding import_surface_def
  by (intro keep keeps_prod) (auto intro!: keep split: native_reply.split json.split)

lemma scan_loop_concludes: "returns running (scan_loop st W) (\<lambda>_. concluded)"
  unfolding scan_loop_def
  by (intro returns_skip [OF on_core_states(2)] keep returns_bindE [OF verify_refreshes] scan_rounds_conclude)


text \<open>A stopped loop is never left running.\<close>

lemma stop_concludes: "concluded (snd (handle_stop e s))"
  by (cases e) (auto simp: handle_stop_def stop_outcome_def change_scan_def audit_def concluded_def Let_def)

lemma run_scan_Some:
  assumes "run_scan st W r = Some t"
  obtains s where "concluded s" and "snd (complete_scan s) = t"
    and "s = snd (catchE (scan_loop st W) handle_stop (initial_state st W r))"
proof -
  let ?s0 = "initial_state st W r"
  obtain out s where c: "catchE (scan_loop st W) handle_stop ?s0 = (out, s)" by (cases "catchE (scan_loop st W) handle_stop ?s0")
  have total: "fst (handle_stop e u) = Inr ()" for e u
    by (cases e) (simp_all add: handle_stop_def stop_outcome_def change_scan_def audit_def)
  have oc: "out = Inr () \<and> concluded s"
  proof (cases "scan_loop st W ?s0")
    case (Pair x u)
    have "running ?s0" by (simp add: running_def initial_state_def)
    show ?thesis
    proof (cases x)
      case (Inl e)
      with Pair c have "handle_stop e u = (out, s)" by (simp add: catchE_def)
      with total [of e u] stop_concludes [of e u] show ?thesis by simp
    next
      case (Inr y)
      with Pair c have "out = Inr ()" "s = u" by (simp_all add: catchE_def)
      with returnsD [OF scan_loop_concludes \<open>running ?s0\<close>] Pair Inr show ?thesis by simp
    qed
  qed
  then have "thenE (catchE (scan_loop st W) handle_stop) complete_scan ?s0 = complete_scan s"
    using c by (simp only: bindE_simps(2) [of "catchE (scan_loop st W) handle_stop"])
  moreover have "t = snd (thenE (catchE (scan_loop st W) handle_stop) complete_scan ?s0)"
    using assms unfolding run_scan_def by (simp split: if_splits)
  ultimately have "snd (complete_scan s) = t" by (simp only:)
  then show thesis using that oc c by (metis snd_conv)
qed

lemma complete_scan_result:
  "na_scan (snd (complete_scan s)) = (na_scan s)\<lparr>sr_findings := scan_findings (na_scan s),
      sr_verification := Some (scan_verdict (na_scan s)),
      sr_status := (if scan_findings (na_scan s) \<noteq> [] then S_FAIL else sr_status (na_scan s)), sr_completed := True\<rparr>"
proof -
  define r where "r = (na_scan s)\<lparr>sr_findings := scan_findings (na_scan s), sr_verification := Some (scan_verdict (na_scan s))\<rparr>"
  have f: "sr_findings r = scan_findings (na_scan s)" "sr_status r = sr_status (na_scan s)" by (simp_all add: r_def)
  obtain u where v: "verify_scan s = (Inr (), u)" and u: "na_scan u = r"
    by (rule that [of "s\<lparr>na_scan := r, na_audit := na_audit s @ [''VERIFIER_RESULT'']\<rparr>"])
       (simp_all add: verify_scan_def change_scan_def audit_def r_def)
  have "na_scan (snd (complete_scan s)) =
      r\<lparr>sr_status := (if sr_findings r \<noteq> [] then S_FAIL else sr_status r), sr_completed := True\<rparr>"
    unfolding complete_scan_def bindE_simps(2) [of verify_scan, OF v]
    by (simp add: change_scan_def audit_def u)
  then show ?thesis unfolding f by (simp add: r_def)
qed

text \<open>C1: whatever the target, the planner and the clock do, a scan that ran is complete with a terminal
  status, its findings are exactly those that the deterministic verifier gives on its own hypotheses and
  evidence, it fails exactly when there are any, and it passes only when the verifier passes that evidence
  and every direction of a retest was denied again.\<close>

theorem scan_verdict_is_the_verifiers:
  assumes "run_scan st W r = Some t"
  shows "let u = na_scan t; v = evaluate_lab (sr_hypotheses u) (sr_evidence u) (sr_variant u) in
    sr_completed u \<and> sr_status u \<noteq> S_QUEUED \<and> sr_status u \<noteq> S_RUNNING \<and>
    sr_findings u = verify_lab (sr_hypotheses u) (sr_evidence u) (sr_variant u) (Some (sr_id u)) \<and>
    (sr_status u = S_FAIL) = (sr_findings u \<noteq> []) \<and>
    (sr_status u \<noteq> S_PASS \<or> vf_status v = PASS \<and>
       list_all (objective_repeated (sr_variant u) (sr_evidence u)) (sr_objectives u))"
proof -
  obtain s where s: "concluded s" and t: "snd (complete_scan s) = t" using assms by (rule run_scan_Some)
  have u: "na_scan t = (na_scan s)\<lparr>sr_findings := scan_findings (na_scan s), sr_verification := Some (scan_verdict (na_scan s)),
      sr_status := (if scan_findings (na_scan s) \<noteq> [] then S_FAIL else sr_status (na_scan s)), sr_completed := True\<rparr>"
    unfolding t [symmetric] by (rule complete_scan_result)
  have p: "vf_status (scan_verdict r) = PASS \<longleftrightarrow> vf_status (evaluate_lab (sr_hypotheses r) (sr_evidence r) (sr_variant r)) = PASS \<and>
      list_all (objective_repeated (sr_variant r) (sr_evidence r)) (sr_objectives r)" for r
    by (cases "list_all (objective_repeated (sr_variant r) (sr_evidence r)) (sr_objectives r)")
       (simp_all add: scan_verdict_def Let_def)
  from s show ?thesis unfolding u concluded_def Let_def p
    by (cases "scan_findings (na_scan s) = []") (simp_all add: scan_findings_def)
qed

theorem scan_verdict_is_the_verifiers_witness:
  "sr_completed (na_scan (lab_final PATCHED_NEGATIVE)) \<and> sr_status (na_scan (lab_final PATCHED_NEGATIVE)) \<noteq> S_RUNNING \<and>
   (sr_status (na_scan (lab_final POSITIVE_VULNERABLE)) = S_FAIL) =
     (sr_findings (na_scan (lab_final POSITIVE_VULNERABLE)) \<noteq> [])"
  using scan_verdict_is_the_verifiers [OF lab_run [of PATCHED_NEGATIVE]]
    scan_verdict_is_the_verifiers [OF lab_run [of POSITIVE_VULNERABLE]] unfolding Let_def by blast

section \<open>The loop ends\<close>

named_theorems fueled "steps that do not stop for want of fuel"

definition fuel_free :: "('s, native_stop, 'a) prog \<Rightarrow> bool" where
  "fuel_free m \<longleftrightarrow> (\<forall>s. fst (m s) \<noteq> Inl Out_Of_Fuel)"

lemma fuel_free_bindE [fueled]: "fuel_free m \<Longrightarrow> (\<And>a. fuel_free (g a)) \<Longrightarrow> fuel_free (bindE m g)"
  unfolding fuel_free_def bindE_def by (auto split: prod.splits sum.splits) (metis fst_conv)+

lemma fuel_free_pure [fueled]:
  "fuel_free (retE a)" "e \<noteq> Out_Of_Fuel \<Longrightarrow> fuel_free (throwE e)" "fuel_free (getE h)" "fuel_free (modifyE f)"
  "e \<noteq> Out_Of_Fuel \<Longrightarrow> fuel_free (rejectE b e)" "fuel_free (await w)" "fuel_free (approved d)"
  by (auto simp: fuel_free_def rejectE_run await_def approved_def stop_of_def split: awaited.split sum.split approval_error.split)

lemma fuel_free_if [fueled]: "fuel_free m \<Longrightarrow> fuel_free n \<Longrightarrow> fuel_free (if b then m else n)"
  by simp

lemma fuel_free_option [fueled]: "fuel_free m \<Longrightarrow> (\<And>a. fuel_free (g a)) \<Longrightarrow> fuel_free (case x of None \<Rightarrow> m | Some a \<Rightarrow> g a)"
  by (cases x) simp_all

lemma fuel_free_prod [fueled]: "(\<And>a b. fuel_free (g a b)) \<Longrightarrow> fuel_free (case x of (a, b) \<Rightarrow> g a b)"
  by (cases x) simp

lemma fuel_free_sum [fueled]:
  "(\<And>a. fuel_free (g a)) \<Longrightarrow> (\<And>b. fuel_free (h b)) \<Longrightarrow> fuel_free (case x of Inl a \<Rightarrow> g a | Inr b \<Rightarrow> h b)"
  by (cases x) simp_all

lemma fuel_free_eachE [fueled]: "(\<And>x. fuel_free (g x)) \<Longrightarrow> fuel_free (eachE g xs)"
  by (induction xs) (simp_all add: fueled)

lemma fuel_free_collectE [fueled]: "(\<And>x. fuel_free (g x)) \<Longrightarrow> fuel_free (collectE g xs)"
  by (induction xs) (simp_all add: fueled)

lemma fuel_free_lift [fueled]: "fuel_free m \<Longrightarrow> fuel_free (lift_io m)"
  by (simp add: fuel_free_def lift_io_def split: prod.split) (metis fst_conv)

lemma fuel_free_state [fueled]: "fuel_free (change_scan f)" "fuel_free (the_scan h)" "fuel_free (audit e)"
  by (simp_all add: change_scan_def the_scan_def audit_def fueled)

lemma fuel_free_io [fueled]: "fuel_free (read_clock W)" "fuel_free (fresh_id W p)" "fuel_free (send_call W c)"
  by (simp_all add: read_clock_def fresh_id_def send_call_def fueled)

lemma fuel_free_budgeted [fueled]: "fuel_free (budgeted W m)"
proof -
  have "fst (map_sum Budget_Stop id r, x) \<noteq> Inl Out_Of_Fuel" for r :: "string + unit" and x :: native_state
    by (cases r) simp_all
  then have "fuel_free (\<lambda>s. case m now (na_budget s) of (r, b) \<Rightarrow> (map_sum Budget_Stop id r, s\<lparr>na_budget := b\<rparr>))" for now
    by (simp add: fuel_free_def split: prod.split)
  from fuel_free_bindE [OF fuel_free_lift [OF fuel_free_io(1)] this] show ?thesis unfolding budgeted_def .
qed

lemma fuel_free_scope [fueled]: "fuel_free (scope_failure approve rs)"
proof (induction rs)
  case Nil
  show ?case unfolding scope_failure.simps by (rule fueled)
next
  case (Cons r rs)
  then show ?case unfolding scope_failure.simps
    by (intro fuel_free_sum) (auto intro!: fueled split: approval_error.split)
qed

lemma fuel_free_native [fueled]: "fuel_free (native_execute st W v j)"
  unfolding native_execute_def observe_one_def execute_one_def by (intro fueled) simp_all

lemma fuel_free_hypothesis [fueled]: "fuel_free (execute_hypothesis st W pr capability operation idea h)"
  unfolding execute_hypothesis_def make_job_def authorize_hypothesis_def dispatch_job_def bind_evidence_def
    verify_scan_def record_kernel_def record_report_def
  by (intro fueled) (auto intro!: fueled split: policy_error.split lifecycle_error.split)

lemma fuel_free_ends [fueled]:
  "fuel_free (finish_scan reason status)" "fuel_free (keep_record g)" "fuel_free (end_stage g reason status)"
  "fuel_free (block_scan g b)" "fuel_free (end_without_candidates g answer)" "fuel_free verify_scan"
  unfolding end_without_candidates_def block_scan_def end_stage_def finish_scan_def keep_record_def verify_scan_def
  by (intro fueled)+

lemma fuel_free_queue [fueled]: "fuel_free (execute_queue st W pr admitted g vs)"
proof (induction st W pr admitted g vs rule: execute_queue.induct)
  case (2 st W pr admitted g v vs)
  show ?case
  proof (cases "vd_id v \<notin> set admitted")
    case False
    note IH = 2(2) [OF False refl refl]
    have "fuel_free (if stop then keep_record (g\<lparr>sg_executed := sg_executed g @ [vd_id v]\<rparr>)
       else execute_queue st W pr admitted (g\<lparr>sg_executed := sg_executed g @ [vd_id v]\<rparr>) vs)" for stop
      using IH by (cases stop) (simp_all add: fueled)
    then show ?thesis unfolding execute_queue.simps(2) Let_def if_not_P [OF False] start_candidate_def
      by (intro fuel_free_bindE fuel_free_option fuel_free_state fuel_free_ends fuel_free_hypothesis fuel_free_pure(2)) simp_all
  qed (simp add: 2(1))
qed (simp add: fueled)

lemma fuel_free_round [fueled]: "fuel_free (scan_round st W pr)"
  unfolding scan_round_def preflight_terminal_def run_retest_def discover_def admit_and_execute_def
    generate_candidates_def ask_planner_def scan_context_def Let_def
  by (intro fueled) (auto intro!: fueled split: planner_fault.split)

lemma fuel_free_import [fueled]: "fuel_free (import_surface st W)"
  unfolding import_surface_def
  by (intro fueled) (auto intro!: fueled split: native_reply.split json.split)

text \<open>Only the start of a round counts an iteration.\<close>

lemma budgeted_run:
  assumes "budgeted W m s = (r, t)"
  obtains now b x where "m now (na_budget s) = (x, b)" and "r = map_sum Budget_Stop id x" and "na_budget t = b"
    and "core t = core s" and "io_calls t = io_calls s" and "na_scan t = na_scan s"
  using assms
  by (auto simp: budgeted_def bindE_run lift_io_def read_clock_def io_of_def core_def split: prod.splits)

lemma keeps_rounds_step:
  assumes "\<And>now b. sb_iterations (snd (m now b)) = sb_iterations b \<and> sb_settings (snd (m now b)) = sb_settings b"
  shows "keeps rounds (budgeted W m)"
  unfolding keeps_def
proof
  fix s
  obtain r t where "budgeted W m s = (r, t)" by (cases "budgeted W m s")
  moreover from this obtain now b x where "m now (na_budget s) = (x, b)" "na_budget t = b" by (rule budgeted_run)
  ultimately show "rounds (snd (budgeted W m s)) = rounds s"
    using assms [of now "na_budget s"] by (simp add: rounds_def)
qed

lemma keeps_rounds_budgeted [keep]:
  "keeps rounds (budgeted W scan_request)" "keeps rounds (budgeted W check_time)"
  "keeps rounds (budgeted W (\<lambda>now. scan_model_call now n))"
  by (rule keeps_rounds_step, simp add: scan_request_def check_time_def scan_model_call_def bindE_run rejectE_run)+

lemma keeps_rounds_hypothesis [keep]: "keeps rounds (execute_hypothesis st W pr capability operation idea h)"
  unfolding execute_hypothesis_def make_job_def authorize_hypothesis_def dispatch_job_def bind_evidence_def
  by (intro keep) (auto intro!: keep split: policy_error.split)

lemma keeps_rounds_ends [keep]:
  "keeps rounds (end_stage g reason status)" "keeps rounds (block_scan g b)" "keeps rounds (end_without_candidates g answer)"
  unfolding end_without_candidates_def block_scan_def end_stage_def by (intro keep)+

lemma keeps_rounds_queue [keep]: "keeps rounds (execute_queue st W pr admitted g vs)"
proof (induction st W pr admitted g vs rule: execute_queue.induct)
  case (2 st W pr admitted g v vs)
  show ?case
  proof (cases "vd_id v \<notin> set admitted")
    case False
    note IH = 2(2) [OF False refl refl]
    have "keeps rounds (if stop then keep_record (g\<lparr>sg_executed := sg_executed g @ [vd_id v]\<rparr>)
       else execute_queue st W pr admitted (g\<lparr>sg_executed := sg_executed g @ [vd_id v]\<rparr>) vs)" for stop
      using IH by (cases stop) (simp_all add: keep)
    then show ?thesis unfolding execute_queue.simps(2) Let_def if_not_P [OF False] start_candidate_def
      by (intro keeps_bindE keeps_option keeps_getters keeps_keep_record keeps_rounds_hypothesis keeps_rounds_change keeps_pure)
  qed (simp add: 2(1))
qed (simp add: keep)

lemma keeps_rounds_stages [keep]:
  "keeps rounds (run_retest st W pr)" "keeps rounds (discover st W pr cx)" "keeps rounds (import_surface st W)"
proof -
  show "keeps rounds (run_retest st W pr)" unfolding run_retest_def by (intro keep)
  show "keeps rounds (discover st W pr cx)"
    unfolding discover_def admit_and_execute_def generate_candidates_def ask_planner_def Let_def
    by (intro keep) (auto intro!: keep split: planner_fault.split)
  show "keeps rounds (import_surface st W)"
    unfolding import_surface_def by (intro keep) (auto intro!: keep split: native_reply.split json.split)
qed

lemma scan_iteration_Inr:
  "scan_iteration now b = (Inr (), b') \<Longrightarrow>
    sb_iterations b < st_max_iterations (sb_settings b) \<and> b' = b\<lparr>sb_iterations := Suc (sb_iterations b)\<rparr>"
  by (auto simp: scan_iteration_def check_time_def bindE_run rejectE_run not_le split: if_splits)

lemma scan_round_counts:
  assumes "scan_round st W pr s = (Inr False, t)"
  shows "sb_iterations (na_budget s) < st_max_iterations (sb_settings (na_budget s)) \<and>
    rounds t = (Suc (sb_iterations (na_budget s)), sb_settings (na_budget s))"
proof -
  let ?rest = "bindE (scan_context st W pr) (\<lambda>cx.
          bindE (the_scan (\<lambda>r. sr_retest_of r \<noteq> None)) (\<lambda>retest.
          thenE (audit ''PREFLIGHT'')
          (case preflight cx of
             Some b \<Rightarrow> thenE (preflight_terminal retest b) (retE True)
           | None \<Rightarrow> if retest then run_retest st W pr else discover st W pr cx)))"
  have k: "keeps rounds ?rest" unfolding preflight_terminal_def by (intro keep)
  from assms obtain u where i: "budgeted W scan_iteration s = (Inr (), u)" and r: "?rest u = (Inr False, t)"
    unfolding scan_round_def
  proof (rule bindE_InrE)
    fix over v assume v: "the_scan verifier_end s = (Inr over, v)"
      and over: "(case over of Some (reason, status) \<Rightarrow> thenE (finish_scan reason status) (retE True)
        | None \<Rightarrow> thenE (budgeted W scan_iteration) ?rest) v = (Inr False, t)"
    have "v = s" using v by (simp add: the_scan_def)
    show thesis
    proof (cases over)
      case None
      with over \<open>v = s\<close> have "thenE (budgeted W scan_iteration) ?rest s = (Inr False, t)" by simp
      then show ?thesis
      proof (rule bindE_InrE)
        fix a u assume "budgeted W scan_iteration s = (Inr a, u)" "?rest u = (Inr False, t)"
        then show ?thesis using that by simp
      qed
    next
      case (Some p)
      obtain reason status where "p = (reason, status)" by (cases p)
      with over Some have "thenE (finish_scan reason status) (retE True) v = (Inr False, t)" by simp
      then show ?thesis by (rule bindE_InrE) simp
    qed
  qed
  have t: "rounds t = rounds u" by (rule keepsD [OF k r])
  from i obtain now b x where n: "scan_iteration now (na_budget s) = (x, b)"
    and x: "Inr () = map_sum Budget_Stop id x" and b: "na_budget u = b"
    by (rule budgeted_run)
  from x have "x = Inr ()" by (cases x) simp_all
  with n have "scan_iteration now (na_budget s) = (Inr (), na_budget u)" by (simp only: b)
  from scan_iteration_Inr [OF this] show ?thesis unfolding t by (simp add: rounds_def)
qed

lemma scan_rounds_end:
  "st_max_iterations (sb_settings (na_budget s)) - sb_iterations (na_budget s) < n \<Longrightarrow>
   fst (scan_rounds st W pr n s) \<noteq> Inl Out_Of_Fuel"
proof (induction n arbitrary: s)
  case (Suc n)
  obtain r t where round: "scan_round st W pr s = (r, t)" by (cases "scan_round st W pr s")
  consider e where "r = Inl e" "e \<noteq> Out_Of_Fuel" | "r = Inr True" | "r = Inr False"
    using fuel_free_round [of st W pr] round unfolding fuel_free_def by (metis fst_conv old.sum.exhaust)
  then show ?case
  proof cases
    case 3
    from scan_round_counts [OF round [unfolded 3]] Suc.prems
    have "st_max_iterations (sb_settings (na_budget t)) - sb_iterations (na_budget t) < n"
      by (auto simp: rounds_def)
    from Suc.IH [OF this] show ?thesis by (simp add: bindE_run round 3 del: scan_rounds.simps add: scan_rounds.simps(2))
  qed (simp_all add: bindE_run round scan_rounds.simps(2) retE_def)
qed simp

text \<open>C33: the loop of a scan ends by itself: with one more round than the iteration budget allows, which is
  the fuel it runs on, it never stops for want of fuel, so every run returns.\<close>

theorem scan_loop_ends: "fst (scan_loop st W (initial_state st W r)) \<noteq> Inl Out_Of_Fuel"
proof -
  let ?n = "st_max_iterations (ns_scan st) + 1" and ?s0 = "initial_state st W r"
  obtain x s where imp: "import_surface st W ?s0 = (x, s)" by (cases "import_surface st W ?s0")
  show ?thesis
  proof (cases x)
    case (Inl e)
    with imp fuel_free_import [of st W] have "e \<noteq> Out_Of_Fuel" unfolding fuel_free_def by (metis fst_conv)
    with imp Inl show ?thesis by (simp add: scan_loop_def bindE_run)
  next
    case (Inr pr)
    define u where "u = snd (thenE (audit ''OPENAPI_OBSERVATION'') verify_scan s)"
    have v: "thenE (audit ''OPENAPI_OBSERVATION'') verify_scan s = (Inr (), u)"
      by (simp add: u_def audit_def verify_scan_def change_scan_def)
    have "rounds u = rounds s" unfolding u_def using keeps_bindE [OF keeps_audit(3) keeps_verify(2)] by (simp add: keeps_def)
    also have "\<dots> = rounds ?s0" using keepsD [OF keeps_rounds_stages(3) imp] .
    also have "\<dots> = (0, ns_scan st)"
      by (simp add: rounds_def initial_state_def scan_budget_of_def new_scan_budget_def Let_def)
    finally have "fst (scan_rounds st W pr ?n u) \<noteq> Inl Out_Of_Fuel"
      by (intro scan_rounds_end) (simp add: rounds_def)
    moreover have "scan_loop st W ?s0 = scan_rounds st W pr ?n u"
      using v unfolding scan_loop_def bindE_simps(2) [of "import_surface st W", OF imp [unfolded Inr]]
      by (simp add: bindE_run split: prod.splits sum.splits)
    ultimately show ?thesis by simp
  qed
qed

section \<open>What a scan sends\<close>

text \<open>A call that may be sent: the import of the document, or a read of an authorised object of the
  variant, under a validated URL and with the token of an approved profile or none.\<close>

definition call_ok :: "native_settings \<Rightarrow> world \<Rightarrow> string \<Rightarrow> variant \<Rightarrow> native_call \<Rightarrow> bool" where
  "call_ok st W base v c \<longleftrightarrow>
     nc_method c = ''GET'' \<and> nc_bearer c = None \<and> approve_import (wd_ip W) (ns_safety st) = Inr (nc_url c) \<or>
     nc_method c \<in> {''GET'', ''HEAD'', ''OPTIONS''} \<and>
     validate_absolute_url (wd_ip W) (ns_safety st) (nc_url c) = Inr () \<and>
     list_ex (\<lambda>p. urljoin_plain (wd_ip W) (rstrip (CHR ''/'') base @ ''/'') (dropWhile (\<lambda>c. c = CHR ''/'') p) = Some (nc_url c))
       (object_paths v) \<and>
     list_ex (\<lambda>profile. bearer_for profile = Some (nc_bearer c)) CREDENTIAL_PROFILES"

named_theorems sent "how many approved calls a step sends at most"

definition sends :: "(native_call \<Rightarrow> bool) \<Rightarrow> nat \<Rightarrow> (native_io, native_stop, 'a) prog \<Rightarrow> bool" where
  "sends P n m \<longleftrightarrow> (\<forall>s. \<exists>new. io_calls (snd (m s)) = new @ io_calls s \<and> length new \<le> n \<and> list_all P new)"

lemma sends_kept: "keeps io_calls m \<Longrightarrow> sends P n m"
  unfolding sends_def keeps_def by simp

lemma sends_bindE:
  assumes "sends P k m" and "\<And>a. sends P n (f a)"
  shows "sends P (k + n) (bindE m f)"
  unfolding sends_def
proof
  fix s
  obtain r u where m: "m s = (r, u)" by (cases "m s")
  with assms(1) obtain new where n: "io_calls u = new @ io_calls s" "length new \<le> k" "list_all P new"
    unfolding sends_def by (metis snd_conv)
  show "\<exists>new. io_calls (snd (bindE m f s)) = new @ io_calls s \<and> length new \<le> k + n \<and> list_all P new"
  proof (cases r)
    case (Inl e)
    with m n show ?thesis by (auto simp: bindE_run)
  next
    case (Inr a)
    obtain more where "io_calls (snd (f a u)) = more @ io_calls u" "length more \<le> n" "list_all P more"
      using assms(2) [of a] unfolding sends_def by blast
    with m n Inr show ?thesis by (intro exI [of _ "more @ new"]) (simp add: bindE_run)
  qed
qed

lemma sends_first: "keeps io_calls m \<Longrightarrow> (\<And>a. sends P n (f a)) \<Longrightarrow> sends P n (bindE m f)"
  using sends_bindE [of P 0 m n f] by (simp add: sends_kept)

lemma sends_collectE: "(\<And>x. sends P 1 (f x)) \<Longrightarrow> sends P (length xs) (collectE f xs)"
proof (induction xs)
  case (Cons x xs)
  have "sends P (length xs + 0) (bindE (collectE f xs) (\<lambda>ys. retE (y # ys)))" for y
    by (rule sends_bindE [OF Cons.IH [OF Cons.prems] sends_kept]) (simp add: keep)
  then have "sends P (1 + length xs) (bindE (f x) (\<lambda>y. bindE (collectE f xs) (\<lambda>ys. retE (y # ys))))"
    by (intro sends_bindE [OF Cons.prems]) simp
  then show ?case by simp
qed (simp add: sends_kept keep)

lemma sends_call: "P c \<Longrightarrow> sends P 1 (send_call W c)"
proof -
  assume p: "P c"
  have "io_calls (snd (send_call W c s)) = [c] @ io_calls s" for s
    by (simp add: send_call_def await_def split: awaited.split)
  with p show ?thesis unfolding sends_def by (intro allI exI [of _ "[c]"]) simp
qed

lemma approved_request:
  assumes "approve_request ip ss base v r = Inr url"
  shows "planned_ok r \<and> pq_path r \<in> set (object_paths v) \<and> validate_absolute_url ip ss url = Inr () \<and>
    urljoin_plain ip (rstrip (CHR ''/'') base @ ''/'') (dropWhile (\<lambda>c. c = CHR ''/'') (pq_path r)) = Some url"
  using assms by (auto simp: approve_request_def violates_def andThen_def from_option_def split: if_splits option.splits sum.splits)

lemma sends_one: "sends (call_ok st W base v) 1 (execute_one st W base v r)"
proof (cases "approve_request (wd_ip W) (ns_safety st) base v r")
  case (Inr url)
  from approved_request [OF this] have a: "planned_ok r" "pq_path r \<in> set (object_paths v)"
    "validate_absolute_url (wd_ip W) (ns_safety st) url = Inr ()"
    "urljoin_plain (wd_ip W) (rstrip (CHR ''/'') base @ ''/'') (dropWhile (\<lambda>c. c = CHR ''/'') (pq_path r)) = Some url" by auto
  have c: "call_ok st W base v \<lparr>nc_method = pq_method r, nc_url = url, nc_bearer = bearer\<rparr>"
    if "bearer_for (pq_profile r) = Some bearer" for bearer
    using a that unfolding call_ok_def planned_ok_def list_ex_iff CREDENTIAL_PROFILES_def
    by (auto intro!: bexI [OF _ a(2)])
  have "sends (call_ok st W base v) (1 + 0) (bindE (send_call W \<lparr>nc_method = pq_method r, nc_url = url, nc_bearer = bearer\<rparr>)
      (\<lambda>reply. retE (evidence_from st W r reply)))" if "bearer_for (pq_profile r) = Some bearer" for bearer
    by - (rule sends_bindE [OF sends_call sends_kept], rule c, rule that, rule keep)
  then show ?thesis unfolding execute_one_def Inr approved_def
    by (auto split: option.split intro: sends_kept keep)
qed (auto simp: execute_one_def approved_def intro: sends_kept keep)

lemma keeps_scope [keep]: "keeps io_calls (scope_failure approve rs)"
proof (induction rs)
  case Nil
  show ?case unfolding scope_failure.simps by (rule keep)
next
  case (Cons r rs)
  then show ?case unfolding scope_failure.simps
    by (intro keeps_sum) (auto intro!: keep split: approval_error.split)
qed

lemma sends_native:
  "sends (call_ok st W (tr_origin (ej_target j)) v) (length (ej_requests j)) (native_execute st W v j)"
proof -
  let ?P = "call_ok st W (tr_origin (ej_target j)) v"
  have "sends ?P (1 + 0) (observe_one st W v j r)" for r
    unfolding observe_one_def by (intro sends_bindE sends_one sends_kept keep)
  then have "sends ?P (length (ej_requests j)) (collectE (observe_one st W v j) (ej_requests j))"
    by (intro sends_collectE) simp
  then have "sends ?P (length (ej_requests j) + 0) (bindE (collectE (observe_one st W v j) (ej_requests j)) (\<lambda>es.
            bindE (read_clock W) (\<lambda>completed.
            retE (Inr (native_execution W i j started completed es, es)))))" for i started
    by (rule sends_bindE) (intro sends_kept keep io_steps)
  then show ?thesis unfolding native_execute_def
    by (intro sends_first io_steps keeps_scope)
       (auto split: option.split intro: sends_kept keep)
qed

text \<open>The reserve: how many requests the budget has counted and the scan has not sent.\<close>

definition reserve_of :: "native_settings \<Rightarrow> world \<Rightarrow> string \<Rightarrow> variant \<Rightarrow> nat \<Rightarrow> nat \<Rightarrow> native_state \<Rightarrow> bool" where
  "reserve_of st W base v limit k s \<longleftrightarrow>
     length (io_calls s) + k \<le> sb_requests (na_budget s) \<and> sb_requests (na_budget s) \<le> limit \<and>
     sb_max_requests (na_budget s) = limit \<and> sr_variant (na_scan s) = v \<and> sr_base_url (na_scan s) = base \<and>
     list_all (call_ok st W base v) (io_calls s)"

lemma reserve_less: "reserve_of st W base v limit k s \<Longrightarrow> n \<le> k \<Longrightarrow> reserve_of st W base v limit n s"
  by (auto simp: reserve_of_def)

lemma reserve_spent: "spent s = spent t \<Longrightarrow> reserve_of st W base v limit k s = reserve_of st W base v limit k t"
  by (simp add: reserve_of_def spent_def)

lemma reserve_kept: "keeps spent m \<Longrightarrow> preserves (reserve_of st W base v limit k) m"
  unfolding preserves_def keeps_def by (metis reserve_spent)

lemma keeps_spent_step:
  assumes "\<And>now b. sb_requests (snd (m now b)) = sb_requests b \<and> sb_max_requests (snd (m now b)) = sb_max_requests b"
  shows "keeps spent (budgeted W m)"
  unfolding keeps_def
proof
  fix s
  obtain r t where b: "budgeted W m s = (r, t)" by (cases "budgeted W m s")
  from b obtain now b x where "m now (na_budget s) = (x, b)" "na_budget t = b" "io_calls t = io_calls s" "na_scan t = na_scan s"
    by (rule budgeted_run)
  then show "spent (snd (budgeted W m s)) = spent s"
    using assms [of now "na_budget s"] b by (simp add: spent_def)
qed

lemma keeps_spent_budgeted [keep]:
  "keeps spent (budgeted W scan_iteration)" "keeps spent (budgeted W check_time)"
  "keeps spent (budgeted W (\<lambda>now. scan_model_call now n))"
  by (rule keeps_spent_step, simp add: scan_iteration_def check_time_def scan_model_call_def bindE_run rejectE_run)+

lemma keeps_spent_steps [keep]:
  "keeps spent (make_job st W pr capability operation h)" "keeps spent (authorize_hypothesis st W pr h)"
  "keeps spent (bind_evidence e)" "keeps spent (end_stage g reason status)" "keeps spent (block_scan g b)"
  "keeps spent (end_without_candidates g answer)" "keeps spent (generate_candidates st W cx)" "keeps spent (start_candidate i)"
  unfolding make_job_def authorize_hypothesis_def bind_evidence_def end_without_candidates_def block_scan_def
    end_stage_def generate_candidates_def ask_planner_def start_candidate_def
  by (intro keep keeps_spent_change keeps_spent_lift io_steps;
      auto intro!: keep keeps_spent_change split: policy_error.split planner_fault.split)+

lemma request_reserves:
  "triple (reserve_of st W base v limit k) (budgeted W scan_request)
     (\<lambda>r t. case r of Inl e \<Rightarrow> reserve_of st W base v limit 0 t | Inr u \<Rightarrow> reserve_of st W base v limit (Suc k) t)"
proof (rule tripleI)
  fix s r t assume s: "reserve_of st W base v limit k s" and run: "budgeted W scan_request s = (r, t)"
  from run obtain now b x where m: "scan_request now (na_budget s) = (x, b)" and r: "r = map_sum Budget_Stop id x"
    and t: "na_budget t = b" "io_calls t = io_calls s" "na_scan t = na_scan s"
    by (rule budgeted_run)
  have "x \<noteq> Inr () \<and> b = na_budget s \<or> x = Inr () \<and> sb_requests (na_budget s) < sb_max_requests (na_budget s) \<and>
      b = (na_budget s)\<lparr>sb_requests := Suc (sb_requests (na_budget s))\<rparr>"
    using m by (auto simp: scan_request_def check_time_def bindE_run rejectE_run split: if_splits)
  then show "case r of Inl e \<Rightarrow> reserve_of st W base v limit 0 t | Inr u \<Rightarrow> reserve_of st W base v limit (Suc k) t"
    using s r t by (cases x) (auto simp: reserve_of_def)
qed

lemma requests_reserve:
  "triple (reserve_of st W base v limit k) (eachE (\<lambda>_. budgeted W scan_request) xs)
     (\<lambda>r t. case r of Inl e \<Rightarrow> reserve_of st W base v limit 0 t | Inr u \<Rightarrow> reserve_of st W base v limit (k + length xs) t)"
proof (induction xs arbitrary: k)
  case (Cons x xs)
  show ?case unfolding eachE.simps
  proof (rule triple_bindE [where R = "\<lambda>_. reserve_of st W base v limit (Suc k)"])
    show "triple (reserve_of st W base v limit k) (budgeted W scan_request)
      (\<lambda>r t. case r of Inl e \<Rightarrow> (case Inl e of Inl e \<Rightarrow> reserve_of st W base v limit 0 t
        | Inr u \<Rightarrow> reserve_of st W base v limit (k + length (x # xs)) t) | Inr a \<Rightarrow> reserve_of st W base v limit (Suc k) t)"
      using request_reserves by (rule triple_weaken) (auto split: sum.splits)
    show "triple (reserve_of st W base v limit (Suc k)) (eachE (\<lambda>_. budgeted W scan_request) xs)
      (\<lambda>r t. case r of Inl e \<Rightarrow> reserve_of st W base v limit 0 t | Inr u \<Rightarrow> reserve_of st W base v limit (k + length (x # xs)) t)"
      using Cons [of "Suc k"] by (simp only: list.size add_Suc add_Suc_right add_0_right)
  qed
qed (simp add: triple_def)

text \<open>Sending uses up the reserve.\<close>

lemma lift_sends:
  assumes "sends (call_ok st W base v) n m" and "reserve_of st W base v limit n s"
  shows "reserve_of st W base v limit 0 (snd (lift_io m s))"
proof -
  obtain r u where m: "m (io_of s) = (r, u)" by (cases "m (io_of s)")
  with assms(1) obtain new where "io_calls u = new @ io_calls s" "length new \<le> n" "list_all (call_ok st W base v) new"
    unfolding sends_def by (metis snd_conv io_of_def native_io.select_convs(1))
  with assms(2) m show ?thesis by (simp add: lift_io_def reserve_of_def)
qed

lemma preserved_after: "P (snd (m s)) \<Longrightarrow> (\<And>a. preserves P (f a)) \<Longrightarrow> P (snd (bindE m f s))"
  by (auto simp: bindE_run preserves_def split: prod.split sum.split)

lemma dispatch_spends:
  assumes "reserve_of st W (tr_origin (ej_target j)) v limit (length (ej_requests j)) s"
  shows "reserve_of st W (tr_origin (ej_target j)) v limit 0 (snd (dispatch_job st W j s))"
proof -
  let ?R = "reserve_of st W (tr_origin (ej_target j)) v limit"
  let ?s = "s\<lparr>na_audit := na_audit s @ [''ENGINE_EXECUTION_STARTED'']\<rparr>"
  let ?k = "\<lambda>outcome. case outcome of
        Inl f \<Rightarrow> thenE (audit ''ENGINE_EXECUTION_FAILED'')
          (thenE (change_scan (\<lambda>r. r\<lparr>sr_failed_jobs := sr_failed_jobs r @ [f]\<rparr>)) (throwE (Planner_Stop ''ENGINE_EXECUTION_FAILED'')))
      | Inr result \<Rightarrow> retE result"
  have v: "sr_variant (na_scan s) = v" using assms by (simp add: reserve_of_def)
  have run: "dispatch_job st W j s = bindE (lift_io (native_execute st W v j)) ?k ?s"
    by (simp add: dispatch_job_def audit_def the_scan_def bindE_def v split: prod.split)
  have "?R (length (ej_requests j)) ?s" using assms by (simp add: reserve_of_def)
  from lift_sends [OF sends_native this] have r: "?R 0 (snd (lift_io (native_execute st W v j) ?s))" .
  have k: "preserves (?R 0) (?k outcome)" for outcome
    by (cases outcome) (auto intro!: reserve_kept keep keeps_spent_change)
  show ?thesis unfolding run using r k by (rule preserved_after)
qed

lemma hypothesis_reserve:
  "preserves (reserve_of st W base v limit 0) (execute_hypothesis st W pr capability operation idea h)"
proof (rule preservesI)
  let ?R = "reserve_of st W base v limit"
  fix s assume s: "?R 0 s"
  obtain r t where j: "make_job st W pr capability operation h s = (r, t)" by (cases "make_job st W pr capability operation h s")
  with reserve_kept [OF keeps_spent_steps(1)] s have t: "?R 0 t" by (metis preservesD_eq)
  show "?R 0 (snd (execute_hypothesis st W pr capability operation idea h s))"
  proof (cases r)
    case (Inl e)
    with j t show ?thesis by (simp add: execute_hypothesis_def bindE_run)
  next
    case (Inr jb)
    from make_job_run [OF j [unfolded Inr]] have n: "length (ej_requests jb) = length (hy_requests h)"
      and o: "tr_origin (ej_target jb) = base" using s by (simp_all add: reserve_of_def)
    have d: "triple (?R (length (hy_requests h))) (dispatch_job st W jb) (\<lambda>_. ?R 0)"
      unfolding triple_snd using dispatch_spends [of st W jb v limit] by (simp add: n o)
    have k: "triple (?R 0) (case p of (x, es) \<Rightarrow> thenE (eachE bind_evidence es)
        (thenE (audit ''ENGINE_EXECUTION_COMPLETED'') (record_kernel jb idea x))) (\<lambda>_. ?R 0)" for p
      by (rule triple_of_preserves) (auto intro!: pres reserve_kept keep split: prod.split)
    have "triple (?R (length (hy_requests h))) (bindE (dispatch_job st W jb) (\<lambda>(x, es).
      thenE (eachE bind_evidence es) (thenE (audit ''ENGINE_EXECUTION_COMPLETED'') (record_kernel jb idea x)))) (\<lambda>_. ?R 0)"
      by - (rule triple_bindE [where R = "\<lambda>_. ?R 0"], rule triple_weaken [OF d], assumption, simp split: sum.split, rule k)
    then have "triple (?R 0) (thenE (eachE (\<lambda>_. budgeted W scan_request) (hy_requests h))
      (bindE (dispatch_job st W jb) (\<lambda>(x, es).
      thenE (eachE bind_evidence es) (thenE (audit ''ENGINE_EXECUTION_COMPLETED'') (record_kernel jb idea x))))) (\<lambda>_. ?R 0)"
      by - (rule triple_bindE [where R = "\<lambda>_. ?R (length (hy_requests h))"],
        rule triple_weaken [OF requests_reserve [where k = 0 and xs = "hy_requests h"]], auto split: sum.split)
    then have "triple (?R 0) (thenE (authorize_hypothesis st W pr h)
      (thenE (eachE (\<lambda>_. budgeted W scan_request) (hy_requests h))
      (bindE (dispatch_job st W jb) (\<lambda>(x, es).
      thenE (eachE bind_evidence es) (thenE (audit ''ENGINE_EXECUTION_COMPLETED'') (record_kernel jb idea x)))))) (\<lambda>_. ?R 0)"
      by - (rule triple_then [OF reserve_kept [OF keeps_spent_steps(2)]], assumption)
    with t show ?thesis unfolding execute_hypothesis_def bindE_simps(2) [of "make_job st W pr capability operation h", OF j [unfolded Inr]]
      by (simp add: triple_snd)
  qed
qed

lemma queue_reserve: "preserves (reserve_of st W base v limit 0) (execute_queue st W pr admitted g vs)"
proof (induction st W pr admitted g vs rule: execute_queue.induct)
  case (1 st W pr admitted g)
  show ?case unfolding execute_queue.simps by (intro reserve_kept keep)
next
  case (2 st W pr admitted g c vs)
  show ?case
  proof (cases "vd_id c \<notin> set admitted")
    case False
    note IH = 2(2) [OF False refl refl]
    have "preserves (reserve_of st W base v limit 0) (if stop then keep_record (g\<lparr>sg_executed := sg_executed g @ [vd_id c]\<rparr>)
       else execute_queue st W pr admitted (g\<lparr>sg_executed := sg_executed g @ [vd_id c]\<rparr>) vs)" for stop
      using IH by (cases stop) (simp_all add: keep reserve_kept)
    note go = preserves_bindE [OF reserve_kept [OF keeps_getters] this]
    show ?thesis unfolding execute_queue.simps(2) Let_def if_not_P [OF False]
      by (intro go preserves_bindE [OF reserve_kept [OF keeps_getters]] preserves_option
          preserves_bindE [OF hypothesis_reserve go] preserves_bindE [OF reserve_kept [OF keeps_spent_steps(8)]]
          preserves_bindE [OF reserve_kept [OF keeps_keep_record(2)] preserves_pure(2)])
  qed (simp add: 2(1))
qed

lemma round_reserve: "preserves (reserve_of st W base v limit 0) (scan_round st W pr)"
proof -
  have d: "preserves (reserve_of st W base v limit 0) (discover st W pr cx)" for cx
    unfolding discover_def admit_and_execute_def Let_def
    by (intro preserves_bindE preserves_if preserves_option preserves_prod preserves_pure queue_reserve
        reserve_kept keep keeps_spent_change) simp_all
  have r: "preserves (reserve_of st W base v limit 0) (run_retest st W pr)"
    unfolding run_retest_def
    by (intro preserves_bindE preserves_option preserves_pure hypothesis_reserve reserve_kept keep)
  show ?thesis unfolding scan_round_def preflight_terminal_def
    by (intro preserves_bindE preserves_option preserves_prod preserves_if preserves_pure d r reserve_kept keep)
qed

lemma rounds_reserve: "preserves (reserve_of st W base v limit 0) (scan_rounds st W pr n)"
proof (induction n)
  case 0
  show ?case unfolding scan_rounds.simps by (rule preserves_pure)
next
  case (Suc n)
  then show ?case unfolding scan_rounds.simps by (intro preserves_bindE round_reserve preserves_if preserves_pure)
qed

lemma import_reserve:
  "preserves (reserve_of st W base v limit 0) (import_surface st W)"
proof (cases "approve_import (wd_ip W) (ns_safety st)")
  case (Inl e)
  then show ?thesis unfolding import_surface_def by (simp add: approved_def pres)
next
  case (Inr url)
  let ?R = "reserve_of st W base v limit" and ?c = "\<lparr>nc_method = ''GET'', nc_url = url, nc_bearer = None\<rparr>"
  have "sends (call_ok st W base v) 1 (send_call W ?c)"
    by (rule sends_call) (simp add: call_ok_def Inr)
  then have l: "triple (?R 1) (lift_io (send_call W ?c)) (\<lambda>_. ?R 0)"
    unfolding triple_snd using lift_sends by blast
  let ?read = "\<lambda>reply. bindE (the_scan (\<lambda>r. (sr_scenario r, sr_variant r))) (\<lambda>(scenario, w).
      case reply of
        Reply_Broken _ _ \<Rightarrow> throwE Other_Stop
      | Reply_Body status raw \<Rightarrow>
          if status < 200 \<or> 300 \<le> status \<or> ns_max_response_bytes st < length raw then throwE Other_Stop
          else (case body_json (wd_foreign W) raw of
              Some (JObj spec) \<Rightarrow>
                (case project_scenario spec scenario of
                   Some pr \<Rightarrow> if sp_variant pr = w then retE pr else throwE Other_Stop
                 | None \<Rightarrow> throwE Other_Stop)
            | _ \<Rightarrow> throwE Other_Stop))"
  have "triple (?R 0) (?read reply) (\<lambda>_. ?R 0)" for reply
    by (rule triple_of_preserves)
       (auto simp: the_scan_def intro!: pres split: native_reply.split option.split json.split)
  then have "triple (?R 1) (bindE (lift_io (send_call W ?c)) ?read) (\<lambda>_. ?R 0)"
    by - (rule triple_bindE [where R = "\<lambda>_. ?R 0"], rule triple_weaken [OF l], assumption, simp split: sum.split)
  moreover have a: "preserves (?R 1) (audit e)" for e by (intro reserve_kept keep)
  ultimately have "triple (?R 1) (thenE (audit ''TOOL_REQUEST'') (thenE (audit ''SAFETY_APPROVED'')
      (bindE (lift_io (send_call W ?c)) ?read))) (\<lambda>_. ?R 0)"
    by - (rule triple_then [OF a], erule reserve_less, simp)+
  moreover have w: "triple (?R 0) (budgeted W scan_request) (\<lambda>r t. case r of Inl e \<Rightarrow> ?R 0 t | Inr u \<Rightarrow> ?R 1 t)"
    using request_reserves [of st W base v limit 0] by (simp only: One_nat_def)
  ultimately have "triple (?R 0) (thenE (budgeted W scan_request) (thenE (audit ''TOOL_REQUEST'') (thenE (audit ''SAFETY_APPROVED'')
      (bindE (lift_io (send_call W ?c)) ?read)))) (\<lambda>_. ?R 0)"
    by - (rule triple_bindE [where R = "\<lambda>_. ?R 1" and Q = "\<lambda>_. ?R 0", OF w])
  then show ?thesis unfolding import_surface_def Inr approved_def
    by (simp add: preserves_def triple_snd)
qed

text \<open>C2: whatever the target, the planner and the clock do, a scan sends only the import of the document and
  reads: each a read-only method on a URL that the allowlist admits and that names an authorised object
  of the scan's variant, with the token of an approved profile or none; and it sends no more than its
  request limit.\<close>

theorem scan_sends_approved_reads:
  assumes "run_scan st W r = Some t"
  shows "list_all (call_ok st W (sr_base_url r) (sr_variant r)) (io_calls t) \<and>
    length (io_calls t) \<le> request_limit st r"
proof -
  let ?s0 = "initial_state st W r"
  let ?R = "reserve_of st W (sr_base_url r) (sr_variant r) (sb_max_requests (na_budget ?s0)) 0"
  have limit: "sb_max_requests (na_budget ?s0) = request_limit st r"
    by (auto simp: initial_state_def scan_budget_of_def new_scan_budget_def request_limit_def or_default_def Let_def
        split: option.splits)
  have "?R ?s0" by (simp add: reserve_of_def initial_state_def scan_budget_of_def new_scan_budget_def Let_def)
  moreover have "preserves ?R (scan_loop st W)"
    unfolding scan_loop_def
    by (intro preserves_bindE import_reserve rounds_reserve reserve_kept keep)
  moreover have "preserves ?R (handle_stop e)" for e
    unfolding handle_stop_def by (intro preserves_prod reserve_kept keeps_bindE keeps_spent_change keep) simp
  moreover have "preserves ?R complete_scan"
    unfolding complete_scan_def by (intro reserve_kept keeps_bindE keeps_spent_change keep) simp
  ultimately have "?R (snd (thenE (catchE (scan_loop st W) handle_stop) complete_scan ?s0))"
    by (intro preservesD [of ?R "thenE (catchE (scan_loop st W) handle_stop) complete_scan"]
        preserves_bindE [of ?R "catchE (scan_loop st W) handle_stop"] preserves_catchE)
  moreover have "t = snd (thenE (catchE (scan_loop st W) handle_stop) complete_scan ?s0)"
    using assms unfolding run_scan_def by (simp split: if_splits)
  ultimately have "?R t" by (simp only:)
  then show ?thesis unfolding reserve_of_def limit by linarith
qed

theorem scan_sends_approved_reads_witness:
  "list_all (call_ok lab_settings lab_world ''http://lab:8000'' Vulnerable) (io_calls (lab_final POSITIVE_VULNERABLE)) \<and>
   length (io_calls (lab_final POSITIVE_VULNERABLE)) \<le> 12"
proof -
  have "sr_base_url (lab_scan POSITIVE_VULNERABLE) = ''http://lab:8000''" "sr_variant (lab_scan POSITIVE_VULNERABLE) = Vulnerable"
    "request_limit lab_settings (lab_scan POSITIVE_VULNERABLE) = 12"
    by code_simp+
  with scan_sends_approved_reads [OF lab_run [of POSITIVE_VULNERABLE]] show ?thesis by simp
qed

section \<open>Scenarios that pose no test\<close>

definition unposable :: "scenario \<Rightarrow> bool" where
  "unposable sc \<longleftrightarrow> sc \<in> {MISSING_AUTH, OUT_OF_SCOPE, STATE_CHANGING_ONLY}"

lemma unposable_blocked:
  assumes "unposable sc"
  shows "preflight (build_context (projection_of sc) obs rem n) \<noteq> None"
proof -
  let ?cx = "build_context (projection_of sc) obs rem n"
  have "\<not> constructible_read_only_test ?cx"
    using assms
    by (auto simp: unposable_def constructible_read_only_test_def build_context_def projection_of_def authenticated_def
        authenticated_profiles_def AUTHENTICATED_PROFILES_def any_supported_operation_def list_ex_iff
        capability_can_evaluate_def transfer_operation_def split: option.splits)
  then have "blocker_valid ?cx NO_TESTABLE_HYPOTHESIS" by (simp add: blocker_valid_def)
  then show ?thesis by (auto simp: preflight_def find_None_iff BLOCKER_PRIORITY_def)
qed

text \<open>At most the import was sent, no model was called and nothing was planned.\<close>

definition quiet_view :: "native_state \<Rightarrow> native_call list \<times> nat \<times> hypothesis list \<times> request_evidence list" where
  "quiet_view s = (io_calls s, sb_model_calls (na_budget s), sr_hypotheses (na_scan s), sr_evidence (na_scan s))"

definition quiet :: "native_state \<Rightarrow> bool" where
  "quiet s \<longleftrightarrow> length (io_calls s) \<le> 1 \<and> sb_model_calls (na_budget s) = 0 \<and> sr_hypotheses (na_scan s) = [] \<and>
     sr_evidence (na_scan s) = []"

lemma quiet_kept: "keeps quiet_view m \<Longrightarrow> preserves quiet m"
  unfolding preserves_def keeps_def quiet_def quiet_view_def by (metis prod.inject)

lemma keeps_quiet_change:
  "(\<And>r. sr_hypotheses (g r) = sr_hypotheses r \<and> sr_evidence (g r) = sr_evidence r) \<Longrightarrow> keeps quiet_view (change_scan g)"
  unfolding change_scan_def by (rule keeps_modifyE) (simp add: quiet_view_def)

lemma keeps_quiet_step:
  assumes "\<And>now b. sb_model_calls (snd (m now b)) = sb_model_calls b"
  shows "keeps quiet_view (budgeted W m)"
  unfolding keeps_def
proof
  fix s
  obtain r t where b: "budgeted W m s = (r, t)" by (cases "budgeted W m s")
  from b obtain now b x where "m now (na_budget s) = (x, b)" "na_budget t = b" "io_calls t = io_calls s" "na_scan t = na_scan s"
    by (rule budgeted_run)
  then show "quiet_view (snd (budgeted W m s)) = quiet_view s"
    using assms [of now "na_budget s"] b by (simp add: quiet_view_def)
qed

lemma keeps_quiet_steps [keep]:
  "keeps quiet_view (audit e)" "keeps quiet_view verify_scan" "keeps quiet_view (finish_scan reason status)"
  "keeps quiet_view (keep_record g)" "keeps quiet_view (block_scan g b)"
  "keeps quiet_view (budgeted W scan_iteration)" "keeps quiet_view (budgeted W scan_request)"
  "keeps quiet_view (handle_stop x)" "keeps quiet_view complete_scan" "keeps quiet_view (scan_context st W pr)"
proof -
  show a: "keeps quiet_view (audit e)" for e by (simp add: audit_def keeps_modifyE quiet_view_def)
  show v: "keeps quiet_view verify_scan"
    unfolding verify_scan_def by (intro keep a keeps_quiet_change) simp
  show f: "keeps quiet_view (finish_scan reason status)" for reason status
    unfolding finish_scan_def by (intro keep a keeps_quiet_change) simp
  show k: "keeps quiet_view (keep_record g)" for g
    unfolding keep_record_def by (intro keeps_quiet_change) simp
  show "keeps quiet_view (block_scan g b)"
    unfolding block_scan_def end_stage_def by (intro keep k f keeps_quiet_change) simp
  show "keeps quiet_view (handle_stop x)"
    unfolding handle_stop_def by (intro keep a keeps_quiet_change) simp
  show "keeps quiet_view complete_scan"
    unfolding complete_scan_def by (intro keep a v keeps_quiet_change) simp
  show "keeps quiet_view (scan_context st W pr)"
    unfolding scan_context_def keeps_def bindE_def lift_io_def by (simp add: quiet_view_def read_clock_def io_of_def bindE_def)
qed (rule keeps_quiet_step, simp add: scan_iteration_def scan_request_def check_time_def bindE_run rejectE_run)+

lemma context_blocked:
  assumes "unposable sc"
  shows "triple quiet (scan_context st W (projection_of sc)) (\<lambda>r t. case r of Inl e \<Rightarrow> quiet t | Inr cx \<Rightarrow> quiet t \<and> preflight cx \<noteq> None)"
proof (rule tripleI)
  fix s r t assume s: "quiet s" and run: "scan_context st W (projection_of sc) s = (r, t)"
  then have "quiet t" using quiet_kept [OF keeps_quiet_steps(10)] by (metis preservesD_eq)
  moreover have "r = Inr cx \<Longrightarrow> preflight cx \<noteq> None" for cx
    using run unposable_blocked [OF assms]
    by (auto simp: scan_context_def bindE_def Let_def split: prod.splits sum.splits)
  ultimately show "case r of Inl e \<Rightarrow> quiet t | Inr cx \<Rightarrow> quiet t \<and> preflight cx \<noteq> None" by (cases r) auto
qed

lemma triple_after:
  "preserves P m \<Longrightarrow> (\<And>a. triple P (f a) Q) \<Longrightarrow> (\<And>e s. P s \<Longrightarrow> Q (Inl e) s) \<Longrightarrow> triple P (bindE m f) Q"
  by (rule triple_bindE [where R = "\<lambda>_. P"]) (auto simp: triple_def split: sum.split dest: preservesD_eq)

lemma quiet_round:
  assumes "unposable sc" and "quiet s" and "running_fresh s" and "scan_round st W (projection_of sc) s = (r, t)"
  shows "quiet t \<and> r \<noteq> Inr False"
proof -
  let ?pr = "projection_of sc"
  let ?go = "\<lambda>cx retest. case preflight cx of
             Some b \<Rightarrow> thenE (preflight_terminal retest b) (retE True)
           | None \<Rightarrow> if retest then run_retest st W ?pr else discover st W ?pr cx"
  let ?Q = "\<lambda>r t. quiet t \<and> r \<noteq> Inr False"
  have "verifier_end (na_scan s) = None"
    using assms(2,3)
    by (simp add: quiet_def running_fresh_def verifier_end_def passed_def scan_findings_def scan_verdict_def verify_lab_def
        evaluate_lab_def bound_evidence_def Let_def)
  then have run: "thenE (budgeted W scan_iteration) (bindE (scan_context st W ?pr) (\<lambda>cx.
      bindE (the_scan (\<lambda>r. sr_retest_of r \<noteq> None)) (\<lambda>retest. thenE (audit ''PREFLIGHT'') (?go cx retest)))) s = (r, t)"
    using assms(4) by (simp add: scan_round_def the_scan_def bindE_def)
  have end_: "triple quiet (thenE (preflight_terminal retest b) (retE True)) ?Q" for retest b
    unfolding preflight_terminal_def
    by (rule triple_bindE [where R = "\<lambda>_. quiet"])
       (auto simp: triple_def bindE_run split: sum.split dest: preservesD_eq [OF quiet_kept [OF keeps_quiet_steps(5)]])
  have "triple (\<lambda>t. quiet t \<and> preflight cx \<noteq> None) (bindE (the_scan (\<lambda>r. sr_retest_of r \<noteq> None)) (\<lambda>retest.
      thenE (audit ''PREFLIGHT'') (?go cx retest))) ?Q" for cx
  proof (cases "preflight cx")
    case (Some b)
    show ?thesis unfolding Some option.case the_scan_def
      using end_ by (auto simp: triple_def bindE_def audit_def quiet_def split: prod.splits)
  qed (simp add: triple_def)
  then have "triple quiet (bindE (scan_context st W ?pr) (\<lambda>cx.
      bindE (the_scan (\<lambda>r. sr_retest_of r \<noteq> None)) (\<lambda>retest. thenE (audit ''PREFLIGHT'') (?go cx retest)))) ?Q"
    by - (rule triple_bindE [where R = "\<lambda>cx t. quiet t \<and> preflight cx \<noteq> None"],
      rule triple_weaken [OF context_blocked [OF assms(1)]], assumption, simp split: sum.splits, assumption)
  then have "triple quiet (thenE (budgeted W scan_iteration) (bindE (scan_context st W ?pr) (\<lambda>cx.
      bindE (the_scan (\<lambda>r. sr_retest_of r \<noteq> None)) (\<lambda>retest. thenE (audit ''PREFLIGHT'') (?go cx retest))))) ?Q"
    by - (rule triple_after [OF quiet_kept [OF keeps_quiet_steps(6)]], assumption, simp)
  from tripleD [OF this assms(2) run] show ?thesis .
qed

lemma send_once: "quiet s \<Longrightarrow> io_calls s = [] \<Longrightarrow> quiet (snd (lift_io (send_call W c) s))"
  by (simp add: lift_io_def send_call_def await_def quiet_def io_of_def split: awaited.split)

lemma import_quiet:
  assumes "quiet s" and "io_calls s = []"
  shows "quiet (snd (import_surface st W s))"
proof (cases "approve_import (wd_ip W) (ns_safety st)")
  case (Inl e)
  then show ?thesis using assms unfolding import_surface_def by (simp add: approved_def)
next
  case (Inr url)
  let ?P = "\<lambda>s. quiet s \<and> io_calls s = []" and ?c = "\<lparr>nc_method = ''GET'', nc_url = url, nc_bearer = None\<rparr>"
  have k: "preserves ?P m" if "keeps quiet_view m" for m :: "'x scan"
    using that unfolding preserves_def keeps_def quiet_def quiet_view_def by (metis prod.inject)
  let ?read = "\<lambda>reply. bindE (the_scan (\<lambda>r. (sr_scenario r, sr_variant r))) (\<lambda>(scenario, w).
      case reply of
        Reply_Broken _ _ \<Rightarrow> throwE Other_Stop
      | Reply_Body status raw \<Rightarrow>
          if status < 200 \<or> 300 \<le> status \<or> ns_max_response_bytes st < length raw then throwE Other_Stop
          else (case body_json (wd_foreign W) raw of
              Some (JObj spec) \<Rightarrow>
                (case project_scenario spec scenario of
                   Some pr \<Rightarrow> if sp_variant pr = w then retE pr else throwE Other_Stop
                 | None \<Rightarrow> throwE Other_Stop)
            | _ \<Rightarrow> throwE Other_Stop))"
  have read: "preserves quiet (?read reply)" for reply
    by (auto simp: the_scan_def intro!: pres split: native_reply.split option.split json.split)
  have "triple ?P (bindE (lift_io (send_call W ?c)) ?read) (\<lambda>_. quiet)"
    unfolding triple_snd using send_once read by (auto intro: preserved_after)
  then have "triple ?P (thenE (budgeted W scan_request) (thenE (audit ''TOOL_REQUEST'') (thenE (audit ''SAFETY_APPROVED'')
      (bindE (lift_io (send_call W ?c)) ?read)))) (\<lambda>_. quiet)"
    by - (rule triple_then [OF k [OF keeps_quiet_steps(7)]], blast, rule triple_then [OF k [OF keeps_quiet_steps(1)]], blast,
      rule triple_then [OF k [OF keeps_quiet_steps(1)]], blast)
  then show ?thesis using assms unfolding import_surface_def Inr approved_def by (simp add: triple_snd)
qed

lemma import_projects:
  assumes "import_surface st W s = (Inr pr, t)"
  shows "pr = projection_of (sr_scenario (na_scan t))"
proof -
  have "project_scenario spec sc = Some pr \<Longrightarrow> pr = projection_of sc" for spec sc
    by (simp add: project_scenario_def split: if_splits)
  then show ?thesis using assms
    unfolding import_surface_def the_scan_def
    by (elim bindE_InrE) (auto split: native_reply.splits option.splits json.splits if_splits)
qed

lemma quiet_rounds:
  assumes "unposable sc" and "quiet s" and "running_fresh s"
  shows "quiet (snd (scan_rounds st W (projection_of sc) (Suc n) s))"
proof -
  obtain r t where run: "scan_round st W (projection_of sc) s = (r, t)" by (cases "scan_round st W (projection_of sc) s")
  from quiet_round [OF assms run] have "quiet t" "r \<noteq> Inr False" by auto
  then show ?thesis
    unfolding scan_rounds.simps bindE_run run by (auto split: sum.split)
qed

text \<open>C34: a scan that was created for a scenario without a constructible test (no credentials, an
  ambiguous scope, or only state-changing operations) sends at most the import of the document and makes
  no model call, whatever the target, the planner and the clock do, and it ends in review or incomplete.\<close>

theorem unposable_scenarios_stay_silent:
  assumes "create_scan st stored i c = Some r" and "unposable (sr_scenario r)" and "run_scan st W r = Some t"
  shows "length (io_calls t) \<le> 1 \<and> sb_model_calls (na_budget t) = 0 \<and>
    sr_status (na_scan t) \<in> {S_REVIEW, S_INCOMPLETE}"
proof -
  let ?s0 = "initial_state st W r"
  have new: "sr_hypotheses r = []" "sr_evidence r = []"
    using assms(1) by (auto simp: create_scan_def queued_scan_def split: option.splits)
  have q0: "quiet ?s0" "io_calls ?s0 = []" "running ?s0"
    by (simp_all add: quiet_def running_def initial_state_def scan_budget_of_def new_scan_budget_def Let_def new)
  have loop: "quiet (snd (scan_loop st W ?s0))"
  proof -
    obtain x s where imp: "import_surface st W ?s0 = (x, s)" by (cases "import_surface st W ?s0")
    with import_quiet [OF q0(1, 2)] have qs: "quiet s" by (metis snd_conv)
    show ?thesis
    proof (cases x)
      case (Inl e)
      with imp qs show ?thesis by (simp add: scan_loop_def bindE_run)
    next
      case (Inr pr)
      define u where "u = snd (thenE (audit ''OPENAPI_OBSERVATION'') verify_scan s)"
      have v: "thenE (audit ''OPENAPI_OBSERVATION'') verify_scan s = (Inr (), u)"
        by (simp add: u_def audit_def verify_scan_def change_scan_def)
      have c: "core s = core ?s0" using keepsD [OF keeps_import imp] .
      then have "running s" using q0(3) on_core_states(2) unfolding on_core_def by metis
      have "sr_scenario (na_scan s) = sr_scenario r" using c by (simp add: core_def initial_state_def Let_def)
      with import_projects [OF imp [unfolded Inr]] have pr: "pr = projection_of (sr_scenario r)" by simp
      have "quiet u" unfolding u_def by (rule preservesD [OF quiet_kept qs]) (intro keep)
      moreover have "running_fresh u"
        using returnsD [OF returns_skip [OF on_core_states(2) keeps_audit(1) verify_refreshes] \<open>running s\<close> v] .
      ultimately have "quiet (snd (scan_rounds st W pr (st_max_iterations (ns_scan st) + 1) u))"
        unfolding pr using quiet_rounds [OF assms(2)] by simp
      moreover have "scan_loop st W ?s0 = scan_rounds st W pr (st_max_iterations (ns_scan st) + 1) u"
        using v unfolding scan_loop_def bindE_simps(2) [of "import_surface st W", OF imp [unfolded Inr]]
        by (simp add: bindE_run split: prod.splits sum.splits)
      ultimately show ?thesis by simp
    qed
  qed
  obtain s where s: "concluded s" "snd (complete_scan s) = t" "s = snd (catchE (scan_loop st W) handle_stop ?s0)"
    using assms(3) by (rule run_scan_Some)
  have "quiet s" unfolding s(3) catchE_def
    using loop preservesD [OF quiet_kept [OF keeps_quiet_steps(8)]] by (auto split: prod.split sum.split)
  then have "quiet t" using preservesD [OF quiet_kept [OF keeps_quiet_steps(9)]] s(2) by blast
  moreover have "sr_status (na_scan t) \<in> {S_REVIEW, S_INCOMPLETE}"
  proof -
    have e: "scan_findings (na_scan s) = []" "vf_status (scan_verdict (na_scan s)) \<noteq> PASS"
      using \<open>quiet s\<close> by (simp_all add: quiet_def scan_findings_def scan_verdict_def verify_lab_def evaluate_lab_def
          bound_evidence_def Let_def)
    then have "sr_status (na_scan t) = sr_status (na_scan s)"
      unfolding s(2) [symmetric] complete_scan_result by simp
    then show ?thesis using s(1) e by (cases "sr_status (na_scan s)") (simp_all add: concluded_def Let_def)
  qed
  ultimately show ?thesis by (simp add: quiet_def)
qed


lemma lab_out_of_scope: "sr_status (na_scan (lab_final OUT_OF_SCOPE)) = S_REVIEW"
  by code_simp

theorem unposable_scenarios_stay_silent_witness:
  "length (io_calls (lab_final OUT_OF_SCOPE)) \<le> 1 \<and> sr_status (na_scan (lab_final OUT_OF_SCOPE)) = S_REVIEW"
proof -
  have "unposable (sr_scenario (lab_scan OUT_OF_SCOPE))" by code_simp
  from unposable_scenarios_stay_silent [OF lab_created this lab_run] show ?thesis using lab_out_of_scope by simp
qed

end
