(* ===== verification/Retest_Props.thy ===== *)
theory Retest_Props
  imports Native_Scan_Props "HOL-Library.Code_Target_Nat"
begin

section \<open>Retests\<close>

text \<open>The directions of cross-owner access between the two principals.\<close>

definition crossing :: "string \<times> string \<Rightarrow> bool" where
  "crossing d \<longleftrightarrow> d = (''user_a'', ''B-200'') \<or> d = (''user_b'', ''A-100'')"

lemma all_some_total: "all_some (map f xs) = Some ys \<Longrightarrow> ys = map (\<lambda>x. the (f x)) xs \<and> list_all (\<lambda>x. f x \<noteq> None) xs"
  by (induction xs arbitrary: ys) (auto split: option.splits)

lemma all_some_map: "list_all (\<lambda>x. f x \<noteq> None) xs \<Longrightarrow> all_some (map f xs) = Some (map (\<lambda>x. the (f x)) xs)"
  by (induction xs) auto

lemma objectives_cross:
  assumes "retest_objectives p = Some os"
  shows "os \<noteq> [] \<and> list_all crossing os"
proof -
  let ?found = "verify_lab (sr_hypotheses p) (sr_evidence p) (sr_variant p) None"
  let ?m = "bound_evidence (sr_hypotheses p) (sr_evidence p) (sr_variant p)"
  let ?names = "concat (map lf_evidence ?found)"
  let ?es = "filter (\<lambda>e. re_name e \<in> set ?names) (sr_evidence p)"
  from assms have n: "?names \<noteq> []" and a: "all_some (map objective_of ?es) = Some os"
    by (auto simp: retest_objectives_def Let_def split: if_splits)
  have names: "set ?names = re_name ` {e \<in> set ?m. identity_ok e \<and> cross_owner e}"
    by (auto simp: verify_lab_def lab_finding_of_def)
  then have "?m \<noteq> []" using n by auto
  then have d: "distinct (map re_name (sr_evidence p))" and m: "set ?m \<subseteq> set (sr_evidence p)"
    by (auto simp: bound_evidence_def split: if_splits)
  have cross: "cross_owner e" if "e \<in> set ?es" for e
  proof -
    from that have "re_name e \<in> set ?names" by simp
    then obtain e' where "e' \<in> set ?m" "cross_owner e'" "re_name e' = re_name e" unfolding names by auto
    with m d that show ?thesis by (auto simp: distinct_map inj_on_def)
  qed
  from all_some_total [OF a] have os: "os = map (\<lambda>e. the (objective_of e)) ?es" and o1: "list_all (\<lambda>e. objective_of e \<noteq> None) ?es"
    by auto
  have "crossing (the (objective_of e))" if "e \<in> set ?es" for e
    using cross [OF that] o1 that
    by (auto simp: list_all_iff objective_of_def crossing_def cross_owner_def actor_of_def owner_of_def PROFILE_ACTORS_def OBJECTS_def
        split: if_splits)
  moreover have "?es \<noteq> []"
  proof -
    from n have "set ?names \<noteq> {}" by (simp only: set_empty not_False_eq_True)
    then obtain e where "e \<in> set ?m" "re_name e \<in> set ?names" unfolding names by auto
    with m have "e \<in> set ?es" by auto
    then show ?thesis by (metis empty_iff list.set(1))
  qed
  ultimately show ?thesis unfolding os by (auto simp: list_all_iff)
qed

lemma reads_of_set:
  assumes "set ds = set ds'" and "list_all (\<lambda>d. owner_profile_of_object (snd d) \<noteq> None) ds"
  shows "authorization_reads ds pr prefix = authorization_reads ds' pr prefix"
proof -
  let ?o = "owner_profile_of_object \<circ> snd"
  have t: "list_all (\<lambda>d. ?o d \<noteq> None) ds" "list_all (\<lambda>d. ?o d \<noteq> None) ds'" using assms by (auto simp: list_all_iff)
  have s: "sort (remdups ds) = sort (remdups ds')"
    by (simp add: assms(1) flip: sorted_list_of_set_sort_remdups)
  have o': "sort (remdups (map fst ds @ map (\<lambda>x. the (?o x)) ds)) = sort (remdups (map fst ds' @ map (\<lambda>x. the (?o x)) ds'))"
    by (simp add: assms(1) flip: sorted_list_of_set_sort_remdups)
  show ?thesis unfolding authorization_reads_def all_some_map [OF t(1)] all_some_map [OF t(2)] option.case s o' ..
qed

lemma subset_of_two: "S \<subseteq> {a, b} \<Longrightarrow> S \<noteq> {} \<Longrightarrow> \<exists>ds. S = set ds \<and> ds \<in> set [[a], [b], [a, b]]"
proof -
  assume "S \<subseteq> {a, b}" "S \<noteq> {}"
  then consider "S = {a}" | "S = {b}" | "S = {a, b}" by blast
  then show ?thesis
  proof cases
    case 1 then show ?thesis by (intro exI [of _ "[a]"]) simp
  next
    case 2 then show ?thesis by (intro exI [of _ "[b]"]) simp
  next
    case 3 then show ?thesis by (intro exI [of _ "[a, b]"]) simp
  qed
qed

lemma concrete_retests:
  "list_all (\<lambda>ds. compile_retest ds (projection_of PATCHED_NEGATIVE) \<noteq> None)
     [[(''user_a'', ''B-200'')], [(''user_b'', ''A-100'')], [(''user_a'', ''B-200''), (''user_b'', ''A-100'')]]"
  by code_simp

text \<open>C35: a retest that was created can always be run: its objectives are directions of cross-owner access that
  the parent's evidence still confirms, at least one, and the deterministic compiler turns them into a
  valid hypothesis on the patched surface.\<close>

theorem created_retest_compiles:
  assumes "create_scan st stored i c = Some r" and "sc_retest_of c \<noteq> None"
  shows "sr_variant r = Patched \<and> sr_objectives r \<noteq> [] \<and> list_all crossing (sr_objectives r) \<and>
    compile_retest (sr_objectives r) (projection_of (sr_scenario r)) \<noteq> None"
proof -
  from assms obtain p where os: "retest_objectives p = Some (sr_objectives r)" and r: "sr_scenario r = PATCHED_NEGATIVE" "sr_variant r = Patched"
    by (auto simp: create_scan_def queued_scan_def effective_scenario_def scenario_variant_def split: option.splits)
  let ?ds = "sr_objectives r" and ?a = "(''user_a'', ''B-200'')" and ?b = "(''user_b'', ''A-100'')"
  from objectives_cross [OF os] have ne: "?ds \<noteq> []" and cr: "list_all crossing ?ds" by auto
  then have "set ?ds \<subseteq> {?a, ?b}" "set ?ds \<noteq> {}" by (auto simp: list_all_iff crossing_def)
  then obtain ds where ds: "set ?ds = set ds" "ds \<in> set [[?a], [?b], [?a, ?b]]" by (blast dest: subset_of_two)
  have "owner_profile_of_object (snd ?a) \<noteq> None" "owner_profile_of_object (snd ?b) \<noteq> None" by code_simp+
  then have "list_all (\<lambda>d. owner_profile_of_object (snd d) \<noteq> None) ?ds"
    using cr by (auto simp: list_all_iff crossing_def)
  from reads_of_set [OF ds(1) this]
  have "compile_retest ?ds (projection_of PATCHED_NEGATIVE) = compile_retest ds (projection_of PATCHED_NEGATIVE)"
    using ne ds(2) by (auto simp: compile_retest_def)
  also have "\<dots> \<noteq> None" using concrete_retests ds(2) unfolding list_all_iff by blast
  finally show ?thesis using ne cr r by simp
qed


text \<open>A parent that read another's account.\<close>

definition leaked :: request_evidence where
  "leaked = \<lparr>re_name = ''cross'', re_method = ''GET'', re_path = object_path Vulnerable ''B-200'', re_profile = ''user_a'',
     re_status = Some 200, re_excerpt = obj [(''account_id'', str_value ''B-200''), (''owner_id'', str_value ''user-b'')],
     re_error = None\<rparr>"

definition failed_parent :: scan_result where
  "failed_parent = (let h = \<lparr>hy_id = ''h-1'', hy_title = ''ownership'', hy_category = ''BOLA'', hy_requests = [demo_plan_of leaked]\<rparr> in
     (lab_scan POSITIVE_VULNERABLE)\<lparr>sr_status := S_FAIL, sr_hypotheses := [h], sr_evidence := [leaked],
       sr_findings := verify_lab [h] [leaked] Vulnerable None\<rparr>)"

definition retest_create :: scan_create where
  "retest_create = (lab_create PATCHED_NEGATIVE)\<lparr>sc_retest_of := Some ''scan-000000000001''\<rparr>"

lemma demo_retest_created:
  "create_scan lab_settings (\<lambda>i. if i = ''scan-000000000001'' then Some failed_parent else None) ''scan-000000000002'' retest_create =
     Some (queued_scan lab_settings ''scan-000000000002'' retest_create [(''user_a'', ''B-200'')])"
  by code_simp

theorem created_retest_compiles_witness:
  "compile_retest [(''user_a'', ''B-200'')] (projection_of PATCHED_NEGATIVE) \<noteq> None"
proof -
  have "sc_retest_of retest_create \<noteq> None" by (simp add: retest_create_def)
  from created_retest_compiles [OF demo_retest_created this]
  have "compile_retest (sr_objectives (queued_scan lab_settings ''scan-000000000002'' retest_create [(''user_a'', ''B-200'')]))
      (projection_of (sr_scenario (queued_scan lab_settings ''scan-000000000002'' retest_create [(''user_a'', ''B-200'')]))) \<noteq> None"
    by blast
  then show ?thesis by (simp add: queued_scan_def effective_scenario_def retest_create_def)
qed

end
