(* ===== verification/Ip_Address.thy ===== *)
theory Ip_Address
  imports Web
begin

text \<open>
  The part of Python's \<open>ipaddress\<close> (3.12) that the target inventory calls: reading and printing an
  IPv4 or IPv6 address or network, link-local addresses and membership in a network.  An address is
  its integer, an IPv6 address also its zone; \<open>None\<close> is the \<open>ValueError\<close>.
\<close>

section \<open>Positional numerals\<close>

definition value_of :: "nat \<Rightarrow> nat list \<Rightarrow> nat" where
  "value_of b ds = foldl (\<lambda>a d. b * a + d) 0 ds"

fun digits_of :: "nat \<Rightarrow> nat \<Rightarrow> nat \<Rightarrow> nat list" where
  "digits_of b 0 n = []"
| "digits_of b (Suc k) n = digits_of b k (n div b) @ [n mod b]"

lemma value_of_snoc [simp]: "value_of b (ds @ [d]) = b * value_of b ds + d"
  by (simp add: value_of_def)

lemma value_of_Nil [simp]: "value_of b [] = 0"
  by (simp add: value_of_def)

lemma length_digits_of [simp]: "length (digits_of b k n) = k"
  by (induction k arbitrary: n) auto

lemma digits_of_below: "0 < b \<Longrightarrow> list_all (\<lambda>d. d < b) (digits_of b k n)"
  by (induction k arbitrary: n) auto

lemma value_digits: "n < b ^ k \<Longrightarrow> value_of b (digits_of b k n) = n"
proof (induction k arbitrary: n)
  case (Suc k)
  then have "n div b < b ^ k" by (cases "b = 0") (auto simp: less_mult_imp_div_less mult.commute)
  with Suc.IH show ?case by simp
qed simp

lemma value_below: "list_all (\<lambda>d. d < b) ds \<Longrightarrow> value_of b ds < b ^ length ds"
proof (induction ds rule: rev_induct)
  case (snoc d ds)
  then have "value_of b ds + 1 \<le> b ^ length ds" and "d < b" by auto
  then have "b * value_of b ds + d < b * (value_of b ds + 1)" by simp
  also have "\<dots> \<le> b * b ^ length ds" using \<open>value_of b ds + 1 \<le> b ^ length ds\<close> by (rule mult_le_mono2)
  finally show ?case by simp
qed simp

lemma digits_value: "list_all (\<lambda>d. d < b) ds \<Longrightarrow> digits_of b (length ds) (value_of b ds) = ds"
proof (induction ds rule: rev_induct)
  case (snoc d ds)
  then have "d < b" by simp
  then have "(b * value_of b ds + d) div b = value_of b ds" "(b * value_of b ds + d) mod b = d" by auto
  with snoc show ?case by simp
qed simp

section \<open>IPv4\<close>

definition parse_octet :: "string \<Rightarrow> nat option" where
  "parse_octet s =
     (if s \<noteq> [] \<and> list_all is_digit s \<and> length s \<le> 3 \<and> (s = ''0'' \<or> hd s \<noteq> CHR ''0'') \<and> str_nat s \<le> 255
      then Some (str_nat s) else None)"

definition parse_v4 :: "string \<Rightarrow> nat option" where
  "parse_v4 s =
     (let octets = split_on (CHR ''.'') s in
      if length octets = 4 then map_option (value_of 256) (all_some (map parse_octet octets)) else None)"

definition v4_text :: "nat \<Rightarrow> string" where
  "v4_text n = join_with ''.'' (map nat_str (digits_of 256 4 n))"

section \<open>IPv6\<close>

fun hex_str :: "nat \<Rightarrow> string" where
  "hex_str n = (if n < 16 then [hex_digit n] else hex_str (n div 16) @ [hex_digit (n mod 16)])"

declare hex_str.simps [simp del]

definition parse_hextet :: "string \<Rightarrow> nat option" where
  "parse_hextet s = (if s \<noteq> [] \<and> length s \<le> 4 then map_option (value_of 16) (all_some (map hex_value s)) else None)"

text \<open>A last part that is written as an IPv4 address stands for two.\<close>

definition v4_suffix :: "string list \<Rightarrow> string list option" where
  "v4_suffix parts =
     (if CHR ''.'' \<in> set (last parts) then
        map_option (\<lambda>n. butlast parts @ [hex_str (n div 65536 mod 65536), hex_str (n mod 65536)]) (parse_v4 (last parts))
      else Some parts)"

text \<open>The parts around the one empty inner part, where zeros are left out; a part that is empty at an
  end must stand next to it.\<close>

definition close_gap :: "string list \<Rightarrow> string list \<Rightarrow> nat list option" where
  "close_gap hi lo =
     (if 7 < length hi + length lo then None
      else (case (all_some (map parse_hextet hi), all_some (map parse_hextet lo)) of
              (Some h, Some l) \<Rightarrow> Some (h @ replicate (8 - (length h + length l)) 0 @ l)
            | _ \<Rightarrow> None))"

definition parse_hextets :: "string list \<Rightarrow> nat list option" where
  "parse_hextets parts =
     (let inner = butlast (tl parts) in
      if [] \<notin> set inner then
        (if length parts = 8 then all_some (map parse_hextet parts) else None)
      else
        let hi = hd parts # takeWhile (\<lambda>p. p \<noteq> []) inner;
            lo = tl (dropWhile (\<lambda>p. p \<noteq> []) inner) @ [last parts];
            ends = (\<lambda>ps. if ps = [[]] then [] else ps) in
        if [] \<in> set (butlast lo) then None else close_gap (ends hi) (ends lo))"

definition parse_v6 :: "string \<Rightarrow> nat option" where
  "parse_v6 s =
     (let parts = split_on (CHR '':'') s in
      if length parts < 3 then None
      else (case v4_suffix parts of
              None \<Rightarrow> None
            | Some ps \<Rightarrow> if 9 < length ps then None else map_option (value_of 65536) (parse_hextets ps)))"

text \<open>The first of the longest runs of at least two zero parts is left out.\<close>

definition zero_runs :: "nat list \<Rightarrow> nat list" where
  "zero_runs hs = map (\<lambda>i. length (takeWhile (\<lambda>h. h = 0) (drop i hs))) [0..<length hs]"

definition hextets_text :: "nat list \<Rightarrow> string" where
  "hextets_text hs =
     (let runs = zero_runs hs; m = foldr max runs 0; i = length (takeWhile (\<lambda>r. r \<noteq> m) runs) in
      if 1 < m then
        join_with '':'' (map hex_str (take i hs)) @ ''::'' @ join_with '':'' (map hex_str (drop (i + m) hs))
      else join_with '':'' (map hex_str hs))"

definition v6_text :: "nat \<Rightarrow> string" where
  "v6_text n = hextets_text (digits_of 65536 8 n)"

section \<open>Addresses\<close>

datatype ip_addr = V4 nat | V6 nat "string option"

definition ip_text :: "ip_addr \<Rightarrow> string" where
  "ip_text a = (case a of V4 n \<Rightarrow> v4_text n
     | V6 n zone \<Rightarrow> v6_text n @ (case zone of None \<Rightarrow> [] | Some z \<Rightarrow> CHR ''%'' # z))"

definition parse_zoned :: "string \<Rightarrow> ip_addr option" where
  "parse_zoned s =
     (case partition_at (CHR ''%'') s of (addr, sep, zone) \<Rightarrow>
        if sep = [] then map_option (\<lambda>n. V6 n None) (parse_v6 addr)
        else if zone = [] \<or> CHR ''%'' \<in> set zone then None
        else map_option (\<lambda>n. V6 n (Some zone)) (parse_v6 addr))"

definition ip_address :: "string \<Rightarrow> ip_addr option" where
  "ip_address s =
     (if CHR ''/'' \<in> set s then None
      else case parse_v4 s of Some n \<Rightarrow> Some (V4 n) | None \<Rightarrow> parse_zoned s)"

definition is_link_local :: "ip_addr \<Rightarrow> bool" where
  "is_link_local a = (case a of V4 n \<Rightarrow> n div 2 ^ 16 = 169 * 256 + 254 | V6 n _ \<Rightarrow> n div 2 ^ 118 = 0x3fa)"

section \<open>Networks\<close>

text \<open>The network address and the length of its prefix.\<close>

record ip_net =
  in_address :: ip_addr
  in_prefix :: nat

definition addr_int :: "ip_addr \<Rightarrow> nat" where
  "addr_int a = (case a of V4 n \<Rightarrow> n | V6 n _ \<Rightarrow> n)"

definition addr_width :: "ip_addr \<Rightarrow> nat" where
  "addr_width a = (case a of V4 _ \<Rightarrow> 32 | V6 _ _ \<Rightarrow> 128)"

definition parse_prefix :: "nat \<Rightarrow> string \<Rightarrow> nat option" where
  "parse_prefix most s =
     (if s \<noteq> [] \<and> list_all is_digit s \<and> str_nat s \<le> most then Some (str_nat s) else None)"

text \<open>A net mask of leading ones, or its complement.\<close>

definition mask_prefix :: "nat \<Rightarrow> nat option" where
  "mask_prefix m = find (\<lambda>p. m = (2 ^ p - 1) * 2 ^ (32 - p)) [0..<33]"

definition v4_prefix :: "string \<Rightarrow> nat option" where
  "v4_prefix s =
     (case parse_prefix 32 s of
        Some p \<Rightarrow> Some p
      | None \<Rightarrow> (case parse_v4 s of
          None \<Rightarrow> None
        | Some m \<Rightarrow> (case mask_prefix m of Some p \<Rightarrow> Some p | None \<Rightarrow> mask_prefix (2 ^ 32 - 1 - m))))"

text \<open>\<open>strict=False\<close>: the bits behind the prefix are cleared, and a zone with them.\<close>

definition network_of :: "ip_addr \<Rightarrow> nat \<Rightarrow> ip_net" where
  "network_of a p =
     (let size = 2 ^ (addr_width a - p); n = addr_int a div size * size in
      \<lparr>in_address = (case a of V4 _ \<Rightarrow> V4 n | V6 k zone \<Rightarrow> if n = k then V6 k zone else V6 n None), in_prefix = p\<rparr>)"

definition ip_network :: "string \<Rightarrow> ip_net option" where
  "ip_network s =
     (let parts = split_on (CHR ''/'') s; addr = hd parts; mask = (if tl parts = [] then None else Some (hd (tl parts))) in
      if 2 < length parts then None
      else
        (case (parse_v4 addr, case mask of None \<Rightarrow> Some 32 | Some m \<Rightarrow> v4_prefix m) of
           (Some n, Some p) \<Rightarrow> Some (network_of (V4 n) p)
         | _ \<Rightarrow>
             (case (parse_zoned addr, case mask of None \<Rightarrow> Some 128 | Some m \<Rightarrow> parse_prefix 128 m) of
                (Some a, Some p) \<Rightarrow> Some (network_of a p)
              | _ \<Rightarrow> None)))"

definition net_text :: "ip_net \<Rightarrow> string" where
  "net_text w = ip_text (in_address w) @ ''/'' @ nat_str (in_prefix w)"

definition last_address :: "ip_net \<Rightarrow> ip_addr" where
  "last_address w =
     (let n = addr_int (in_address w) + 2 ^ (addr_width (in_address w) - in_prefix w) - 1 in
      case in_address w of V4 _ \<Rightarrow> V4 n | V6 _ _ \<Rightarrow> V6 n None)"

definition net_link_local :: "ip_net \<Rightarrow> bool" where
  "net_link_local w \<longleftrightarrow> is_link_local (in_address w) \<and> is_link_local (last_address w)"

text \<open>\<open>address in network\<close>: of the same version, with the same prefix.\<close>

definition in_network :: "ip_addr \<Rightarrow> ip_net \<Rightarrow> bool" where
  "in_network a w \<longleftrightarrow>
     addr_width a = addr_width (in_address w) \<and>
     (let size = 2 ^ (addr_width a - in_prefix w) in addr_int a div size * size = addr_int (in_address w))"


section \<open>Reading what was printed\<close>

lemma split_on_no_sep: "x \<in> set (split_on c s) \<Longrightarrow> c \<notin> set x"
proof (induction s arbitrary: x)
  case (Cons a s)
  obtain y ys where yys: "split_on c s = y # ys" by (cases "split_on c s") auto
  with Cons show ?case by (auto split: if_splits)
qed simp

lemma join_split_on [simp]: "join_with [c] (split_on c s) = s"
proof (induction s)
  case (Cons a s)
  obtain y ys where yys: "split_on c s = y # ys" by (cases "split_on c s") auto
  with Cons show ?case by (cases ys) auto
qed simp

lemma joined_split_on:
  "xs \<noteq> [] \<Longrightarrow> list_all (\<lambda>x. c \<notin> set x) xs \<Longrightarrow> split_on c (join_with [c] xs) = xs"
  by (induction xs rule: induct_list012) (auto simp: split_on_none split_on_append)

lemma split_on_between:
  "c \<notin> set a \<Longrightarrow> split_on c (a @ c # b) = a # split_on c b"
  by (rule split_on_append)

lemma split_on_join_then:
  "list_all (\<lambda>x. c \<notin> set x) xs \<Longrightarrow>
   split_on c (join_with [c] xs @ c # t) = (if xs = [] then [[]] else xs) @ split_on c t"
  by (induction xs rule: induct_list012) (auto simp: split_on_append)

lemma all_some_map_Some: "(\<And>x. x \<in> set xs \<Longrightarrow> f x = Some (g x)) \<Longrightarrow> all_some (map f xs) = Some (map g xs)"
  by (induction xs) auto

lemma all_some_mapD: "all_some (map f xs) = Some ys \<Longrightarrow> list_all2 (\<lambda>x y. f x = Some y) xs ys"
  by (induction xs arbitrary: ys) (auto split: option.splits)

lemma all_digits_nat_str: "list_all is_digit (nat_str n)"
  by (simp add: list_all_iff nat_str_is_digit)

lemma nat_str_zero: "nat_str 0 = ''0''"
  by code_simp

lemma str_nat_snoc: "str_nat (s @ [c]) = 10 * str_nat s + (of_char c - 48)"
  by simp

lemma digit_value: "is_digit c \<Longrightarrow> (of_char c :: nat) - 48 < 10 \<and> char_of (48 + ((of_char c :: nat) - 48)) = c"
  by (auto simp: is_digit_def less_eq_char_def)

lemma nat_str_str_nat:
  assumes "s \<noteq> []" and "list_all is_digit s" and "s = ''0'' \<or> hd s \<noteq> CHR ''0''"
  shows "nat_str (str_nat s) = s"
  using assms
proof (induction s rule: rev_induct)
  case (snoc c s)
  have c: "(of_char c :: nat) - 48 < 10" "char_of (48 + ((of_char c :: nat) - 48)) = c"
    using snoc.prems digit_value [of c] by auto
  show ?case
  proof (cases "s = []")
    case True
    with c show ?thesis by (simp add: nat_str.simps [of "of_char c - 48"])
  next
    case False
    with snoc.prems have h: "hd s \<noteq> CHR ''0''" by (cases s) auto
    with False snoc have IH: "nat_str (str_nat s) = s" by simp
    have "str_nat s \<noteq> 0"
    proof
      assume "str_nat s = 0"
      with IH have "s = nat_str 0" by simp
      with h show False by (simp add: nat_str_zero)
    qed
    then have "nat_str (10 * str_nat s + (of_char c - 48)) = nat_str (str_nat s) @ [c]"
      using c by (subst nat_str.simps) (simp del: str_nat.simps)
    with IH show ?thesis by (simp only: str_nat_snoc)
  qed
qed simp

lemma length_nat_str: "n < 10 ^ Suc k \<Longrightarrow> length (nat_str n) \<le> Suc k"
proof (induction k arbitrary: n)
  case 0
  then show ?case by (simp add: nat_str.simps)
next
  case (Suc k)
  show ?case
  proof (cases "n < 10")
    case False
    from Suc.prems have "n div 10 < 10 ^ Suc k" by (simp add: less_mult_imp_div_less)
    with Suc.IH False show ?thesis by (subst nat_str.simps) auto
  qed (simp add: nat_str.simps)
qed

lemma parse_octet_nat_str: "n < 256 \<Longrightarrow> parse_octet (nat_str n) = Some n"
  using all_digits_nat_str [of n] nat_str_hd_zero [of n] length_nat_str [of n 2]
  by (auto simp: parse_octet_def nat_str_zero simp del: str_nat.simps)

lemma parse_octetD: "parse_octet s = Some n \<Longrightarrow> nat_str n = s \<and> n < 256"
  using nat_str_str_nat [of s] by (auto simp: parse_octet_def simp del: str_nat.simps split: if_splits)

lemma digit_not: "is_digit c \<Longrightarrow> c \<notin> {CHR ''.'', CHR '':'', CHR ''/'', CHR ''%'', CHR '' ''}"
  by (auto simp: is_digit_def less_eq_char_def)

lemma nat_str_no: "c \<in> {CHR ''.'', CHR '':'', CHR ''/'', CHR ''%'', CHR '' ''} \<Longrightarrow> c \<notin> set (nat_str n)"
  using all_digits_nat_str [of n] digit_not by (auto simp: list_all_iff)

theorem parse_v4_text: "n < 2 ^ 32 \<Longrightarrow> parse_v4 (v4_text n) = Some n"
proof -
  assume n: "n < 2 ^ 32"
  let ?ds = "digits_of 256 4 n"
  have "split_on (CHR ''.'') (v4_text n) = map nat_str ?ds"
    unfolding v4_text_def
    by (rule joined_split_on) (auto simp: list_all_iff nat_str_no simp flip: length_0_conv)
  moreover have "all_some (map parse_octet (map nat_str ?ds)) = Some ?ds"
    using all_some_map_Some [of ?ds "\<lambda>d. parse_octet (nat_str d)" "\<lambda>d. d"] digits_of_below [of 256 4 n]
    by (auto simp: parse_octet_nat_str list_all_iff comp_def)
  ultimately show ?thesis
    using value_digits [of n 256 4] n by (simp add: parse_v4_def)
qed

theorem parse_v4_canonical:
  assumes "parse_v4 s = Some n"
  shows "v4_text n = s" and "n < 2 ^ 32"
proof -
  from assms obtain ds where ds: "all_some (map parse_octet (split_on (CHR ''.'') s)) = Some ds"
    and n: "n = value_of 256 ds" and len: "length (split_on (CHR ''.'') s) = 4"
    by (auto simp: parse_v4_def Let_def split: if_splits)
  have all: "list_all2 (\<lambda>x y. parse_octet x = Some y) (split_on (CHR ''.'') s) ds"
    by (rule all_some_mapD) (rule ds)
  then have l: "length ds = 4" using len by (auto dest: list_all2_lengthD)
  have "list_all2 (\<lambda>x y. nat_str y = x \<and> y < 256) (split_on (CHR ''.'') s) ds"
    using all by (rule list_all2_mono) (rule parse_octetD)
  then have m: "map nat_str ds = split_on (CHR ''.'') s" and b: "list_all (\<lambda>d. d < 256) ds"
    by (induction rule: list_all2_induct) auto
  show "n < 2 ^ 32" using value_below [OF b] l n by simp
  have "digits_of 256 4 n = ds" using digits_value [OF b] l n by simp
  with m show "v4_text n = s" by (simp add: v4_text_def)
qed

lemma parse_v4_chars: "parse_v4 s = Some n \<Longrightarrow> c \<in> set s \<Longrightarrow> is_digit c \<or> c = CHR ''.''"
proof -
  have j: "c \<in> set (join_with ''.'' (map nat_str ds)) \<Longrightarrow> is_digit c \<or> c = CHR ''.''" for c ds
    by (induction ds rule: induct_list012) (use all_digits_nat_str in \<open>auto simp: list_all_iff\<close>)
  assume "parse_v4 s = Some n" "c \<in> set s"
  with parse_v4_canonical [of s n] j show ?thesis by (metis v4_text_def)
qed


lemma hex_value_digit: "d < 16 \<Longrightarrow> hex_value (hex_digit d) = Some d"
proof -
  have "list_all (\<lambda>d. hex_value (hex_digit d) = Some d) [0..<16]" by code_simp
  then show "d < 16 \<Longrightarrow> hex_value (hex_digit d) = Some d" by (simp add: list_all_iff)
qed

lemma hex_value_below: "hex_value c = Some d \<Longrightarrow> d < 16"
  by (auto simp: hex_value_def is_digit_def less_eq_char_def split: if_splits)

lemma all_some_append:
  "all_some (xs @ ys) = (case (all_some xs, all_some ys) of (Some a, Some b) \<Rightarrow> Some (a @ b) | _ \<Rightarrow> None)"
  by (induction xs) (auto split: option.splits)

lemma hex_str_value: "\<exists>ds. all_some (map hex_value (hex_str n)) = Some ds \<and> value_of 16 ds = n"
proof (induction n rule: hex_str.induct)
  case (1 n)
  show ?case
  proof (cases "n < 16")
    case True
    then have "all_some (map hex_value (hex_str n)) = Some [n]"
      by (simp add: hex_str.simps hex_value_digit)
    moreover have "value_of 16 [n] = n" using value_of_snoc [of 16 "[]" n] by simp
    ultimately show ?thesis by blast
  next
    case False
    with 1 obtain ds where "all_some (map hex_value (hex_str (n div 16))) = Some ds" "value_of 16 ds = n div 16"
      by blast
    with False have "all_some (map hex_value (hex_str n)) = Some (ds @ [n mod 16])" "value_of 16 (ds @ [n mod 16]) = n"
      by (simp_all add: hex_str.simps [of n] all_some_append hex_value_digit)
    then show ?thesis by blast
  qed
qed

lemma hex_str_nonempty [simp]: "hex_str n \<noteq> []" "[] \<noteq> hex_str n"
  by (simp_all add: hex_str.simps)

lemma length_takeWhile_less: "x \<in> set xs \<Longrightarrow> \<not> P x \<Longrightarrow> length (takeWhile P xs) < length xs"
  by (induction xs) auto

lemma length_hex_str: "n < 16 ^ Suc k \<Longrightarrow> length (hex_str n) \<le> Suc k"
proof (induction k arbitrary: n)
  case 0
  then show ?case by (simp add: hex_str.simps)
next
  case (Suc k)
  show ?case
  proof (cases "n < 16")
    case False
    from Suc.prems have "n div 16 < 16 ^ Suc k" by (simp add: less_mult_imp_div_less)
    with Suc.IH False show ?thesis by (subst hex_str.simps) auto
  qed (simp add: hex_str.simps)
qed

lemma parse_hextet_hex_str: "n < 65536 \<Longrightarrow> parse_hextet (hex_str n) = Some n"
  using hex_str_value [of n] length_hex_str [of n 3] by (auto simp: parse_hextet_def)

lemma parse_hextetD: "parse_hextet s = Some n \<Longrightarrow> n < 65536"
proof -
  assume "parse_hextet s = Some n"
  then obtain ds where ds: "all_some (map hex_value s) = Some ds" and n: "n = value_of 16 ds" and len: "length s \<le> 4"
    by (auto simp: parse_hextet_def split: if_splits)
  from all_some_mapD [OF ds] have l: "length ds = length s" and b: "list_all (\<lambda>d. d < 16) ds"
    by (auto dest: list_all2_lengthD simp: list_all2_conv_all_nth list_all_length hex_value_below)
  have "(16::nat) ^ length ds \<le> 16 ^ 4" using l len by (intro power_increasing) auto
  with value_below [OF b] n show ?thesis by simp
qed

lemma hex_digit_char: "d < 16 \<Longrightarrow> hex_digit d \<notin> {CHR ''.'', CHR '':'', CHR ''/'', CHR ''%'', CHR '' ''}"
proof -
  have "list_all (\<lambda>d. hex_digit d \<notin> {CHR ''.'', CHR '':'', CHR ''/'', CHR ''%'', CHR '' ''}) [0..<16]" by code_simp
  then show "d < 16 \<Longrightarrow> hex_digit d \<notin> {CHR ''.'', CHR '':'', CHR ''/'', CHR ''%'', CHR '' ''}" by (simp add: list_all_iff)
qed

lemma hex_str_no: "c \<in> {CHR ''.'', CHR '':'', CHR ''/'', CHR ''%'', CHR '' ''} \<Longrightarrow> c \<notin> set (hex_str n)"
proof (induction n rule: hex_str.induct)
  case (1 n)
  with hex_digit_char [of n] hex_digit_char [of "n mod 16"] show ?case
    by (cases "n < 16") (auto simp: hex_str.simps [of n])
qed

text \<open>Parts with one gap.\<close>

lemma parse_hextets_gap:
  assumes "P \<noteq> []" "Q \<noteq> []" "[] \<notin> set (tl P)" "[] \<notin> set (butlast Q)"
  shows "parse_hextets (P @ [] # Q) =
    close_gap (if P = [[]] then [] else P) (if Q = [[]] then [] else Q)"
proof -
  have inner: "butlast (tl (P @ [] # Q)) = tl P @ [] # butlast Q" using assms by (simp add: butlast_append)
  have t: "takeWhile (\<lambda>p. p \<noteq> []) (tl P @ [] # butlast Q) = tl P"
    using assms(3) by (subst takeWhile_append2) auto
  have d: "tl (dropWhile (\<lambda>p. p \<noteq> []) (tl P @ [] # butlast Q)) = butlast Q"
    using assms(3) by (subst dropWhile_append2) auto
  have ends: "hd (P @ [] # Q) # tl P = P" "butlast Q @ [last (P @ [] # Q)] = Q" using assms(1,2) by auto
  show ?thesis
    unfolding parse_hextets_def inner Let_def t d ends using assms(4) by simp
qed

lemma split_gap:
  assumes "list_all (\<lambda>x. c \<notin> set x) A" "list_all (\<lambda>x. c \<notin> set x) B"
  shows "split_on c (join_with [c] A @ c # c # join_with [c] B) =
    (if A = [] then [[]] else A) @ [] # (if B = [] then [[]] else B)"
  using assms by (simp add: split_on_join_then joined_split_on)

lemma foldr_max_mem: "foldr max xs (0 :: nat) \<in> insert 0 (set xs)"
  by (induction xs) (auto simp: max_def)

lemma takeWhile_zeros: "length (takeWhile (\<lambda>h. h = (0::nat)) xs) = m \<Longrightarrow> xs = replicate m 0 @ drop m xs"
  by (induction xs arbitrary: m) (auto simp: neq_Nil_conv)

lemma hextets_text_gap:
  assumes "hs \<noteq> []"
  obtains "hextets_text hs = join_with '':'' (map hex_str hs)"
  | A m B where "hs = A @ replicate m 0 @ B" and "1 < m"
      and "hextets_text hs = join_with '':'' (map hex_str A) @ ''::'' @ join_with '':'' (map hex_str B)"
proof -
  define m where "m = foldr max (zero_runs hs) 0"
  define i where "i = length (takeWhile (\<lambda>r. r \<noteq> m) (zero_runs hs))"
  show thesis
  proof (cases "1 < m")
    case True
    then have "m \<in> set (zero_runs hs)" using foldr_max_mem [of "zero_runs hs"] by (auto simp: m_def)
    then have i: "i < length (zero_runs hs)" unfolding i_def
      by (rule length_takeWhile_less) simp
    then have "zero_runs hs ! i = m" using nth_length_takeWhile [of "\<lambda>r. r \<noteq> m" "zero_runs hs"] by (simp add: i_def)
    with i have "length (takeWhile (\<lambda>h. h = 0) (drop i hs)) = m" by (simp add: zero_runs_def)
    then have "drop i hs = replicate m 0 @ drop m (drop i hs)" by (rule takeWhile_zeros)
    then have "hs = take i hs @ replicate m 0 @ drop (i + m) hs"
      by (metis append_take_drop_id drop_drop add.commute)
    with True that(2) show thesis by (simp add: hextets_text_def Let_def m_def i_def)
  next
    case False
    with that(1) show thesis by (simp add: hextets_text_def Let_def m_def)
  qed
qed

lemma parse_hex_strs: "list_all (\<lambda>h. h < 65536) hs \<Longrightarrow> all_some (map parse_hextet (map hex_str hs)) = Some hs"
  using all_some_map_Some [of hs "\<lambda>h. parse_hextet (hex_str h)" "\<lambda>h. h"]
  by (auto simp: parse_hextet_hex_str list_all_iff comp_def)

lemma parse_hextets_text:
  assumes "length hs = 8" and b: "list_all (\<lambda>h. h < 65536) hs"
  shows "\<exists>ps. split_on (CHR '':'') (hextets_text hs) = ps \<and> 3 \<le> length ps \<and> length ps \<le> 9 \<and>
    CHR ''.'' \<notin> set (last ps) \<and> parse_hextets ps = Some hs"
proof -
  have no: "list_all (\<lambda>x. CHR '':'' \<notin> set x) (map hex_str xs)" for xs by (simp add: list_all_iff hex_str_no)
  have dot: "xs \<noteq> [] \<Longrightarrow> CHR ''.'' \<notin> set (last (map hex_str xs))" for xs by (simp add: last_map hex_str_no)
  from assms have "hs \<noteq> []" by auto
  then show ?thesis
  proof (cases rule: hextets_text_gap)
    case 1
    then have sp: "split_on (CHR '':'') (hextets_text hs) = map hex_str hs"
      using \<open>hs \<noteq> []\<close> joined_split_on [OF _ no, of hs] by simp
    have "[] \<notin> set (butlast (tl (map hex_str hs)))" by (auto simp flip: map_tl map_butlast)
    then have "parse_hextets (map hex_str hs) = Some hs"
      using assms parse_hex_strs [OF b] by (simp add: parse_hextets_def)
    with sp assms(1) dot [OF \<open>hs \<noteq> []\<close>] show ?thesis by simp
  next
    case (2 A m B)
    let ?P = "if A = [] then [[]] else map hex_str A" and ?Q = "if B = [] then [[]] else map hex_str B"
    have sp: "split_on (CHR '':'') (hextets_text hs) = ?P @ [] # ?Q"
      using split_gap [OF no no, of A B] 2 by simp
    have len: "length A + m + length B = 8" using assms(1) 2 by simp
    have ne: "[] \<notin> set (tl ?P)" "[] \<notin> set (butlast ?Q)"
      by (auto dest!: in_set_butlastD list.set_sel(2) [rotated])
    have not: "map hex_str xs \<noteq> [[]]" for xs by (cases xs) auto
    have "parse_hextets (?P @ [] # ?Q) = Some (A @ replicate (8 - (length A + length B)) 0 @ B)"
      using parse_hextets_gap [of ?P ?Q] ne not len \<open>1 < m\<close> b 2
      by (simp add: close_gap_def parse_hex_strs del: map_map)
    moreover have "8 - (length A + length B) = m" using len by simp
    ultimately have parsed: "parse_hextets (?P @ [] # ?Q) = Some hs" using 2 by simp
    have P: "1 \<le> length ?P" "length ?P \<le> length A + 1" and Q: "1 \<le> length ?Q" "length ?Q \<le> length B + 1"
      by (auto simp: Suc_le_eq)
    then have "3 \<le> length (?P @ [] # ?Q)" "length (?P @ [] # ?Q) \<le> 9"
      using len \<open>1 < m\<close> by (simp_all del: length_0_conv add: trans_le_add1)
    moreover have "CHR ''.'' \<notin> set (last (?P @ [] # ?Q))" using dot [of B] by simp
    ultimately show ?thesis using sp parsed by blast
  qed
qed

theorem parse_v6_text: "n < 2 ^ 128 \<Longrightarrow> parse_v6 (v6_text n) = Some n"
proof -
  assume n: "n < 2 ^ 128"
  have b: "list_all (\<lambda>h. h < 65536) (digits_of 65536 8 n)" by (rule digits_of_below) simp
  obtain ps where ps: "split_on (CHR '':'') (v6_text n) = ps" "3 \<le> length ps" "length ps \<le> 9"
    "CHR ''.'' \<notin> set (last ps)" "parse_hextets ps = Some (digits_of 65536 8 n)"
    using parse_hextets_text [OF _ b] by (auto simp: v6_text_def)
  have "value_of 65536 (digits_of 65536 8 n) = n" by (rule value_digits) (use n in simp)
  with ps show ?thesis by (simp add: parse_v6_def v4_suffix_def)
qed


lemma all_some_hextets: "all_some (map parse_hextet ps) = Some hs \<Longrightarrow> length hs = length ps \<and> list_all (\<lambda>h. h < 65536) hs"
  using parse_hextetD by (fastforce dest!: all_some_mapD simp: list_all2_conv_all_nth list_all_length)

lemma close_gapD: "close_gap hi lo = Some hs \<Longrightarrow> length hs = 8 \<and> list_all (\<lambda>h. h < 65536) hs"
  by (auto simp: close_gap_def list_all_iff dest!: all_some_hextets split: if_splits option.splits)

lemma parse_hextetsD: "parse_hextets ps = Some hs \<Longrightarrow> length hs = 8 \<and> list_all (\<lambda>h. h < 65536) hs"
  unfolding parse_hextets_def Let_def by (auto dest: all_some_hextets close_gapD split: if_splits simp del: list.map)

lemma parse_v6D: "parse_v6 s = Some n \<Longrightarrow> n < 2 ^ 128"
proof -
  assume "parse_v6 s = Some n"
  then obtain ps hs where "parse_hextets ps = Some hs" and n: "n = value_of 65536 hs"
    by (auto simp: parse_v6_def Let_def split: if_splits option.splits)
  then have "length hs = 8" "list_all (\<lambda>h. h < 65536) hs" by (auto dest: parse_hextetsD)
  with value_below [of 65536 hs] n show ?thesis by simp
qed

lemma join_no: "list_all (\<lambda>x. c \<notin> set x) xs \<Longrightarrow> c \<notin> set sep \<Longrightarrow> c \<notin> set (join_with sep xs)"
  using set_join [of sep xs] by (auto simp: list_all_iff)

lemma v6_text_no: "c \<in> {CHR ''/'', CHR ''%'', CHR '' ''} \<Longrightarrow> c \<notin> set (v6_text n)"
proof -
  assume c: "c \<in> {CHR ''/'', CHR ''%'', CHR '' ''}"
  then have "c \<notin> set (join_with '':'' (map hex_str hs))" for hs
    by (intro join_no) (auto simp: list_all_iff hex_str_no)
  with c show ?thesis by (auto simp: v6_text_def hextets_text_def Let_def)
qed

lemma v6_text_colon: "CHR '':'' \<in> set (v6_text n)"
proof (rule ccontr)
  assume "CHR '':'' \<notin> set (v6_text n)"
  then have "split_on (CHR '':'') (v6_text n) = [v6_text n]" by (rule split_on_none)
  moreover obtain ps where "split_on (CHR '':'') (v6_text n) = ps" "3 \<le> length ps"
    using parse_hextets_text [of "digits_of 65536 8 n"] digits_of_below [of 65536 8 n] by (auto simp: v6_text_def)
  ultimately show False by auto
qed

lemma v4_text_no: "c \<in> {CHR '':'', CHR ''/'', CHR ''%'', CHR '' ''} \<Longrightarrow> c \<notin> set (v4_text n)"
  unfolding v4_text_def by (rule join_no) (auto simp: list_all_iff nat_str_no)

definition zone_ok :: "string option \<Rightarrow> bool" where
  "zone_ok z = (case z of None \<Rightarrow> True | Some t \<Rightarrow> t \<noteq> [] \<and> CHR ''%'' \<notin> set t \<and> CHR ''/'' \<notin> set t)"

definition addr_ok :: "ip_addr \<Rightarrow> bool" where
  "addr_ok a = (case a of V4 n \<Rightarrow> n < 2 ^ 32 | V6 n z \<Rightarrow> n < 2 ^ 128 \<and> zone_ok z)"

definition net_ok :: "ip_net \<Rightarrow> bool" where
  "net_ok w \<longleftrightarrow> addr_ok (in_address w) \<and> in_prefix w \<le> addr_width (in_address w) \<and>
     2 ^ (addr_width (in_address w) - in_prefix w) dvd addr_int (in_address w)"

lemma partition_at_first: "c \<notin> set a \<Longrightarrow> partition_at c (a @ c # b) = (a, [c], b)"
  by (induction a) (auto simp: partition_at_def)

lemma partition_at_none: "c \<notin> set a \<Longrightarrow> partition_at c a = (a, [], [])"
  by (simp add: partition_at_def)

lemma parse_zoned_text: "addr_ok (V6 n z) \<Longrightarrow> parse_zoned (ip_text (V6 n z)) = Some (V6 n z)"
  by (cases z) (auto simp: addr_ok_def zone_ok_def ip_text_def parse_zoned_def partition_at_first
      partition_at_none v6_text_no parse_v6_text)

lemma parse_zonedD:
  assumes "parse_zoned s = Some a" and "CHR ''/'' \<notin> set s"
  obtains n z where "a = V6 n z" and "addr_ok a"
proof -
  obtain addr sep zone where p: "partition_at (CHR ''%'') s = (addr, sep, zone)" by (cases "partition_at (CHR ''%'') s")
  with partition_at_parts [OF p] assms that show thesis
    by (auto simp: parse_zoned_def addr_ok_def zone_ok_def dest: parse_v6D split: if_splits)
qed

lemma ip_text_no_slash: "addr_ok a \<Longrightarrow> CHR ''/'' \<notin> set (ip_text a)"
  by (auto simp: addr_ok_def zone_ok_def ip_text_def v4_text_no v6_text_no split: ip_addr.splits option.splits)

lemma v6_is_not_v4: "parse_v4 (ip_text (V6 n z)) = None"
proof (cases "parse_v4 (ip_text (V6 n z))")
  case (Some m)
  moreover have "CHR '':'' \<in> set (ip_text (V6 n z))" using v6_text_colon by (simp add: ip_text_def)
  ultimately show ?thesis using parse_v4_chars digit_not by fastforce
qed

theorem ip_address_text: "addr_ok a \<Longrightarrow> ip_address (ip_text a) = Some a"
proof (cases a)
  case (V4 n)
  moreover assume "addr_ok a"
  ultimately show ?thesis
    using ip_text_no_slash [of a] by (simp add: ip_address_def addr_ok_def ip_text_def parse_v4_text)
next
  case (V6 n z)
  moreover assume "addr_ok a"
  ultimately show ?thesis
    using ip_text_no_slash [of a] by (simp add: ip_address_def v6_is_not_v4 parse_zoned_text)
qed

lemma ip_addressD: "ip_address s = Some a \<Longrightarrow> addr_ok a"
proof -
  assume r: "ip_address s = Some a"
  then have s: "CHR ''/'' \<notin> set s" by (auto simp: ip_address_def split: if_splits)
  show ?thesis
  proof (cases "parse_v4 s")
    case None
    with r s have "parse_zoned s = Some a" by (simp add: ip_address_def)
    then show ?thesis using s by (rule parse_zonedD)
  next
    case (Some n)
    with r s have "a = V4 n" by (simp add: ip_address_def)
    with parse_v4_canonical(2) [OF Some] show ?thesis by (simp add: addr_ok_def)
  qed
qed

lemma parse_prefix_text: "p \<le> most \<Longrightarrow> parse_prefix most (nat_str p) = Some p"
  using all_digits_nat_str [of p] by (simp add: parse_prefix_def del: str_nat.simps)

lemma dvd_cleared: "(n :: nat) div k * k = n \<Longrightarrow> k dvd n"
  by (metis dvd_triv_right)

lemma network_of_ok: "addr_ok a \<Longrightarrow> p \<le> addr_width a \<Longrightarrow> net_ok (network_of a p)"
  by (cases a) (auto simp: net_ok_def network_of_def Let_def addr_ok_def addr_int_def addr_width_def zone_ok_def
      intro: le_less_trans [OF div_times_less_eq_dividend] dvd_cleared)

lemma network_of_aligned: "net_ok w \<Longrightarrow> network_of (in_address w) (in_prefix w) = w"
  by (cases "in_address w") (auto simp: net_ok_def network_of_def Let_def addr_int_def addr_width_def)

lemma mask_prefix_le: "mask_prefix m = Some p \<Longrightarrow> p \<le> 32"
  by (auto simp: mask_prefix_def find_Some_iff)

lemma v4_prefix_le: "v4_prefix s = Some p \<Longrightarrow> p \<le> 32"
  by (auto simp: v4_prefix_def parse_prefix_def dest: mask_prefix_le split: option.splits if_splits)

lemma parse_prefix_le: "parse_prefix most s = Some p \<Longrightarrow> p \<le> most"
  by (auto simp: parse_prefix_def split: if_splits)

lemma ip_networkD:
  assumes "ip_network s = Some w"
  shows "net_ok w"
proof -
  have hd: "CHR ''/'' \<notin> set (hd (split_on (CHR ''/'') s))"
    by (rule split_on_no_sep [of _ _ s]) simp
  from assms show ?thesis
    by (auto simp: ip_network_def Let_def addr_ok_def addr_width_def
        dest!: parse_v4_canonical(2) v4_prefix_le parse_prefix_le elim!: parse_zonedD [OF _ hd]
        intro!: network_of_ok split: if_splits option.splits)
qed

theorem ip_network_text: "net_ok w \<Longrightarrow> ip_network (net_text w) = Some w"
proof -
  assume w: "net_ok w"
  then have a: "addr_ok (in_address w)" and p: "in_prefix w \<le> addr_width (in_address w)" by (auto simp: net_ok_def)
  have sp: "split_on (CHR ''/'') (net_text w) = [ip_text (in_address w), nat_str (in_prefix w)]"
    using ip_text_no_slash [OF a] by (simp add: net_text_def split_on_append split_on_none nat_str_no)
  show ?thesis
  proof (cases "in_address w")
    case (V4 n)
    with a p have "parse_v4 (ip_text (in_address w)) = Some n" "v4_prefix (nat_str (in_prefix w)) = Some (in_prefix w)"
      by (simp_all add: addr_ok_def ip_text_def parse_v4_text v4_prefix_def parse_prefix_text addr_width_def)
    with V4 network_of_aligned [OF w] show ?thesis by (simp add: ip_network_def sp)
  next
    case (V6 n z)
    with a p have "parse_v4 (ip_text (in_address w)) = None" "parse_zoned (ip_text (in_address w)) = Some (V6 n z)"
      "parse_prefix 128 (nat_str (in_prefix w)) = Some (in_prefix w)"
      by (simp_all add: v6_is_not_v4 parse_zoned_text parse_prefix_text addr_width_def)
    with V6 network_of_aligned [OF w] show ?thesis by (simp add: ip_network_def sp)
  qed
qed

end
