(* ===== verification/Target_Inventory.thy ===== *)
theory Target_Inventory
  imports Ip_Address Projection
begin

text \<open>
  The operator's target inventory (\<open>aegis/target_inventory.py\<close>): the normalisation of an onboarding
  request, the scope check of a URL against a stored record, and the store.

  A text is a sequence of characters below 256.  The host encoding \<open>idna\<close> outside ASCII and the check
  of a bracketed host (\<open>ip\<close>) are arguments; clock and identifiers are arguments of the operations.
  The table is an association list in insertion order.  SQL and the JSON of a row are left out: a row
  is read back as it was written.
\<close>

section \<open>Origins\<close>

text \<open>A \<open>TargetValidationError\<close> or \<open>ScopeViolation\<close> with its code, a \<open>ValueError\<close> of the standard
  library, or the \<open>IntegrityError\<close> of a taken key.\<close>

datatype target_error = Invalid string | Plain_Value_Error | Taken_Key

definition BLOCKED_METADATA_HOSTS :: "string list" where
  "BLOCKED_METADATA_HOSTS =
     [''169.254.169.254'', ''metadata.google.internal'', ''metadata'', ''fd00:ec2::254'', ''100.100.100.200'']"

definition ENV_DEFAULT_PORTS :: "(string \<times> nat) list" where
  "ENV_DEFAULT_PORTS = [(''http'', 80), (''https'', 443)]"

text \<open>\<open>text.split("//")[-1]\<close>; the first argument is what follows the separators read so far.\<close>

fun after_last :: "string \<Rightarrow> string \<Rightarrow> string" where
  "after_last piece (a # b # s) =
     (if a = CHR ''/'' \<and> b = CHR ''/'' then after_last s s else after_last piece (b # s))"
| "after_last piece s = piece"

definition shows_credentials :: "string \<Rightarrow> bool" where
  "shows_credentials s \<longleftrightarrow> CHR ''@'' \<in> set (fst (partition_at (CHR ''/'') (after_last s s)))"

text \<open>\<open>host.encode("idna").decode("ascii").lower()\<close>: an ASCII host is only measured.\<close>

definition idna_host :: "(string \<Rightarrow> string option) \<Rightarrow> string \<Rightarrow> string option" where
  "idna_host idna h =
     (if list_all (\<lambda>c. (of_char c :: nat) < 128) h then
        (let labels = split_on (CHR ''.'') h in
         if list_all (\<lambda>l. l \<noteq> [] \<and> length l < 64) (butlast labels) \<and> length (last labels) < 64
         then Some (lower_latin h) else None)
      else map_option lower_latin (idna h))"

definition host_char :: "char \<Rightarrow> bool" where
  "host_char c \<longleftrightarrow> is_lower c \<or> is_digit c \<or> c = CHR ''.'' \<or> c = CHR ''-''"

definition host_ok :: "string \<Rightarrow> bool" where
  "host_ok h \<longleftrightarrow> h \<noteq> [] \<and> list_all host_char h \<and> \<not> occurs ''..'' h \<and> hd h \<noteq> CHR ''-''"

definition with_scheme :: "string \<Rightarrow> string" where
  "with_scheme s = (if occurs ''://'' s then s else ''https://'' @ s)"

definition origin_text :: "string \<Rightarrow> string \<Rightarrow> nat \<Rightarrow> string" where
  "origin_text scheme host port =
     scheme @ ''://'' @ host @ (if map_of ENV_DEFAULT_PORTS scheme = Some port then [] else CHR '':'' # nat_str port)"

definition origin_of :: "(string \<Rightarrow> string option) \<Rightarrow> split_result \<Rightarrow> target_error + string" where
  "origin_of idna u =
     (case map_of ENV_DEFAULT_PORTS (us_scheme u) of
        None \<Rightarrow> Inl (Invalid ''UNSUPPORTED_SCHEME'')
      | Some default_port \<Rightarrow>
          if us_username u \<noteq> [] \<or> us_password u \<noteq> [] then Inl (Invalid ''EMBEDDED_CREDENTIALS_FORBIDDEN'')
          else if us_query u \<noteq> [] \<or> us_fragment u \<noteq> [] \<or> us_path u \<notin> {[], ''/''} then Inl (Invalid ''ORIGIN_NOT_A_URL'')
          else if us_hostname u = [] then Inl (Invalid ''MALFORMED_ORIGIN'')
          else
            (case idna_host idna (us_hostname u) of
               None \<Rightarrow> Inl (Invalid ''MALFORMED_HOST'')
             | Some host \<Rightarrow>
                 if \<not> host_ok host then Inl (Invalid ''MALFORMED_HOST'')
                 else if host \<in> set BLOCKED_METADATA_HOSTS then Inl (Invalid ''METADATA_HOST_NOT_AUTHORIZED'')
                 else
                   (case us_port u of
                      None \<Rightarrow> Inl Plain_Value_Error
                    | Some given \<Rightarrow>
                        let port = (case given of None \<Rightarrow> default_port | Some p \<Rightarrow> p) in
                        if \<not> (1 \<le> port \<and> port \<le> 65535) then Inl (Invalid ''INVALID_PORT'')
                        else Inr (origin_text (us_scheme u) host port))))"

definition normalize_origin ::
  "(string \<Rightarrow> bool) \<Rightarrow> (string \<Rightarrow> string option) \<Rightarrow> string \<Rightarrow> target_error + string" where
  "normalize_origin ip idna raw =
     (let candidate = strip raw in
      if candidate = [] then Inl (Invalid ''EMPTY_ORIGIN'')
      else if shows_credentials candidate then Inl (Invalid ''EMBEDDED_CREDENTIALS_FORBIDDEN'')
      else (case urlsplit ip (with_scheme candidate) of
              None \<Rightarrow> Inl Plain_Value_Error
            | Some u \<Rightarrow> origin_of idna u))"

text \<open>The host of an origin, \<open>urlsplit(origin).hostname\<close>.\<close>

definition origin_host :: "(string \<Rightarrow> bool) \<Rightarrow> string \<Rightarrow> string" where
  "origin_host ip origin = (case urlsplit ip origin of None \<Rightarrow> [] | Some u \<Rightarrow> us_hostname u)"

definition drop_wildcard :: "string \<Rightarrow> string" where
  "drop_wildcard s = (if starts_with ''*.'' s then drop 2 s else s)"

definition normalize_wildcard ::
  "(string \<Rightarrow> bool) \<Rightarrow> (string \<Rightarrow> string option) \<Rightarrow> string \<Rightarrow> target_error + string" where
  "normalize_wildcard ip idna raw =
     (let candidate = drop_wildcard (lower_latin (strip raw)) in
      andThen (normalize_origin ip idna candidate) (\<lambda>origin.
        Inr (if origin_host ip origin \<noteq> [] then origin_host ip origin else candidate)))"

section \<open>Addresses and path prefixes\<close>

text \<open>What is raised for a network is a \<open>ValueError\<close> inside the \<open>try\<close> that catches those.\<close>

definition normalize_address :: "string \<Rightarrow> target_error + string" where
  "normalize_address raw =
     (let candidate = strip raw in
      if candidate = [] then Inl (Invalid ''EMPTY_ADDRESS'')
      else if CHR ''/'' \<in> set candidate then
        (case ip_network candidate of
           None \<Rightarrow> Inl (Invalid ''MALFORMED_ADDRESS'')
         | Some w \<Rightarrow>
             if ip_text (in_address w) \<in> set BLOCKED_METADATA_HOSTS then Inl (Invalid ''MALFORMED_ADDRESS'')
             else if net_link_local w then Inl (Invalid ''MALFORMED_ADDRESS'')
             else Inr (net_text w))
      else
        (case ip_address candidate of
           None \<Rightarrow> Inl (Invalid ''MALFORMED_ADDRESS'')
         | Some a \<Rightarrow>
             if ip_text a \<in> set BLOCKED_METADATA_HOSTS \<or> is_link_local a then Inl (Invalid ''LINK_LOCAL_NOT_AUTHORIZED'')
             else Inr (ip_text a)))"

definition normalize_prefix :: "string \<Rightarrow> target_error + string" where
  "normalize_prefix raw =
     (let s = strip raw; prefix = (if starts_with ''/'' s then s else CHR ''/'' # s) in
      if s = [] then Inl (Invalid ''EMPTY_PATH_PREFIX'')
      else if occurs ''://'' prefix \<or> CHR '' '' \<in> set prefix then Inl (Invalid ''MALFORMED_PATH_PREFIX'')
      else Inr (if rstrip (CHR ''/'') prefix = [] then ''/'' else rstrip (CHR ''/'') prefix))"

definition dedupe :: "string list \<Rightarrow> target_error + string list" where
  "dedupe values = (if distinct values then Inr values else Inl (Invalid ''DUPLICATE_ORIGIN''))"

section \<open>The request\<close>

datatype target_type = WEBSITE | API | IP_CIDR | SYNTHETIC

record target_create =
  tc_type :: target_type
  tc_name :: string
  tc_environment :: string
  tc_owner :: "string option"
  tc_reference :: string
  tc_attested :: bool
  tc_description :: "string option"
  tc_origins :: "string list"
  tc_allowed :: "string list"
  tc_excluded :: "string list"
  tc_wildcards :: "string list"
  tc_wildcard_authorized :: bool
  tc_openapi :: "string option"
  tc_credential :: "string option"
  tc_addresses :: "string list"
  tc_cidr_authorized :: bool

record normalized_scope =
  nm_origins :: "string list"
  nm_addresses :: "string list"
  nm_wildcards :: "string list"
  nm_allowed :: "string list"
  nm_excluded :: "string list"
  nm_openapi :: "string option"

fun traverse :: "('a \<Rightarrow> 'e + 'b) \<Rightarrow> 'a list \<Rightarrow> 'e + 'b list" where
  "traverse f [] = Inr []"
| "traverse f (x # xs) = andThen (f x) (\<lambda>y. andThen (traverse f xs) (\<lambda>ys. Inr (y # ys)))"

definition require :: "bool \<Rightarrow> string \<Rightarrow> target_error + unit" where
  "require good code = (if good then Inr () else Inl (Invalid code))"

definition site_origins :: "(string \<Rightarrow> bool) \<Rightarrow> (string \<Rightarrow> string option) \<Rightarrow> target_create \<Rightarrow> target_error + string list" where
  "site_origins ip idna c =
     andThen (require (tc_origins c \<noteq> []) ''AT_LEAST_ONE_ORIGIN_REQUIRED'') (\<lambda>_.
     andThen (traverse (normalize_origin ip idna) (tc_origins c)) dedupe)"

definition site_wildcards :: "(string \<Rightarrow> bool) \<Rightarrow> (string \<Rightarrow> string option) \<Rightarrow> target_create \<Rightarrow> target_error + string list" where
  "site_wildcards ip idna c =
     (if tc_wildcards c = [] then Inr []
      else
        andThen (require (tc_wildcard_authorized c) ''WILDCARD_REQUIRES_EXPLICIT_AUTHORIZATION'') (\<lambda>_.
        andThen (traverse (normalize_wildcard ip idna) (tc_wildcards c)) dedupe))"

definition network_addresses :: "target_create \<Rightarrow> target_error + string list" where
  "network_addresses c =
     andThen (require (tc_addresses c \<noteq> []) ''AT_LEAST_ONE_ADDRESS_REQUIRED'') (\<lambda>_.
     andThen (traverse normalize_address (tc_addresses c)) (\<lambda>normalized.
     andThen (require (tc_cidr_authorized c \<or> list_all (\<lambda>a. CHR ''/'' \<notin> set a) (tc_addresses c))
       ''CIDR_REQUIRES_EXPLICIT_AUTHORIZATION'') (\<lambda>_. dedupe normalized)))"

definition url_origin :: "(string \<Rightarrow> bool) \<Rightarrow> (string \<Rightarrow> string option) \<Rightarrow> split_result \<Rightarrow> target_error + string" where
  "url_origin ip idna u = normalize_origin ip idna (us_scheme u @ ''://'' @ us_netloc u)"

definition openapi_within ::
  "(string \<Rightarrow> bool) \<Rightarrow> (string \<Rightarrow> string option) \<Rightarrow> string list \<Rightarrow> string option \<Rightarrow> target_error + string option" where
  "openapi_within ip idna origins url =
     (case url of
        None \<Rightarrow> Inr None
      | Some [] \<Rightarrow> Inr None
      | Some raw \<Rightarrow>
          (case urlsplit ip (with_scheme (strip raw)) of
             None \<Rightarrow> Inl Plain_Value_Error
           | Some u \<Rightarrow>
               if us_username u \<noteq> [] \<or> us_password u \<noteq> [] then Inl (Invalid ''EMBEDDED_CREDENTIALS_FORBIDDEN'')
               else andThen (url_origin ip idna u) (\<lambda>origin.
                 if origin \<notin> set origins then Inl (Invalid ''OPENAPI_URL_OUTSIDE_SCOPE'') else Inr (Some (strip raw)))))"

definition validate_and_normalize ::
  "(string \<Rightarrow> bool) \<Rightarrow> (string \<Rightarrow> string option) \<Rightarrow> target_create \<Rightarrow> target_error + normalized_scope" where
  "validate_and_normalize ip idna c =
     andThen (require (tc_attested c) ''AUTHORIZATION_ATTESTATION_REQUIRED'') (\<lambda>_.
     andThen (require (strip (tc_reference c) \<noteq> []) ''AUTHORIZATION_REFERENCE_REQUIRED'') (\<lambda>_.
     andThen (if tc_type c = IP_CIDR then Inr [] else site_origins ip idna c) (\<lambda>origins.
     andThen (if tc_type c = IP_CIDR then Inr [] else site_wildcards ip idna c) (\<lambda>wildcards.
     andThen (if tc_type c = IP_CIDR then network_addresses c else Inr []) (\<lambda>addresses.
     andThen (traverse normalize_prefix (tc_allowed c)) (\<lambda>allowed.
     andThen (traverse normalize_prefix (tc_excluded c)) (\<lambda>excluded.
     andThen (openapi_within ip idna origins (tc_openapi c)) (\<lambda>openapi.
     Inr \<lparr>nm_origins = origins, nm_addresses = addresses, nm_wildcards = wildcards, nm_allowed = allowed,
       nm_excluded = excluded, nm_openapi = openapi\<rparr>))))))))"

section \<open>The stored record\<close>

record target_record =
  tr_id :: string
  tr_scope :: normalized_scope
  tr_type :: target_type
  tr_name :: string
  tr_environment :: string
  tr_owner :: "string option"
  tr_reference :: string
  tr_attested_by :: "string option"
  tr_description :: "string option"
  tr_credential :: "string option"
  tr_enabled :: bool
  tr_created :: string
  tr_updated :: string
  tr_assessed :: "string option"

definition tr_status :: "target_record \<Rightarrow> string" where
  "tr_status t = (if tr_enabled t then ''AVAILABLE_FOR_ASSESSMENT'' else ''DISABLED'')"

definition authorized_scope :: "normalized_scope \<Rightarrow> string list" where
  "authorized_scope n = nm_origins n @ nm_addresses n @ map (\<lambda>d. ''*.'' @ d) (nm_wildcards n)"

definition scope_preview ::
  "(string \<Rightarrow> bool) \<Rightarrow> (string \<Rightarrow> string option) \<Rightarrow> target_create \<Rightarrow> target_error + string list \<times> normalized_scope" where
  "scope_preview ip idna c = andThen (validate_and_normalize ip idna c) (\<lambda>n. Inr (authorized_scope n, n))"

text \<open>\<open>_SUPPORTED_PROFILES\<close>.\<close>

definition supported_profiles :: "target_type \<Rightarrow> string list" where
  "supported_profiles t = (case t of
       SYNTHETIC \<Rightarrow> [''aegis-native-bola-synthetic'']
     | IP_CIDR \<Rightarrow> [''IP_NETWORK_ASSESSMENT_V1'']
     | _ \<Rightarrow> [''ZAP_LAB_PASSIVE_OPENAPI_V1'', ''NUCLEI_LAB_SAFE_HTTP_V1''])"

section \<open>The scope of a URL\<close>

definition in_entry :: "ip_addr \<Rightarrow> string \<Rightarrow> bool" where
  "in_entry a entry =
     (if CHR ''/'' \<in> set entry then (case ip_network entry of None \<Rightarrow> False | Some w \<Rightarrow> in_network a w)
      else ip_address entry = Some a)"

definition host_in_addresses :: "string \<Rightarrow> string list \<Rightarrow> bool" where
  "host_in_addresses host addresses =
     (case ip_address host of None \<Rightarrow> False | Some a \<Rightarrow> list_ex (in_entry a) addresses)"

definition ends_with :: "string \<Rightarrow> string \<Rightarrow> bool" where
  "ends_with suffix s \<longleftrightarrow> length suffix \<le> length s \<and> drop (length s - length suffix) s = suffix"

definition below_wildcard :: "string \<Rightarrow> string \<Rightarrow> bool" where
  "below_wildcard host wc \<longleftrightarrow> host = wc \<or> ends_with (CHR ''.'' # wc) host"

definition authorize_url_against_target ::
  "(string \<Rightarrow> bool) \<Rightarrow> (string \<Rightarrow> string option) \<Rightarrow> normalized_scope \<Rightarrow> string \<Rightarrow> target_error + string" where
  "authorize_url_against_target ip idna n url =
     (case urlsplit ip (with_scheme url) of
        None \<Rightarrow> Inl Plain_Value_Error
      | Some u \<Rightarrow>
          andThen (url_origin ip idna u) (\<lambda>origin.
          let host = origin_host ip origin; path = (if us_path u = [] then ''/'' else us_path u) in
          if \<not> (origin \<in> set (nm_origins n) \<or> list_ex (below_wildcard host) (nm_wildcards n) \<or>
                 host_in_addresses host (nm_addresses n))
          then Inl (Invalid ''TARGET_ESCAPE_OUTSIDE_AUTHORIZED_SCOPE'')
          else if list_ex (\<lambda>p. starts_with p path) (nm_excluded n) then Inl (Invalid ''PATH_EXCLUDED_FROM_SCOPE'')
          else if nm_allowed n \<noteq> [] \<and> \<not> list_ex (\<lambda>p. starts_with p path) (nm_allowed n)
          then Inl (Invalid ''PATH_OUTSIDE_ALLOWED_PREFIXES'')
          else Inr origin))"

section \<open>The store\<close>

type_synonym target_table = "(string \<times> target_record) list"

definition list_targets :: "target_table \<Rightarrow> target_record list" where
  "list_targets db = sort_key tr_created (map snd db)"

definition get_target :: "target_table \<Rightarrow> string \<Rightarrow> target_record option" where
  "get_target db i = map_of db i"

definition scope_keys :: "target_record \<Rightarrow> string set" where
  "scope_keys t = set (nm_origins (tr_scope t)) \<union> set (nm_addresses (tr_scope t))"

definition duplicates_scope :: "target_table \<Rightarrow> string option \<Rightarrow> target_record \<Rightarrow> bool" where
  "duplicates_scope db except t \<longleftrightarrow>
     list_ex (\<lambda>e. Some (tr_id e) \<noteq> except \<and> tr_enabled e \<and> scope_keys e \<inter> scope_keys t \<noteq> {}) (list_targets db)"

definition nonempty :: "string option \<Rightarrow> string option" where
  "nonempty x = (if x = Some [] then None else x)"

definition record_for :: "string \<Rightarrow> string \<Rightarrow> string option \<Rightarrow> target_create \<Rightarrow> normalized_scope \<Rightarrow> target_record" where
  "record_for i now operator c n =
     \<lparr>tr_id = i, tr_scope = n, tr_type = tc_type c, tr_name = strip (tc_name c), tr_environment = tc_environment c,
      tr_owner = nonempty (tc_owner c), tr_reference = strip (tc_reference c), tr_attested_by = operator,
      tr_description = nonempty (tc_description c), tr_credential = nonempty (tc_credential c), tr_enabled = True,
      tr_created = now, tr_updated = now, tr_assessed = None\<rparr>"

type_synonym 'a stored = "(target_table, target_error, 'a) prog"

definition checked :: "target_error + 'a \<Rightarrow> 'a stored" where
  "checked r = (case r of Inl e \<Rightarrow> throwE e | Inr a \<Rightarrow> retE a)"

definition create_target ::
  "(string \<Rightarrow> bool) \<Rightarrow> (string \<Rightarrow> string option) \<Rightarrow> string \<Rightarrow> string \<Rightarrow> string option \<Rightarrow> target_create \<Rightarrow> target_record stored" where
  "create_target ip idna i now operator c =
     bindE (checked (validate_and_normalize ip idna c)) (\<lambda>n.
     let t = record_for i now operator c n in
     bindE (getE (\<lambda>db. duplicates_scope db None t)) (\<lambda>taken.
     thenE (rejectE taken (Invalid ''DUPLICATE_ORIGIN''))
     (bindE (getE (\<lambda>db. i \<in> set (map fst db))) (\<lambda>used.
     thenE (rejectE used Taken_Key)
     (thenE (modifyE (\<lambda>db. db @ [(i, t)])) (retE t))))))"

text \<open>\<open>_save\<close>: \<open>UPDATE\<close> of the row with the record's id.\<close>

definition save_target :: "string \<Rightarrow> target_record \<Rightarrow> target_record stored" where
  "save_target now t =
     (let t' = t\<lparr>tr_updated := now\<rparr> in
      thenE (modifyE (map (\<lambda>(k, old). (k, if k = tr_id t then t' else old)))) (retE t'))"

definition set_enabled :: "string \<Rightarrow> string \<Rightarrow> bool \<Rightarrow> target_record option stored" where
  "set_enabled now i enabled =
     bindE (getE (\<lambda>db. get_target db i)) (\<lambda>found.
     case found of
       None \<Rightarrow> retE None
     | Some t \<Rightarrow> bindE (save_target now (t\<lparr>tr_enabled := enabled\<rparr>)) (\<lambda>t'. retE (Some t')))"

definition updated_record :: "string option \<Rightarrow> target_create \<Rightarrow> normalized_scope \<Rightarrow> target_record \<Rightarrow> target_record" where
  "updated_record operator c n t =
     t\<lparr>tr_type := tc_type c, tr_scope := n, tr_name := strip (tc_name c), tr_environment := tc_environment c,
       tr_owner := nonempty (tc_owner c), tr_reference := strip (tc_reference c),
       tr_attested_by := (if operator = None \<or> operator = Some [] then tr_attested_by t else operator),
       tr_description := nonempty (tc_description c), tr_credential := nonempty (tc_credential c)\<rparr>"

definition update_scope ::
  "(string \<Rightarrow> bool) \<Rightarrow> (string \<Rightarrow> string option) \<Rightarrow> string \<Rightarrow> string \<Rightarrow> string option \<Rightarrow> target_create \<Rightarrow> target_record option stored" where
  "update_scope ip idna now i operator c =
     bindE (getE (\<lambda>db. get_target db i)) (\<lambda>found.
     case found of
       None \<Rightarrow> retE None
     | Some t \<Rightarrow>
         bindE (checked (validate_and_normalize ip idna c)) (\<lambda>n.
         let t' = updated_record operator c n t in
         bindE (getE (\<lambda>db. duplicates_scope db (Some i) t')) (\<lambda>taken.
         thenE (rejectE taken (Invalid ''DUPLICATE_ORIGIN''))
         (bindE (save_target now t') (\<lambda>saved. retE (Some saved))))))"

definition delete_target :: "string \<Rightarrow> target_record option stored" where
  "delete_target i =
     bindE (getE (\<lambda>db. get_target db i)) (\<lambda>found.
     case found of
       None \<Rightarrow> retE None
     | Some t \<Rightarrow> thenE (modifyE (filter (\<lambda>(k, _). k \<noteq> i))) (retE (Some t)))"

definition mark_assessed :: "string \<Rightarrow> string \<Rightarrow> string \<Rightarrow> unit stored" where
  "mark_assessed now saved i =
     bindE (getE (\<lambda>db. get_target db i)) (\<lambda>found.
     case found of
       None \<Rightarrow> retE ()
     | Some t \<Rightarrow> thenE (save_target saved (t\<lparr>tr_assessed := Some now\<rparr>)) (retE ()))"

end
