(* ===== verification/Target_Props.thy ===== *)
theory Target_Props
  imports Target_Inventory "HOL-Library.Code_Target_Nat"
begin

text \<open>
  What the target inventory promises: a stored scope is in normal form and stays so when it is
  submitted again, a URL is authorised only for a host of the scope and never for a metadata host, and
  the scopes of enabled targets stay disjoint as long as none is enabled again.
\<close>

section \<open>Stripping\<close>

lemma dropWhile_id: "xs = [] \<or> \<not> P (hd xs) \<Longrightarrow> dropWhile P xs = xs"
  by (cases xs) auto

lemma strip_id: "s = [] \<or> \<not> latin_space (hd s) \<and> \<not> latin_space (last s) \<Longrightarrow> strip s = s"
  by (auto simp: strip_def dropWhile_id hd_rev)

lemma dropWhile_suffix: "\<exists>p. xs = p @ dropWhile P xs"
  by (metis takeWhile_dropWhile_id)

lemma last_dropWhile: "dropWhile P xs \<noteq> [] \<Longrightarrow> last (dropWhile P xs) = last xs"
  by (metis last_appendR takeWhile_dropWhile_id)

lemma strip_ends: "strip s \<noteq> [] \<Longrightarrow> \<not> latin_space (hd (strip s)) \<and> \<not> latin_space (last (strip s))"
proof -
  assume ne: "strip s \<noteq> []"
  let ?d = "dropWhile latin_space s" and ?e = "dropWhile latin_space (rev (dropWhile latin_space s))"
  have e: "?e \<noteq> []" using ne by (simp add: strip_def)
  then have d: "?d \<noteq> []" by (cases "?d") simp_all
  have "last ?e = hd ?d" using last_dropWhile [OF e] d by (simp add: last_rev)
  then have "hd (strip s) = hd ?d" using e by (simp add: strip_def hd_rev)
  moreover have "last (strip s) = hd ?e" using e by (simp add: strip_def last_rev)
  ultimately show ?thesis using hd_dropWhile [OF d] hd_dropWhile [OF e] by simp
qed

lemma strip_strip [simp]: "strip (strip s) = strip s"
  using strip_ends [of s] by (cases "strip s = []") (auto intro!: strip_id)

lemma set_strip: "set (strip s) \<subseteq> set s"
  by (auto simp: strip_def dest!: set_dropWhileD)

section \<open>The text of an origin\<close>

definition origin_parts_ok :: "string \<Rightarrow> string \<Rightarrow> nat \<Rightarrow> bool" where
  "origin_parts_ok scheme host port \<longleftrightarrow>
     scheme \<in> {''http'', ''https''} \<and> host_ok host \<and> host \<notin> set BLOCKED_METADATA_HOSTS \<and> 1 \<le> port \<and> port \<le> 65535"

definition port_suffix :: "string \<Rightarrow> nat \<Rightarrow> string" where
  "port_suffix scheme port = (if map_of ENV_DEFAULT_PORTS scheme = Some port then [] else CHR '':'' # nat_str port)"

lemma origin_text_split: "origin_text scheme host port = scheme @ ''://'' @ host @ port_suffix scheme port"
  by (simp add: origin_text_def port_suffix_def)

lemma host_char_plain: "host_char c \<Longrightarrow> \<not> authority_end c \<and> c \<notin> set ''[]@:%'' \<and> 32 < (of_char c :: nat) \<and>
    (of_char c :: nat) < 128 \<and> \<not> (65 \<le> (of_char c :: nat) \<and> (of_char c :: nat) \<le> 90)"
  by (auto simp: host_char_def is_lower_def is_digit_def authority_end_def less_eq_char_def)

lemma digit_plain: "is_digit c \<Longrightarrow> host_char c"
  by (simp add: host_char_def)

lemma host_chars: "host_ok h \<Longrightarrow> c \<in> set h \<Longrightarrow> host_char c"
  by (simp add: host_ok_def list_all_iff)

lemma port_chars: "c \<in> set (port_suffix scheme port) \<Longrightarrow> c = CHR '':'' \<or> host_char c"
  using all_digits_nat_str [of port] by (auto simp: port_suffix_def host_char_def list_all_iff split: if_splits)

lemma netloc_chars:
  "host_ok h \<Longrightarrow> c \<in> set (h @ port_suffix scheme port) \<Longrightarrow>
   \<not> authority_end c \<and> c \<notin> set ''[]@%'' \<and> 32 < (of_char c :: nat) \<and> (of_char c :: nat) < 128"
  using host_chars [of h c] port_chars [of c scheme port] host_char_plain [of c]
  by (auto simp: authority_end_def)

lemma lower_latin_id: "(\<And>c. c \<in> set s \<Longrightarrow> host_char c) \<Longrightarrow> lower_latin s = s"
  using host_char_plain by (fastforce simp: lower_latin_def Let_def intro: map_idI)

lemma takeWhile_all: "(\<And>c. c \<in> set s \<Longrightarrow> P c) \<Longrightarrow> takeWhile P s = s \<and> dropWhile P s = []"
  by (simp add: takeWhile_eq_all_conv)

lemma url_clean_id: "s \<noteq> [] \<Longrightarrow> (\<And>c. c \<in> set s \<Longrightarrow> 32 < (of_char c :: nat)) \<Longrightarrow> url_clean s = s"
proof -
  assume "s \<noteq> []" and big: "\<And>c. c \<in> set s \<Longrightarrow> 32 < (of_char c :: nat)"
  then have "32 < (of_char (hd s) :: nat)" by simp
  then have "dropWhile (\<lambda>c. (of_char c :: nat) \<le> 32) s = s" by (intro dropWhile_id) simp
  moreover have "filter (\<lambda>c. (of_char c :: nat) \<notin> {9, 10, 13}) s = s" by (rule filter_True) (use big in fastforce)
  ultimately show "url_clean s = s" by (simp add: url_clean_def)
qed

lemma url_scheme_text:
  "scheme \<in> {''http'', ''https''} \<Longrightarrow> url_scheme (scheme @ CHR '':'' # t) = (scheme, t)"
proof -
  assume s: "scheme \<in> {''http'', ''https''}"
  then have "CHR '':'' \<notin> set scheme" by auto
  then have p: "partition_at (CHR '':'') (scheme @ CHR '':'' # t) = (scheme, '':'', t)" by (rule partition_at_first)
  have ok: "is_lower (hd scheme)" "list_all scheme_char scheme" "lower_latin scheme = scheme" "scheme \<noteq> []"
    using s by (auto simp: is_lower_def scheme_char_def is_alnum_def less_eq_char_def lower_latin_def Let_def)
  show ?thesis using ok by (simp add: url_scheme_def p)
qed

lemma urlsplit_origin:
  assumes "scheme \<in> {''http'', ''https''}" and "host_ok host"
  shows "urlsplit ip (origin_text scheme host port) =
    Some \<lparr>us_scheme = scheme, us_netloc = host @ port_suffix scheme port, us_path = [], us_query = [], us_fragment = []\<rparr>"
proof -
  let ?n = "host @ port_suffix scheme port"
  have chars: "c \<in> set ?n \<Longrightarrow> \<not> authority_end c \<and> c \<notin> set ''[]@%'' \<and> 32 < (of_char c :: nat)" for c
    using netloc_chars [OF assms(2), of c scheme port] by blast
  have clean: "url_clean (scheme @ ''://'' @ ?n) = scheme @ CHR '':'' # (''//'' @ ?n)"
    using assms(1) chars by (subst url_clean_id) auto
  have tw: "takeWhile (\<lambda>c. \<not> authority_end c) s = s" "dropWhile (\<lambda>c. \<not> authority_end c) s = []"
    if "set s \<subseteq> set ?n" for s
    using takeWhile_all [of s "\<lambda>c. \<not> authority_end c"] chars that by auto
  have br: "brackets_ok ip ?n" using chars by (auto simp: brackets_ok_def)
  have two: "take 2 (CHR ''/'' # CHR ''/'' # t) = ''//''" "drop 2 (CHR ''/'' # CHR ''/'' # t) = t" for t
    by (simp_all add: numeral_2_eq_2)
  have "urlsplit ip (scheme @ ''://'' @ ?n) =
    Some \<lparr>us_scheme = scheme, us_netloc = ?n, us_path = [], us_query = [], us_fragment = []\<rparr>"
    unfolding urlsplit_def clean url_scheme_text [OF assms(1)]
    using br by (simp add: two partition_at_none Let_def tw)
  then show ?thesis by (simp add: origin_text_split)
qed

lemma hostinfo_origin:
  assumes "host_ok host"
  shows "us_hostinfo \<lparr>us_scheme = s, us_netloc = host @ port_suffix scheme port, us_path = p, us_query = q, us_fragment = f\<rparr>
    = (host, tl (port_suffix scheme port))"
proof -
  let ?n = "host @ port_suffix scheme port"
  have "CHR ''@'' \<notin> set ?n" "CHR ''['' \<notin> set ?n" using netloc_chars [OF assms, of _ scheme port] by force+
  moreover have "CHR '':'' \<notin> set host" using host_chars [OF assms] host_char_plain by force
  ultimately show ?thesis
    by (auto simp: us_hostinfo_def rpartition_at_def partition_at_none port_suffix_def partition_at_first)
qed

lemma origin_record_parts:
  assumes "host_ok host" and "port \<le> 65535"
    and u_def: "u = \<lparr>us_scheme = scheme, us_netloc = host @ port_suffix scheme port, us_path = [], us_query = [], us_fragment = []\<rparr>"
  shows "us_hostname u = host"
    and "us_port u = Some (if map_of ENV_DEFAULT_PORTS scheme = Some port then None else Some port)"
    and "us_username u = []" and "us_password u = []"
proof -
  have "CHR ''@'' \<notin> set (us_netloc u)" using netloc_chars [OF assms(1), of _ scheme port] unfolding u_def by force
  then show "us_username u = []" "us_password u = []"
    by (simp_all add: us_username_def us_password_def rpartition_at_def partition_at_def)
  have pct: "CHR ''%'' \<notin> set host" using host_chars [OF assms(1)] host_char_plain by force
  have low: "lower_latin host = host" by (rule lower_latin_id) (rule host_chars [OF assms(1)])
  show "us_hostname u = host"
    using pct low by (simp add: us_hostname_def u_def hostinfo_origin [OF assms(1)] partition_at_none)
  show "us_port u = Some (if map_of ENV_DEFAULT_PORTS scheme = Some port then None else Some port)"
    using assms(2) all_digits_nat_str [of port] hostinfo_origin [OF assms(1), of scheme scheme port "[]" "[]" "[]"]
    by (cases "map_of ENV_DEFAULT_PORTS scheme = Some port")
       (simp_all add: us_port_def u_def Let_def port_suffix_def del: str_nat.simps)
qed

lemma origin_host_text: "scheme \<in> {''http'', ''https''} \<Longrightarrow> host_ok host \<Longrightarrow> port \<le> 65535 \<Longrightarrow>
    origin_host ip (origin_text scheme host port) = host"
  using origin_record_parts [OF _ _ refl] by (simp add: origin_host_def urlsplit_origin)


section \<open>Normal origins\<close>

text \<open>What \<open>ToASCII\<close> promises of a host with a character outside ASCII: an ASCII text with labels of at
  most 63 characters, none of them empty but the last.\<close>

definition labels_ok :: "string \<Rightarrow> bool" where
  "labels_ok h \<longleftrightarrow> (let labels = split_on (CHR ''.'') h in
     list_all (\<lambda>l. l \<noteq> [] \<and> length l < 64) (butlast labels) \<and> length (last labels) < 64)"

definition idna_measured :: "(string \<Rightarrow> string option) \<Rightarrow> bool" where
  "idna_measured idna \<longleftrightarrow> (\<forall>h r. idna h = Some r \<longrightarrow> labels_ok r)"

lemma fallible_Inr: "andThen m f = Inr b \<longleftrightarrow> (\<exists>a. m = Inr a \<and> f a = Inr b)"
  by (auto simp: andThen_def split: sum.splits)

lemma fallible_simps [simp]: "andThen (Inr a) f = f a" "andThen (Inl e) f = Inl e"
  by (simp_all add: andThen_def)

lemma split_on_map: "(\<And>x. f x = c \<longleftrightarrow> x = c) \<Longrightarrow> split_on c (map f s) = map (map f) (split_on c s)"
  by (induction s) (auto split: list.splits)

lemma lower_dot: "(let n = of_char x :: nat in
    if 65 \<le> n \<and> n \<le> 90 \<or> 192 \<le> n \<and> n \<le> 222 \<and> n \<noteq> 215 then char_of (n + 32) else x) = CHR ''.'' \<longleftrightarrow> x = CHR ''.''"
proof -
  have "(char_of (n + 32) :: char) \<noteq> CHR ''.''" if "65 \<le> n" "n \<le> 222" for n :: nat
  proof
    assume "(char_of (n + 32) :: char) = CHR ''.''"
    then have "of_char (char_of (n + 32) :: char) = (of_char (CHR ''.'') :: nat)" by simp
    then show False using that by (simp split: if_splits)
  qed
  then show ?thesis by (auto simp: Let_def)
qed

lemma labels_lower: "labels_ok (lower_latin h) = labels_ok h"
  unfolding labels_ok_def lower_latin_def
  by (subst split_on_map) (rule lower_dot, simp add: Let_def list_all_iff last_map flip: map_butlast)

lemma idna_host_labels: "idna_measured idna \<Longrightarrow> idna_host idna h = Some r \<Longrightarrow> labels_ok r"
  by (auto simp: idna_host_def idna_measured_def labels_lower labels_ok_def [symmetric] Let_def split: if_splits)
     (auto simp: labels_lower labels_ok_def Let_def)

lemma idna_host_id: "host_ok h \<Longrightarrow> labels_ok h \<Longrightarrow> idna_host idna h = Some h"
proof -
  assume h: "host_ok h" "labels_ok h"
  have "list_all (\<lambda>c. (of_char c :: nat) < 128) h"
    using host_chars [OF h(1)] host_char_plain by (auto simp: list_all_iff)
  moreover have "lower_latin h = h" by (rule lower_latin_id) (rule host_chars [OF h(1)])
  ultimately show ?thesis using h(2) by (simp add: idna_host_def labels_ok_def Let_def)
qed

lemma default_ports: "map_of ENV_DEFAULT_PORTS scheme = Some p \<Longrightarrow> scheme \<in> {''http'', ''https''} \<and> 1 \<le> p \<and> p \<le> 65535"
  by (auto simp: ENV_DEFAULT_PORTS_def split: if_splits)

lemma origin_ofD:
  assumes "origin_of idna u = Inr origin"
  obtains scheme host port where "origin = origin_text scheme host port" "origin_parts_ok scheme host port"
    "idna_host idna (us_hostname u) = Some host"
  using assms
  by (auto simp: origin_of_def origin_parts_ok_def Let_def dest: default_ports split: option.splits if_splits)

lemma normalize_originD:
  assumes "normalize_origin ip idna raw = Inr origin"
  obtains scheme host port where "origin = origin_text scheme host port" "origin_parts_ok scheme host port"
    "idna_measured idna \<Longrightarrow> labels_ok host"
proof -
  from assms obtain u where "origin_of idna u = Inr origin"
    by (auto simp: normalize_origin_def Let_def split: if_splits option.splits)
  then show thesis by (rule origin_ofD) (metis idna_host_labels that)
qed

lemma set_after_last: "set (after_last p s) \<subseteq> set p \<union> set s"
  by (induction p s rule: after_last.induct) auto

lemma set_partition_at: "set (fst (partition_at c s)) \<subseteq> set s"
  by (auto simp: partition_at_def dest: set_takeWhileD)

lemma no_credentials: "CHR ''@'' \<notin> set s \<Longrightarrow> \<not> shows_credentials s"
  using set_after_last [of s s] set_partition_at [of "CHR ''/''" "after_last s s"]
  by (auto simp: shows_credentials_def)

lemma occurs_within: "occurs p (a @ p @ b)"
  unfolding occurs_iff by blast

lemma origin_text_chars:
  assumes "scheme \<in> {''http'', ''https''}" and "host_ok host" and "c \<in> set (origin_text scheme host port)"
  shows "c \<noteq> CHR ''@'' \<and> \<not> latin_space c"
proof -
  have "c \<in> set scheme \<or> c \<in> {CHR '':'', CHR ''/''} \<or> c \<in> set (host @ port_suffix scheme port)"
    using assms(3) by (auto simp: origin_text_split)
  then show ?thesis
  proof (elim disjE)
    assume "c \<in> set (host @ port_suffix scheme port)"
    with netloc_chars [OF assms(2)] show ?thesis by (fastforce simp: latin_space_def Let_def)
  qed (use assms(1) in \<open>auto simp: latin_space_def\<close>)
qed

lemma strip_no_space: "(\<And>c. c \<in> set s \<Longrightarrow> \<not> latin_space c) \<Longrightarrow> strip s = s"
  by (rule strip_id) (metis hd_in_set last_in_set)

theorem normalize_origin_text:
  assumes "origin_parts_ok scheme host port" and "labels_ok host"
  shows "normalize_origin ip idna (origin_text scheme host port) = Inr (origin_text scheme host port)"
proof -
  let ?o = "origin_text scheme host port"
  have s: "scheme \<in> {''http'', ''https''}" and h: "host_ok host" and p: "1 \<le> port" "port \<le> 65535"
    and m: "host \<notin> set BLOCKED_METADATA_HOSTS"
    using assms(1) by (auto simp: origin_parts_ok_def)
  have "strip ?o = ?o" using origin_text_chars [OF s h, of _ port] by (intro strip_no_space) blast
  moreover have "\<not> shows_credentials ?o" using origin_text_chars [OF s h, of _ port] by (intro no_credentials) blast
  moreover have "with_scheme ?o = ?o"
    using occurs_within [of "''://''" scheme "host @ port_suffix scheme port"] by (simp add: with_scheme_def origin_text_split)
  moreover have "?o \<noteq> []" by (simp add: origin_text_split)
  moreover obtain d where d: "map_of ENV_DEFAULT_PORTS scheme = Some d" using s by (auto simp: ENV_DEFAULT_PORTS_def)
  ultimately show ?thesis
    using origin_record_parts [OF h p(2) refl, of scheme] idna_host_id [OF h assms(2), of idna] h m p
    by (auto simp: normalize_origin_def urlsplit_origin [OF s h] origin_of_def Let_def host_ok_def [of host])
qed


section \<open>A normal scope\<close>

lemma origin_is_normal:
  assumes "idna_measured idna" and "normalize_origin ip idna raw = Inr origin"
  shows "normalize_origin ip idna origin = Inr origin"
  using assms(2) by (rule normalize_originD) (use assms(1) normalize_origin_text in blast)

lemma normalize_origin_host:
  assumes "host_ok host" "host \<notin> set BLOCKED_METADATA_HOSTS" "labels_ok host"
  shows "normalize_origin ip idna host = Inr (origin_text ''https'' host 443)"
proof -
  have c: "c \<in> set host \<Longrightarrow> c \<noteq> CHR ''@'' \<and> c \<noteq> CHR '':'' \<and> \<not> latin_space c" for c
    using host_chars [OF assms(1)] host_char_plain [of c] by (fastforce simp: latin_space_def Let_def)
  have eq: "origin_text ''https'' host 443 = ''https://'' @ host" by (simp add: origin_text_def ENV_DEFAULT_PORTS_def)
  have "\<not> occurs ''://'' host" using c by (force simp: occurs_iff)
  then have w: "with_scheme host = ''https://'' @ host" by (simp add: with_scheme_def)
  have o: "occurs ''://'' (''https://'' @ host)" using occurs_within [of "''://''" "''https''" host] by simp
  have st: "strip host = host" by (rule strip_no_space) (use c in blast)
  have st': "strip (''https://'' @ host) = ''https://'' @ host"
    by (rule strip_no_space) (use c in \<open>auto simp: latin_space_def\<close>)
  have cr: "\<not> shows_credentials host" by (rule no_credentials) (use c in blast)
  have cr': "\<not> shows_credentials (''https://'' @ host)" by (rule no_credentials) (use c in auto)
  have "host \<noteq> []" using assms(1) by (simp add: host_ok_def)
  then have "normalize_origin ip idna host = normalize_origin ip idna (''https://'' @ host)"
    using w o st st' cr cr' by (simp add: normalize_origin_def Let_def with_scheme_def [of "''https://'' @ host"] del: append_Cons)
  also have "\<dots> = Inr (origin_text ''https'' host 443)"
    using normalize_origin_text [of "''https''" host 443 ip idna] assms by (simp add: eq origin_parts_ok_def)
  finally show ?thesis .
qed

lemma normalize_wildcardD:
  assumes "idna_measured idna" and "normalize_wildcard ip idna raw = Inr w"
  shows "host_ok w \<and> w \<notin> set BLOCKED_METADATA_HOSTS \<and> labels_ok w"
proof -
  from assms(2) obtain origin where o: "normalize_origin ip idna (drop_wildcard (lower_latin (strip raw))) = Inr origin"
    and w: "w = (if origin_host ip origin \<noteq> [] then origin_host ip origin else drop_wildcard (lower_latin (strip raw)))"
    by (auto simp: normalize_wildcard_def Let_def fallible_Inr)
  from o obtain scheme host port where "origin = origin_text scheme host port" "origin_parts_ok scheme host port" "labels_ok host"
    by (rule normalize_originD) (use assms(1) in blast)
  with w show ?thesis by (auto simp: origin_parts_ok_def origin_host_text host_ok_def)
qed

lemma wildcard_is_normal:
  assumes "idna_measured idna" and "normalize_wildcard ip idna raw = Inr w"
  shows "normalize_wildcard ip idna w = Inr w"
proof -
  have w: "host_ok w" "w \<notin> set BLOCKED_METADATA_HOSTS" "labels_ok w" using normalize_wildcardD [OF assms] by auto
  have c: "c \<in> set w \<Longrightarrow> \<not> latin_space c \<and> c \<noteq> CHR ''*''" for c
    using host_chars [OF w(1)] host_char_plain [of c] by (fastforce simp: latin_space_def Let_def host_char_def is_lower_def is_digit_def)
  have "strip w = w" by (rule strip_no_space) (use c in blast)
  moreover have "lower_latin w = w" by (rule lower_latin_id) (rule host_chars [OF w(1)])
  moreover have "drop_wildcard w = w"
    using c [of "hd w"] w(1) by (cases w) (auto simp: drop_wildcard_def starts_with_def host_ok_def)
  ultimately show ?thesis
    using w by (simp add: normalize_wildcard_def normalize_origin_host [OF w] origin_host_text host_ok_def [of w])
qed

lemma digit_no_space: "is_digit c \<Longrightarrow> \<not> latin_space c"
proof -
  assume "is_digit c"
  then have "48 \<le> (of_char c :: nat)" "(of_char c :: nat) \<le> 57" by (auto simp: is_digit_def less_eq_char_def)
  then show "\<not> latin_space c" by (simp add: latin_space_def Let_def)
qed

lemma nat_str_no_space: "c \<in> set (nat_str n) \<Longrightarrow> \<not> latin_space c"
  by (intro digit_no_space nat_str_is_digit)

lemma hex_str_no_space: "c \<in> set (hex_str n) \<Longrightarrow> \<not> latin_space c"
proof (induction n rule: hex_str.induct)
  case (1 n)
  have d: "d < 16 \<Longrightarrow> \<not> latin_space (hex_digit d)" for d
    by (auto simp: hex_digit_def latin_space_def Let_def of_char_of take_bit_eq_mod split: if_splits)
  with 1 d [of n] d [of "n mod 16"] show ?case by (cases "n < 16") (auto simp: hex_str.simps [of n])
qed

lemma join_chars: "c \<in> set (join_with sep xs) \<Longrightarrow> c \<in> set sep \<or> (\<exists>x \<in> set xs. c \<in> set x)"
  using set_join [of sep xs] by auto

lemma v4_text_no_space: "c \<in> set (v4_text n) \<Longrightarrow> \<not> latin_space c"
  unfolding v4_text_def
  by (drule join_chars) (auto simp: latin_space_def [of "CHR ''.''"] dest: nat_str_no_space)

lemma v6_text_no_space: "c \<in> set (v6_text n) \<Longrightarrow> \<not> latin_space c"
proof -
  have colon: "\<not> latin_space (CHR '':'')" by (simp add: latin_space_def)
  have j: "\<not> latin_space c" if "c \<in> set (join_with '':'' (map hex_str hs))" for c hs
    using join_chars [OF that]
  proof
    assume "c \<in> set '':''"
    with colon show ?thesis by simp
  qed (use hex_str_no_space in auto)
  have "\<not> latin_space c" if "c \<in> set (hextets_text hs)" for hs
  proof (cases "hs = []")
    case False
    then show ?thesis
    proof (cases rule: hextets_text_gap)
      case 1
      with that j show ?thesis by simp
    next
      case (2 A m B)
      with that have "c \<in> set (join_with '':'' (map hex_str A)) \<or> c = CHR '':'' \<or> c \<in> set (join_with '':'' (map hex_str B))"
        by auto
      with j colon show ?thesis by blast
    qed
  qed (use that in \<open>simp add: hextets_text_def zero_runs_def\<close>)
  then show "c \<in> set (v6_text n) \<Longrightarrow> \<not> latin_space c" by (simp add: v6_text_def)
qed

lemma v6_text_nonempty: "v6_text n \<noteq> []"
  using v6_text_colon [of n] by auto

lemma v4_text_nonempty: "v4_text n \<noteq> []"
proof
  have ds: "digits_of 256 4 n \<noteq> []" by (metis length_digits_of list.size(3) zero_neq_numeral)
  assume "v4_text n = []"
  moreover have "xs \<noteq> [] \<Longrightarrow> join_with ''.'' (map nat_str xs) \<noteq> []" for xs
    by (cases xs rule: list.exhaust; cases "tl xs") auto
  ultimately show False using ds by (auto simp: v4_text_def)
qed

lemma ip_text_hd: "ip_text a \<noteq> [] \<and> \<not> latin_space (hd (ip_text a))"
  using v4_text_no_space [OF hd_in_set [OF v4_text_nonempty]] v6_text_no_space [OF hd_in_set [OF v6_text_nonempty]]
  by (simp add: ip_text_def v4_text_nonempty v6_text_nonempty split: ip_addr.splits)

lemma zone_last: "ip_address s = Some (V6 n (Some z)) \<Longrightarrow> z \<noteq> [] \<and> last z = last s"
proof -
  assume r: "ip_address s = Some (V6 n (Some z))"
  obtain addr sep zone where p: "partition_at (CHR ''%'') s = (addr, sep, zone)" by (cases "partition_at (CHR ''%'') s")
  with r partition_at_parts [OF p] show ?thesis
    by (auto simp: ip_address_def parse_zoned_def split: if_splits option.splits)
qed

lemma strip_ip_text:
  assumes "ip_address s = Some a" and "\<not> latin_space (last s)"
  shows "strip (ip_text a) = ip_text a"
proof (rule strip_id, rule disjI2, rule conjI)
  show "\<not> latin_space (hd (ip_text a))" using ip_text_hd by blast
  show "\<not> latin_space (last (ip_text a))"
  proof (cases a)
    case (V4 n)
    then show ?thesis using v4_text_no_space [of "last (v4_text n)" n] by (simp add: ip_text_def v4_text_nonempty)
  next
    case (V6 n z)
    show ?thesis
    proof (cases z)
      case None
      with V6 show ?thesis
        using v6_text_no_space [of "last (v6_text n)" n] by (simp add: ip_text_def v6_text_nonempty)
    next
      case (Some t)
      with V6 assms zone_last [of s n t] show ?thesis by (simp add: ip_text_def)
    qed
  qed
qed

lemma strip_net_text: "strip (net_text w) = net_text w"
proof (rule strip_id, rule disjI2, rule conjI)
  show "\<not> latin_space (hd (net_text w))" using ip_text_hd [of "in_address w"] by (simp add: net_text_def)
  show "\<not> latin_space (last (net_text w))"
    using nat_str_no_space [OF last_in_set [OF nat_str_not_Nil]] by (simp add: net_text_def)
qed

lemma address_is_normal:
  assumes "normalize_address raw = Inr t"
  shows "normalize_address t = Inr t \<and> (CHR ''/'' \<in> set t \<longleftrightarrow> CHR ''/'' \<in> set (strip raw))"
proof (cases "CHR ''/'' \<in> set (strip raw)")
  case True
  with assms obtain w where w: "ip_network (strip raw) = Some w" "t = net_text w"
    "ip_text (in_address w) \<notin> set BLOCKED_METADATA_HOSTS" "\<not> net_link_local w"
    by (auto simp: normalize_address_def Let_def split: if_splits option.splits)
  have "ip_network (net_text w) = Some w" by (rule ip_network_text) (rule ip_networkD [OF w(1)])
  moreover have "CHR ''/'' \<in> set (net_text w)" "net_text w \<noteq> []" by (simp_all add: net_text_def)
  ultimately show ?thesis using True w by (simp add: normalize_address_def strip_net_text)
next
  case False
  with assms obtain a where a: "ip_address (strip raw) = Some a" "t = ip_text a" "strip raw \<noteq> []"
    "ip_text a \<notin> set BLOCKED_METADATA_HOSTS" "\<not> is_link_local a"
    by (auto simp: normalize_address_def Let_def split: if_splits option.splits)
  have ok: "addr_ok a" by (rule ip_addressD [OF a(1)])
  have st: "strip (ip_text a) = ip_text a" using strip_ip_text [OF a(1)] strip_ends [OF a(3)] by blast
  have "CHR ''/'' \<notin> set (ip_text a)" by (rule ip_text_no_slash [OF ok])
  moreover have "ip_text a \<noteq> []" using ip_text_hd by blast
  ultimately show ?thesis using False a st ip_address_text [OF ok] by (simp add: normalize_address_def)
qed


lemma traverse_fixed:
  "traverse f xs = Inr ys \<Longrightarrow> (\<And>x y. f x = Inr y \<Longrightarrow> f y = Inr y) \<Longrightarrow> traverse f ys = Inr ys"
  by (induction xs arbitrary: ys) (auto simp: fallible_Inr)

lemma traverse_nonempty: "traverse f xs = Inr ys \<Longrightarrow> ys = [] \<longleftrightarrow> xs = []"
  by (cases xs) (auto simp: fallible_Inr)

lemma traverse_list_all2: "traverse f xs = Inr ys \<Longrightarrow> list_all2 (\<lambda>x y. f x = Inr y) xs ys"
  by (induction xs arbitrary: ys) (auto simp: fallible_Inr)

lemma require_Inr [simp]: "require good code = Inr u \<longleftrightarrow> good"
  by (simp add: require_def)

lemma require_True [simp]: "require True code = Inr ()"
  by (simp add: require_def)

lemma dedupe_Inr: "dedupe xs = Inr ys \<longleftrightarrow> ys = xs \<and> distinct xs"
  by (auto simp: dedupe_def)

text \<open>Requests for the examples below, in a deployment where no bracketed and no non-ASCII host is read.\<close>

definition no_host :: "string \<Rightarrow> bool" where "no_host _ = False"
definition no_idna :: "string \<Rightarrow> string option" where "no_idna _ = None"

definition site_request :: "string list \<Rightarrow> target_create" where
  "site_request origins = \<lparr>tc_type = WEBSITE, tc_name = ''Site'', tc_environment = ''STAGING'', tc_owner = None,
     tc_reference = ''CHG-1'', tc_attested = True, tc_description = None, tc_origins = origins, tc_allowed = [],
     tc_excluded = [''/admin''], tc_wildcards = [''*.Corp.test''], tc_wildcard_authorized = True, tc_openapi = None,
     tc_credential = None, tc_addresses = [], tc_cidr_authorized = False\<rparr>"

definition site_scope :: normalized_scope where
  "site_scope = \<lparr>nm_origins = [''https://a.test'', ''http://b.test:8080''], nm_addresses = [], nm_wildcards = [''corp.test''],
     nm_allowed = [], nm_excluded = [''/admin''], nm_openapi = None\<rparr>"

lemma site_validates:
  "validate_and_normalize no_host no_idna (site_request ['' A.test:443'', ''HTTP://b.test:8080/'']) = Inr site_scope"
  by code_simp

lemma site_origins_again:
  assumes "idna_measured idna" and "site_origins ip idna c = Inr os"
  shows "site_origins ip idna (c\<lparr>tc_origins := os, tc_addresses := as, tc_wildcards := ws\<rparr>) = Inr os"
proof -
  from assms(2) have t: "traverse (normalize_origin ip idna) (tc_origins c) = Inr os" "distinct os" "tc_origins c \<noteq> []"
    by (auto simp: site_origins_def fallible_Inr dedupe_Inr)
  from t(1) have "traverse (normalize_origin ip idna) os = Inr os"
    by (rule traverse_fixed) (rule origin_is_normal [OF assms(1)])
  with t traverse_nonempty [OF t(1)] show ?thesis by (simp add: site_origins_def dedupe_def)
qed

lemma site_wildcards_again:
  assumes "idna_measured idna" and "site_wildcards ip idna c = Inr ws"
  shows "site_wildcards ip idna (c\<lparr>tc_origins := os, tc_addresses := as, tc_wildcards := ws\<rparr>) = Inr ws"
proof (cases "tc_wildcards c = []")
  case False
  with assms(2) have t: "traverse (normalize_wildcard ip idna) (tc_wildcards c) = Inr ws" "distinct ws" "tc_wildcard_authorized c"
    by (auto simp: site_wildcards_def fallible_Inr dedupe_Inr)
  from t(1) have "traverse (normalize_wildcard ip idna) ws = Inr ws"
    by (rule traverse_fixed) (rule wildcard_is_normal [OF assms(1)])
  with t show ?thesis by (simp add: site_wildcards_def dedupe_def)
qed (use assms(2) in \<open>simp add: site_wildcards_def\<close>)

lemma network_addresses_again:
  assumes "network_addresses c = Inr as"
  shows "network_addresses (c\<lparr>tc_origins := os, tc_addresses := as, tc_wildcards := ws\<rparr>) = Inr as"
proof -
  from assms have t: "traverse normalize_address (tc_addresses c) = Inr as" "distinct as" "tc_addresses c \<noteq> []"
    and cidr: "tc_cidr_authorized c \<or> list_all (\<lambda>a. CHR ''/'' \<notin> set a) (tc_addresses c)"
    by (auto simp: network_addresses_def fallible_Inr dedupe_Inr)
  from t(1) have "traverse normalize_address as = Inr as" by (rule traverse_fixed) (use address_is_normal in blast)
  moreover have "list_all2 (\<lambda>a t. CHR ''/'' \<in> set t \<longrightarrow> CHR ''/'' \<in> set a) (tc_addresses c) as"
    using traverse_list_all2 [OF t(1)]
    by (rule list_all2_mono) (use address_is_normal set_strip in blast)
  then have "list_all (\<lambda>a. CHR ''/'' \<notin> set a) (tc_addresses c) \<Longrightarrow> list_all (\<lambda>a. CHR ''/'' \<notin> set a) as"
    by (induction rule: list_all2_induct) auto
  ultimately show ?thesis using t cidr traverse_nonempty [OF t(1)] by (auto simp: network_addresses_def dedupe_def)
qed

text \<open>A stored scope is in normal form.  Submitting a validated request again with the origins,
  addresses and wildcards that were stored, as the console's edit form does, is accepted and stores the
  same scope.  \<open>idna_measured\<close> is what the standard library promises of an encoded host.\<close>

theorem stored_scope_is_normal:
  assumes "idna_measured idna" and "validate_and_normalize ip idna c = Inr n"
  shows "validate_and_normalize ip idna
    (c\<lparr>tc_origins := nm_origins n, tc_addresses := nm_addresses n, tc_wildcards := nm_wildcards n\<rparr>) = Inr n"
proof (cases "tc_type c = IP_CIDR")
  case True
  with assms(2) show ?thesis
    by (auto simp: validate_and_normalize_def fallible_Inr network_addresses_again)
next
  case False
  with assms(2) show ?thesis
    by (auto simp: validate_and_normalize_def fallible_Inr site_origins_again [OF assms(1)] site_wildcards_again [OF assms(1)])
qed

theorem stored_scope_is_normal_witness:
  "validate_and_normalize no_host no_idna
    ((site_request [])\<lparr>tc_origins := [''https://a.test'', ''http://b.test:8080''], tc_addresses := [],
       tc_wildcards := [''corp.test'']\<rparr>) = Inr site_scope"
proof -
  have "idna_measured no_idna" by (simp add: idna_measured_def no_idna_def)
  from stored_scope_is_normal [OF this site_validates] show ?thesis
    by (simp add: site_scope_def site_request_def)
qed

section \<open>An authorised URL\<close>

lemma cleared_base: "k dvd b \<Longrightarrow> 0 < k \<Longrightarrow> a div k * k = b \<longleftrightarrow> b \<le> a \<and> a < b + (k :: nat)"
proof -
  assume "k dvd b" and k: "0 < k"
  then obtain m where b: "b = m * k" by (auto simp: dvd_def mult.commute)
  have "a div k * k = m * k \<longleftrightarrow> a div k = m" using k by simp
  also have "\<dots> \<longleftrightarrow> m * k \<le> a \<and> a < m * k + k"
    using k by (metis add.commute div_nat_eqI dividend_less_times_div mult.commute mult_Suc times_div_less_eq_dividend)
  finally show ?thesis using b by simp
qed

lemma in_network_range:
  assumes "net_ok w"
  shows "in_network a w \<longleftrightarrow> addr_width a = addr_width (in_address w) \<and>
    addr_int (in_address w) \<le> addr_int a \<and> addr_int a \<le> addr_int (last_address w)"
proof (cases "addr_width a = addr_width (in_address w)")
  case True
  let ?k = "2 ^ (addr_width (in_address w) - in_prefix w) :: nat" and ?b = "addr_int (in_address w)"
  have d: "?k dvd ?b" and pos: "0 < ?k" using assms by (auto simp: net_ok_def)
  have last: "addr_int (last_address w) = ?b + ?k - 1"
    by (cases "in_address w") (simp_all add: last_address_def Let_def addr_int_def)
  have "in_network a w \<longleftrightarrow> addr_int a div ?k * ?k = ?b" using True by (simp add: in_network_def Let_def)
  also have "\<dots> \<longleftrightarrow> ?b \<le> addr_int a \<and> addr_int a < ?b + ?k" by (rule cleared_base [OF d pos])
  also have "\<dots> \<longleftrightarrow> ?b \<le> addr_int a \<and> addr_int a \<le> addr_int (last_address w)"
    unfolding last using pos by linarith
  finally show ?thesis using True by simp
qed (simp add: in_network_def)

lemma host_is_not_v6: "host_ok h \<Longrightarrow> ip_address h = Some a \<Longrightarrow> \<exists>m. a = V4 m \<and> parse_v4 h = Some m"
proof (cases "parse_v4 h")
  case None
  assume h: "host_ok h" "ip_address h = Some a"
  then have "CHR '':'' \<notin> set h" "CHR ''%'' \<notin> set h" using host_chars [OF h(1)] host_char_plain by force+
  then have "parse_zoned h = None"
    by (simp add: parse_zoned_def partition_at_none parse_v6_def split_on_none)
  with None h(2) show ?thesis by (simp add: ip_address_def split: if_splits)
qed (auto simp: ip_address_def split: if_splits)

definition covers :: "string \<Rightarrow> string \<Rightarrow> nat \<Rightarrow> bool" where
  "covers entry host m \<longleftrightarrow> entry = host \<or>
     (\<exists>w. ip_network entry = Some w \<and> addr_width (in_address w) = 32 \<and>
       addr_int (in_address w) \<le> m \<and> m \<le> addr_int (last_address w))"

lemma in_entry_covers:
  assumes "in_entry (V4 m) entry" and "parse_v4 host = Some m"
  shows "covers entry host m"
proof (cases "CHR ''/'' \<in> set entry")
  case True
  with assms(1) obtain w where w: "ip_network entry = Some w" "in_network (V4 m) w"
    by (auto simp: in_entry_def split: option.splits)
  with in_network_range [OF ip_networkD [OF w(1)], of "V4 m"] show ?thesis
    by (auto simp: covers_def addr_width_def addr_int_def)
next
  case False
  with assms(1) have "ip_address entry = Some (V4 m)" by (simp add: in_entry_def)
  then have "parse_v4 entry = Some m"
    by (auto simp: ip_address_def parse_zoned_def split: if_splits option.splits prod.splits)
  with assms(2) parse_v4_canonical(1) show ?thesis unfolding covers_def by blast
qed

definition host_in_scope :: "normalized_scope \<Rightarrow> string \<Rightarrow> string \<Rightarrow> bool" where
  "host_in_scope n origin host \<longleftrightarrow>
     origin \<in> set (nm_origins n) \<or> (\<exists>w \<in> set (nm_wildcards n). host = w \<or> (\<exists>sub. host = sub @ ''.'' @ w)) \<or>
     (\<exists>m. parse_v4 host = Some m \<and> (\<exists>entry \<in> set (nm_addresses n). covers entry host m))"

lemma ends_with_append: "ends_with suffix s \<Longrightarrow> \<exists>p. s = p @ suffix"
  unfolding ends_with_def by (metis append_take_drop_id)

text \<open>C25: A URL is authorised only inside the stored scope.  What is returned is the normal form of its own
  scheme, host and port; the host is an onboarded origin, a
  wildcard domain or a name below one, or an IPv4 address numerically inside an onboarded network; it is
  never a metadata host; no excluded prefix starts its path, and an allowed one does where there are any.\<close>

theorem authorized_url_is_confined:
  assumes "authorize_url_against_target ip idna n url = Inr origin"
  shows "\<exists>scheme host port u.
    origin = origin_text scheme host port \<and> origin_parts_ok scheme host port \<and> host_in_scope n origin host \<and>
    urlsplit ip (with_scheme url) = Some u \<and> url_origin ip idna u = Inr origin \<and>
    (let path = (if us_path u = [] then ''/'' else us_path u) in
      \<not> list_ex (\<lambda>p. starts_with p path) (nm_excluded n) \<and>
      (nm_allowed n = [] \<or> list_ex (\<lambda>p. starts_with p path) (nm_allowed n)))"
proof -
  from assms obtain u where u: "urlsplit ip (with_scheme url) = Some u" "url_origin ip idna u = Inr origin"
    and scope: "origin \<in> set (nm_origins n) \<or> list_ex (below_wildcard (origin_host ip origin)) (nm_wildcards n) \<or>
      host_in_addresses (origin_host ip origin) (nm_addresses n)"
    and path: "\<not> list_ex (\<lambda>p. starts_with p (if us_path u = [] then ''/'' else us_path u)) (nm_excluded n)"
      "nm_allowed n = [] \<or> list_ex (\<lambda>p. starts_with p (if us_path u = [] then ''/'' else us_path u)) (nm_allowed n)"
    unfolding authorize_url_against_target_def Let_def by (auto simp: fallible_Inr split: option.splits if_splits)
  from u(2) obtain scheme host port where o: "origin = origin_text scheme host port" "origin_parts_ok scheme host port"
    unfolding url_origin_def by (rule normalize_originD) blast
  then have host: "origin_host ip origin = host" "host_ok host" by (auto simp: origin_parts_ok_def origin_host_text)
  have "host_in_scope n origin host"
    using scope
  proof (elim disjE)
    assume "list_ex (below_wildcard (origin_host ip origin)) (nm_wildcards n)"
    then obtain w where w: "w \<in> set (nm_wildcards n)" "host = w \<or> ends_with (CHR ''.'' # w) host"
      by (auto simp: host list_ex_iff below_wildcard_def)
    have "host = w \<or> (\<exists>sub. host = sub @ ''.'' @ w)" using w(2)
    proof
      assume "ends_with (CHR ''.'' # w) host"
      from ends_with_append [OF this] show ?thesis by simp
    qed simp
    with w(1) show ?thesis unfolding host_in_scope_def by blast
  next
    assume "host_in_addresses (origin_host ip origin) (nm_addresses n)"
    then obtain a entry where a: "ip_address host = Some a" "entry \<in> set (nm_addresses n)" "in_entry a entry"
      by (auto simp: host host_in_addresses_def list_ex_iff split: option.splits)
    obtain m where m: "a = V4 m" "parse_v4 host = Some m" using host_is_not_v6 [OF host(2) a(1)] by blast
    with a(3) in_entry_covers have "covers entry host m" by blast
    with m(2) a(2) show ?thesis unfolding host_in_scope_def by blast
  qed (simp add: host_in_scope_def)
  with o u path show ?thesis unfolding Let_def by blast
qed


theorem authorized_url_is_confined_witness:
  "authorize_url_against_target no_host no_idna site_scope ''HTTPS://x.corp.test/login?next=1'' = Inr ''https://x.corp.test'' \<and>
   (\<exists>scheme host port. ''https://x.corp.test'' = origin_text scheme host port \<and> host_in_scope site_scope ''https://x.corp.test'' host)"
proof
  show run: "authorize_url_against_target no_host no_idna site_scope ''HTTPS://x.corp.test/login?next=1'' = Inr ''https://x.corp.test''"
    by code_simp
  show "\<exists>scheme host port. ''https://x.corp.test'' = origin_text scheme host port \<and> host_in_scope site_scope ''https://x.corp.test'' host"
    using authorized_url_is_confined [OF run] by blast
qed

text \<open>Corners of the scope rules.  A network around a metadata address, a metadata address with a zone and
  a metadata host with a final dot are accepted.\<close>

lemma metadata_behind_other_texts:
  "normalize_address ''100.100.100.0/24'' = Inr ''100.100.100.0/24''"
  "normalize_address ''fd00:ec2::254%eth0'' = Inr ''fd00:ec2::254%eth0''"
  "normalize_origin no_host no_idna ''http://169.254.169.254.'' = Inr ''http://169.254.169.254.''"
  by code_simp+

text \<open>The codes for a forbidden network are raised under the handler that replaces them, and a port out of
  range leaves as the \<open>ValueError\<close> of the standard library.\<close>

lemma lost_error_codes:
  "normalize_address ''169.254.169.254/32'' = Inl (Invalid ''MALFORMED_ADDRESS'')"
  "normalize_origin no_host no_idna ''http://a.test:99999'' = Inl Plain_Value_Error"
  by code_simp+

text \<open>An excluded prefix is compared with the text of the path.\<close>

lemma excluded_path_by_another_name:
  "authorize_url_against_target no_host no_idna site_scope ''https://a.test/admin'' = Inl (Invalid ''PATH_EXCLUDED_FROM_SCOPE'')"
  "authorize_url_against_target no_host no_idna site_scope ''https://a.test//admin'' = Inr ''https://a.test''"
  "authorize_url_against_target no_host no_idna site_scope ''https://a.test/x/../admin'' = Inr ''https://a.test''"
  by code_simp+

text \<open>An IPv6 address can be onboarded, but no URL of it is authorised.\<close>

lemma onboarded_ipv6_is_out_of_reach:
  "normalize_address ''2001:DB8:0::1'' = Inr ''2001:db8::1''"
  "authorize_url_against_target (\<lambda>_. True) no_idna (site_scope\<lparr>nm_addresses := [''2001:db8::1'']\<rparr>) ''http://[2001:db8::1]/''
     = Inl (Invalid ''MALFORMED_HOST'')"
  by code_simp+

section \<open>The store\<close>

datatype target_op =
    Create string string "string option" target_create
  | Update string string "string option" target_create
  | Disable string string
  | Enable string string
  | Delete string
  | Assessed string string string

definition target_step ::
  "(string \<Rightarrow> bool) \<Rightarrow> (string \<Rightarrow> string option) \<Rightarrow> target_op \<Rightarrow> target_table \<Rightarrow> target_table" where
  "target_step ip idna x db = (case x of
       Create i now operator c \<Rightarrow> snd (create_target ip idna i now operator c db)
     | Update i now operator c \<Rightarrow> snd (update_scope ip idna now i operator c db)
     | Disable i now \<Rightarrow> snd (set_enabled now i False db)
     | Enable i now \<Rightarrow> snd (set_enabled now i True db)
     | Delete i \<Rightarrow> snd (delete_target i db)
     | Assessed i now saved \<Rightarrow> snd (mark_assessed now saved i db))"

definition apart :: "target_table \<Rightarrow> bool" where
  "apart db \<longleftrightarrow> (\<forall>(i, t) \<in> set db. \<forall>(j, u) \<in> set db.
     i \<noteq> j \<and> tr_enabled t \<and> tr_enabled u \<longrightarrow> scope_keys t \<inter> scope_keys u = {})"

definition inventory_ok :: "target_table \<Rightarrow> bool" where
  "inventory_ok db \<longleftrightarrow> distinct (map fst db) \<and> (\<forall>(i, t) \<in> set db. tr_id t = i) \<and> apart db"

definition free_for :: "target_table \<Rightarrow> string \<Rightarrow> target_record \<Rightarrow> bool" where
  "free_for db i t \<longleftrightarrow> (\<forall>(j, u) \<in> set db. j \<noteq> i \<and> tr_enabled t \<and> tr_enabled u \<longrightarrow> scope_keys u \<inter> scope_keys t = {})"

lemma not_duplicated:
  assumes "inventory_ok db" and "\<not> duplicates_scope db (Some i) t"
  shows "free_for db i t"
  unfolding free_for_def
proof (clarify)
  fix j u assume u: "(j, u) \<in> set db" "j \<noteq> i" "tr_enabled u"
  then have "u \<in> set (list_targets db)" by (force simp: list_targets_def)
  moreover have "tr_id u = j" using assms(1) u(1) by (auto simp: inventory_ok_def)
  ultimately show "scope_keys u \<inter> scope_keys t = {}"
    using assms(2) u by (auto simp: duplicates_scope_def list_ex_iff)
qed

lemma not_duplicated_new: "inventory_ok db \<Longrightarrow> \<not> duplicates_scope db None t \<Longrightarrow> free_for db i t"
  by (rule not_duplicated) (auto simp: duplicates_scope_def list_ex_iff)

lemma inventory_okI:
  assumes "distinct (map fst db)" and "\<And>i t. (i, t) \<in> set db \<Longrightarrow> tr_id t = i"
    and "\<And>i t j u. (i, t) \<in> set db \<Longrightarrow> (j, u) \<in> set db \<Longrightarrow> i \<noteq> j \<Longrightarrow> tr_enabled t \<Longrightarrow> tr_enabled u \<Longrightarrow>
      scope_keys t \<inter> scope_keys u = {}"
  shows "inventory_ok db"
  unfolding inventory_ok_def apart_def using assms by (intro conjI ballI) (simp, fastforce, fastforce)

lemma apartD: "inventory_ok db \<Longrightarrow> (i, t) \<in> set db \<Longrightarrow> (j, u) \<in> set db \<Longrightarrow> i \<noteq> j \<Longrightarrow> tr_enabled t \<Longrightarrow>
    tr_enabled u \<Longrightarrow> scope_keys t \<inter> scope_keys u = {}"
  unfolding inventory_ok_def apart_def by blast

lemma free_forD: "free_for db i t \<Longrightarrow> (j, u) \<in> set db \<Longrightarrow> j \<noteq> i \<Longrightarrow> tr_enabled t \<Longrightarrow> tr_enabled u \<Longrightarrow>
    scope_keys u \<inter> scope_keys t = {}"
  unfolding free_for_def by blast

lemma row_id: "inventory_ok db \<Longrightarrow> (i, t) \<in> set db \<Longrightarrow> tr_id t = i"
  unfolding inventory_ok_def by blast

lemma inventory_insert:
  assumes ok: "inventory_ok db" and new: "i \<notin> set (map fst db)" "tr_id t = i" and free: "free_for db i t"
  shows "inventory_ok (db @ [(i, t)])"
proof (rule inventory_okI)
  show "distinct (map fst (db @ [(i, t)]))" using ok new by (simp add: inventory_ok_def)
  show "tr_id u = j" if "(j, u) \<in> set (db @ [(i, t)])" for j u using that new(2) row_id [OF ok] by auto
  show "scope_keys u \<inter> scope_keys v = {}"
    if r: "(j, u) \<in> set (db @ [(i, t)])" "(k, v) \<in> set (db @ [(i, t)])" "j \<noteq> k" "tr_enabled u" "tr_enabled v" for j u k v
  proof -
    consider "(j, u) \<in> set db" "(k, v) \<in> set db" | "(j, u) \<in> set db" "k = i" "v = t" | "(k, v) \<in> set db" "j = i" "u = t"
      using r(1-3) by auto
    then show ?thesis
    proof cases
      case 1
      then show ?thesis using apartD [OF ok] r(3-5) by blast
    next
      case 2
      then show ?thesis using free_forD [OF free] r(3-5) by blast
    next
      case 3
      then show ?thesis using free_forD [OF free] r(3-5) by blast
    qed
  qed
qed

lemma inventory_filter: "inventory_ok db \<Longrightarrow> inventory_ok (filter P db)"
proof (rule inventory_okI)
  assume ok: "inventory_ok db"
  then show "distinct (map fst (filter P db))" by (simp add: inventory_ok_def distinct_map_filter)
  show "tr_id t = i" if "(i, t) \<in> set (filter P db)" for i t using that row_id [OF ok] by auto
  show "scope_keys t \<inter> scope_keys u = {}"
    if "(i, t) \<in> set (filter P db)" "(j, u) \<in> set (filter P db)" "i \<noteq> j" "tr_enabled t" "tr_enabled u" for i t j u
    using apartD [OF ok _ _ that(3-5)] that(1,2) by (simp only: set_filter mem_Collect_eq)
qed

lemma row_updated: "(j, u) \<in> set (map (\<lambda>(k, old). (k, if k = i then t else old)) db) \<Longrightarrow>
    j = i \<and> u = t \<or> j \<noteq> i \<and> (j, u) \<in> set db"
  by (auto split: if_splits)

lemma inventory_save:
  assumes ok: "inventory_ok db" and "tr_id t = i" and free: "free_for db i t"
  shows "inventory_ok (map (\<lambda>(k, old). (k, if k = i then t else old)) db)"
proof (rule inventory_okI)
  let ?db = "map (\<lambda>(k, old). (k, if k = i then t else old)) db"
  have "map fst ?db = map fst db" by (simp add: case_prod_beta comp_def)
  then show "distinct (map fst ?db)" using ok by (simp only: inventory_ok_def)
  show "tr_id u = j" if "(j, u) \<in> set ?db" for j u
    using row_updated [OF that] assms(2) row_id [OF ok] by blast
  show "scope_keys u \<inter> scope_keys v = {}"
    if r: "(j, u) \<in> set ?db" "(k, v) \<in> set ?db" "j \<noteq> k" "tr_enabled u" "tr_enabled v" for j u k v
  proof -
    consider "(j, u) \<in> set db" "(k, v) \<in> set db" | "(j, u) \<in> set db" "j \<noteq> i" "v = t" | "(k, v) \<in> set db" "k \<noteq> i" "u = t"
      using row_updated [OF r(1)] row_updated [OF r(2)] r(3) by blast
    then show ?thesis
    proof cases
      case 1
      then show ?thesis using apartD [OF ok] r(3-5) by blast
    next
      case 2
      then show ?thesis using free_forD [OF free] r(4,5) by blast
    next
      case 3
      then show ?thesis using free_forD [OF free] r(4,5) by blast
    qed
  qed
qed

lemma save_keeps:
  assumes "inventory_ok db" and "tr_id t = i" and "free_for db i t"
  shows "inventory_ok (snd (save_target now t db))"
  using inventory_save [of db "t\<lparr>tr_updated := now\<rparr>" i] assms
  by (simp add: save_target_def Let_def free_for_def scope_keys_def)

lemma save_then: "snd (bindE (save_target now t) (\<lambda>x. retE (f x)) db) = snd (save_target now t db)"
  by (simp add: save_target_def Let_def bindE_run)

lemma stored_is_free:
  assumes "inventory_ok db" and "get_target db i = Some t" and "tr_enabled u \<Longrightarrow> tr_enabled t"
    and "tr_scope u = tr_scope t"
  shows "free_for db i u"
proof -
  have "(i, t) \<in> set db" using assms(2) by (simp add: get_target_def map_of_SomeD)
  then have "scope_keys v \<inter> scope_keys u = {}" if "(j, v) \<in> set db" "j \<noteq> i" "tr_enabled u" "tr_enabled v" for j v
    using apartD [OF assms(1) that(1) _ that(2)] that(3,4) assms(3,4) by (simp add: scope_keys_def)
  then show ?thesis unfolding free_for_def by blast
qed

lemma stored_id: "inventory_ok db \<Longrightarrow> get_target db i = Some t \<Longrightarrow> tr_id t = i"
  by (auto simp: inventory_ok_def get_target_def dest: map_of_SomeD)

lemma create_keeps: "inventory_ok db \<Longrightarrow> inventory_ok (snd (create_target ip idna i now operator c db))"
proof (cases "validate_and_normalize ip idna c")
  case (Inr n)
  assume ok: "inventory_ok db"
  let ?t = "record_for i now operator c n"
  show ?thesis
  proof (cases "duplicates_scope db None ?t \<or> i \<in> set (map fst db)")
    case False
    with inventory_insert [OF ok _ _ not_duplicated_new [OF ok], of i ?t] Inr show ?thesis
      by (simp add: create_target_def checked_def Let_def record_for_def bindE_run rejectE_run)
  qed (use ok Inr in \<open>auto simp: create_target_def checked_def Let_def bindE_run rejectE_run\<close>)
qed (simp add: create_target_def checked_def bindE_run)

lemma update_keeps: "inventory_ok db \<Longrightarrow> inventory_ok (snd (update_scope ip idna now i operator c db))"
proof (cases "get_target db i")
  case (Some t)
  assume ok: "inventory_ok db"
  show ?thesis
  proof (cases "validate_and_normalize ip idna c")
    case (Inr n)
    let ?t = "updated_record operator c n t"
    have id: "tr_id ?t = i" using stored_id [OF ok Some] by (simp add: updated_record_def)
    show ?thesis
    proof (cases "duplicates_scope db (Some i) ?t")
      case False
      with save_keeps [OF ok id not_duplicated [OF ok], of now] Inr Some show ?thesis
        by (simp add: update_scope_def checked_def Let_def bindE_run [of "getE _"] save_then)
    qed (use ok Inr Some in \<open>simp add: update_scope_def checked_def Let_def bindE_run rejectE_run\<close>)
  qed (use ok Some in \<open>simp add: update_scope_def checked_def bindE_run\<close>)
qed (simp add: update_scope_def bindE_run)

lemma disable_keeps: "inventory_ok db \<Longrightarrow> inventory_ok (snd (set_enabled now i False db))"
proof (cases "get_target db i")
  case (Some t)
  assume ok: "inventory_ok db"
  have "free_for db i (t\<lparr>tr_enabled := False\<rparr>)" by (simp add: free_for_def)
  with save_keeps [OF ok _ this, of now] stored_id [OF ok Some] Some show ?thesis
    by (simp add: set_enabled_def bindE_run [of "getE _"] save_then)
qed (simp add: set_enabled_def bindE_run)

lemma assessed_keeps: "inventory_ok db \<Longrightarrow> inventory_ok (snd (mark_assessed now saved i db))"
proof (cases "get_target db i")
  case (Some t)
  assume ok: "inventory_ok db"
  have "free_for db i (t\<lparr>tr_assessed := Some now\<rparr>)" using ok Some by (rule stored_is_free) simp_all
  with save_keeps [OF ok _ this, of saved] stored_id [OF ok Some] Some show ?thesis
    by (simp add: mark_assessed_def bindE_run [of "getE _"] save_then [where f = "\<lambda>_. ()"])
qed (simp add: mark_assessed_def bindE_run)

lemma delete_keeps: "inventory_ok db \<Longrightarrow> inventory_ok (snd (delete_target i db))"
  by (cases "get_target db i") (simp_all add: delete_target_def bindE_run inventory_filter)

text \<open>A history without an \<open>Enable\<close> is one of steps that keep the invariant.\<close>

definition enables :: "target_op \<Rightarrow> bool" where
  "enables x = (case x of Enable _ _ \<Rightarrow> True | _ \<Rightarrow> False)"

definition kept_step ::
  "(string \<Rightarrow> bool) \<Rightarrow> (string \<Rightarrow> string option) \<Rightarrow> target_op \<Rightarrow> target_table \<Rightarrow> target_table" where
  "kept_step ip idna x db = (if enables x then db else target_step ip idna x db)"

interpretation inventory: invariant_system "\<lambda>db. db = []" "kept_step ip idna" inventory_ok
proof
  show "db = [] \<Longrightarrow> inventory_ok db" for db by (simp add: inventory_ok_def apart_def)
  show "inventory_ok db \<Longrightarrow> inventory_ok (kept_step ip idna x db)" for db x
    by (cases x) (simp_all add: kept_step_def enables_def target_step_def create_keeps update_keeps disable_keeps
        delete_keeps assessed_keeps)
qed

lemma kept_history: "list_all (\<lambda>x. \<not> enables x) xs \<Longrightarrow>
    fold (target_step ip idna) xs db = fold (kept_step ip idna) xs db"
  by (induction xs arbitrary: db) (simp_all add: kept_step_def)

text \<open>As long as no disabled target is enabled again, no two enabled targets ever share an origin or
  an address, whatever is created, edited, disabled, deleted or assessed in between.\<close>

theorem enabled_scopes_stay_apart:
  assumes "list_all (\<lambda>x. \<not> enables x) history"
    and "(i, t) \<in> set (fold (target_step ip idna) history [])"
    and "(j, u) \<in> set (fold (target_step ip idna) history [])"
    and "tr_enabled t" and "tr_enabled u" and "scope_keys t \<inter> scope_keys u \<noteq> {}"
  shows "i = j \<and> t = u"
proof -
  have "inventory_ok (fold (target_step ip idna) history [])"
    unfolding kept_history [OF assms(1)] by (rule inventory.inv_reachable) simp
  then have d: "distinct (map fst (fold (target_step ip idna) history []))" and a: "apart (fold (target_step ip idna) history [])"
    by (simp_all add: inventory_ok_def)
  have "i = j" using a assms(2-6) unfolding apart_def by blast
  with d assms(2,3) show ?thesis by (auto dest: eq_key_imp_eq_value)
qed


definition onboarding :: "target_op list" where
  "onboarding =
     [Create ''tgt-1'' ''2026-01-01'' None (site_request [''a.test'']),
      Create ''tgt-2'' ''2026-01-02'' None (site_request [''a.test'']),
      Create ''tgt-3'' ''2026-01-03'' None (site_request [''c.test'']),
      Update ''tgt-3'' ''2026-01-04'' None (site_request [''https://A.test''])]"

theorem enabled_scopes_stay_apart_witness:
  "\<exists>t. (''tgt-1'', t) \<in> set (fold (target_step no_host no_idna) onboarding []) \<and> tr_enabled t \<and>
    (\<forall>j u. (j, u) \<in> set (fold (target_step no_host no_idna) onboarding []) \<and> tr_enabled u \<and>
       scope_keys t \<inter> scope_keys u \<noteq> {} \<longrightarrow> ''tgt-1'' = j \<and> t = u)"
proof -
  have "list_ex (\<lambda>(i, t). i = ''tgt-1'' \<and> tr_enabled t) (fold (target_step no_host no_idna) onboarding [])" by code_simp
  then obtain t where "(''tgt-1'', t) \<in> set (fold (target_step no_host no_idna) onboarding [])" "tr_enabled t"
    by (auto simp: list_ex_iff)
  moreover have "list_all (\<lambda>x. \<not> enables x) onboarding" by (simp add: onboarding_def enables_def)
  ultimately show ?thesis using enabled_scopes_stay_apart [of onboarding] by blast
qed

text \<open>Enabling a target again does not look for targets that took its scope meanwhile.\<close>

lemma reenabled_target_overlaps:
  "let db = fold (target_step no_host no_idna)
      [Create ''tgt-1'' ''1'' None (site_request [''a.test'']), Disable ''tgt-1'' ''2'',
       Create ''tgt-2'' ''3'' None (site_request [''a.test'']), Enable ''tgt-1'' ''4''] []
   in map (\<lambda>(i, t). (i, tr_enabled t, nm_origins (tr_scope t))) db =
     [(''tgt-1'', True, [''https://a.test'']), (''tgt-2'', True, [''https://a.test''])]"
  by code_simp

end
