(* ===== verification/Spec2Isabelle.thy ===== *)
theory Spec2Isabelle
  imports Prelude Assessment Controller Ledger_Contract Lifecycle Dispatch
    Lifecycle_Props Unicode Json Sha256 Lease Admission
    Admission_Props Lease_Store Web Json_Values Regex Guard
    Guard_Props Agent_Budget Agent_Budget_Props Agent_Roles Broker Broker_Props
    Delegation Engine_Catalog Engine_Policy Engine_Props Projection Projection_Props
    Projection_Active Safety Probe_Verifiers Probe_Props Lab_Verifier Report
    Report_Props Zap_Report Active_Report Nuclei_Report Process_Lifecycle Candidates
    Candidate_Props Native_Executor Native_Scan Native_Scan_Props Retest_Props Ip_Address
    Target_Inventory Target_Props
begin

text \<open>
  Aegis is a controller for authorised security scans. Untrusted parts (language models, scanning
  engines, the scanned application) propose and report; the controller decides. This development
  models the deciding parts of \<open>src/src/\<close> and proves what they promise.

  \<^bold>\<open>Parts and theories.\<close>

  \<^item> \<open>Prelude\<close>, \<open>Unicode\<close>, \<open>Json\<close>, \<open>Json_Values\<close>, \<open>Regex\<close>, \<open>Sha256\<close>, \<open>Web\<close>: the Python the code is
    written in. A method that may raise is a state-passing \<open>prog\<close> returning \<open>Inl\<close> the exception or
    \<open>Inr\<close> the value; a pure function that may raise returns a sum. \<open>str\<close> over bytes, \<open>json\<close>, \<open>re\<close>,
    \<open>hashlib\<close>, \<open>hmac\<close>, \<open>base64\<close> and \<open>urllib.parse\<close> are defined, not assumed.
  \<^item> \<open>Assessment\<close>, \<open>Controller\<close>, \<open>Ledger_Contract\<close>, \<open>Lifecycle\<close>, \<open>Dispatch\<close>, \<open>Lifecycle_Props\<close>:
    \<open>aegis/multi_agent/lifecycle.py\<close>, the SQLite ledger of an assessment (one record field per table)
    and the controller that runs its stages.
  \<^item> \<open>Lease\<close>, \<open>Admission\<close>, \<open>Admission_Props\<close>, \<open>Lease_Store\<close>: the signed activation lease
    (\<open>aegis_zap_active/lease.py\<close>), the registry that makes it single-use
    (\<open>zap_active_admission/registry.py\<close>) and the controller's store (\<open>aegis/zap_active_lease.py\<close>).
  \<^item> \<open>Guard\<close>, \<open>Guard_Props\<close>: the network guard between the scanner and its target
    (\<open>zap_guard/guard.py\<close>), both HTTP handlers and the whole of its state.
  \<^item> \<open>Agent_Budget\<close>, \<open>Agent_Budget_Props\<close>, \<open>Agent_Roles\<close>, \<open>Broker\<close>, \<open>Broker_Props\<close>, \<open>Delegation\<close>:
    budgets, role and capability registries, the tool broker, delegation queue and chain plans of
    \<open>aegis/multi_agent/\<close> (and \<open>aegis/budget.py\<close>, \<open>aegis_range/inventory.py\<close>).
  \<^item> \<open>Engine_Catalog\<close>, \<open>Engine_Policy\<close>, \<open>Engine_Props\<close>: \<open>aegis/engine/\<close> (catalog, job policy, finding
    lifecycle).
  \<^item> \<open>Projection\<close>, \<open>Projection_Props\<close>, \<open>Projection_Active\<close>: the ZAP target inventories and the
    projections of an OpenAPI source onto approved operations (\<open>aegis_zap/\<close> and
    \<open>aegis_zap_active/\<close>, \<open>inventory.py\<close> and \<open>projection.py\<close>).
  \<^item> \<open>Safety\<close>, \<open>Probe_Verifiers\<close>, \<open>Probe_Props\<close>, \<open>Lab_Verifier\<close>: the lab surface, the safety
    controller and the deterministic verifiers (\<open>aegis/surface.py\<close>, \<open>safety.py\<close>, \<open>zap_verifier.py\<close>,
    \<open>scm_verifier.py\<close>, \<open>zap_active_verifier.py\<close>, \<open>verifier.py\<close>, \<open>aegis_nuclei/targets.py\<close>).
  \<^item> \<open>Report\<close>, \<open>Report_Props\<close>, \<open>Zap_Report\<close>, \<open>Active_Report\<close>, \<open>Nuclei_Report\<close>: the parsers of the
    scanners' untrusted reports (\<open>aegis_zap/\<close>, \<open>aegis_zap_active/\<close> and \<open>aegis_nuclei/parser.py\<close>).
  \<^item> \<open>Process_Lifecycle\<close>: admission and draining of background work, as a step relation over the event
    loop's interleavings (\<open>aegis/process_lifecycle.py\<close>).
  \<^item> \<open>Candidates\<close>, \<open>Candidate_Props\<close>: what may be tested. The scenario projections, the planning context,
    blockers and preflight, validation of the candidates a model proposes, their execution queue and
    the compiler of read-only probes (\<open>aegis/candidates.py\<close>, \<open>scenarios.py\<close>, \<open>registry.py\<close>, the reference
    planner of \<open>planner.py\<close>).
  \<^item> \<open>Native_Executor\<close>: redaction, one read with a test credential, and the adapter of the native
    engine (\<open>aegis/executor.py\<close>, \<open>http.py\<close>, \<open>engine/adapters.py\<close>).
  \<^item> \<open>Native_Scan\<close>, \<open>Native_Scan_Props\<close>, \<open>Retest_Props\<close>: the scan itself, from \<open>create\<close> to its terminal state:
    import, preflight, discovery, admission, execution through the engine kernel, verification after every
    read, and the linked retest (\<open>aegis/service.py\<close>). It calls nearly every other part.
  \<^item> \<open>Ip_Address\<close>, \<open>Target_Inventory\<close>, \<open>Target_Props\<close>: the operator's target inventory, that is the
    normalisation of an onboarding request, the scope check of a URL and the store
    (\<open>aegis/target_inventory.py\<close>), over the part of \<open>ipaddress\<close> it calls.
  \<^bold>\<open>How the parts interact.\<close> The engine policy turns an approved proposal into a job; an active job
  needs a lease, issued by the store and consumed once by the registry; the runner reaches its
  target only through the guard, armed with the lease's scope and deadline; what the runner reports
  becomes a finding only through the lifecycle of \<open>Engine_Policy\<close>, on the verdict of a verifier that
  sends its own requests through the safety controller. Agents act through the broker, which charges
  the budgets before every request; the assessment controller records every stage before and after
  its external effect. A definition of one part is used by another wherever the code does so.

  \<^bold>\<open>States and operations.\<close> A class is a record with one field per attribute (tables are association
  lists in row order), a method a definition of the same name. Guards, early returns and exceptions
  follow the code branch by branch; error codes are constructors or the strings the code raises.

  \<^bold>\<open>Groups of lemmas.\<close> \<open>pres\<close> and \<open>trip\<close> hold one preservation rule per program construct and
  operation, \<open>projected\<close> the inversions of a fallible step; \<open>keep\<close>, \<open>ret\<close>, \<open>sent\<close> and \<open>fueled\<close> the rules of the scan
  (what a step keeps, what its answer is, what it sends, that it does not run out of fuel). The interfaces are locales:
  \<open>invariant_system\<close> (an invariant of a state machine, interpreted for the registry, its nonces, the
  lease store, the guard, the budgets, the broker, the delegation queue and the target inventory), \<open>table\<close> (insert-or-replace
  tables), \<open>spend_counter\<close> (one dimension of a budget), \<open>ledger_contract\<close> (a property every ledger
  transaction keeps is kept by every controller call, interpreted for the transition log, the budget,
  the stage order, kept rows and final states)and \<open>approver\<close>
  (what the safety controller approves stays in the lab and on the fixed surface of an inventory, interpreted for the three probing verifiers), \<open>confined_reader\<close> and \<open>blind_reader\<close>
  (what an instance of a report may enter, and that its prose has no influence, interpreted for the report parsers). Each property is proved from the interpretation's
  facts and stated over the code's definitions, with a witness at concrete inputs.

  \<^bold>\<open>Bounds and fuel.\<close> The JSON reader takes twice the length of the text as fuel; of two nested calls at
  least one reads a character, so it never runs out. A process may die between two database
  transactions or file writes: the ledger carries the number of transactions still committed
  (\<open>writes_left\<close>) and the registry's disk an outcome per write (lost, torn, kept, or kept with the call failing), from the first one on; all are
  universally quantified. The loop of a
  scan has one round of fuel more than its iteration budget: every round but the last spends one
  iteration, and \<open>scan_loop_ends\<close> shows that the fuel never runs out.

  \<^bold>\<open>Parameters.\<close> Clocks, random tokens and generated identifiers are arguments. So are the answers of the
  network (\<open>http\<close>), the address parser behind bracketed hosts (\<open>ip\<close>), how CPython prints a float
  (\<open>flt\<close>), the digest where only its being a function matters (\<open>sha\<close>), executors and dispatchers of
  stages, Unicode's word characters and digits outside ASCII (\<open>alnum\<close>, \<open>udigit\<close>), the origin of a URI with a
  non-ASCII authority (\<open>foreign\<close>), the encoding of a host outside ASCII (\<open>idna\<close>), and checked-in files (\<open>files\<close>). A scan takes its surroundings as one
  record, the \<open>world\<close>: target, clock, planner, fresh identifiers, digest and decoders of foreign charsets,
  each an arbitrary function of what the scan has sent or asked so far.
  Calls are sequential: the locks of the code make each method atomic, which is what is modelled.

  \<^bold>\<open>Not modelled.\<close> The capability scans of the service, the HTTP API and its storage, provider clients and prompts, the console, reporting,
  live campaign drivers and scripts, container control, logging and metrics, and the fixture
  applications: I/O around the parts above, or projections of their state. Within the modelled
  parts, log output, console projections, measured durations, the details of audit events and
  the detail texts of rejections are left out; texts a model or a target writes are sequences of characters
  below 256 where they are not decoded from UTF-8, and so is
  the interpreter's limits on recursion and on the digits of an integer. PROJECT.json lists every part with its status.

  \<^bold>\<open>Plan.\<close> Modelled first was what a wrong decision would cost most: the assessment ledger, leases, guard and
  broker, then projections, verifiers and report parsers, then the scan that ties them together. Left: the
  capability scans that drive the Nuclei and ZAP runners, the active scan controller, staging and
  remediation stores, the run ledger and the bodies of the agent workflows.
\<close>

end
